(* ===== verification/Prelude.thy ===== *)
theory Prelude
  imports Main "HOL-Library.Multiset"
begin

text \<open>
  Shared vocabulary of the development: the errors the code throws, the truthiness idioms
  of the source (\<open>a || b\<close>, \<open>a ?? b\<close>), and the list idioms every store uses (update the
  element with a given key, drop it, find it, sort stably, keep first occurrences).

  A JavaScript value that may be \<open>null\<close> or \<open>undefined\<close> is an \<open>option\<close>.
  Numbers are \<open>int\<close>: the code only adds, compares and prints them.
\<close>

named_theorems keyed_simps \<open>facts on updating and dropping list elements by key\<close>
named_theorems step_intros \<open>introduction rules of the step relations\<close>

subsection \<open>Errors\<close>

datatype channel = ServerChannel | LocalAgentChannel

datatype exn =
    Err string
  | ChannelUnavailableError channel string "int option"
  | AbortError

fun exn_message :: "exn \<Rightarrow> string" where
  "exn_message (Err m) = m"
| "exn_message (ChannelUnavailableError c m st) = m"
| "exn_message AbortError = ''Aborted''"

fun exn_status :: "exn \<Rightarrow> int option" where
  "exn_status (ChannelUnavailableError c m st) = st"
| "exn_status _ = None"

text \<open>The outcome of an awaited call: the value it resolves to, or the error it throws.\<close>

type_synonym 'a res = "exn + 'a"

fun bind_res :: "'a res \<Rightarrow> ('a \<Rightarrow> 'b res) \<Rightarrow> 'b res" where
  "bind_res (Inl e) f = Inl e"
| "bind_res (Inr x) f = f x"

subsection \<open>Truthiness\<close>

definition or_str :: "string \<Rightarrow> string \<Rightarrow> string" where
  "or_str a b = (if a = [] then b else a)"

definition opt_str :: "string option \<Rightarrow> string" where
  "opt_str o1 = (case o1 of None \<Rightarrow> [] | Some s \<Rightarrow> s)"

definition truthy :: "string option \<Rightarrow> bool" where
  "truthy o1 \<longleftrightarrow> opt_str o1 \<noteq> []"

definition or_opt :: "string option \<Rightarrow> string \<Rightarrow> string" where
  "or_opt o1 b = or_str (opt_str o1) b"

definition nullish :: "'a option \<Rightarrow> 'a \<Rightarrow> 'a" where
  "nullish o1 d = (case o1 of None \<Rightarrow> d | Some x \<Rightarrow> x)"

lemma nullish_simps [simp]: "nullish None d = d" "nullish (Some x) d = x"
  by (simp_all add: nullish_def)

lemma opt_str_simps [simp]: "opt_str None = []" "opt_str (Some s) = s"
  by (simp_all add: opt_str_def)

lemma or_str_simps [simp]: "or_str [] b = b" "a \<noteq> [] \<Longrightarrow> or_str a b = a"
  by (simp_all add: or_str_def)

lemma truthy_simps [simp]: "truthy None = False" "truthy (Some s) = (s \<noteq> [])"
  by (simp_all add: truthy_def)

subsection \<open>Lists updated by key\<close>

text \<open>\<open>xs.map(x => key(x) === k ? f(x) : x)\<close> and \<open>xs.filter(x => key(x) !== k)\<close>.\<close>

definition upd_where :: "('a \<Rightarrow> bool) \<Rightarrow> ('a \<Rightarrow> 'a) \<Rightarrow> 'a list \<Rightarrow> 'a list" where
  "upd_where p f xs = map (\<lambda>x. if p x then f x else x) xs"

abbreviation upd_key :: "('a \<Rightarrow> 'k) \<Rightarrow> 'k \<Rightarrow> ('a \<Rightarrow> 'a) \<Rightarrow> 'a list \<Rightarrow> 'a list" where
  "upd_key key k f xs \<equiv> upd_where (\<lambda>x. key x = k) f xs"

definition drop_key :: "('a \<Rightarrow> 'k) \<Rightarrow> 'k \<Rightarrow> 'a list \<Rightarrow> 'a list" where
  "drop_key key k xs = filter (\<lambda>x. key x \<noteq> k) xs"

definition find_key :: "('a \<Rightarrow> 'k) \<Rightarrow> 'k \<Rightarrow> 'a list \<Rightarrow> 'a option" where
  "find_key key k xs = List.find (\<lambda>x. key x = k) xs"

text \<open>The search from the end: \<open>[...xs].reverse().find(p)\<close>.\<close>

definition find_last :: "('a \<Rightarrow> bool) \<Rightarrow> 'a list \<Rightarrow> 'a option" where
  "find_last p xs = List.find p (rev xs)"

lemma upd_where_simps [simp]:
  "upd_where p f [] = []"
  "upd_where p f (x # xs) = (if p x then f x else x) # upd_where p f xs"
  by (simp_all add: upd_where_def)

lemma upd_where_append [simp]:
  "upd_where p f (xs @ ys) = upd_where p f xs @ upd_where p f ys"
  by (simp add: upd_where_def)

lemma length_upd_where [simp]: "length (upd_where p f xs) = length xs"
  by (simp add: upd_where_def)

lemma upd_where_nop [keyed_simps]: "(\<And>x. x \<in> set xs \<Longrightarrow> \<not> p x) \<Longrightarrow> upd_where p f xs = xs"
  by (induction xs) auto

lemma set_upd_where: "y \<in> set (upd_where p f xs) \<Longrightarrow> y \<in> set xs \<or> (\<exists>x\<in>set xs. p x \<and> y = f x)"
  by (induction xs) (auto split: if_splits)

lemma map_upd_key [keyed_simps]:
  "(\<And>x. key x = k \<Longrightarrow> key (f x) = k) \<Longrightarrow> map key (upd_key key k f xs) = map key xs"
  by (induction xs) auto

lemma upd_where_upd_where:
  "(\<And>x. p x \<Longrightarrow> p (f x)) \<Longrightarrow> upd_where p g (upd_where p f xs) = upd_where p (g \<circ> f) xs"
  by (induction xs) auto

lemma set_drop_key [simp]: "set (drop_key key k xs) = {x \<in> set xs. key x \<noteq> k}"
  by (auto simp: drop_key_def)

lemma drop_key_simps [simp]:
  "drop_key key k [] = []"
  "drop_key key k (x # xs) = (if key x = k then drop_key key k xs else x # drop_key key k xs)"
  by (simp_all add: drop_key_def)

lemma map_drop_key [keyed_simps]: "map key (drop_key key k xs) = filter (\<lambda>j. j \<noteq> k) (map key xs)"
  by (induction xs) auto

lemma distinct_drop_key [keyed_simps]:
  "distinct (map key xs) \<Longrightarrow> distinct (map key (drop_key key k xs))"
  by (simp add: map_drop_key)

lemma find_key_Some: "find_key key k xs = Some x \<Longrightarrow> x \<in> set xs \<and> key x = k"
  by (auto simp: find_key_def find_Some_iff)

lemma find_key_None: "find_key key k xs = None \<longleftrightarrow> k \<notin> key ` set xs"
  by (auto simp: find_key_def find_None_iff)

lemma find_key_unique [keyed_simps]:
  "distinct (map key xs) \<Longrightarrow> x \<in> set xs \<Longrightarrow> find_key key (key x) xs = Some x"
  by (induction xs) (auto simp: find_key_def)

lemma find_last_Some: "find_last p xs = Some x \<Longrightarrow> x \<in> set xs \<and> p x"
  by (auto simp: find_last_def find_Some_iff) (metis nth_mem rev_nth length_rev set_rev)

lemma find_last_None: "find_last p xs = None \<longleftrightarrow> (\<forall>x\<in>set xs. \<not> p x)"
  by (auto simp: find_last_def find_None_iff)

lemma find_split:
  "List.find p xs = Some x \<longleftrightarrow> (\<exists>a b. xs = a @ x # b \<and> p x \<and> (\<forall>y\<in>set a. \<not> p y))"
proof (induction xs)
  case (Cons z xs)
  show ?case
  proof (cases "p z")
    case True
    then show ?thesis by (auto simp: Cons_eq_append_conv)
  next
    case False
    with Cons show ?thesis
      by (auto simp: Cons_eq_append_conv) (metis set_ConsD)
  qed
qed simp

lemma find_key_split:
  "find_key key k xs = Some x \<longleftrightarrow> (\<exists>a b. xs = a @ x # b \<and> key x = k \<and> (\<forall>y\<in>set a. key y \<noteq> k))"
  by (simp add: find_key_def find_split)

lemma find_last_split:
  "find_last p xs = Some x \<longleftrightarrow> (\<exists>a b. xs = a @ x # b \<and> p x \<and> (\<forall>y\<in>set b. \<not> p y))"
proof -
  have "(\<exists>a b. rev xs = a @ x # b \<and> p x \<and> (\<forall>y\<in>set a. \<not> p y)) \<longleftrightarrow>
        (\<exists>a b. xs = a @ x # b \<and> p x \<and> (\<forall>y\<in>set b. \<not> p y))" (is "?l = ?r")
  proof
    assume ?l
    then obtain a b where "rev xs = a @ x # b" "p x" "\<forall>y\<in>set a. \<not> p y" by blast
    then have "xs = rev b @ x # rev a" by (metis append.assoc append_Cons append_Nil rev.simps(2) rev_append rev_rev_ident)
    with \<open>p x\<close> \<open>\<forall>y\<in>set a. \<not> p y\<close> show ?r by (metis set_rev)
  next
    assume ?r
    then obtain a b where "xs = a @ x # b" "p x" "\<forall>y\<in>set b. \<not> p y" by blast
    then have "rev xs = rev b @ x # rev a" by simp
    with \<open>p x\<close> \<open>\<forall>y\<in>set b. \<not> p y\<close> show ?l by (metis set_rev)
  qed
  then show ?thesis by (simp add: find_last_def find_split)
qed

subsection \<open>Keeping first occurrences, stable sorting\<close>

text \<open>\<open>[...new Set(xs)]\<close> keeps the first occurrence of every element.\<close>

fun uniq_acc :: "'a list \<Rightarrow> 'a list \<Rightarrow> 'a list" where
  "uniq_acc seen [] = []"
| "uniq_acc seen (x # xs) =
     (if x \<in> set seen then uniq_acc seen xs else x # uniq_acc (x # seen) xs)"

definition uniq :: "'a list \<Rightarrow> 'a list" where
  "uniq xs = uniq_acc [] xs"

lemma set_uniq_acc: "set (uniq_acc seen xs) = set xs - set seen"
  by (induction seen xs rule: uniq_acc.induct) auto

lemma distinct_uniq_acc: "distinct (uniq_acc seen xs)"
  by (induction seen xs rule: uniq_acc.induct) (auto simp: set_uniq_acc)

lemma uniq_acc_id: "distinct xs \<Longrightarrow> set xs \<inter> set seen = {} \<Longrightarrow> uniq_acc seen xs = xs"
  by (induction seen xs rule: uniq_acc.induct) auto

lemma set_uniq [simp]: "set (uniq xs) = set xs"
  by (simp add: uniq_def set_uniq_acc)

lemma distinct_uniq [simp]: "distinct (uniq xs)"
  by (simp add: uniq_def distinct_uniq_acc)

lemma uniq_id: "distinct xs \<Longrightarrow> uniq xs = xs"
  by (simp add: uniq_def uniq_acc_id)

text \<open>\<open>xs.sort((l, r) => key(r) - key(l))\<close>: JavaScript's sort is stable, and so is \<open>sort_key\<close>.\<close>

definition sort_desc :: "('a \<Rightarrow> int) \<Rightarrow> 'a list \<Rightarrow> 'a list" where
  "sort_desc key xs = sort_key (\<lambda>x. - key x) xs"

lemma set_sort_desc [simp]: "set (sort_desc key xs) = set xs"
  by (simp add: sort_desc_def)

lemma length_sort_desc [simp]: "length (sort_desc key xs) = length xs"
  by (simp add: sort_desc_def)

lemma mset_sort_desc [simp]: "mset (sort_desc key xs) = mset xs"
  by (simp add: sort_desc_def)

lemma distinct_map_sort_desc: "distinct (map f (sort_desc key xs)) = distinct (map f xs)"
  by (metis mset_map mset_sort_desc mset_eq_imp_distinct_iff)

lemma sorted_sort_desc: "sorted_wrt (\<lambda>x y. key y \<le> key x) (sort_desc key xs)"
proof -
  have "sorted (map (\<lambda>x. - key x) (sort_desc key xs))"
    by (simp add: sort_desc_def)
  then show ?thesis
    by (simp add: sorted_map)
qed

end
