(* ===== verification/JsText.thy ===== *)
theory JsText
  imports Prelude "HOL-Library.Word"
begin

text \<open>
  JavaScript strings. A value of type \<open>string\<close> is the sequence of UTF-8 bytes of a
  well-formed JavaScript string (one without lone surrogates), so that the percent encoding
  of \<open>encodeURIComponent\<close> and the whitespace of \<open>trim\<close> are modelled exactly.
  The functions of the language that the source calls are written out here: \<open>trim\<close>,
  \<open>startsWith\<close>, \<open>split\<close>, \<open>join\<close>, \<open>includes\<close>, \<open>slice(0, n)\<close>
  (counting UTF-16 units), \<open>toLowerCase\<close> (on ASCII letters), decimal printing,
  \<open>encodeURIComponent\<close> and \<open>decodeURIComponent\<close>.
\<close>

abbreviation byte :: "char \<Rightarrow> nat" where
  "byte c \<equiv> of_char c"

abbreviation chr :: "nat \<Rightarrow> char" where
  "chr n \<equiv> char_of n"

subsection \<open>Prefixes, splitting and joining\<close>

fun starts_with :: "string \<Rightarrow> string \<Rightarrow> bool" where
  "starts_with [] s = True"
| "starts_with (p # ps) [] = False"
| "starts_with (p # ps) (c # cs) = (p = c \<and> starts_with ps cs)"

fun strip_prefix :: "string \<Rightarrow> string \<Rightarrow> string option" where
  "strip_prefix [] s = Some s"
| "strip_prefix (p # ps) [] = None"
| "strip_prefix (p # ps) (c # cs) = (if p = c then strip_prefix ps cs else None)"

fun includes_str :: "string \<Rightarrow> string \<Rightarrow> bool" where
  "includes_str p [] = (p = [])"
| "includes_str p (c # cs) = (starts_with p (c # cs) \<or> includes_str p cs)"

definition ends_with :: "string \<Rightarrow> string \<Rightarrow> bool" where
  "ends_with p s = starts_with (rev p) (rev s)"

fun split_on :: "char \<Rightarrow> string \<Rightarrow> string list" where
  "split_on d [] = [[]]"
| "split_on d (c # cs) =
     (if c = d then [] # split_on d cs
      else case split_on d cs of [] \<Rightarrow> [[c]] | w # ws \<Rightarrow> (c # w) # ws)"

fun join_with :: "string \<Rightarrow> string list \<Rightarrow> string" where
  "join_with d [] = []"
| "join_with d [w] = w"
| "join_with d (w # ws) = w @ d @ join_with d ws"

lemma starts_with_append [simp]: "starts_with p (p @ s)"
  by (induction p) auto

lemma starts_with_iff: "starts_with p s \<longleftrightarrow> (\<exists>r. s = p @ r)"
  by (induction p s rule: starts_with.induct) auto

lemma strip_prefix_append [simp]: "strip_prefix p (p @ s) = Some s"
  by (induction p) auto

lemma strip_prefix_Some: "strip_prefix p s = Some r \<longleftrightarrow> s = p @ r"
  by (induction p s rule: strip_prefix.induct) auto

lemma includes_str_iff: "includes_str p s \<longleftrightarrow> (\<exists>a b. s = a @ p @ b)"
proof (induction s)
  case Nil
  then show ?case by simp
next
  case step: (Cons c cs)
  show ?case
  proof
    assume "includes_str p (c # cs)"
    then consider (h) "starts_with p (c # cs)" | (t) "includes_str p cs" by auto
    then show "\<exists>a b. c # cs = a @ p @ b"
    proof cases
      case h
      then show ?thesis by (metis append_Nil starts_with_iff)
    next
      case t
      then show ?thesis by (metis step.IH append_Cons)
    qed
  next
    assume "\<exists>a b. c # cs = a @ p @ b"
    then obtain a b where ab: "c # cs = a @ p @ b" by blast
    show "includes_str p (c # cs)"
    proof (cases a)
      case Nil
      with ab have "starts_with p (c # cs)" by (simp add: starts_with_iff)
      then show ?thesis by simp
    next
      case (Cons x xs)
      with ab have "cs = xs @ p @ b" by simp
      then have "includes_str p cs" using step.IH by blast
      then show ?thesis by simp
    qed
  qed
qed

lemma split_on_not_Nil [simp]: "split_on d s \<noteq> []"
  by (induction s) (auto split: list.splits)

lemma split_on_no_delim: "d \<notin> set s \<Longrightarrow> split_on d s = [s]"
  by (induction s) auto

lemma split_on_append: "d \<notin> set w \<Longrightarrow> split_on d (w @ d # s) = w # split_on d s"
  by (induction w) auto

lemma split_on_parts: "w \<in> set (split_on d s) \<Longrightarrow> d \<notin> set w"
  by (induction s arbitrary: w) (auto split: if_splits list.splits)

lemma split_join:
  "ws \<noteq> [] \<Longrightarrow> (\<And>w. w \<in> set ws \<Longrightarrow> d \<notin> set w) \<Longrightarrow> split_on d (join_with [d] ws) = ws"
  by (induction ws rule: induct_list012) (auto simp: split_on_no_delim split_on_append)

lemma join_split: "join_with [d] (split_on d s) = s"
proof (induction s)
  case Nil
  then show ?case by simp
next
  case (Cons c s)
  then show ?case
    by (cases "split_on d s" rule: remdups_adj.cases) (auto split: list.splits)
qed

subsection \<open>Whitespace\<close>

text \<open>The white space and line terminators of ECMAScript as UTF-8 byte sequences.\<close>

definition ws_seqs :: "string list" where
  "ws_seqs =
     map (map chr)
       ([[9], [10], [11], [12], [13], [32], [0xC2, 0xA0], [0xE1, 0x9A, 0x80],
         [0xE2, 0x80, 0xA8], [0xE2, 0x80, 0xA9], [0xE2, 0x80, 0xAF], [0xE2, 0x81, 0x9F],
         [0xE3, 0x80, 0x80], [0xEF, 0xBB, 0xBF]]
        @ map (\<lambda>k. [0xE2, 0x80, k]) [0x80, 0x81, 0x82, 0x83, 0x84, 0x85, 0x86, 0x87, 0x88, 0x89, 0x8A])"

fun strip_any :: "string list \<Rightarrow> string \<Rightarrow> string option" where
  "strip_any [] s = None"
| "strip_any (p # ps) s = (case strip_prefix p s of Some r \<Rightarrow> Some r | None \<Rightarrow> strip_any ps s)"

lemma strip_any_Some:
  "strip_any ps s = Some r \<Longrightarrow> \<exists>p\<in>set ps. s = p @ r"
  by (induction ps) (auto split: option.splits simp: strip_prefix_Some)

lemma ws_seqs_nonempty: "p \<in> set ws_seqs \<Longrightarrow> p \<noteq> []"
  by (auto simp: ws_seqs_def)

lemma strip_any_shorter: "strip_any ws_seqs s = Some r \<Longrightarrow> length r < length s"
  using strip_any_Some ws_seqs_nonempty by fastforce

lemma strip_any_rev_shorter: "strip_any (map rev ws_seqs) s = Some r \<Longrightarrow> length r < length s"
  using strip_any_Some [of "map rev ws_seqs" s r] ws_seqs_nonempty by fastforce

function trim_start :: "string \<Rightarrow> string" where
  "trim_start s = (case strip_any ws_seqs s of None \<Rightarrow> s | Some r \<Rightarrow> trim_start r)"
  by pat_completeness auto
termination
  by (relation "measure length") (auto dest: strip_any_shorter)

function trim_rev :: "string \<Rightarrow> string" where
  "trim_rev s = (case strip_any (map rev ws_seqs) s of None \<Rightarrow> s | Some r \<Rightarrow> trim_rev r)"
  by pat_completeness auto
termination
  by (relation "measure length") (auto dest: strip_any_rev_shorter)

declare trim_start.simps [simp del] trim_rev.simps [simp del]

definition trim :: "string \<Rightarrow> string" where
  "trim s = rev (trim_rev (rev (trim_start s)))"

lemma trim_start_suffix: "\<exists>p. s = p @ trim_start s"
proof (induction s rule: trim_start.induct)
  case (1 s)
  show ?case
  proof (cases "strip_any ws_seqs s")
    case None
    then show ?thesis by (simp add: trim_start.simps [of s])
  next
    case (Some r)
    then obtain p where "s = p @ r" using strip_any_Some by blast
    moreover obtain q where "r = q @ trim_start r" using "1.IH" [OF Some] by blast
    moreover have "trim_start s = trim_start r" using Some by (simp add: trim_start.simps [of s])
    ultimately have "s = (p @ q) @ trim_start s" by simp
    then show ?thesis by blast
  qed
qed

lemma trim_rev_suffix: "\<exists>p. s = p @ trim_rev s"
proof (induction s rule: trim_rev.induct)
  case (1 s)
  show ?case
  proof (cases "strip_any (map rev ws_seqs) s")
    case None
    then show ?thesis by (simp add: trim_rev.simps [of s])
  next
    case (Some r)
    then obtain p where "s = p @ r" using strip_any_Some by blast
    moreover obtain q where "r = q @ trim_rev r" using "1.IH" [OF Some] by blast
    moreover have "trim_rev s = trim_rev r" using Some by (simp add: trim_rev.simps [of s])
    ultimately have "s = (p @ q) @ trim_rev s" by simp
    then show ?thesis by blast
  qed
qed

lemma trim_infix: "\<exists>a b. s = a @ trim s @ b"
proof -
  obtain a where a: "s = a @ trim_start s" using trim_start_suffix by blast
  obtain b where "rev (trim_start s) = b @ trim_rev (rev (trim_start s))"
    using trim_rev_suffix by blast
  then have "trim_start s = trim s @ rev b"
    unfolding trim_def by (metis rev_append rev_rev_ident)
  with a show ?thesis by (metis append.assoc)
qed

lemma length_trim: "length (trim s) \<le> length s"
proof -
  obtain a b where "s = a @ trim s @ b" using trim_infix by blast
  then have "length s = length a + length (trim s) + length b"
    by (metis length_append add.assoc)
  then show ?thesis by simp
qed

lemma set_trim: "set (trim s) \<subseteq> set s"
proof -
  obtain a b where "s = a @ trim s @ b" using trim_infix by blast
  then have "set s = set a \<union> set (trim s) \<union> set b"
    by (metis set_append sup_assoc)
  then show ?thesis by blast
qed

text \<open>A string that neither starts nor ends with white space is unchanged.\<close>

lemma trim_id:
  "strip_any ws_seqs s = None \<Longrightarrow> strip_any (map rev ws_seqs) (rev s) = None \<Longrightarrow> trim s = s"
  by (simp add: trim_def trim_start.simps [of s] trim_rev.simps [of "rev s"])

lemma ws_bytes: "p \<in> set ws_seqs \<Longrightarrow> byte (hd p) \<notin> {33..<128} \<and> byte (last p) \<notin> {33..<128}"
  by (auto simp: ws_seqs_def)

lemma strip_any_other_head:
  assumes "\<And>p. p \<in> set ps \<Longrightarrow> p \<noteq> [] \<and> hd p \<noteq> hd s" "s \<noteq> []"
  shows "strip_any ps s = None"
proof (rule ccontr)
  assume "strip_any ps s \<noteq> None"
  then obtain r where "strip_any ps s = Some r" by blast
  then obtain p where "p \<in> set ps" "s = p @ r" using strip_any_Some by blast
  then show False using assms(1) [of p] by (auto simp: hd_append)
qed

text \<open>A string that starts and ends with a printable ASCII character is unchanged.\<close>

lemma trim_plain:
  assumes "s \<noteq> []" "byte (hd s) \<in> {33..<128}" "byte (last s) \<in> {33..<128}"
  shows "trim s = s"
proof (rule trim_id)
  have "hd p \<noteq> hd s \<and> last p \<noteq> last s" if "p \<in> set ws_seqs" for p
    using ws_bytes [OF that] assms(2, 3) by metis
  then show "strip_any ws_seqs s = None" "strip_any (map rev ws_seqs) (rev s) = None"
    using assms(1) ws_seqs_nonempty by (force intro!: strip_any_other_head simp: hd_rev)+
qed

lemma trim_Nil [simp]: "trim [] = []"
  using length_trim [of "[]"] by simp

subsection \<open>slice, lower case, decimal printing\<close>

text \<open>
  The UTF-16 units of the code point that a byte starts: 2 for a four-byte sequence, 0 for a
  continuation byte, 1 otherwise.
\<close>

definition utf16_units :: "char \<Rightarrow> nat" where
  "utf16_units c = (if 0xF0 \<le> byte c then 2 else if 0x80 \<le> byte c \<and> byte c < 0xC0 then 0 else 1)"

fun slice_units :: "nat \<Rightarrow> string \<Rightarrow> string" where
  "slice_units n [] = []"
| "slice_units n (c # cs) =
     (if utf16_units c \<le> n then c # slice_units (n - utf16_units c) cs else [])"

definition length_units :: "string \<Rightarrow> nat" where
  "length_units s = sum_list (map utf16_units s)"

lemma length_units_simps [simp]:
  "length_units [] = 0" "length_units (c # cs) = utf16_units c + length_units cs"
  by (simp_all add: length_units_def)

lemma slice_units_bound: "length_units (slice_units n s) \<le> n"
  by (induction n s rule: slice_units.induct) auto

lemma slice_units_id: "length_units s \<le> n \<Longrightarrow> slice_units n s = s"
  by (induction n s rule: slice_units.induct) auto

lemma slice_units_prefix: "\<exists>r. s = slice_units n s @ r"
  by (induction n s rule: slice_units.induct) auto

definition lower_char :: "char \<Rightarrow> char" where
  "lower_char c = (if 65 \<le> byte c \<and> byte c < 91 then chr (byte c + 32) else c)"

definition lower :: "string \<Rightarrow> string" where
  "lower s = map lower_char s"

fun dec_nat :: "nat \<Rightarrow> string" where
  "dec_nat n = (if n < 10 then [chr (48 + n)] else dec_nat (n div 10) @ [chr (48 + n mod 10)])"

declare dec_nat.simps [simp del]

definition dec_int :: "int \<Rightarrow> string" where
  "dec_int i = (if i < 0 then chr 45 # dec_nat (nat (- i)) else dec_nat (nat i))"

lemma dec_nat_digits: "c \<in> set (dec_nat n) \<Longrightarrow> 48 \<le> byte c \<and> byte c < 58"
proof (induction n rule: dec_nat.induct)
  case (1 n)
  show ?case
  proof (cases "n < 10")
    case True
    with "1.prems" show ?thesis by (simp add: dec_nat.simps [of n])
  next
    case False
    with "1.prems" "1.IH" show ?thesis by (auto simp: dec_nat.simps [of n])
  qed
qed

text \<open>\<open>String(n).padStart(2, '0')\<close>\<close>

definition pad2 :: "nat \<Rightarrow> string" where
  "pad2 n = (if n < 10 then chr 48 # dec_nat n else dec_nat n)"

text \<open>\<open>String(error)\<close>: the error's name and message.\<close>

fun exn_string :: "exn \<Rightarrow> string" where
  "exn_string (Err m) = ''Error: '' @ m"
| "exn_string (ChannelUnavailableError c m st) = ''ChannelUnavailableError: '' @ m"
| "exn_string AbortError = ''AbortError: Aborted''"

end
