(* ===== verification/JsValue.thy ===== *)
theory JsValue
  imports JsText
begin

text \<open>
  JSON values as \<open>JSON.parse\<close> and \<open>response.json()\<close> give them, plus \<open>undefined\<close>
  (a missing property). A numeral too large for a double parses to an infinity, which
  \<open>Number.isFinite\<close> rejects: \<open>JNonFinite\<close>. An object is the list of its own properties.
  A field the TypeScript types declare as a string but that holds another JSON type is read
  as absent (\<open>jstr\<close>); subtrees the code only copies stay \<open>json\<close>.
\<close>

datatype json =
    JUndef
  | JNull
  | JBool bool
  | JNum int
  | JNonFinite
  | JStr string
  | JArr "json list"
  | JObj "(string \<times> json) list"

fun jget :: "string \<Rightarrow> json \<Rightarrow> json" where
  "jget k (JObj ps) = (case map_of ps k of None \<Rightarrow> JUndef | Some v \<Rightarrow> v)"
| "jget k _ = JUndef"

fun jstr :: "json \<Rightarrow> string option" where
  "jstr (JStr s) = Some s"
| "jstr _ = None"

fun jint :: "json \<Rightarrow> int option" where
  "jint (JNum n) = Some n"
| "jint _ = None"

fun jarr :: "json \<Rightarrow> json list option" where
  "jarr (JArr xs) = Some xs"
| "jarr _ = None"

fun is_record :: "json \<Rightarrow> bool" where
  "is_record (JObj ps) = True"
| "is_record _ = False"

fun is_nullish :: "json \<Rightarrow> bool" where
  "is_nullish JUndef = True"
| "is_nullish JNull = True"
| "is_nullish _ = False"

text \<open>Truthiness of a JSON value: \<open>Boolean(v)\<close>.\<close>

fun jtruthy :: "json \<Rightarrow> bool" where
  "jtruthy JUndef = False"
| "jtruthy JNull = False"
| "jtruthy (JBool b) = b"
| "jtruthy (JNum n) = (n \<noteq> 0)"
| "jtruthy JNonFinite = True"
| "jtruthy (JStr s) = (s \<noteq> [])"
| "jtruthy (JArr xs) = True"
| "jtruthy (JObj ps) = True"

definition is_str :: "json \<Rightarrow> bool" where
  "is_str v \<longleftrightarrow> jstr v \<noteq> None"

definition is_finite :: "json \<Rightarrow> bool" where
  "is_finite v \<longleftrightarrow> jint v \<noteq> None"

definition is_arr :: "json \<Rightarrow> bool" where
  "is_arr v \<longleftrightarrow> jarr v \<noteq> None"

definition jstr_d :: "json \<Rightarrow> string" where
  "jstr_d v = opt_str (jstr v)"

definition jint_d :: "json \<Rightarrow> int" where
  "jint_d v = nullish (jint v) 0"

definition jarr_d :: "json \<Rightarrow> json list" where
  "jarr_d v = nullish (jarr v) []"

lemma is_str_iff: "is_str v \<longleftrightarrow> (\<exists>s. v = JStr s)"
  by (cases v) (auto simp: is_str_def)

lemma is_finite_iff: "is_finite v \<longleftrightarrow> (\<exists>n. v = JNum n)"
  by (cases v) (auto simp: is_finite_def)

lemma is_arr_iff: "is_arr v \<longleftrightarrow> (\<exists>xs. v = JArr xs)"
  by (cases v) (auto simp: is_arr_def)

lemma jread_simps [simp]:
  "jstr_d (JStr s) = s" "jint_d (JNum n) = n" "jarr_d (JArr xs) = xs"
  by (simp_all add: jstr_d_def jint_d_def jarr_d_def)

text \<open>\<open>{ ...o, k: v }\<close> on an object.\<close>

definition jset :: "string \<Rightarrow> json \<Rightarrow> (string \<times> json) list \<Rightarrow> (string \<times> json) list" where
  "jset k v ps =
     (if k \<in> fst ` set ps then map (\<lambda>p. if fst p = k then (k, v) else p) ps else ps @ [(k, v)])"

lemma jget_jset_same [simp]: "jget k (JObj (jset k v ps)) = v"
proof -
  have "map_of (map (\<lambda>p. if fst p = k then (k, v) else p) ps) k = Some v"
    if "k \<in> fst ` set ps"
    using that by (induction ps) auto
  moreover have "map_of (ps @ [(k, v)]) k = Some v" if "k \<notin> fst ` set ps"
    using that by (simp add: map_of_eq_None_iff [THEN iffD2] map_add_def)
  ultimately show ?thesis by (simp add: jset_def)
qed

lemma jget_jset_other [simp]: "j \<noteq> k \<Longrightarrow> jget j (JObj (jset k v ps)) = jget j (JObj ps)"
proof -
  assume "j \<noteq> k"
  then have "map_of (map (\<lambda>p. if fst p = k then (k, v) else p) ps) j = map_of ps j"
    by (induction ps) auto
  moreover from \<open>j \<noteq> k\<close> have "map_of (ps @ [(k, v)]) j = map_of ps j"
    by (simp add: map_add_def split: option.splits)
  ultimately show ?thesis by (simp add: jset_def)
qed

end
