(* ===== verification/ChatTypes.thy ===== *)
theory ChatTypes
  imports JsValue
begin

text \<open>
  The data of the chat and run protocol (\<open>src/src/lib/types.ts\<close>): run statuses, runs, the
  SSE event union, trace items and chat messages. Fields keep the order of the source and
  carry a prefix, since record fields share one name space; \<open>?\<close> and \<open>null\<close> are \<open>option\<close>.
  Subtrees the chat code only copies (plan items, questions, answers, usage details) stay
  \<open>json\<close>.
\<close>

subsection \<open>Runs\<close>

datatype run_status =
    RDraft | RPlanning | RWaitingApproval | RPaused | RAccepted
  | RQueued | RLeased | RRunning | RWaitingUser | RRecoverable
  | RCompleted | RSucceeded | RFailed | RCancelled

datatype run_mode = ModeAsk | ModePlan | ModeExec

record run_queue_context =
  qc_reason :: string
  qc_message :: string
  qc_blocking_run :: "json option"

record agent_run =
  ar_id :: string
  ar_session_id :: string
  ar_owner_id :: string
  ar_project_id :: "string option"
  ar_work_item_id :: "string option"
  ar_mode :: run_mode
  ar_status :: run_status
  ar_workspace :: string
  ar_idempotency_key :: "string option"
  ar_retry_of :: "string option"
  ar_model_ref :: "string option"
  ar_model_id :: "string option"
  ar_model_snapshot :: json
  ar_request_snapshot :: json
  ar_plan :: "json list"
  ar_plan_version :: int
  ar_permission_snapshot :: json
  ar_checkpoint :: json
  ar_error_code :: "string option"
  ar_error_message :: "string option"
  ar_lease_epoch :: "int option"
  ar_recovery_count :: "int option"
  ar_started_at :: "int option"
  ar_ended_at :: "int option"
  ar_created_at :: int
  ar_updated_at :: int
  ar_queue_context :: "run_queue_context option"

text \<open>A run with the given identity and status, every other field empty; used by examples.\<close>

definition blank_run :: "string \<Rightarrow> string \<Rightarrow> run_status \<Rightarrow> agent_run" where
  "blank_run rid sid st =
     \<lparr> ar_id = rid, ar_session_id = sid, ar_owner_id = [], ar_project_id = None,
       ar_work_item_id = None, ar_mode = ModeExec, ar_status = st, ar_workspace = ''default'',
       ar_idempotency_key = None, ar_retry_of = None, ar_model_ref = None, ar_model_id = None,
       ar_model_snapshot = JUndef, ar_request_snapshot = JUndef, ar_plan = [],
       ar_plan_version = 0, ar_permission_snapshot = JObj [], ar_checkpoint = JObj [],
       ar_error_code = None, ar_error_message = None, ar_lease_epoch = None,
       ar_recovery_count = None, ar_started_at = None, ar_ended_at = None, ar_created_at = 0,
       ar_updated_at = 0, ar_queue_context = None \<rparr>"

text \<open>\<open>['completed', 'succeeded', 'failed', 'cancelled'].includes(status)\<close>\<close>

fun terminal_status :: "run_status \<Rightarrow> bool" where
  "terminal_status RCompleted = True"
| "terminal_status RSucceeded = True"
| "terminal_status RFailed = True"
| "terminal_status RCancelled = True"
| "terminal_status _ = False"

subsection \<open>Events\<close>

datatype msg_status = MRunning | MDone

record artifact =
  art_id :: "string option"
  art_name :: string
  art_size :: string
  art_path :: string
  art_rest :: json

datatype work_status = WTodo | WDoing | WPaused | WReview | WDone

record work_item_change =
  wc_id :: string
  wc_project_id :: string
  wc_status :: "work_status option"
  wc_title :: "string option"
  wc_sprint_id :: "string option"
  wc_milestone_id :: "string option"
  wc_version :: "int option"

datatype plan_kind = PlanSnapshot | PlanPatch

datatype sse_event =
    EvSession string string
  | EvStatus msg_status json
  | EvRun json "string option"
  | EvRunRecovered int
  | EvRunState run_status
  | EvThink string
  | EvStep string string
  | EvFileRead string string
  | EvDiff string string int int
  | EvTodo string
  | EvPlan plan_kind int "json list" "string option"
  | EvText string
  | EvAskUser "json list" "string option"
  | EvQaSummary "json list"
  | EvContextDegraded string int
  | EvArtifact artifact
  | EvWorkItem work_item_change
  | EvUsage int int json
  | EvError string
  | EvDone "string option"

subsection \<open>Traces and messages\<close>

datatype trace_item =
    TThink string
  | TStep string string
  | TFileRead string string
  | TDiff string string int int
  | TTodo string
  | TPlan plan_kind int "json list" "string option"
  | TQa "json list"
  | TContextDegraded string int
  | TArtifact artifact

datatype role = RoleUser | RoleAssistant

record chat_message =
  msg_id :: string
  msg_role :: role
  msg_content :: string
  msg_trace :: "trace_item list"
  msg_status :: "msg_status option"
  msg_secs :: json
  msg_usage :: json
  msg_error :: "string option"
  msg_run_id :: "string option"
  msg_run_status :: "run_status option"
  msg_pending_question :: "json option"
  msg_queue_context :: "run_queue_context option"
  msg_artifacts :: "artifact list option"

definition new_message :: "string \<Rightarrow> role \<Rightarrow> string \<Rightarrow> chat_message" where
  "new_message i r c =
     \<lparr> msg_id = i, msg_role = r, msg_content = c, msg_trace = [], msg_status = None,
       msg_secs = JUndef, msg_usage = JUndef, msg_error = None, msg_run_id = None,
       msg_run_status = None, msg_pending_question = None, msg_queue_context = None,
       msg_artifacts = None \<rparr>"

text \<open>\<open>trace.filter(item => !['todo', 'plan_snapshot', 'plan_patch'].includes(item.kind))\<close>\<close>

fun plan_item :: "trace_item \<Rightarrow> bool" where
  "plan_item (TTodo t) = True"
| "plan_item (TPlan k v xs p) = True"
| "plan_item _ = False"

definition without_plan :: "trace_item list \<Rightarrow> trace_item list" where
  "without_plan tr = filter (\<lambda>i. \<not> plan_item i) tr"

definition withRunPlan ::
  "trace_item list \<Rightarrow> int \<Rightarrow> json list \<Rightarrow> string option \<Rightarrow> plan_kind \<Rightarrow> trace_item list" where
  "withRunPlan tr version items project kind =
     (if items = [] \<and> version = 0 then tr
      else without_plan tr @ [TPlan kind version items project])"

lemma withRunPlan_last:
  "items \<noteq> [] \<or> version \<noteq> 0 \<Longrightarrow>
   last (withRunPlan tr version items project kind) = TPlan kind version items project"
  by (auto simp: withRunPlan_def)

lemma without_plan_idem [simp]: "without_plan (without_plan tr) = without_plan tr"
  by (simp add: without_plan_def)

lemma without_plan_append [simp]: "without_plan (a @ b) = without_plan a @ without_plan b"
  by (simp add: without_plan_def)

text \<open>A stored message as the Server returns it (\<open>RawMessage\<close> of \<open>src/src/lib/api.ts\<close>).\<close>

record raw_message =
  rm_id :: string
  rm_role :: role
  rm_content :: string
  rm_actor :: string
  rm_trace :: "trace_item list option"
  rm_usage :: json
  rm_run_id :: "string option"
  rm_run_status :: "run_status option"
  rm_run_plan :: "json list option"
  rm_run_plan_version :: "int option"
  rm_run_project_id :: "string option"
  rm_run_queue_context :: "run_queue_context option"
  rm_pending_question :: "json option"
  rm_error :: "string option"
  rm_created_at :: int

definition blank_raw :: "string \<Rightarrow> role \<Rightarrow> string option \<Rightarrow> raw_message" where
  "blank_raw i r rid =
     \<lparr> rm_id = i, rm_role = r, rm_content = [], rm_actor = [], rm_trace = None, rm_usage = JNull,
       rm_run_id = rid, rm_run_status = None, rm_run_plan = None, rm_run_plan_version = None,
       rm_run_project_id = None, rm_run_queue_context = None, rm_pending_question = None,
       rm_error = None, rm_created_at = 0 \<rparr>"

text \<open>A session as the Server lists it (\<open>SessionInfo\<close>).\<close>

datatype session_outcome = OutRunning | OutOk | OutError

record session_info =
  si_id :: string
  si_title :: string
  si_kind :: string
  si_status :: string
  si_space :: "string option"
  si_project_id :: "string option"
  si_latest_run_id :: "string option"
  si_work_item_id :: "string option"
  si_work_item_title :: "string option"
  si_ago :: "string option"
  si_created_at :: "int option"
  si_updated_at :: "int option"
  si_owner_id :: "string option"
  si_owner_name :: "string option"
  si_version :: "int option"
  si_read_only :: "bool option"
  si_run_status :: "session_outcome option"
  si_run_summary :: "string option"
  si_run_kind :: "string option"
  si_workspace :: "string option"

definition blank_session :: "string \<Rightarrow> string \<Rightarrow> session_info" where
  "blank_session i t =
     \<lparr> si_id = i, si_title = t, si_kind = ''chat'', si_status = ''active'', si_space = None,
       si_project_id = None, si_latest_run_id = None, si_work_item_id = None,
       si_work_item_title = None, si_ago = None, si_created_at = None, si_updated_at = None,
       si_owner_id = None, si_owner_name = None, si_version = None, si_read_only = None,
       si_run_status = None, si_run_summary = None, si_run_kind = None, si_workspace = None \<rparr>"

end
