(* ===== verification/SseEvents.thy ===== *)
theory SseEvents
  imports ChatTypes
begin

text \<open>
  The wire side of the event protocol (\<open>src/src/lib/sse.ts\<close>): which payloads
  \<open>checkedSSEEvent\<close> lets through and how they read as typed events, the SSE frame parser,
  and the reader of the orchestration stream with its incremental buffer.
  \<open>JSON.parse\<close> is a parameter of the frame parser; nothing is assumed of it.
\<close>

subsection \<open>checkedSSEEvent\<close>

definition SSE_EVENT_TYPES :: "string list" where
  "SSE_EVENT_TYPES =
     [''session'', ''status'', ''run'', ''think'', ''step'', ''file_read'', ''diff'', ''todo'',
      ''plan_snapshot'', ''plan_patch'', ''text'', ''ask_user'', ''qa_summary'',
      ''context_degraded'', ''artifact'', ''work_item'', ''usage'', ''error'', ''done'']"

definition CLIENT_EVENT_TYPES :: "string list" where
  "CLIENT_EVENT_TYPES = [''run_recovered'', ''run_state'']"

text \<open>The switch over the event types, in the order of the source.\<close>

definition payload_valid :: "string \<Rightarrow> json \<Rightarrow> bool" where
  "payload_valid ty v =
     (let text = (\<lambda>k. is_str (jget k v)); number = (\<lambda>k. is_finite (jget k v)) in
      if ty = ''session'' then text ''id'' \<and> text ''title''
      else if ty = ''status'' then jget ''state'' v \<in> {JStr ''running'', JStr ''done''}
      else if ty = ''run'' then is_record (jget ''run'' v)
      else if ty = ''run_recovered'' then number ''lease_epoch''
      else if ty = ''think'' \<or> ty = ''todo'' then text ''text''
      else if ty = ''step'' then text ''tool'' \<and> text ''label''
      else if ty = ''file_read'' then text ''path'' \<and> text ''range''
      else if ty = ''diff'' then text ''op'' \<and> text ''file'' \<and> number ''add'' \<and> number ''del''
      else if ty = ''plan_snapshot'' \<or> ty = ''plan_patch''
        then number ''version'' \<and> is_arr (jget ''items'' v)
      else if ty = ''text'' then text ''md''
      else if ty = ''ask_user'' then is_arr (jget ''questions'' v)
      else if ty = ''qa_summary'' then is_arr (jget ''qa'' v)
      else if ty = ''context_degraded''
        then text ''reason'' \<and> number ''excerpt_messages''
          \<and> jget ''retry_on_next_turn'' v = JBool True
      else if ty = ''artifact'' then text ''name'' \<and> text ''size'' \<and> text ''path''
      else if ty = ''work_item'' then is_record (jget ''item'' v)
      else if ty = ''usage''
        then number ''pct'' \<and> number ''used'' \<and> is_record (jget ''detail'' v)
      else if ty = ''error'' then text ''message''
      else if ty = ''done'' then jget ''message_id'' v = JUndef \<or> text ''message_id''
      else False)"

text \<open>The cast \<open>{ type, data } as SSEEvent\<close>: the declared fields of the payload.\<close>

fun work_status_of :: "string \<Rightarrow> work_status option" where
  "work_status_of s =
     (if s = ''todo'' then Some WTodo else if s = ''doing'' then Some WDoing
      else if s = ''paused'' then Some WPaused else if s = ''review'' then Some WReview
      else if s = ''done'' then Some WDone else None)"

definition as_artifact :: "json \<Rightarrow> artifact" where
  "as_artifact v =
     \<lparr> art_id = jstr (jget ''id'' v), art_name = jstr_d (jget ''name'' v),
       art_size = jstr_d (jget ''size'' v), art_path = jstr_d (jget ''path'' v), art_rest = v \<rparr>"

definition as_work_item_change :: "json \<Rightarrow> work_item_change" where
  "as_work_item_change v =
     \<lparr> wc_id = jstr_d (jget ''id'' v), wc_project_id = jstr_d (jget ''project_id'' v),
       wc_status = (case jstr (jget ''status'' v) of None \<Rightarrow> None | Some s \<Rightarrow> work_status_of s),
       wc_title = jstr (jget ''title'' v), wc_sprint_id = jstr (jget ''sprint_id'' v),
       wc_milestone_id = jstr (jget ''milestone_id'' v), wc_version = jint (jget ''version'' v) \<rparr>"

definition cast_event :: "string \<Rightarrow> json \<Rightarrow> sse_event" where
  "cast_event ty v =
     (let s = (\<lambda>k. jstr_d (jget k v)); n = (\<lambda>k. jint_d (jget k v)) in
      if ty = ''session'' then EvSession (s ''id'') (s ''title'')
      else if ty = ''status''
        then EvStatus (if s ''state'' = ''done'' then MDone else MRunning) (jget ''secs'' v)
      else if ty = ''run'' then EvRun (jget ''run'' v) (jstr (jget ''user_message_id'' v))
      else if ty = ''think'' then EvThink (s ''text'')
      else if ty = ''todo'' then EvTodo (s ''text'')
      else if ty = ''step'' then EvStep (s ''tool'') (s ''label'')
      else if ty = ''file_read'' then EvFileRead (s ''path'') (s ''range'')
      else if ty = ''diff'' then EvDiff (s ''op'') (s ''file'') (n ''add'') (n ''del'')
      else if ty = ''plan_snapshot''
        then EvPlan PlanSnapshot (n ''version'') (jarr_d (jget ''items'' v)) (jstr (jget ''project_id'' v))
      else if ty = ''plan_patch''
        then EvPlan PlanPatch (n ''version'') (jarr_d (jget ''items'' v)) (jstr (jget ''project_id'' v))
      else if ty = ''text'' then EvText (s ''md'')
      else if ty = ''ask_user''
        then EvAskUser (jarr_d (jget ''questions'' v)) (jstr (jget ''question_event_id'' v))
      else if ty = ''qa_summary'' then EvQaSummary (jarr_d (jget ''qa'' v))
      else if ty = ''context_degraded''
        then EvContextDegraded (s ''reason'') (n ''excerpt_messages'')
      else if ty = ''artifact'' then EvArtifact (as_artifact v)
      else if ty = ''work_item'' then EvWorkItem (as_work_item_change (jget ''item'' v))
      else if ty = ''usage'' then EvUsage (n ''pct'') (n ''used'') (jget ''detail'' v)
      else if ty = ''error'' then EvError (s ''message'')
      else EvDone (jstr (jget ''message_id'' v)))"

definition checkedSSEEvent :: "string \<Rightarrow> json \<Rightarrow> sse_event option" where
  "checkedSSEEvent ty data =
     (if ty \<notin> set SSE_EVENT_TYPES then None
      else if \<not> is_record data then None
      else if payload_valid ty data then Some (cast_event ty data) else None)"

text \<open>The \<open>type\<close> tag of an event.\<close>

fun event_type :: "sse_event \<Rightarrow> string" where
  "event_type (EvSession i t) = ''session''"
| "event_type (EvStatus s n) = ''status''"
| "event_type (EvRun r u) = ''run''"
| "event_type (EvRunRecovered e) = ''run_recovered''"
| "event_type (EvRunState s) = ''run_state''"
| "event_type (EvThink t) = ''think''"
| "event_type (EvStep t l) = ''step''"
| "event_type (EvFileRead p r) = ''file_read''"
| "event_type (EvDiff a f x y) = ''diff''"
| "event_type (EvTodo t) = ''todo''"
| "event_type (EvPlan k v xs p) =
     (case k of PlanSnapshot \<Rightarrow> ''plan_snapshot'' | PlanPatch \<Rightarrow> ''plan_patch'')"
| "event_type (EvText t) = ''text''"
| "event_type (EvAskUser q i) = ''ask_user''"
| "event_type (EvQaSummary q) = ''qa_summary''"
| "event_type (EvContextDegraded r n) = ''context_degraded''"
| "event_type (EvArtifact a) = ''artifact''"
| "event_type (EvWorkItem w) = ''work_item''"
| "event_type (EvUsage p u d) = ''usage''"
| "event_type (EvError m) = ''error''"
| "event_type (EvDone m) = ''done''"

definition client_only :: "sse_event \<Rightarrow> bool" where
  "client_only e \<longleftrightarrow> event_type e \<in> set CLIENT_EVENT_TYPES"

lemma event_type_cast:
  "ty \<in> set SSE_EVENT_TYPES \<Longrightarrow> event_type (cast_event ty v) = ty"
  by (auto simp: SSE_EVENT_TYPES_def cast_event_def Let_def)

lemma checked_Some:
  "checkedSSEEvent ty d = Some e \<Longrightarrow>
   ty \<in> set SSE_EVENT_TYPES \<and> is_record d \<and> payload_valid ty d \<and> e = cast_event ty d"
  by (auto simp: checkedSSEEvent_def split: if_splits)

lemma checked_type: "checkedSSEEvent ty d = Some e \<Longrightarrow> event_type e = ty"
  using checked_Some event_type_cast by blast

lemma checked_not_client: "checkedSSEEvent ty d = Some e \<Longrightarrow> \<not> client_only e"
  using checked_Some [of ty d e] checked_type [of ty d e]
  by (auto simp: client_only_def SSE_EVENT_TYPES_def CLIENT_EVENT_TYPES_def)

text \<open>
  The fields the type of an event declares as required, each with what is checked of its value:
  of a plain value all of it; of a run, a usage detail and a changed work item that they are
  objects, whose own fields the code casts and does not check.
\<close>

fun required_fields :: "sse_event \<Rightarrow> (string \<times> (json \<Rightarrow> bool)) list" where
  "required_fields (EvSession i t) = [(''id'', \<lambda>v. v = JStr i), (''title'', \<lambda>v. v = JStr t)]"
| "required_fields (EvStatus s n) =
     [(''state'', \<lambda>v. v = JStr (case s of MRunning \<Rightarrow> ''running'' | MDone \<Rightarrow> ''done''))]"
| "required_fields (EvRun r u) = [(''run'', \<lambda>v. v = r \<and> is_record v)]"
| "required_fields (EvRunRecovered e) = [(''lease_epoch'', \<lambda>v. v = JNum e)]"
| "required_fields (EvRunState s) = []"
| "required_fields (EvThink t) = [(''text'', \<lambda>v. v = JStr t)]"
| "required_fields (EvStep t l) = [(''tool'', \<lambda>v. v = JStr t), (''label'', \<lambda>v. v = JStr l)]"
| "required_fields (EvFileRead p r) = [(''path'', \<lambda>v. v = JStr p), (''range'', \<lambda>v. v = JStr r)]"
| "required_fields (EvDiff a f x y) =
     [(''op'', \<lambda>v. v = JStr a), (''file'', \<lambda>v. v = JStr f), (''add'', \<lambda>v. v = JNum x),
      (''del'', \<lambda>v. v = JNum y)]"
| "required_fields (EvTodo t) = [(''text'', \<lambda>v. v = JStr t)]"
| "required_fields (EvPlan k n xs p) = [(''version'', \<lambda>v. v = JNum n), (''items'', \<lambda>v. v = JArr xs)]"
| "required_fields (EvText t) = [(''md'', \<lambda>v. v = JStr t)]"
| "required_fields (EvAskUser q i) = [(''questions'', \<lambda>v. v = JArr q)]"
| "required_fields (EvQaSummary q) = [(''qa'', \<lambda>v. v = JArr q)]"
| "required_fields (EvContextDegraded r n) =
     [(''reason'', \<lambda>v. v = JStr r), (''excerpt_messages'', \<lambda>v. v = JNum n),
      (''retry_on_next_turn'', \<lambda>v. v = JBool True)]"
| "required_fields (EvArtifact a) =
     [(''name'', \<lambda>v. v = JStr (art_name a)), (''size'', \<lambda>v. v = JStr (art_size a)),
      (''path'', \<lambda>v. v = JStr (art_path a))]"
| "required_fields (EvWorkItem w) = [(''item'', \<lambda>v. is_record v \<and> as_work_item_change v = w)]"
| "required_fields (EvUsage p u d) =
     [(''pct'', \<lambda>v. v = JNum p), (''used'', \<lambda>v. v = JNum u), (''detail'', \<lambda>v. v = d \<and> is_record v)]"
| "required_fields (EvError m) = [(''message'', \<lambda>v. v = JStr m)]"
| "required_fields (EvDone m) =
     [(''message_id'', \<lambda>v. v = (case m of None \<Rightarrow> JUndef | Some s \<Rightarrow> JStr s))]"

definition has_fields :: "json \<Rightarrow> sse_event \<Rightarrow> bool" where
  "has_fields d e \<longleftrightarrow> is_record d \<and> list_all (\<lambda>(k, ok). ok (jget k d)) (required_fields e)"

lemma has_fields_cast:
  assumes "ty \<in> set SSE_EVENT_TYPES" and "is_record d" and "payload_valid ty d"
  shows "has_fields d (cast_event ty d)"
proof -
  have "ty \<in> {''session'', ''status'', ''run'', ''think'', ''step'', ''file_read'', ''diff'',
      ''todo'', ''plan_snapshot'', ''plan_patch'', ''text'', ''ask_user'', ''qa_summary'',
      ''context_degraded'', ''artifact'', ''work_item'', ''usage'', ''error'', ''done''}"
    using assms(1) by (simp add: SSE_EVENT_TYPES_def)
  then show ?thesis
    using assms(2,3)
    by (elim insertE emptyE)
      (auto simp: has_fields_def payload_valid_def cast_event_def as_artifact_def is_str_iff is_finite_iff is_arr_iff)
qed

text \<open>Conversely a payload with the fields of some event from the wire is accepted.\<close>

lemma has_fields_accepted:
  assumes "has_fields d e" and "\<not> client_only e"
  shows "checkedSSEEvent (event_type e) d \<noteq> None"
proof -
  have d: "is_record d" using assms(1) by (simp add: has_fields_def)
  have "event_type e \<in> set SSE_EVENT_TYPES"
    using assms(2) by (cases e) (simp_all add: client_only_def CLIENT_EVENT_TYPES_def SSE_EVENT_TYPES_def split: plan_kind.split)
  moreover have "payload_valid (event_type e) d"
    using assms
    by (cases e)
      (simp_all add: has_fields_def payload_valid_def client_only_def CLIENT_EVENT_TYPES_def
        is_str_def is_finite_iff is_arr_iff split: msg_status.splits plan_kind.splits option.splits)
  ultimately show ?thesis using d by (simp add: checkedSSEEvent_def)
qed

subsection \<open>parseFrame\<close>

text \<open>The lines of a frame: the last \<open>event:\<close> line names the event, \<open>data:\<close> lines add up.\<close>

fun frame_lines :: "string list \<Rightarrow> string \<Rightarrow> string list \<Rightarrow> string \<times> string list" where
  "frame_lines [] event dataLines = (event, dataLines)"
| "frame_lines (line # ls) event dataLines =
     (if starts_with ''event:'' line then frame_lines ls (trim (drop 6 line)) dataLines
      else if starts_with ''data:'' line then frame_lines ls event (dataLines @ [trim (drop 5 line)])
      else frame_lines ls event dataLines)"

definition parseFrame :: "(string \<Rightarrow> json option) \<Rightarrow> string \<Rightarrow> (string \<times> json) option" where
  "parseFrame JSON_parse frame =
     (case frame_lines (split_on (CHR 0x0A) frame) ''message'' [] of (event, dataLines) \<Rightarrow>
        if dataLines = [] then None
        else case JSON_parse (join_with [CHR 0x0A] dataLines) of
               None \<Rightarrow> None
             | Some data \<Rightarrow> Some (event, data))"

subsection \<open>streamOrchestration\<close>

text \<open>\<open>buffer.indexOf('\\n\\n')\<close>: the text before and after the first blank line.\<close>

fun split_frame :: "string \<Rightarrow> (string \<times> string) option" where
  "split_frame (a # b # r) =
     (if a = CHR 0x0A \<and> b = CHR 0x0A then Some ([], r)
      else case split_frame (b # r) of None \<Rightarrow> None | Some (f, t) \<Rightarrow> Some (a # f, t))"
| "split_frame _ = None"

record orch_state =
  os_completed :: bool
  os_snapshots :: "json list"

definition orch_start :: orch_state where
  "orch_start = \<lparr> os_completed = False, os_snapshots = [] \<rparr>"

definition msg_stream_error :: string where
  "msg_stream_error = ''expert team status stream error''"

definition msg_stream_closed :: string where
  "msg_stream_closed = ''expert team status stream closed unexpectedly''"

definition msg_stream_unavailable :: "int \<Rightarrow> string" where
  "msg_stream_unavailable status = ''expert team status stream unavailable''"

text \<open>
  A throw leaves the reader with the snapshots already handed to \<open>onSnapshot\<close>: a part of the
  loop ends in an exception with the state so far, or goes on with a value.
\<close>

type_synonym 'a orch = "(exn \<times> orch_state) + 'a"

text \<open>One parsed frame inside the loop: a snapshot, a thrown error, or the end mark.\<close>

definition orch_frame ::
  "(string \<times> json) option \<Rightarrow> orch_state \<Rightarrow> orch_state orch" where
  "orch_frame parsed st =
     (case parsed of
        None \<Rightarrow> Inr st
      | Some (event, data) \<Rightarrow>
          if event = ''orchestration'' then
            (if jtruthy (jget ''orchestration'' data)
             then Inr (st\<lparr>os_snapshots := os_snapshots st @ [jget ''orchestration'' data]\<rparr>)
             else Inr st)
          else if event = ''error'' then
            Inl (Err (or_opt (jstr (jget ''message'' data)) msg_stream_error), st)
          else if event = ''done'' then Inr (st\<lparr>os_completed := True\<rparr>)
          else Inr st)"

lemma split_frame_shorter: "split_frame s = Some (f, r) \<Longrightarrow> length r < length s"
  by (induction s arbitrary: f rule: split_frame.induct) (auto split: if_splits option.splits)

lemma split_frame_append:
  "split_frame a = Some (f, r) \<Longrightarrow> split_frame (a @ b) = Some (f, r @ b)"
  by (induction a arbitrary: f rule: split_frame.induct) (auto split: if_splits option.splits)

text \<open>The inner loop: handle every complete frame of the buffer, return what is left.\<close>

function drain ::
  "(string \<Rightarrow> json option) \<Rightarrow> string \<Rightarrow> orch_state \<Rightarrow> (string \<times> orch_state) orch" where
  "drain JSON_parse buffer st =
     (case split_frame buffer of
        None \<Rightarrow> Inr (buffer, st)
      | Some (frame, rest) \<Rightarrow>
          (case orch_frame (parseFrame JSON_parse frame) st of
             Inl e \<Rightarrow> Inl e
           | Inr st' \<Rightarrow> drain JSON_parse rest st'))"
  by pat_completeness auto
termination
  by (relation "measure (\<lambda>(j, b, s). length b)") (auto dest: split_frame_shorter)

declare drain.simps [simp del]

text \<open>
  The reader loop over the decoded chunks. \<open>broken\<close> is the rejection of the last \<open>read\<close>, when
  the connection ends in one (or the signal aborts it) and not in the end of the text.
\<close>

fun read_chunks ::
  "(string \<Rightarrow> json option) \<Rightarrow> string list \<Rightarrow> exn option \<Rightarrow> string \<Rightarrow> orch_state
     \<Rightarrow> (string \<times> orch_state) orch" where
  "read_chunks JSON_parse [] broken buffer st =
     (case broken of Some e \<Rightarrow> Inl (e, st) | None \<Rightarrow> Inr (buffer, st))"
| "read_chunks JSON_parse (c # cs) broken buffer st =
     (case drain JSON_parse (buffer @ c) st of
        Inl stopped \<Rightarrow> Inl stopped
      | Inr (rest, st') \<Rightarrow> read_chunks JSON_parse cs broken rest st')"

text \<open>The end of the stream: the unterminated rest is one more frame, whose errors are ignored.\<close>

definition orch_finish ::
  "(string \<Rightarrow> json option) \<Rightarrow> bool \<Rightarrow> string \<Rightarrow> orch_state \<Rightarrow> orch_state orch" where
  "orch_finish JSON_parse aborted buffer st =
     (let st' = (if trim buffer = [] then st
                 else case parseFrame JSON_parse buffer of
                   None \<Rightarrow> st
                 | Some (event, data) \<Rightarrow>
                     if event = ''orchestration'' then
                       (if jtruthy (jget ''orchestration'' data)
                        then st\<lparr>os_snapshots := os_snapshots st @ [jget ''orchestration'' data]\<rparr>
                        else st)
                     else if event = ''done'' then st\<lparr>os_completed := True\<rparr>
                     else st)
      in if \<not> os_completed st' \<and> \<not> aborted then Inl (Err msg_stream_closed, st') else Inr st')"

text \<open>
  The whole call: the snapshots handed on, in order, and the exception it ends in, if any.
  \<open>response\<close> is what \<open>fetch\<close> gives: an exception, or whether it is ok with a body, and its status.
\<close>

definition streamOrchestration ::
  "(string \<Rightarrow> json option) \<Rightarrow> (bool \<times> int) res \<Rightarrow> string list \<Rightarrow> exn option \<Rightarrow> bool
     \<Rightarrow> json list \<times> exn option" where
  "streamOrchestration JSON_parse response chunks broken aborted =
     (case response of
        Inl e \<Rightarrow> ([], Some e)
      | Inr (ok, status) \<Rightarrow>
          if \<not> ok then ([], Some (Err (msg_stream_unavailable status)))
          else case (case read_chunks JSON_parse chunks broken [] orch_start of
                       Inl stopped \<Rightarrow> Inl stopped
                     | Inr (buffer, st) \<Rightarrow> orch_finish JSON_parse aborted buffer st) of
                 Inl (e, st) \<Rightarrow> (os_snapshots st, Some e)
               | Inr st \<Rightarrow> (os_snapshots st, None))"

lemma drain_append:
  "drain J (a @ b) st =
     (case drain J a st of Inl stopped \<Rightarrow> Inl stopped | Inr (rest, st') \<Rightarrow> drain J (rest @ b) st')"
proof (induction J a st rule: drain.induct)
  case (1 J a st)
  show ?case
  proof (cases "split_frame a")
    case None
    then show ?thesis by (simp add: drain.simps [of J a])
  next
    case (Some fr)
    obtain f r where fr: "fr = (f, r)" by (cases fr)
    with Some have a: "split_frame a = Some (f, r)" by simp
    then have ab: "split_frame (a @ b) = Some (f, r @ b)" by (rule split_frame_append)
    show ?thesis
    proof (cases "orch_frame (parseFrame J f) st")
      case (Inl e)
      then show ?thesis by (simp add: drain.simps [of J a] drain.simps [of J "a @ b"] a ab)
    next
      case (Inr st')
      then show ?thesis
        using "1.IH" [OF a refl Inr]
        by (simp add: drain.simps [of J a] drain.simps [of J "a @ b"] a ab)
    qed
  qed
qed

lemma drain_rest: "drain J a st = Inr (rest, st') \<Longrightarrow> split_frame rest = None"
proof (induction J a st rule: drain.induct)
  case (1 J a st)
  show ?case
  proof (cases "split_frame a")
    case None
    with "1.prems" show ?thesis by (simp add: drain.simps [of J a])
  next
    case (Some fr)
    obtain f r where "fr = (f, r)" by (cases fr)
    with Some have a: "split_frame a = Some (f, r)" by simp
    with "1.prems" obtain st1 where st1: "orch_frame (parseFrame J f) st = Inr st1"
      by (cases "orch_frame (parseFrame J f) st") (simp_all add: drain.simps [of J a])
    with "1.prems" a have "drain J r st1 = Inr (rest, st')"
      by (simp add: drain.simps [of J a])
    then show ?thesis by (rule "1.IH" [OF a refl st1])
  qed
qed

lemma drain_done: "split_frame a = None \<Longrightarrow> drain J a st = Inr (a, st)"
  by (simp add: drain.simps)

text \<open>The frames seen do not depend on how the network cut the text into chunks.\<close>

lemma read_chunks_concat:
  "split_frame buffer = None \<Longrightarrow>
   read_chunks J cs broken buffer st =
     (case drain J (buffer @ concat cs) st of
        Inl stopped \<Rightarrow> Inl stopped
      | Inr (rest, st') \<Rightarrow> (case broken of Some e \<Rightarrow> Inl (e, st') | None \<Rightarrow> Inr (rest, st')))"
proof (induction cs arbitrary: buffer st)
  case Nil
  then show ?case by (simp add: drain_done)
next
  case (Cons c cs)
  have split: "drain J (buffer @ concat (c # cs)) st =
      (case drain J (buffer @ c) st of Inl stopped \<Rightarrow> Inl stopped
       | Inr (rest, st') \<Rightarrow> drain J (rest @ concat cs) st')"
    using drain_append [of J "buffer @ c" "concat cs" st] by simp
  show ?case
  proof (cases "drain J (buffer @ c) st")
    case (Inl e)
    with split show ?thesis by simp
  next
    case (Inr p)
    obtain rest st' where p: "p = (rest, st')" by (cases p)
    with Inr have "split_frame rest = None" by (auto dest: drain_rest)
    with Inr p split show ?thesis by (simp add: Cons.IH)
  qed
qed

subsection \<open>Properties\<close>

text \<open>
  C11. What gets in from the wire is exactly what has the fields of its type: an accepted payload is
  an object, gives an event of the type asked for, never one of the client's own event types, and
  carries every field the type requires, as the event has it, with an object where the type has
  a run, a usage detail or a work item; a refused payload has the fields of no such event.
\<close>

theorem accepted_event_is_sound:
  "case checkedSSEEvent ty d of
     Some e \<Rightarrow> event_type e = ty \<and> \<not> client_only e \<and> has_fields d e
   | None \<Rightarrow> \<not> (\<exists>e. event_type e = ty \<and> \<not> client_only e \<and> has_fields d e)"
proof (cases "checkedSSEEvent ty d")
  case None
  then show ?thesis using has_fields_accepted by force
next
  case (Some e)
  then show ?thesis
    using checked_Some [OF Some] checked_type [OF Some] checked_not_client [OF Some] has_fields_cast by simp
qed

definition list_detail :: json where
  "list_detail = JObj [(''pct'', JNum 1), (''used'', JNum 2), (''detail'', JArr [])]"

theorem accepted_event_is_sound_witness:
  "checkedSSEEvent ''usage'' list_detail = None \<and> \<not> has_fields list_detail (EvUsage 1 2 (JArr []))"
proof -
  have "checkedSSEEvent ''usage'' list_detail = None"
    by (simp add: list_detail_def checkedSSEEvent_def SSE_EVENT_TYPES_def payload_valid_def)
  with accepted_event_is_sound [of "''usage''" list_detail] show ?thesis
    by (auto simp: client_only_def CLIENT_EVENT_TYPES_def)
qed

text \<open>
  C12. The expert team's status stream does not depend on how the network cuts it: two
  sequences of chunks with the same text hand on the same snapshots, in the same order, and end
  alike, also when the stream carries an error, breaks off, or ends before it is complete: the
  snapshots that came before have been handed on all the same.
\<close>

theorem orchestration_chunks:
  "concat cs = concat cs' \<Longrightarrow>
   streamOrchestration J response cs broken aborted = streamOrchestration J response cs' broken aborted"
proof -
  assume same: "concat cs = concat cs'"
  show ?thesis unfolding streamOrchestration_def read_chunks_concat [OF split_frame.simps(2)] same by (rule refl)
qed

definition demo_json :: "string \<Rightarrow> json option" where
  "demo_json s =
     (if s = ''1'' then Some (JObj [(''orchestration'', JObj [])]) else if s = ''2'' then Some (JObj []) else None)"

definition demo_stream :: "string list" where
  "demo_stream = [''event: orchestration'', [chr 10], ''data: 1'', [chr 10, chr 10], ''event: error'', [chr 10],
     ''data: 2'', [chr 10, chr 10]]"

theorem orchestration_chunks_witness:
  "streamOrchestration demo_json (Inr (True, 200)) demo_stream None False
   = streamOrchestration demo_json (Inr (True, 200)) [concat demo_stream] None False"
  by (rule orchestration_chunks) simp

end
