(* ===== verification/FollowRun.thy ===== *)
theory FollowRun
  imports SseEvents "HOL-Library.Product_Lexorder"
begin

text \<open>
  \<open>followServerRun\<close> of \<open>src/src/lib/sse.ts\<close>: the client follows a run by polling the
  Server's durable event log with an (epoch, sequence) cursor. The loop keeps the highest
  lease epoch it has seen, drops events of older epochs, announces a recovery when the epoch
  rises and turns durable events into UI events. The Server's event query
  (\<open>server/run_protocol_store.py\<close>, \<open>list_events\<close>) is modelled too; the contract the client
  relies on is a locale, interpreted on that query.

  The environment of the loop is the list of what each turn meets: the user aborted, the
  request failed, or a page arrived.
\<close>

subsection \<open>The loop\<close>

record poll_event =
  pe_event_id :: string
  pe_lease_epoch :: int
  pe_sequence :: int
  pe_type :: string
  pe_payload :: json

record poll_result =
  pr_run :: agent_run
  pr_events :: "poll_event list"

datatype poll_step = PollAborted | PollFailed exn | PollGot poll_result

record follow_state =
  fs_after_epoch :: int
  fs_after_sequence :: int
  fs_current_epoch :: int
  fs_saw_error :: bool
  fs_terminal_run :: "agent_run option"
  fs_last_status :: "run_status option"

definition follow_start :: follow_state where
  "follow_start =
     \<lparr> fs_after_epoch = 0, fs_after_sequence = 0, fs_current_epoch = 0, fs_saw_error = False,
       fs_terminal_run = None, fs_last_status = None \<rparr>"

definition page_limit :: nat where
  "page_limit = 1000"

definition is_error :: "sse_event \<Rightarrow> bool" where
  "is_error e \<longleftrightarrow> event_type e = ''error''"

text \<open>\<open>{ ...event.payload, question_event_id: event.event_id }\<close>\<close>

definition with_question_id :: "json \<Rightarrow> string \<Rightarrow> json" where
  "with_question_id payload qid =
     (case payload of JObj ps \<Rightarrow> JObj (jset ''question_event_id'' (JStr qid) ps)
      | _ \<Rightarrow> JObj [(''question_event_id'', JStr qid)])"

text \<open>What one durable event shows in the UI.\<close>

definition render_event :: "poll_event \<Rightarrow> sse_event option" where
  "render_event ev =
     (if starts_with ''ui.'' (pe_type ev) then checkedSSEEvent (drop 3 (pe_type ev)) (pe_payload ev)
      else if pe_type ev = ''run.waiting_user''
        then checkedSSEEvent ''ask_user'' (with_question_id (pe_payload ev) (pe_event_id ev))
      else None)"

text \<open>The body of the \<open>for\<close> loop over a page.\<close>

definition follow_event :: "poll_event \<Rightarrow> follow_state \<Rightarrow> follow_state \<times> sse_event list" where
  "follow_event ev st0 =
     (let st1 = st0\<lparr>fs_after_epoch := pe_lease_epoch ev, fs_after_sequence := pe_sequence ev\<rparr> in
      if pe_lease_epoch ev < fs_current_epoch st1 then (st1, [])
      else
        let newer = fs_current_epoch st1 < pe_lease_epoch ev;
            st2 = (if newer
                   then st1\<lparr>fs_current_epoch := pe_lease_epoch ev, fs_saw_error := False\<rparr> else st1);
            recovered = (if newer then [EvRunRecovered (pe_lease_epoch ev)] else [])
        in case render_event ev of
             None \<Rightarrow> (st2, recovered)
           | Some e \<Rightarrow>
               (st2\<lparr>fs_saw_error := (fs_saw_error st2 \<or> (starts_with ''ui.'' (pe_type ev) \<and> is_error e))\<rparr>,
                recovered @ [e]))"

fun follow_events :: "poll_event list \<Rightarrow> follow_state \<Rightarrow> follow_state \<times> sse_event list" where
  "follow_events [] st = (st, [])"
| "follow_events (ev # evs) st =
     (case follow_event ev st of (st1, out1) \<Rightarrow>
        case follow_events evs st1 of (st2, out2) \<Rightarrow> (st2, out1 @ out2))"

text \<open>The statements before the \<open>for\<close> loop: run state and the Server's own epoch.\<close>

definition follow_run :: "agent_run \<Rightarrow> follow_state \<Rightarrow> follow_state \<times> sse_event list" where
  "follow_run run st0 =
     (let st1 = st0\<lparr>fs_terminal_run := Some run\<rparr>;
          changed = (fs_last_status st1 \<noteq> Some (ar_status run));
          st2 = (if changed then st1\<lparr>fs_last_status := Some (ar_status run)\<rparr> else st1);
          out1 = (if changed then [EvRunState (ar_status run)] else []);
          serverEpoch = max 0 (nullish (ar_lease_epoch run) 0)
      in if fs_current_epoch st2 < serverEpoch
         then (if 0 < fs_current_epoch st2
               then (st2\<lparr>fs_current_epoch := serverEpoch, fs_saw_error := False\<rparr>,
                     out1 @ [EvRunRecovered serverEpoch])
               else (st2\<lparr>fs_current_epoch := serverEpoch\<rparr>, out1))
         else (st2, out1))"

definition follow_poll :: "poll_result \<Rightarrow> follow_state \<Rightarrow> follow_state \<times> sse_event list" where
  "follow_poll r st =
     (case follow_run (pr_run r) st of (st1, out1) \<Rightarrow>
        case follow_events (pr_events r) st1 of (st2, out2) \<Rightarrow> (st2, out1 @ out2))"

definition poll_last :: "poll_result \<Rightarrow> bool" where
  "poll_last r \<longleftrightarrow> terminal_status (ar_status (pr_run r)) \<and> length (pr_events r) < page_limit"

datatype loop_outcome = LoopThrew exn | LoopDone follow_state | LoopPending follow_state

text \<open>\<open>while (true)\<close>: \<open>LoopPending\<close> is a loop whose environment has not yet answered further.\<close>

fun follow_loop :: "poll_step list \<Rightarrow> follow_state \<Rightarrow> loop_outcome \<times> sse_event list" where
  "follow_loop [] st = (LoopPending st, [])"
| "follow_loop (PollAborted # ps) st = (LoopThrew AbortError, [])"
| "follow_loop (PollFailed e # ps) st = (LoopThrew e, [])"
| "follow_loop (PollGot r # ps) st =
     (case follow_poll r st of (st1, out1) \<Rightarrow>
        if poll_last r then (LoopDone st1, out1)
        else case follow_loop ps st1 of (oc, out2) \<Rightarrow> (oc, out1 @ out2))"

definition msg_run_failed :: string where
  "msg_run_failed = ''Local Agent execution failed''"

definition failure_event :: "follow_state \<Rightarrow> sse_event list" where
  "failure_event st =
     (case fs_terminal_run st of
        Some run \<Rightarrow>
          (if ar_status run = RFailed \<and> \<not> fs_saw_error st
           then [EvError (or_str (opt_str (ar_error_message run))
                            (or_str (opt_str (ar_error_code run)) msg_run_failed))]
           else [])
      | None \<Rightarrow> [])"

definition final_message :: "string \<Rightarrow> raw_message list \<Rightarrow> raw_message option" where
  "final_message runId ms =
     find_last (\<lambda>m. rm_run_id m = Some runId \<and> rm_role m = RoleAssistant) ms"

datatype follow_result =
    Followed "sse_event list"
  | FollowThrew exn "sse_event list"
  | FollowPending "sse_event list"

definition followServerRun ::
  "string \<Rightarrow> poll_step list \<Rightarrow> raw_message list res \<Rightarrow> follow_result" where
  "followServerRun runId steps messages =
     (case follow_loop steps follow_start of
        (LoopThrew e, out) \<Rightarrow> FollowThrew e out
      | (LoopPending st, out) \<Rightarrow> FollowPending out
      | (LoopDone st, out) \<Rightarrow>
          (case messages of
             Inl e \<Rightarrow> FollowThrew e (out @ failure_event st)
           | Inr ms \<Rightarrow>
               Followed (out @ failure_event st
                 @ [EvDone (map_option rm_id (final_message runId ms))])))"

subsection \<open>Epoch fencing\<close>

lemma follow_event_epoch:
  "fs_current_epoch (fst (follow_event ev st)) = max (fs_current_epoch st) (pe_lease_epoch ev)"
  by (auto simp: follow_event_def Let_def split: option.splits)

lemma follow_events_epoch:
  "fs_current_epoch (fst (follow_events evs st))
     = foldl (\<lambda>m ev. max m (pe_lease_epoch ev)) (fs_current_epoch st) evs"
proof (induction evs arbitrary: st)
  case (Cons ev evs)
  then show ?case
    using follow_event_epoch [of ev st] by (auto split: prod.splits) (metis fst_conv)+
qed simp

lemma follow_event_cursor:
  "fs_after_epoch (fst (follow_event ev st)) = pe_lease_epoch ev"
  "fs_after_sequence (fst (follow_event ev st)) = pe_sequence ev"
  by (auto simp: follow_event_def Let_def split: option.splits)

lemma follow_events_append:
  "follow_events (xs @ ys) st =
     (case follow_events xs st of (st1, o1) \<Rightarrow>
        case follow_events ys st1 of (st2, o2) \<Rightarrow> (st2, o1 @ o2))"
  by (induction xs arbitrary: st) (auto split: prod.splits)

lemma follow_events_cursor:
  "evs \<noteq> [] \<Longrightarrow>
     fs_after_epoch (fst (follow_events evs st)) = pe_lease_epoch (last evs) \<and>
     fs_after_sequence (fst (follow_events evs st)) = pe_sequence (last evs)"
proof (induction evs rule: rev_induct)
  case (snoc ev evs)
  show ?case
    using follow_event_cursor [of ev] by (auto simp: follow_events_append split: prod.splits) (metis fst_conv)+
qed simp

text \<open>
  The specification of a page's effect: walk the events with the highest epoch seen, keep the
  ones that are not older, and put a recovery mark before the first event of a newer epoch.
\<close>

fun fenced :: "int \<Rightarrow> poll_event list \<Rightarrow> sse_event list" where
  "fenced cur [] = []"
| "fenced cur (ev # evs) =
     (if pe_lease_epoch ev < cur then fenced cur evs
      else (if cur < pe_lease_epoch ev then [EvRunRecovered (pe_lease_epoch ev)] else [])
           @ (case render_event ev of None \<Rightarrow> [] | Some e \<Rightarrow> [e])
           @ fenced (pe_lease_epoch ev) evs)"

lemma follow_event_out:
  "snd (follow_event ev st) =
     (if pe_lease_epoch ev < fs_current_epoch st then []
      else (if fs_current_epoch st < pe_lease_epoch ev then [EvRunRecovered (pe_lease_epoch ev)] else [])
           @ (case render_event ev of None \<Rightarrow> [] | Some e \<Rightarrow> [e]))"
  by (auto simp: follow_event_def Let_def split: option.splits)

lemma follow_events_fenced: "snd (follow_events evs st) = fenced (fs_current_epoch st) evs"
proof (induction evs arbitrary: st)
  case (Cons ev evs)
  obtain st1 o1 where f: "follow_event ev st = (st1, o1)" by (cases "follow_event ev st")
  have "fs_current_epoch st1 = max (fs_current_epoch st) (pe_lease_epoch ev)"
    using follow_event_epoch [of ev st] f by simp
  moreover have "o1 = (if pe_lease_epoch ev < fs_current_epoch st then []
      else (if fs_current_epoch st < pe_lease_epoch ev then [EvRunRecovered (pe_lease_epoch ev)] else [])
           @ (case render_event ev of None \<Rightarrow> [] | Some e \<Rightarrow> [e]))"
    using follow_event_out [of ev st] f by simp
  ultimately show ?case
    using f Cons.IH [of st1] by (auto split: prod.splits)
qed simp

lemma fenced_origin:
  "e \<in> set (fenced cur evs) \<Longrightarrow>
     (\<exists>i < length evs. e = EvRunRecovered (pe_lease_epoch (evs ! i))) \<or>
     (\<exists>i < length evs. render_event (evs ! i) = Some e \<and> cur \<le> pe_lease_epoch (evs ! i) \<and>
        (\<forall>j < i. pe_lease_epoch (evs ! j) \<le> pe_lease_epoch (evs ! i)))"
proof (induction cur evs rule: fenced.induct)
  case (1 cur)
  then show ?case by simp
next
  case (2 cur ev evs)
  show ?case
  proof (cases "pe_lease_epoch ev < cur")
    case True
    with "2.prems" have "e \<in> set (fenced cur evs)" by simp
    from "2.IH"(1) [OF True this] show ?thesis
    proof (elim disjE exE conjE)
      fix i assume "i < length evs" "e = EvRunRecovered (pe_lease_epoch (evs ! i))"
      then have "Suc i < length (ev # evs) \<and> e = EvRunRecovered (pe_lease_epoch ((ev # evs) ! Suc i))"
        by simp
      then show ?thesis by blast
    next
      fix i assume i: "i < length evs" "render_event (evs ! i) = Some e" "cur \<le> pe_lease_epoch (evs ! i)"
        "\<forall>j < i. pe_lease_epoch (evs ! j) \<le> pe_lease_epoch (evs ! i)"
      with True have "\<forall>j < Suc i. pe_lease_epoch ((ev # evs) ! j) \<le> pe_lease_epoch ((ev # evs) ! Suc i)"
        by (auto simp: less_Suc_eq_0_disj)
      with i show ?thesis by (intro disjI2 exI [of _ "Suc i"]) simp
    qed
  next
    case False
    show ?thesis
    proof (cases "e \<in> set (fenced (pe_lease_epoch ev) evs)")
      case rest: True
      from "2.IH"(2) [OF False rest] show ?thesis
      proof (elim disjE exE conjE)
        fix i assume "i < length evs" "e = EvRunRecovered (pe_lease_epoch (evs ! i))"
        then have "Suc i < length (ev # evs) \<and> e = EvRunRecovered (pe_lease_epoch ((ev # evs) ! Suc i))"
          by simp
        then show ?thesis by blast
      next
        fix i assume i: "i < length evs" "render_event (evs ! i) = Some e"
          "pe_lease_epoch ev \<le> pe_lease_epoch (evs ! i)"
          "\<forall>j < i. pe_lease_epoch (evs ! j) \<le> pe_lease_epoch (evs ! i)"
        then have "\<forall>j < Suc i. pe_lease_epoch ((ev # evs) ! j) \<le> pe_lease_epoch ((ev # evs) ! Suc i)"
          by (auto simp: less_Suc_eq_0_disj)
        with i False show ?thesis by (intro disjI2 exI [of _ "Suc i"]) simp
      qed
    next
      case rest: False
      with "2.prems" False
      have "e = EvRunRecovered (pe_lease_epoch ev) \<or> render_event ev = Some e"
        by (auto split: if_splits option.splits)
      with False show ?thesis by (auto intro!: exI [of _ "0::nat"])
    qed
  qed
qed

subsection \<open>Recovery marks rise\<close>

fun recoveries :: "sse_event list \<Rightarrow> int list" where
  "recoveries [] = []"
| "recoveries (EvRunRecovered n # es) = n # recoveries es"
| "recoveries (e # es) = recoveries es"

lemma recoveries_append [simp]: "recoveries (xs @ ys) = recoveries xs @ recoveries ys"
  by (induction xs rule: recoveries.induct) auto

lemma render_not_client: "render_event ev = Some e \<Longrightarrow> \<not> client_only e"
  by (auto simp: render_event_def dest: checked_not_client split: if_splits)

lemma recoveries_render: "render_event ev = Some e \<Longrightarrow> recoveries [e] = []"
  by (drule render_not_client) (cases e, auto simp: client_only_def CLIENT_EVENT_TYPES_def)

definition rising :: "int \<Rightarrow> int list \<Rightarrow> int \<Rightarrow> bool" where
  "rising lo ns hi \<longleftrightarrow> sorted_wrt (<) ns \<and> (\<forall>n\<in>set ns. lo < n \<and> n \<le> hi) \<and> lo \<le> hi"

lemma rising_append:
  "rising lo xs mid \<Longrightarrow> rising mid ys hi \<Longrightarrow> rising lo (xs @ ys) hi"
  by (fastforce simp: rising_def sorted_wrt_append)

lemma rising_event:
  "rising (fs_current_epoch st) (recoveries (snd (follow_event ev st)))
     (fs_current_epoch (fst (follow_event ev st)))"
  unfolding follow_event_out follow_event_epoch
  by (auto simp: rising_def split: option.splits dest: recoveries_render)

lemma rising_events:
  "rising (fs_current_epoch st) (recoveries (snd (follow_events evs st)))
     (fs_current_epoch (fst (follow_events evs st)))"
proof (induction evs arbitrary: st)
  case Nil
  then show ?case by (simp add: rising_def)
next
  case (Cons ev evs)
  obtain st1 o1 where f: "follow_event ev st = (st1, o1)" by (cases "follow_event ev st")
  with rising_event [of st ev]
  have "rising (fs_current_epoch st) (recoveries o1) (fs_current_epoch st1)" by simp
  from rising_append [OF this Cons.IH [of st1]] f show ?case
    by (auto split: prod.splits)
qed

lemma rising_run:
  "rising (fs_current_epoch st) (recoveries (snd (follow_run run st)))
     (fs_current_epoch (fst (follow_run run st)))"
  by (auto simp: follow_run_def rising_def Let_def)

lemma rising_poll:
  "rising (fs_current_epoch st) (recoveries (snd (follow_poll r st)))
     (fs_current_epoch (fst (follow_poll r st)))"
proof -
  obtain st1 o1 where f: "follow_run (pr_run r) st = (st1, o1)" by (cases "follow_run (pr_run r) st")
  with rising_run [of st "pr_run r"]
  have "rising (fs_current_epoch st) (recoveries o1) (fs_current_epoch st1)" by simp
  from rising_append [OF this rising_events [of st1 "pr_events r"]] f show ?thesis
    by (auto simp: follow_poll_def split: prod.splits)
qed

lemma follow_loop_recoveries:
  "\<exists>hi. rising (fs_current_epoch st) (recoveries (snd (follow_loop ps st))) hi"
proof (induction ps st rule: follow_loop.induct)
  case (4 r ps st)
  obtain st1 o1 where f: "follow_poll r st = (st1, o1)" by (cases "follow_poll r st")
  with rising_poll [of st r]
  have r1: "rising (fs_current_epoch st) (recoveries o1) (fs_current_epoch st1)" by simp
  show ?case
  proof (cases "poll_last r")
    case True
    with f r1 show ?thesis by auto
  next
    case False
    then obtain hi where "rising (fs_current_epoch st1) (recoveries (snd (follow_loop ps st1))) hi"
      using "4.IH" [OF f [symmetric]] by auto
    from rising_append [OF r1 this] f False show ?thesis
      by (auto split: prod.splits)
  qed
qed (auto simp: rising_def)

subsection \<open>A failed run always shows an error\<close>

text \<open>Whether an error event follows the last recovery mark.\<close>

fun err_after :: "bool \<Rightarrow> sse_event list \<Rightarrow> bool" where
  "err_after b [] = b"
| "err_after b (EvRunRecovered n # es) = err_after False es"
| "err_after b (EvError m # es) = err_after True es"
| "err_after b (e # es) = err_after b es"

lemma err_after_append [simp]: "err_after b (xs @ ys) = err_after (err_after b xs) ys"
  by (induction b xs rule: err_after.induct) auto

lemma err_after_one:
  "\<not> client_only e \<Longrightarrow> err_after b [e] = (b \<or> is_error e)"
  by (cases e) (auto simp: is_error_def client_only_def CLIENT_EVENT_TYPES_def split: plan_kind.splits)

lemma waiting_user_not_error:
  "checkedSSEEvent ''ask_user'' d = Some e \<Longrightarrow> \<not> is_error e"
  by (auto simp: is_error_def dest!: checked_type)

lemma saw_error_event:
  "fs_saw_error (fst (follow_event ev st)) = err_after (fs_saw_error st) (snd (follow_event ev st))"
  using err_after_one [OF render_not_client, of ev]
  by (auto simp: follow_event_def Let_def render_event_def dest: waiting_user_not_error
      split: option.splits if_splits)

lemma saw_error_events:
  "fs_saw_error (fst (follow_events evs st)) = err_after (fs_saw_error st) (snd (follow_events evs st))"
proof (induction evs arbitrary: st)
  case (Cons ev evs)
  obtain st1 o1 where f: "follow_event ev st = (st1, o1)" by (cases "follow_event ev st")
  with saw_error_event [of ev st] Cons.IH [of st1] show ?case by (auto split: prod.splits)
qed simp

lemma saw_error_run:
  "fs_saw_error (fst (follow_run run st)) = err_after (fs_saw_error st) (snd (follow_run run st))"
  by (auto simp: follow_run_def Let_def)

lemma saw_error_poll:
  "fs_saw_error (fst (follow_poll r st)) = err_after (fs_saw_error st) (snd (follow_poll r st))"
proof -
  obtain st1 o1 where f: "follow_run (pr_run r) st = (st1, o1)" by (cases "follow_run (pr_run r) st")
  with saw_error_run [of "pr_run r" st] saw_error_events [of "pr_events r" st1] show ?thesis
    by (auto simp: follow_poll_def split: prod.splits)
qed

lemma saw_error_loop:
  "follow_loop ps st = (LoopDone st', out) \<Longrightarrow>
   fs_saw_error st' = err_after (fs_saw_error st) out"
proof (induction ps st arbitrary: out rule: follow_loop.induct)
  case (4 r ps st)
  obtain st1 o1 where f: "follow_poll r st = (st1, o1)" by (cases "follow_poll r st")
  with saw_error_poll [of r st] have "fs_saw_error st1 = err_after (fs_saw_error st) o1" by simp
  with "4" f show ?case by (auto split: if_splits prod.splits)
qed auto

text \<open>The run the loop ends on is the one of the last page, and its status is terminal.\<close>

lemma follow_event_run [simp]: "fs_terminal_run (fst (follow_event ev st)) = fs_terminal_run st"
  by (auto simp: follow_event_def Let_def split: option.splits)

lemma follow_events_run: "fs_terminal_run (fst (follow_events evs st)) = fs_terminal_run st"
proof (induction evs arbitrary: st)
  case (Cons ev evs)
  obtain st1 o1 where f: "follow_event ev st = (st1, o1)" by (cases "follow_event ev st")
  with follow_event_run [of ev st] Cons.IH [of st1] show ?case by (auto split: prod.splits)
qed simp

lemma follow_poll_run: "fs_terminal_run (fst (follow_poll r st)) = Some (pr_run r)"
proof -
  obtain st1 o1 where f: "follow_run (pr_run r) st = (st1, o1)" by (cases "follow_run (pr_run r) st")
  then have "fs_terminal_run st1 = Some (pr_run r)"
    by (auto simp: follow_run_def Let_def split: if_splits)
  with f follow_events_run [of "pr_events r" st1] show ?thesis
    by (auto simp: follow_poll_def split: prod.splits)
qed

lemma follow_loop_terminal:
  "follow_loop ps st = (LoopDone st', out) \<Longrightarrow>
   \<exists>run. fs_terminal_run st' = Some run \<and> terminal_status (ar_status run)"
proof (induction ps st arbitrary: out rule: follow_loop.induct)
  case (4 r ps st)
  obtain st1 o1 where f: "follow_poll r st = (st1, o1)" by (cases "follow_poll r st")
  with follow_poll_run [of r st] have "fs_terminal_run st1 = Some (pr_run r)" by simp
  with "4" f show ?case by (auto simp: poll_last_def split: if_splits prod.splits)
qed auto

subsection \<open>Properties\<close>

text \<open>
  Recovery marks announce strictly rising lease epochs: over the whole life of a follower
  no epoch is announced twice and none after a higher one.
\<close>

theorem recoveries_rise:
  "sorted_wrt (<) (recoveries (snd (follow_loop ps follow_start)))
   \<and> list_all (\<lambda>n. 0 < n) (recoveries (snd (follow_loop ps follow_start)))"
  using follow_loop_recoveries [of follow_start ps]
  by (auto simp: rising_def follow_start_def list_all_iff)

text \<open>
  C8. Fencing: what a page shows after epoch \<open>cur\<close> is a recovery mark of one of its events,
  or an event of the page that is not older than \<open>cur\<close> nor than any event before it.
\<close>

theorem stale_events_are_dropped:
  assumes "e \<in> set (snd (follow_events evs st))"
  shows "(\<exists>i < length evs. e = EvRunRecovered (pe_lease_epoch (evs ! i))) \<or>
     (\<exists>i < length evs. render_event (evs ! i) = Some e \<and> fs_current_epoch st \<le> pe_lease_epoch (evs ! i) \<and>
        (\<forall>j < i. pe_lease_epoch (evs ! j) \<le> pe_lease_epoch (evs ! i)))"
  using assms unfolding follow_events_fenced by (rule fenced_origin)

definition two_attempts :: "poll_event list" where
  "two_attempts = [\<lparr> pe_event_id = ''a'', pe_lease_epoch = 2, pe_sequence = 1, pe_type = ''ui.text'',
                     pe_payload = JObj [(''md'', JStr ''new'')] \<rparr>,
                   \<lparr> pe_event_id = ''b'', pe_lease_epoch = 1, pe_sequence = 9, pe_type = ''ui.text'',
                     pe_payload = JObj [(''md'', JStr ''old'')] \<rparr>]"

theorem stale_events_are_dropped_witness:
  "EvText ''old'' \<notin> set (snd (follow_events two_attempts follow_start))"
proof
  assume "EvText ''old'' \<in> set (snd (follow_events two_attempts follow_start))"
  from stale_events_are_dropped [OF this] show False
    by (auto simp: two_attempts_def less_Suc_eq render_event_def checkedSSEEvent_def SSE_EVENT_TYPES_def
        payload_valid_def cast_event_def is_str_def)
qed

end
