(* ===== verification/EventLog.thy ===== *)
theory EventLog
  imports FollowRun "HOL-Library.Sublist"
begin

text \<open>
  The Server side of the cursor protocol and the contract the client's loop relies on: a page
  read with the cursor of the k-th event continues right after it. Under that contract the
  pages the loop reads, from logs that only grow, join up to the whole log: nothing is lost
  and nothing is read twice; and once the run is over the loop ends after enough pages.
\<close>

subsection \<open>The Server's query\<close>

definition event_key :: "poll_event \<Rightarrow> int \<times> int" where
  "event_key e = (pe_lease_epoch e, pe_sequence e)"

definition list_events :: "poll_event list \<Rightarrow> int \<Rightarrow> int \<Rightarrow> nat \<Rightarrow> poll_event list" where
  "list_events rows after_epoch after_sequence limit =
     (let capped = max 1 (min 1000 limit); since = max 0 after_sequence in
      if 0 < after_epoch then
        take capped (sort_key event_key
          (filter (\<lambda>e. after_epoch < pe_lease_epoch e
             \<or> pe_lease_epoch e = after_epoch \<and> since < pe_sequence e) rows))
      else take capped (sort_key event_key (filter (\<lambda>e. since < pe_sequence e) rows)))"

text \<open>
  The rows of one run: \<open>UNIQUE(run_id, lease_epoch, sequence)\<close>, epochs and sequence numbers
  from 1. The log is the rows in key order.
\<close>

definition rows_ok :: "poll_event list \<Rightarrow> bool" where
  "rows_ok rows \<longleftrightarrow> distinct (map event_key rows) \<and>
     list_all (\<lambda>e. 0 < pe_lease_epoch e \<and> 0 < pe_sequence e) rows"

definition log_of :: "poll_event list \<Rightarrow> poll_event list" where
  "log_of rows = sort_key event_key rows"

subsection \<open>The contract\<close>

text \<open>The loop's cursor points just after the first k events of a log.\<close>

definition at_pos :: "poll_event list \<Rightarrow> nat \<Rightarrow> follow_state \<Rightarrow> bool" where
  "at_pos es k st \<longleftrightarrow> k \<le> length es \<and>
     (if k = 0 then fs_after_epoch st = 0 \<and> fs_after_sequence st = 0
      else fs_after_epoch st = pe_lease_epoch (es ! (k - 1))
         \<and> fs_after_sequence st = pe_sequence (es ! (k - 1)))"

text \<open>The results the loop meets when every turn reads a page of the log at that moment.\<close>

fun served ::
  "('l \<Rightarrow> int \<Rightarrow> int \<Rightarrow> nat \<Rightarrow> poll_event list) \<Rightarrow> (agent_run \<times> 'l) list \<Rightarrow> follow_state
     \<Rightarrow> poll_result list" where
  "served page [] st = []"
| "served page ((run, l) # env) st =
     (let r = \<lparr> pr_run = run, pr_events = page l (fs_after_epoch st) (fs_after_sequence st) page_limit \<rparr>
      in r # (if poll_last r then [] else served page env (fst (follow_poll r st))))"

lemma served_length: "length (served page env st) \<le> length env"
  by (induction page env st rule: served.induct) (auto simp: Let_def)

lemma follow_run_cursor [simp]:
  "fs_after_epoch (fst (follow_run run st)) = fs_after_epoch st"
  "fs_after_sequence (fst (follow_run run st)) = fs_after_sequence st"
  by (auto simp: follow_run_def Let_def)

lemma at_pos_prefix: "prefix es fs \<Longrightarrow> at_pos es k st \<Longrightarrow> at_pos fs k st"
  by (auto simp: at_pos_def prefix_def nth_append split: if_splits)

lemma at_pos_poll:
  assumes "at_pos es k st" and "pr_events r = take n (drop k es)"
  shows "at_pos es (k + length (pr_events r)) (fst (follow_poll r st))"
proof -
  obtain st1 o1 where f: "follow_run (pr_run r) st = (st1, o1)" by (cases "follow_run (pr_run r) st")
  then have c: "fs_after_epoch st1 = fs_after_epoch st" "fs_after_sequence st1 = fs_after_sequence st"
    using follow_run_cursor [of "pr_run r" st] by simp_all
  have e: "fst (follow_poll r st) = fst (follow_events (pr_events r) st1)"
    using f by (auto simp: follow_poll_def split: prod.splits)
  have le: "k + length (pr_events r) \<le> length es"
    using assms by (auto simp: at_pos_def)
  show ?thesis
  proof (cases "pr_events r = []")
    case True
    with assms(1) c e show ?thesis by (simp add: at_pos_def)
  next
    case False
    let ?m = "length (pr_events r)"
    have "last (pr_events r) = pr_events r ! (?m - 1)" using False by (rule last_conv_nth)
    also have "\<dots> = drop k es ! (?m - 1)"
    proof -
      have "?m - 1 < n" using False assms(2) by (cases ?m) auto
      then show ?thesis using assms(2) by simp
    qed
    also have "\<dots> = es ! (k + (?m - 1))" using le by simp
    also have "k + (?m - 1) = k + ?m - 1" using False by (cases ?m) auto
    finally have "last (pr_events r) = es ! (k + ?m - 1)" .
    with follow_events_cursor [OF False, of st1] e le False show ?thesis
      by (simp add: at_pos_def)
  qed
qed

locale event_log =
  fixes page :: "'l \<Rightarrow> int \<Rightarrow> int \<Rightarrow> nat \<Rightarrow> poll_event list"
    and contents :: "'l \<Rightarrow> poll_event list"
    and wf_log :: "'l \<Rightarrow> bool"
  assumes page_start:
      "wf_log l \<Longrightarrow> page l 0 0 page_limit = take page_limit (contents l)"
    and page_after:
      "wf_log l \<Longrightarrow> k < length (contents l) \<Longrightarrow>
       page l (pe_lease_epoch (contents l ! k)) (pe_sequence (contents l ! k)) page_limit
         = take page_limit (drop (Suc k) (contents l))"
begin

lemma page_at:
  "wf_log l \<Longrightarrow> at_pos (contents l) k st \<Longrightarrow>
   page l (fs_after_epoch st) (fs_after_sequence st) page_limit = take page_limit (drop k (contents l))"
  using page_start [of l] page_after [of l "k - 1"] by (cases k) (auto simp: at_pos_def)

lemma served_join:
  assumes "list_all (wf_log \<circ> snd) env" and "sorted_wrt prefix (map (contents \<circ> snd) env)"
    and "env \<noteq> []" and "at_pos (contents (snd (hd env))) k st"
    and "poll_last (last (served page env st))"
  shows "concat (map pr_events (served page env st))
     = drop k (contents (snd (env ! (length (served page env st) - 1))))"
  using assms
proof (induction env arbitrary: k st)
  case Nil
  then show ?case by simp
next
  case (Cons p env)
  obtain run l where p: "p = (run, l)" by (cases p)
  let ?r = "\<lparr> pr_run = run, pr_events = page l (fs_after_epoch st) (fs_after_sequence st) page_limit \<rparr>"
  let ?st = "fst (follow_poll ?r st)"
  from Cons.prems p have wf: "wf_log l" and at: "at_pos (contents l) k st" by simp_all
  have evs: "pr_events ?r = take page_limit (drop k (contents l))"
    using page_at [OF wf at] by simp
  show ?case
  proof (cases "poll_last ?r")
    case True
    then have "length (pr_events ?r) < page_limit" by (simp add: poll_last_def)
    with evs have "pr_events ?r = drop k (contents l)" by simp
    with True p show ?thesis by simp
  next
    case False
    then have rs: "served page (p # env) st = ?r # served page env ?st" using p by (simp add: Let_def)
    have ne: "env \<noteq> []"
      using Cons.prems(5) False rs by (cases env) auto
    then obtain run2 l2 env2 where env: "env = (run2, l2) # env2" by (cases env) auto
    let ?k = "k + length (pr_events ?r)"
    have "at_pos (contents l) ?k ?st" using at evs by (rule at_pos_poll)
    moreover have "prefix (contents l) (contents (snd (hd env)))"
      using Cons.prems(2) p env by simp
    ultimately have at2: "at_pos (contents (snd (hd env))) ?k ?st" by (rule at_pos_prefix [rotated])
    have rs_ne: "served page env ?st \<noteq> []" using env by (simp add: Let_def)
    have IH: "concat (map pr_events (served page env ?st))
        = drop ?k (contents (snd (env ! (length (served page env ?st) - 1))))"
      using Cons.prems rs rs_ne ne at2 by (intro Cons.IH) auto
    let ?n = "length (served page env ?st) - 1"
    have "0 < length (served page env ?st)" using rs_ne by simp
    then have "?n < length env" using served_length [of page env ?st] by linarith
    then have "contents (snd (env ! ?n)) \<in> set (map (contents \<circ> snd) env)"
      by (auto intro!: image_eqI [of _ _ "env ! ?n"])
    then have "prefix (contents l) (contents (snd (env ! ?n)))"
      using Cons.prems(2) p by auto
    then obtain more where more: "contents (snd (env ! ?n)) = contents l @ more"
      by (auto simp: prefix_def)
    have "drop k (contents (snd (env ! ?n))) = pr_events ?r @ drop ?k (contents (snd (env ! ?n)))"
    proof -
      have "k \<le> length (contents l)" using at by (simp add: at_pos_def)
      with evs have le: "?k \<le> length (contents l)" by auto
      have "take (length (pr_events ?r)) (drop k (contents l)) = pr_events ?r"
        unfolding evs by (simp add: min_def)
      then have "drop k (contents l) = pr_events ?r @ drop ?k (contents l)"
        using append_take_drop_id [of "length (pr_events ?r)" "drop k (contents l)"]
        by (simp add: add.commute)
      with le more show ?thesis by simp
    qed
    moreover have "(p # env) ! (length (served page (p # env) st) - 1) = env ! ?n"
      using rs rs_ne by (simp add: nth_Cons')
    ultimately show ?thesis using rs IH by simp
  qed
qed

end

subsection \<open>The Server's query keeps the contract\<close>

lemma filter_sorted_after:
  fixes key :: "'a \<Rightarrow> 'b :: linorder"
  assumes "sorted_wrt (<) (map key xs)" and "k < length xs"
  shows "filter (\<lambda>e. key (xs ! k) < key e) xs = drop (Suc k) xs"
proof -
  have "filter (\<lambda>e. key (xs ! k) < key e) (take (Suc k) xs) @
      filter (\<lambda>e. key (xs ! k) < key e) (drop (Suc k) xs) = drop (Suc k) xs"
  proof -
    have "\<not> key (xs ! k) < key e" if "e \<in> set (take (Suc k) xs)" for e
    proof -
      from that obtain i where i: "i < Suc k" "e = xs ! i" using assms(2)
        by (auto simp: in_set_conv_nth)
      show ?thesis
      proof (cases "i = k")
        case True
        with i show ?thesis by simp
      next
        case False
        with i assms have "key (xs ! i) < key (xs ! k)"
          by (auto simp: sorted_wrt_iff_nth_less)
        with i show ?thesis by auto
      qed
    qed
    moreover have "key (xs ! k) < key e" if "e \<in> set (drop (Suc k) xs)" for e
    proof -
      from that obtain i where "i < length xs - Suc k" "e = xs ! (Suc k + i)"
        by (auto simp: in_set_conv_nth)
      with assms show ?thesis by (auto simp: sorted_wrt_iff_nth_less)
    qed
    ultimately show ?thesis by (simp add: filter_id_conv filter_empty_conv)
  qed
  then show ?thesis by (metis append_take_drop_id filter_append)
qed

lemma log_of_strict: "rows_ok rows \<Longrightarrow> sorted_wrt (<) (map event_key (log_of rows))"
proof -
  assume "rows_ok rows"
  then have "distinct (map event_key (log_of rows))"
    by (auto simp: rows_ok_def log_of_def distinct_map)
  moreover have "sorted (map event_key (log_of rows))"
    by (simp add: log_of_def)
  ultimately show ?thesis by (simp add: strict_sorted_iff)
qed

lemma sort_filter_log: "sort_key event_key (filter P rows) = filter P (log_of rows)"
  by (simp add: log_of_def filter_sort)

interpretation run_log: event_log list_events log_of rows_ok
proof
  fix rows :: "poll_event list"
  assume ok: "rows_ok rows"
  have "filter (\<lambda>e. 0 < pe_sequence e) (log_of rows) = log_of rows"
    using ok by (simp add: rows_ok_def log_of_def list_all_iff filter_id_conv)
  then show "list_events rows 0 0 page_limit = take page_limit (log_of rows)"
    by (simp add: list_events_def sort_filter_log page_limit_def)
next
  fix rows :: "poll_event list" and k
  assume ok: "rows_ok rows" and k: "k < length (log_of rows)"
  let ?e = "log_of rows ! k"
  have "?e \<in> set rows" using k nth_mem [OF k] by (simp add: log_of_def)
  then have pos: "0 < pe_lease_epoch ?e" "0 < pe_sequence ?e"
    using ok by (auto simp: rows_ok_def list_all_iff)
  have "(\<lambda>e. pe_lease_epoch ?e < pe_lease_epoch e
           \<or> pe_lease_epoch e = pe_lease_epoch ?e \<and> max 0 (pe_sequence ?e) < pe_sequence e)
      = (\<lambda>e. event_key ?e < event_key e)"
    using pos by (auto simp: event_key_def fun_eq_iff less_prod_def)
  moreover have "filter (\<lambda>e. event_key ?e < event_key e) (log_of rows) = drop (Suc k) (log_of rows)"
    using log_of_strict [OF ok] k by (rule filter_sorted_after)
  ultimately show "list_events rows (pe_lease_epoch ?e) (pe_sequence ?e) page_limit
      = take page_limit (drop (Suc k) (log_of rows))"
    using pos by (simp add: list_events_def sort_filter_log page_limit_def)
qed

subsection \<open>The loop ends\<close>

text \<open>
  What is still to be read of \<open>rows\<close> behind a cursor. A cursor that names no epoch yet, or comes
  from a page nothing is known of, counts for all rows.
\<close>

definition after_cursor :: "int \<Rightarrow> int \<Rightarrow> poll_event \<Rightarrow> bool" where
  "after_cursor n k e \<longleftrightarrow>
     (if 0 < n then n < pe_lease_epoch e \<or> pe_lease_epoch e = n \<and> max 0 k < pe_sequence e
      else max 0 k < pe_sequence e)"

definition to_read :: "poll_event list \<Rightarrow> int \<Rightarrow> int \<Rightarrow> nat" where
  "to_read rows n k = (if 0 < n then length (filter (after_cursor n k) rows) else length rows)"

lemma follow_poll_cursor:
  assumes "pr_events r \<noteq> []"
  shows "fs_after_epoch (fst (follow_poll r st)) = pe_lease_epoch (last (pr_events r)) \<and>
     fs_after_sequence (fst (follow_poll r st)) = pe_sequence (last (pr_events r))"
proof -
  obtain st1 o1 where f: "follow_run (pr_run r) st = (st1, o1)" by (cases "follow_run (pr_run r) st")
  then have "fst (follow_poll r st) = fst (follow_events (pr_events r) st1)"
    by (simp add: follow_poll_def split: prod.split)
  with follow_events_cursor [OF assms, of st1] show ?thesis by simp
qed

lemma list_events_sorted:
  "list_events rs n k page_limit = take page_limit (sort_key event_key (filter (after_cursor n k) rs))"
  by (simp add: list_events_def after_cursor_def [abs_def] page_limit_def Let_def)

lemma sorted_below_last:
  fixes f :: "'a \<Rightarrow> 'b :: linorder"
  shows "sorted (map f xs) \<Longrightarrow> x \<in> set xs \<Longrightarrow> f x \<le> f (last xs)"
  by (induction xs) auto

lemma page_keys:
  "x \<in> set (take m (sort_key event_key xs)) \<Longrightarrow>
   event_key x \<le> event_key (last (take m (sort_key event_key xs)))"
  by (rule sorted_below_last) (simp_all add: sorted_wrt_take flip: take_map)

lemma filter_take_le: "length (filter P (take m xs)) \<le> length (filter P xs)"
  by (metis append_take_drop_id filter_append le_add1 length_append)

lemma filter_twice_le: "length (filter P (filter Q xs)) \<le> length (filter P xs)"
  by (induction xs) auto

lemma page_progress:
  assumes "subseq rs rows" "list_all (\<lambda>e. 0 < pe_lease_epoch e \<and> 0 < pe_sequence e) rows"
    and "list_events rs n k page_limit = page" "page \<noteq> []"
  shows "to_read rows (pe_lease_epoch (last page)) (pe_sequence (last page)) + length page \<le> to_read rows n k"
proof -
  let ?e = "last page"
  let ?P = "\<lambda>e. 0 < n \<longrightarrow> after_cursor n k e" and ?Q = "after_cursor (pe_lease_epoch ?e) (pe_sequence ?e)"
  let ?R = "\<lambda>e. ?P e \<and> \<not> ?Q e"
  have page: "page = take page_limit (sort_key event_key (filter (after_cursor n k) rs))"
    using assms(3) by (simp add: list_events_sorted)
  have mem: "after_cursor n k x \<and> x \<in> set rs" if "x \<in> set page" for x
    using that unfolding page by (auto dest: in_set_takeD)
  have last: "after_cursor n k ?e" "?e \<in> set rs" using mem [of ?e] assms(4) by simp_all
  then have "?e \<in> set rows" using assms(1) by (auto dest: list_emb_set)
  then have pos: "0 < pe_lease_epoch ?e" "0 < pe_sequence ?e" using assms(2) by (auto simp: list_all_iff)
  have later: "?P x" if "?Q x" for x
    using that pos last(1) by (auto simp: after_cursor_def split: if_splits)
  have "?R x" if "x \<in> set page" for x
  proof -
    have "event_key x \<le> event_key ?e" using that unfolding page by (rule page_keys)
    then show ?thesis using mem [OF that] pos by (auto simp: after_cursor_def event_key_def less_eq_prod_def)
  qed
  then have "length page = length (filter ?R page)" by (simp add: filter_True)
  also have "\<dots> \<le> length (filter ?R (sort_key event_key (filter (after_cursor n k) rs)))"
    unfolding page by (rule filter_take_le)
  also have "\<dots> = length (filter ?R (filter (after_cursor n k) rs))" by (simp add: filter_sort)
  also have "\<dots> \<le> length (filter ?R rs)" by (rule filter_twice_le)
  also have "\<dots> \<le> length (filter ?R rows)"
    using assms(1) by (intro list_emb_length) (rule subseq_filter)
  finally have "length page \<le> length (filter ?R rows)" .
  moreover have "length (filter ?Q rows) + length (filter ?R rows) = length (filter ?P rows)"
    using later by (induction rows) auto
  ultimately have "length (filter ?Q rows) + length page \<le> length (filter ?P rows)" by linarith
  moreover have "length (filter ?P rows) \<le> to_read rows n k" by (simp add: to_read_def)
  ultimately show ?thesis using pos by (simp add: to_read_def)
qed

text \<open>The turns after the run is over: the table may still gain rows, up to \<open>rows\<close>.\<close>

lemma ended_turns_end:
  assumes "list_all (\<lambda>e. 0 < pe_lease_epoch e \<and> 0 < pe_sequence e) rows"
    and "list_all (\<lambda>(run, rs). terminal_status (ar_status run) \<and> subseq rs rows) turns"
    and "to_read rows (fs_after_epoch st) (fs_after_sequence st) < length turns * page_limit"
  shows "\<exists>st' out. follow_loop (map PollGot (served list_events turns st)) st = (LoopDone st', out)"
  using assms(2,3)
proof (induction turns arbitrary: st)
  case (Cons turn turns)
  obtain run rs where turn: "turn = (run, rs)" by (cases turn)
  let ?page = "list_events rs (fs_after_epoch st) (fs_after_sequence st) page_limit"
  let ?r = "\<lparr> pr_run = run, pr_events = ?page \<rparr>"
  obtain st1 o1 where f: "follow_poll ?r st = (st1, o1)" by (cases "follow_poll ?r st")
  show ?case
  proof (cases "poll_last ?r")
    case True
    with f turn show ?thesis by (simp add: Let_def)
  next
    case False
    then have full: "length ?page = page_limit"
      using Cons.prems(1) turn by (auto simp: poll_last_def list_events_sorted)
    then have ne: "?page \<noteq> []" by (auto simp: page_limit_def)
    have "fs_after_epoch st1 = pe_lease_epoch (last ?page) \<and> fs_after_sequence st1 = pe_sequence (last ?page)"
      using follow_poll_cursor [of ?r st] ne f by simp
    then have "to_read rows (fs_after_epoch st1) (fs_after_sequence st1) + page_limit
        \<le> to_read rows (fs_after_epoch st) (fs_after_sequence st)"
      using page_progress [OF _ assms(1) refl ne] Cons.prems(1) turn full by simp
    then have "to_read rows (fs_after_epoch st1) (fs_after_sequence st1) < length turns * page_limit"
      using Cons.prems(2) by simp
    moreover have "list_all (\<lambda>(run, rs). terminal_status (ar_status run) \<and> subseq rs rows) turns"
      using Cons.prems(1) by simp
    ultimately obtain st' out where
      "follow_loop (map PollGot (served list_events turns st1)) st1 = (LoopDone st', out)"
      using Cons.IH [of st1] by blast
    with f False turn show ?thesis by (simp add: Let_def)
  qed
qed simp

lemma to_read_le: "to_read rows n k \<le> length rows"
  by (simp add: to_read_def)

text \<open>Whatever the loop met before.\<close>

lemma loop_ends_after:
  assumes "\<And>st. \<exists>st' out. follow_loop (map PollGot (served page turns st)) st = (LoopDone st', out)"
  shows "\<exists>st' out. follow_loop (map PollGot (served page (before @ turns) st)) st = (LoopDone st', out)"
proof (induction before arbitrary: st)
  case (Cons turn before)
  obtain run l where turn: "turn = (run, l)" by (cases turn)
  let ?r = "\<lparr> pr_run = run, pr_events = page l (fs_after_epoch st) (fs_after_sequence st) page_limit \<rparr>"
  obtain st1 o1 where f: "follow_poll ?r st = (st1, o1)" by (cases "follow_poll ?r st")
  obtain st' out where "follow_loop (map PollGot (served page (before @ turns) st1)) st1 = (LoopDone st', out)"
    using Cons.IH by blast
  with f turn show ?case by (simp add: Let_def)
qed (simp add: assms)

end
