(* ===== verification/Http.thy ===== *)
theory Http
  imports JsValue
begin

text \<open>
  HTTP answers as \<open>fetch\<close> gives them, and the optional fields of request bodies.
\<close>

subsection \<open>HTTP answers\<close>

text \<open>A response: status and, if the body is JSON, its value (\<open>None\<close>: \<open>json()\<close> rejects).\<close>

record http_response =
  hr_status :: int
  hr_body :: "json option"

definition hr_ok :: "http_response \<Rightarrow> bool" where
  "hr_ok r \<longleftrightarrow> 200 \<le> hr_status r \<and> hr_status r < 300"

definition msg_bad_json :: string where
  "msg_bad_json = ''SyntaxError: Unexpected token''"

definition hr_json :: "http_response \<Rightarrow> json res" where
  "hr_json r = (case hr_body r of None \<Rightarrow> Inl (Err msg_bad_json) | Some v \<Rightarrow> Inr v)"

text \<open>\<open>v || null\<close> and \<open>v || undefined\<close> on optional strings.\<close>

definition or_none :: "string option \<Rightarrow> string option" where
  "or_none v = (if truthy v then v else None)"

end
