(* ===== verification/StreamChat.thy ===== *)
theory StreamChat
  imports FollowRun Http
begin

text \<open>
  The sending side of \<open>src/src/lib/sse.ts\<close>: staging of local inputs on the device, the body
  of the atomic turn request, \<open>streamChat\<close> around \<open>followServerRun\<close>, and the commit of the
  artifacts the run produced. What the Server, the Local Agent and the loopback service
  answer are arguments.
\<close>

subsection \<open>Requests\<close>

datatype ref_kind = RefFile | RefTodo

record chat_ref =
  cf_name :: string
  cf_content :: string
  cf_kind :: "ref_kind option"
  cf_item_id :: "string option"

record chat_options =
  co_text :: string
  co_session_id :: "string option"
  co_title :: "string option"
  co_space :: "string option"
  co_model :: "string option"
  co_plan :: bool
  co_ask :: bool
  co_project_id :: "string option"
  co_experts :: "string list"
  co_skills :: "string list"
  co_skill_bundles :: "string list"
  co_connectors :: "string list"
  co_knowledge_ids :: "string list"
  co_refs :: "chat_ref list"
  co_idempotency_key :: "string option"
  co_retry_of :: "string option"
  co_automation_id :: "string option"

definition requestKey :: "string \<Rightarrow> string \<Rightarrow> string" where
  "requestKey prefix uuid = prefix @ '':'' @ uuid"

text \<open>\<open>stageLocalRunInput\<close>: the staged device identity, \<open>''\<close> when there is nothing to stage.\<close>

record staged_ref =
  sg_name :: string
  sg_content :: string
  sg_kind :: ref_kind
  sg_item_id :: "string option"

definition stage_payload :: "chat_ref list \<Rightarrow> staged_ref list" where
  "stage_payload refs =
     map (\<lambda>r. \<lparr> sg_name = cf_name r, sg_content = cf_content r,
                sg_kind = nullish (cf_kind r) RefFile, sg_item_id = or_none (cf_item_id r) \<rparr>) refs"

definition msg_not_bound :: string where
  "msg_not_bound = ''Local Agent is not bound to a Server identity''"

definition msg_cannot_stage :: string where
  "msg_cannot_stage = ''Local Agent cannot stage local input''"

definition msg_no_device :: string where
  "msg_no_device = ''Local Agent returned no device identity''"

definition stageLocalRunInput ::
  "string option \<Rightarrow> bool \<Rightarrow> string res \<Rightarrow> http_response res \<Rightarrow> chat_ref list \<Rightarrow> string res" where
  "stageLocalRunInput owner isDesktop desktopStage response refs =
     (if refs = [] then Inr []
      else if \<not> truthy owner then Inl (Err msg_not_bound)
      else if isDesktop then
        bind_res desktopStage
          (\<lambda>deviceId. if deviceId = [] then Inl (Err msg_cannot_stage) else Inr deviceId)
      else
        bind_res response
          (\<lambda>r. if \<not> hr_ok r then Inl (Err (msg_cannot_stage @ '' HTTP '' @ dec_int (hr_status r)))
               else bind_res (hr_json r)
                 (\<lambda>v. if truthy (jstr (jget ''device_id'' v)) then Inr (jstr_d (jget ''device_id'' v))
                      else Inl (Err msg_no_device))))"

datatype turn_kind = KindProjexec | KindChat

record turn_request =
  tr_text :: string
  tr_session_id :: "string option"
  tr_title :: string
  tr_project_id :: "string option"
  tr_space :: "string option"
  tr_kind :: turn_kind
  tr_mode :: run_mode
  tr_workspace :: string
  tr_retry_of :: "string option"
  tr_model_ref :: "string option"
  tr_target_device_id :: string
  tr_required_capabilities :: "string list"
  tr_automation_id :: "string option"
  tr_experts :: "string list"
  tr_skills :: "string list"
  tr_skill_bundles :: "string list"
  tr_connectors :: "string list"
  tr_knowledge_ids :: "string list"
  tr_refs :: "(string \<times> ref_kind \<times> string option) list"
  tr_local_input_key :: "string option"
  tr_idempotency_key :: string

definition turn_mode :: "chat_options \<Rightarrow> run_mode" where
  "turn_mode opts = (if co_ask opts then ModeAsk else if co_plan opts then ModePlan else ModeExec)"

definition turn_body :: "chat_options \<Rightarrow> string \<Rightarrow> string \<Rightarrow> turn_request" where
  "turn_body opts turnKey targetDeviceId =
     \<lparr> tr_text = co_text opts,
       tr_session_id = or_none (co_session_id opts),
       tr_title = slice_units 500 (or_opt (co_title opts) (co_text opts)),
       tr_project_id = or_none (co_project_id opts),
       tr_space = or_none (co_space opts),
       tr_kind = (if truthy (co_project_id opts) then KindProjexec else KindChat),
       tr_mode = turn_mode opts,
       tr_workspace = (if truthy (co_project_id opts)
                       then ''project:'' @ opt_str (co_project_id opts) else ''default''),
       tr_retry_of = or_none (co_retry_of opts),
       tr_model_ref = or_none (co_model opts),
       tr_target_device_id = targetDeviceId,
       tr_required_capabilities = [''run_events_v1'', ''llm.chat'']
         @ (if turn_mode opts = ModeAsk then [] else [''agent.tools'']),
       tr_automation_id = or_none (co_automation_id opts),
       tr_experts = co_experts opts,
       tr_skills = co_skills opts,
       tr_skill_bundles = co_skill_bundles opts,
       tr_connectors = co_connectors opts,
       tr_knowledge_ids = co_knowledge_ids opts,
       tr_refs = map (\<lambda>r. (cf_name r, nullish (cf_kind r) RefFile, or_none (cf_item_id r))) (co_refs opts),
       tr_local_input_key = (if targetDeviceId = [] then None else Some turnKey),
       tr_idempotency_key = turnKey \<rparr>"

text \<open>The Server's answer to a turn.\<close>

record server_turn =
  tu_session_id :: string
  tu_session_title :: string
  tu_user_message_id :: string
  tu_run_id :: string
  tu_run :: json

text \<open>
  \<open>prepareServerTurn\<close>: stage first, then post the turn. \<open>post\<close> is the Server channel:
  what it answers to this request.
\<close>

definition prepareServerTurn ::
  "chat_options \<Rightarrow> string \<Rightarrow> string res \<Rightarrow> (turn_request \<Rightarrow> server_turn res) \<Rightarrow> server_turn res" where
  "prepareServerTurn opts freshKey staged post =
     (let turnKey = or_opt (co_idempotency_key opts) (requestKey ''run'' freshKey) in
      bind_res staged (\<lambda>deviceId. post (turn_body opts turnKey deviceId)))"

record execute_request =
  ex_project_id :: string
  ex_work_item_id :: string
  ex_target_device_id :: string
  ex_local_input_key :: string
  ex_model_ref :: "string option"
  ex_idempotency_key :: string

text \<open>The single reference that \<open>startWorkItemRun\<close> stages: the work item itself.\<close>

definition work_item_ref :: "string \<Rightarrow> string \<Rightarrow> string \<Rightarrow> chat_ref" where
  "work_item_ref workItemId title description =
     \<lparr> cf_name = title,
       cf_content = (if trim description = [] then title
                     else title @ [CHR 0x0A, CHR 0x0A] @ description),
       cf_kind = Some RefTodo, cf_item_id = Some workItemId \<rparr>"

definition msg_no_executable_device :: string where
  "msg_no_executable_device = ''Local Agent returned no executable device identity''"

definition startWorkItemRun ::
  "string \<Rightarrow> string \<Rightarrow> string \<Rightarrow> string \<Rightarrow> string option \<Rightarrow> string option \<Rightarrow> string
    \<Rightarrow> (chat_ref list \<Rightarrow> string res) \<Rightarrow> (execute_request \<Rightarrow> server_turn res) \<Rightarrow> server_turn res" where
  "startWorkItemRun projectId workItemId title description model idempotencyKey freshKey stage post =
     (let key = or_opt idempotencyKey (requestKey ''work-item'' freshKey) in
      bind_res (stage [work_item_ref workItemId title description])
        (\<lambda>deviceId. if deviceId = [] then Inl (Err msg_no_executable_device)
           else post \<lparr> ex_project_id = projectId, ex_work_item_id = workItemId,
                       ex_target_device_id = deviceId, ex_local_input_key = key,
                       ex_model_ref = or_none model, ex_idempotency_key = key \<rparr>))"

subsection \<open>streamChat\<close>

text \<open>The trace \<open>streamChat\<close> keeps for committing artifacts (\<open>onRunEvent\<close>).\<close>

fun run_trace :: "sse_event \<Rightarrow> trace_item list \<Rightarrow> trace_item list" where
  "run_trace (EvRunRecovered n) tr = []"
| "run_trace (EvThink t) tr = tr @ [TThink t]"
| "run_trace (EvStep t l) tr = tr @ [TStep t l]"
| "run_trace (EvFileRead p r) tr = tr @ [TFileRead p r]"
| "run_trace (EvDiff a f x y) tr = tr @ [TDiff a f x y]"
| "run_trace (EvTodo t) tr = tr @ [TTodo t]"
| "run_trace (EvPlan k v xs p) tr = without_plan tr @ [TPlan k v xs p]"
| "run_trace (EvQaSummary q) tr = tr @ [TQa q]"
| "run_trace (EvContextDegraded r n) tr = tr @ [TContextDegraded r n]"
| "run_trace (EvArtifact a) tr = tr @ [TArtifact a]"
| "run_trace _ tr = tr"

definition assistant_trace :: "sse_event list \<Rightarrow> trace_item list" where
  "assistant_trace evs = fold run_trace evs []"

record commit_request =
  cm_owner_id :: string
  cm_local_path :: string
  cm_project_id :: "string option"
  cm_session_id :: string
  cm_run_id :: string

fun artifact_paths :: "string list \<Rightarrow> trace_item list \<Rightarrow> string list" where
  "artifact_paths seen [] = []"
| "artifact_paths seen (TArtifact a # tr) =
     (if art_path a = [] \<or> art_path a \<in> set seen then artifact_paths seen tr
      else art_path a # artifact_paths (art_path a # seen) tr)"
| "artifact_paths seen (i # tr) = artifact_paths seen tr"

definition commitRunArtifacts ::
  "bool \<Rightarrow> string option \<Rightarrow> server_turn \<Rightarrow> trace_item list \<Rightarrow> commit_request list" where
  "commitRunArtifacts isDesktop ownerId turn tr =
     (if \<not> isDesktop \<or> \<not> truthy ownerId then []
      else map (\<lambda>p. \<lparr> cm_owner_id = opt_str ownerId, cm_local_path = p,
                      cm_project_id = or_none (jstr (jget ''project_id'' (tu_run turn))),
                      cm_session_id = tu_session_id turn, cm_run_id = tu_run_id turn \<rparr>)
             (artifact_paths [] tr))"

text \<open>The catch clause: silent on abort, otherwise an error and a done event.\<close>

definition stream_catch :: "exn \<Rightarrow> sse_event list" where
  "stream_catch e = (if e = AbortError then [] else [EvError (exn_string e), EvDone None])"

record stream_result =
  sr_events :: "sse_event list"
  sr_commits :: "commit_request list"
  sr_finished :: bool

definition streamChat ::
  "server_turn res \<Rightarrow> poll_step list \<Rightarrow> raw_message list res \<Rightarrow> bool \<Rightarrow> string option \<Rightarrow> stream_result" where
  "streamChat prepared steps messages isDesktop ownerId =
     (case prepared of
        Inl e \<Rightarrow> \<lparr> sr_events = stream_catch e, sr_commits = [], sr_finished = True \<rparr>
      | Inr turn \<Rightarrow>
          let pre = [EvSession (tu_session_id turn) (tu_session_title turn),
                     EvRun (tu_run turn) (Some (tu_user_message_id turn))]
          in case followServerRun (tu_run_id turn) steps messages of
               Followed out \<Rightarrow>
                 \<lparr> sr_events = pre @ out,
                   sr_commits = commitRunArtifacts isDesktop ownerId turn (assistant_trace out),
                   sr_finished = True \<rparr>
             | FollowThrew e out \<Rightarrow>
                 \<lparr> sr_events = pre @ out @ stream_catch e, sr_commits = [], sr_finished = True \<rparr>
             | FollowPending out \<Rightarrow>
                 \<lparr> sr_events = pre @ out, sr_commits = [], sr_finished = False \<rparr>)"

subsection \<open>Facts\<close>

lemma followed_ends_done:
  "followServerRun rid steps messages = Followed out \<Longrightarrow> \<exists>es m. out = es @ [EvDone m]"
  by (auto simp: followServerRun_def split: prod.splits loop_outcome.splits sum.splits)

lemma stream_catch_done: "e \<noteq> AbortError \<Longrightarrow> \<exists>es m. stream_catch e = es @ [EvDone m]"
  by (simp add: stream_catch_def)

lemma set_artifact_paths:
  "set (artifact_paths seen tr) = {art_path a | a. TArtifact a \<in> set tr} - {[]} - set seen"
  by (induction seen tr rule: artifact_paths.induct) auto

lemma distinct_artifact_paths: "distinct (artifact_paths seen tr)"
  by (induction seen tr rule: artifact_paths.induct) (auto simp: set_artifact_paths)

text \<open>The artifacts still in the trace: those after the last recovery mark.\<close>

fun live_artifacts :: "sse_event list \<Rightarrow> artifact list \<Rightarrow> artifact list" where
  "live_artifacts [] acc = acc"
| "live_artifacts (EvRunRecovered n # es) acc = live_artifacts es []"
| "live_artifacts (EvArtifact a # es) acc = live_artifacts es (acc @ [a])"
| "live_artifacts (e # es) acc = live_artifacts es acc"

definition trace_artifacts :: "trace_item list \<Rightarrow> artifact list" where
  "trace_artifacts tr = concat (map (\<lambda>i. case i of TArtifact a \<Rightarrow> [a] | _ \<Rightarrow> []) tr)"

lemma trace_artifacts_simps [simp]:
  "trace_artifacts [] = []"
  "trace_artifacts (xs @ ys) = trace_artifacts xs @ trace_artifacts ys"
  "trace_artifacts (i # xs) = (case i of TArtifact a \<Rightarrow> [a] | _ \<Rightarrow> []) @ trace_artifacts xs"
  by (simp_all add: trace_artifacts_def)

lemma trace_artifacts_without_plan [simp]: "trace_artifacts (without_plan tr) = trace_artifacts tr"
  by (induction tr) (auto simp: without_plan_def split: trace_item.splits)

lemma live_artifacts_trace:
  "live_artifacts evs (trace_artifacts tr) = trace_artifacts (fold run_trace evs tr)"
proof (induction evs arbitrary: tr)
  case (Cons e evs)
  have "live_artifacts (e # evs) (trace_artifacts tr) = live_artifacts evs (trace_artifacts (run_trace e tr))"
    by (cases e) simp_all
  with Cons.IH [of "run_trace e tr"] show ?case by simp
qed simp

lemma mem_trace_artifacts: "a \<in> set (trace_artifacts tr) \<longleftrightarrow> TArtifact a \<in> set tr"
  by (induction tr) (auto split: trace_item.splits)

end
