(* ===== verification/ChatFold.thy ===== *)
theory ChatFold
  imports SseEvents
begin

text \<open>
  How one event changes the assistant's message (\<open>src/src/stores/chatStore.ts\<close>). Two folds
  do it: \<open>foldResumedRunEvent\<close>, when a session with a running run is reopened, and the
  \<open>patchBot\<close> calls of \<open>send\<close>'s \<open>onEvent\<close>, when the run was started here. What both
  promise about the text, the trace and the artifacts is the locale \<open>message_fold\<close>,
  interpreted on each of them.
\<close>

subsection \<open>The two folds\<close>

definition reset_message :: "chat_message \<Rightarrow> chat_message" where
  "reset_message m =
     m\<lparr> msg_content := [], msg_trace := [], msg_artifacts := Some [], msg_error := None,
        msg_status := Some MRunning, msg_run_status := Some RRunning \<rparr>"

definition set_run_state :: "run_status \<Rightarrow> chat_message \<Rightarrow> chat_message" where
  "set_run_state st m =
     m\<lparr> msg_status := Some (if terminal_status st then MDone else MRunning),
        msg_run_status := Some st \<rparr>"

definition add_trace :: "trace_item \<Rightarrow> chat_message \<Rightarrow> chat_message" where
  "add_trace i m = m\<lparr> msg_trace := msg_trace m @ [i] \<rparr>"

definition add_artifact :: "artifact \<Rightarrow> chat_message \<Rightarrow> chat_message" where
  "add_artifact a m =
     m\<lparr> msg_artifacts := Some (nullish (msg_artifacts m) [] @ [a]),
        msg_trace := msg_trace m @ [TArtifact a] \<rparr>"

definition set_status :: "msg_status \<Rightarrow> json \<Rightarrow> chat_message \<Rightarrow> chat_message" where
  "set_status s secs m =
     m\<lparr> msg_status := Some s, msg_secs := (if is_nullish secs then msg_secs m else secs) \<rparr>"

definition set_error :: "string \<Rightarrow> chat_message \<Rightarrow> chat_message" where
  "set_error e m =
     m\<lparr> msg_error := Some e, msg_status := Some MDone, msg_run_status := Some RFailed \<rparr>"

fun foldResumedRunEvent :: "chat_message \<Rightarrow> sse_event \<Rightarrow> chat_message" where
  "foldResumedRunEvent m (EvRunRecovered n) = reset_message m"
| "foldResumedRunEvent m (EvRunState st) = set_run_state st m"
| "foldResumedRunEvent m (EvText t) = m\<lparr> msg_content := msg_content m @ t \<rparr>"
| "foldResumedRunEvent m (EvThink t) = add_trace (TThink t) m"
| "foldResumedRunEvent m (EvStep t l) = add_trace (TStep t l) m"
| "foldResumedRunEvent m (EvFileRead p r) = add_trace (TFileRead p r) m"
| "foldResumedRunEvent m (EvDiff a f x y) = add_trace (TDiff a f x y) m"
| "foldResumedRunEvent m (EvTodo t) = add_trace (TTodo t) m"
| "foldResumedRunEvent m (EvPlan k v xs p) =
     m\<lparr> msg_trace := withRunPlan (msg_trace m) v xs p k \<rparr>"
| "foldResumedRunEvent m (EvArtifact a) = add_artifact a m"
| "foldResumedRunEvent m (EvQaSummary q) = add_trace (TQa q) m"
| "foldResumedRunEvent m (EvContextDegraded r n) = add_trace (TContextDegraded r n) m"
| "foldResumedRunEvent m (EvStatus s secs) = set_status s secs m"
| "foldResumedRunEvent m (EvError e) = set_error e m"
| "foldResumedRunEvent m (EvDone mid) =
     m\<lparr> msg_id := or_opt mid (msg_id m), msg_status := Some MDone,
        msg_run_status := (if msg_run_status m \<in> {Some RFailed, Some RCancelled}
                           then msg_run_status m else Some RCompleted) \<rparr>"
| "foldResumedRunEvent m _ = m"

text \<open>
  The live fold: the argument of \<open>patchBot\<close> for each event of \<open>onEvent\<close>; \<open>errored\<close> is the
  local flag of \<open>send\<close>, already set when the error event itself is folded.
\<close>

fun live_patch :: "bool \<Rightarrow> sse_event \<Rightarrow> chat_message \<Rightarrow> chat_message" where
  "live_patch errored (EvRun run u) m =
     m\<lparr> msg_run_id := jstr (jget ''id'' run), msg_run_status := Some RRunning,
        msg_trace := withRunPlan (msg_trace m) (jint_d (jget ''plan_version'' run))
          (jarr_d (jget ''plan'' run)) (jstr (jget ''project_id'' run)) PlanSnapshot \<rparr>"
| "live_patch errored (EvRunRecovered n) m = reset_message m"
| "live_patch errored (EvRunState st) m = set_run_state st m"
| "live_patch errored (EvText t) m = m\<lparr> msg_content := msg_content m @ t \<rparr>"
| "live_patch errored (EvThink t) m = add_trace (TThink t) m"
| "live_patch errored (EvStep t l) m = add_trace (TStep t l) m"
| "live_patch errored (EvFileRead p r) m = add_trace (TFileRead p r) m"
| "live_patch errored (EvDiff a f x y) m = add_trace (TDiff a f x y) m"
| "live_patch errored (EvTodo t) m = add_trace (TTodo t) m"
| "live_patch errored (EvPlan k v xs p) m =
     m\<lparr> msg_trace := withRunPlan (msg_trace m) v xs p k \<rparr>"
| "live_patch errored (EvArtifact a) m = add_artifact a m"
| "live_patch errored (EvQaSummary q) m = add_trace (TQa q) m"
| "live_patch errored (EvContextDegraded r n) m = add_trace (TContextDegraded r n) m"
| "live_patch errored (EvStatus s secs) m = set_status s secs m"
| "live_patch errored (EvError e) m = set_error e m"
| "live_patch errored (EvDone mid) m =
     m\<lparr> msg_id := or_opt mid (msg_id m), msg_status := Some MDone,
        msg_run_status := (if errored then msg_run_status m else Some RCompleted) \<rparr>"
| "live_patch errored _ m = m"

text \<open>The flag as the events arrive, and the folds over a whole stream.\<close>

definition errored_after :: "bool \<Rightarrow> sse_event \<Rightarrow> bool" where
  "errored_after errored e = (errored \<or> event_type e = ''error'')"

definition live_step :: "sse_event \<Rightarrow> bool \<times> chat_message \<Rightarrow> bool \<times> chat_message" where
  "live_step e s = (errored_after (fst s) e, live_patch (errored_after (fst s) e) e (snd s))"

definition resumed_step :: "sse_event \<Rightarrow> chat_message \<Rightarrow> chat_message" where
  "resumed_step e m = foldResumedRunEvent m e"

subsection \<open>What a fold promises\<close>

fun content_step :: "sse_event \<Rightarrow> string \<Rightarrow> string" where
  "content_step (EvText t) c = c @ t"
| "content_step (EvRunRecovered n) c = []"
| "content_step _ c = c"

fun trace_step :: "sse_event \<Rightarrow> trace_item list \<Rightarrow> trace_item list" where
  "trace_step (EvRunRecovered n) tr = []"
| "trace_step (EvThink t) tr = tr @ [TThink t]"
| "trace_step (EvStep t l) tr = tr @ [TStep t l]"
| "trace_step (EvFileRead p r) tr = tr @ [TFileRead p r]"
| "trace_step (EvDiff a f x y) tr = tr @ [TDiff a f x y]"
| "trace_step (EvTodo t) tr = tr @ [TTodo t]"
| "trace_step (EvPlan k v xs p) tr = withRunPlan tr v xs p k"
| "trace_step (EvQaSummary q) tr = tr @ [TQa q]"
| "trace_step (EvContextDegraded r n) tr = tr @ [TContextDegraded r n]"
| "trace_step (EvArtifact a) tr = tr @ [TArtifact a]"
| "trace_step _ tr = tr"

fun artifact_step :: "sse_event \<Rightarrow> artifact list \<Rightarrow> artifact list" where
  "artifact_step (EvRunRecovered n) as = []"
| "artifact_step (EvArtifact a) as = as @ [a]"
| "artifact_step _ as = as"

definition artifacts_of :: "chat_message \<Rightarrow> artifact list" where
  "artifacts_of m = nullish (msg_artifacts m) []"

fun is_run_event :: "sse_event \<Rightarrow> bool" where
  "is_run_event (EvRun r u) = True"
| "is_run_event _ = False"

text \<open>The events after the last recovery mark, and whether there is one.\<close>

fun is_recovery :: "sse_event \<Rightarrow> bool" where
  "is_recovery (EvRunRecovered n) = True"
| "is_recovery _ = False"

definition since_recovery :: "sse_event list \<Rightarrow> sse_event list" where
  "since_recovery evs = rev (takeWhile (\<lambda>e. \<not> is_recovery e) (rev evs))"

definition texts :: "sse_event list \<Rightarrow> string" where
  "texts evs = concat (map (\<lambda>e. case e of EvText t \<Rightarrow> t | _ \<Rightarrow> []) evs)"

definition shown_artifacts :: "sse_event list \<Rightarrow> artifact list" where
  "shown_artifacts evs = concat (map (\<lambda>e. case e of EvArtifact a \<Rightarrow> [a] | _ \<Rightarrow> []) evs)"

lemma since_recovery_snoc [simp]:
  "since_recovery (evs @ [e]) = (if is_recovery e then [] else since_recovery evs @ [e])"
  by (simp add: since_recovery_def)

lemma since_recovery_Nil [simp]: "since_recovery [] = []"
  by (simp add: since_recovery_def)

lemma since_recovery_none: "\<not> (\<exists>e\<in>set evs. is_recovery e) \<Longrightarrow> since_recovery evs = evs"
  by (simp add: since_recovery_def takeWhile_eq_all_conv [THEN iffD2])

lemma fold_content_step: "\<not> (\<exists>e\<in>set evs. is_recovery e) \<Longrightarrow> fold content_step evs c = c @ texts evs"
proof (induction evs arbitrary: c)
  case (Cons e evs)
  then show ?case by (cases e) (simp_all add: texts_def)
qed (simp add: texts_def)

lemma fold_artifact_step:
  "\<not> (\<exists>e\<in>set evs. is_recovery e) \<Longrightarrow> fold artifact_step evs as = as @ shown_artifacts evs"
proof (induction evs arbitrary: as)
  case (Cons e evs)
  then show ?case by (cases e) (simp_all add: shown_artifacts_def)
qed (simp add: shown_artifacts_def)

lemma texts_simps [simp]:
  "texts [] = []" "texts (xs @ ys) = texts xs @ texts ys"
  "texts (e # es) = (case e of EvText t \<Rightarrow> t | _ \<Rightarrow> []) @ texts es"
  by (simp_all add: texts_def)

lemma shown_artifacts_simps [simp]:
  "shown_artifacts [] = []" "shown_artifacts (xs @ ys) = shown_artifacts xs @ shown_artifacts ys"
  "shown_artifacts (e # es) = (case e of EvArtifact a \<Rightarrow> [a] | _ \<Rightarrow> []) @ shown_artifacts es"
  by (simp_all add: shown_artifacts_def)

locale message_fold =
  fixes step :: "sse_event \<Rightarrow> 's \<Rightarrow> 's"
    and view :: "'s \<Rightarrow> chat_message"
  assumes content_law: "msg_content (view (step e s)) = content_step e (msg_content (view s))"
    and trace_law:
      "\<not> is_run_event e \<Longrightarrow> msg_trace (view (step e s)) = trace_step e (msg_trace (view s))"
    and artifact_law: "artifacts_of (view (step e s)) = artifact_step e (artifacts_of (view s))"
    and role_law: "msg_role (view (step e s)) = msg_role (view s)"
begin

lemma content_stream:
  "msg_content (view (fold step evs s)) =
     (if \<exists>e\<in>set evs. is_recovery e then [] else msg_content (view s)) @ texts (since_recovery evs)"
proof (induction evs rule: rev_induct)
  case (snoc e evs)
  then show ?case by (cases e) (auto simp: content_law)
qed simp

lemma artifact_stream:
  "artifacts_of (view (fold step evs s)) =
     (if \<exists>e\<in>set evs. is_recovery e then [] else artifacts_of (view s))
       @ shown_artifacts (since_recovery evs)"
proof (induction evs rule: rev_induct)
  case (snoc e evs)
  then show ?case by (cases e) (auto simp: artifact_law)
qed simp

lemma content_fold: "msg_content (view (fold step evs s)) = fold content_step evs (msg_content (view s))"
  by (induction evs arbitrary: s) (auto simp: content_law)

lemma artifact_fold: "artifacts_of (view (fold step evs s)) = fold artifact_step evs (artifacts_of (view s))"
  by (induction evs arbitrary: s) (auto simp: artifact_law)

lemma trace_stream:
  "\<not> (\<exists>e\<in>set evs. is_run_event e) \<Longrightarrow>
   msg_trace (view (fold step evs s)) = fold trace_step evs (msg_trace (view s))"
  by (induction evs arbitrary: s) (auto simp: trace_law)

lemma role_stream: "msg_role (view (fold step evs s)) = msg_role (view s)"
  by (induction evs arbitrary: s) (auto simp: role_law)

end

lemmas fold_defs = reset_message_def set_run_state_def add_trace_def add_artifact_def
  set_status_def set_error_def

interpretation resumed: message_fold resumed_step "\<lambda>m. m"
proof
  fix e :: sse_event and m :: chat_message
  show "msg_content (resumed_step e m) = content_step e (msg_content m)"
    by (cases e) (simp_all add: resumed_step_def fold_defs)
  show "msg_trace (resumed_step e m) = trace_step e (msg_trace m)" if "\<not> is_run_event e"
    using that by (cases e) (simp_all add: resumed_step_def fold_defs)
  show "artifacts_of (resumed_step e m) = artifact_step e (artifacts_of m)"
    by (cases e) (simp_all add: resumed_step_def fold_defs artifacts_of_def)
  show "msg_role (resumed_step e m) = msg_role m"
    by (cases e) (simp_all add: resumed_step_def fold_defs)
qed

interpretation live: message_fold live_step snd
proof
  fix e :: sse_event and s :: "bool \<times> chat_message"
  show "msg_content (snd (live_step e s)) = content_step e (msg_content (snd s))"
    by (cases e) (simp_all add: live_step_def fold_defs)
  show "msg_trace (snd (live_step e s)) = trace_step e (msg_trace (snd s))" if "\<not> is_run_event e"
    using that by (cases e) (simp_all add: live_step_def fold_defs)
  show "artifacts_of (snd (live_step e s)) = artifact_step e (artifacts_of (snd s))"
    by (cases e) (simp_all add: live_step_def fold_defs artifacts_of_def)
  show "msg_role (snd (live_step e s)) = msg_role (snd s)"
    by (cases e) (simp_all add: live_step_def fold_defs)
qed

subsection \<open>The two folds compared\<close>

definition same_but_run :: "chat_message \<Rightarrow> chat_message \<Rightarrow> bool" where
  "same_but_run a b \<longleftrightarrow> a\<lparr>msg_run_status := None\<rparr> = b\<lparr>msg_run_status := None\<rparr>"

lemma live_resumed_step:
  "\<not> is_run_event e \<Longrightarrow> same_but_run a b \<Longrightarrow>
   same_but_run (live_patch errored e a) (foldResumedRunEvent b e)"
  by (cases a; cases b; cases e) (auto simp: same_but_run_def fold_defs)

lemma live_resumed_same:
  "\<not> is_run_event e \<Longrightarrow> (\<And>m. e \<noteq> EvDone m) \<Longrightarrow> live_patch errored e m = foldResumedRunEvent m e"
  by (cases e) auto

lemma live_resumed_stream:
  "\<not> (\<exists>e\<in>set evs. is_run_event e) \<Longrightarrow> same_but_run (snd s) m \<Longrightarrow>
   same_but_run (snd (fold live_step evs s)) (fold resumed_step evs m)"
proof (induction evs arbitrary: s m)
  case (Cons e evs)
  have "same_but_run (snd (live_step e s)) (resumed_step e m)"
    using Cons.prems by (simp add: live_step_def resumed_step_def live_resumed_step)
  with Cons show ?case by simp
qed simp

subsection \<open>Properties\<close>

text \<open>
  A run looks the same whether it was followed from the start or reopened: the live fold
  and the fold of a reopened session turn equal messages into messages that differ at most in
  the run's status.
\<close>

theorem live_agrees_with_reopened:
  assumes "\<forall>e\<in>set evs. \<not> is_run_event e" "same_but_run (snd s) m"
  shows "same_but_run (snd (fold live_step evs s)) (fold resumed_step evs m)"
  using assms by (intro live_resumed_stream) auto

theorem live_agrees_with_reopened_witness:
  "same_but_run
     (snd (fold live_step [EvText ''a'', EvRunRecovered 2, EvText ''b'', EvDone None]
       (False, new_message ''i'' RoleAssistant [])))
     (fold resumed_step [EvText ''a'', EvRunRecovered 2, EvText ''b'', EvDone None]
       (new_message ''i'' RoleAssistant []))"
  by (rule live_agrees_with_reopened) (simp_all add: same_but_run_def)

end
