(* ===== verification/ChatStore.thy ===== *)
theory ChatStore
  imports ChatFold
begin

text \<open>
  The chat store (\<open>src/src/stores/chatStore.ts\<close>): its state and every operation. An
  operation returns the new state and the calls it makes on other stores and services, in
  order (\<open>effect\<close>). An asynchronous operation is cut at its \<open>await\<close>: a \<open>_begin\<close> part
  that runs at once and a part that runs when the answer arrives, on whatever state the store
  has by then. Abort controllers are object identities, modelled as numbers.
\<close>

subsection \<open>State and effects\<close>

record pending_question =
  pq_questions :: "json list"
  pq_event_id :: string
  pq_run_id :: string

record chat_state =
  cs_sessions :: "session_info list"
  cs_sessions_loading :: bool
  cs_sessions_error :: "string option"
  cs_sessions_updated_at :: "int option"
  cs_active_id :: "string option"
  cs_title :: string
  cs_messages :: "chat_message list"
  cs_streaming :: bool
  cs_abort :: "nat option"
  cs_pending :: "pending_question option"
  cs_active_project_id :: "string option"
  cs_read_only :: bool
  cs_owner_name :: "string option"

datatype effect =
    EffAbort nat
  | EffCloseFile
  | EffLoadoutReset
  | EffClearRefs
  | EffSetView bool "string option" string
  | EffApplyRemote work_item_change
  | EffSetUsage int int json
  | EffLoadSessions
  | EffToast string
  | EffAnswerRun string string "string list"
  | EffPauseRun string
  | EffResumeRun string
  | EffCancelRun string
  | EffSend string "string option"

type_synonym 'a with_effects = "'a \<times> effect list"

definition initial_chat :: chat_state where
  "initial_chat =
     \<lparr> cs_sessions = [], cs_sessions_loading = False, cs_sessions_error = None,
       cs_sessions_updated_at = None, cs_active_id = None, cs_title = ''chat'', cs_messages = [],
       cs_streaming = False, cs_abort = None, cs_pending = None, cs_active_project_id = None,
       cs_read_only = False, cs_owner_name = None \<rparr>"

subsection \<open>Sessions\<close>

definition msg_sessions_failed :: string where
  "msg_sessions_failed = ''Server execution records could not be read''"

definition loadSessions_begin :: "chat_state \<Rightarrow> chat_state" where
  "loadSessions_begin st = st\<lparr> cs_sessions_loading := True, cs_sessions_error := None \<rparr>"

definition loadSessions_done :: "session_info list res \<Rightarrow> int \<Rightarrow> chat_state \<Rightarrow> chat_state" where
  "loadSessions_done r now st =
     (case r of
        Inr sessions \<Rightarrow>
          st\<lparr> cs_sessions := sessions, cs_sessions_loading := False, cs_sessions_error := None,
              cs_sessions_updated_at := Some now \<rparr>
      | Inl e \<Rightarrow> st\<lparr> cs_sessions_loading := False, cs_sessions_error := Some msg_sessions_failed \<rparr>)"

definition detach :: "chat_state \<Rightarrow> chat_state with_effects" where
  "detach st =
     (st\<lparr> cs_streaming := False, cs_abort := None, cs_pending := None \<rparr>,
      case cs_abort st of None \<Rightarrow> [] | Some c \<Rightarrow> [EffAbort c])"

definition detach_if_streaming :: "chat_state \<Rightarrow> chat_state with_effects" where
  "detach_if_streaming st = (if cs_streaming st then detach st else (st, []))"

subsection \<open>Opening a session\<close>

fun active_server_run :: "run_status \<Rightarrow> bool" where
  "active_server_run RQueued = True"
| "active_server_run RLeased = True"
| "active_server_run RRunning = True"
| "active_server_run RWaitingUser = True"
| "active_server_run RPaused = True"
| "active_server_run RRecoverable = True"
| "active_server_run _ = False"

definition render_message :: "raw_message \<Rightarrow> chat_message" where
  "render_message m =
     \<lparr> msg_id = rm_id m, msg_role = rm_role m, msg_content = rm_content m,
       msg_trace = withRunPlan (nullish (rm_trace m) []) (nullish (rm_run_plan_version m) 0)
         (nullish (rm_run_plan m) []) (rm_run_project_id m) PlanSnapshot,
       msg_status = Some MDone, msg_secs = JUndef, msg_usage = rm_usage m, msg_error = rm_error m,
       msg_run_id = rm_run_id m, msg_run_status = rm_run_status m,
       msg_pending_question = rm_pending_question m,
       msg_queue_context = rm_run_queue_context m, msg_artifacts = None \<rparr>"

definition active_run :: "agent_run list \<Rightarrow> agent_run option" where
  "active_run runs = List.find (\<lambda>r. active_server_run (ar_status r)) (sort_desc ar_created_at runs)"

definition resumed_bot_id :: "agent_run \<Rightarrow> string" where
  "resumed_bot_id run = ''server-run:'' @ ar_id run"

definition resumed_bot :: "agent_run \<Rightarrow> chat_message" where
  "resumed_bot run =
     (new_message (resumed_bot_id run) RoleAssistant [])
       \<lparr> msg_status := Some MRunning, msg_run_id := Some (ar_id run),
         msg_run_status := Some (ar_status run), msg_queue_context := ar_queue_context run \<rparr>"

definition rendered_messages :: "raw_message list \<Rightarrow> agent_run option \<Rightarrow> chat_message list" where
  "rendered_messages ms run =
     (let rendered = map render_message ms in
      case run of
        None \<Rightarrow> rendered
      | Some r \<Rightarrow>
          if \<exists>m\<in>set rendered. msg_run_id m = Some (ar_id r) \<and> msg_role m = RoleAssistant
          then rendered else rendered @ [resumed_bot r])"

definition openSession_begin :: "chat_state \<Rightarrow> chat_state with_effects" where
  "openSession_begin st =
     (case detach_if_streaming st of (st1, effs) \<Rightarrow> (st1, effs @ [EffCloseFile, EffLoadoutReset]))"

record opened_session =
  oq_session :: session_info
  oq_messages :: "raw_message list"
  oq_runs :: "agent_run list"

text \<open>The answer to \<open>api.getMessages\<close>: on an error nothing is set and the error is rethrown.\<close>

definition openSession_done ::
  "string \<Rightarrow> opened_session res \<Rightarrow> nat \<Rightarrow> chat_state \<Rightarrow> chat_state res" where
  "openSession_done i r controller st =
     (case r of
        Inl e \<Rightarrow> Inl e
      | Inr oq \<Rightarrow>
          let run = active_run (oq_runs oq) in
          Inr (st\<lparr> cs_active_id := Some i,
                   cs_active_project_id := si_project_id (oq_session oq),
                   cs_title := si_title (oq_session oq),
                   cs_read_only := nullish (si_read_only (oq_session oq)) False,
                   cs_owner_name := si_owner_name (oq_session oq),
                   cs_messages := rendered_messages (oq_messages oq) run,
                   cs_streaming := (run \<noteq> None),
                   cs_abort := (case run of None \<Rightarrow> None | Some _ \<Rightarrow> Some controller),
                   cs_pending := None \<rparr>))"

text \<open>The follower started by \<open>openSession\<close> for the active run.\<close>

record resume_local =
  rl_controller :: nat
  rl_session_id :: string
  rl_read_only :: bool
  rl_run_id :: string
  rl_bot_id :: string

definition patch_resumed :: "resume_local \<Rightarrow> sse_event \<Rightarrow> chat_state \<Rightarrow> chat_state" where
  "patch_resumed l e st =
     st\<lparr> cs_messages := upd_where
           (\<lambda>m. msg_role m = RoleAssistant \<and> (msg_id m = rl_bot_id l \<or> msg_run_id m = Some (rl_run_id l)))
           (\<lambda>m. foldResumedRunEvent m e) (cs_messages st) \<rparr>"

definition resumed_event :: "resume_local \<Rightarrow> sse_event \<Rightarrow> chat_state \<Rightarrow> chat_state with_effects" where
  "resumed_event l e st =
     (if cs_abort st \<noteq> Some (rl_controller l) \<or> cs_active_id st \<noteq> Some (rl_session_id l) then (st, [])
      else
        let (st1, effs) =
          (case e of
             EvAskUser qs qid \<Rightarrow>
               (if truthy qid \<and> \<not> rl_read_only l
                then (st\<lparr> cs_pending := Some \<lparr> pq_questions = qs, pq_event_id = opt_str qid,
                            pq_run_id = rl_run_id l \<rparr> \<rparr>, [])
                else (st, []))
           | EvQaSummary q \<Rightarrow> (st\<lparr> cs_pending := None \<rparr>, [])
           | EvRunRecovered n \<Rightarrow> (st\<lparr> cs_pending := None \<rparr>, [])
           | EvWorkItem w \<Rightarrow> (st, [EffApplyRemote w])
           | EvUsage p u d \<Rightarrow> (st, [EffSetUsage p u d])
           | _ \<Rightarrow> (st, []))
        in (patch_resumed l e st1, effs))"

text \<open>The \<open>catch\<close> and \<open>finally\<close> of the follower.\<close>

definition resumed_catch :: "resume_local \<Rightarrow> exn \<Rightarrow> chat_state \<Rightarrow> chat_state" where
  "resumed_catch l e st =
     (if e \<noteq> AbortError \<and> cs_abort st = Some (rl_controller l)
      then patch_resumed l (EvError (exn_string e)) st else st)"

definition resumed_finally :: "resume_local \<Rightarrow> chat_state \<Rightarrow> chat_state with_effects" where
  "resumed_finally l st =
     (if cs_abort st = Some (rl_controller l)
      then (st\<lparr> cs_streaming := False, cs_abort := None, cs_pending := None \<rparr>, [EffLoadSessions])
      else (st, []))"

subsection \<open>Drafts\<close>

definition startDraft :: "string \<Rightarrow> chat_state \<Rightarrow> chat_state with_effects" where
  "startDraft title st =
     (case detach_if_streaming st of (st1, effs) \<Rightarrow>
        (st1\<lparr> cs_active_id := None, cs_active_project_id := None, cs_title := title,
              cs_messages := [], cs_read_only := False, cs_owner_name := None \<rparr>,
         effs @ [EffCloseFile]))"

definition startProject :: "string \<Rightarrow> string \<Rightarrow> chat_state \<Rightarrow> chat_state with_effects" where
  "startProject projectId name st =
     (case detach_if_streaming st of (st1, effs) \<Rightarrow>
        (st1\<lparr> cs_active_id := None, cs_active_project_id := Some projectId, cs_title := name,
              cs_messages := [], cs_read_only := False, cs_owner_name := None \<rparr>,
         effs @ [EffCloseFile]))"

subsection \<open>Sending\<close>

text \<open>The local variables of one call of \<open>send\<close>.\<close>

record send_local =
  sl_controller :: nat
  sl_user_id :: string
  sl_bot_id :: string
  sl_errored :: bool
  sl_done_ok :: bool
  sl_session_id :: "string option"
  sl_run_id :: string

definition send_begin ::
  "string \<Rightarrow> string \<Rightarrow> string \<Rightarrow> nat \<Rightarrow> chat_state \<Rightarrow> (send_local \<times> chat_state) option" where
  "send_begin text uid bid controller st =
     (if trim text = [] \<or> cs_streaming st \<or> cs_read_only st then None
      else Some
        (\<lparr> sl_controller = controller, sl_user_id = uid, sl_bot_id = bid, sl_errored = False,
           sl_done_ok = False, sl_session_id = cs_active_id st, sl_run_id = [] \<rparr>,
         st\<lparr> cs_messages := cs_messages st
               @ [new_message uid RoleUser (trim text),
                  (new_message bid RoleAssistant []) \<lparr> msg_status := Some MRunning \<rparr>],
             cs_streaming := True, cs_abort := Some controller \<rparr>))"

definition patch_bot ::
  "string \<Rightarrow> (chat_message \<Rightarrow> chat_message) \<Rightarrow> chat_state \<Rightarrow> chat_state" where
  "patch_bot bid f st = st\<lparr> cs_messages := upd_key msg_id bid f (cs_messages st) \<rparr>"

text \<open>
  \<open>onEvent\<close>: frames of a superseded stream are dropped; otherwise the store changes of the
  event's case, then the patch of the assistant's message.
\<close>

definition send_event ::
  "sse_event \<Rightarrow> send_local \<times> chat_state \<Rightarrow> (send_local \<times> chat_state) with_effects" where
  "send_event e ls =
     (case ls of (l, st) \<Rightarrow>
      if cs_abort st \<noteq> Some (sl_controller l) then ((l, st), [])
      else
        let patch = (\<lambda>errored st. patch_bot (sl_bot_id l) (live_patch errored e) st) in
        (case e of
           EvSession i t \<Rightarrow>
             ((l\<lparr> sl_session_id := Some i \<rparr>, st\<lparr> cs_active_id := Some i, cs_title := t \<rparr>),
              [EffSetView (truthy (cs_active_project_id st)) (cs_active_project_id st) i])
         | EvRun run u \<Rightarrow>
             (let st1 = (if truthy u
                  then st\<lparr> cs_messages := upd_key msg_id (sl_user_id l)
                             (\<lambda>m. m\<lparr> msg_id := opt_str u \<rparr>) (cs_messages st) \<rparr>
                  else st)
              in ((l\<lparr> sl_run_id := jstr_d (jget ''id'' run) \<rparr>, patch (sl_errored l) st1), []))
         | EvRunRecovered n \<Rightarrow> ((l, patch (sl_errored l) (st\<lparr> cs_pending := None \<rparr>)), [])
         | EvAskUser qs qid \<Rightarrow>
             (if truthy qid \<and> sl_run_id l \<noteq> []
              then ((l, st\<lparr> cs_pending := Some \<lparr> pq_questions = qs, pq_event_id = opt_str qid,
                                pq_run_id = sl_run_id l \<rparr> \<rparr>), [])
              else ((l, st), []))
         | EvQaSummary q \<Rightarrow> ((l, patch (sl_errored l) (st\<lparr> cs_pending := None \<rparr>)), [])
         | EvWorkItem w \<Rightarrow> ((l, st), [EffApplyRemote w])
         | EvUsage p u d \<Rightarrow> ((l, st), [EffSetUsage p u d])
         | EvError m \<Rightarrow> ((l\<lparr> sl_errored := True \<rparr>, patch True st), [])
         | EvDone m \<Rightarrow> ((l\<lparr> sl_done_ok := \<not> sl_errored l \<rparr>, patch (sl_errored l) st), [])
         | _ \<Rightarrow> ((l, patch (sl_errored l) st), [])))"

text \<open>The defensive \<open>catch\<close> of \<open>send\<close>, and its \<open>finally\<close>.\<close>

definition send_catch :: "send_local \<Rightarrow> exn \<Rightarrow> chat_state \<Rightarrow> chat_state" where
  "send_catch l e st =
     patch_bot (sl_bot_id l)
       (\<lambda>m. m\<lparr> msg_status := Some MDone,
               msg_error := (case msg_error m of None \<Rightarrow> Some (exn_string e) | Some x \<Rightarrow> Some x) \<rparr>) st"

definition send_finally :: "send_local \<Rightarrow> chat_state \<Rightarrow> chat_state with_effects" where
  "send_finally l st =
     ((if cs_abort st = Some (sl_controller l)
       then st\<lparr> cs_streaming := False, cs_abort := None, cs_pending := None \<rparr> else st),
      (if sl_done_ok l then [EffClearRefs] else []) @ [EffLoadSessions])"

fun retryable :: "run_status \<Rightarrow> bool" where
  "retryable RFailed = True"
| "retryable RCancelled = True"
| "retryable RPaused = True"
| "retryable _ = False"

text \<open>\<open>retry\<close>: the call of \<open>send\<close> it makes, if any.\<close>

definition retry :: "string \<Rightarrow> chat_state \<Rightarrow> effect list" where
  "retry messageId st =
     (if cs_streaming st \<or> cs_read_only st then []
      else
        let before = takeWhile (\<lambda>m. msg_id m \<noteq> messageId) (cs_messages st) in
        case find_key msg_id messageId (cs_messages st) of
          None \<Rightarrow> []
        | Some message \<Rightarrow>
            (case (msg_run_id message, msg_run_status message) of
               (Some rid, Some rs) \<Rightarrow>
                 (if rid = [] \<or> \<not> retryable rs then []
                  else case find_last (\<lambda>m. msg_role m = RoleUser) before of
                    None \<Rightarrow> []
                  | Some u \<Rightarrow> [EffSend (msg_content u) (Some rid)])
             | _ \<Rightarrow> []))"

subsection \<open>Answering, pausing, resuming, cancelling\<close>

definition answer :: "string list \<Rightarrow> chat_state \<Rightarrow> chat_state with_effects" where
  "answer answers st =
     (case cs_pending st of
        None \<Rightarrow> (st, [])
      | Some p \<Rightarrow> (st\<lparr> cs_pending := None \<rparr>, [EffAnswerRun (pq_run_id p) (pq_event_id p) answers]))"

definition msg_answer_failed :: string where
  "msg_answer_failed = ''submitting the answer failed, please retry''"

text \<open>The rejection handler of \<open>answer\<close>, with the question it had taken.\<close>

definition answer_failed :: "pending_question \<Rightarrow> chat_state \<Rightarrow> chat_state with_effects" where
  "answer_failed p st = (st\<lparr> cs_pending := Some p \<rparr>, [EffToast msg_answer_failed])"

definition has_run :: "chat_message \<Rightarrow> bool" where
  "has_run m \<longleftrightarrow> truthy (msg_run_id m)"

definition running_message :: "chat_state \<Rightarrow> chat_message option" where
  "running_message st = find_last (\<lambda>m. msg_status m = Some MRunning \<and> has_run m) (cs_messages st)"

definition pause :: "chat_state \<Rightarrow> effect list" where
  "pause st =
     (case running_message st of
        None \<Rightarrow> []
      | Some m \<Rightarrow> if msg_run_status m = Some RPaused then [] else [EffPauseRun (opt_str (msg_run_id m))])"

definition msg_pause_requested :: string where
  "msg_pause_requested = ''pause requested, waiting for Local Agent''"

definition pause_done :: "unit res \<Rightarrow> effect list" where
  "pause_done r = [EffToast (case r of Inr _ \<Rightarrow> msg_pause_requested | Inl e \<Rightarrow> exn_message e)]"

definition stop :: "chat_state \<Rightarrow> effect list" where
  "stop st = pause st"

definition resume :: "chat_state \<Rightarrow> effect list" where
  "resume st =
     (case find_last (\<lambda>m. msg_run_status m = Some RPaused \<and> has_run m) (cs_messages st) of
        None \<Rightarrow> []
      | Some m \<Rightarrow> [EffResumeRun (opt_str (msg_run_id m))])"

definition msg_resumed :: "run_status \<Rightarrow> string" where
  "msg_resumed rs =
     (if rs = RFailed then ''the execution node lost its recovery point, retry the run''
      else if rs = RRecoverable then ''not started yet, reconnecting Local Agent''
      else ''resume requested'')"

definition resume_done :: "string \<Rightarrow> agent_run res \<Rightarrow> chat_state \<Rightarrow> chat_state with_effects" where
  "resume_done rid r st =
     (case r of
        Inl e \<Rightarrow> (st, [EffToast (exn_message e)])
      | Inr run \<Rightarrow>
          (st\<lparr> cs_messages := upd_where (\<lambda>m. msg_run_id m = Some rid)
                 (\<lambda>m. m\<lparr> msg_status := Some (if ar_status run \<in> {RFailed, RCancelled} then MDone else MRunning),
                         msg_run_status := Some (ar_status run),
                         msg_error := (if ar_status run = RFailed
                            then (if truthy (ar_error_message run) then ar_error_message run
                                  else if truthy (ar_error_code run) then ar_error_code run
                                  else msg_error m)
                            else msg_error m) \<rparr>)
                 (cs_messages st) \<rparr>,
           [EffToast (msg_resumed (ar_status run))]))"

definition cancel :: "chat_state \<Rightarrow> effect list" where
  "cancel st =
     (case running_message st of
        None \<Rightarrow> [] | Some m \<Rightarrow> [EffCancelRun (opt_str (msg_run_id m))])"

definition msg_cancel_requested :: string where
  "msg_cancel_requested = ''cancel requested, waiting for Local Agent''"

definition cancel_done :: "unit res \<Rightarrow> effect list" where
  "cancel_done r = [EffToast (case r of Inr _ \<Rightarrow> msg_cancel_requested | Inl e \<Rightarrow> exn_message e)]"

end
