(* ===== verification/ChatRuns.thy ===== *)
theory ChatRuns
  imports ChatStore
begin

text \<open>
  The chat store in motion: one step relation for all of its operations
  (\<open>src/src/stores/chatStore.ts\<close>), in any order and with any answers, what every reachable
  state has, what a stream that was replaced can still do, and what \<open>send\<close> makes of the
  whole stream of a run: the assistant's message is the live fold of the events.
\<close>

subsection \<open>The step relation\<close>

text \<open>
  \<open>new AbortController()\<close> gives an identity never seen before: the world is the state with
  the next free number.
\<close>

type_synonym chat_world = "nat \<times> chat_state"

inductive chat_step :: "chat_world \<Rightarrow> chat_world \<Rightarrow> bool" where
  c_load_begin: "chat_step (n, st) (n, loadSessions_begin st)"
| c_load_done: "chat_step (n, st) (n, loadSessions_done r now st)"
| c_detach: "chat_step (n, st) (n, fst (detach st))"
| c_open_begin: "chat_step (n, st) (n, fst (openSession_begin st))"
| c_open_done: "openSession_done i r n st = Inr st' \<Longrightarrow> chat_step (n, st) (Suc n, st')"
| c_resumed_event: "chat_step (n, st) (n, fst (resumed_event l e st))"
| c_resumed_catch: "chat_step (n, st) (n, resumed_catch l x st)"
| c_resumed_finally: "chat_step (n, st) (n, fst (resumed_finally l st))"
| c_draft: "chat_step (n, st) (n, fst (startDraft t st))"
| c_project: "chat_step (n, st) (n, fst (startProject p t st))"
| c_send: "send_begin t u b n st = Some (l, st') \<Longrightarrow> chat_step (n, st) (Suc n, st')"
| c_send_event: "chat_step (n, st) (n, snd (fst (send_event e (l, st))))"
| c_send_catch: "chat_step (n, st) (n, send_catch l x st)"
| c_send_finally: "chat_step (n, st) (n, fst (send_finally l st))"
| c_answer: "chat_step (n, st) (n, fst (answer as st))"
| c_answer_failed: "chat_step (n, st) (n, fst (answer_failed p st))"
| c_resume_done: "chat_step (n, st) (n, fst (resume_done rid rr st))"

inductive_cases chat_stepE: "chat_step w w'"

definition chat_reaches :: "chat_world \<Rightarrow> chat_world \<Rightarrow> bool" where
  "chat_reaches = rtranclp chat_step"

text \<open>The part of the state the streams use, and how each operation leaves it.\<close>

definition stream_part :: "chat_state \<Rightarrow> bool \<times> nat option" where
  "stream_part st = (cs_streaming st, cs_abort st)"

named_theorems stream_simps

lemma stream_part_patch [stream_simps]:
  "stream_part (patch_bot b f st) = stream_part st"
  "stream_part (patch_resumed rl e st) = stream_part st"
  by (simp_all add: stream_part_def patch_bot_def patch_resumed_def)

lemma stream_part_upd [stream_simps]:
  "stream_part (st\<lparr>cs_pending := p\<rparr>) = stream_part st"
  "stream_part (st\<lparr>cs_messages := ms\<rparr>) = stream_part st"
  "stream_part (st\<lparr>cs_active_id := i, cs_title := t\<rparr>) = stream_part st"
  by (simp_all add: stream_part_def)

lemma stream_part_load [stream_simps]:
  "stream_part (loadSessions_begin st) = stream_part st"
  "stream_part (loadSessions_done r now st) = stream_part st"
  by (simp_all add: stream_part_def loadSessions_begin_def loadSessions_done_def split: sum.split)

lemma stream_part_events [stream_simps]:
  "stream_part (snd (fst (send_event e (l, st)))) = stream_part st"
  "stream_part (fst (resumed_event rl e st)) = stream_part st"
  by (cases e; simp add: send_event_def resumed_event_def Let_def stream_simps)+

lemma stream_part_catches [stream_simps]:
  "stream_part (send_catch l x st) = stream_part st"
  "stream_part (resumed_catch rl x st) = stream_part st"
  by (simp_all add: send_catch_def resumed_catch_def stream_simps)

lemma stream_part_answers [stream_simps]:
  "stream_part (fst (answer as st)) = stream_part st"
  "stream_part (fst (answer_failed p st)) = stream_part st"
  "stream_part (fst (resume_done rid rr st)) = stream_part st"
  by (simp_all add: answer_def answer_failed_def resume_done_def stream_simps
      split: option.split sum.split)

lemma stream_part_detach [stream_simps]: "stream_part (fst (detach st)) = (False, None)"
  by (simp add: stream_part_def detach_def)

lemma stream_part_drafts:
  "stream_part (fst (startDraft t st)) = (if cs_streaming st then (False, None) else stream_part st)"
  "stream_part (fst (startProject p t st)) = (if cs_streaming st then (False, None) else stream_part st)"
  "stream_part (fst (openSession_begin st)) = (if cs_streaming st then (False, None) else stream_part st)"
  by (simp_all add: startDraft_def startProject_def openSession_begin_def detach_if_streaming_def
      detach_def stream_part_def)

lemma stream_part_finally:
  "stream_part (fst (send_finally l st)) =
     (if cs_abort st = Some (sl_controller l) then (False, None) else stream_part st)"
  "stream_part (fst (resumed_finally rl st)) =
     (if cs_abort st = Some (rl_controller rl) then (False, None) else stream_part st)"
  by (simp_all add: send_finally_def resumed_finally_def stream_part_def)

lemma stream_part_opened:
  "openSession_done i r n st = Inr st' \<Longrightarrow>
   stream_part st' = (False, None) \<or> stream_part st' = (True, Some n)"
  by (auto simp: openSession_done_def stream_part_def Let_def split: sum.splits option.splits)

lemma stream_part_send:
  "send_begin t u b n st = Some (l, st') \<Longrightarrow> stream_part st' = (True, Some n) \<and> sl_controller l = n"
  by (auto simp: send_begin_def stream_part_def split: if_splits)

text \<open>Every step leaves the streams alone, ends them, or starts one with the new controller.\<close>

lemma chat_step_stream:
  assumes "chat_step (n, st) (n', st')"
  shows "n \<le> n' \<and> (stream_part st' = stream_part st \<or> stream_part st' = (False, None)
           \<or> stream_part st' = (True, Some n) \<and> n' = Suc n)"
  using assms
  by (cases rule: chat_stepE)
     (auto simp: stream_simps stream_part_drafts stream_part_finally
       split: if_splits dest: stream_part_opened stream_part_send)

subsection \<open>What every reachable state has\<close>

definition stream_ok :: "chat_world \<Rightarrow> bool" where
  "stream_ok w \<longleftrightarrow>
     (case stream_part (snd w) of
        (s, None) \<Rightarrow> \<not> s
      | (s, Some c) \<Rightarrow> s \<and> c < fst w)"

lemma stream_ok_step: "chat_step w w' \<Longrightarrow> stream_ok w \<Longrightarrow> stream_ok w'"
  using chat_step_stream [of "fst w" "snd w" "fst w'" "snd w'"]
  by (auto simp: stream_ok_def split: prod.splits option.splits)

lemma stream_ok_reaches: "chat_reaches w w' \<Longrightarrow> stream_ok w \<Longrightarrow> stream_ok w'"
  unfolding chat_reaches_def
  by (induction rule: rtranclp_induct) (auto intro: stream_ok_step)

text \<open>A controller that is not the store's, and was given out, never comes back.\<close>

lemma retired_step:
  "chat_step w w' \<Longrightarrow> cs_abort (snd w) \<noteq> Some c \<Longrightarrow> c < fst w \<Longrightarrow>
   cs_abort (snd w') \<noteq> Some c \<and> c < fst w'"
  using chat_step_stream [of "fst w" "snd w" "fst w'" "snd w'"]
  by (auto simp: stream_part_def)

lemma retired_reaches:
  "chat_reaches w w' \<Longrightarrow> cs_abort (snd w) \<noteq> Some c \<Longrightarrow> c < fst w \<Longrightarrow>
   cs_abort (snd w') \<noteq> Some c \<and> c < fst w'"
  unfolding chat_reaches_def
  by (induction rule: rtranclp_induct) (auto dest: retired_step)

lemma send_event_retired:
  "cs_abort st \<noteq> Some (sl_controller l) \<Longrightarrow> send_event e (l, st) = ((l, st), [])"
  by (simp add: send_event_def)

lemma resumed_event_retired:
  "cs_abort st \<noteq> Some (rl_controller rl) \<Longrightarrow> resumed_event rl e st = (st, [])"
  by (simp add: resumed_event_def)

subsection \<open>What \<open>send\<close> makes of a stream\<close>

definition send_stream :: "sse_event list \<Rightarrow> send_local \<times> chat_state \<Rightarrow> send_local \<times> chat_state" where
  "send_stream evs ls = fold (\<lambda>e ls. fst (send_event e ls)) evs ls"

definition live_fold :: "sse_event list \<Rightarrow> bool \<times> chat_message \<Rightarrow> bool \<times> chat_message" where
  "live_fold evs s = fold live_step evs s"

fun is_done :: "sse_event \<Rightarrow> bool" where
  "is_done (EvDone m) = True"
| "is_done _ = False"

text \<open>No \<open>run\<close> event gives the user's message the id of the assistant's.\<close>

fun renames_to :: "string \<Rightarrow> sse_event \<Rightarrow> bool" where
  "renames_to b (EvRun r u) \<longleftrightarrow> u = Some b"
| "renames_to b _ \<longleftrightarrow> False"

text \<open>
  The shape of the store while the stream of \<open>l\<close> runs: the conversation as it was, the
  user's message, and the assistant's message \<open>snd s\<close>; \<open>fst s\<close> is the error flag.
\<close>

definition sending ::
  "chat_message list \<Rightarrow> string \<Rightarrow> bool \<times> chat_message \<Rightarrow> send_local \<times> chat_state \<Rightarrow> bool" where
  "sending old text s ls \<longleftrightarrow>
     (\<exists>v. cs_messages (snd ls) = old @ [v, snd s] \<and> msg_content v = text \<and> msg_role v = RoleUser
        \<and> msg_id v \<noteq> sl_bot_id (fst ls))
     \<and> sl_user_id (fst ls) \<noteq> sl_bot_id (fst ls)
     \<and> (\<forall>m\<in>set old. msg_id m \<noteq> sl_user_id (fst ls) \<and> msg_id m \<noteq> sl_bot_id (fst ls))
     \<and> cs_abort (snd ls) = Some (sl_controller (fst ls)) \<and> sl_errored (fst ls) = fst s"

lemma upd_where_old: "(\<And>x. x \<in> set old \<Longrightarrow> \<not> p x) \<Longrightarrow> upd_where p f (old @ ys) = old @ upd_where p f ys"
  by (simp add: upd_where_nop)

lemma live_patch_id: "\<not> is_done e \<Longrightarrow> msg_id (live_patch errored e m) = msg_id m"
  by (cases e) (simp_all add: fold_defs)

definition rename_user :: "string \<Rightarrow> sse_event \<Rightarrow> chat_message list \<Rightarrow> chat_message list" where
  "rename_user uid e ms =
     (case e of
        EvRun r u \<Rightarrow> if truthy u then upd_key msg_id uid (\<lambda>m. m\<lparr> msg_id := opt_str u \<rparr>) ms else ms
      | _ \<Rightarrow> ms)"

lemma upd_where_ident: "(\<And>x. f x = x) \<Longrightarrow> upd_where p f xs = xs"
  by (induction xs) auto

lemma send_event_local:
  "cs_abort st = Some (sl_controller l) \<Longrightarrow>
   sl_controller (fst (fst (send_event e (l, st)))) = sl_controller l
   \<and> sl_bot_id (fst (fst (send_event e (l, st)))) = sl_bot_id l
   \<and> sl_user_id (fst (fst (send_event e (l, st)))) = sl_user_id l
   \<and> sl_errored (fst (fst (send_event e (l, st)))) = errored_after (sl_errored l) e"
  by (cases e) (simp_all add: send_event_def Let_def errored_after_def split: plan_kind.split)

lemma send_event_messages:
  "cs_abort st = Some (sl_controller l) \<Longrightarrow>
   cs_messages (snd (fst (send_event e (l, st)))) =
     upd_key msg_id (sl_bot_id l) (live_patch (errored_after (sl_errored l) e) e)
       (rename_user (sl_user_id l) e (cs_messages st))"
  by (cases e)
     (simp_all add: send_event_def Let_def errored_after_def patch_bot_def rename_user_def
       upd_where_ident split: plan_kind.split)

lemma send_event_abort: "cs_abort (snd (fst (send_event e (l, st)))) = cs_abort st"
  using stream_part_events(1) [of e l st] by (simp add: stream_part_def)

lemma rename_user_old:
  assumes "\<And>m. m \<in> set old \<Longrightarrow> msg_id m \<noteq> uid" "msg_id v \<noteq> bid" "msg_id b = bid" "uid \<noteq> bid"
    and "\<not> renames_to bid e"
  shows "\<exists>v'. rename_user uid e (old @ [v, b]) = old @ [v', b] \<and> msg_content v' = msg_content v
           \<and> msg_role v' = msg_role v \<and> msg_id v' \<noteq> bid"
proof (cases e)
  case (EvRun r u)
  have "upd_key msg_id uid f old = old" for f
    using assms(1) by (intro upd_where_nop) auto
  with EvRun assms show ?thesis
    by (cases u) (auto simp: rename_user_def)
qed (use assms in \<open>simp_all add: rename_user_def\<close>)

lemma sending_event:
  assumes sh: "sending old text s ls" and b: "msg_id (snd s) = sl_bot_id (fst ls)"
    and r: "\<not> renames_to (sl_bot_id (fst ls)) e"
  shows "sending old text (live_step e s) (fst (send_event e ls))"
    and "sl_bot_id (fst (fst (send_event e ls))) = sl_bot_id (fst ls)"
proof -
  obtain l st where ls: "ls = (l, st)" by (cases ls)
  from sh ls obtain v where v: "cs_messages st = old @ [v, snd s]" "msg_content v = text"
      "msg_role v = RoleUser" "msg_id v \<noteq> sl_bot_id l"
    and u: "sl_user_id l \<noteq> sl_bot_id l"
    and old: "\<And>m. m \<in> set old \<Longrightarrow> msg_id m \<noteq> sl_user_id l \<and> msg_id m \<noteq> sl_bot_id l"
    and a: "cs_abort st = Some (sl_controller l)" and err: "sl_errored l = fst s"
    by (auto simp: sending_def)
  have "\<exists>v'. rename_user (sl_user_id l) e (old @ [v, snd s]) = old @ [v', snd s]
      \<and> msg_content v' = text \<and> msg_role v' = RoleUser \<and> msg_id v' \<noteq> sl_bot_id l"
    using rename_user_old [of old "sl_user_id l" v "sl_bot_id l" "snd s" e] old v u b r ls by simp
  then obtain v' where v': "rename_user (sl_user_id l) e (old @ [v, snd s]) = old @ [v', snd s]"
      "msg_content v' = text" "msg_role v' = RoleUser" "msg_id v' \<noteq> sl_bot_id l"
    by blast
  have same: "upd_key msg_id (sl_bot_id l) f old = old" for f
    using old by (intro upd_where_nop) auto
  have "cs_messages (snd (fst (send_event e ls))) = old @ [v', snd (live_step e s)]"
    using send_event_messages [OF a, of e] v(1) v' b ls err same
    by (simp add: live_step_def)
  with v' u old a err ls send_event_local [OF a, of e] send_event_abort [of e l st]
  show "sending old text (live_step e s) (fst (send_event e ls))"
    by (simp add: sending_def live_step_def)
  show "sl_bot_id (fst (fst (send_event e ls))) = sl_bot_id (fst ls)"
    using send_event_local [OF a, of e] ls by simp
qed

lemma live_step_id: "\<not> is_done e \<Longrightarrow> msg_id (snd (live_step e s)) = msg_id (snd s)"
  by (simp add: live_step_def live_patch_id)

lemma sending_stream:
  assumes "sending old text s ls" "msg_id (snd s) = sl_bot_id (fst ls)"
    and "\<And>e. e \<in> set evs \<Longrightarrow> \<not> renames_to (sl_bot_id (fst ls)) e"
    and "\<And>e. e \<in> set (butlast evs) \<Longrightarrow> \<not> is_done e"
  shows "sending old text (live_fold evs s) (send_stream evs ls)"
  using assms
proof (induction evs arbitrary: s ls)
  case (Cons e evs)
  let ?ls = "fst (send_event e ls)"
  have one: "sending old text (live_step e s) ?ls" "sl_bot_id (fst ?ls) = sl_bot_id (fst ls)"
    using sending_event [OF Cons.prems(1,2)] Cons.prems(3) by auto
  show ?case
  proof (cases evs)
    case Nil
    with one show ?thesis by (simp add: live_fold_def send_stream_def)
  next
    case (Cons e' rest)
    then have "msg_id (snd (live_step e s)) = sl_bot_id (fst ?ls)"
      using Cons.prems(2,4) one(2) by (simp add: live_step_id)
    then have "sending old text (live_fold evs (live_step e s)) (send_stream evs ?ls)"
      using Cons.IH [OF one(1)] Cons.prems(3,4) one(2) Cons by auto
    then show ?thesis by (simp add: live_fold_def send_stream_def)
  qed
qed (simp add: live_fold_def send_stream_def)

lemma sending_begin:
  assumes "send_begin t u b c st = Some ls"
    and "u \<noteq> b" "\<And>m. m \<in> set (cs_messages st) \<Longrightarrow> msg_id m \<notin> {u, b}"
  shows "sending (cs_messages st) (trim t)
           (False, (new_message b RoleAssistant []) \<lparr> msg_status := Some MRunning \<rparr>) ls"
    and "sl_bot_id (fst ls) = b"
  using assms by (auto simp: send_begin_def sending_def new_message_def split: if_splits)

subsection \<open>Properties\<close>

text \<open>
  In every state the chat store can reach, the interface shows a running stream exactly
  when there is a controller to abort it with.
\<close>

theorem streaming_has_controller:
  "chat_reaches (0, initial_chat) (n, st) \<Longrightarrow> cs_streaming st \<longleftrightarrow> cs_abort st \<noteq> None"
  using stream_ok_reaches [of "(0, initial_chat)" "(n, st)"]
  by (auto simp: stream_ok_def stream_part_def initial_chat_def split: option.splits)

definition hi_call :: "send_local \<times> chat_state" where
  "hi_call = the (send_begin ''hi'' ''u'' ''b'' 0 initial_chat)"

definition sent_hi :: chat_state where
  "sent_hi = snd hi_call"

lemma trim_hi: "trim ''hi'' = ''hi''"
  by (rule trim_plain) simp_all

lemma hi_call_begin: "send_begin ''hi'' ''u'' ''b'' 0 initial_chat = Some (fst hi_call, sent_hi)"
  by (simp add: hi_call_def sent_hi_def send_begin_def initial_chat_def trim_hi)

lemma sent_hi_reached: "chat_reaches (0, initial_chat) (Suc 0, sent_hi)"
  unfolding chat_reaches_def by (rule r_into_rtranclp, rule c_send [OF hi_call_begin])

theorem streaming_has_controller_witness: "cs_streaming sent_hi \<longleftrightarrow> cs_abort sent_hi \<noteq> None"
  by (rule streaming_has_controller [OF sent_hi_reached])

lemma chat_step_mono: "chat_step w w' \<Longrightarrow> fst w \<le> fst w'"
  using chat_step_stream [of "fst w" "snd w" "fst w'" "snd w'"] by auto

lemma chat_reaches_mono: "chat_reaches w w' \<Longrightarrow> fst w \<le> fst w'"
  unfolding chat_reaches_def
  by (induction rule: rtranclp_induct) (auto dest: chat_step_mono)

text \<open>Everything in the store but the list of sessions and how it was last read.\<close>

definition conversation :: "chat_state \<Rightarrow> chat_state" where
  "conversation st =
     st\<lparr> cs_sessions := [], cs_sessions_loading := False, cs_sessions_error := None, cs_sessions_updated_at := None \<rparr>"

lemma reload_keeps_conversation:
  "conversation (loadSessions_begin st) = conversation st"
  "conversation (loadSessions_done r now st) = conversation st"
  by (simp_all add: conversation_def loadSessions_begin_def loadSessions_done_def split: sum.split)

lemma send_catch_own:
  "\<exists>ms. send_catch l x st = st\<lparr> cs_messages := ms \<rparr>
     \<and> filter (\<lambda>m. msg_id m \<noteq> sl_bot_id l) ms = filter (\<lambda>m. msg_id m \<noteq> sl_bot_id l) (cs_messages st)
     \<and> length ms = length (cs_messages st)"
proof -
  have "filter (\<lambda>m. msg_id m \<noteq> b) (upd_key msg_id b (f :: chat_message \<Rightarrow> chat_message) ms) = filter (\<lambda>m. msg_id m \<noteq> b) ms"
    if "\<And>m. msg_id (f m) = msg_id m" for b f ms
    using that by (induction ms) auto
  then show ?thesis
    by (intro exI [of _ "cs_messages (send_catch l x st)"]) (simp add: send_catch_def patch_bot_def upd_where_def)
qed

text \<open>
  C9. A stream that lost the store (\<open>detach\<close>, another session opened, its own end) is dead for good,
  whether \<open>send\<close> or \<open>openSession\<close> started it and whatever happens later: its events and the
  \<open>catch\<close> and \<open>finally\<close> of a reopened one leave the state as it is and ask for nothing; the
  \<open>finally\<close> of \<open>send\<close> leaves the state, and only has the list of sessions read again (and the
  attachments cleared, when its stream had ended well before), which leaves the conversation; and
  its unguarded \<open>catch\<close> can write into no message but its own.
\<close>

theorem superseded_stream_is_dead:
  assumes "send_begin t u b n st = Some (l0, st1) \<or> openSession_done i opened n st = Inr st1"
    and "chat_reaches (Suc n, st1) (k, st2)" "cs_abort st2 \<noteq> Some n" "chat_reaches (k, st2) (k', st3)"
    and "sl_controller l = n" "rl_controller rl = n"
  shows "send_event e (l, st3) = ((l, st3), []) \<and> resumed_event rl e st3 = (st3, [])
     \<and> resumed_catch rl x st3 = st3 \<and> resumed_finally rl st3 = (st3, [])
     \<and> send_finally l st3 = (st3, (if sl_done_ok l then [EffClearRefs] else []) @ [EffLoadSessions])
     \<and> conversation (loadSessions_done r now (loadSessions_begin st3)) = conversation st3
     \<and> (\<exists>ms. send_catch l x st3 = st3\<lparr> cs_messages := ms \<rparr> \<and> length ms = length (cs_messages st3)
          \<and> filter (\<lambda>m. msg_id m \<noteq> sl_bot_id l) ms = filter (\<lambda>m. msg_id m \<noteq> sl_bot_id l) (cs_messages st3))"
proof -
  have "n < k" using chat_reaches_mono [OF assms(2)] by simp
  then have gone: "cs_abort st3 \<noteq> Some n" using retired_reaches [OF assms(4), of n] assms(3) by simp
  then have "send_event e (l, st3) = ((l, st3), [])" "resumed_event rl e st3 = (st3, [])"
    "resumed_catch rl x st3 = st3" "resumed_finally rl st3 = (st3, [])"
    "send_finally l st3 = (st3, (if sl_done_ok l then [EffClearRefs] else []) @ [EffLoadSessions])"
    using assms(5,6)
    by (simp_all add: send_event_retired resumed_event_retired resumed_catch_def resumed_finally_def send_finally_def)
  then show ?thesis using send_catch_own [of l x st3] by (auto simp: reload_keeps_conversation)
qed

lemma hi_detached: "chat_reaches (Suc 0, sent_hi) (Suc 0, fst (detach sent_hi))"
  unfolding chat_reaches_def by (rule r_into_rtranclp, rule c_detach)

theorem superseded_stream_is_dead_witness:
  "send_event (EvText ''late'') (fst hi_call, fst (detach sent_hi)) =
     ((fst hi_call, fst (detach sent_hi)), [])"
proof -
  have "chat_reaches (Suc 0, fst (detach sent_hi)) (Suc 0, fst (detach sent_hi))"
    by (simp add: chat_reaches_def)
  moreover have "cs_abort (fst (detach sent_hi)) \<noteq> Some 0" by (simp add: detach_def)
  moreover have "sl_controller (fst hi_call) = 0" using stream_part_send [OF hi_call_begin] by simp
  ultimately show ?thesis
    using superseded_stream_is_dead [OF disjI1 [OF hi_call_begin] hi_detached, where
        rl = "\<lparr> rl_controller = 0, rl_session_id = [], rl_read_only = False, rl_run_id = [], rl_bot_id = [] \<rparr>"]
    by simp
qed

lemma live_fold_errored:
  "fst (live_fold evs s) \<longleftrightarrow> fst s \<or> (\<exists>e\<in>set evs. event_type e = ''error'')"
  by (induction evs arbitrary: s) (auto simp: live_fold_def live_step_def errored_after_def)

lemma send_stream_append:
  "send_stream (xs @ ys) ls = send_stream ys (send_stream xs ls)"
  by (simp add: send_stream_def)

lemma live_fold_append: "live_fold (xs @ ys) s = live_fold ys (live_fold xs s)"
  by (simp add: live_fold_def)

lemma send_stream_locals:
  "cs_abort (snd ls) = Some (sl_controller (fst ls)) \<Longrightarrow>
   sl_bot_id (fst (send_stream evs ls)) = sl_bot_id (fst ls)"
proof (induction evs arbitrary: ls)
  case (Cons e evs)
  obtain l st where "ls = (l, st)" by (cases ls)
  with Cons send_event_local [of st l e] send_event_abort [of e l st] show ?case
    by (simp add: send_stream_def)
qed (simp add: send_stream_def)

lemma live_fold_id:
  "(\<And>e. e \<in> set evs \<Longrightarrow> \<not> is_done e) \<Longrightarrow> msg_id (snd (live_fold evs s)) = msg_id (snd s)"
  by (induction evs arbitrary: s) (auto simp: live_fold_def live_step_id)

text \<open>
  C2. The whole of \<open>send\<close>: when the stream of a run has ended, the conversation is the one
  before, the user's text, and one finished answer; the answer's text is all text since the
  last recovery of the run, in order and once, and so are its artifacts; the attachments are
  consumed exactly when no error came.
\<close>

theorem send_shows_the_run:
  assumes "send_begin t u b c st = Some ls" "u \<noteq> b"
    and "\<forall>m\<in>set (cs_messages st). msg_id m \<notin> {u, b}"
    and "\<forall>e\<in>set evs. \<not> renames_to b e \<and> \<not> is_done e"
  shows "\<exists>v m. cs_messages (snd (send_stream (evs @ [EvDone mid]) ls)) = cs_messages st @ [v, m]
     \<and> msg_role v = RoleUser \<and> msg_content v = trim t
     \<and> msg_role m = RoleAssistant \<and> msg_id m = or_opt mid b \<and> msg_status m = Some MDone
     \<and> msg_content m = texts (since_recovery evs)
     \<and> artifacts_of m = shown_artifacts (since_recovery evs)
     \<and> (sl_done_ok (fst (send_stream (evs @ [EvDone mid]) ls)) \<longleftrightarrow>
          \<not> (\<exists>e\<in>set evs. event_type e = ''error''))"
proof -
  let ?b0 = "(new_message b RoleAssistant []) \<lparr> msg_status := Some MRunning \<rparr>"
  let ?s = "live_fold evs (False, ?b0)"
  let ?ls = "send_stream evs ls"
  note begun = sending_begin [OF assms(1,2)]
  have b: "sl_bot_id (fst ls) = b" and sh: "sending (cs_messages st) (trim t) (False, ?b0) ls"
    using begun assms(3) by auto
  have id0: "msg_id ?b0 = b" "msg_role ?b0 = RoleAssistant" "msg_content ?b0 = []"
      "msg_artifacts ?b0 = None"
    by (simp_all add: new_message_def)
  have sh1: "sending (cs_messages st) (trim t) ?s ?ls"
    using sending_stream [OF sh, of evs] assms(4) b id0(1) by (auto dest: in_set_butlastD)
  have sid: "msg_id (snd ?s) = b" using live_fold_id [of evs "(False, ?b0)"] assms(4) id0(1) by simp
  have bot: "sl_bot_id (fst ?ls) = b"
    using send_stream_locals [of ls evs] sh b by (simp add: sending_def)
  have sh2: "sending (cs_messages st) (trim t) (live_step (EvDone mid) ?s) (fst (send_event (EvDone mid) ?ls))"
    using sending_event(1) [OF sh1, of "EvDone mid"] sid bot by simp
  have content: "msg_content (snd ?s) = texts (since_recovery evs)"
    and arts: "artifacts_of (snd ?s) = shown_artifacts (since_recovery evs)"
    and role: "msg_role (snd ?s) = RoleAssistant"
    using live.content_stream [of evs "(False, ?b0)"] live.artifact_stream [of evs "(False, ?b0)"]
      live.role_stream [of evs "(False, ?b0)"] id0
    by (auto simp: live_fold_def artifacts_of_def)
  have errs: "sl_errored (fst ?ls) = (\<exists>e\<in>set evs. event_type e = ''error'')"
    using sh1 live_fold_errored [of evs "(False, ?b0)"] by (simp add: sending_def)
  have "sl_done_ok (fst (fst (send_event (EvDone mid) ?ls))) = (\<not> sl_errored (fst ?ls))"
    using sh1 by (cases ?ls) (simp add: send_event_def sending_def)
  then show ?thesis
    using sh2 content arts role errs sid
    by (auto simp: sending_def send_stream_append live_step_def artifacts_of_def send_stream_def)
qed

theorem send_shows_the_run_witness:
  "\<exists>v m. cs_messages (snd (send_stream [EvText ''old'', EvRunRecovered 1, EvText ''ok'', EvDone None] hi_call))
      = [v, m] \<and> msg_content v = ''hi'' \<and> msg_content m = ''ok'' \<and> msg_status m = Some MDone"
proof -
  have "send_begin ''hi'' ''u'' ''b'' 0 initial_chat = Some hi_call"
    using hi_call_begin by (simp add: sent_hi_def)
  from send_shows_the_run [OF this, of "[EvText ''old'', EvRunRecovered 1, EvText ''ok'']" None]
  show ?thesis
    by (simp add: initial_chat_def trim_hi since_recovery_def) blast
qed

definition retry_target ::
  "string \<Rightarrow> chat_message list \<Rightarrow> chat_message \<Rightarrow> chat_message \<Rightarrow> bool" where
  "retry_target i ms u m \<longleftrightarrow>
     (\<exists>a b c. ms = a @ u # b @ m # c \<and> msg_role u = RoleUser \<and> (\<forall>x\<in>set b. msg_role x \<noteq> RoleUser)
        \<and> msg_id m = i \<and> (\<forall>x\<in>set (a @ u # b). msg_id x \<noteq> i))"

lemma retry_find:
  "find_key msg_id i ms = Some m \<and>
   find_last (\<lambda>m. msg_role m = RoleUser) (takeWhile (\<lambda>m. msg_id m \<noteq> i) ms) = Some u \<longleftrightarrow>
   retry_target i ms u m" (is "?l \<longleftrightarrow> ?r")
proof
  assume ?l
  then obtain p c where p: "ms = p @ m # c" "msg_id m = i" "\<forall>y\<in>set p. msg_id y \<noteq> i"
    by (auto simp: find_key_split)
  then have "takeWhile (\<lambda>m. msg_id m \<noteq> i) ms = p" by (simp add: takeWhile_append2)
  with \<open>?l\<close> obtain a b where "p = a @ u # b" "msg_role u = RoleUser" "\<forall>y\<in>set b. msg_role y \<noteq> RoleUser"
    by (auto simp: find_last_split)
  with p show ?r unfolding retry_target_def by (metis append_Cons append_assoc)
next
  assume ?r
  then obtain a b c where p: "ms = (a @ u # b) @ m # c" "msg_role u = RoleUser"
      "\<forall>x\<in>set b. msg_role x \<noteq> RoleUser" "msg_id m = i" "\<forall>x\<in>set (a @ u # b). msg_id x \<noteq> i"
    by (auto simp: retry_target_def)
  have "takeWhile (\<lambda>m. msg_id m \<noteq> i) ms = a @ u # b"
    unfolding p(1) using p(4,5) by (subst takeWhile_append2) auto
  with p show ?l unfolding find_key_split find_last_split by blast
qed

text \<open>
  Retrying: \<open>retry\<close> sends again exactly the text of the nearest user message before the
  chosen answer, as a retry of the answer's run, and only for a run that failed, was cancelled
  or is paused, in a session that is neither streaming nor read-only.
\<close>

theorem retry_resends:
  "e \<in> set (retry i st) \<longleftrightarrow>
     (\<exists>u m rid rs. \<not> cs_streaming st \<and> \<not> cs_read_only st \<and> retry_target i (cs_messages st) u m
        \<and> msg_run_id m = Some rid \<and> rid \<noteq> [] \<and> msg_run_status m = Some rs \<and> retryable rs
        \<and> e = EffSend (msg_content u) (Some rid))"
proof (cases "find_key msg_id i (cs_messages st)")
  case (Some m)
  then show ?thesis
    unfolding retry_find [symmetric] retry_def Let_def
    by (cases "msg_run_id m"; cases "msg_run_status m";
        cases "find_last (\<lambda>m. msg_role m = RoleUser) (takeWhile (\<lambda>m. msg_id m \<noteq> i) (cs_messages st))")
       auto
qed (simp add: retry_find [symmetric] retry_def)

end
