(* ===== verification/RunView.thy ===== *)
theory RunView
  imports EventLog StreamChat ChatRuns
begin

text \<open>
  What the user sees of a run in the end. The loop of \<open>followServerRun\<close> hands events on page
  by page, skips events of replaced attempts and announces recoveries; the folds of the chat
  store start over at a recovery. Together: what is shown is exactly the last attempt's part
  of the Server's log. The locale \<open>attempt_view\<close> says what a fold must do for that; it is
  interpreted on the text, the artifacts and the trace of the message.
\<close>

definition rendered :: "poll_event list \<Rightarrow> sse_event list" where
  "rendered evs = List.map_filter render_event evs"

lemma rendered_simps [simp]:
  "rendered [] = []" "rendered (xs @ ys) = rendered xs @ rendered ys"
  "rendered (e # es) = (case render_event e of None \<Rightarrow> [] | Some x \<Rightarrow> [x]) @ rendered es"
  by (simp_all add: rendered_def List.map_filter_def split: option.split)

definition attempt :: "int \<Rightarrow> poll_event list \<Rightarrow> poll_event list" where
  "attempt epoch evs = filter (\<lambda>e. pe_lease_epoch e = epoch) evs"

lemma attempt_simps [simp]:
  "attempt n [] = []" "attempt n (xs @ ys) = attempt n xs @ attempt n ys"
  "attempt n (e # es) = (if pe_lease_epoch e = n then e # attempt n es else attempt n es)"
  by (simp_all add: attempt_def)

lemma attempt_none: "(\<And>e. e \<in> set evs \<Longrightarrow> pe_lease_epoch e < n) \<Longrightarrow> attempt n evs = []"
  by (auto simp: attempt_def filter_empty_conv)

text \<open>The loop has read \<open>evs\<close>: all epochs are positive and none is above the current one.\<close>

definition epochs_ok :: "poll_event list \<Rightarrow> follow_state \<Rightarrow> bool" where
  "epochs_ok evs st \<longleftrightarrow> (\<forall>e\<in>set evs. 0 < pe_lease_epoch e \<and> pe_lease_epoch e \<le> fs_current_epoch st)"

locale attempt_view =
  fixes step :: "sse_event \<Rightarrow> 'c \<Rightarrow> 'c" and start :: 'c
  assumes recovered: "step (EvRunRecovered n) c = start"
    and run_state: "step (EvRunState s) c = c"
    and failure: "step (EvError m) c = c"
    and finished: "step (EvDone i) c = c"
begin

definition shows_attempt :: "poll_event list \<Rightarrow> follow_state \<Rightarrow> 'c \<Rightarrow> bool" where
  "shows_attempt evs st c \<longleftrightarrow>
     epochs_ok evs st \<and> c = fold step (rendered (attempt (fs_current_epoch st) evs)) start"

lemma shows_run:
  assumes "shows_attempt evs st c"
  shows "shows_attempt evs (fst (follow_run run st)) (fold step (snd (follow_run run st)) c)"
proof -
  let ?n = "max 0 (nullish (ar_lease_epoch run) 0)"
  show ?thesis
  proof (cases "fs_current_epoch st < ?n")
    case True
    have none: "attempt ?n evs = []"
      using assms True by (intro attempt_none) (auto simp: shows_attempt_def epochs_ok_def)
    show ?thesis
    proof (cases "0 < fs_current_epoch st")
      case True
      with none \<open>fs_current_epoch st < ?n\<close> assms show ?thesis
        by (auto simp: shows_attempt_def epochs_ok_def follow_run_def Let_def recovered run_state)
    next
      case False
      with assms have "evs = []" by (cases evs) (auto simp: shows_attempt_def epochs_ok_def)
      with False \<open>fs_current_epoch st < ?n\<close> assms show ?thesis
        by (auto simp: shows_attempt_def epochs_ok_def follow_run_def Let_def recovered run_state)
    qed
  next
    case False
    with assms show ?thesis
      by (auto simp: shows_attempt_def epochs_ok_def follow_run_def Let_def run_state)
  qed
qed

lemma shows_event:
  assumes "shows_attempt evs st c" "0 < pe_lease_epoch ev"
  shows "shows_attempt (evs @ [ev]) (fst (follow_event ev st)) (fold step (snd (follow_event ev st)) c)"
proof -
  have cur: "fs_current_epoch (fst (follow_event ev st)) = max (fs_current_epoch st) (pe_lease_epoch ev)"
    by (rule follow_event_epoch)
  have ok: "epochs_ok (evs @ [ev]) (fst (follow_event ev st))"
    using assms by (auto simp: shows_attempt_def epochs_ok_def cur max_def)
  show ?thesis
  proof (cases "fs_current_epoch st < pe_lease_epoch ev")
    case True
    then have "attempt (pe_lease_epoch ev) evs = []"
      using assms by (intro attempt_none) (auto simp: shows_attempt_def epochs_ok_def)
    with True ok show ?thesis
      by (auto simp: shows_attempt_def cur follow_event_out recovered split: option.split)
  next
    case False
    with ok assms show ?thesis
      by (auto simp: shows_attempt_def cur follow_event_out max_def split: option.split)
  qed
qed

lemma shows_events:
  assumes "shows_attempt evs st c" "\<forall>e\<in>set new. 0 < pe_lease_epoch e"
  shows "shows_attempt (evs @ new) (fst (follow_events new st)) (fold step (snd (follow_events new st)) c)"
  using assms
proof (induction new arbitrary: evs st c)
  case (Cons ev new)
  obtain st1 o1 where f: "follow_event ev st = (st1, o1)" by (cases "follow_event ev st")
  obtain st2 o2 where g: "follow_events new st1 = (st2, o2)" by (cases "follow_events new st1")
  have "shows_attempt (evs @ [ev]) st1 (fold step o1 c)"
    using shows_event [OF Cons.prems(1), of ev] Cons.prems(2) f by simp
  from Cons.IH [OF this] Cons.prems(2) f g show ?case by simp
qed simp

lemma shows_poll:
  assumes "shows_attempt evs st c" "\<forall>e\<in>set (pr_events r). 0 < pe_lease_epoch e"
  shows "shows_attempt (evs @ pr_events r) (fst (follow_poll r st)) (fold step (snd (follow_poll r st)) c)"
proof -
  obtain st1 o1 where f: "follow_run (pr_run r) st = (st1, o1)" by (cases "follow_run (pr_run r) st")
  obtain st2 o2 where g: "follow_events (pr_events r) st1 = (st2, o2)"
    by (cases "follow_events (pr_events r) st1")
  have "shows_attempt evs st1 (fold step o1 c)" using shows_run [OF assms(1), of "pr_run r"] f by simp
  from shows_events [OF this assms(2)] f g show ?thesis by (simp add: follow_poll_def)
qed

lemma shows_loop:
  assumes "shows_attempt evs st c"
    and "\<forall>r\<in>set rs. \<forall>e\<in>set (pr_events r). 0 < pe_lease_epoch e"
    and "follow_loop (map PollGot rs) st = (LoopDone st', out)"
    and "\<forall>r\<in>set (butlast rs). \<not> poll_last r"
  shows "shows_attempt (evs @ concat (map pr_events rs)) st' (fold step out c)"
  using assms
proof (induction rs arbitrary: evs st c out)
  case (Cons r rs)
  obtain st1 o1 where f: "follow_poll r st = (st1, o1)" by (cases "follow_poll r st")
  have one: "shows_attempt (evs @ pr_events r) st1 (fold step o1 c)"
    using shows_poll [OF Cons.prems(1), of r] Cons.prems(2) f by simp
  show ?case
  proof (cases "poll_last r")
    case True
    with Cons.prems(4) have "rs = []" by (cases rs) auto
    with True f one Cons.prems(3) show ?thesis by auto
  next
    case False
    with f Cons.prems(3) obtain o2 where o2: "follow_loop (map PollGot rs) st1 = (LoopDone st', o2)"
        "out = o1 @ o2"
      by (auto split: prod.splits)
    have "\<forall>r\<in>set (butlast rs). \<not> poll_last r" using Cons.prems(4) by (cases rs) auto
    from Cons.IH [OF one _ o2(1) this] Cons.prems(2) o2(2) show ?thesis by simp
  qed
qed simp

lemma shows_failure: "fold step (failure_event st) c = c"
  by (simp add: failure_event_def failure split: option.split)

end

interpretation text_view: attempt_view content_step "[]"
  by unfold_locales simp_all

interpretation artifact_view: attempt_view artifact_step "[]"
  by unfold_locales simp_all

interpretation trace_view: attempt_view trace_step "[]"
  by unfold_locales simp_all

interpretation commit_view: attempt_view run_trace "[]"
  by unfold_locales simp_all

lemma rendered_no_recovery: "\<not> (\<exists>e\<in>set (rendered evs). is_recovery e)"
proof
  assume "\<exists>e\<in>set (rendered evs). is_recovery e"
  then obtain ev e where "render_event ev = Some e" "is_recovery e"
    by (auto simp: rendered_def List.map_filter_def)
  moreover from this have "\<not> client_only e" by (auto dest: render_not_client)
  ultimately show False by (cases e) (auto simp: client_only_def CLIENT_EVENT_TYPES_def)
qed

subsection \<open>The environment of a followed run\<close>

text \<open>
  What the loop meets turn by turn: the run's row and the rows of its event table. The table
  only grows, its keys are unique, and no epoch is above the run's final one, \<open>E\<close>; the last
  page of the loop carries the final run.
\<close>

definition polls :: "(agent_run \<times> poll_event list) list \<Rightarrow> poll_result list" where
  "polls env = served list_events env follow_start"

definition final_turn :: "(agent_run \<times> poll_event list) list \<Rightarrow> agent_run \<times> poll_event list" where
  "final_turn env = env ! (length (polls env) - 1)"

definition lease_of :: "agent_run \<Rightarrow> int" where
  "lease_of run = max 0 (nullish (ar_lease_epoch run) 0)"

definition run_history :: "(agent_run \<times> poll_event list) list \<Rightarrow> int \<Rightarrow> bool" where
  "run_history env E \<longleftrightarrow>
     env \<noteq> [] \<and> list_all (rows_ok \<circ> snd) env \<and> sorted_wrt prefix (map (log_of \<circ> snd) env)
     \<and> 0 < E \<and> list_all (\<lambda>(run, rows). lease_of run \<le> E \<and> list_all (\<lambda>e. pe_lease_epoch e \<le> E) rows) env
     \<and> poll_last (last (polls env)) \<and> lease_of (fst (final_turn env)) = E"

lemma served_not_last: "\<forall>r\<in>set (butlast (served page env st)). \<not> poll_last r"
  by (induction page env st rule: served.induct) (auto simp: Let_def)

lemma served_Nil_iff [simp]: "served page env st = [] \<longleftrightarrow> env = []"
  by (cases env) (auto simp: Let_def)

lemma served_loop:
  "env \<noteq> [] \<Longrightarrow> poll_last (last (served page env st)) \<Longrightarrow>
   \<exists>st' out. follow_loop (map PollGot (served page env st)) st = (LoopDone st', out)"
proof (induction page env st rule: served.induct)
  case (2 page run l env st)
  let ?r = "\<lparr> pr_run = run, pr_events = page l (fs_after_epoch st) (fs_after_sequence st) page_limit \<rparr>"
  obtain st1 o1 where f: "follow_poll ?r st = (st1, o1)" by (cases "follow_poll ?r st")
  show ?case
  proof (cases "poll_last ?r")
    case True
    with f show ?thesis by (simp add: Let_def)
  next
    case False
    with "2.prems" have "env \<noteq> []" by (auto simp: Let_def)
    with "2.prems" False f have "poll_last (last (served page env st1))" by (auto simp: Let_def)
    with "2.IH" [OF refl False] \<open>env \<noteq> []\<close> f obtain st' out where
      "follow_loop (map PollGot (served page env st1)) st1 = (LoopDone st', out)" by auto
    with f False show ?thesis by (simp add: Let_def)
  qed
qed simp

lemma served_run: "k < length (served page env st) \<Longrightarrow> pr_run (served page env st ! k) = fst (env ! k)"
proof (induction page env st arbitrary: k rule: served.induct)
  case (2 page run l env st)
  then show ?case by (cases k) (auto simp: Let_def split: if_splits)
qed simp

lemma poll_epoch:
  "fs_current_epoch (fst (follow_poll r st)) =
     foldl (\<lambda>m ev. max m (pe_lease_epoch ev)) (max (fs_current_epoch st) (lease_of (pr_run r))) (pr_events r)"
  if "0 \<le> fs_current_epoch st"
proof -
  obtain st1 o1 where f: "follow_run (pr_run r) st = (st1, o1)" by (cases "follow_run (pr_run r) st")
  then have "fs_current_epoch st1 = max (fs_current_epoch st) (lease_of (pr_run r))"
    using that by (auto simp: follow_run_def Let_def lease_of_def split: if_splits)
  with f follow_events_epoch [of "pr_events r" st1] show ?thesis
    by (auto simp: follow_poll_def split: prod.splits)
qed

lemma foldl_max_ge:
  fixes m :: int
  shows "m \<le> foldl (\<lambda>m ev. max m (f ev)) m xs"
proof (induction xs arbitrary: m)
  case (Cons x xs)
  have "m \<le> max m (f x)" by simp
  also have "\<dots> \<le> foldl (\<lambda>m ev. max m (f ev)) (max m (f x)) xs" by (rule Cons.IH)
  finally show ?case by simp
qed simp

lemma foldl_max_le:
  fixes m :: int
  shows "m \<le> E \<Longrightarrow> (\<And>x. x \<in> set xs \<Longrightarrow> f x \<le> E) \<Longrightarrow> foldl (\<lambda>m ev. max m (f ev)) m xs \<le> E"
  by (induction xs arbitrary: m) simp_all

lemma loop_epoch:
  assumes "follow_loop (map PollGot rs) st = (LoopDone st', out)" "\<forall>r\<in>set (butlast rs). \<not> poll_last r"
    and "0 \<le> fs_current_epoch st" "fs_current_epoch st \<le> E"
    and "\<forall>r\<in>set rs. lease_of (pr_run r) \<le> E \<and> (\<forall>e\<in>set (pr_events r). pe_lease_epoch e \<le> E)"
    and "rs \<noteq> []" "lease_of (pr_run (last rs)) = E"
  shows "fs_current_epoch st' = E"
  using assms
proof (induction rs arbitrary: st out)
  case (Cons r rs)
  obtain st1 o1 where f: "follow_poll r st = (st1, o1)" by (cases "follow_poll r st")
  let ?m = "max (fs_current_epoch st) (lease_of (pr_run r))"
  have e: "fs_current_epoch st1 = foldl (\<lambda>m ev. max m (pe_lease_epoch ev)) ?m (pr_events r)"
    using poll_epoch [OF Cons.prems(3), of r] f by simp
  have le: "?m \<le> fs_current_epoch st1" "fs_current_epoch st1 \<le> E"
    unfolding e using Cons.prems(4,5) by (rule_tac foldl_max_ge, intro foldl_max_le) auto
  show ?case
  proof (cases "poll_last r")
    case True
    with Cons.prems(2) have "rs = []" by (cases rs) auto
    with True f le Cons.prems(1,7) show ?thesis by auto
  next
    case False
    with f Cons.prems(1) obtain o2 where o2: "follow_loop (map PollGot rs) st1 = (LoopDone st', o2)"
      by (auto split: prod.splits)
    then have "rs \<noteq> []" by auto
    with o2 False Cons.prems le show ?thesis
      by (intro Cons.IH [of st1 o2]) (auto split: if_splits)
  qed
qed simp

lemma served_rows:
  "r \<in> set (served list_events env st) \<Longrightarrow> set (pr_events r) \<subseteq> (\<Union>p\<in>set env. set (snd p))"
proof (induction env arbitrary: st)
  case (Cons p env)
  obtain run l where p: "p = (run, l)" by (cases p)
  have "set (list_events l x y n) \<subseteq> set l" for x y n
    by (auto simp: list_events_def Let_def dest!: in_set_takeD)
  with Cons p show ?case by (fastforce simp: Let_def split: if_splits)
qed simp

lemma polls_rows:
  assumes "run_history env E" "r \<in> set (polls env)"
  shows "lease_of (pr_run r) \<le> E"
    and "e \<in> set (pr_events r) \<Longrightarrow> 0 < pe_lease_epoch e \<and> pe_lease_epoch e \<le> E"
proof -
  obtain k where k: "k < length (polls env)" "r = polls env ! k" using assms(2) by (auto simp: in_set_conv_nth)
  then have k': "k < length env" using served_length [of list_events env follow_start] by (simp add: polls_def)
  have "pr_run r = fst (env ! k)" using k served_run by (simp add: polls_def)
  then show "lease_of (pr_run r) \<le> E"
    using assms(1) nth_mem [OF k'] by (auto simp: run_history_def list_all_iff)
  have rows: "set (pr_events r) \<subseteq> (\<Union>p\<in>set env. set (snd p))"
    using assms(2) unfolding polls_def by (rule served_rows)
  show "0 < pe_lease_epoch e \<and> pe_lease_epoch e \<le> E" if "e \<in> set (pr_events r)"
    using that rows assms(1) by (fastforce simp: run_history_def list_all_iff rows_ok_def)
qed

text \<open>The loop ends, on the final epoch, having read the whole final log.\<close>

lemma history_loop:
  assumes "run_history env E"
  obtains st' out where "follow_loop (map PollGot (polls env)) follow_start = (LoopDone st', out)"
    and "fs_current_epoch st' = E"
    and "concat (map pr_events (polls env)) = log_of (snd (final_turn env))"
proof -
  have h: "env \<noteq> []" "poll_last (last (polls env))" "lease_of (fst (final_turn env)) = E" "0 < E"
    using assms by (simp_all add: run_history_def)
  then obtain st' out where l: "follow_loop (map PollGot (polls env)) follow_start = (LoopDone st', out)"
    using served_loop [of env list_events follow_start] by (auto simp: polls_def)
  have ne: "polls env \<noteq> []" using h by (simp add: polls_def)
  have "pr_run (last (polls env)) = fst (final_turn env)"
    using ne served_run [of "length (polls env) - 1" list_events env follow_start]
    by (simp add: final_turn_def last_conv_nth polls_def)
  then have "fs_current_epoch st' = E"
    using l ne h polls_rows [OF assms] served_not_last [of list_events env follow_start]
    by (intro loop_epoch [OF l]) (auto simp: polls_def follow_start_def)
  moreover have "concat (map pr_events (polls env)) = log_of (snd (final_turn env))"
    using run_log.served_join [of env 0 follow_start] assms
    by (simp add: run_history_def polls_def final_turn_def at_pos_def follow_start_def)
  ultimately show thesis using that l by blast
qed

context attempt_view
begin

lemma shows_history:
  assumes "run_history env E"
  shows "\<exists>out. followServerRun rid (map PollGot (polls env)) (Inr ms) = Followed out
     \<and> fold step out start = fold step (rendered (attempt E (log_of (snd (final_turn env))))) start"
proof -
  obtain st' out where l: "follow_loop (map PollGot (polls env)) follow_start = (LoopDone st', out)"
      "fs_current_epoch st' = E" "concat (map pr_events (polls env)) = log_of (snd (final_turn env))"
    using history_loop [OF assms] .
  have "shows_attempt [] follow_start start" by (simp add: shows_attempt_def epochs_ok_def)
  then have "shows_attempt ([] @ concat (map pr_events (polls env))) st' (fold step out start)"
    using l(1) polls_rows [OF assms] served_not_last [of list_events env follow_start]
    by (intro shows_loop) (auto simp: polls_def)
  with l have "fold step out start = fold step (rendered (attempt E (log_of (snd (final_turn env))))) start"
    by (simp add: shows_attempt_def)
  with l(1) show ?thesis
    by (simp add: followServerRun_def finished shows_failure)
qed

end

text \<open>
  C1. A reopened run is shown as the Server recorded it: when following ends, the answer's
  text and artifacts are those of the last attempt's events in the Server's log, in order, each
  once, however the log was cut into pages and however often the run was recovered on the way.
\<close>

theorem reopened_run_shows_last_attempt:
  assumes "run_history env E" "msg_content m = []" "artifacts_of m = []"
  shows "\<exists>out. followServerRun rid (map PollGot (polls env)) (Inr ms) = Followed out
     \<and> msg_content (fold resumed_step out m) = texts (rendered (attempt E (log_of (snd (final_turn env)))))
     \<and> artifacts_of (fold resumed_step out m)
         = shown_artifacts (rendered (attempt E (log_of (snd (final_turn env)))))"
  using text_view.shows_history [OF assms(1), of rid ms] artifact_view.shows_history [OF assms(1), of rid ms]
  by (auto simp: resumed.content_fold resumed.artifact_fold assms(2,3)
      fold_content_step fold_artifact_step rendered_no_recovery)

definition demo_event :: "int \<Rightarrow> string \<Rightarrow> poll_event" where
  "demo_event n t = \<lparr> pe_event_id = ''e'', pe_lease_epoch = n, pe_sequence = 1, pe_type = ''ui.text'',
     pe_payload = JObj [(''md'', JStr t)] \<rparr>"

definition demo_file :: poll_event where
  "demo_file = \<lparr> pe_event_id = ''f'', pe_lease_epoch = 2, pe_sequence = 2, pe_type = ''ui.artifact'',
     pe_payload = JObj [(''name'', JStr ''n''), (''size'', JStr ''1''), (''path'', JStr ''p'')] \<rparr>"

definition demo_rows :: "poll_event list" where
  "demo_rows = [demo_event 2 ''new'', demo_file, demo_event 1 ''old'']"

definition demo_env :: "(agent_run \<times> poll_event list) list" where
  "demo_env = [((blank_run ''r'' ''s'' RCompleted) \<lparr> ar_lease_epoch := Some 2 \<rparr>, demo_rows)]"

lemma demo_log: "log_of demo_rows = [demo_event 1 ''old'', demo_event 2 ''new'', demo_file]"
  by (simp add: log_of_def demo_rows_def demo_event_def demo_file_def event_key_def less_eq_prod_def)

lemma demo_history: "run_history demo_env 2"
  by (simp add: run_history_def demo_env_def demo_rows_def demo_file_def polls_def final_turn_def
      lease_of_def rows_ok_def event_key_def demo_event_def list_events_def follow_start_def
      poll_last_def page_limit_def blank_run_def Let_def)

lemma demo_final: "snd (final_turn demo_env) = demo_rows"
  by (simp add: final_turn_def demo_env_def polls_def Let_def)

lemma demo_rendered:
  "\<exists>a. rendered (attempt 2 (log_of (snd (final_turn demo_env)))) = [EvText ''new'', EvArtifact a]
     \<and> art_path a = ''p''"
  by (simp add: demo_final demo_log)
     (simp add: demo_event_def demo_file_def render_event_def checkedSSEEvent_def SSE_EVENT_TYPES_def
       payload_valid_def cast_event_def is_str_def as_artifact_def)

theorem reopened_run_shows_last_attempt_witness:
  "\<exists>out. followServerRun ''r'' (map PollGot (polls demo_env)) (Inr []) = Followed out
     \<and> msg_content (fold resumed_step out (resumed_bot (fst (final_turn demo_env)))) = ''new''"
proof -
  have "msg_content (resumed_bot r) = [] \<and> artifacts_of (resumed_bot r) = []" for r
    by (simp add: resumed_bot_def new_message_def artifacts_of_def)
  then show ?thesis
    using reopened_run_shows_last_attempt [OF demo_history, of "resumed_bot (fst (final_turn demo_env))" "''r''" "[]"]
    using demo_rendered by (auto simp: texts_def)
qed

lemma trace_artifacts_fold: "trace_artifacts (fold run_trace evs tr) = fold artifact_step evs (trace_artifacts tr)"
proof (induction evs arbitrary: tr)
  case (Cons e evs)
  then show ?case by (cases e) simp_all
qed simp

text \<open>
  C3. What \<open>streamChat\<close> commits: on the desktop, once the run is over, one request for each
  artifact path of the run's last attempt in the Server's log; no path twice, none of a
  replaced attempt, none left out.
\<close>

theorem commits_last_attempt:
  assumes "run_history env E" "owner \<noteq> []"
  shows "let cs = sr_commits (streamChat (Inr turn) (map PollGot (polls env)) (Inr ms) True (Some owner)) in
     distinct (map cm_local_path cs)
     \<and> cm_local_path ` set cs =
         art_path ` set (shown_artifacts (rendered (attempt E (log_of (snd (final_turn env)))))) - {[]}
     \<and> (\<forall>c\<in>set cs. cm_owner_id c = owner \<and> cm_run_id c = tu_run_id turn \<and> cm_session_id c = tu_session_id turn)"
proof -
  let ?evs = "rendered (attempt E (log_of (snd (final_turn env))))"
  obtain out where out: "followServerRun (tu_run_id turn) (map PollGot (polls env)) (Inr ms) = Followed out"
      "fold run_trace out [] = fold run_trace ?evs []"
    using commit_view.shows_history [OF assms(1), of "tu_run_id turn" ms] by auto
  let ?ps = "artifact_paths [] (assistant_trace out)"
  have "trace_artifacts (assistant_trace out) = shown_artifacts ?evs"
    using out(2) by (simp add: assistant_trace_def trace_artifacts_fold fold_artifact_step rendered_no_recovery)
  then have "set ?ps = art_path ` set (shown_artifacts ?evs) - {[]}"
    by (auto simp: set_artifact_paths image_iff simp flip: mem_trace_artifacts)
  with out(1) assms(2) distinct_artifact_paths [of "[]" "assistant_trace out"] show ?thesis
    by (simp add: streamChat_def commitRunArtifacts_def Let_def image_image comp_def)
qed

definition demo_turn :: server_turn where
  "demo_turn = \<lparr> tu_session_id = ''s'', tu_session_title = ''t'', tu_user_message_id = ''m'',
     tu_run_id = ''r'', tu_run = JObj [] \<rparr>"

theorem commits_last_attempt_witness:
  "cm_local_path ` set (sr_commits (streamChat
      (Inr demo_turn)
      (map PollGot (polls demo_env)) (Inr []) True (Some ''me''))) = {''p''}"
  using commits_last_attempt [OF demo_history, of "''me''"
      "demo_turn" "[]"] demo_rendered
  by (auto simp: Let_def shown_artifacts_def)

text \<open>
  C4. A followed run always comes to its end: whatever the Server answered before (a run queued,
  running, paused, recovered, and any events), from the turn on at which it reports the run over
  the loop stops, after as many further turns as the rows of the event table fill pages and one
  more, even while the last events of the run are still being stored; following returns, and the
  last event it hands on is \<open>done\<close>.
\<close>

theorem followed_run_ends:
  assumes "rows_ok rows" "length rows < length ended * page_limit"
    and "list_all (\<lambda>(run, rs). terminal_status (ar_status run) \<and> subseq rs rows) ended"
  shows "\<exists>out i. followServerRun rid (map PollGot (polls (before @ ended))) (Inr ms) = Followed (out @ [EvDone i])"
proof -
  have pos: "list_all (\<lambda>e. 0 < pe_lease_epoch e \<and> 0 < pe_sequence e) rows" using assms(1) by (simp add: rows_ok_def)
  have "\<exists>st' out. follow_loop (map PollGot (served list_events ended st)) st = (LoopDone st', out)" for st
    using ended_turns_end [OF pos assms(3)] le_less_trans [OF to_read_le assms(2)] by blast
  from loop_ends_after [of list_events ended, OF this, of before follow_start] obtain st' out where
    "follow_loop (map PollGot (polls (before @ ended))) follow_start = (LoopDone st', out)"
    by (auto simp: polls_def)
  then show ?thesis by (simp add: followServerRun_def)
qed

text \<open>A run that is recovered while it is followed, then fails; its last event is stored late.\<close>

definition demo_before :: "(agent_run \<times> poll_event list) list" where
  "demo_before = [(blank_run ''r'' ''s'' RQueued, []), (blank_run ''r'' ''s'' RRunning, [demo_event 1 ''old'']),
     ((blank_run ''r'' ''s'' RRunning) \<lparr> ar_lease_epoch := Some 2 \<rparr>, [demo_event 1 ''old''])]"

definition demo_ended :: "(agent_run \<times> poll_event list) list" where
  "demo_ended = [(blank_run ''r'' ''s'' RFailed, [demo_event 1 ''old'']),
     (blank_run ''r'' ''s'' RFailed, [demo_event 1 ''old'', demo_file])]"

theorem followed_run_ends_witness:
  "\<exists>out i. followServerRun ''r'' (map PollGot (polls (demo_before @ demo_ended))) (Inr []) = Followed (out @ [EvDone i])"
  by (rule followed_run_ends [of "[demo_event 1 ''old'', demo_file]"])
     (simp_all add: rows_ok_def demo_ended_def demo_event_def demo_file_def event_key_def blank_run_def page_limit_def)

lemma follow_done_run:
  "follow_loop ps st = (LoopDone st', out) \<Longrightarrow>
   \<exists>r. PollGot r \<in> set ps \<and> fs_terminal_run st' = Some (pr_run r) \<and> poll_last r"
proof (induction ps st arbitrary: out rule: follow_loop.induct)
  case (4 r ps st)
  obtain st1 o1 where f: "follow_poll r st = (st1, o1)" by (cases "follow_poll r st")
  with follow_poll_run [of r st] have "fs_terminal_run st1 = Some (pr_run r)" by simp
  with "4" f show ?case by (auto split: if_splits prod.splits)
qed auto

lemma err_after_message:
  "err_after (msg_error m \<noteq> None) evs \<longleftrightarrow> msg_error (fold resumed_step evs m) \<noteq> None"
proof (induction evs arbitrary: m)
  case (Cons e evs)
  have "err_after (msg_error m \<noteq> None) (e # evs) = err_after (msg_error (resumed_step e m) \<noteq> None) evs"
    by (cases e) (simp_all add: resumed_step_def fold_defs)
  with Cons show ?case by simp
qed simp

lemma err_after_failure:
  "fs_terminal_run st = Some run \<Longrightarrow> ar_status run = RFailed \<Longrightarrow>
   err_after (fs_saw_error st) (failure_event st)"
  by (cases "fs_saw_error st") (simp_all add: failure_event_def)

text \<open>
  C5. A failed run is never silent: when following ends on a failed run, the message of the
  store carries an error, whether the log reported one (after the last recovery) or not.
\<close>

theorem failed_run_shows_error:
  assumes "followServerRun rid ps msgs = Followed out"
    and "\<And>r. PollGot r \<in> set ps \<Longrightarrow> poll_last r \<Longrightarrow> ar_status (pr_run r) = RFailed"
    and "msg_error m = None"
  shows "msg_error (fold resumed_step out m) \<noteq> None"
proof -
  obtain st' o1 i where l: "follow_loop ps follow_start = (LoopDone st', o1)"
      and out: "out = o1 @ failure_event st' @ [EvDone i]"
    using assms(1) by (auto simp: followServerRun_def split: prod.splits loop_outcome.splits sum.splits)
  obtain run where run: "fs_terminal_run st' = Some run" "ar_status run = RFailed"
    using follow_done_run [OF l] assms(2) by auto
  have "fs_saw_error st' = err_after False o1" using saw_error_loop [OF l] by (simp add: follow_start_def)
  then have "err_after False out" using err_after_failure [OF run] out by simp
  with err_after_message [of m out] assms(3) show ?thesis by simp
qed

theorem failed_run_shows_error_witness:
  "\<exists>out. followServerRun ''r'' [PollGot \<lparr> pr_run = blank_run ''r'' ''s'' RFailed, pr_events = [] \<rparr>] (Inr []) = Followed out
     \<and> msg_error (fold resumed_step out (new_message ''b'' RoleAssistant [])) \<noteq> None"
proof -
  let ?ps = "[PollGot \<lparr> pr_run = blank_run ''r'' ''s'' RFailed, pr_events = [] \<rparr>]"
  obtain out where out: "followServerRun ''r'' ?ps (Inr []) = Followed out"
    by (simp add: followServerRun_def poll_last_def blank_run_def page_limit_def follow_poll_def follow_run_def
        follow_start_def Let_def)
  from failed_run_shows_error [OF this, of "new_message ''b'' RoleAssistant []"]
  have "msg_error (fold resumed_step out (new_message ''b'' RoleAssistant [])) \<noteq> None"
    by (simp add: blank_run_def new_message_def)
  with out show ?thesis by blast
qed

subsection \<open>A cancelled run\<close>

definition calm :: "sse_event \<Rightarrow> bool" where
  "calm e \<longleftrightarrow> \<not> is_recovery e \<and> event_type e \<noteq> ''error''"

text \<open>Once the loop has announced the cancellation, the reopened fold keeps it.\<close>

definition cancel_kept :: "follow_state \<Rightarrow> chat_message \<Rightarrow> bool" where
  "cancel_kept st m \<longleftrightarrow> (fs_last_status st = Some RCancelled \<longrightarrow> msg_run_status m = Some RCancelled)"

lemma resumed_keeps_cancel:
  "calm e \<Longrightarrow> \<not> client_only e \<Longrightarrow> msg_run_status m = Some RCancelled \<Longrightarrow>
   msg_run_status (resumed_step e m) = Some RCancelled"
  by (cases e) (auto simp: calm_def client_only_def CLIENT_EVENT_TYPES_def resumed_step_def fold_defs)

lemma fold_keeps_cancel:
  "(\<And>e. e \<in> set es \<Longrightarrow> calm e \<and> \<not> client_only e) \<Longrightarrow> msg_run_status m = Some RCancelled \<Longrightarrow>
   msg_run_status (fold resumed_step es m) = Some RCancelled"
  by (induction es arbitrary: m) (simp_all add: resumed_keeps_cancel)

lemma page_events: "e \<in> set (snd (follow_events evs st)) \<Longrightarrow> is_recovery e \<or> \<not> client_only e"
  using fenced_origin [of e "fs_current_epoch st" evs] render_not_client
  by (auto simp: follow_events_fenced)

lemma follow_events_status: "fs_last_status (fst (follow_events evs st)) = fs_last_status st"
proof (induction evs arbitrary: st)
  case (Cons ev evs)
  have "fs_last_status (fst (follow_event ev st)) = fs_last_status st"
    by (auto simp: follow_event_def Let_def split: option.splits)
  with Cons.IH [of "fst (follow_event ev st)"] show ?case by (auto split: prod.splits)
qed simp

lemma follow_run_status: "fs_last_status (fst (follow_run run st)) = Some (ar_status run)"
  by (auto simp: follow_run_def Let_def)

lemma follow_run_out:
  "snd (follow_run run st) = (if fs_last_status st \<noteq> Some (ar_status run) then [EvRunState (ar_status run)] else [])
     @ (if fs_current_epoch st < lease_of run \<and> 0 < fs_current_epoch st then [EvRunRecovered (lease_of run)] else [])"
  by (cases "fs_last_status st = Some (ar_status run)") (simp_all add: follow_run_def lease_of_def Let_def)

lemma calm_run:
  "\<forall>e\<in>set (snd (follow_run run st)). calm e \<Longrightarrow>
   snd (follow_run run st) = (if fs_last_status st \<noteq> Some (ar_status run) then [EvRunState (ar_status run)] else [])"
  unfolding follow_run_out by (auto simp: calm_def split: if_splits)

lemma cancel_run:
  assumes "cancel_kept st m" "\<And>e. e \<in> set (snd (follow_run run st)) \<Longrightarrow> calm e"
  shows "cancel_kept (fst (follow_run run st)) (fold resumed_step (snd (follow_run run st)) m)"
  using assms calm_run [of run st]
  by (auto simp: cancel_kept_def follow_run_status resumed_step_def set_run_state_def)

lemma cancel_poll:
  assumes "cancel_kept st m" "\<And>e. e \<in> set (snd (follow_poll r st)) \<Longrightarrow> calm e"
  shows "cancel_kept (fst (follow_poll r st)) (fold resumed_step (snd (follow_poll r st)) m)"
    and "fs_last_status (fst (follow_poll r st)) = Some (ar_status (pr_run r))"
proof -
  obtain st1 o1 where f: "follow_run (pr_run r) st = (st1, o1)" by (cases "follow_run (pr_run r) st")
  obtain st2 o2 where g: "follow_events (pr_events r) st1 = (st2, o2)"
    by (cases "follow_events (pr_events r) st1")
  have poll: "follow_poll r st = (st2, o1 @ o2)" using f g by (simp add: follow_poll_def)
  have one: "cancel_kept st1 (fold resumed_step o1 m)" using cancel_run [OF assms(1), of "pr_run r"] assms(2) f poll by simp
  have status: "fs_last_status st2 = fs_last_status st1" using follow_events_status [of "pr_events r" st1] g by simp
  have "calm e \<and> \<not> client_only e" if "e \<in> set o2" for e
    using that page_events [of e "pr_events r" st1] assms(2) g poll by (auto simp: calm_def)
  then show "cancel_kept (fst (follow_poll r st)) (fold resumed_step (snd (follow_poll r st)) m)"
    using one status fold_keeps_cancel [of o2] poll by (simp add: cancel_kept_def)
  show "fs_last_status (fst (follow_poll r st)) = Some (ar_status (pr_run r))"
    using status follow_run_status [of "pr_run r" st] f poll by simp
qed

lemma cancel_loop:
  assumes "follow_loop ps st = (LoopDone st', out)" "cancel_kept st m" "\<And>e. e \<in> set out \<Longrightarrow> calm e"
  shows "cancel_kept st' (fold resumed_step out m)
     \<and> (\<exists>r. PollGot r \<in> set ps \<and> poll_last r \<and> fs_terminal_run st' = Some (pr_run r)
          \<and> fs_last_status st' = Some (ar_status (pr_run r)))"
  using assms
proof (induction ps st arbitrary: out m rule: follow_loop.induct)
  case (4 r ps st)
  obtain st1 o1 where f: "follow_poll r st = (st1, o1)" by (cases "follow_poll r st")
  have calm1: "calm e" if "e \<in> set (snd (follow_poll r st))" for e
    using that "4.prems"(1,3) f by (auto split: if_splits prod.splits)
  have one: "cancel_kept st1 (fold resumed_step o1 m)" "fs_last_status st1 = Some (ar_status (pr_run r))"
    using cancel_poll [OF "4.prems"(2), of r] calm1 f by auto
  show ?case
  proof (cases "poll_last r")
    case True
    with "4.prems"(1) f one follow_poll_run [of r st] show ?thesis by auto
  next
    case False
    with "4.prems"(1) f obtain o2 where o2: "follow_loop ps st1 = (LoopDone st', o2)" "out = o1 @ o2"
      by (auto split: prod.splits)
    then have calm2: "\<And>e. e \<in> set o2 \<Longrightarrow> calm e" using "4.prems"(3) by simp
    from "4.IH" [OF f [symmetric] False o2(1) one(1) calm2] o2(2) show ?thesis by auto
  qed
qed simp_all

lemma resumed_run_id: "msg_run_id (fold resumed_step evs m) = msg_run_id m"
proof (induction evs arbitrary: m)
  case (Cons e evs)
  have "msg_run_id (resumed_step e m) = msg_run_id m" by (cases e) (simp_all add: resumed_step_def fold_defs)
  with Cons show ?case by simp
qed simp

lemma retry_last:
  assumes "\<not> cs_streaming st" "\<not> cs_read_only st" "msg_role u = RoleUser"
    and "\<forall>x\<in>set (old @ [u]). msg_id x \<noteq> msg_id m"
  shows "retry (msg_id m) (st\<lparr>cs_messages := old @ [u, m]\<rparr>) =
     (case (msg_run_id m, msg_run_status m) of
        (Some rid, Some rs) \<Rightarrow> if rid \<noteq> [] \<and> retryable rs then [EffSend (msg_content u) (Some rid)] else []
      | _ \<Rightarrow> [])"
proof -
  have "retry_target (msg_id m) (old @ [u, m]) u m"
    unfolding retry_target_def using assms(3,4) by (intro exI [of _ old] exI [of _ "[]"]) auto
  then have "find_key msg_id (msg_id m) (old @ [u, m]) = Some m"
    "find_last (\<lambda>m. msg_role m = RoleUser) (takeWhile (\<lambda>x. msg_id x \<noteq> msg_id m) (old @ [u, m])) = Some u"
    by (simp_all add: retry_find [symmetric])
  with assms show ?thesis
    by (cases "msg_run_id m"; cases "msg_run_status m") (auto simp: retry_def Let_def)
qed

end
