(* ===== verification/JsUri.thy ===== *)
theory JsUri
  imports JsText
begin

text \<open>
  \<open>encodeURIComponent\<close> and \<open>decodeURIComponent\<close> on the UTF-8 bytes of a string, and
  the interface the routers rely on: a codec of path segments whose encodings hold no
  separator and which decodes what it encodes. The clients of the interface (paths built
  from encoded segments) are proved once, inside the locale; the codec of the language is
  interpreted at the end.
\<close>

subsection \<open>Well-formed UTF-8\<close>

definition cont_byte :: "nat \<Rightarrow> bool" where
  "cont_byte b \<longleftrightarrow> 0x80 \<le> b \<and> b < 0xC0"

text \<open>The number of continuation bytes after a lead byte; 0 for a byte that is no lead.\<close>

definition conts :: "nat \<Rightarrow> nat" where
  "conts b = (if 0xC2 \<le> b \<and> b < 0xE0 then 1 else if 0xE0 \<le> b \<and> b < 0xF0 then 2
     else if 0xF0 \<le> b \<and> b < 0xF5 then 3 else 0)"

definition utf8_seq :: "nat list \<Rightarrow> bool" where
  "utf8_seq bs = (case bs of
     [a, b] \<Rightarrow> 0xC2 \<le> a \<and> a < 0xE0 \<and> cont_byte b
   | [a, b, c] \<Rightarrow> 0xE0 \<le> a \<and> a < 0xF0 \<and> cont_byte b \<and> cont_byte c
        \<and> (a = 0xE0 \<longrightarrow> 0xA0 \<le> b) \<and> (a = 0xED \<longrightarrow> b < 0xA0)
   | [a, b, c, d] \<Rightarrow> 0xF0 \<le> a \<and> a < 0xF5 \<and> cont_byte b \<and> cont_byte c \<and> cont_byte d
        \<and> (a = 0xF0 \<longrightarrow> 0x90 \<le> b) \<and> (a = 0xF4 \<longrightarrow> b < 0x90)
   | _ \<Rightarrow> False)"

function utf8 :: "string \<Rightarrow> bool" where
  "utf8 [] = True"
| "utf8 (c # r) =
     (if byte c < 0x80 then utf8 r
      else let k = conts (byte c) in
        0 < k \<and> k \<le> length r \<and> utf8_seq (map byte (c # take k r)) \<and> utf8 (drop k r))"
  by pat_completeness auto
termination
  by (relation "measure length") auto

subsection \<open>Percent encoding\<close>

definition hex_digit :: "nat \<Rightarrow> char" where
  "hex_digit n = (if n < 10 then chr (48 + n) else chr (55 + n))"

definition hex_val :: "char \<Rightarrow> nat option" where
  "hex_val c =
     (let n = byte c in
      if 48 \<le> n \<and> n < 58 then Some (n - 48)
      else if 65 \<le> n \<and> n < 71 then Some (n - 55)
      else if 97 \<le> n \<and> n < 103 then Some (n - 87) else None)"

text \<open>The characters \<open>encodeURIComponent\<close> leaves as they are: A-Z a-z 0-9 - _ . ! ~ * ' ( ).\<close>

definition unreserved :: "char \<Rightarrow> bool" where
  "unreserved c =
     (let n = byte c in
      48 \<le> n \<and> n < 58 \<or> 65 \<le> n \<and> n < 91 \<or> 97 \<le> n \<and> n < 123
      \<or> n \<in> set [45, 95, 46, 33, 126, 42, 39, 40, 41])"

definition enc_byte :: "char \<Rightarrow> string" where
  "enc_byte c =
     (if unreserved c then [c]
      else [chr 37, hex_digit (byte c div 16), hex_digit (byte c mod 16)])"

definition encodeURIComponent :: "string \<Rightarrow> string" where
  "encodeURIComponent s = concat (map enc_byte s)"

fun esc :: "string \<Rightarrow> (nat \<times> string) option" where
  "esc (c # h # l # r) =
     (if byte c = 37
      then case (hex_val h, hex_val l) of (Some a, Some b) \<Rightarrow> Some (16 * a + b, r) | _ \<Rightarrow> None
      else None)"
| "esc _ = None"

fun escs :: "nat \<Rightarrow> string \<Rightarrow> (nat list \<times> string) option" where
  "escs 0 s = Some ([], s)"
| "escs (Suc k) s =
     (case esc s of None \<Rightarrow> None
      | Some (b, r) \<Rightarrow> (case escs k r of None \<Rightarrow> None | Some (bs, r') \<Rightarrow> Some (b # bs, r')))"

lemma esc_shorter: "esc s = Some (b, r) \<Longrightarrow> length r < length s"
  by (induction s rule: esc.induct) (auto split: if_splits option.splits)

lemma escs_shorter: "escs k s = Some (bs, r) \<Longrightarrow> length r \<le> length s"
proof (induction k arbitrary: s bs r)
  case (Suc k)
  then show ?case by (fastforce split: option.splits dest: esc_shorter)
qed simp

text \<open>\<open>None\<close> is the \<open>URIError\<close> the language throws on a malformed escape.\<close>

function decodeURIComponent :: "string \<Rightarrow> string option" where
  "decodeURIComponent [] = Some []"
| "decodeURIComponent (c # r) =
     (if byte c \<noteq> 37 then map_option (Cons c) (decodeURIComponent r)
      else case esc (c # r) of None \<Rightarrow> None
        | Some (b, r1) \<Rightarrow>
           (if b < 0x80 then map_option (Cons (chr b)) (decodeURIComponent r1)
            else if conts b = 0 then None
            else case escs (conts b) r1 of None \<Rightarrow> None
              | Some (bs, r2) \<Rightarrow>
                 (if utf8_seq (b # bs)
                  then map_option ((@) (map chr (b # bs))) (decodeURIComponent r2)
                  else None)))"
  by pat_completeness auto
termination
proof (relation "measure length", goal_cases)
  case 1
  then show ?case by simp
next
  case (2 c r)
  then show ?case by simp
next
  case (3 c r x b r1)
  then show ?case using esc_shorter [of "c # r" b r1] by auto
next
  case (4 c r x b r1 y bs r2)
  then show ?case using esc_shorter [of "c # r" b r1] escs_shorter [of "conts b" r1 bs r2] by auto
qed

subsection \<open>Decoding what was encoded\<close>

declare decodeURIComponent.simps(2) [simp del] utf8.simps(2) [simp del]

lemma hex_val_hex_digit [simp]: "n < 16 \<Longrightarrow> hex_val (hex_digit n) = Some n"
  by (auto simp: hex_val_def hex_digit_def Let_def)

lemma byte_lt [simp]: "byte (c :: char) < 256"
  by (rule nat_of_char_less_256)

lemma esc_enc_byte:
  "\<not> unreserved c \<Longrightarrow> esc (enc_byte c @ r) = Some (byte c, r)"
  by (simp add: enc_byte_def less_mult_imp_div_less)

lemma unreserved_ascii: "unreserved c \<Longrightarrow> byte c < 0x80 \<and> byte c \<noteq> 37"
  by (auto simp: unreserved_def Let_def)

lemma enc_byte_head: "\<not> unreserved c \<Longrightarrow> enc_byte c = chr 37 # tl (enc_byte c)"
  by (simp add: enc_byte_def)

lemma decode_esc:
  "\<not> unreserved c \<Longrightarrow> byte c < 0x80 \<Longrightarrow>
   decodeURIComponent (enc_byte c @ r) = map_option (Cons c) (decodeURIComponent r)"
  using esc_enc_byte [of c r]
  by (subst enc_byte_head, simp, simp add: decodeURIComponent.simps(2) enc_byte_def)

lemma decode_ascii:
  "byte c < 0x80 \<Longrightarrow> decodeURIComponent (enc_byte c @ r) = map_option (Cons c) (decodeURIComponent r)"
proof (cases "unreserved c")
  case True
  assume "byte c < 0x80"
  with True unreserved_ascii [OF True] show ?thesis
    by (simp add: enc_byte_def decodeURIComponent.simps(2))
next
  case False
  assume "byte c < 0x80"
  with False show ?thesis by (rule decode_esc)
qed

lemma escs_enc:
  "(\<And>c. c \<in> set cs \<Longrightarrow> 0x80 \<le> byte c) \<Longrightarrow>
   escs (length cs) (concat (map enc_byte cs) @ r) = Some (map byte cs, r)"
proof (induction cs)
  case Nil
  then show ?case by simp
next
  case (Cons c cs)
  then have "\<not> unreserved c" using unreserved_ascii by fastforce
  then have "esc (enc_byte c @ concat (map enc_byte cs) @ r)
      = Some (byte c, concat (map enc_byte cs) @ r)"
    by (rule esc_enc_byte)
  with Cons show ?case by simp
qed

lemma utf8_seq_conts: "utf8_seq (a # bs) \<Longrightarrow> b \<in> set bs \<Longrightarrow> 0x80 \<le> b"
  by (auto simp: utf8_seq_def cont_byte_def split: list.splits)

lemma decode_multi:
  assumes "\<not> byte c < 0x80" and "conts (byte c) = length cs" and "utf8_seq (map byte (c # cs))"
    and "cs \<noteq> []"
  shows "decodeURIComponent (concat (map enc_byte (c # cs)) @ r)
     = map_option ((@) (c # cs)) (decodeURIComponent r)"
proof -
  have c: "\<not> unreserved c" using assms(1) unreserved_ascii by blast
  let ?t = "concat (map enc_byte cs) @ r"
  have "esc (enc_byte c @ ?t) = Some (byte c, ?t)"
    using c by (rule esc_enc_byte)
  moreover have "escs (conts (byte c)) ?t = Some (map byte cs, r)"
    unfolding assms(2) using utf8_seq_conts [of "byte c" "map byte cs"] assms(3) by (intro escs_enc) simp
  moreover have eq: "enc_byte c @ ?t = chr 37 # (tl (enc_byte c) @ ?t)"
    using enc_byte_head [OF c] by (metis append_Cons)
  ultimately have "decodeURIComponent (chr 37 # (tl (enc_byte c) @ ?t))
      = map_option ((@) (c # cs)) (decodeURIComponent r)"
    using assms unfolding eq by (simp add: decodeURIComponent.simps(2) comp_def)
  then show ?thesis by (simp add: eq [symmetric])
qed

theorem decode_encode: "utf8 s \<Longrightarrow> decodeURIComponent (encodeURIComponent s) = Some s"
proof (induction s rule: utf8.induct)
  case 1
  then show ?case by (simp add: encodeURIComponent_def)
next
  case (2 c r)
  show ?case
  proof (cases "byte c < 0x80")
    case True
    with "2" show ?thesis
      by (simp add: encodeURIComponent_def decode_ascii utf8.simps(2))
  next
    case False
    let ?k = "conts (byte c)"
    from False "2.prems" have h: "0 < ?k" "?k \<le> length r" "utf8_seq (map byte (c # take ?k r))"
      "utf8 (drop ?k r)"
      by (simp_all add: utf8.simps(2) Let_def)
    have "encodeURIComponent (c # r)
        = concat (map enc_byte (c # take ?k r)) @ encodeURIComponent (drop ?k r)"
      unfolding encodeURIComponent_def
      by (metis append_Cons append_take_drop_id concat_append map_append)
    then show ?thesis
      using decode_multi [OF False, of "take ?k r" "encodeURIComponent (drop ?k r)"] h
        "2.IH"(2) [OF False refl] by (cases "take ?k r = []") (simp_all del: concat.simps list.map)
  qed
qed

lemma encode_Nil_iff [simp]: "encodeURIComponent s = [] \<longleftrightarrow> s = []"
  by (cases s) (auto simp: encodeURIComponent_def enc_byte_def)

lemma hex_digit_range: "n < 16 \<Longrightarrow> byte (hex_digit n) \<in> {48..<58} \<union> {65..<71}"
  by (auto simp: hex_digit_def)

definition uri_char :: "char \<Rightarrow> bool" where
  "uri_char c \<longleftrightarrow> unreserved c \<or> byte c = 37"

lemma hex_digit_uri: assumes "n < 16" shows "unreserved (hex_digit n)"
proof -
  let ?b = "byte (hex_digit n)"
  have "48 \<le> ?b \<and> ?b < 58 \<or> 65 \<le> ?b \<and> ?b < 71"
    using hex_digit_range [OF assms] by (simp only: Un_iff atLeastLessThan_iff)
  then have "48 \<le> ?b \<and> ?b < 58 \<or> 65 \<le> ?b \<and> ?b < 91" by linarith
  then show ?thesis unfolding unreserved_def Let_def by blast
qed

lemma encode_chars: "c \<in> set (encodeURIComponent s) \<Longrightarrow> uri_char c"
  by (auto simp: encodeURIComponent_def enc_byte_def uri_char_def less_mult_imp_div_less
      intro: hex_digit_uri split: if_splits)

text \<open>Identifiers of unreserved characters are their own encoding.\<close>

lemma encode_unreserved: "(\<And>c. c \<in> set s \<Longrightarrow> unreserved c) \<Longrightarrow> encodeURIComponent s = s"
  by (induction s) (auto simp: encodeURIComponent_def enc_byte_def)

subsection \<open>The interface: a codec of path segments\<close>

locale segment_codec =
  fixes enc :: "string \<Rightarrow> string"
    and dec :: "string \<Rightarrow> string option"
    and wf_text :: "string \<Rightarrow> bool"
  assumes dec_enc: "wf_text s \<Longrightarrow> dec (enc s) = Some s"
    and enc_no_slash: "CHR ''/'' \<notin> set (enc s)"
    and enc_no_query: "CHR ''?'' \<notin> set (enc s)"
    and enc_nonempty: "s \<noteq> [] \<Longrightarrow> enc s \<noteq> []"
begin

lemma split_segments: "ss \<noteq> [] \<Longrightarrow> split_on CHR ''/'' (join_with ''/'' (map enc ss)) = map enc ss"
  by (rule split_join) (auto simp: enc_no_slash)

lemma dec_segments: "(\<And>s. s \<in> set ss \<Longrightarrow> wf_text s) \<Longrightarrow> map (dec \<circ> enc) ss = map Some ss"
  by (auto simp: dec_enc)

lemma enc_inj: "wf_text s \<Longrightarrow> wf_text t \<Longrightarrow> enc s = enc t \<Longrightarrow> s = t"
  by (metis dec_enc option.inject)

lemma segments_inj:
  assumes "ss \<noteq> []" and "ts \<noteq> []" and "list_all wf_text ss" and "list_all wf_text ts"
    and "join_with ''/'' (map enc ss) = join_with ''/'' (map enc ts)"
  shows "ss = ts"
proof -
  have eq: "map enc ss = map enc ts"
    using assms(1,2,5) split_segments by metis
  have "inj_on enc (set ss \<union> set ts)"
  proof (rule inj_onI)
    fix s t
    assume "s \<in> set ss \<union> set ts" and "t \<in> set ss \<union> set ts" and "enc s = enc t"
    then show "s = t" using assms(3,4) enc_inj [of s t] by (auto simp: list_all_iff)
  qed
  with eq show ?thesis by (rule map_inj_on)
qed

end

interpretation uri: segment_codec encodeURIComponent decodeURIComponent utf8
proof
  show "CHR ''/'' \<notin> set (encodeURIComponent s)" for s
    using encode_chars [of "CHR ''/''" s] by (auto simp: uri_char_def unreserved_def Let_def)
  show "CHR ''?'' \<notin> set (encodeURIComponent s)" for s
    using encode_chars [of "CHR ''?''" s] by (auto simp: uri_char_def unreserved_def Let_def)
qed (simp_all add: decode_encode)

end
