(* ===== verification/Optimistic.thy ===== *)
theory Optimistic
  imports Prelude
begin

text \<open>
  The optimistic edit several stores use: one field of one keyed row is changed at once, the
  request is sent, and on failure the old value is written back. What the rows and the field
  must satisfy for the way back to be exact is the locale \<open>editable_field\<close>.
\<close>

definition edit_field :: "('i \<Rightarrow> 'k) \<Rightarrow> ('v \<Rightarrow> 'i \<Rightarrow> 'i) \<Rightarrow> 'k \<Rightarrow> 'v \<Rightarrow> 'i list \<Rightarrow> 'i list" where
  "edit_field key put k v xs = upd_key key k (put v) xs"

locale editable_field =
  fixes key :: "'i \<Rightarrow> 'k" and get :: "'i \<Rightarrow> 'v" and put :: "'v \<Rightarrow> 'i \<Rightarrow> 'i"
  assumes key_put: "key (put v i) = key i"
    and put_get: "put (get i) i = i"
    and get_put: "get (put v i) = v"
    and put_put: "put v (put w i) = put v i"
begin

lemma keys_kept: "map key (edit_field key put k v xs) = map key xs"
  by (simp add: edit_field_def map_upd_key key_put)

lemma others_kept: "key x \<noteq> k \<Longrightarrow> x \<in> set (edit_field key put k v xs) \<longleftrightarrow> x \<in> set xs"
  by (induction xs) (auto simp: edit_field_def key_put)

lemma edit_shown:
  "x \<in> set (edit_field key put k v xs) \<Longrightarrow> key x = k \<Longrightarrow> get x = v"
  unfolding edit_field_def upd_where_def using get_put by force

lemma edit_twice: "edit_field key put k v (edit_field key put k w xs) = edit_field key put k v xs"
  by (induction xs) (auto simp: edit_field_def key_put put_put)

lemma edit_same: "(\<And>x. x \<in> set xs \<Longrightarrow> key x = k \<Longrightarrow> get x = v) \<Longrightarrow> edit_field key put k v xs = xs"
proof (induction xs)
  case (Cons x xs)
  then show ?case using put_get [of x] by (auto simp: edit_field_def)
qed (simp add: edit_field_def)

lemma roll_back:
  assumes "distinct (map key xs)" "find_key key k xs = Some x"
  shows "edit_field key put k (get x) (edit_field key put k v xs) = xs"
proof -
  have "\<And>y. y \<in> set xs \<Longrightarrow> key y = k \<Longrightarrow> y = x"
    using assms find_key_unique [OF assms(1)] by force
  then show ?thesis by (simp add: edit_twice edit_same)
qed

end

end
