(* ===== verification/WorkItems.thy ===== *)
theory WorkItems
  imports Optimistic JsText ChatTypes Complex_Main
begin

text \<open>
  The kanban store (\<open>src/src/stores/workItemStore.ts\<close>): its state, every operation cut at its
  \<open>await\<close>, a step relation in which requests are answered in any order, and what holds of
  the board whatever that order is. Hours are rational numbers; the other data are the
  declared ones of \<open>src/src/lib/types.ts\<close>.
\<close>

subsection \<open>Data\<close>

datatype work_priority = PrNone | PrLow | PrMedium | PrHigh | PrUrgent

datatype attachment_kind = AttLocal | AttAsset

record work_attachment =
  wa_name :: string
  wa_kind :: attachment_kind
  wa_path :: "string option"

record work_item =
  wi_id :: string
  wi_project_id :: string
  wi_title :: string
  wi_status :: work_status
  wi_source :: string
  wi_assignee :: string
  wi_assignee_name :: string
  wi_description :: string
  wi_due_date :: "string option"
  wi_attachments :: "work_attachment list"
  wi_priority :: work_priority
  wi_start_date :: "string option"
  wi_labels :: "string list"
  wi_parent_id :: string
  wi_milestone_id :: string
  wi_estimate_h :: rat
  wi_spent_h :: rat
  wi_custom_fields :: "(string \<times> json) list"
  wi_dependency_ids :: "string list"
  wi_sprint_id :: string
  wi_critical_path :: "bool option"
  wi_delivery_accepted :: "bool option"
  wi_created_at :: "int option"
  wi_updated_at :: "int option"
  wi_version :: int

definition blank_item :: "string \<Rightarrow> string \<Rightarrow> string \<Rightarrow> work_item" where
  "blank_item i pid title =
     \<lparr> wi_id = i, wi_project_id = pid, wi_title = title, wi_status = WTodo, wi_source = [],
       wi_assignee = [], wi_assignee_name = [], wi_description = [], wi_due_date = None,
       wi_attachments = [], wi_priority = PrNone, wi_start_date = None, wi_labels = [],
       wi_parent_id = [], wi_milestone_id = [], wi_estimate_h = 0, wi_spent_h = 0,
       wi_custom_fields = [], wi_dependency_ids = [], wi_sprint_id = [], wi_critical_path = None,
       wi_delivery_accepted = None, wi_created_at = None, wi_updated_at = None, wi_version = 0 \<rparr>"

record milestone =
  ms_id :: string
  ms_project_id :: string
  ms_name :: string
  ms_description :: string
  ms_due_date :: "string option"
  ms_open :: bool
  ms_sort :: int

text \<open>The bodies of the create and patch requests; \<open>None\<close> is a field left out.\<close>

record new_work_item =
  nw_title :: string
  nw_status :: "work_status option"
  nw_source :: "string option"
  nw_assignee :: "string option"
  nw_description :: "string option"
  nw_due_date :: "string option option"
  nw_attachments :: "work_attachment list option"
  nw_priority :: "work_priority option"
  nw_start_date :: "string option option"
  nw_labels :: "string list option"
  nw_parent_id :: "string option"
  nw_milestone_id :: "string option"
  nw_estimate_h :: "rat option"
  nw_spent_h :: "rat option"
  nw_custom_fields :: "(string \<times> json) list option"
  nw_dependency_ids :: "string list option"
  nw_sprint_id :: "string option"

record work_item_patch =
  wp_title :: "string option"
  wp_status :: "work_status option"
  wp_description :: "string option"
  wp_due_date :: "string option option"
  wp_attachments :: "work_attachment list option"
  wp_priority :: "work_priority option"
  wp_start_date :: "string option option"
  wp_labels :: "string list option"
  wp_milestone_id :: "string option"
  wp_estimate_h :: "rat option"
  wp_spent_h :: "rat option"
  wp_custom_fields :: "(string \<times> json) list option"
  wp_dependency_ids :: "string list option"
  wp_sprint_id :: "string option"

definition no_patch :: work_item_patch where
  "no_patch =
     \<lparr> wp_title = None, wp_status = None, wp_description = None, wp_due_date = None,
       wp_attachments = None, wp_priority = None, wp_start_date = None, wp_labels = None,
       wp_milestone_id = None, wp_estimate_h = None, wp_spent_h = None, wp_custom_fields = None,
       wp_dependency_ids = None, wp_sprint_id = None \<rparr>"

subsection \<open>The store\<close>

record board =
  bd_project_id :: "string option"
  bd_items :: "work_item list"
  bd_milestones :: "milestone list"
  bd_loading :: bool
  bd_error :: "string option"
  bd_updated_at :: "int option"

definition initial_board :: board where
  "initial_board =
     \<lparr> bd_project_id = None, bd_items = [], bd_milestones = [], bd_loading = False,
       bd_error = None, bd_updated_at = None \<rparr>"

definition board_load_begin :: "string \<Rightarrow> board \<Rightarrow> board" where
  "board_load_begin pid b =
     (if bd_project_id b \<noteq> Some pid
      then \<lparr> bd_project_id = Some pid, bd_items = [], bd_milestones = [], bd_loading = True,
             bd_error = None, bd_updated_at = None \<rparr>
      else b\<lparr> bd_loading := True, bd_error := None \<rparr>)"

definition msg_tasks_failed :: string where
  "msg_tasks_failed = ''Server tasks could not be read''"

definition board_load_done :: "string \<Rightarrow> work_item list res \<Rightarrow> int \<Rightarrow> board \<Rightarrow> board" where
  "board_load_done pid r now b =
     (if bd_project_id b \<noteq> Some pid then b
      else case r of
        Inr items \<Rightarrow> b\<lparr> bd_items := items, bd_loading := False, bd_error := None,
                        bd_updated_at := Some now \<rparr>
      | Inl e \<Rightarrow> b\<lparr> bd_loading := False, bd_error := Some msg_tasks_failed \<rparr>)"

definition loadMilestones_done :: "string \<Rightarrow> milestone list res \<Rightarrow> board \<Rightarrow> board" where
  "loadMilestones_done pid r b =
     (case r of
        Inr ms \<Rightarrow> if bd_project_id b = Some pid then b\<lparr> bd_milestones := ms \<rparr> else b
      | Inl e \<Rightarrow> b)"

text \<open>\<open>addMilestone\<close>: the request it makes, if any, and what the answer does.\<close>

definition addMilestone_begin ::
  "string \<Rightarrow> string option \<Rightarrow> board \<Rightarrow> (string \<times> string \<times> string option) option" where
  "addMilestone_begin name due b =
     (if \<not> truthy (bd_project_id b) \<or> trim name = [] then None
      else Some (opt_str (bd_project_id b), trim name, due))"

definition addMilestone_done :: "milestone res \<Rightarrow> board \<Rightarrow> board \<times> milestone option" where
  "addMilestone_done r b =
     (case r of
        Inr m \<Rightarrow> (b\<lparr> bd_milestones := bd_milestones b @ [m] \<rparr>, Some m)
      | Inl e \<Rightarrow> (b, None))"

definition add_begin :: "new_work_item \<Rightarrow> board \<Rightarrow> (string \<times> new_work_item) option" where
  "add_begin input b =
     (if \<not> truthy (bd_project_id b) \<or> trim (nw_title input) = [] then None
      else Some (opt_str (bd_project_id b), input\<lparr> nw_title := trim (nw_title input) \<rparr>))"

definition msg_add_failed :: string where
  "msg_add_failed = ''creating the task failed, please retry''"

definition add_done ::
  "string \<Rightarrow> work_item res \<Rightarrow> int \<Rightarrow> board \<Rightarrow> board \<times> work_item option \<times> string list" where
  "add_done pid r now b =
     (case r of
        Inr wi \<Rightarrow>
          (if bd_project_id b = Some pid
           then b\<lparr> bd_items := bd_items b @ [wi], bd_error := None, bd_updated_at := Some now \<rparr>
           else b, Some wi, [])
      | Inl e \<Rightarrow> (b, None, [msg_add_failed]))"

text \<open>The item the Server answers with replaces the row of that id.\<close>

definition put_item :: "string \<Rightarrow> string \<Rightarrow> work_item \<Rightarrow> int \<Rightarrow> board \<Rightarrow> board" where
  "put_item pid i wi now b =
     (if bd_project_id b = Some pid
      then b\<lparr> bd_items := upd_key wi_id i (\<lambda>_. wi) (bd_items b), bd_error := None,
              bd_updated_at := Some now \<rparr>
      else b)"

definition update_begin :: "string \<Rightarrow> work_item_patch \<Rightarrow> board \<Rightarrow> (string \<times> string \<times> work_item_patch) option" where
  "update_begin i patch b =
     (if truthy (bd_project_id b) then Some (opt_str (bd_project_id b), i, patch) else None)"

definition msg_save_failed :: string where
  "msg_save_failed = ''saving failed, please retry''"

definition update_done ::
  "string \<Rightarrow> string \<Rightarrow> work_item res \<Rightarrow> int \<Rightarrow> board \<Rightarrow> board \<times> string list" where
  "update_done pid i r now b =
     (case r of Inr wi \<Rightarrow> (put_item pid i wi now b, []) | Inl e \<Rightarrow> (b, [msg_save_failed]))"

definition rename_begin :: "string \<Rightarrow> string \<Rightarrow> board \<Rightarrow> (string \<times> string \<times> work_item_patch) option" where
  "rename_begin i title b = update_begin i (no_patch\<lparr> wp_title := Some title \<rparr>) b"

definition msg_rename_failed :: string where
  "msg_rename_failed = ''renaming failed, please retry''"

definition rename_done ::
  "string \<Rightarrow> string \<Rightarrow> work_item res \<Rightarrow> int \<Rightarrow> board \<Rightarrow> board \<times> string list" where
  "rename_done pid i r now b =
     (case r of Inr wi \<Rightarrow> (put_item pid i wi now b, []) | Inl e \<Rightarrow> (b, [msg_rename_failed]))"

text \<open>\<open>{ ...i, ...item }\<close>: the fields a pushed change carries.\<close>

definition merge_change :: "work_item_change \<Rightarrow> work_item \<Rightarrow> work_item" where
  "merge_change c i =
     i\<lparr> wi_id := wc_id c, wi_project_id := wc_project_id c,
        wi_status := nullish (wc_status c) (wi_status i), wi_title := nullish (wc_title c) (wi_title i),
        wi_sprint_id := nullish (wc_sprint_id c) (wi_sprint_id i),
        wi_milestone_id := nullish (wc_milestone_id c) (wi_milestone_id i),
        wi_version := nullish (wc_version c) (wi_version i) \<rparr>"

definition applyRemote :: "work_item_change \<Rightarrow> int \<Rightarrow> board \<Rightarrow> board" where
  "applyRemote c now b =
     (if Some (wc_project_id c) \<noteq> bd_project_id b then b
      else b\<lparr> bd_items := upd_key wi_id (wc_id c) (merge_change c) (bd_items b), bd_error := None,
              bd_updated_at := Some now \<rparr>)"

abbreviation set_status_of :: "string \<Rightarrow> work_status \<Rightarrow> work_item list \<Rightarrow> work_item list" where
  "set_status_of i s xs \<equiv> edit_field wi_id (\<lambda>s w. w\<lparr> wi_status := s \<rparr>) i s xs"

text \<open>\<open>move\<close>: the captured project and old status travel with the request.\<close>

definition move_begin ::
  "string \<Rightarrow> work_status \<Rightarrow> board \<Rightarrow> board \<times> string option \<times> work_status option" where
  "move_begin i s b =
     (b\<lparr> bd_items := set_status_of i s (bd_items b) \<rparr>, bd_project_id b,
      map_option wi_status (find_key wi_id i (bd_items b)))"

definition msg_move_failed :: string where
  "msg_move_failed = ''move failed, rolled back''"

text \<open>Without a project the request is not sent: \<open>r\<close> is then the thrown error.\<close>

definition move_done ::
  "string option \<Rightarrow> string \<Rightarrow> work_status option \<Rightarrow> work_item res \<Rightarrow> int \<Rightarrow> board \<Rightarrow> board \<times> string list" where
  "move_done pid i prev r now b =
     (case (if truthy pid then r else Inl (Err ''project not selected'')) of
        Inr wi \<Rightarrow> (put_item (opt_str pid) i wi now b, [])
      | Inl e \<Rightarrow>
          (case prev of
             Some s \<Rightarrow> if bd_project_id b = pid
                then b\<lparr> bd_items := set_status_of i s (bd_items b) \<rparr> else b
           | None \<Rightarrow> b, [msg_move_failed]))"

definition remove_begin :: "string \<Rightarrow> board \<Rightarrow> board \<times> string option \<times> work_item list" where
  "remove_begin i b =
     (b\<lparr> bd_items := drop_key wi_id i (bd_items b) \<rparr>, bd_project_id b, bd_items b)"

definition msg_remove_failed :: string where
  "msg_remove_failed = ''deleting failed, restored''"

definition remove_done ::
  "string option \<Rightarrow> work_item list \<Rightarrow> unit res \<Rightarrow> int \<Rightarrow> board \<Rightarrow> board \<times> string list" where
  "remove_done pid prev r now b =
     (case (if truthy pid then r else Inl (Err ''project not selected'')) of
        Inr _ \<Rightarrow> (if bd_project_id b = pid
                  then b\<lparr> bd_error := None, bd_updated_at := Some now \<rparr> else b, [])
      | Inl e \<Rightarrow> (if bd_project_id b = pid then b\<lparr> bd_items := prev \<rparr> else b, [msg_remove_failed]))"

subsection \<open>Requests in flight\<close>

interpretation item_status: editable_field wi_id wi_status "\<lambda>s w. w\<lparr> wi_status := s \<rparr>"
  by unfold_locales simp_all

text \<open>
  A request in flight remembers what its continuation captured. The world is the board with
  the requests in flight, answered in any order.
\<close>

datatype pending =
    PLoad string
  | PMilestones string
  | PAddMilestone string
  | PAdd string
  | PUpdate string string
  | PMove "string option" string "work_status option"
  | PRemove "string option" "work_item list"

type_synonym board_world = "board \<times> pending list"

text \<open>What the Server answers about project \<open>pid\<close>: rows of that project.\<close>

fun answer_of :: "string \<Rightarrow> work_item res \<Rightarrow> bool" where
  "answer_of pid (Inr wi) \<longleftrightarrow> wi_project_id wi = pid"
| "answer_of pid (Inl e) \<longleftrightarrow> True"

fun list_answer_of :: "string \<Rightarrow> work_item list res \<Rightarrow> bool" where
  "list_answer_of pid (Inr wis) \<longleftrightarrow> list_all (\<lambda>wi. wi_project_id wi = pid) wis"
| "list_answer_of pid (Inl e) \<longleftrightarrow> True"

fun milestone_answer_of :: "string \<Rightarrow> milestone res \<Rightarrow> bool" where
  "milestone_answer_of pid (Inr m) \<longleftrightarrow> ms_project_id m = pid"
| "milestone_answer_of pid (Inl e) \<longleftrightarrow> True"

inductive board_step :: "board_world \<Rightarrow> board_world \<Rightarrow> bool" where
  b_load: "board_step (b, ps) (board_load_begin pid b, PLoad pid # ps)"
| b_loaded: "PLoad pid \<in> set ps \<Longrightarrow> list_answer_of pid r \<Longrightarrow>
    board_step (b, ps) (board_load_done pid r now b, PMilestones pid # remove1 (PLoad pid) ps)"
| b_milestones: "PMilestones pid \<in> set ps \<Longrightarrow>
    board_step (b, ps) (loadMilestones_done pid mr b, remove1 (PMilestones pid) ps)"
| b_add_milestone: "addMilestone_begin name due b = Some (pid, name', due') \<Longrightarrow>
    board_step (b, ps) (b, PAddMilestone pid # ps)"
| b_milestone_added: "PAddMilestone pid \<in> set ps \<Longrightarrow> milestone_answer_of pid mr \<Longrightarrow>
    board_step (b, ps) (fst (addMilestone_done mr b), remove1 (PAddMilestone pid) ps)"
| b_add: "add_begin input b = Some (pid, body) \<Longrightarrow> board_step (b, ps) (b, PAdd pid # ps)"
| b_added: "PAdd pid \<in> set ps \<Longrightarrow> answer_of pid r \<Longrightarrow>
    board_step (b, ps) (fst (add_done pid r now b), remove1 (PAdd pid) ps)"
| b_update: "update_begin i patch b = Some (pid, i, patch) \<Longrightarrow>
    board_step (b, ps) (b, PUpdate pid i # ps)"
| b_updated: "PUpdate pid i \<in> set ps \<Longrightarrow> answer_of pid r \<Longrightarrow>
    board_step (b, ps) (fst (update_done pid i r now b), remove1 (PUpdate pid i) ps)"
| b_renamed: "PUpdate pid i \<in> set ps \<Longrightarrow> answer_of pid r \<Longrightarrow>
    board_step (b, ps) (fst (rename_done pid i r now b), remove1 (PUpdate pid i) ps)"
| b_remote: "board_step (b, ps) (applyRemote c now b, ps)"
| b_move: "move_begin i s b = (b', pid, prev) \<Longrightarrow> board_step (b, ps) (b', PMove pid i prev # ps)"
| b_moved: "PMove pid i prev \<in> set ps \<Longrightarrow> answer_of (opt_str pid) r \<Longrightarrow>
    board_step (b, ps) (fst (move_done pid i prev r now b), remove1 (PMove pid i prev) ps)"
| b_remove: "remove_begin i b = (b', pid, prev) \<Longrightarrow> board_step (b, ps) (b', PRemove pid prev # ps)"
| b_removed: "PRemove pid prev \<in> set ps \<Longrightarrow>
    board_step (b, ps) (fst (remove_done pid prev ur now b), remove1 (PRemove pid prev) ps)"

inductive_cases board_stepE: "board_step w w'"

definition board_reaches :: "board_world \<Rightarrow> board_world \<Rightarrow> bool" where
  "board_reaches = rtranclp board_step"

definition at_home :: "string option \<Rightarrow> work_item list \<Rightarrow> bool" where
  "at_home pid wis \<longleftrightarrow> list_all (\<lambda>wi. Some (wi_project_id wi) = pid) wis"

fun snapshot_home :: "pending \<Rightarrow> bool" where
  "snapshot_home (PRemove pid prev) \<longleftrightarrow> at_home pid prev"
| "snapshot_home _ \<longleftrightarrow> True"

abbreviation home :: "board \<Rightarrow> bool" where
  "home b \<equiv> at_home (bd_project_id b) (bd_items b)"

definition board_ok :: "board_world \<Rightarrow> bool" where
  "board_ok w \<longleftrightarrow> home (fst w) \<and> list_all snapshot_home (snd w)"

lemma at_home_simps [simp]:
  "at_home pid []" "at_home pid (xs @ ys) \<longleftrightarrow> at_home pid xs \<and> at_home pid ys"
  "at_home pid (x # xs) \<longleftrightarrow> Some (wi_project_id x) = pid \<and> at_home pid xs"
  by (auto simp: at_home_def)

lemma at_home_upd:
  "at_home pid xs \<Longrightarrow> (\<And>x. x \<in> set xs \<Longrightarrow> Some (wi_project_id (f x)) = pid) \<Longrightarrow> at_home pid (upd_where p f xs)"
  by (induction xs) auto

lemma at_home_status [simp]: "at_home pid (set_status_of i s xs) = at_home pid xs"
  by (induction xs) (auto simp: edit_field_def)

lemma at_home_drop: "at_home pid xs \<Longrightarrow> at_home pid (drop_key wi_id i xs)"
  by (induction xs) auto

lemma snapshots_remove1: "list_all snapshot_home ps \<Longrightarrow> list_all snapshot_home (remove1 p ps)"
  using set_remove1_subset [of p ps] by (auto simp: list_all_iff)

named_theorems home_rules

lemma put_item_home [home_rules]: "home b \<Longrightarrow> wi_project_id wi = pid \<Longrightarrow> home (put_item pid i wi now b)"
  by (auto simp: put_item_def intro!: at_home_upd)

lemma remote_home [home_rules]: "home b \<Longrightarrow> home (applyRemote c now b)"
  by (auto simp: applyRemote_def merge_change_def intro!: at_home_upd)

lemma load_begin_home [home_rules]: "home b \<Longrightarrow> home (board_load_begin pid b)"
  by (auto simp: board_load_begin_def)

lemma load_done_home [home_rules]: "home b \<Longrightarrow> list_answer_of pid r \<Longrightarrow> home (board_load_done pid r now b)"
  by (cases r) (auto simp: board_load_done_def at_home_def list_all_iff)

lemma milestones_home [home_rules]:
  "home b \<Longrightarrow> home (loadMilestones_done pid mr b)" "home b \<Longrightarrow> home (fst (addMilestone_done mr' b))"
  by (auto simp: loadMilestones_done_def addMilestone_done_def split: sum.split)

lemma add_done_home [home_rules]: "home b \<Longrightarrow> answer_of pid r \<Longrightarrow> home (fst (add_done pid r now b))"
  by (cases r) (auto simp: add_done_def)

lemma update_done_home [home_rules]:
  "home b \<Longrightarrow> answer_of pid r \<Longrightarrow> home (fst (update_done pid i r now b))"
  "home b \<Longrightarrow> answer_of pid r \<Longrightarrow> home (fst (rename_done pid i r now b))"
  by (cases r; simp add: update_done_def rename_done_def put_item_home)+

lemma move_done_home [home_rules]:
  assumes "home b" "answer_of (opt_str pid) r"
  shows "home (fst (move_done pid i prev r now b))"
proof (cases "if truthy pid then r else Inl (Err ''project not selected'')")
  case (Inl e)
  with assms(1) show ?thesis by (auto simp: move_done_def split: option.split)
next
  case (Inr wi)
  with assms have "wi_project_id wi = opt_str pid" by (auto split: if_splits)
  with Inr assms(1) show ?thesis by (simp add: move_done_def put_item_home)
qed

lemma remove_done_home [home_rules]:
  assumes "home b" "at_home pid prev"
  shows "home (fst (remove_done pid prev ur now b))"
  using assms by (cases "if truthy pid then ur else Inl (Err ''project not selected'')")
    (auto simp: remove_done_def)

lemma begin_home:
  "home b \<Longrightarrow> move_begin i s b = (b', pid, prev) \<Longrightarrow> home b'"
  "home b \<Longrightarrow> remove_begin i b = (b', pid, olds) \<Longrightarrow> home b' \<and> at_home pid olds"
  by (auto simp: move_begin_def remove_begin_def at_home_drop)

lemma board_ok_step: "board_step w w' \<Longrightarrow> board_ok w \<Longrightarrow> board_ok w'"
proof (induction rule: board_step.induct)
  case (b_removed pid prev ps b ur now)
  then have "at_home pid prev" by (auto simp: board_ok_def list_all_iff)
  with b_removed show ?case by (simp add: board_ok_def snapshots_remove1 remove_done_home)
next
  case (b_remove i b b' pid prev ps)
  then show ?case using begin_home(2) [of b i b' pid prev] by (simp add: board_ok_def)
next
  case (b_move i s b b' pid prev ps)
  then show ?case using begin_home(1) [of b i s b' pid prev] by (simp add: board_ok_def)
qed (auto simp: board_ok_def intro: home_rules snapshots_remove1)

lemma board_ok_reaches: "board_reaches w w' \<Longrightarrow> board_ok w \<Longrightarrow> board_ok w'"
  unfolding board_reaches_def by (induction rule: rtranclp_induct) (auto intro: board_ok_step)

subsection \<open>Properties\<close>

text \<open>
  C23. The board never mixes projects: whatever requests are in flight and in whatever order
  their answers arrive (for the project on screen or for one left long ago), every task shown
  belongs to the project on screen.
\<close>

theorem board_shows_one_project:
  assumes "board_reaches (initial_board, []) (b, ps)" "wi \<in> set (bd_items b)"
  shows "bd_project_id b = Some (wi_project_id wi)"
proof -
  have "board_ok (b, ps)"
    using board_ok_reaches [OF assms(1)] by (simp add: board_ok_def initial_board_def)
  with assms(2) show ?thesis by (auto simp: board_ok_def at_home_def list_all_iff)
qed

lemma board_reaches_refl: "board_reaches w w"
  by (simp add: board_reaches_def)

lemma board_reaches_step: "board_reaches w u \<Longrightarrow> board_step u v \<Longrightarrow> board_reaches w v"
  unfolding board_reaches_def by (rule rtranclp.rtrancl_into_rtrancl)

definition demo_board :: board where
  "demo_board = board_load_done ''p'' (Inr [blank_item ''i'' ''p'' ''t'']) 1 (board_load_begin ''p'' initial_board)"

lemma demo_board_reached: "board_reaches (initial_board, []) (demo_board, [PMilestones ''p''])"
proof -
  have "board_reaches (initial_board, []) (board_load_begin ''p'' initial_board, [PLoad ''p''])"
    by (rule board_reaches_step [OF board_reaches_refl b_load])
  moreover have "board_step (board_load_begin ''p'' initial_board, [PLoad ''p'']) (demo_board, [PMilestones ''p''])"
    using b_loaded [of "''p''" "[PLoad ''p'']" "Inr [blank_item ''i'' ''p'' ''t'']" "board_load_begin ''p'' initial_board" 1]
    by (simp add: blank_item_def demo_board_def)
  ultimately show ?thesis by (rule board_reaches_step)
qed

theorem board_shows_one_project_witness: "bd_project_id demo_board = Some ''p''"
proof -
  have "blank_item ''i'' ''p'' ''t'' \<in> set (bd_items demo_board)"
    by (simp add: demo_board_def board_load_done_def board_load_begin_def initial_board_def)
  from board_shows_one_project [OF demo_board_reached this] show ?thesis by (simp add: blank_item_def)
qed

text \<open>
  A move that fails leaves no trace: the card is back where it was, the whole board is as
  before the drag, and the user is told; a move that succeeds shows the Server's version of the
  card and touches no other.
\<close>

theorem move_all_or_nothing:
  assumes "distinct (map wi_id (bd_items b))" "move_begin i s b = (b', pid, prev)" "truthy pid"
  shows "move_done pid i prev (Inl e) now b' = (b, [msg_move_failed])
    \<and> bd_items (fst (move_done pid i prev (Inr wi) now b')) = upd_key wi_id i (\<lambda>_. wi) (bd_items b)"
proof (intro conjI)
  have b': "b' = b\<lparr> bd_items := set_status_of i s (bd_items b) \<rparr>" "pid = bd_project_id b"
      "prev = map_option wi_status (find_key wi_id i (bd_items b))"
    using assms(2) by (auto simp: move_begin_def)
  show "move_done pid i prev (Inl e) now b' = (b, [msg_move_failed])"
  proof (cases "find_key wi_id i (bd_items b)")
    case None
    then have "set_status_of i s (bd_items b) = bd_items b"
      by (intro item_status.edit_same) (auto simp: find_key_None)
    with None b' show ?thesis by (simp add: move_done_def)
  next
    case (Some x)
    with b' show ?thesis by (simp add: move_done_def item_status.roll_back [OF assms(1) Some])
  qed
  have "upd_key wi_id i (\<lambda>_. wi) (set_status_of i s xs) = upd_key wi_id i (\<lambda>_. wi) xs" for xs
    by (induction xs) (auto simp: edit_field_def)
  then show "bd_items (fst (move_done pid i prev (Inr wi) now b')) = upd_key wi_id i (\<lambda>_. wi) (bd_items b)"
    using assms(3) b' by (cases "bd_project_id b") (auto simp: move_done_def put_item_def)
qed

theorem move_all_or_nothing_witness:
  "fst (move_done (Some ''p'') ''i'' (Some WTodo) (Inl (Err ''x'')) 2 (fst (move_begin ''i'' WDone demo_board)))
     = demo_board"
proof -
  have d: "distinct (map wi_id (bd_items demo_board))"
      "move_begin ''i'' WDone demo_board = (fst (move_begin ''i'' WDone demo_board), Some ''p'', Some WTodo)"
    by (simp_all add: demo_board_def board_load_done_def board_load_begin_def initial_board_def
        move_begin_def blank_item_def find_key_def)
  from move_all_or_nothing [OF d] show ?thesis by simp
qed

text \<open>
  A failed deletion does more than undo itself: it writes back the whole list it captured,
  so a task added while the request was in flight vanishes from the board.
\<close>

theorem failed_remove_drops_added_task:
  assumes "remove_begin i b = (b1, Some pid, prev)" "pid \<noteq> []" "wi \<notin> set (bd_items b)"
  shows "wi \<in> set (bd_items (fst (add_done pid (Inr wi) now b1)))
    \<and> wi \<notin> set (bd_items (fst (remove_done (Some pid) prev (Inl e) now' (fst (add_done pid (Inr wi) now b1)))))"
  using assms by (auto simp: remove_begin_def add_done_def remove_done_def)

theorem failed_remove_drops_added_task_witness:
  "blank_item ''j'' ''p'' ''new'' \<notin> set (bd_items (fst (remove_done (Some ''p'') (bd_items demo_board)
     (Inl (Err ''x'')) 3 (fst (add_done ''p'' (Inr (blank_item ''j'' ''p'' ''new'')) 2
       (fst (remove_begin ''i'' demo_board)))))))"
proof -
  have "remove_begin ''i'' demo_board = (fst (remove_begin ''i'' demo_board), Some ''p'', bd_items demo_board)"
    "blank_item ''j'' ''p'' ''new'' \<notin> set (bd_items demo_board)"
    by (simp_all add: demo_board_def board_load_done_def board_load_begin_def initial_board_def
        remove_begin_def blank_item_def)
  from failed_remove_drops_added_task [OF this(1) _ this(2)] show ?thesis by simp
qed

text \<open>
  Milestones lack the guard tasks have: a milestone created for one project is appended to
  the list even when another project is on screen by the time the answer arrives.
\<close>

theorem foreign_milestone_reachable:
  "\<exists>b ps m. board_reaches (initial_board, []) (b, ps) \<and> m \<in> set (bd_milestones b)
     \<and> bd_project_id b \<noteq> Some (ms_project_id m)"
proof -
  let ?m = "\<lparr> ms_id = ''m'', ms_project_id = ''p'', ms_name = ''n'', ms_description = [], ms_due_date = None,
      ms_open = True, ms_sort = 0 \<rparr>"
  let ?b1 = "board_load_begin ''p'' initial_board" and ?l = "PLoad ''p''"
  let ?b2 = "board_load_begin ''q'' ?b1"
  have "trim ''n'' = ''n''" by (rule trim_plain) simp_all
  then have "addMilestone_begin ''n'' None ?b1 = Some (''p'', ''n'', None)"
    by (simp add: addMilestone_begin_def board_load_begin_def initial_board_def)
  then have s2: "board_step (?b1, [?l]) (?b1, [PAddMilestone ''p'', ?l])" by (rule b_add_milestone)
  have s1: "board_step (initial_board, []) (?b1, [?l])" by (rule b_load)
  have s3: "board_step (?b1, [PAddMilestone ''p'', ?l]) (?b2, [PLoad ''q'', PAddMilestone ''p'', ?l])"
    by (rule b_load)
  have s4: "board_step (?b2, [PLoad ''q'', PAddMilestone ''p'', ?l])
      (fst (addMilestone_done (Inr ?m) ?b2), [PLoad ''q'', ?l])"
    using b_milestone_added [of "''p''" "[PLoad ''q'', PAddMilestone ''p'', ?l]" "Inr ?m" ?b2] by simp
  have "board_reaches (initial_board, []) (fst (addMilestone_done (Inr ?m) ?b2), [PLoad ''q'', ?l])"
    by (rule board_reaches_step [OF board_reaches_step [OF board_reaches_step [OF
          board_reaches_step [OF board_reaches_refl s1] s2] s3] s4])
  moreover have "?m \<in> set (bd_milestones (fst (addMilestone_done (Inr ?m) ?b2)))"
    by (simp add: addMilestone_done_def)
  moreover have "bd_project_id (fst (addMilestone_done (Inr ?m) ?b2)) \<noteq> Some (ms_project_id ?m)"
    by (simp add: addMilestone_done_def board_load_begin_def initial_board_def)
  ultimately show ?thesis by blast
qed

end
