(* ===== verification/Channels.thy ===== *)
theory Channels
  imports Http JsUri "HOL-Library.Word"
begin

text \<open>
  The Server channel (\<open>src/src/lib/channels.ts\<close>): the address of the Server and its checks,
  the connection state shown to the user, reads with a per-account cache in the browser's
  storage, paged reads, writes, and the status of the Local Agent. The network, the clock, the
  URL parser and the JSON codec are the environment \<open>net\<close> of a call.
\<close>

unbundle bit_operations_syntax

subsection \<open>State and environment\<close>

datatype conn_kind = ConnUnknown | ConnOnline | ConnOffline | ConnCached

record conn_state =
  cn_state :: conn_kind
  cn_checked_at :: "int option"
  cn_cached_at :: json
  cn_error :: string

record agent_status =
  la_server_configured :: bool
  la_server_api_url :: string
  la_rest :: json

record channels =
  ch_server :: conn_state
  ch_agent :: "agent_status option"
  ch_agent_checked :: bool
  ch_agent_error :: string
  ch_base :: "string option"
  ch_storage :: "string \<Rightarrow> string option"
  ch_session_storage :: "string \<Rightarrow> string option"

definition initial_channels :: channels where
  "initial_channels =
     \<lparr> ch_server = \<lparr> cn_state = ConnUnknown, cn_checked_at = None, cn_cached_at = JNull, cn_error = [] \<rparr>,
       ch_agent = None, ch_agent_checked = False, ch_agent_error = [], ch_base = None,
       ch_storage = (\<lambda>_. None), ch_session_storage = (\<lambda>_. None) \<rparr>"

record url =
  url_protocol :: string
  url_hostname :: string
  url_href :: string

record net =
  nt_configured :: "string option"
  nt_desktop :: bool
  nt_tauri :: bool
  nt_agent :: "agent_status res"
  nt_url :: "string \<Rightarrow> url option"
  nt_fetch :: "string \<Rightarrow> http_response res"
  nt_now :: int
  nt_store_ok :: bool
  nt_parse :: "string \<Rightarrow> json option"
  nt_stringify :: "json \<Rightarrow> string"

subsection \<open>The Server's address\<close>

definition slash :: char where
  "slash = CHR ''/''"

text \<open>\<open>replace(/\/+$/, '')\<close>, \<open>replace(/\/api$/, '')\<close>, \<open>replace(/\/$/, '')\<close>\<close>

definition strip_slashes :: "string \<Rightarrow> string" where
  "strip_slashes s = rev (dropWhile (\<lambda>c. c = slash) (rev s))"

definition strip_suffix :: "string \<Rightarrow> string \<Rightarrow> string" where
  "strip_suffix suffix s = (if ends_with suffix s then take (length s - length suffix) s else s)"

definition isCspAllowedHttpServer :: "string \<Rightarrow> bool" where
  "isCspAllowedHttpServer hostname \<longleftrightarrow> lower hostname = ''localhost'' \<or> hostname = ''127.0.0.1''"

definition msg_bad_address :: string where
  "msg_bad_address = ''AgentMate Server address invalid''"

definition msg_need_http :: string where
  "msg_need_http = ''AgentMate Server address must use http(s)''"

definition msg_need_https :: string where
  "msg_need_https = ''the desktop app connects over HTTP to the local Server only''"

definition server_error :: "string \<Rightarrow> exn" where
  "server_error m = ChannelUnavailableError ServerChannel m None"

definition validateServerRoot :: "(string \<Rightarrow> url option) \<Rightarrow> bool \<Rightarrow> string \<Rightarrow> string res" where
  "validateServerRoot URL_parse isTauri value =
     (case URL_parse (strip_suffix ''/api'' (strip_slashes (trim value))) of
        None \<Rightarrow> Inl (server_error msg_bad_address)
      | Some parsed \<Rightarrow>
          if url_protocol parsed \<notin> {''http:'', ''https:''} then Inl (server_error msg_need_http)
          else if isTauri \<and> url_protocol parsed = ''http:''
                  \<and> \<not> isCspAllowedHttpServer (url_hostname parsed)
            then Inl (server_error msg_need_https)
          else Inr (strip_suffix ''/'' (url_href parsed)))"

definition normalizeApiBase :: "(string \<Rightarrow> url option) \<Rightarrow> bool \<Rightarrow> string \<Rightarrow> string res" where
  "normalizeApiBase URL_parse isTauri value =
     bind_res (validateServerRoot URL_parse isTauri value) (\<lambda>root. Inr (root @ ''/api''))"

definition refreshLocalAgentStatus :: "net \<Rightarrow> channels \<Rightarrow> agent_status option \<times> channels" where
  "refreshLocalAgentStatus n ch =
     (case nt_agent n of
        Inr status \<Rightarrow>
          (Some status, ch\<lparr> ch_agent := Some status, ch_agent_checked := True, ch_agent_error := [] \<rparr>)
      | Inl e \<Rightarrow>
          (None, ch\<lparr> ch_agent := None, ch_agent_checked := True, ch_agent_error := exn_message e \<rparr>))"

definition msg_not_configured :: string where
  "msg_not_configured = ''AgentMate Server is not configured''"

text \<open>The address is looked up once and kept; a failed lookup is forgotten.\<close>

definition serverApiBase :: "net \<Rightarrow> channels \<Rightarrow> string res \<times> channels" where
  "serverApiBase n ch =
     (case ch_base ch of
        Some base \<Rightarrow> (Inr base, ch)
      | None \<Rightarrow>
          (let configured = trim (opt_str (nt_configured n));
               (r, ch1) =
                 (if configured \<noteq> [] then (normalizeApiBase (nt_url n) (nt_tauri n) configured, ch)
                  else if \<not> nt_desktop n then (Inr ''/server-api'', ch)
                  else case refreshLocalAgentStatus n ch of (status, ch1) \<Rightarrow>
                    (case status of
                       None \<Rightarrow> (Inl (server_error msg_not_configured), ch1)
                     | Some s \<Rightarrow>
                         if la_server_api_url s = [] then (Inl (server_error msg_not_configured), ch1)
                         else (normalizeApiBase (nt_url n) (nt_tauri n) (la_server_api_url s), ch1)))
           in case r of
                Inl e \<Rightarrow> (Inl e, ch1\<lparr> ch_base := None \<rparr>)
              | Inr base \<Rightarrow> (Inr base, ch1\<lparr> ch_base := Some base \<rparr>)))"

definition serverConsoleBase :: "net \<Rightarrow> channels \<Rightarrow> string res \<times> channels" where
  "serverConsoleBase n ch =
     (case refreshLocalAgentStatus n ch of (status, ch1) \<Rightarrow>
        let configured = (case status of None \<Rightarrow> [] | Some s \<Rightarrow> trim (la_server_api_url s)) in
        (if configured = [] then Inl (server_error msg_not_configured)
         else validateServerRoot (nt_url n) (nt_tauri n) configured, ch1))"

definition resetServerApiBase :: "channels \<Rightarrow> channels" where
  "resetServerApiBase ch = ch\<lparr> ch_base := None \<rparr>"

subsection \<open>The cache\<close>

text \<open>The UTF-16 code units of a string, from its UTF-8 bytes.\<close>

fun code_units :: "nat list \<Rightarrow> nat list" where
  "code_units [] = []"
| "code_units (a # b # c # d # r) =
     (if 0xF0 \<le> a then
        (let p = (a - 0xF0) * 0x40000 + (b - 0x80) * 0x1000 + (c - 0x80) * 0x40 + (d - 0x80) - 0x10000
         in (0xD800 + p div 0x400) # (0xDC00 + p mod 0x400) # code_units r)
      else if 0xE0 \<le> a then
        ((a - 0xE0) * 0x1000 + (b - 0x80) * 0x40 + (c - 0x80)) # code_units (d # r)
      else if 0xC0 \<le> a then ((a - 0xC0) * 0x40 + (b - 0x80)) # code_units (c # d # r)
      else a # code_units (b # c # d # r))"
| "code_units [a, b, c] =
     (if 0xE0 \<le> a then [(a - 0xE0) * 0x1000 + (b - 0x80) * 0x40 + (c - 0x80)]
      else if 0xC0 \<le> a then ((a - 0xC0) * 0x40 + (b - 0x80)) # code_units [c]
      else a # code_units [b, c])"
| "code_units [a, b] = (if 0xC0 \<le> a then [(a - 0xC0) * 0x40 + (b - 0x80)] else [a, b])"
| "code_units [a] = [a]"

definition fnv_step :: "nat \<Rightarrow> 32 word \<Rightarrow> 32 word" where
  "fnv_step unit hash = (hash XOR word_of_nat unit) * 16777619"

definition fnv :: "nat list \<Rightarrow> 32 word" where
  "fnv units = fold fnv_step units 2166136261"

definition digit36 :: "nat \<Rightarrow> char" where
  "digit36 n = (if n < 10 then chr (48 + n) else chr (87 + n))"

fun base36 :: "nat \<Rightarrow> string" where
  "base36 n = (if n < 36 then [digit36 n] else base36 (n div 36) @ [digit36 (n mod 36)])"

declare base36.simps [simp del]

definition token_key :: string where
  "token_key = ''wb.token''"

definition tokenNamespace :: "channels \<Rightarrow> string" where
  "tokenNamespace ch =
     base36 (unat (fnv (code_units (map of_char (or_opt (ch_storage ch token_key) ''anonymous'')))))"

definition cacheKey :: "channels \<Rightarrow> string \<Rightarrow> string" where
  "cacheKey ch path = ''agentmate.server-cache.v1.'' @ tokenNamespace ch @ ''.'' @ encodeURIComponent path"

definition is_number :: "json \<Rightarrow> bool" where
  "is_number v = (case v of JNum n \<Rightarrow> True | JNonFinite \<Rightarrow> True | _ \<Rightarrow> False)"

text \<open>\<open>readCache\<close>: the envelope's time and value.\<close>

definition readCache :: "net \<Rightarrow> string \<Rightarrow> channels \<Rightarrow> (json \<times> json) option" where
  "readCache n path ch =
     (case ch_storage ch (cacheKey ch path) of
        None \<Rightarrow> None
      | Some raw \<Rightarrow>
          if raw = [] then None
          else case nt_parse n raw of
            None \<Rightarrow> None
          | Some parsed \<Rightarrow>
              if jtruthy parsed \<and> is_number (jget ''cachedAt'' parsed)
              then Some (jget ''cachedAt'' parsed, jget ''value'' parsed) else None)"

definition envelope :: "int \<Rightarrow> json \<Rightarrow> json" where
  "envelope now v = JObj [(''cachedAt'', JNum now), (''value'', v)]"

definition writeCache :: "net \<Rightarrow> string \<Rightarrow> json \<Rightarrow> channels \<Rightarrow> channels" where
  "writeCache n path v ch =
     (if nt_store_ok n
      then ch\<lparr> ch_storage := (ch_storage ch)(cacheKey ch path \<mapsto> nt_stringify n (envelope (nt_now n) v)) \<rparr>
      else ch)"

subsection \<open>Reading and writing\<close>

definition markServer :: "net \<Rightarrow> conn_kind \<Rightarrow> string \<Rightarrow> json \<Rightarrow> channels \<Rightarrow> channels" where
  "markServer n kind err cachedAt ch =
     ch\<lparr> ch_server := \<lparr> cn_state = kind, cn_checked_at = Some (nt_now n), cn_cached_at = cachedAt,
                        cn_error = err \<rparr> \<rparr>"

text \<open>\<open>payload.detail\<close> throws on \<open>null\<close>; the \<open>catch\<close> leaves the detail empty.\<close>

definition error_detail :: "net \<Rightarrow> json option \<Rightarrow> string" where
  "error_detail n body =
     (case body of
        None \<Rightarrow> []
      | Some payload \<Rightarrow>
          if is_nullish payload then []
          else case jget ''detail'' payload of
            JStr s \<Rightarrow> s
          | d \<Rightarrow> nt_stringify n (if is_nullish d then JStr [] else d))"

definition responseError :: "net \<Rightarrow> http_response \<Rightarrow> string \<Rightarrow> string \<Rightarrow> exn" where
  "responseError n r verb path =
     ChannelUnavailableError ServerChannel
       (or_str (error_detail n (hr_body r)) (verb @ '' '' @ path @ '' -> '' @ dec_int (hr_status r)))
       (Some (hr_status r))"

definition serverAuthHeaders :: "channels \<Rightarrow> (string \<times> string) list" where
  "serverAuthHeaders ch =
     (if truthy (ch_storage ch token_key)
      then [(''Authorization'', ''Bearer '' @ opt_str (ch_storage ch token_key))] else [])"

text \<open>An error that may be an outage: no status, or a status from 500 on.\<close>

definition outage :: "exn \<Rightarrow> bool" where
  "outage e = (case exn_status e of None \<Rightarrow> True | Some st \<Rightarrow> 500 \<le> st)"

text \<open>The \<open>try\<close> part of a read or write: the body of a successful answer.\<close>

definition request_value :: "net \<Rightarrow> string \<Rightarrow> string \<Rightarrow> channels \<Rightarrow> json res \<times> channels" where
  "request_value n verb path ch =
     (case serverApiBase n ch of
        (Inl e, ch1) \<Rightarrow> (Inl e, ch1)
      | (Inr base, ch1) \<Rightarrow>
          (bind_res (nt_fetch n (base @ path))
             (\<lambda>r. if \<not> hr_ok r then Inl (responseError n r verb path) else hr_json r), ch1))"

text \<open>\<open>serverGet\<close>: the value or error, and the state handed to \<open>onResolvedState\<close>, if it is called.\<close>

definition serverGet ::
  "net \<Rightarrow> string \<Rightarrow> bool \<Rightarrow> channels \<Rightarrow> json res \<times> conn_state option \<times> channels" where
  "serverGet n path useCache ch =
     (case request_value n ''GET'' path ch of
        (Inr v, ch1) \<Rightarrow>
          (let ch2 = (if useCache then writeCache n path v ch1 else ch1);
               ch3 = markServer n ConnOnline [] JNull ch2
           in (Inr v, Some (ch_server ch3), ch3))
      | (Inl e, ch1) \<Rightarrow>
          (case (if useCache \<and> outage e then readCache n path ch1 else None) of
             Some (cachedAt, v) \<Rightarrow>
               (let ch2 = markServer n ConnCached (exn_message e) cachedAt ch1
                in (Inr v, Some (ch_server ch2), ch2))
           | None \<Rightarrow>
               (Inl e, None, if outage e then markServer n ConnOffline (exn_message e) JNull ch1 else ch1)))"

definition serverSend :: "net \<Rightarrow> string \<Rightarrow> string \<Rightarrow> channels \<Rightarrow> json res \<times> channels" where
  "serverSend n verb path ch =
     (case request_value n verb path ch of
        (Inr v, ch1) \<Rightarrow> (Inr v, markServer n ConnOnline [] JNull ch1)
      | (Inl e, ch1) \<Rightarrow>
          (Inl e, if outage e then markServer n ConnOffline (exn_message e) JNull ch1 else ch1))"

definition probeServer :: "net \<Rightarrow> channels \<Rightarrow> unit res \<times> channels" where
  "probeServer n ch =
     (case serverGet n ''/auth/capabilities'' False ch of
        (r, s, ch1) \<Rightarrow> (bind_res r (\<lambda>_. Inr ()), ch1))"

text \<open>
  \<open>serverGetAll\<close>: at most 100 pages. \<open>get\<close> is the read of one page, in whatever state \<open>'s\<close>
  the reads run.
\<close>

definition page_query :: "string \<Rightarrow> int \<Rightarrow> string \<Rightarrow> string" where
  "page_query path limit cursor =
     path @ (if includes_str ''?'' path then ''&'' else ''?'') @ ''limit='' @ dec_int limit
       @ (if cursor \<noteq> [] then ''&cursor='' @ encodeURIComponent cursor else [])"

fun get_pages ::
  "(string \<Rightarrow> 's \<Rightarrow> json res \<times> 's) \<Rightarrow> string \<Rightarrow> string \<Rightarrow> int \<Rightarrow> nat \<Rightarrow> string \<Rightarrow> json list \<Rightarrow> 's
     \<Rightarrow> json list res \<times> 's" where
  "get_pages get path key limit 0 cursor items st =
     (Inl (server_error (''Server pagination exceeded 100 pages: '' @ path)), st)"
| "get_pages get path key limit (Suc n) cursor items st =
     (case get (page_query path limit cursor) st of
        (Inl e, st1) \<Rightarrow> (Inl e, st1)
      | (Inr result, st1) \<Rightarrow>
          (case jarr (jget key result) of
             None \<Rightarrow> (Inl (server_error (''Server page '' @ path @ '' is missing '' @ key)), st1)
           | Some batch \<Rightarrow>
               let next_cursor = jstr_d (jget ''next_cursor'' result) in
               if next_cursor = [] then (Inr (items @ batch), st1)
               else get_pages get path key limit n next_cursor (items @ batch) st1))"

definition serverGetAll ::
  "(string \<Rightarrow> 's \<Rightarrow> json res \<times> 's) \<Rightarrow> string \<Rightarrow> string \<Rightarrow> int \<Rightarrow> 's \<Rightarrow> json list res \<times> 's" where
  "serverGetAll get path key limit st = get_pages get path key limit 100 [] [] st"

definition executionSessionKey :: "string \<Rightarrow> string" where
  "executionSessionKey i = ''agentmate.local-execution-session.v1.'' @ i"

definition localExecutionSession :: "string \<Rightarrow> channels \<Rightarrow> string option" where
  "localExecutionSession i ch = or_none (ch_session_storage ch (executionSessionKey i))"

definition rememberLocalExecutionSession :: "string \<Rightarrow> string \<Rightarrow> channels \<Rightarrow> channels" where
  "rememberLocalExecutionSession i local ch =
     ch\<lparr> ch_session_storage := (ch_session_storage ch)(executionSessionKey i \<mapsto> local) \<rparr>"

subsection \<open>What calls leave alone\<close>

named_theorems channel_simps

lemma mark_storage [channel_simps]: "ch_storage (markServer n k e t ch) = ch_storage ch"
  by (simp add: markServer_def)

lemma agent_storage: "ch_storage (snd (refreshLocalAgentStatus n ch)) = ch_storage ch"
  by (simp add: refreshLocalAgentStatus_def split: sum.split)

lemma base_storage: "serverApiBase n ch = (r, ch') \<Longrightarrow> ch_storage ch' = ch_storage ch"
  using agent_storage [of n ch]
  by (auto simp: serverApiBase_def Let_def split: option.splits sum.splits if_splits prod.splits)

lemma request_storage: "request_value n verb path ch = (r, ch') \<Longrightarrow> ch_storage ch' = ch_storage ch"
  by (auto simp: request_value_def split: prod.splits sum.splits dest: base_storage)

lemma cacheKey_cong: "ch_storage ch' token_key = ch_storage ch token_key \<Longrightarrow> cacheKey ch' path = cacheKey ch path"
  by (simp add: cacheKey_def tokenNamespace_def)

lemma cacheKey_not_token: "cacheKey ch path \<noteq> token_key"
  by (simp add: cacheKey_def token_key_def)

lemma cacheKey_inj: "utf8 p \<Longrightarrow> utf8 q \<Longrightarrow> cacheKey ch p = cacheKey ch q \<Longrightarrow> p = q"
  by (simp add: cacheKey_def uri.enc_inj)

text \<open>A call on the channel, with the environment it meets.\<close>

datatype channel_call = CallGet net string bool | CallSend net string string | CallProbe net

fun run_call :: "channel_call \<Rightarrow> channels \<Rightarrow> channels" where
  "run_call (CallGet n p c) ch = snd (snd (serverGet n p c ch))"
| "run_call (CallSend n m p) ch = snd (serverSend n m p ch)"
| "run_call (CallProbe n) ch = snd (probeServer n ch)"

fun refreshes :: "string \<Rightarrow> channel_call \<Rightarrow> bool" where
  "refreshes path (CallGet n p c) \<longleftrightarrow> p = path \<or> \<not> utf8 p"
| "refreshes path _ \<longleftrightarrow> False"

lemma get_storage:
  assumes "utf8 path" "utf8 p" "p \<noteq> path" "key = cacheKey ch path"
  shows "ch_storage (snd (snd (serverGet n p c ch))) key = ch_storage ch key
     \<and> ch_storage (snd (snd (serverGet n p c ch))) token_key = ch_storage ch token_key"
proof -
  obtain r ch1 where r: "request_value n ''GET'' p ch = (r, ch1)" by (cases "request_value n ''GET'' p ch")
  then have st: "ch_storage ch1 = ch_storage ch" by (rule request_storage)
  then have k: "cacheKey ch1 p = cacheKey ch p" by (intro cacheKey_cong) simp
  have "cacheKey ch p \<noteq> key" using assms cacheKey_inj by blast
  with r st k cacheKey_not_token [of ch p] show ?thesis
    by (auto simp: serverGet_def Let_def writeCache_def mark_storage split: sum.split option.split)
qed

lemma send_storage: "ch_storage (snd (serverSend n m p ch)) = ch_storage ch"
proof -
  obtain r ch1 where r: "request_value n m p ch = (r, ch1)" by (cases "request_value n m p ch")
  with request_storage [OF r] show ?thesis by (cases r) (simp_all add: serverSend_def mark_storage)
qed

lemma uncached_storage: "ch_storage (snd (snd (serverGet n p False ch))) = ch_storage ch"
proof -
  obtain r ch1 where r: "request_value n ''GET'' p ch = (r, ch1)" by (cases "request_value n ''GET'' p ch")
  with request_storage [OF r] show ?thesis by (cases r) (simp_all add: serverGet_def Let_def mark_storage)
qed

lemma probe_storage: "ch_storage (snd (probeServer n ch)) = ch_storage ch"
proof -
  obtain r s ch1 where "serverGet n ''/auth/capabilities'' False ch = (r, s, ch1)"
    by (cases "serverGet n ''/auth/capabilities'' False ch")
  with uncached_storage [of n "''/auth/capabilities''" ch] show ?thesis by (simp add: probeServer_def)
qed

lemma call_storage:
  assumes "utf8 path" "\<not> refreshes path c" "key = cacheKey ch path"
  shows "ch_storage (run_call c ch) key = ch_storage ch key
     \<and> ch_storage (run_call c ch) token_key = ch_storage ch token_key"
  using assms by (cases c) (simp_all add: get_storage send_storage probe_storage)

lemma calls_storage:
  assumes "utf8 path" "\<forall>c\<in>set cs. \<not> refreshes path c" "key = cacheKey ch path"
  shows "ch_storage (fold run_call cs ch) key = ch_storage ch key
     \<and> ch_storage (fold run_call cs ch) token_key = ch_storage ch token_key"
  using assms
proof (induction cs arbitrary: ch)
  case (Cons c cs)
  have one: "ch_storage (run_call c ch) key = ch_storage ch key"
      "ch_storage (run_call c ch) token_key = ch_storage ch token_key"
    using call_storage [OF Cons.prems(1) _ Cons.prems(3)] Cons.prems(2) by auto
  then have "key = cacheKey (run_call c ch) path"
    using Cons.prems(3) cacheKey_cong [OF one(2)] by simp
  from Cons.IH [OF Cons.prems(1) _ this] Cons.prems(2) one show ?case by simp
qed simp

lemma readCache_cong:
  assumes "ch_storage ch' token_key = ch_storage ch token_key"
    and "ch_storage ch' (cacheKey ch path) = ch_storage ch (cacheKey ch path)"
  shows "readCache n path ch' = readCache n path ch"
  using assms(2) unfolding readCache_def cacheKey_cong [OF assms(1)] by simp

lemma readCache_written:
  assumes "nt_store_ok m" "nt_stringify m (envelope (nt_now m) v) \<noteq> []"
    and "nt_parse n (nt_stringify m (envelope (nt_now m) v)) = Some (envelope (nt_now m) v)"
  shows "readCache n path (writeCache m path v ch) = Some (JNum (nt_now m), v)"
proof -
  have "cacheKey (writeCache m path v ch) path = cacheKey ch path"
    using cacheKey_not_token [of ch path] by (intro cacheKey_cong) (simp add: writeCache_def)
  with assms show ?thesis
    by (simp add: readCache_def writeCache_def envelope_def is_number_def)
qed

subsection \<open>Properties\<close>

text \<open>
  Last known good: once a read of a path has succeeded, a later read of it that meets an
  outage (no answer, or a status from 500 on) gives the very value of the last successful read,
  marked as cached with the time it was read, whatever calls on other paths came between.
\<close>

theorem outage_serves_last_value:
  assumes "serverGet m path True ch0 = (Inr v, s0, ch1)" "request_value m ''GET'' path ch0 = (Inr v, ch0')"
    and "nt_store_ok m" "nt_stringify m (envelope (nt_now m) v) \<noteq> []"
    and "nt_parse n (nt_stringify m (envelope (nt_now m) v)) = Some (envelope (nt_now m) v)"
    and "utf8 path" "\<forall>c\<in>set cs. \<not> refreshes path c"
    and "request_value n ''GET'' path (fold run_call cs ch1) = (Inl e, ch2)" "outage e"
  shows "\<exists>ch3. serverGet n path True (fold run_call cs ch1) = (Inr v, Some (ch_server ch3), ch3)
     \<and> cn_state (ch_server ch3) = ConnCached \<and> cn_cached_at (ch_server ch3) = JNum (nt_now m)"
proof -
  have ch1: "ch_storage ch1 = ch_storage (writeCache m path v ch0')"
    using assms(1,2) by (auto simp: serverGet_def Let_def mark_storage)
  have "readCache n path ch1 = readCache n path (writeCache m path v ch0')"
    using ch1 by (simp add: readCache_def cacheKey_def tokenNamespace_def)
  then have "readCache n path ch1 = Some (JNum (nt_now m), v)"
    using readCache_written [OF assms(3-5)] by simp
  moreover have "readCache n path (fold run_call cs ch1) = readCache n path ch1"
    using calls_storage [OF assms(6,7) refl, of ch1] by (intro readCache_cong) auto
  moreover have "readCache n path ch2 = readCache n path (fold run_call cs ch1)"
    using request_storage [OF assms(8)] by (intro readCache_cong) simp_all
  ultimately have "readCache n path ch2 = Some (JNum (nt_now m), v)" by simp
  with assms(8,9) show ?thesis by (simp add: serverGet_def Let_def markServer_def)
qed

definition demo_net :: "http_response res \<Rightarrow> net" where
  "demo_net answer = \<lparr> nt_configured = None, nt_desktop = False, nt_tauri = False, nt_agent = Inl (Err []),
     nt_url = (\<lambda>_. None), nt_fetch = (\<lambda>_. answer), nt_now = 7, nt_store_ok = True,
     nt_parse = (\<lambda>s. if s = ''{}'' then Some (envelope 7 (JStr ''v'')) else None), nt_stringify = (\<lambda>_. ''{}'') \<rparr>"

theorem outage_serves_last_value_witness:
  "fst (serverGet (demo_net (Inl (Err ''down''))) ''/x'' True
     (fold run_call [CallSend (demo_net (Inl (Err ''down''))) ''POST'' ''/x'']
       (snd (snd (serverGet (demo_net (Inr \<lparr> hr_status = 200, hr_body = Some (JStr ''v'') \<rparr>)) ''/x'' True
          initial_channels))))) = Inr (JStr ''v'')"
proof -
  let ?m = "demo_net (Inr \<lparr> hr_status = 200, hr_body = Some (JStr ''v'') \<rparr>)"
  let ?n = "demo_net (Inl (Err ''down''))"
  have base: "serverApiBase (demo_net r) ch =
      (case ch_base ch of Some b \<Rightarrow> (Inr b, ch) | None \<Rightarrow> (Inr ''/server-api'', ch\<lparr>ch_base := Some ''/server-api''\<rparr>))" for r ch
    by (simp add: serverApiBase_def demo_net_def Let_def split: option.split)
  have ok: "request_value ?m ''GET'' ''/x'' initial_channels =
      (Inr (JStr ''v''), initial_channels\<lparr>ch_base := Some ''/server-api''\<rparr>)"
    by (simp add: request_value_def base initial_channels_def)
       (simp add: demo_net_def hr_ok_def hr_json_def)
  have bad: "\<exists>ch'. request_value ?n verb ''/x'' ch = (Inl (Err ''down''), ch')" for verb ch
    by (simp add: request_value_def base split: option.split) (simp add: demo_net_def)
  obtain s ch1 where g: "serverGet ?m ''/x'' True initial_channels = (Inr (JStr ''v''), s, ch1)"
    using ok by (auto simp: serverGet_def Let_def)
  obtain ch2 where b: "request_value ?n ''GET'' ''/x'' (fold run_call [CallSend ?n ''POST'' ''/x''] ch1)
      = (Inl (Err ''down''), ch2)"
    using bad by blast
  have u: "utf8 ''/x''" by code_simp
  have "nt_parse ?n (nt_stringify ?m (envelope (nt_now ?m) (JStr ''v''))) = Some (envelope (nt_now ?m) (JStr ''v''))"
    "nt_store_ok ?m" "nt_stringify ?m (envelope (nt_now ?m) (JStr ''v'')) \<noteq> []"
    by (simp_all add: demo_net_def)
  from outage_serves_last_value [OF g ok this(2,3,1) u _ b] g show ?thesis
    by (auto simp: outage_def)
qed

text \<open>
  A refusal is never papered over: an answer below 500 that is not a success is thrown with
  its status; the cache is not consulted and the connection state stays as it is.
\<close>

theorem refusal_is_thrown:
  assumes "serverApiBase n ch = (Inr base, ch1)" "nt_fetch n (base @ path) = Inr r"
    and "\<not> hr_ok r" "hr_status r < 500"
  shows "\<exists>m. serverGet n path useCache ch = (Inl (ChannelUnavailableError ServerChannel m (Some (hr_status r))), None, ch1)
     \<and> serverSend n verb path ch = (Inl (responseError n r verb path), ch1)"
  using assms by (simp add: serverGet_def serverSend_def request_value_def outage_def responseError_def)

theorem refusal_is_thrown_witness:
  "serverSend (demo_net (Inr \<lparr> hr_status = 404, hr_body = None \<rparr>)) ''PUT'' ''/x'' (initial_channels\<lparr>ch_base := Some []\<rparr>)
   = (Inl (ChannelUnavailableError ServerChannel ''PUT /x -> 404'' (Some 404)), initial_channels\<lparr>ch_base := Some []\<rparr>)"
proof -
  let ?r = "\<lparr> hr_status = 404, hr_body = None \<rparr>"
  have "serverApiBase (demo_net (Inr ?r)) (initial_channels\<lparr>ch_base := Some []\<rparr>) = (Inr [], initial_channels\<lparr>ch_base := Some []\<rparr>)"
    "nt_fetch (demo_net (Inr ?r)) ([] @ ''/x'') = Inr ?r" "\<not> hr_ok ?r" "hr_status ?r < 500"
    by (simp_all add: serverApiBase_def demo_net_def hr_ok_def)
  from refusal_is_thrown [OF this]
  have "serverSend (demo_net (Inr ?r)) ''PUT'' ''/x'' (initial_channels\<lparr>ch_base := Some []\<rparr>)
      = (Inl (responseError (demo_net (Inr ?r)) ?r ''PUT'' ''/x''), initial_channels\<lparr>ch_base := Some []\<rparr>)" by blast
  moreover have "dec_int 404 = ''404''" by code_simp
  ultimately show ?thesis by (simp add: responseError_def error_detail_def or_str_def)
qed

definition serves_pages ::
  "(string \<Rightarrow> 's \<Rightarrow> json res \<times> 's) \<Rightarrow> string \<Rightarrow> string \<Rightarrow> int \<Rightarrow> (nat \<Rightarrow> string) \<Rightarrow> json list list \<Rightarrow> bool" where
  "serves_pages get path key limit cursor pages \<longleftrightarrow>
     pages \<noteq> [] \<and> cursor 0 = [] \<and> (\<forall>k. 0 < k \<longrightarrow> k < length pages \<longrightarrow> cursor k \<noteq> []) \<and>
     (\<forall>k < length pages. \<forall>st. \<exists>v st'. get (page_query path limit (cursor k)) st = (Inr v, st')
        \<and> jarr (jget key v) = Some (pages ! k)
        \<and> jstr_d (jget ''next_cursor'' v) = (if Suc k < length pages then cursor (Suc k) else []))"

lemma get_pages_from:
  assumes "serves_pages get path key limit cursor pages" "k < length pages"
  shows "fst (get_pages get path key limit n (cursor k) (concat (take k pages)) st) =
     (if length pages \<le> k + n then Inr (concat pages)
      else Inl (server_error (''Server pagination exceeded 100 pages: '' @ path)))"
  using assms(2)
proof (induction n arbitrary: k st)
  case (Suc n)
  obtain v st' where v: "get (page_query path limit (cursor k)) st = (Inr v, st')"
      "jarr (jget key v) = Some (pages ! k)"
      "jstr_d (jget ''next_cursor'' v) = (if Suc k < length pages then cursor (Suc k) else [])"
    using assms(1) Suc.prems unfolding serves_pages_def by blast
  have items: "concat (take k pages) @ pages ! k = concat (take (Suc k) pages)"
    using Suc.prems by (simp add: take_Suc_conv_app_nth)
  show ?case
  proof (cases "Suc k < length pages")
    case True
    then have "cursor (Suc k) \<noteq> []" using assms(1) by (simp add: serves_pages_def)
    with v True items Suc.IH [OF True, of st'] show ?thesis by simp
  next
    case False
    with Suc.prems have "length pages = Suc k" by simp
    with v False items show ?thesis by simp
  qed
qed simp

text \<open>
  Paged reads are complete: from a Server that cuts a collection into pages and links them
  by cursors, \<open>serverGetAll\<close> returns all of it, in order and each element once, when it has at
  most 100 pages; otherwise it fails, and never returns a part for the whole.
\<close>

theorem paged_read_is_complete:
  assumes "serves_pages get path key limit cursor pages"
  shows "fst (serverGetAll get path key limit st) =
     (if length pages \<le> 100 then Inr (concat pages)
      else Inl (server_error (''Server pagination exceeded 100 pages: '' @ path)))"
proof -
  have "0 < length pages" "cursor 0 = []" using assms by (simp_all add: serves_pages_def)
  with get_pages_from [OF assms, of 0 100 st] show ?thesis by (simp add: serverGetAll_def)
qed

definition demo_pages :: "string \<Rightarrow> unit \<Rightarrow> json res \<times> unit" where
  "demo_pages q st =
     (if q = ''/m?limit=2&cursor=c'' then Inr (JObj [(''k'', JArr [JNum 3])])
      else Inr (JObj [(''k'', JArr [JNum 1, JNum 2]), (''next_cursor'', JStr ''c'')]), st)"

theorem paged_read_is_complete_witness:
  "fst (serverGetAll demo_pages ''/m'' ''k'' 2 ()) = Inr [JNum 1, JNum 2, JNum 3]"
proof -
  have "page_query ''/m'' 2 [] = ''/m?limit=2''" "page_query ''/m'' 2 ''c'' = ''/m?limit=2&cursor=c''"
    by code_simp+
  then have "serves_pages demo_pages ''/m'' ''k'' 2 (\<lambda>k. if k = 0 then [] else ''c'') [[JNum 1, JNum 2], [JNum 3]]"
    by (auto simp: serves_pages_def demo_pages_def less_Suc_eq jstr_d_def)
  from paged_read_is_complete [OF this] show ?thesis by simp
qed

lemma normalized_is_safe:
  "normalizeApiBase P t v = Inr base \<Longrightarrow>
   \<exists>raw u. P raw = Some u \<and> base = strip_suffix ''/'' (url_href u) @ ''/api''
     \<and> url_protocol u \<in> {''http:'', ''https:''}
     \<and> (t \<and> url_protocol u = ''http:'' \<longrightarrow> isCspAllowedHttpServer (url_hostname u))"
  unfolding normalizeApiBase_def validateServerRoot_def
  by (cases "P (strip_suffix ''/api'' (strip_slashes (trim v)))") (auto split: if_splits)

text \<open>
  The Server's address is safe on the desktop: whatever base address is looked up there, it
  comes from a URL that was parsed, uses http or https, and uses plain http only for the local
  machine; a failed lookup is not kept.
\<close>

theorem server_base_is_safe:
  assumes "serverApiBase n ch = (r, ch')" "ch_base ch = None" "nt_desktop n"
  shows "case r of
       Inr base \<Rightarrow> ch_base ch' = Some base \<and>
         (\<exists>raw u. nt_url n raw = Some u \<and> base = strip_suffix ''/'' (url_href u) @ ''/api''
            \<and> url_protocol u \<in> {''http:'', ''https:''}
            \<and> (nt_tauri n \<and> url_protocol u = ''http:'' \<longrightarrow> isCspAllowedHttpServer (url_hostname u)))
     | Inl e \<Rightarrow> ch_base ch' = None"
proof (cases r)
  case (Inl e)
  with assms show ?thesis
    by (auto simp: serverApiBase_def Let_def split: sum.splits prod.splits option.splits if_splits)
next
  case (Inr base)
  then have "\<exists>v. normalizeApiBase (nt_url n) (nt_tauri n) v = Inr base"
    using assms
    by (auto simp: serverApiBase_def Let_def split: sum.splits prod.splits option.splits if_splits)
  then obtain v where "normalizeApiBase (nt_url n) (nt_tauri n) v = Inr base" by blast
  moreover have "ch_base ch' = Some base"
    using Inr assms by (auto simp: serverApiBase_def Let_def split: sum.splits prod.splits option.splits if_splits)
  ultimately show ?thesis using normalized_is_safe Inr by simp
qed

definition demo_agent :: net where
  "demo_agent = (demo_net (Inl (Err [])))
     \<lparr> nt_desktop := True, nt_tauri := True,
       nt_agent := Inr \<lparr> la_server_configured = True, la_server_api_url = ''http://lan'', la_rest = JNull \<rparr>,
       nt_url := (\<lambda>s. Some \<lparr> url_protocol = ''http:'', url_hostname = ''lan'', url_href = s \<rparr>) \<rparr>"

theorem server_base_is_safe_witness:
  "\<forall>b. fst (serverApiBase demo_agent initial_channels) \<noteq> Inr b"
proof
  fix b
  obtain r ch' where r: "serverApiBase demo_agent initial_channels = (r, ch')"
    by (cases "serverApiBase demo_agent initial_channels")
  have "\<not> isCspAllowedHttpServer ''lan''" by code_simp
  moreover have "ch_base initial_channels = None" "nt_desktop demo_agent" "nt_tauri demo_agent"
    "\<And>raw u. nt_url demo_agent raw = Some u \<Longrightarrow> url_protocol u = ''http:'' \<and> url_hostname u = ''lan''"
    by (auto simp: demo_agent_def initial_channels_def)
  ultimately have "\<forall>b. r \<noteq> Inr b"
    using server_base_is_safe [OF r] by fastforce
  then show "fst (serverApiBase demo_agent initial_channels) \<noteq> Inr b" by (simp add: r)
qed

text \<open>
  A refusal without a reason shows two quotation marks: when the body is JSON but has no
  \<open>detail\<close>, the text thrown is the JSON of the empty string, and the fallback that names
  request and status is not used.
\<close>

theorem missing_detail_hides_status:
  assumes "hr_body r = Some (JObj ps)" "jget ''detail'' (JObj ps) = JUndef"
    and "nt_stringify n (JStr []) = [chr 34, chr 34]"
  shows "exn_message (responseError n r verb path) = [chr 34, chr 34]"
  using assms by (simp add: responseError_def error_detail_def or_str_def)

theorem missing_detail_hides_status_witness:
  "exn_message (responseError (demo_agent\<lparr> nt_stringify := (\<lambda>_. [chr 34, chr 34]) \<rparr>)
     \<lparr> hr_status = 502, hr_body = Some (JObj []) \<rparr> ''GET'' ''/x'') = [chr 34, chr 34]"
  by (rule missing_detail_hides_status [of _ "[]"]) simp_all

end
