(* ===== verification/Router.thy ===== *)
theory Router
  imports JsUri Prelude
begin

text \<open>
  Routes of the app (\<open>src/src/lib/router.ts\<close>), deep links into it
  (\<open>src/src/platform/deepLinks.ts\<close>), the link the console hands over
  (\<open>src/console/src/desktopHandoff.ts\<close>) and the console's own path handling
  (\<open>src/console/src/router.ts\<close>). The URL parser is a parameter.
\<close>

subsection \<open>Routes\<close>

datatype view_id =
    VHome | VChat | VAssistant | VProjects | VProject | VExperts | VSkills | VConnectors
  | VAutomation | VProjexec | VKnowledge

record app_route =
  rt_view :: view_id
  rt_project_id :: "string option"
  rt_session_id :: "string option"
  rt_valid :: bool

record route_options =
  ro_project_id :: "string option"
  ro_session_id :: "string option"
  ro_project_tab :: "string option"
  ro_replace :: bool
  ro_history :: bool

definition no_route_options :: route_options where
  "no_route_options =
     \<lparr> ro_project_id = None, ro_session_id = None, ro_project_tab = None, ro_replace = False, ro_history = True \<rparr>"

definition STATIC_ROUTES :: "(view_id \<times> string) list" where
  "STATIC_ROUTES =
     [(VHome, ''/''), (VAssistant, ''/assistants''), (VProjects, ''/projects''), (VExperts, ''/experts''),
      (VSkills, ''/skills''), (VConnectors, ''/connectors''), (VAutomation, ''/automations''),
      (VKnowledge, ''/knowledge'')]"

text \<open>\<open>pathname.replace(/\/+$/, '') || '/'\<close>\<close>

definition clean :: "string \<Rightarrow> string" where
  "clean pathname = or_str (rev (dropWhile (\<lambda>c. c = CHR ''/'') (rev pathname))) ''/''"

definition part :: "string option \<Rightarrow> string option" where
  "part v = (if truthy v then decodeURIComponent (opt_str v) else None)"

definition static_entry :: "string \<Rightarrow> view_id option" where
  "static_entry path = map_option fst (List.find (\<lambda>(v, p). p = path) STATIC_ROUTES)"

text \<open>The segments between the slashes stand for the three regular expressions.\<close>

definition readRoute :: "string \<Rightarrow> app_route" where
  "readRoute pathname =
     (let path = clean pathname in
      case static_entry path of
        Some v \<Rightarrow> \<lparr> rt_view = v, rt_project_id = None, rt_session_id = None, rt_valid = True \<rparr>
      | None \<Rightarrow>
          (case split_on CHR ''/'' path of
             [a, b, c] \<Rightarrow>
               (if a = [] \<and> b = ''chat'' \<and> c \<noteq> [] \<and> c \<noteq> ''new''
                then \<lparr> rt_view = VChat, rt_project_id = None, rt_session_id = part (Some c), rt_valid = True \<rparr>
                else if a = [] \<and> b = ''projects'' \<and> c \<noteq> []
                then \<lparr> rt_view = VProject, rt_project_id = part (Some c), rt_session_id = None, rt_valid = True \<rparr>
                else \<lparr> rt_view = VHome, rt_project_id = None, rt_session_id = None, rt_valid = False \<rparr>)
           | [a, b, c, d, e] \<Rightarrow>
               (if a = [] \<and> b = ''projects'' \<and> c \<noteq> [] \<and> d = ''runs'' \<and> e \<noteq> [] \<and> e \<noteq> ''new''
                then \<lparr> rt_view = VProjexec, rt_project_id = part (Some c), rt_session_id = part (Some e),
                       rt_valid = True \<rparr>
                else \<lparr> rt_view = VHome, rt_project_id = None, rt_session_id = None, rt_valid = False \<rparr>)
           | _ \<Rightarrow> \<lparr> rt_view = VHome, rt_project_id = None, rt_session_id = None, rt_valid = False \<rparr>))"

definition project_path :: "string \<Rightarrow> string" where
  "project_path pid = ''/projects/'' @ encodeURIComponent pid"

definition run_path :: "string \<Rightarrow> string \<Rightarrow> string" where
  "run_path pid sid = project_path pid @ ''/runs/'' @ encodeURIComponent sid"

definition chat_path :: "string \<Rightarrow> string" where
  "chat_path sid = ''/chat/'' @ encodeURIComponent sid"

definition pathForView :: "view_id \<Rightarrow> route_options \<Rightarrow> string" where
  "pathForView v opts =
     (if v = VChat then
        (if truthy (ro_session_id opts) then chat_path (opt_str (ro_session_id opts)) else ''/'')
      else if v = VProject then
        (if \<not> truthy (ro_project_id opts) then ''/projects''
         else let path = project_path (opt_str (ro_project_id opts)) in
           if truthy (ro_project_tab opts)
           then path @ ''?tab='' @ encodeURIComponent (opt_str (ro_project_tab opts)) else path)
      else if v = VProjexec then
        (if \<not> truthy (ro_project_id opts) then ''/projects''
         else if \<not> truthy (ro_session_id opts) then project_path (opt_str (ro_project_id opts))
         else run_path (opt_str (ro_project_id opts)) (opt_str (ro_session_id opts)))
      else case map_of STATIC_ROUTES v of Some p \<Rightarrow> p | None \<Rightarrow> ''/'')"

text \<open>The path part of an address the app pushes: up to the query.\<close>

definition path_part :: "string \<Rightarrow> string" where
  "path_part address = takeWhile (\<lambda>c. c \<noteq> CHR ''?'') address"

subsection \<open>Deep links\<close>

record link_url =
  lu_protocol :: string
  lu_hostname :: string
  lu_pathname :: string
  lu_params :: "(string \<times> string) list"

definition safe_char :: "char \<Rightarrow> bool" where
  "safe_char c \<longleftrightarrow>
     48 \<le> byte c \<and> byte c < 58 \<or> 65 \<le> byte c \<and> byte c < 91 \<or> 97 \<le> byte c \<and> byte c < 123
     \<or> c \<in> set ''._:-''"

text \<open>\<open>SAFE_ID.test\<close>\<close>

definition SAFE_ID :: "string \<Rightarrow> bool" where
  "SAFE_ID s \<longleftrightarrow> s \<noteq> [] \<and> length s \<le> 200 \<and> list_all safe_char s"

definition link_param :: "string \<Rightarrow> link_url \<Rightarrow> string" where
  "link_param k u = opt_str (map_of (lu_params u) k)"

definition desktopRouteFromDeepLink :: "(string \<Rightarrow> link_url option) \<Rightarrow> string \<Rightarrow> string option" where
  "desktopRouteFromDeepLink URL_parse value =
     (case URL_parse value of
        None \<Rightarrow> None
      | Some u \<Rightarrow>
          if lu_protocol u \<noteq> ''agentmate:'' \<or> lu_hostname u \<noteq> ''open'' \<or> lu_pathname u \<noteq> ''/run'' then None
          else
            let sessionId = link_param ''session_id'' u; projectId = link_param ''project_id'' u in
            if \<not> SAFE_ID sessionId \<or> projectId \<noteq> [] \<and> \<not> SAFE_ID projectId then None
            else Some (if projectId \<noteq> [] then run_path projectId sessionId else chat_path sessionId))"

text \<open>\<open>applyDeepLinks\<close>: the new set of links seen, and the route pushed, if any.\<close>

fun applyDeepLinks ::
  "(string \<Rightarrow> link_url option) \<Rightarrow> string list \<Rightarrow> string list \<Rightarrow> string list \<times> string option" where
  "applyDeepLinks P [] seen = (seen, None)"
| "applyDeepLinks P (v # vs) seen =
     (if v \<in> set seen then applyDeepLinks P vs seen
      else case desktopRouteFromDeepLink P v of
        None \<Rightarrow> applyDeepLinks P vs (v # seen)
      | Some route \<Rightarrow> (v # seen, Some route))"

text \<open>All batches of links the shell delivers while the app runs.\<close>

fun deep_link_batches ::
  "(string \<Rightarrow> link_url option) \<Rightarrow> string list list \<Rightarrow> string list \<Rightarrow> string list" where
  "deep_link_batches P [] seen = []"
| "deep_link_batches P (b # bs) seen =
     (case applyDeepLinks P b seen of
        (seen', r) \<Rightarrow> (case r of None \<Rightarrow> [] | Some x \<Rightarrow> [x]) @ deep_link_batches P bs seen')"

subsection \<open>The console's link\<close>

text \<open>\<open>URLSearchParams\<close>: form encoding of a byte, of a string, of the pairs.\<close>

definition form_byte :: "char \<Rightarrow> string" where
  "form_byte c =
     (let n = byte c in
      if 48 \<le> n \<and> n < 58 \<or> 65 \<le> n \<and> n < 91 \<or> 97 \<le> n \<and> n < 123 \<or> c \<in> set ''*-._'' then [c]
      else if n = 32 then ''+'' else [CHR ''%'', hex_digit (n div 16), hex_digit (n mod 16)])"

definition form_encode :: "string \<Rightarrow> string" where
  "form_encode s = concat (map form_byte s)"

definition form_query :: "(string \<times> string) list \<Rightarrow> string" where
  "form_query ps = join_with ''&'' (map (\<lambda>(k, v). form_encode k @ ''='' @ form_encode v) ps)"

definition handoff_params :: "string \<Rightarrow> string option \<Rightarrow> (string \<times> string) list" where
  "handoff_params sessionId projectId =
     (''session_id'', sessionId) # (if truthy projectId then [(''project_id'', opt_str projectId)] else [])"

definition desktopCompanionRunUrl :: "string \<Rightarrow> string option \<Rightarrow> string" where
  "desktopCompanionRunUrl sessionId projectId =
     ''agentmate://open/run?'' @ form_query (handoff_params sessionId projectId)"

subsection \<open>Paths of the console\<close>

definition normalizePath :: "string \<Rightarrow> string" where
  "normalizePath pathname = clean pathname"

text \<open>\<open>navigate\<close>: the address pushed or replaced, if it differs from the current one.\<close>

definition navigate :: "string \<Rightarrow> string \<Rightarrow> string option" where
  "navigate current path =
     (if normalizePath current = normalizePath path then None else Some (normalizePath path))"

subsection \<open>Reading back what was written\<close>

lemma clean_id: "p \<noteq> [] \<Longrightarrow> last p \<noteq> CHR ''/'' \<Longrightarrow> clean p = p"
  by (cases p rule: rev_cases) (simp_all add: clean_def)

lemma clean_clean: "clean (clean p) = clean p"
proof (cases "rev (dropWhile (\<lambda>c. c = CHR ''/'') (rev p))")
  case Nil
  then have "clean p = ''/''" by (simp only: clean_def or_str_simps)
  moreover have "clean ''/'' = ''/''" by (simp add: clean_def)
  ultimately show ?thesis by simp
next
  case (Cons a q)
  let ?d = "dropWhile (\<lambda>c. c = CHR ''/'') (rev p)"
  have "?d \<noteq> []" using Cons by auto
  then have "hd ?d \<noteq> CHR ''/''" by (rule hd_dropWhile)
  moreover have "last (rev ?d) = hd ?d" using \<open>?d \<noteq> []\<close> by (simp add: last_rev)
  ultimately show ?thesis using Cons clean_id [of "rev ?d"] \<open>?d \<noteq> []\<close> by (simp add: clean_def or_str_def)
qed

lemma last_encode: "s \<noteq> [] \<Longrightarrow> last (encodeURIComponent s) \<noteq> CHR ''/''"
  using uri.enc_no_slash [of s] by (metis encode_Nil_iff last_in_set)

lemma split_abs: "split_on CHR ''/'' (CHR ''/'' # s) = [] # split_on CHR ''/'' s"
  by (cases "split_on CHR ''/'' s") simp_all

lemma split_chat: "split_on CHR ''/'' (chat_path sid) = [[], ''chat'', encodeURIComponent sid]"
proof -
  have "chat_path sid = CHR ''/'' # ''chat'' @ CHR ''/'' # encodeURIComponent sid"
    by (simp add: chat_path_def)
  moreover have "split_on CHR ''/'' (''chat'' @ CHR ''/'' # encodeURIComponent sid)
      = ''chat'' # [encodeURIComponent sid]"
    by (subst split_on_append) (simp_all add: split_on_no_delim uri.enc_no_slash)
  ultimately show ?thesis by (simp only: split_abs)
qed

lemma split_project: "split_on CHR ''/'' (project_path pid) = [[], ''projects'', encodeURIComponent pid]"
proof -
  have "project_path pid = CHR ''/'' # ''projects'' @ CHR ''/'' # encodeURIComponent pid"
    by (simp add: project_path_def)
  moreover have "split_on CHR ''/'' (''projects'' @ CHR ''/'' # encodeURIComponent pid)
      = ''projects'' # [encodeURIComponent pid]"
    by (subst split_on_append) (simp_all add: split_on_no_delim uri.enc_no_slash)
  ultimately show ?thesis by (simp only: split_abs)
qed

lemma split_run:
  "split_on CHR ''/'' (run_path pid sid)
     = [[], ''projects'', encodeURIComponent pid, ''runs'', encodeURIComponent sid]"
proof -
  let ?tail = "''runs'' @ CHR ''/'' # encodeURIComponent sid"
  have "run_path pid sid = CHR ''/'' # ''projects'' @ CHR ''/'' # encodeURIComponent pid @ CHR ''/'' # ?tail"
    by (simp add: run_path_def project_path_def)
  moreover have "split_on CHR ''/'' ?tail = ''runs'' # [encodeURIComponent sid]"
    by (subst split_on_append) (simp_all add: split_on_no_delim uri.enc_no_slash)
  ultimately show ?thesis
    by (simp only: split_abs)
       (subst split_on_append, simp, subst split_on_append, rule uri.enc_no_slash, simp)
qed

lemma static_two: "static_entry p = Some v \<Longrightarrow> length (split_on CHR ''/'' p) = 2"
proof -
  assume "static_entry p = Some v"
  then have "(v, p) \<in> set STATIC_ROUTES" by (auto simp: static_entry_def find_Some_iff) (metis nth_mem)
  moreover have "list_all (\<lambda>(v, p). length (split_on CHR ''/'' p) = 2) STATIC_ROUTES" by code_simp
  ultimately show ?thesis by (auto simp: list_all_iff)
qed

lemma static_not: "length (split_on CHR ''/'' p) \<noteq> 2 \<Longrightarrow> static_entry p = None"
  using static_two by (cases "static_entry p") auto

lemma encode_not_new: "utf8 s \<Longrightarrow> s \<noteq> ''new'' \<Longrightarrow> encodeURIComponent s \<noteq> ''new''"
proof
  assume "utf8 s" "s \<noteq> ''new''" "encodeURIComponent s = ''new''"
  moreover have "encodeURIComponent ''new'' = ''new''" "utf8 ''new''" by code_simp+
  ultimately show False using uri.enc_inj [of s "''new''"] by metis
qed

lemma part_encode: "utf8 s \<Longrightarrow> s \<noteq> [] \<Longrightarrow> part (Some (encodeURIComponent s)) = Some s"
  by (simp add: part_def uri.dec_enc)

lemma last_encoded_path: "s \<noteq> [] \<Longrightarrow> clean (p @ encodeURIComponent s) = p @ encodeURIComponent s"
  using last_encode [of s] by (intro clean_id) (simp_all add: last_append)

lemma read_chat:
  assumes "utf8 sid" "sid \<noteq> []" "sid \<noteq> ''new''"
  shows "readRoute (chat_path sid) = \<lparr> rt_view = VChat, rt_project_id = None, rt_session_id = Some sid, rt_valid = True \<rparr>"
proof -
  have "clean (chat_path sid) = chat_path sid"
    using assms last_encoded_path [of sid "''/chat/''"] by (simp add: chat_path_def)
  moreover have "static_entry (chat_path sid) = None"
    by (rule static_not) (simp add: split_chat)
  ultimately show ?thesis
    using assms by (simp add: readRoute_def Let_def split_chat encode_not_new part_encode)
qed

lemma read_project:
  assumes "utf8 pid" "pid \<noteq> []"
  shows "readRoute (project_path pid) = \<lparr> rt_view = VProject, rt_project_id = Some pid, rt_session_id = None, rt_valid = True \<rparr>"
proof -
  have "clean (project_path pid) = project_path pid"
    using assms last_encoded_path [of pid "''/projects/''"] by (simp add: project_path_def)
  moreover have "static_entry (project_path pid) = None"
    by (rule static_not) (simp add: split_project)
  ultimately show ?thesis
    using assms by (simp add: readRoute_def Let_def split_project part_encode)
qed

lemma read_run:
  assumes "utf8 pid" "pid \<noteq> []" "utf8 sid" "sid \<noteq> []" "sid \<noteq> ''new''"
  shows "readRoute (run_path pid sid) = \<lparr> rt_view = VProjexec, rt_project_id = Some pid, rt_session_id = Some sid, rt_valid = True \<rparr>"
proof -
  have "clean (run_path pid sid) = run_path pid sid"
    using assms last_encoded_path [of sid "project_path pid @ ''/runs/''"] by (simp add: run_path_def)
  moreover have "static_entry (run_path pid sid) = None"
    by (rule static_not) (simp add: split_run)
  ultimately show ?thesis
    using assms by (simp add: readRoute_def Let_def split_run encode_not_new part_encode)
qed

lemma path_part_encoded:
  "CHR ''?'' \<notin> set p \<Longrightarrow> path_part (p @ encodeURIComponent s) = p @ encodeURIComponent s"
  "CHR ''?'' \<notin> set p \<Longrightarrow> path_part (p @ encodeURIComponent s @ CHR ''?'' # q) = p @ encodeURIComponent s"
  using uri.enc_no_query [of s] unfolding path_part_def
  by (auto simp: takeWhile_append takeWhile_eq_all_conv)

subsection \<open>Properties\<close>

text \<open>When a route opens the view it was made for, and for which identifiers it does.\<close>

definition opens :: "view_id \<Rightarrow> route_options \<Rightarrow> app_route \<Rightarrow> bool" where
  "opens v opts r \<longleftrightarrow> rt_valid r \<and> rt_view r = v
     \<and> (v \<in> {VProject, VProjexec} \<longrightarrow> rt_project_id r = ro_project_id opts)
     \<and> (v \<in> {VChat, VProjexec} \<longrightarrow> rt_session_id r = ro_session_id opts)"

definition routable :: "view_id \<Rightarrow> route_options \<Rightarrow> bool" where
  "routable v opts \<longleftrightarrow>
     (v \<in> {VProject, VProjexec} \<longrightarrow> (\<exists>p. ro_project_id opts = Some p \<and> p \<noteq> [] \<and> utf8 p))
     \<and> (v \<in> {VChat, VProjexec} \<longrightarrow> (\<exists>s. ro_session_id opts = Some s \<and> s \<noteq> [] \<and> s \<noteq> ''new'' \<and> utf8 s))"

lemma routes_back:
  assumes "routable v opts"
  shows "opens v opts (readRoute (path_part (pathForView v opts)))"
proof (cases v)
  case VChat
  with assms obtain s where s: "ro_session_id opts = Some s" "s \<noteq> []" "s \<noteq> ''new''" "utf8 s"
    by (auto simp: routable_def)
  then have "path_part (pathForView v opts) = chat_path s"
    using VChat path_part_encoded(1) [of "''/chat/''" s] by (simp add: pathForView_def chat_path_def)
  with VChat s read_chat show ?thesis by (simp add: opens_def)
next
  case VProject
  with assms obtain p where p: "ro_project_id opts = Some p" "p \<noteq> []" "utf8 p"
    by (auto simp: routable_def)
  then have "path_part (pathForView v opts) = project_path p"
    using VProject path_part_encoded [of "''/projects/''" p] by (simp add: pathForView_def project_path_def Let_def)
  with VProject p read_project show ?thesis by (simp add: opens_def)
next
  case VProjexec
  with assms obtain p s where p: "ro_project_id opts = Some p" "p \<noteq> []" "utf8 p"
      and s: "ro_session_id opts = Some s" "s \<noteq> []" "s \<noteq> ''new''" "utf8 s"
    by (auto simp: routable_def)
  have "CHR ''?'' \<notin> set (project_path p @ ''/runs/'')"
    using uri.enc_no_query [of p] by (simp add: project_path_def)
  then have "path_part (pathForView v opts) = run_path p s"
    using VProjexec p s path_part_encoded(1) [of "project_path p @ ''/runs/''" s]
    by (simp add: pathForView_def run_path_def)
  with VProjexec p s read_run show ?thesis by (simp add: opens_def)
qed (simp_all add: pathForView_def STATIC_ROUTES_def opens_def path_part_def readRoute_def clean_def
      or_str_def static_entry_def Let_def)

text \<open>
  Addresses are lossless: the address pushed for a view, reloaded or opened elsewhere,
  leads back to that view with the same project and session, for all identifiers, whatever
  characters they hold, except the reserved session name \<open>new\<close>.
\<close>

theorem routes_round_trip:
  "routable v opts \<Longrightarrow> opens v opts (readRoute (path_part (pathForView v opts)))"
  by (rule routes_back)

theorem routes_round_trip_witness:
  "opens VChat (no_route_options\<lparr> ro_session_id := Some ''a/b'' \<rparr>)
     (readRoute (path_part (pathForView VChat (no_route_options\<lparr> ro_session_id := Some ''a/b'' \<rparr>))))"
proof -
  have "utf8 ''a/b''" by code_simp
  then show ?thesis by (intro routes_round_trip) (simp add: routable_def no_route_options_def)
qed

lemma safe_ascii: "safe_char c \<Longrightarrow> byte c < 0x80"
  by (auto simp: safe_char_def)

lemma safe_utf8: "list_all safe_char s \<Longrightarrow> utf8 s"
  by (induction s) (simp_all add: utf8.simps safe_ascii)

lemma link_params:
  "link_param ''session_id'' \<lparr> lu_protocol = a, lu_hostname = b, lu_pathname = c, lu_params = handoff_params s p \<rparr> = s"
  "link_param ''project_id'' \<lparr> lu_protocol = a, lu_hostname = b, lu_pathname = c, lu_params = handoff_params s p \<rparr> = opt_str p"
  by (cases p; simp add: link_param_def handoff_params_def)+

text \<open>
  From the console to the desktop: the link the console makes for a run with safe
  identifiers, once parsed as its URL, takes the desktop app to exactly that session, under
  that project when one is given.
\<close>

theorem handoff_opens_run:
  assumes "URL_parse (desktopCompanionRunUrl sid pid) =
      Some \<lparr> lu_protocol = ''agentmate:'', lu_hostname = ''open'', lu_pathname = ''/run'',
             lu_params = handoff_params sid pid \<rparr>"
    and "SAFE_ID sid" "sid \<noteq> ''new''" "truthy pid \<longrightarrow> SAFE_ID (opt_str pid)"
  shows "\<exists>route. desktopRouteFromDeepLink URL_parse (desktopCompanionRunUrl sid pid) = Some route
     \<and> readRoute route = \<lparr> rt_view = (if truthy pid then VProjexec else VChat),
         rt_project_id = (if truthy pid then pid else None), rt_session_id = Some sid, rt_valid = True \<rparr>"
proof -
  have s: "utf8 sid" "sid \<noteq> []" using assms(2) by (simp_all add: SAFE_ID_def safe_utf8)
  show ?thesis
  proof (cases "truthy pid")
    case True
    then obtain p where p: "pid = Some p" "p \<noteq> []" by (cases pid) auto
    with assms(4) have "SAFE_ID p" "utf8 p" by (simp_all add: SAFE_ID_def safe_utf8)
    with p s assms(1-3) show ?thesis
      by (simp add: desktopRouteFromDeepLink_def Let_def link_params read_run)
  next
    case False
    then have "opt_str pid = []" by (simp add: truthy_def)
    with False s assms(1-3) show ?thesis
      by (simp add: desktopRouteFromDeepLink_def Let_def link_params read_chat)
  qed
qed

definition demo_link :: "string \<Rightarrow> link_url option" where
  "demo_link v =
     (if v = ''agentmate://open/run?session_id=s%3A1&project_id=p'' then
        Some \<lparr> lu_protocol = ''agentmate:'', lu_hostname = ''open'', lu_pathname = ''/run'',
               lu_params = [(''session_id'', ''s:1''), (''project_id'', ''p'')] \<rparr>
      else None)"

theorem handoff_opens_run_witness:
  "\<exists>route. desktopRouteFromDeepLink demo_link (desktopCompanionRunUrl ''s:1'' (Some ''p'')) = Some route
     \<and> readRoute route = \<lparr> rt_view = VProjexec, rt_project_id = Some ''p'', rt_session_id = Some ''s:1'', rt_valid = True \<rparr>"
proof -
  have "desktopCompanionRunUrl ''s:1'' (Some ''p'') = ''agentmate://open/run?session_id=s%3A1&project_id=p''"
    "SAFE_ID ''s:1''" "SAFE_ID ''p''"
    by code_simp+
  then show ?thesis
    using handoff_opens_run [of demo_link "''s:1''" "Some ''p''"]
    by (simp add: demo_link_def handoff_params_def)
qed

lemma applyDeepLinks_spec:
  "applyDeepLinks P vs seen = (seen', r) \<Longrightarrow>
   set seen \<subseteq> set seen' \<and> (case r of None \<Rightarrow> True
     | Some route \<Rightarrow> (\<exists>v. v \<in> set seen' \<and> v \<notin> set seen \<and> desktopRouteFromDeepLink P v = Some route))"
proof (induction P vs seen rule: applyDeepLinks.induct)
  case (2 P v vs seen)
  then show ?case by (auto split: if_splits option.splits)
qed simp

lemma batches_once:
  "\<exists>vs. deep_link_batches P bs seen = map (the \<circ> desktopRouteFromDeepLink P) vs \<and> distinct vs
     \<and> set vs \<inter> set seen = {} \<and> (\<forall>v\<in>set vs. desktopRouteFromDeepLink P v \<noteq> None)"
proof (induction bs arbitrary: seen)
  case Nil
  show ?case by (intro exI [of _ "[]"]) simp
next
  case (Cons b bs)
  obtain seen' r where r: "applyDeepLinks P b seen = (seen', r)" by (cases "applyDeepLinks P b seen")
  note spec = applyDeepLinks_spec [OF r]
  obtain vs where vs: "deep_link_batches P bs seen' = map (the \<circ> desktopRouteFromDeepLink P) vs" "distinct vs"
      "set vs \<inter> set seen' = {}" "\<forall>v\<in>set vs. desktopRouteFromDeepLink P v \<noteq> None"
    using Cons.IH by blast
  show ?case
  proof (cases r)
    case None
    with vs spec r show ?thesis by (intro exI [of _ vs]) auto
  next
    case (Some route)
    with spec obtain v where v: "v \<in> set seen'" "v \<notin> set seen" "desktopRouteFromDeepLink P v = Some route"
      by auto
    with vs spec r Some show ?thesis by (intro exI [of _ "v # vs"]) auto
  qed
qed

lemma deep_link_route:
  "desktopRouteFromDeepLink P v = Some route \<Longrightarrow>
   \<exists>s p. SAFE_ID s \<and> (route = chat_path s \<or> SAFE_ID p \<and> route = run_path p s)"
  by (auto simp: desktopRouteFromDeepLink_def Let_def split: option.splits if_splits)

text \<open>
  A deep link is an entry, not a command line: whatever link arrives, a route is only taken
  from \<open>agentmate://open/run\<close> with safe identifiers, it is a chat or run route built from them,
  and over the whole life of the app no link is applied twice.
\<close>

theorem deep_links_are_safe:
  "\<exists>vs. deep_link_batches P bs [] = map (the \<circ> desktopRouteFromDeepLink P) vs \<and> distinct vs
     \<and> (\<forall>v\<in>set vs. \<exists>s p. SAFE_ID s \<and> (desktopRouteFromDeepLink P v = Some (chat_path s)
          \<or> SAFE_ID p \<and> desktopRouteFromDeepLink P v = Some (run_path p s)))"
proof -
  obtain vs where vs: "deep_link_batches P bs [] = map (the \<circ> desktopRouteFromDeepLink P) vs" "distinct vs"
      "\<forall>v\<in>set vs. desktopRouteFromDeepLink P v \<noteq> None"
    using batches_once [of P bs "[]"] by auto
  then show ?thesis
    using deep_link_route by (intro exI [of _ vs]) (metis option.exhaust)
qed

theorem deep_links_are_safe_witness:
  "length (deep_link_batches demo_link
     [[''x'', ''agentmate://open/run?session_id=s%3A1&project_id=p''],
      [''agentmate://open/run?session_id=s%3A1&project_id=p'']] []) = 1"
  using deep_links_are_safe [of demo_link "[]"]
  by (simp add: demo_link_def desktopRouteFromDeepLink_def link_param_def SAFE_ID_def safe_char_def Let_def)

end
