(* ===== verification/Loadout.thy ===== *)
theory Loadout
  imports StreamChat ChatStore
begin

text \<open>
  What the composer carries into a message: the session's loadout
  (\<open>src/src/stores/loadoutStore.ts\<close>) and the composer settings
  (\<open>src/src/stores/settingsStore.ts\<close>), and the options \<open>send\<close> of the chat store makes of them.
\<close>

subsection \<open>The loadout\<close>

record attached_ref =
  af_id :: string
  af_name :: string
  af_content :: string
  af_kind :: "ref_kind option"
  af_item_id :: "string option"

record loadout =
  lo_experts :: "string list"
  lo_skills :: "string list"
  lo_skill_bundles :: "string list"
  lo_connectors :: "string list"
  lo_knowledge_ids :: "string list"
  lo_refs :: "attached_ref list"
  lo_draft :: string

definition empty_loadout :: loadout where
  "empty_loadout =
     \<lparr> lo_experts = [], lo_skills = [], lo_skill_bundles = [], lo_connectors = [],
       lo_knowledge_ids = [], lo_refs = [], lo_draft = [] \<rparr>"

datatype loadout_kind = KExp | KSkill | KConn | KKb

definition toggle_name :: "string \<Rightarrow> string list \<Rightarrow> string list" where
  "toggle_name name cur = (if name \<in> set cur then filter (\<lambda>n. n \<noteq> name) cur else cur @ [name])"

fun toggle_loadout :: "loadout_kind \<Rightarrow> string \<Rightarrow> loadout \<Rightarrow> loadout" where
  "toggle_loadout KExp name s = s\<lparr> lo_experts := toggle_name name (lo_experts s) \<rparr>"
| "toggle_loadout KSkill name s = s\<lparr> lo_skills := toggle_name name (lo_skills s) \<rparr>"
| "toggle_loadout KConn name s = s\<lparr> lo_connectors := toggle_name name (lo_connectors s) \<rparr>"
| "toggle_loadout KKb name s = s\<lparr> lo_knowledge_ids := toggle_name name (lo_knowledge_ids s) \<rparr>"

definition summon :: "string list \<Rightarrow> loadout \<Rightarrow> loadout" where
  "summon experts s = empty_loadout\<lparr> lo_experts := uniq experts \<rparr>"

definition summonSkills :: "string list \<Rightarrow> loadout \<Rightarrow> loadout" where
  "summonSkills skills s = empty_loadout\<lparr> lo_skills := uniq skills, lo_draft := lo_draft s \<rparr>"

definition summonSkillBundle :: "string \<Rightarrow> loadout \<Rightarrow> loadout" where
  "summonSkillBundle bundleId s = empty_loadout\<lparr> lo_skill_bundles := [bundleId], lo_draft := lo_draft s \<rparr>"

definition summonConnectors :: "string list \<Rightarrow> loadout \<Rightarrow> loadout" where
  "summonConnectors connectors s = empty_loadout\<lparr> lo_connectors := uniq connectors \<rparr>"

text \<open>A reference's payload, without the chip's identity; \<open>addRef\<close> gets the fresh identity.\<close>

definition ref_payload :: "attached_ref \<Rightarrow> string \<times> string \<times> ref_kind option \<times> string option" where
  "ref_payload r = (af_name r, af_content r, af_kind r, af_item_id r)"

definition addRef :: "attached_ref \<Rightarrow> loadout \<Rightarrow> loadout \<times> bool" where
  "addRef r s =
     (if \<exists>x\<in>set (lo_refs s). ref_payload x = ref_payload r then (s, False)
      else (s\<lparr> lo_refs := lo_refs s @ [r] \<rparr>, True))"

definition removeRef :: "string \<Rightarrow> loadout \<Rightarrow> loadout" where
  "removeRef i s = s\<lparr> lo_refs := drop_key af_id i (lo_refs s) \<rparr>"

definition clearRefs :: "loadout \<Rightarrow> loadout" where
  "clearRefs s = s\<lparr> lo_refs := [] \<rparr>"

definition setDraft :: "string \<Rightarrow> loadout \<Rightarrow> loadout" where
  "setDraft t s = s\<lparr> lo_draft := t \<rparr>"

definition clearDraft :: "loadout \<Rightarrow> loadout" where
  "clearDraft s = s\<lparr> lo_draft := [] \<rparr>"

definition setKnowledgeIds :: "string list \<Rightarrow> loadout \<Rightarrow> loadout" where
  "setKnowledgeIds ids s = s\<lparr> lo_knowledge_ids := uniq ids \<rparr>"

definition resetLoadout :: "loadout \<Rightarrow> loadout" where
  "resetLoadout s = empty_loadout"

subsection \<open>Composer settings\<close>

datatype perm = PermDefault | PermFull

record usage_detail =
  us_pct :: int
  us_used :: int
  us_total :: int
  us_detail :: json

record settings =
  se_model :: string
  se_models :: "json list"
  se_max_mode :: bool
  se_perm :: perm
  se_plan_mode :: bool
  se_ask_mode :: bool
  se_usage :: usage_detail

text \<open>The start: the model key kept in the browser's storage.\<close>

definition initial_settings :: "string option \<Rightarrow> settings" where
  "initial_settings stored =
     \<lparr> se_model = opt_str stored, se_models = [], se_max_mode = False, se_perm = PermDefault,
       se_plan_mode = False, se_ask_mode = False,
       se_usage = \<lparr> us_pct = 0, us_used = 0, us_total = 1000000, us_detail = JObj [] \<rparr> \<rparr>"

definition setModel :: "string \<Rightarrow> settings \<Rightarrow> settings \<times> string option" where
  "setModel name s = (s\<lparr> se_model := name \<rparr>, Some name)"

definition setModels :: "json list \<Rightarrow> settings \<Rightarrow> settings" where
  "setModels ms s = s\<lparr> se_models := ms \<rparr>"

definition reloadModels :: "json list res \<Rightarrow> settings \<Rightarrow> settings" where
  "reloadModels r s = (case r of Inr ms \<Rightarrow> s\<lparr> se_models := ms \<rparr> | Inl e \<Rightarrow> s)"

definition toggleMax :: "settings \<Rightarrow> settings" where
  "toggleMax s = s\<lparr> se_max_mode := \<not> se_max_mode s \<rparr>"

definition setPerm :: "perm \<Rightarrow> settings \<Rightarrow> settings" where
  "setPerm p s = s\<lparr> se_perm := p \<rparr>"

definition setPlan :: "bool \<Rightarrow> settings \<Rightarrow> settings" where
  "setPlan on s = s\<lparr> se_plan_mode := on, se_ask_mode := (if on then False else se_ask_mode s) \<rparr>"

definition setAsk :: "bool \<Rightarrow> settings \<Rightarrow> settings" where
  "setAsk on s = s\<lparr> se_ask_mode := on, se_plan_mode := (if on then False else se_plan_mode s) \<rparr>"

definition setUsage :: "int \<Rightarrow> int \<Rightarrow> json \<Rightarrow> settings \<Rightarrow> settings" where
  "setUsage pct used detail s =
     s\<lparr> se_usage := (se_usage s)\<lparr> us_pct := pct, us_used := used, us_detail := detail \<rparr> \<rparr>"

subsection \<open>What a message is sent with\<close>

definition send_options ::
  "string \<Rightarrow> string option \<Rightarrow> chat_state \<Rightarrow> settings \<Rightarrow> loadout \<Rightarrow> chat_options" where
  "send_options text retryOf st se lo =
     \<lparr> co_text = trim text, co_session_id = cs_active_id st, co_title = Some (cs_title st), co_space = None,
       co_model = Some (se_model se), co_plan = se_plan_mode se, co_ask = se_ask_mode se,
       co_project_id = cs_active_project_id st, co_experts = lo_experts lo, co_skills = lo_skills lo,
       co_skill_bundles = lo_skill_bundles lo, co_connectors = lo_connectors lo,
       co_knowledge_ids = lo_knowledge_ids lo,
       co_refs = map (\<lambda>r. \<lparr> cf_name = af_name r, cf_content = af_content r, cf_kind = af_kind r,
                            cf_item_id = af_item_id r \<rparr>) (lo_refs lo),
       co_idempotency_key = None, co_retry_of = retryOf, co_automation_id = None \<rparr>"

subsection \<open>Steps\<close>

text \<open>Every way the two stores change while the app runs; a new reference gets a fresh identity.\<close>

inductive composer_step :: "loadout \<times> settings \<Rightarrow> loadout \<times> settings \<Rightarrow> bool" where
  cp_toggle: "composer_step (lo, se) (toggle_loadout k name lo, se)"
| cp_summon: "composer_step (lo, se) (summon xs lo, se)"
| cp_skills: "composer_step (lo, se) (summonSkills xs lo, se)"
| cp_bundle: "composer_step (lo, se) (summonSkillBundle b lo, se)"
| cp_connectors: "composer_step (lo, se) (summonConnectors xs lo, se)"
| cp_add: "af_id r \<notin> af_id ` set (lo_refs lo) \<Longrightarrow> composer_step (lo, se) (fst (addRef r lo), se)"
| cp_remove: "composer_step (lo, se) (removeRef i lo, se)"
| cp_clear: "composer_step (lo, se) (clearRefs lo, se)"
| cp_draft: "composer_step (lo, se) (setDraft t lo, se)"
| cp_no_draft: "composer_step (lo, se) (clearDraft lo, se)"
| cp_kb: "composer_step (lo, se) (setKnowledgeIds xs lo, se)"
| cp_reset: "composer_step (lo, se) (resetLoadout lo, se)"
| cp_model: "composer_step (lo, se) (lo, fst (setModel m se))"
| cp_models: "composer_step (lo, se) (lo, setModels ms se)"
| cp_reload: "composer_step (lo, se) (lo, reloadModels r' se)"
| cp_max: "composer_step (lo, se) (lo, toggleMax se)"
| cp_perm: "composer_step (lo, se) (lo, setPerm p se)"
| cp_plan: "composer_step (lo, se) (lo, setPlan on se)"
| cp_ask: "composer_step (lo, se) (lo, setAsk on se)"
| cp_usage: "composer_step (lo, se) (lo, setUsage x y d se)"

definition composer_reaches :: "loadout \<times> settings \<Rightarrow> loadout \<times> settings \<Rightarrow> bool" where
  "composer_reaches = rtranclp composer_step"

definition loadout_ok :: "loadout \<Rightarrow> bool" where
  "loadout_ok lo \<longleftrightarrow>
     distinct (lo_experts lo) \<and> distinct (lo_skills lo) \<and> distinct (lo_skill_bundles lo)
     \<and> distinct (lo_connectors lo) \<and> distinct (lo_knowledge_ids lo)
     \<and> distinct (map af_id (lo_refs lo)) \<and> distinct (map ref_payload (lo_refs lo))"

definition one_mode :: "settings \<Rightarrow> bool" where
  "one_mode se \<longleftrightarrow> \<not> (se_plan_mode se \<and> se_ask_mode se)"

lemma distinct_toggle: "distinct cur \<Longrightarrow> distinct (toggle_name name cur)"
  by (simp add: toggle_name_def)

lemma distinct_map_drop: "distinct (map f xs) \<Longrightarrow> distinct (map f (drop_key key k xs))"
  by (simp add: drop_key_def distinct_map_filter)

lemmas loadout_ops = summon_def summonSkills_def summonSkillBundle_def summonConnectors_def addRef_def
  removeRef_def clearRefs_def setDraft_def clearDraft_def setKnowledgeIds_def resetLoadout_def empty_loadout_def

lemmas settings_ops = setModel_def setModels_def reloadModels_def toggleMax_def setPerm_def setPlan_def
  setAsk_def setUsage_def

lemma toggle_ok: "loadout_ok lo \<Longrightarrow> loadout_ok (toggle_loadout k name lo)"
  by (cases k) (simp_all add: loadout_ok_def distinct_toggle)

lemma composer_ok_step:
  "composer_step w w' \<Longrightarrow> loadout_ok (fst w) \<and> one_mode (snd w) \<Longrightarrow> loadout_ok (fst w') \<and> one_mode (snd w')"
proof (induction rule: composer_step.induct)
  case (cp_add r lo se)
  then show ?case by (auto simp: loadout_ok_def addRef_def)
next
  case (cp_toggle lo se k name)
  then show ?case by (simp add: toggle_ok)
qed (auto simp: loadout_ok_def one_mode_def loadout_ops settings_ops distinct_map_drop
      split: sum.split)

lemma composer_ok:
  assumes "composer_reaches (empty_loadout, initial_settings stored) (lo, se)"
  shows "loadout_ok lo \<and> one_mode se"
proof -
  have "composer_reaches w w' \<Longrightarrow> loadout_ok (fst w) \<and> one_mode (snd w) \<Longrightarrow> loadout_ok (fst w') \<and> one_mode (snd w')"
    for w w'
    unfolding composer_reaches_def
    by (induction rule: rtranclp_induct) (use composer_ok_step in blast)+
  with assms show ?thesis
    by (force simp: loadout_ok_def one_mode_def empty_loadout_def initial_settings_def)
qed

subsection \<open>Properties\<close>

text \<open>
  The turn is what the composer shows: after any use of the composer, the request carries
  the trimmed text, the mode the user switched on (plan and ask are never both on, so the
  switch shown is the mode sent), the tools only outside ask mode, and the loadout on display,
  in which nothing is listed twice; the attached files are the distinct references on display.
\<close>

theorem turn_is_what_the_composer_shows:
  assumes "composer_reaches (empty_loadout, initial_settings stored) (lo, se)"
  shows "let t = turn_body (send_options text retryOf st se lo) key dev in
     tr_text t = trim text
     \<and> tr_mode t = (if se_plan_mode se then ModePlan else if se_ask_mode se then ModeAsk else ModeExec)
     \<and> (''agent.tools'' \<in> set (tr_required_capabilities t)) = (\<not> se_ask_mode se)
     \<and> tr_experts t = lo_experts lo \<and> distinct (tr_experts t)
     \<and> tr_skills t = lo_skills lo \<and> distinct (tr_skills t)
     \<and> tr_connectors t = lo_connectors lo \<and> distinct (tr_connectors t)
     \<and> tr_knowledge_ids t = lo_knowledge_ids lo \<and> distinct (tr_knowledge_ids t)
     \<and> map (\<lambda>(n, k, i). n) (tr_refs t) = map af_name (lo_refs lo)
     \<and> distinct (map ref_payload (lo_refs lo))
     \<and> length_units (tr_title t) \<le> 500"
  using composer_ok [OF assms]
  by (auto simp: Let_def turn_body_def send_options_def turn_mode_def loadout_ok_def one_mode_def
      slice_units_bound comp_def)

lemma demo_composer:
  "composer_reaches (empty_loadout, initial_settings None)
     (toggle_loadout KExp ''e'' empty_loadout, setAsk True (setPlan True (initial_settings None)))"
proof -
  have "composer_step (empty_loadout, initial_settings None) (toggle_loadout KExp ''e'' empty_loadout, initial_settings None)"
    "\<And>lo. composer_step (lo, initial_settings None) (lo, setPlan True (initial_settings None))"
    "\<And>lo. composer_step (lo, setPlan True (initial_settings None)) (lo, setAsk True (setPlan True (initial_settings None)))"
    by (rule cp_toggle cp_plan cp_ask)+
  then show ?thesis
    unfolding composer_reaches_def by (meson converse_rtranclp_into_rtranclp rtranclp.rtrancl_refl)
qed

theorem turn_is_what_the_composer_shows_witness:
  "tr_mode (turn_body (send_options ''hi'' None initial_chat (setAsk True (setPlan True (initial_settings None)))
     (toggle_loadout KExp ''e'' empty_loadout)) ''k'' ''d'') = ModeAsk"
  using turn_is_what_the_composer_shows [OF demo_composer, of "''hi''" None initial_chat "''k''" "''d''"]
  by (simp add: Let_def setAsk_def)

end
