(* ===== verification/Workbench.thy ===== *)
theory Workbench
  imports WorkItems Channels
begin

text \<open>
  The personal workbench (\<open>src/src/lib/workbench.ts\<close>, \<open>src/src/stores/workbenchStore.ts\<close>):
  which run stands for a task or conversation, and two Server reads merged so that one failing
  domain never hides the other.
\<close>

subsection \<open>One run per task or conversation\<close>

text \<open>\<open>run.updated_at || run.created_at\<close>\<close>

definition recency :: "agent_run \<Rightarrow> int" where
  "recency r = (if ar_updated_at r \<noteq> 0 then ar_updated_at r else ar_created_at r)"

text \<open>The \<open>filter\<close> callback with its two sets of what was already seen.\<close>

fun keep_current :: "string list \<Rightarrow> string list \<Rightarrow> agent_run list \<Rightarrow> agent_run list" where
  "keep_current seenItems seenSessions [] = []"
| "keep_current seenItems seenSessions (r # rs) =
     (if truthy (ar_work_item_id r) then
        (if opt_str (ar_work_item_id r) \<in> set seenItems then keep_current seenItems seenSessions rs
         else r # keep_current (opt_str (ar_work_item_id r) # seenItems) seenSessions rs)
      else if ar_session_id r \<in> set seenSessions then keep_current seenItems seenSessions rs
      else r # keep_current seenItems (ar_session_id r # seenSessions) rs)"

definition selectCurrentWorkbenchRuns :: "agent_run list \<Rightarrow> agent_run list" where
  "selectCurrentWorkbenchRuns runs = keep_current [] [] (sort_desc recency runs)"

subsection \<open>Two domains\<close>

datatype data_source = SrcLive | SrcCache

text \<open>A \<open>PersonalActionItem\<close>: the task, with its project, signals and reason as they came.\<close>

type_synonym personal_action = "work_item \<times> json"

record personal_actions =
  pa_items :: "personal_action list"
  pa_unassigned :: "personal_action list"
  pa_summary :: json
  pa_computed_at :: int

record 'a domain_read =
  dr_value :: 'a
  dr_source :: data_source
  dr_updated_at :: int

record workbench =
  wb_action_items :: "personal_action list"
  wb_unassigned_items :: "personal_action list"
  wb_summary :: "json option"
  wb_computed_at :: "int option"
  wb_runs :: "agent_run list"
  wb_loading :: bool
  wb_action_error :: "string option"
  wb_run_error :: "string option"
  wb_action_source :: "data_source option"
  wb_run_source :: "data_source option"
  wb_action_updated_at :: "int option"
  wb_run_updated_at :: "int option"

definition empty_workbench :: workbench where
  "empty_workbench =
     \<lparr> wb_action_items = [], wb_unassigned_items = [], wb_summary = None, wb_computed_at = None,
       wb_runs = [], wb_loading = False, wb_action_error = None, wb_run_error = None,
       wb_action_source = None, wb_run_source = None, wb_action_updated_at = None,
       wb_run_updated_at = None \<rparr>"

definition mergeWorkbenchDomains ::
  "workbench \<Rightarrow> personal_actions domain_read res \<Rightarrow> agent_run list domain_read res \<Rightarrow> workbench" where
  "mergeWorkbenchDomains current actions runs =
     (let st1 = (case actions of
            Inl e \<Rightarrow> current
          | Inr d \<Rightarrow> current\<lparr> wb_action_items := pa_items (dr_value d),
                               wb_unassigned_items := pa_unassigned (dr_value d),
                               wb_summary := Some (pa_summary (dr_value d)),
                               wb_computed_at := Some (pa_computed_at (dr_value d)),
                               wb_action_source := Some (dr_source d),
                               wb_action_updated_at := Some (dr_updated_at d) \<rparr>)
      in case runs of
           Inl e \<Rightarrow> st1
         | Inr d \<Rightarrow> st1\<lparr> wb_runs := dr_value d, wb_run_source := Some (dr_source d),
                           wb_run_updated_at := Some (dr_updated_at d) \<rparr>)"

definition msg_no_state :: string where
  "msg_no_state = ''Server read completed without a resolved connection state''"

text \<open>\<open>readServerDomain\<close>: the value with the state handed to \<open>onResolvedState\<close> (the last one).\<close>

definition readServerDomain :: "'a res \<Rightarrow> conn_state option \<Rightarrow> int \<Rightarrow> 'a domain_read res" where
  "readServerDomain r server now =
     (case r of
        Inl e \<Rightarrow> Inl e
      | Inr v \<Rightarrow>
          (case server of
             None \<Rightarrow> Inl (Err msg_no_state)
           | Some s \<Rightarrow>
               let cached = cn_state s = ConnCached in
               Inr \<lparr> dr_value = v, dr_source = (if cached then SrcCache else SrcLive),
                     dr_updated_at = (if cached \<and> jtruthy (cn_cached_at s) then jint_d (cn_cached_at s) else now) \<rparr>))"

definition workbench_load_begin :: "workbench \<Rightarrow> workbench" where
  "workbench_load_begin st = st\<lparr> wb_loading := True, wb_action_error := None, wb_run_error := None \<rparr>"

definition msg_actions_failed :: string where
  "msg_actions_failed = ''Server action items could not be read''"

definition msg_runs_failed :: string where
  "msg_runs_failed = ''Server runs could not be read''"

definition is_rejected :: "'a res \<Rightarrow> bool" where
  "is_rejected r = (case r of Inl e \<Rightarrow> True | Inr x \<Rightarrow> False)"

definition workbench_load_done ::
  "personal_actions domain_read res \<Rightarrow> agent_run list domain_read res \<Rightarrow> workbench \<Rightarrow> workbench" where
  "workbench_load_done actions runs current =
     (mergeWorkbenchDomains current actions runs)
       \<lparr> wb_loading := False,
         wb_action_error := (if is_rejected actions then Some msg_actions_failed else None),
         wb_run_error := (if is_rejected runs then Some msg_runs_failed else None) \<rparr>"

definition workbench_clear :: "workbench \<Rightarrow> workbench" where
  "workbench_clear st = empty_workbench"

text \<open>\<open>localDate\<close> of a calendar day (the month counted from 1).\<close>

definition localDate :: "nat \<Rightarrow> nat \<Rightarrow> nat \<Rightarrow> string" where
  "localDate y m d = dec_nat y @ ''-'' @ pad2 m @ ''-'' @ pad2 d"

subsection \<open>Properties\<close>

text \<open>What a run stands for: its task, or else its conversation.\<close>

definition stands_for :: "agent_run \<Rightarrow> string + string" where
  "stands_for r = (if truthy (ar_work_item_id r) then Inl (opt_str (ar_work_item_id r)) else Inr (ar_session_id r))"

definition seen_keys :: "string list \<Rightarrow> string list \<Rightarrow> (string + string) set" where
  "seen_keys is ss = Inl ` set is \<union> Inr ` set ss"

lemma seen_keys_mem [simp]:
  "Inl i \<in> seen_keys is ss \<longleftrightarrow> i \<in> set is" "Inr s \<in> seen_keys is ss \<longleftrightarrow> s \<in> set ss"
  by (auto simp: seen_keys_def)

lemma seen_keys_Cons:
  "seen_keys (i # is) ss = insert (Inl i) (seen_keys is ss)"
  "seen_keys is (s # ss) = insert (Inr s) (seen_keys is ss)"
  by (auto simp: seen_keys_def)

text \<open>The same walk with one set of keys: the first run of every key not yet seen.\<close>

fun firsts :: "('a \<Rightarrow> 'k) \<Rightarrow> 'k set \<Rightarrow> 'a list \<Rightarrow> 'a list" where
  "firsts key S [] = []"
| "firsts key S (x # xs) = (if key x \<in> S then firsts key S xs else x # firsts key (insert (key x) S) xs)"

lemma keep_current_firsts: "keep_current is ss rs = firsts stands_for (seen_keys is ss) rs"
  by (induction "is" ss rs rule: keep_current.induct)
     (simp_all add: stands_for_def seen_keys_Cons)

lemma firsts_subset: "x \<in> set (firsts key S xs) \<Longrightarrow> x \<in> set xs \<and> key x \<notin> S"
  by (induction key S xs rule: firsts.induct) (auto split: if_splits)

lemma firsts_distinct: "distinct (map key (firsts key S xs))"
proof (induction key S xs rule: firsts.induct)
  case (2 key S x xs)
  have "key x \<notin> key ` set (firsts key (insert (key x) S) xs)"
    using firsts_subset [of _ key "insert (key x) S" xs] by fastforce
  with 2 show ?case by auto
qed simp

lemma firsts_covers: "x \<in> set xs \<Longrightarrow> key x \<notin> S \<Longrightarrow> key x \<in> key ` set (firsts key S xs)"
  by (induction key S xs rule: firsts.induct) (auto split: if_splits)

lemma firsts_order:
  "sorted_wrt R xs \<Longrightarrow> (\<And>x. R x x) \<Longrightarrow> x \<in> set (firsts key S xs) \<Longrightarrow> y \<in> set xs \<Longrightarrow> key y = key x \<Longrightarrow> R x y"
proof (induction key S xs rule: firsts.induct)
  case (2 key S z xs)
  show ?case
  proof (cases "key z \<in> S")
    case True
    with "2.prems"(3) have "x \<in> set (firsts key S xs)" by simp
    moreover from this have "key x \<notin> S" using firsts_subset by fastforce
    ultimately show ?thesis using "2.IH"(1) [OF True] "2.prems" True by auto
  next
    case False
    show ?thesis
    proof (cases "x = z")
      case True
      with "2.prems" show ?thesis by auto
    next
      case x: False
      with False "2.prems"(3) have "x \<in> set (firsts key (insert (key z) S) xs)" by simp
      moreover from this have "key x \<noteq> key z" using firsts_subset by fastforce
      ultimately show ?thesis using "2.IH"(2) [OF False] "2.prems" by auto
    qed
  qed
qed simp

text \<open>
  The workbench shows the present: one run for every task, and for every conversation
  without a task, no two for the same, each of them a most recent one of its task or
  conversation, and nothing that was not among the runs read.
\<close>

theorem current_runs_are_the_latest:
  "let cur = selectCurrentWorkbenchRuns runs in
     distinct (map stands_for cur) \<and> stands_for ` set cur = stands_for ` set runs \<and> set cur \<subseteq> set runs
     \<and> (\<forall>r\<in>set cur. \<forall>r'\<in>{r'\<in>set runs. stands_for r' = stands_for r}. recency r' \<le> recency r)"
proof -
  let ?s = "sort_desc recency runs"
  have eq: "selectCurrentWorkbenchRuns runs = firsts stands_for {} ?s"
    by (simp add: selectCurrentWorkbenchRuns_def keep_current_firsts seen_keys_def)
  have "recency r' \<le> recency r" if "r \<in> set (firsts stands_for {} ?s)" "r' \<in> set runs"
    "stands_for r' = stands_for r" for r r'
    using firsts_order [OF sorted_sort_desc [of recency runs], of r stands_for "{}" r'] that by simp
  then show ?thesis
    using firsts_distinct [of stands_for "{}" ?s] firsts_subset [of _ stands_for "{}" ?s]
      firsts_covers [of _ ?s stands_for "{}"]
    unfolding Let_def eq by (auto simp: image_iff)
qed

theorem current_runs_are_the_latest_witness:
  "map ar_id (selectCurrentWorkbenchRuns
     [(blank_run ''a'' ''s'' RRunning)\<lparr> ar_updated_at := 1 \<rparr>, (blank_run ''b'' ''s'' RFailed)\<lparr> ar_updated_at := 2 \<rparr>])
   = [''b'']"
  using current_runs_are_the_latest [of "[]"]
  by (simp add: selectCurrentWorkbenchRuns_def sort_desc_def recency_def blank_run_def)

text \<open>
  Domains fail alone: a failed read of one domain keeps everything last shown of it and says
  so, and the other domain shows what was read, live or from the cache with the cache's time.
\<close>

theorem domains_fail_alone:
  "(let st = workbench_load_done (Inl e) (Inr d) cur in
      wb_action_items st = wb_action_items cur \<and> wb_unassigned_items st = wb_unassigned_items cur
      \<and> wb_summary st = wb_summary cur \<and> wb_action_source st = wb_action_source cur
      \<and> wb_action_updated_at st = wb_action_updated_at cur \<and> wb_action_error st = Some msg_actions_failed
      \<and> wb_runs st = dr_value d \<and> wb_run_source st = Some (dr_source d) \<and> wb_run_error st = None)
   \<and> (let st = workbench_load_done (Inr a) (Inl e) cur in
      wb_runs st = wb_runs cur \<and> wb_run_source st = wb_run_source cur
      \<and> wb_run_updated_at st = wb_run_updated_at cur \<and> wb_run_error st = Some msg_runs_failed
      \<and> wb_action_items st = pa_items (dr_value a) \<and> wb_action_source st = Some (dr_source a)
      \<and> wb_action_error st = None)"
  by (simp add: workbench_load_done_def mergeWorkbenchDomains_def is_rejected_def Let_def)

end
