(* ===== verification/Shell.thy ===== *)
theory Shell
  imports Router Loadout
begin

text \<open>
  The shell of the app: the UI store (\<open>src/src/stores/uiStore.ts\<close>) with the browser's history,
  the toast (\<open>src/src/stores/toastStore.ts\<close>) and the interface settings the Server keeps
  (\<open>src/src/stores/systemSettingsStore.ts\<close>).
\<close>

subsection \<open>The UI store\<close>

datatype theme = ThLight | ThDark

datatype settings_tab =
    TabAccount | TabSystem | TabAgent | TabMemory | TabModel | TabRuntime | TabDiagnostics
  | TabPersonalize | TabData | TabSecurity

record ui_state =
  ui_view :: view_id
  ui_ov_open :: bool
  ui_theme :: theme
  ui_open_popover :: "string option"
  ui_viewer_path :: "string option"
  ui_ov_expanded :: bool
  ui_nav_open :: bool
  ui_sidebar_collapsed :: bool
  ui_settings_open :: bool
  ui_settings_tab :: settings_tab

definition initialTheme :: "theme option \<Rightarrow> bool \<Rightarrow> theme" where
  "initialTheme saved prefersDark = nullish saved (if prefersDark then ThDark else ThLight)"

definition initial_ui :: "string \<Rightarrow> theme \<Rightarrow> ui_state" where
  "initial_ui pathname th =
     \<lparr> ui_view = rt_view (readRoute pathname), ui_ov_open = False, ui_theme = th, ui_open_popover = None,
       ui_viewer_path = None, ui_ov_expanded = False, ui_nav_open = False, ui_sidebar_collapsed = False,
       ui_settings_open = False, ui_settings_tab = TabAccount \<rparr>"

text \<open>The browser's history: the address shown, and those behind it, nearest first.\<close>

record browser_history =
  hi_address :: string
  hi_back :: "string list"

definition go :: "bool \<Rightarrow> string \<Rightarrow> browser_history \<Rightarrow> browser_history" where
  "go replacing path h =
     (if replacing then h\<lparr> hi_address := path \<rparr>
      else \<lparr> hi_address = path, hi_back = hi_address h # hi_back h \<rparr>)"

definition setView ::
  "view_id \<Rightarrow> route_options \<Rightarrow> ui_state \<times> browser_history \<Rightarrow> ui_state \<times> browser_history" where
  "setView v route s =
     (case s of (ui, h) \<Rightarrow>
        (ui\<lparr> ui_view := v, ui_open_popover := None, ui_nav_open := False \<rparr>,
         if ro_history route \<and> pathForView v route \<noteq> hi_address h
         then go (ro_replace route) (pathForView v route) h else h))"

definition toggleOv :: "ui_state \<Rightarrow> ui_state" where
  "toggleOv ui = ui\<lparr> ui_ov_open := \<not> ui_ov_open ui \<rparr>"

definition setOv :: "bool \<Rightarrow> ui_state \<Rightarrow> ui_state" where
  "setOv open ui = (if open then ui\<lparr> ui_ov_open := True \<rparr> else ui\<lparr> ui_ov_open := False, ui_ov_expanded := False \<rparr>)"

definition setTheme :: "theme \<Rightarrow> ui_state \<Rightarrow> ui_state \<times> theme" where
  "setTheme t ui = (ui\<lparr> ui_theme := t \<rparr>, t)"

definition setPopover :: "string option \<Rightarrow> ui_state \<Rightarrow> ui_state" where
  "setPopover i ui = ui\<lparr> ui_open_popover := (if ui_open_popover ui = i then None else i) \<rparr>"

definition openFile :: "string \<Rightarrow> ui_state \<Rightarrow> ui_state" where
  "openFile path ui = ui\<lparr> ui_viewer_path := Some path, ui_ov_open := True \<rparr>"

definition closeFile :: "ui_state \<Rightarrow> ui_state" where
  "closeFile ui = ui\<lparr> ui_viewer_path := None \<rparr>"

definition toggleExpand :: "ui_state \<Rightarrow> ui_state" where
  "toggleExpand ui = ui\<lparr> ui_ov_expanded := \<not> ui_ov_expanded ui \<rparr>"

definition setNavOpen :: "bool \<Rightarrow> ui_state \<Rightarrow> ui_state" where
  "setNavOpen b ui = ui\<lparr> ui_nav_open := b \<rparr>"

definition setSidebarCollapsed :: "bool \<Rightarrow> ui_state \<Rightarrow> ui_state" where
  "setSidebarCollapsed b ui = ui\<lparr> ui_sidebar_collapsed := b \<rparr>"

definition setSettingsOpen :: "bool \<Rightarrow> settings_tab option \<Rightarrow> ui_state \<Rightarrow> ui_state" where
  "setSettingsOpen b tab ui =
     (case tab of
        None \<Rightarrow> ui\<lparr> ui_settings_open := b \<rparr>
      | Some t \<Rightarrow> ui\<lparr> ui_settings_open := b, ui_settings_tab := t \<rparr>)"

definition setSettingsTab :: "settings_tab \<Rightarrow> ui_state \<Rightarrow> ui_state" where
  "setSettingsTab t ui = ui\<lparr> ui_settings_tab := t \<rparr>"

subsection \<open>The toast\<close>

text \<open>Only the timer of the last message is pending: \<open>show\<close> clears the one before.\<close>

record toast_state =
  to_message :: string
  to_visible :: bool
  to_timer :: "int option"

definition toast_show :: "string \<Rightarrow> int \<Rightarrow> toast_state \<Rightarrow> toast_state" where
  "toast_show m now t = \<lparr> to_message = m, to_visible = True, to_timer = Some (now + 2000) \<rparr>"

definition toast_hide :: "toast_state \<Rightarrow> toast_state" where
  "toast_hide t = t\<lparr> to_visible := False \<rparr>"

text \<open>The clock reaches \<open>now\<close>: the pending timer fires when its time has come.\<close>

definition toast_tick :: "int \<Rightarrow> toast_state \<Rightarrow> toast_state" where
  "toast_tick now t =
     (case to_timer t of
        Some due \<Rightarrow> if due \<le> now then t\<lparr> to_visible := False, to_timer := None \<rparr> else t
      | None \<Rightarrow> t)"

subsection \<open>Interface settings\<close>

record system_settings =
  sy_interface_scale :: int
  sy_reduce_motion :: bool
  sy_default_permission :: perm
  sy_startup_page :: string

definition system_defaults :: system_settings where
  "system_defaults =
     \<lparr> sy_interface_scale = 100, sy_reduce_motion = False, sy_default_permission = PermDefault,
       sy_startup_page = ''home'' \<rparr>"

text \<open>What \<open>apply\<close> sets: the page's scale and motion class, and the composer's permission.\<close>

record page_look =
  pl_ui_scale :: string
  pl_reduce_motion :: bool

definition apply_settings :: "system_settings \<Rightarrow> settings \<Rightarrow> page_look \<times> settings" where
  "apply_settings sy se =
     (\<lparr> pl_ui_scale = dec_int (sy_interface_scale sy), pl_reduce_motion = sy_reduce_motion sy \<rparr>,
      setPerm (sy_default_permission sy) se)"

record system_store =
  ss_settings :: system_settings
  ss_loaded :: bool

definition system_load_done ::
  "system_settings res \<Rightarrow> system_store \<Rightarrow> settings \<Rightarrow> system_store \<times> page_look \<times> settings" where
  "system_load_done r ss se =
     (case r of
        Inr sy \<Rightarrow> (\<lparr> ss_settings = sy, ss_loaded = True \<rparr>, apply_settings sy se)
      | Inl e \<Rightarrow> (ss\<lparr> ss_loaded := True \<rparr>, apply_settings (ss_settings ss) se))"

definition system_save_done ::
  "system_settings res \<Rightarrow> system_store \<Rightarrow> settings \<Rightarrow> (system_store \<times> page_look \<times> settings) res" where
  "system_save_done r ss se =
     (case r of
        Inr sy \<Rightarrow> Inr (\<lparr> ss_settings = sy, ss_loaded = True \<rparr>, apply_settings sy se)
      | Inl e \<Rightarrow> Inl e)"

subsection \<open>Navigation and reload\<close>

fun navigations :: "(view_id \<times> route_options) list \<Rightarrow> ui_state \<times> browser_history \<Rightarrow> ui_state \<times> browser_history" where
  "navigations [] s = s"
| "navigations ((v, r) # vs) s = navigations vs (setView v r s)"

text \<open>The address opens the view that is shown.\<close>

definition in_step :: "ui_state \<times> browser_history \<Rightarrow> bool" where
  "in_step s \<longleftrightarrow> rt_view (readRoute (path_part (hi_address (snd s)))) = ui_view (fst s)"

lemma setView_in_step: "routable v r \<Longrightarrow> ro_history r \<Longrightarrow> in_step (setView v r s)"
  using routes_back [of v r]
  by (cases s) (auto simp: in_step_def setView_def go_def opens_def)

lemma setView_back:
  "\<exists>n. (n = 0 \<or> n = 1 \<and> \<not> ro_replace r \<and> pathForView v r \<noteq> hi_address (snd s))
     \<and> length (hi_back (snd (setView v r s))) = length (hi_back (snd s)) + n"
  by (cases s) (auto simp: setView_def go_def)

text \<open>
  Reloading is harmless: after any sequence of view changes recorded in the history, the
  address in the address bar opens the view the app shows, no popover or drawer is left open,
  and the history has grown by at most one entry for each change.
\<close>

theorem reload_keeps_the_view:
  assumes "\<forall>(v, r)\<in>set vs. routable v r \<and> ro_history r" "vs \<noteq> []"
  shows "rt_view (readRoute (path_part (hi_address (snd (navigations vs s))))) = ui_view (fst (navigations vs s))
     \<and> ui_view (fst (navigations vs s)) = fst (last vs)
     \<and> ui_open_popover (fst (navigations vs s)) = None \<and> \<not> ui_nav_open (fst (navigations vs s))
     \<and> length (hi_back (snd (navigations vs s))) \<le> length (hi_back (snd s)) + length vs"
  using assms
proof (induction vs arbitrary: s)
  case (Cons p vs)
  obtain v r where p: "p = (v, r)" by (cases p)
  note one = setView_in_step [of v r s] setView_back [of r v s]
  show ?case
  proof (cases "vs = []")
    case True
    with p one Cons.prems show ?thesis by (cases s) (auto simp: in_step_def setView_def go_def)
  next
    case False
    with Cons.IH [of "setView v r s"] Cons.prems p one(2) show ?thesis by auto
  qed
qed simp

theorem reload_keeps_the_view_witness:
  "let s = navigations [(VSkills, no_route_options), (VProject, no_route_options\<lparr> ro_project_id := Some ''p'' \<rparr>)]
       (initial_ui ''/'' ThDark, \<lparr> hi_address = ''/'', hi_back = [] \<rparr>) in
     rt_view (readRoute (path_part (hi_address (snd s)))) = VProject"
proof -
  let ?vs = "[(VSkills, no_route_options), (VProject, no_route_options\<lparr> ro_project_id := Some ''p'' \<rparr>)]"
  have "utf8 ''p''" by code_simp
  then have "\<forall>(v, r)\<in>set ?vs. routable v r \<and> ro_history r"
    by (simp add: routable_def no_route_options_def)
  from reload_keeps_the_view [OF this, of "(initial_ui ''/'' ThDark, \<lparr> hi_address = ''/'', hi_back = [] \<rparr>)"]
  show ?thesis by (simp add: Let_def)
qed

end
