(* ===== verification/Collections.thy ===== *)
theory Collections
  imports WorkItems
begin

text \<open>
  The stores that keep a list of the Server's records: ideas (\<open>src/src/stores/ideaStore.ts\<close>),
  the user's own experts (\<open>expertStore.ts\<close>), projects (\<open>projectStore.ts\<close>), knowledge bases
  (\<open>knowledgeStore.ts\<close>) and notifications (\<open>notificationStore.ts\<close>). What such a list promises,
  a map from identities to records, is the locale \<open>keyed_shelf\<close>.
\<close>

subsection \<open>The interface\<close>

definition prepend :: "'i \<Rightarrow> 'i list \<Rightarrow> 'i list" where
  "prepend i xs = i # xs"

lemma set_prepend_fresh:
  assumes "key i \<notin> key ` set xs"
  shows "set (prepend i xs) = insert i {x \<in> set xs. key x \<noteq> key i}"
proof -
  have "key x \<noteq> key i" if "x \<in> set xs" for x using that assms by (metis imageI)
  then show ?thesis by (auto simp: prepend_def)
qed

lemma distinct_prepend_fresh:
  "distinct (map key xs) \<Longrightarrow> key i \<notin> key ` set xs \<Longrightarrow> distinct (map key (prepend i xs))"
  by (simp add: prepend_def)

locale keyed_shelf =
  fixes key :: "'i \<Rightarrow> 'k" and put :: "'i \<Rightarrow> 'i list \<Rightarrow> 'i list" and admits :: "'i \<Rightarrow> 'i list \<Rightarrow> bool"
  assumes put_set: "admits i xs \<Longrightarrow> set (put i xs) = insert i {x \<in> set xs. key x \<noteq> key i}"
    and put_distinct: "distinct (map key xs) \<Longrightarrow> admits i xs \<Longrightarrow> distinct (map key (put i xs))"
begin

definition shelf :: "'i list \<Rightarrow> 'k \<Rightarrow> 'i option" where
  "shelf xs k = find_key key k xs"

lemma shelf_mem: "distinct (map key xs) \<Longrightarrow> shelf xs k = Some x \<longleftrightarrow> x \<in> set xs \<and> key x = k"
  unfolding shelf_def using find_key_Some [of key k xs x] find_key_unique [of key xs x] by blast

lemma shelf_none: "shelf xs k = None \<longleftrightarrow> k \<notin> key ` set xs"
  by (simp add: shelf_def find_key_None)

lemma shelf_put:
  assumes "distinct (map key xs)" "admits i xs"
  shows "shelf (put i xs) = (shelf xs)(key i \<mapsto> i)"
proof
  fix k
  have d: "distinct (map key (put i xs))" by (rule put_distinct [OF assms])
  show "shelf (put i xs) k = ((shelf xs)(key i \<mapsto> i)) k"
  proof (cases "k = key i")
    case True
    then show ?thesis using shelf_mem [OF d, of k i] put_set [OF assms(2)] by simp
  next
    case False
    show ?thesis
    proof (cases "shelf xs k")
      case None
      with False have "shelf (put i xs) k = None"
        unfolding shelf_none using put_set [OF assms(2)] by (auto simp: image_iff)
      with None False show ?thesis by simp
    next
      case (Some x)
      with False have "shelf (put i xs) k = Some x"
        using shelf_mem [OF d] shelf_mem [OF assms(1)] put_set [OF assms(2)] by auto
      with Some False show ?thesis by simp
    qed
  qed
qed

lemma shelf_drop: "distinct (map key xs) \<Longrightarrow> shelf (drop_key key k xs) = (shelf xs)(k := None)"
proof
  fix j
  assume d: "distinct (map key xs)"
  have d': "distinct (map key (drop_key key k xs))" using d by (rule distinct_drop_key)
  show "shelf (drop_key key k xs) j = ((shelf xs)(k := None)) j"
  proof (cases "shelf xs j")
    case None
    then have "shelf (drop_key key k xs) j = None" by (auto simp: shelf_none)
    with None show ?thesis by simp
  next
    case (Some x)
    then show ?thesis
      using shelf_mem [OF d, of j x] shelf_mem [OF d', of j x]
      by (cases "j = k") (auto simp: shelf_none)
  qed
qed

text \<open>A history of answers, each put on the shelf as it arrives.\<close>

lemma shelf_puts:
  assumes "distinct (map key xs)" "\<And>i ys. i \<in> set is \<Longrightarrow> admits i ys"
  shows "distinct (map key (fold put is xs))
     \<and> shelf (fold put is xs) = shelf xs ++ map_of (rev (map (\<lambda>i. (key i, i)) is))"
  using assms
proof (induction "is" arbitrary: xs)
  case (Cons i "is")
  have a: "admits i xs" using Cons.prems(2) by simp
  from Cons.IH [OF put_distinct [OF Cons.prems(1) a]] Cons.prems(2) shelf_put [OF Cons.prems(1) a]
  show ?case by (simp add: map_add_def fun_eq_iff split: option.split)
qed simp

end

subsection \<open>Ideas\<close>

datatype idea_status = IdInbox | IdActive | IdSettled | IdArchived

datatype settlement = SetWorkItem | SetDecision | SetMemory

record idea =
  ia_id :: string
  ia_owner_id :: string
  ia_project_id :: "string option"
  ia_title :: string
  ia_content :: string
  ia_processed_content :: string
  ia_status :: idea_status
  ia_tags :: "string list"
  ia_settled_type :: "settlement option"
  ia_settled_id :: string
  ia_created_at :: int
  ia_updated_at :: int
  ia_can_write :: bool

record idea_store =
  is_ideas :: "idea list"
  is_loaded :: bool
  is_loading :: bool

text \<open>\<open>upsert\<close>: in front, the old row of that id dropped, then sorted by time, newest first.\<close>

definition upsert :: "idea list \<Rightarrow> idea \<Rightarrow> idea list" where
  "upsert items idea = sort_desc ia_updated_at (idea # drop_key ia_id (ia_id idea) items)"

definition idea_load_begin :: "idea_store \<Rightarrow> idea_store option" where
  "idea_load_begin s = (if is_loading s then None else Some (s\<lparr> is_loading := True \<rparr>))"

text \<open>\<open>finally\<close> runs on an error too, which is rethrown.\<close>

definition idea_load_done :: "idea list res \<Rightarrow> idea_store \<Rightarrow> idea_store \<times> unit res" where
  "idea_load_done r s =
     (case r of
        Inr ideas \<Rightarrow> (s\<lparr> is_ideas := ideas, is_loaded := True, is_loading := False \<rparr>, Inr ())
      | Inl e \<Rightarrow> (s\<lparr> is_loading := False \<rparr>, Inl e))"

definition createIdea_done :: "idea res \<Rightarrow> idea_store \<Rightarrow> idea_store \<times> idea res" where
  "createIdea_done r s =
     (case r of
        Inr i \<Rightarrow> (s\<lparr> is_ideas := upsert (is_ideas s) i, is_loaded := True \<rparr>, Inr i)
      | Inl e \<Rightarrow> (s, Inl e))"

text \<open>\<open>updateIdea\<close>, \<open>addRelation\<close>, \<open>removeRelation\<close>, \<open>applyProcessing\<close> answer with the idea.\<close>

definition idea_answer :: "idea res \<Rightarrow> idea_store \<Rightarrow> idea_store \<times> idea res" where
  "idea_answer r s =
     (case r of Inr i \<Rightarrow> (s\<lparr> is_ideas := upsert (is_ideas s) i \<rparr>, Inr i) | Inl e \<Rightarrow> (s, Inl e))"

text \<open>\<open>settle\<close>: also the project whose board is loaded anew, if any.\<close>

definition settle_done :: "settlement \<Rightarrow> idea res \<Rightarrow> idea_store \<Rightarrow> idea_store \<times> idea res \<times> string option" where
  "settle_done kind r s =
     (case idea_answer r s of (s1, r1) \<Rightarrow>
        (s1, r1, case r of
                   Inr i \<Rightarrow> if kind = SetWorkItem \<and> truthy (ia_project_id i) then ia_project_id i else None
                 | Inl e \<Rightarrow> None))"

interpretation idea_shelf: keyed_shelf ia_id "\<lambda>i xs. upsert xs i" "\<lambda>i xs. True"
proof
  fix i :: idea and xs :: "idea list"
  show "set (upsert xs i) = insert i {x \<in> set xs. ia_id x \<noteq> ia_id i}"
    by (simp add: upsert_def)
  assume d: "distinct (map ia_id xs)"
  have "distinct (map ia_id (i # drop_key ia_id (ia_id i) xs))"
    using distinct_drop_key [OF d] by auto
  then show "distinct (map ia_id (upsert xs i))"
    by (simp add: upsert_def distinct_map_sort_desc)
qed

subsection \<open>Experts, projects, knowledge bases\<close>

record expert =
  ex_id :: string
  ex_name :: string
  ex_subtitle :: string
  ex_persona :: string
  ex_tags :: "string list"

record expert_store =
  es_experts :: "expert list"
  es_loaded :: bool

definition expert_load_done :: "expert list res \<Rightarrow> expert_store \<Rightarrow> expert_store" where
  "expert_load_done r s =
     (case r of Inr xs \<Rightarrow> s\<lparr> es_experts := xs, es_loaded := True \<rparr> | Inl e \<Rightarrow> s)"

definition expert_create_done :: "expert res \<Rightarrow> expert_store \<Rightarrow> expert_store \<times> expert res" where
  "expert_create_done r s =
     (case r of Inr x \<Rightarrow> (s\<lparr> es_experts := prepend x (es_experts s) \<rparr>, Inr x) | Inl e \<Rightarrow> (s, Inl e))"

definition expert_remove_done :: "string \<Rightarrow> unit res \<Rightarrow> expert_store \<Rightarrow> expert_store \<times> unit res" where
  "expert_remove_done i r s =
     (case r of
        Inr _ \<Rightarrow> (s\<lparr> es_experts := drop_key ex_id i (es_experts s) \<rparr>, Inr ()) | Inl e \<Rightarrow> (s, Inl e))"

interpretation expert_shelf: keyed_shelf ex_id prepend "\<lambda>i xs. ex_id i \<notin> ex_id ` set xs"
  by unfold_locales (simp_all add: set_prepend_fresh distinct_prepend_fresh)

record project =
  pr_id :: string
  pr_name :: string
  pr_instruction :: string
  pr_connectors :: "string list"
  pr_experts :: "string list"
  pr_skills :: "string list"
  pr_knowledge_ids :: "string list"
  pr_role :: "string option"

record project_store =
  ps_projects :: "project list"
  ps_active :: "project option"
  ps_loading :: bool
  ps_error :: "string option"
  ps_updated_at :: "int option"

definition msg_projects_failed :: string where
  "msg_projects_failed = ''Server projects could not be read''"

definition project_load_begin :: "project_store \<Rightarrow> project_store" where
  "project_load_begin s = s\<lparr> ps_loading := True, ps_error := None \<rparr>"

definition project_load_done :: "project list res \<Rightarrow> int \<Rightarrow> project_store \<Rightarrow> project_store" where
  "project_load_done r now s =
     (case r of
        Inr xs \<Rightarrow> s\<lparr> ps_projects := xs, ps_loading := False, ps_error := None, ps_updated_at := Some now \<rparr>
      | Inl e \<Rightarrow> s\<lparr> ps_loading := False, ps_error := Some msg_projects_failed \<rparr>)"

definition project_create_done :: "project res \<Rightarrow> int \<Rightarrow> project_store \<Rightarrow> project_store \<times> project res" where
  "project_create_done r now s =
     (case r of
        Inr p \<Rightarrow> (s\<lparr> ps_projects := prepend p (ps_projects s), ps_error := None, ps_updated_at := Some now \<rparr>, Inr p)
      | Inl e \<Rightarrow> (s, Inl e))"

definition project_setActive :: "project option \<Rightarrow> project_store \<Rightarrow> project_store" where
  "project_setActive p s = s\<lparr> ps_active := p \<rparr>"

interpretation project_shelf: keyed_shelf pr_id prepend "\<lambda>i xs. pr_id i \<notin> pr_id ` set xs"
  by unfold_locales (simp_all add: set_prepend_fresh distinct_prepend_fresh)

record knowledge_base =
  kb_id :: string
  kb_name :: string
  kb_rest :: json

record knowledge_store =
  ks_kbs :: "knowledge_base list"
  ks_loaded :: bool

definition knowledge_load_done :: "knowledge_base list res \<Rightarrow> knowledge_store \<Rightarrow> knowledge_store" where
  "knowledge_load_done r s =
     (case r of Inr xs \<Rightarrow> s\<lparr> ks_kbs := xs, ks_loaded := True \<rparr> | Inl e \<Rightarrow> s\<lparr> ks_loaded := True \<rparr>)"

text \<open>\<open>create\<close> and \<open>remove\<close> load the list anew afterwards (the \<open>True\<close>).\<close>

definition knowledge_create_done :: "string res \<Rightarrow> string res \<times> bool" where
  "knowledge_create_done r = (case r of Inr i \<Rightarrow> (Inr i, True) | Inl e \<Rightarrow> (Inl e, False))"

definition knowledge_remove_done ::
  "string \<Rightarrow> unit res \<Rightarrow> knowledge_store \<Rightarrow> knowledge_store \<times> unit res \<times> bool" where
  "knowledge_remove_done i r s =
     (case r of
        Inr _ \<Rightarrow> (s\<lparr> ks_kbs := drop_key kb_id i (ks_kbs s) \<rparr>, Inr (), True)
      | Inl e \<Rightarrow> (s, Inl e, False))"

subsection \<open>Notifications\<close>

record notification =
  no_id :: string
  no_title :: string
  no_body :: string
  no_read :: int
  no_created_at :: int

record notif_store =
  nf_items :: "notification list"
  nf_unread :: int

definition notif_load_done :: "(notification list \<times> int) res \<Rightarrow> notif_store \<Rightarrow> notif_store" where
  "notif_load_done r s =
     (case r of Inr (xs, n) \<Rightarrow> s\<lparr> nf_items := xs, nf_unread := n \<rparr> | Inl e \<Rightarrow> s)"

text \<open>\<open>markAllRead\<close>: nothing to do, or the list marked at once and the request sent.\<close>

definition markAllRead_begin :: "notif_store \<Rightarrow> notif_store option" where
  "markAllRead_begin s =
     (if nf_unread s = 0 then None
      else Some (s\<lparr> nf_unread := 0, nf_items := map (\<lambda>n. n\<lparr> no_read := 1 \<rparr>) (nf_items s) \<rparr>))"

text \<open>On failure the list is loaded anew.\<close>

definition markAllRead_done :: "unit res \<Rightarrow> bool" where
  "markAllRead_done r = (case r of Inr _ \<Rightarrow> False | Inl e \<Rightarrow> True)"

subsection \<open>Properties\<close>

lemma sorted_upsert: "sorted_wrt (\<lambda>x y. ia_updated_at y \<le> ia_updated_at x) (upsert xs i)"
  by (simp add: upsert_def sorted_sort_desc)

text \<open>The state after the answers of a session of work: list read once, then edits.\<close>

definition idea_edits :: "idea list \<Rightarrow> idea_store \<Rightarrow> idea_store" where
  "idea_edits answers s = fold (\<lambda>i s. fst (idea_answer (Inr i) s)) answers s"

lemma idea_edits_ideas: "is_ideas (idea_edits answers s) = fold (\<lambda>i xs. upsert xs i) answers (is_ideas s)"
  unfolding idea_edits_def by (induction answers arbitrary: s) (simp_all add: idea_answer_def)

text \<open>
  The idea list is a current index: after any sequence of answered edits each idea is listed
  once, with the last version the Server answered (or the one first read), and the list is
  ordered by time of change, newest first.
\<close>

theorem idea_list_is_current:
  assumes "distinct (map ia_id (is_ideas s))" "answers \<noteq> []"
  shows "let xs = is_ideas (idea_edits answers s) in
     distinct (map ia_id xs) \<and> sorted_wrt (\<lambda>x y. ia_updated_at y \<le> ia_updated_at x) xs
     \<and> (\<forall>i. find_key ia_id i xs =
          (case map_of (rev (map (\<lambda>a. (ia_id a, a)) answers)) i of
             Some a \<Rightarrow> Some a | None \<Rightarrow> find_key ia_id i (is_ideas s)))"
proof -
  obtain init l where "answers = init @ [l]" using assms(2) by (metis rev_exhaust)
  then have "sorted_wrt (\<lambda>x y. ia_updated_at y \<le> ia_updated_at x) (is_ideas (idea_edits answers s))"
    by (simp add: idea_edits_ideas sorted_upsert)
  moreover note idea_shelf.shelf_puts [OF assms(1), of answers]
  ultimately show ?thesis
    by (auto simp: Let_def idea_edits_ideas idea_shelf.shelf_def fun_eq_iff map_add_def
        split: option.split)
qed

definition demo_idea :: "int \<Rightarrow> string \<Rightarrow> idea" where
  "demo_idea t title =
     \<lparr> ia_id = ''i'', ia_owner_id = [], ia_project_id = None, ia_title = title, ia_content = [],
       ia_processed_content = [], ia_status = IdInbox, ia_tags = [], ia_settled_type = None,
       ia_settled_id = [], ia_created_at = 0, ia_updated_at = t, ia_can_write = True \<rparr>"

theorem idea_list_is_current_witness:
  "find_key ia_id ''i'' (is_ideas (idea_edits [demo_idea 1 ''a'', demo_idea 2 ''b'']
     \<lparr> is_ideas = [], is_loaded = True, is_loading = False \<rparr>)) = Some (demo_idea 2 ''b'')"
  using idea_list_is_current [of "\<lparr> is_ideas = [], is_loaded = True, is_loading = False \<rparr>"
      "[demo_idea 1 ''a'', demo_idea 2 ''b'']"]
  by (simp add: Let_def demo_idea_def)

end
