(* ===== verification/Skills.thy ===== *)
theory Skills
  imports Optimistic Http
begin

text \<open>
  Skills on the device (\<open>src/src/stores/skillStore.ts\<close>) and the catalog of the shop windows
  (\<open>src/src/stores/catalogStore.ts\<close>).
\<close>

subsection \<open>Installed skills\<close>

record installed_skill =
  sk_key :: string
  sk_slug :: string
  sk_name :: string
  sk_description :: string
  sk_version :: string
  sk_source :: string
  sk_disabled :: bool
  sk_rest :: json

record builtin_skill =
  bs_slug :: string
  bs_name :: string
  bs_description :: string
  bs_tools :: "string list"

record skill_store =
  st_installed :: "installed_skill list"
  st_builtin :: "builtin_skill list"
  st_loaded :: bool
  st_loading :: bool
  st_cli :: bool
  st_installing :: "string list"

definition initial_skills :: skill_store where
  "initial_skills =
     \<lparr> st_installed = [], st_builtin = [], st_loaded = False, st_loading = False, st_cli = True,
       st_installing = [] \<rparr>"

definition matchSkill :: "installed_skill list \<Rightarrow> string \<Rightarrow> installed_skill option" where
  "matchSkill installed name =
     List.find (\<lambda>s. sk_name s = name \<or> sk_slug s = name \<or> sk_key s = name) installed"

definition skill_load_begin :: "bool \<Rightarrow> skill_store \<Rightarrow> skill_store option" where
  "skill_load_begin force s =
     (if st_loading s \<or> st_loaded s \<and> \<not> force then None else Some (s\<lparr> st_loading := True \<rparr>))"

text \<open>
  The disk scan and then the builtin list: \<open>builtin\<close> is what its request gave, \<open>None\<close> for a
  failure or an answer that is not a success, \<open>Some None\<close> for one without a list.
\<close>

definition skill_load_done ::
  "(installed_skill list \<times> bool) res \<Rightarrow> builtin_skill list option option \<Rightarrow> skill_store \<Rightarrow> skill_store" where
  "skill_load_done r builtin s =
     (case r of
        Inr (skills, cli) \<Rightarrow>
          (let s1 = s\<lparr> st_installed := skills, st_cli := cli, st_loaded := True, st_loading := False \<rparr>
           in case builtin of None \<Rightarrow> s1 | Some bs \<Rightarrow> s1\<lparr> st_builtin := nullish bs [] \<rparr>)
      | Inl e \<Rightarrow> s\<lparr> st_loading := False \<rparr>)"

text \<open>\<open>install\<close>, \<open>installCatalog\<close>, \<open>upgradeCatalog\<close>: refused while the same one is under way.\<close>

definition install_begin :: "string \<Rightarrow> skill_store \<Rightarrow> skill_store option" where
  "install_begin name s =
     (if name \<in> set (st_installing s) then None
      else Some (s\<lparr> st_installing := st_installing s @ [name] \<rparr>))"

definition install_end :: "string \<Rightarrow> skill_store \<Rightarrow> skill_store" where
  "install_end name s = s\<lparr> st_installing := filter (\<lambda>n. n \<noteq> name) (st_installing s) \<rparr>"

datatype install_outcome =
    Installed installed_skill string
  | InstallRefused exn
  | InstallFailed string

text \<open>
  The answer to \<open>install\<close>: a security refusal is thrown to the caller, any other error is
  shown; \<open>is_security\<close> tells a \<open>SkillSecurityError\<close>.
\<close>

definition msg_installed :: "string \<Rightarrow> string" where
  "msg_installed name = ''installed: '' @ name"

definition install_done ::
  "(exn \<Rightarrow> bool) \<Rightarrow> string \<Rightarrow> installed_skill res \<Rightarrow> install_outcome" where
  "install_done is_security name r =
     (case r of
        Inr sk \<Rightarrow> Installed sk (msg_installed (or_str (sk_name sk) name))
      | Inl e \<Rightarrow> if is_security e then InstallRefused e else InstallFailed (exn_message e))"

definition msg_upgraded :: "string \<Rightarrow> string" where
  "msg_upgraded name = ''upgraded: '' @ name"

text \<open>The toast of \<open>installCatalog\<close> and \<open>upgradeCatalog\<close>, and whether the list is read anew.\<close>

definition installCatalog_done :: "string \<Rightarrow> unit res \<Rightarrow> string \<times> bool" where
  "installCatalog_done name r =
     (case r of Inr _ \<Rightarrow> (msg_installed name, True) | Inl e \<Rightarrow> (exn_message e, False))"

definition upgradeCatalog_done :: "string \<Rightarrow> unit res \<Rightarrow> string \<times> bool" where
  "upgradeCatalog_done name r =
     (case r of Inr _ \<Rightarrow> (msg_upgraded name, True) | Inl e \<Rightarrow> (exn_message e, False))"

definition uninstall_done :: "unit res \<Rightarrow> string \<times> bool" where
  "uninstall_done r =
     (case r of Inr _ \<Rightarrow> (''uninstalled'', True) | Inl e \<Rightarrow> (''uninstall failed'', False))"

abbreviation set_disabled :: "string \<Rightarrow> bool \<Rightarrow> installed_skill list \<Rightarrow> installed_skill list" where
  "set_disabled k d xs \<equiv> edit_field sk_key (\<lambda>d x. x\<lparr> sk_disabled := d \<rparr>) k d xs"

definition toggle_begin :: "string \<Rightarrow> bool \<Rightarrow> skill_store \<Rightarrow> skill_store" where
  "toggle_begin k disabled s = s\<lparr> st_installed := set_disabled k disabled (st_installed s) \<rparr>"

text \<open>On success the list is read anew; on failure the opposite value is written.\<close>

definition toggle_done :: "string \<Rightarrow> bool \<Rightarrow> unit res \<Rightarrow> skill_store \<Rightarrow> skill_store \<times> string \<times> bool" where
  "toggle_done k disabled r s =
     (case r of
        Inr _ \<Rightarrow> (s, if disabled then ''disabled'' else ''enabled'', True)
      | Inl e \<Rightarrow> (s\<lparr> st_installed := set_disabled k (\<not> disabled) (st_installed s) \<rparr>, ''operation failed'', False))"

definition find_builtin :: "string \<Rightarrow> skill_store \<Rightarrow> builtin_skill option" where
  "find_builtin k s = List.find (\<lambda>b. bs_slug b = k \<or> bs_name b = k) (st_builtin s)"

definition skillDisplayName :: "string \<Rightarrow> skill_store \<Rightarrow> string" where
  "skillDisplayName k s =
     (case find_builtin k s of
        Some b \<Rightarrow> bs_name b
      | None \<Rightarrow> (case matchSkill (st_installed s) k of Some x \<Rightarrow> sk_name x | None \<Rightarrow> k))"

definition skillStableKey :: "string \<Rightarrow> skill_store \<Rightarrow> string" where
  "skillStableKey k s =
     (case find_builtin k s of
        Some b \<Rightarrow> bs_slug b
      | None \<Rightarrow> (case matchSkill (st_installed s) k of
                   Some x \<Rightarrow> or_str (sk_slug x) (or_str (sk_key x) k) | None \<Rightarrow> k))"

interpretation skill_disabled: editable_field sk_key sk_disabled "\<lambda>d x. x\<lparr> sk_disabled := d \<rparr>"
  by unfold_locales simp_all

subsection \<open>The catalog\<close>

text \<open>
  The windows the Server may fill, with their built-in values; the answer is an object whose
  missing entries keep the built-in ones. Two of the entries are read as sets.
\<close>

datatype window_value = WinValue json | WinSet "string list"

definition SET_KEYS :: "string list" where
  "SET_KEYS = [''READY_CONNECTORS'', ''NEEDS_TOKEN_CONNECTORS'']"

record skill_card =
  sc_slug :: string
  sc_name :: string
  sc_category :: "string option"
  sc_rest :: json

record skill_cat =
  ct_key :: string
  ct_name :: string
  ct_count :: nat

record catalog =
  ca_windows :: "(string \<times> window_value) list"
  ca_loaded :: bool
  ca_marketplace :: "skill_card list"
  ca_cats :: "skill_cat list"

definition window_of :: "json \<Rightarrow> string \<times> window_value \<Rightarrow> string \<times> window_value" where
  "window_of raw kv =
     (case kv of (k, old) \<Rightarrow>
        (k, case jget k raw of
              JUndef \<Rightarrow> old
            | v \<Rightarrow> if k \<in> set SET_KEYS then WinSet (uniq (map jstr_d (jarr_d v))) else WinValue v))"

definition catalog_load_done :: "json res \<Rightarrow> catalog \<Rightarrow> catalog" where
  "catalog_load_done r c =
     (case r of
        Inr raw \<Rightarrow> c\<lparr> ca_windows := map (window_of raw) (ca_windows c), ca_loaded := True \<rparr>
      | Inl e \<Rightarrow> c\<lparr> ca_loaded := True \<rparr>)"

text \<open>The periodic refresh: its two variables, its guard, and its end.\<close>

record refresh_state =
  rf_refreshing :: bool
  rf_last :: int

definition refresh_interval :: int where
  "refresh_interval = 5 * 60 * 1000"

definition refresh_begin :: "bool \<Rightarrow> int \<Rightarrow> string option \<Rightarrow> refresh_state \<Rightarrow> refresh_state option" where
  "refresh_begin force now token s =
     (if rf_refreshing s \<or> \<not> force \<and> now - rf_last s < refresh_interval then None
      else if \<not> truthy token then None
      else Some (s\<lparr> rf_refreshing := True \<rparr>))"

definition refresh_loaded :: "int \<Rightarrow> refresh_state \<Rightarrow> refresh_state" where
  "refresh_loaded now s = s\<lparr> rf_last := now \<rparr>"

definition refresh_end :: "refresh_state \<Rightarrow> refresh_state" where
  "refresh_end s = s\<lparr> rf_refreshing := False \<rparr>"

text \<open>
  \<open>loadSkillMarketplace\<close>: the counts per category, in the order the categories first appear,
  then sorted by count. (Category names that are array indices, which JavaScript lists first,
  do not occur.)
\<close>

definition bump :: "string \<Rightarrow> (string \<times> nat) list \<Rightarrow> (string \<times> nat) list" where
  "bump k acc =
     (case map_of acc k of
        None \<Rightarrow> acc @ [(k, 1)]
      | Some n \<Rightarrow> map (\<lambda>(j, m). if j = k then (j, m + 1) else (j, m)) acc)"

definition count_cats :: "skill_card list \<Rightarrow> (string \<times> nat) list" where
  "count_cats cards = fold (\<lambda>c. bump (opt_str (sc_category c))) cards []"

definition marketplace_cats :: "skill_card list \<Rightarrow> skill_cat list" where
  "marketplace_cats cards =
     sort_desc (\<lambda>c. int (ct_count c))
       (map (\<lambda>(k, n). \<lparr> ct_key = k, ct_name = k, ct_count = n \<rparr>) (count_cats cards))"

definition loadSkillMarketplace :: "skill_card list res \<Rightarrow> catalog \<Rightarrow> catalog" where
  "loadSkillMarketplace r c =
     (case r of
        Inl e \<Rightarrow> c
      | Inr cards \<Rightarrow>
          if cards = [] then c
          else c\<lparr> ca_marketplace := cards, ca_cats := marketplace_cats cards \<rparr>)"

subsection \<open>Properties\<close>

text \<open>
  A switch that fails flips back: when a skill that is on (off) is switched off (on) and the
  request fails, the list is exactly as before.
\<close>

theorem failed_toggle_flips_back:
  assumes "distinct (map sk_key (st_installed s))" "find_key sk_key k (st_installed s) = Some x"
    and "sk_disabled x \<noteq> disabled"
  shows "fst (toggle_done k disabled (Inl e) (toggle_begin k disabled s)) = s"
proof -
  have "sk_disabled x = (\<not> disabled)" using assms(3) by auto
  with skill_disabled.roll_back [OF assms(1,2), of disabled] show ?thesis
    by (simp add: toggle_done_def toggle_begin_def)
qed

definition demo_skill :: installed_skill where
  "demo_skill = \<lparr> sk_key = ''k'', sk_slug = [], sk_name = ''n'', sk_description = [], sk_version = [],
     sk_source = [], sk_disabled = False, sk_rest = JNull \<rparr>"

theorem failed_toggle_flips_back_witness:
  "fst (toggle_done ''k'' True (Inl (Err [])) (toggle_begin ''k'' True (initial_skills\<lparr> st_installed := [demo_skill] \<rparr>)))
     = initial_skills\<lparr> st_installed := [demo_skill] \<rparr>"
  by (rule failed_toggle_flips_back [of _ _ demo_skill]) (simp_all add: demo_skill_def find_key_def)

lemma map_of_bumped:
  "map_of (map (\<lambda>(j, m). if j = k then (j, m + 1) else (j, m :: nat)) acc) i
     = map_option (\<lambda>m. if i = k then m + 1 else m) (map_of acc i)"
  by (induction acc) auto

lemma map_of_bump:
  "map_of (bump k acc) i =
     (if i = k then Some (nullish (map_of acc k) 0 + 1) else map_of acc i)"
  by (cases "map_of acc k")
     (auto simp: bump_def map_of_bumped map_add_def option.map_ident split: option.split)

lemma fst_bump: "map fst (bump k acc) = (if map_of acc k = None then map fst acc @ [k] else map fst acc)"
proof -
  have "map fst (map (\<lambda>(j, m). if j = k then (j, m + 1) else (j, m :: nat)) acc) = map fst acc"
    by (induction acc) auto
  then show ?thesis by (simp add: bump_def split: option.split)
qed

lemma distinct_bump: "distinct (map fst acc) \<Longrightarrow> distinct (map fst (bump k acc))"
  by (simp add: fst_bump map_of_eq_None_iff)

lemma count_cats_distinct: "distinct (map fst (count_cats cards))"
proof -
  have "distinct (map fst acc) \<Longrightarrow> distinct (map fst (fold (\<lambda>c. bump (f c)) cs acc))"
    for acc :: "(string \<times> nat) list" and f and cs :: "skill_card list"
    by (induction cs arbitrary: acc) (simp_all add: distinct_bump)
  then show ?thesis by (simp add: count_cats_def)
qed

lemma count_cats_count:
  "map_of (count_cats cards) k =
     (let n = length (filter (\<lambda>c. opt_str (sc_category c) = k) cards) in if n = 0 then None else Some n)"
proof -
  have "map_of (fold (\<lambda>c. bump (f c)) cs acc) k =
      (let n = length (filter (\<lambda>c. f c = k) cs) in
        if n = 0 then map_of acc k else Some (nullish (map_of acc k) 0 + n))"
    for acc :: "(string \<times> nat) list" and f and cs :: "skill_card list"
    by (induction cs arbitrary: acc) (auto simp: map_of_bump Let_def)
  from this [of "\<lambda>c. opt_str (sc_category c)" cards "[]"] show ?thesis by (simp add: count_cats_def)
qed

text \<open>
  The marketplace's categories are a true index: each category of a card is listed once, with
  exactly the number of its cards, larger ones first, and no other category is listed.
\<close>

theorem marketplace_counts_are_exact:
  "distinct (map ct_key (marketplace_cats cards))
   \<and> sorted_wrt (\<lambda>a b. ct_count b \<le> ct_count a) (marketplace_cats cards)
   \<and> (c \<in> set (marketplace_cats cards) \<longleftrightarrow>
        ct_name c = ct_key c \<and> ct_count c = length (filter (\<lambda>x. opt_str (sc_category x) = ct_key c) cards)
        \<and> 0 < ct_count c)"
proof -
  let ?mk = "\<lambda>(k, n). \<lparr> ct_key = k, ct_name = k, ct_count = n \<rparr>"
  have d: "distinct (map ct_key (map ?mk (count_cats cards)))"
    using count_cats_distinct [of cards] by (simp add: comp_def case_prod_unfold)
  have "c \<in> set (map ?mk (count_cats cards)) \<longleftrightarrow>
      ct_name c = ct_key c \<and> map_of (count_cats cards) (ct_key c) = Some (ct_count c)"
    using count_cats_distinct [of cards]
    by (cases c) (auto simp: image_iff map_of_eq_Some_iff Bex_def)
  moreover have "sorted_wrt (\<lambda>a b. ct_count b \<le> ct_count a) (marketplace_cats cards)"
    using sorted_sort_desc [of "\<lambda>c. int (ct_count c)"] by (simp add: marketplace_cats_def)
  ultimately show ?thesis
    using d by (auto simp: marketplace_cats_def distinct_map_sort_desc count_cats_count Let_def)
qed

end
