(* ===== verification/Account.thy ===== *)
theory Account
  imports Channels
begin

text \<open>
  The account (\<open>src/src/stores/authStore.ts\<close>) and the connection to a Server
  (\<open>src/src/stores/serverStore.ts\<close>): the token in the browser's storage, the binding of the
  Local Agent to the same identity, sign-in by password and by a polled single sign-on, and
  the status shown. A reload of the page is an effect.
\<close>

subsection \<open>State\<close>

record me =
  me_id :: string
  me_name :: string
  me_authenticated :: bool
  me_role :: string

record account =
  ac_me :: "me option"
  ac_logged_in :: bool
  ac_token :: "string option"

definition initial_account :: "string option \<Rightarrow> account" where
  "initial_account token = \<lparr> ac_me = None, ac_logged_in = truthy token, ac_token = token \<rparr>"

datatype account_effect = AeReload | AeBind string string | AeUnbind string | AeLogout | AePopupClosed

text \<open>A status that means the token is not accepted.\<close>

definition rejected_token :: "exn \<Rightarrow> bool" where
  "rejected_token e = (exn_status e = Some 401 \<or> exn_status e = Some 403)"

subsection \<open>The account store\<close>

definition msg_bind_refused :: string where
  "msg_bind_refused = ''Local Agent refused to bind the Server identity''"

text \<open>\<open>bindLocalAgent\<close>: over IPC on the desktop, by an authenticated local request otherwise.\<close>

definition bindLocalAgent :: "bool \<Rightarrow> bool res \<Rightarrow> http_response res \<Rightarrow> unit res" where
  "bindLocalAgent isDesktop ipc response =
     (if isDesktop then
        bind_res ipc (\<lambda>bound. if bound then Inr () else Inl (Err msg_bind_refused))
      else
        bind_res response
          (\<lambda>r. if hr_ok r then Inr ()
               else Inl (Err (''Local Agent identity bind failed ('' @ dec_int (hr_status r) @ '')''))))"

text \<open>\<open>load\<close>; \<open>bind\<close> is the outcome of the binding, whose failure the \<open>catch\<close> takes as well.\<close>

definition account_load ::
  "me res \<Rightarrow> (string \<Rightarrow> string \<Rightarrow> unit res) \<Rightarrow> account \<Rightarrow> account \<times> account_effect list" where
  "account_load r bind a =
     (case r of
        Inr m \<Rightarrow>
          (let a1 = a\<lparr> ac_me := Some m, ac_logged_in := me_authenticated m,
                       ac_token := (if me_authenticated m then ac_token a else None) \<rparr>
           in if me_authenticated m \<and> truthy (ac_token a1)
              then (case bind (me_id m) (opt_str (ac_token a1)) of
                      Inr _ \<Rightarrow> (a1, [AeBind (me_id m) (opt_str (ac_token a1))])
                    | Inl e \<Rightarrow> (if rejected_token e
                                then a1\<lparr> ac_me := None, ac_logged_in := False, ac_token := None \<rparr> else a1, []))
              else (a1, []))
      | Inl e \<Rightarrow>
          (if rejected_token e then a\<lparr> ac_me := None, ac_logged_in := False, ac_token := None \<rparr> else a, []))"

record credentials =
  cr_token :: string
  cr_user_id :: string

text \<open>The common end of \<open>login\<close>, \<open>register\<close> and a completed single sign-on.\<close>

definition accept_token ::
  "credentials \<Rightarrow> (string \<Rightarrow> string \<Rightarrow> unit res) \<Rightarrow> account \<Rightarrow> account \<times> unit res \<times> account_effect list" where
  "accept_token c bind a =
     (case bind (cr_user_id c) (cr_token c) of
        Inr _ \<Rightarrow> (a\<lparr> ac_token := Some (cr_token c) \<rparr>, Inr (), [AeBind (cr_user_id c) (cr_token c), AeReload])
      | Inl e \<Rightarrow> (a\<lparr> ac_token := None \<rparr>, Inl e, []))"

definition login_done ::
  "credentials res \<Rightarrow> (string \<Rightarrow> string \<Rightarrow> unit res) \<Rightarrow> account \<Rightarrow> account \<times> unit res \<times> account_effect list" where
  "login_done r bind a = (case r of Inl e \<Rightarrow> (a, Inl e, []) | Inr c \<Rightarrow> accept_token c bind a)"

definition register_done ::
  "credentials res \<Rightarrow> (string \<Rightarrow> string \<Rightarrow> unit res) \<Rightarrow> account \<Rightarrow> account \<times> unit res \<times> account_effect list" where
  "register_done r bind a = (case r of Inl e \<Rightarrow> (a, Inl e, []) | Inr c \<Rightarrow> accept_token c bind a)"

datatype sso_poll = SsoPending | SsoError string | SsoCompleted credentials

definition sso_deadline :: "int \<Rightarrow> int \<Rightarrow> int" where
  "sso_deadline expires_at now = min (expires_at * 1000) (now + 10 * 60000)"

text \<open>
  The polling loop: before every turn the clock is read (\<open>fst\<close>), and if the deadline has not
  passed a poll is made (\<open>snd\<close>). An empty list is a loop still waiting for its next turn.
\<close>

datatype sso_outcome = SsoThrew exn | SsoSigned credentials | SsoWaiting

fun sso_loop :: "int \<Rightarrow> (int \<times> sso_poll res) list \<Rightarrow> sso_outcome" where
  "sso_loop deadline [] = SsoWaiting"
| "sso_loop deadline ((now, p) # ps) =
     (if deadline \<le> now then SsoThrew (Err ''sso_timeout'')
      else case p of
        Inl e \<Rightarrow> SsoThrew e
      | Inr SsoPending \<Rightarrow> sso_loop deadline ps
      | Inr (SsoError code) \<Rightarrow> SsoThrew (Err (or_str code ''sso_failed''))
      | Inr (SsoCompleted c) \<Rightarrow> SsoSigned c)"

definition ssoLogin ::
  "bool \<Rightarrow> (int \<times> int) res \<Rightarrow> (int \<times> sso_poll res) list \<Rightarrow> (string \<Rightarrow> string \<Rightarrow> unit res) \<Rightarrow> account
     \<Rightarrow> (account \<times> unit res \<times> account_effect list) option" where
  "ssoLogin popup start turns bind a =
     (if \<not> popup then Some (a, Inl (Err ''popup_blocked''), [])
      else case start of
        Inl e \<Rightarrow> Some (a, Inl e, [AePopupClosed])
      | Inr (expires_at, now) \<Rightarrow>
          (case sso_loop (sso_deadline expires_at now) turns of
             SsoWaiting \<Rightarrow> None
           | SsoThrew e \<Rightarrow> Some (a, Inl e, [AePopupClosed])
           | SsoSigned c \<Rightarrow>
               (case accept_token c bind a of (a1, r, effs) \<Rightarrow> Some (a1, r, effs @ [AePopupClosed]))))"

definition logout_done :: "bool \<Rightarrow> account \<Rightarrow> account \<times> account_effect list" where
  "logout_done isDesktop a =
     (a\<lparr> ac_token := None \<rparr>,
      (case ac_me a of
         Some m \<Rightarrow> if isDesktop \<and> me_id m \<noteq> [] then [AeUnbind (me_id m)] else [] | None \<Rightarrow> [])
      @ [AeLogout, AeReload])"

subsection \<open>The Server store\<close>

datatype auth_state = AuUnconfigured | AuDisconnected | AuOnline | AuOfflineGrace | AuOfflineExpired | AuRevoked

record server_store =
  sv_enabled :: bool
  sv_console_url :: string
  sv_linked :: "(string \<times> string) option"
  sv_auth_state :: auth_state
  sv_online_ttl :: int
  sv_grace_remaining :: int
  sv_checked :: bool

definition initial_server :: server_store where
  "initial_server =
     \<lparr> sv_enabled = False, sv_console_url = [], sv_linked = None, sv_auth_state = AuUnconfigured,
       sv_online_ttl = 30, sv_grace_remaining = 0, sv_checked = False \<rparr>"

text \<open>
  \<open>refreshStatus\<close>: the outcomes of the probe, the two address lookups and \<open>api.me\<close>, the token
  and the connection state the channel ends in.
\<close>

definition refreshStatus ::
  "unit res \<Rightarrow> string res \<Rightarrow> string res \<Rightarrow> me res \<Rightarrow> conn_kind \<Rightarrow> string option \<Rightarrow> server_store
     \<Rightarrow> server_store \<times> string option" where
  "refreshStatus probe api console meR conn token s =
     (let tried =
        bind_res probe (\<lambda>_. bind_res api (\<lambda>_. bind_res console (\<lambda>url.
          if truthy token then
            (case meR of
               Inr m \<Rightarrow> Inr (url, Some m, token)
             | Inl e \<Rightarrow> if rejected_token e then Inr (url, None, None) else Inl e)
          else Inr (url, None, token))))
      in case tried of
           Inr (url, m, token1) \<Rightarrow>
             (s\<lparr> sv_enabled := True, sv_console_url := url,
                 sv_linked := map_option (\<lambda>m. (me_id m, me_name m)) m,
                 sv_auth_state := (case m of Some _ \<Rightarrow> AuOnline | None \<Rightarrow> AuDisconnected),
                 sv_online_ttl := 30, sv_grace_remaining := 0, sv_checked := True \<rparr>, token1)
         | Inl e \<Rightarrow>
             (let linked = (if truthy token then sv_linked s else None);
                  configured = (case api of Inr _ \<Rightarrow> True | Inl _ \<Rightarrow> False);
                  url = (case api of Inr _ \<Rightarrow> (case console of Inr u \<Rightarrow> u | Inl _ \<Rightarrow> []) | Inl _ \<Rightarrow> [])
              in (s\<lparr> sv_checked := True, sv_enabled := configured, sv_console_url := url,
                     sv_auth_state := (if linked \<noteq> None \<and> conn = ConnCached then AuOfflineGrace
                                       else AuDisconnected) \<rparr>, token)))"

definition connect_done :: "credentials res \<Rightarrow> string option \<Rightarrow> string option \<times> unit res \<times> account_effect list" where
  "connect_done r token =
     (case r of Inr c \<Rightarrow> (Some (cr_token c), Inr (), [AeReload]) | Inl e \<Rightarrow> (token, Inl e, []))"

definition disconnect :: "server_store \<Rightarrow> server_store \<times> string option \<times> account_effect list" where
  "disconnect s =
     (s\<lparr> sv_linked := None, sv_auth_state := AuDisconnected, sv_grace_remaining := 0 \<rparr>, None,
      [AeLogout, AeReload])"

subsection \<open>Properties\<close>

text \<open>The operations of the account store, with what they meet.\<close>

datatype account_op =
    OpLoad "me res" "string \<Rightarrow> string \<Rightarrow> unit res"
  | OpLogin "credentials res" "string \<Rightarrow> string \<Rightarrow> unit res"
  | OpRegister "credentials res" "string \<Rightarrow> string \<Rightarrow> unit res"
  | OpSso bool "(int \<times> int) res" "(int \<times> sso_poll res) list" "string \<Rightarrow> string \<Rightarrow> unit res"
  | OpLogout bool

fun account_step :: "account_op \<Rightarrow> account \<Rightarrow> account" where
  "account_step (OpLoad r bind) a = fst (account_load r bind a)"
| "account_step (OpLogin r bind) a = fst (login_done r bind a)"
| "account_step (OpRegister r bind) a = fst (register_done r bind a)"
| "account_step (OpSso popup start turns bind) a =
     (case ssoLogin popup start turns bind a of None \<Rightarrow> a | Some (a1, r, effs) \<Rightarrow> a1)"
| "account_step (OpLogout d) a = fst (logout_done d a)"

text \<open>The token an operation may bring in: one whose identity the Local Agent has just bound.\<close>

fun bound_token :: "account_op \<Rightarrow> string \<Rightarrow> bool" where
  "bound_token (OpLogin r bind) t \<longleftrightarrow> (\<exists>c. r = Inr c \<and> cr_token c = t \<and> bind (cr_user_id c) t = Inr ())"
| "bound_token (OpRegister r bind) t \<longleftrightarrow> (\<exists>c. r = Inr c \<and> cr_token c = t \<and> bind (cr_user_id c) t = Inr ())"
| "bound_token (OpSso popup start turns bind) t \<longleftrightarrow>
     (\<exists>c now. (now, Inr (SsoCompleted c)) \<in> set turns \<and> cr_token c = t \<and> bind (cr_user_id c) t = Inr ())"
| "bound_token _ t \<longleftrightarrow> False"

lemma accept_token_bound:
  "ac_token (fst (accept_token c bind a)) = Some t \<Longrightarrow> cr_token c = t \<and> bind (cr_user_id c) t = Inr ()"
  by (auto simp: accept_token_def split: sum.splits)

lemma sso_loop_signed: "sso_loop d turns = SsoSigned c \<Longrightarrow> \<exists>now. (now, Inr (SsoCompleted c)) \<in> set turns"
  by (induction d turns rule: sso_loop.induct) (auto split: if_splits sum.splits sso_poll.splits)

lemma account_load_token: "ac_token (fst (account_load r bind a)) \<in> {ac_token a, None}"
  by (auto simp: account_load_def Let_def split: sum.split)

lemma account_step_token:
  assumes "ac_token (account_step op a) = Some t"
  shows "ac_token a = Some t \<or> bound_token op t"
proof (cases op)
  case (OpLoad r bind)
  with assms account_load_token [of r bind a] show ?thesis by auto
next
  case (OpLogin r bind)
  with assms accept_token_bound show ?thesis by (cases r) (auto simp: login_done_def)
next
  case (OpRegister r bind)
  with assms accept_token_bound show ?thesis by (cases r) (auto simp: register_done_def)
next
  case (OpSso popup start turns bind)
  show ?thesis
  proof (cases "ssoLogin popup start turns bind a")
    case None
    with OpSso assms show ?thesis by simp
  next
    case (Some x)
    obtain a1 r effs where x: "x = (a1, r, effs)" by (cases x)
    with OpSso assms Some have t: "ac_token a1 = Some t" by simp
    show ?thesis
    proof (cases "a1 = a")
      case False
      with Some x obtain e n c where "popup" "start = Inr (e, n)" "sso_loop (sso_deadline e n) turns = SsoSigned c"
          "fst (accept_token c bind a) = a1"
        by (auto simp: ssoLogin_def split: if_splits sum.splits sso_outcome.splits prod.splits)
      with t accept_token_bound [of c bind a t] sso_loop_signed [of "sso_deadline e n" turns c] OpSso
      show ?thesis by auto
    qed (use t in simp)
  qed
qed (use assms in \<open>simp add: logout_done_def\<close>)

text \<open>
  No token without its agent: whatever sequence of sign-ins, reloads of the account and
  sign-outs runs, a token that is in the browser's storage at the end was there at the start or
  was issued by the Server to an identity the Local Agent accepted to bind.
\<close>

theorem token_has_bound_agent:
  assumes "ac_token (fold account_step ops a) = Some t"
  shows "ac_token a = Some t \<or> (\<exists>op\<in>set ops. bound_token op t)"
  using assms
proof (induction ops arbitrary: a)
  case (Cons op ops)
  from Cons.IH [of "account_step op a"] Cons.prems account_step_token [of op a t] show ?case by auto
qed simp

theorem token_has_bound_agent_witness:
  "\<exists>op\<in>set [OpLogin (Inr \<lparr> cr_token = ''t'', cr_user_id = ''u'' \<rparr>) (\<lambda>u t. Inr ())]. bound_token op ''t''"
proof -
  have "ac_token (fold account_step [OpLogin (Inr \<lparr> cr_token = ''t'', cr_user_id = ''u'' \<rparr>) (\<lambda>u t. Inr ())]
      (initial_account None)) = Some ''t''"
    by (simp add: login_done_def accept_token_def initial_account_def)
  from token_has_bound_agent [OF this] show ?thesis by (simp add: initial_account_def)
qed

lemma sso_loop_ends:
  "sso_loop deadline ps = SsoWaiting \<Longrightarrow> p \<in> set ps \<Longrightarrow> fst p < deadline"
  by (induction deadline ps rule: sso_loop.induct) (auto split: if_splits sum.splits sso_poll.splits)

text \<open>The loop looks at no turn from the deadline on.\<close>

lemma sso_loop_cut:
  "(\<exists>p\<in>set ps. deadline \<le> fst p) \<Longrightarrow>
   sso_loop deadline ps = sso_loop deadline (takeWhile (\<lambda>p. fst p < deadline) ps @ [(deadline, Inr SsoPending)])"
  by (induction deadline ps rule: sso_loop.induct) (auto split: sum.split sso_poll.split)

lemma sso_loop_pending:
  "snd ` set xs \<subseteq> {Inr SsoPending} \<Longrightarrow> deadline \<le> t \<Longrightarrow>
   sso_loop deadline (xs @ [(t, r)]) = SsoThrew (Err ''sso_timeout'')"
  by (induction xs) auto

text \<open>
  C26. Single sign-on waits no longer than the Server's attempt lives and ten minutes at most:
  once a turn of the loop finds the clock at or past the earlier of the two, the sign-in has an
  outcome, whatever the Server answers; the turns from there on, and what they would poll, do not
  matter; and if no answer before has settled it, the outcome is \<open>sso_timeout\<close>, with the account
  as it was and the window closed.
\<close>

theorem sso_always_ends:
  assumes "(t, r) \<in> set turns" "expires_at * 1000 \<le> t \<or> now + 600000 \<le> t"
    and "before = takeWhile (\<lambda>p. fst p < expires_at * 1000 \<and> fst p < now + 600000) turns"
  shows "ssoLogin popup (Inr (expires_at, now)) turns bind a \<noteq> None
     \<and> ssoLogin popup (Inr (expires_at, now)) turns bind a
         = ssoLogin popup (Inr (expires_at, now)) (before @ [(t, Inr SsoPending)]) bind a
     \<and> (popup \<and> snd ` set before \<subseteq> {Inr SsoPending} \<longrightarrow>
          ssoLogin popup (Inr (expires_at, now)) turns bind a = Some (a, Inl (Err ''sso_timeout''), [AePopupClosed]))"
proof -
  let ?d = "sso_deadline expires_at now"
  have late: "\<exists>p\<in>set turns. ?d \<le> fst p" using assms(1,2) by (auto simp: sso_deadline_def intro!: bexI [of _ "(t, r)"])
  have d: "?d \<le> t" using assms(2) by (auto simp: sso_deadline_def)
  have before: "before = takeWhile (\<lambda>p. fst p < ?d) turns" using assms(3) by (simp add: sso_deadline_def)
  have ends: "sso_loop ?d turns \<noteq> SsoWaiting" using late sso_loop_ends [of ?d turns] by fastforce
  have "sso_loop ?d (ps @ [(?d, Inr SsoPending)]) = sso_loop ?d (ps @ [(t, Inr SsoPending)])" for ps
    using d by (induction ps) (auto split: sum.split sso_poll.split)
  then have cut: "sso_loop ?d turns = sso_loop ?d (before @ [(t, Inr SsoPending)])"
    using sso_loop_cut [OF late] before by simp
  have pend: "sso_loop ?d turns = SsoThrew (Err ''sso_timeout'')" if "snd ` set before \<subseteq> {Inr SsoPending}"
    using sso_loop_pending [OF that d] cut by simp
  show ?thesis using ends cut pend by (auto simp: ssoLogin_def split: sso_outcome.split prod.split)
qed

text \<open>An attempt that expires ten seconds after it was made.\<close>

theorem sso_always_ends_witness:
  "ssoLogin True (Inr (20, 10000)) [(11000, Inr SsoPending), (19999, Inr SsoPending), (20000, Inr SsoPending)]
     (\<lambda>u t. Inr ()) (initial_account None)
   = Some (initial_account None, Inl (Err ''sso_timeout''), [AePopupClosed])"
  using sso_always_ends [of 20000 "Inr SsoPending"
      "[(11000, Inr SsoPending), (19999, Inr SsoPending), (20000, Inr SsoPending)]" 20 10000, OF _ _ refl, of True]
  by simp

end
