(* ===== verification/ProjectData.thy ===== *)
theory ProjectData
  imports WorkItems "HOL-Library.List_Lexorder" "HOL-Library.Char_ord"
begin

text \<open>
  The data of the console's project workspace (\<open>src/console/src/types.ts\<close>): tasks as the
  console reads them (dates are strings, empty when unset), members, milestones, sprints,
  custom fields, preferences, and the order in which sprints are listed
  (\<open>orderSprints\<close> of \<open>src/console/src/components/project/ProjectWorkspace.tsx\<close>).
  Strings are compared byte by byte, which on ISO dates is JavaScript's order.
\<close>

subsection \<open>Projects and people\<close>

datatype project_role = RoOwner | RoAdmin | RoMember | RoViewer

record console_project =
  cp_id :: string
  cp_name :: string
  cp_role :: project_role
  cp_archived_at :: int

definition canWrite :: "console_project \<Rightarrow> bool" where
  "canWrite p \<longleftrightarrow> cp_role p \<noteq> RoViewer \<and> cp_archived_at p = 0"

record member =
  me_account_id :: string
  me_member_name :: string
  me_member_role :: project_role

subsection \<open>Tasks\<close>

record task =
  tk_id :: string
  tk_title :: string
  tk_description :: string
  tk_status :: work_status
  tk_priority :: work_priority
  tk_source :: string
  tk_assignee :: string
  tk_assignee_name :: "string option"
  tk_due_date :: string
  tk_start_date :: string
  tk_labels :: "string list"
  tk_parent_id :: string
  tk_milestone_id :: string
  tk_estimate_h :: rat
  tk_spent_h :: rat
  tk_custom_fields :: "(string \<times> json) list"
  tk_dependency_ids :: "string list"
  tk_sprint_id :: string
  tk_critical_path :: "bool option"
  tk_version :: int

definition blank_task :: "string \<Rightarrow> string \<Rightarrow> task" where
  "blank_task i parent =
     \<lparr> tk_id = i, tk_title = [], tk_description = [], tk_status = WTodo, tk_priority = PrNone,
       tk_source = ''console'', tk_assignee = [], tk_assignee_name = None, tk_due_date = [],
       tk_start_date = [], tk_labels = [], tk_parent_id = parent, tk_milestone_id = [],
       tk_estimate_h = 0, tk_spent_h = 0, tk_custom_fields = [], tk_dependency_ids = [],
       tk_sprint_id = [], tk_critical_path = None, tk_version = 0 \<rparr>"

lemma blank_task_simps [simp]:
  "tk_id (blank_task i p) = i" "tk_parent_id (blank_task i p) = p"
  by (simp_all add: blank_task_def)

text \<open>A \<open>Partial<WorkItem>\<close>: \<open>None\<close> is a property that is not there.\<close>

record task_patch =
  tp_title :: "string option"
  tp_description :: "string option"
  tp_status :: "work_status option"
  tp_priority :: "work_priority option"
  tp_source :: "string option"
  tp_assignee :: "string option"
  tp_due_date :: "string option"
  tp_start_date :: "string option"
  tp_labels :: "string list option"
  tp_parent_id :: "string option"
  tp_milestone_id :: "string option"
  tp_estimate_h :: "rat option"
  tp_spent_h :: "rat option"
  tp_custom_fields :: "(string \<times> json) list option"
  tp_dependency_ids :: "string list option"
  tp_sprint_id :: "string option"

definition empty_patch :: task_patch where
  "empty_patch =
     \<lparr> tp_title = None, tp_description = None, tp_status = None, tp_priority = None,
       tp_source = None, tp_assignee = None, tp_due_date = None, tp_start_date = None,
       tp_labels = None, tp_parent_id = None, tp_milestone_id = None, tp_estimate_h = None,
       tp_spent_h = None, tp_custom_fields = None, tp_dependency_ids = None, tp_sprint_id = None \<rparr>"

text \<open>\<open>{ ...item, ...patch }\<close>.\<close>

definition patched :: "task_patch \<Rightarrow> task \<Rightarrow> task" where
  "patched p t = t\<lparr>
     tk_title := nullish (tp_title p) (tk_title t),
     tk_description := nullish (tp_description p) (tk_description t),
     tk_status := nullish (tp_status p) (tk_status t),
     tk_priority := nullish (tp_priority p) (tk_priority t),
     tk_source := nullish (tp_source p) (tk_source t),
     tk_assignee := nullish (tp_assignee p) (tk_assignee t),
     tk_due_date := nullish (tp_due_date p) (tk_due_date t),
     tk_start_date := nullish (tp_start_date p) (tk_start_date t),
     tk_labels := nullish (tp_labels p) (tk_labels t),
     tk_parent_id := nullish (tp_parent_id p) (tk_parent_id t),
     tk_milestone_id := nullish (tp_milestone_id p) (tk_milestone_id t),
     tk_estimate_h := nullish (tp_estimate_h p) (tk_estimate_h t),
     tk_spent_h := nullish (tp_spent_h p) (tk_spent_h t),
     tk_custom_fields := nullish (tp_custom_fields p) (tk_custom_fields t),
     tk_dependency_ids := nullish (tp_dependency_ids p) (tk_dependency_ids t),
     tk_sprint_id := nullish (tp_sprint_id p) (tk_sprint_id t) \<rparr>"

lemma patched_id [simp]: "tk_id (patched p t) = tk_id t"
  by (simp add: patched_def)

lemma patched_empty [simp]: "patched empty_patch t = t"
  by (simp add: patched_def empty_patch_def)

lemma patched_twice: "patched p (patched p t) = patched p t"
  by (simp add: patched_def nullish_def split: option.splits)

subsection \<open>Plan objects\<close>

record plan_milestone =
  pm_id :: string
  pm_name :: string
  pm_status :: string
  pm_description :: string
  pm_due_date :: "string option"

datatype sprint_status = SpActive | SpPlanned | SpClosed

record sprint =
  sp_id :: string
  sp_milestone_id :: string
  sp_name :: string
  sp_goal :: string
  sp_start_date :: string
  sp_end_date :: string
  sp_status :: sprint_status

datatype field_type = FtText | FtNumber | FtDate | FtSelect | FtBoolean

record custom_field =
  cf_id :: string
  cf_name :: string
  cf_type :: field_type
  cf_options :: "string list"
  cf_required :: bool

record task_template =
  tt_id :: string
  tt_name :: string
  tt_values :: task_patch

record saved_view =
  vw_id :: string
  vw_name :: string
  vw_group :: "string option"
  vw_assignee :: "string option"
  vw_source :: "string option"
  vw_search :: "string option"

subsection \<open>The order of sprints\<close>

text \<open>
  \<open>SPRINT_STATUS_META[\<dots>].order\<close>: the active sprint first, then the planned ones, then the
  closed ones. The order makes the statuses a linear order of the library.
\<close>

fun status_order :: "sprint_status \<Rightarrow> nat" where
  "status_order SpActive = 0"
| "status_order SpPlanned = 1"
| "status_order SpClosed = 2"

lemma status_order_inj [simp]: "status_order a = status_order b \<longleftrightarrow> a = b"
  by (cases a; cases b) auto

instantiation sprint_status :: linorder
begin

definition less_eq_sprint_status :: "sprint_status \<Rightarrow> sprint_status \<Rightarrow> bool" where
  "less_eq_sprint_status a b \<longleftrightarrow> status_order a \<le> status_order b"

definition less_sprint_status :: "sprint_status \<Rightarrow> sprint_status \<Rightarrow> bool" where
  "less_sprint_status a b \<longleftrightarrow> status_order a < status_order b"

instance
  by standard (auto simp: less_eq_sprint_status_def less_sprint_status_def
      intro: antisym simp flip: status_order_inj)

end

text \<open>
  The comparison function says \<open>left\<close> may stand before \<open>right\<close>: by status, closed sprints
  with the latest end first, the others with the earliest start first.
\<close>

definition sprint_before :: "sprint \<Rightarrow> sprint \<Rightarrow> bool" where
  "sprint_before l r =
     (if sp_status l \<noteq> sp_status r then sp_status l < sp_status r
      else if sp_status l = SpClosed then sp_end_date r \<le> sp_end_date l
      else sp_start_date l \<le> sp_start_date r)"

text \<open>\<open>[...sprints].sort(\<dots>)\<close>: a stable insertion sort by that comparison.\<close>

fun insert_sprint :: "sprint \<Rightarrow> sprint list \<Rightarrow> sprint list" where
  "insert_sprint x [] = [x]"
| "insert_sprint x (y # ys) = (if sprint_before x y then x # y # ys else y # insert_sprint x ys)"

definition orderSprints :: "sprint list \<Rightarrow> sprint list" where
  "orderSprints ss = foldr insert_sprint ss []"

lemma sprint_before_total: "sprint_before a b \<or> sprint_before b a"
  by (auto simp: sprint_before_def)

lemma sprint_before_trans: "sprint_before a b \<Longrightarrow> sprint_before b c \<Longrightarrow> sprint_before a c"
  by (auto simp: sprint_before_def split: if_splits)

lemma mset_insert_sprint [simp]: "mset (insert_sprint x ys) = add_mset x (mset ys)"
  by (induction ys) auto

lemma set_insert_sprint [simp]: "set (insert_sprint x ys) = insert x (set ys)"
  using mset_insert_sprint [of x ys] by (metis set_mset_add_mset_insert set_mset_mset)

lemma sorted_insert_sprint:
  "sorted_wrt sprint_before ys \<Longrightarrow> sorted_wrt sprint_before (insert_sprint x ys)"
proof (induction ys)
  case (Cons y ys)
  then show ?case using sprint_before_total [of x y] by (auto intro: sprint_before_trans)
qed simp

lemma mset_orderSprints [simp]: "mset (orderSprints ss) = mset ss"
  by (induction ss) (simp_all add: orderSprints_def)

lemma set_orderSprints [simp]: "set (orderSprints ss) = set ss"
  by (metis mset_orderSprints set_mset_mset)

lemma sorted_orderSprints: "sorted_wrt sprint_before (orderSprints ss)"
  by (induction ss) (simp_all add: orderSprints_def sorted_insert_sprint)

text \<open>
  The planned sprint suggested for the next start (\<open>suggestedSprint\<close>), and the current one.
\<close>

definition suggested_sprint :: "sprint list \<Rightarrow> sprint option" where
  "suggested_sprint ss = List.find (\<lambda>s. sp_status s = SpPlanned) (orderSprints ss)"

definition active_sprint :: "sprint list \<Rightarrow> sprint option" where
  "active_sprint ss = List.find (\<lambda>s. sp_status s = SpActive) ss"

lemma suggested_is_earliest:
  assumes "suggested_sprint ss = Some s" "t \<in> set ss" "sp_status t = SpPlanned"
  shows "sp_start_date s \<le> sp_start_date t"
proof -
  obtain a b where ab: "orderSprints ss = a @ s # b" "sp_status s = SpPlanned" "\<forall>y\<in>set a. sp_status y \<noteq> SpPlanned"
    using assms(1) by (auto simp: suggested_sprint_def find_split)
  have "t \<in> set (s # b)"
    using ab assms(2,3) set_orderSprints [of ss] by auto
  moreover have "\<forall>y\<in>set b. sprint_before s y"
    using sorted_orderSprints [of ss] ab(1) by (simp add: sorted_wrt_append)
  ultimately show ?thesis
    using ab(2) assms(3) by (auto simp: sprint_before_def)
qed

end
