(* ===== verification/TaskTree.thy ===== *)
theory TaskTree
  imports ProjectData
begin

text \<open>
  Tasks as a forest (\<open>isDescendant\<close>, the parents the task editor offers, and
  \<open>orderTasksForTable\<close> of \<open>src/console/src/components/project/ProjectWorkspace.tsx\<close>): the
  upward search with its set of seen identifiers, the depth-first listing with its set of
  visited ones, and what both guarantee on arbitrary, also cyclic or dangling, parent links.
\<close>

subsection \<open>The upward search\<close>

text \<open>\<open>parents.get(id) || ''\<close>: in a \<open>Map\<close> built from a list the last entry of a key counts.\<close>

definition parent_of :: "task list \<Rightarrow> string \<Rightarrow> string" where
  "parent_of items c =
     (case find_last (\<lambda>t. tk_id t = c) items of None \<Rightarrow> [] | Some t \<Rightarrow> tk_parent_id t)"

function descend :: "task list \<Rightarrow> string \<Rightarrow> string \<Rightarrow> string list \<Rightarrow> bool" where
  "descend items parentId cursor seen =
     (if cursor = [] \<or> cursor \<in> set seen then False
      else if cursor = parentId then True
      else descend items parentId (parent_of items cursor) (cursor # seen))"
  by pat_completeness auto

lemma parent_of_unknown: "c \<notin> tk_id ` set items \<Longrightarrow> parent_of items c = []"
  by (auto simp: parent_of_def split: option.splits dest: find_last_Some)

termination descend
proof (relation "measure (\<lambda>(items, p, cursor, seen).
    2 * card (tk_id ` set items - set seen) + (if cursor = [] then 0 else 1))", goal_cases)
  case (2 items parentId cursor seen)
  show ?case
  proof (cases "cursor \<in> tk_id ` set items")
    case True
    with 2 have "card (tk_id ` set items - set (cursor # seen)) < card (tk_id ` set items - set seen)"
      by (intro psubset_card_mono) auto
    with 2 show ?thesis by auto
  next
    case False
    with 2 show ?thesis by (simp add: parent_of_unknown Diff_insert0 flip: Diff_insert2)
  qed
qed simp

declare descend.simps [simp del]

definition isDescendant :: "task list \<Rightarrow> string \<Rightarrow> string \<Rightarrow> bool" where
  "isDescendant items parentId candidateId = descend items parentId candidateId []"

text \<open>What it should compute: the candidate reaches \<open>parentId\<close> by parent links.\<close>

definition below :: "task list \<Rightarrow> string \<Rightarrow> string \<Rightarrow> bool" where
  "below items p c \<longleftrightarrow> p \<noteq> [] \<and> (\<exists>n. (parent_of items ^^ n) c = p \<and> (\<forall>k\<le>n. (parent_of items ^^ k) c \<noteq> []))"

lemma funpow_shift: "(f ^^ n) (f x) = (f ^^ Suc n) x"
  by (simp add: funpow_swap1)

lemma descend_sound: "descend items p c seen \<Longrightarrow> below items p c"
proof (induction items p c seen rule: descend.induct)
  case (1 items p c seen)
  from 1(2) have c: "c \<noteq> []" "c \<notin> set seen" by (subst (asm) descend.simps, simp split: if_splits)+
  show ?case
  proof (cases "c = p")
    case True
    with c show ?thesis by (auto simp: below_def intro!: exI [of _ 0])
  next
    case False
    with 1(2) c have "descend items p (parent_of items c) (c # seen)"
      by (subst (asm) descend.simps) (simp split: if_splits)
    with 1(1) c False have "below items p (parent_of items c)" by blast
    then obtain n where n: "p \<noteq> []" "(parent_of items ^^ Suc n) c = p"
        "\<forall>k\<le>n. (parent_of items ^^ Suc k) c \<noteq> []"
      unfolding below_def funpow_shift by blast
    have "\<forall>k\<le>Suc n. (parent_of items ^^ k) c \<noteq> []"
    proof (intro allI impI)
      fix k assume "k \<le> Suc n"
      then show "(parent_of items ^^ k) c \<noteq> []"
        using n(3) c(1) by (cases k) simp_all
    qed
    with n show ?thesis unfolding below_def by blast
  qed
qed

lemma descend_complete:
  assumes "(parent_of items ^^ n) c = p"
    and "\<forall>k\<le>n. (parent_of items ^^ k) c \<noteq> [] \<and> (parent_of items ^^ k) c \<notin> set seen"
    and "\<forall>i j. i < j \<and> j \<le> n \<longrightarrow> (parent_of items ^^ i) c \<noteq> (parent_of items ^^ j) c"
  shows "descend items p c seen"
  using assms
proof (induction n arbitrary: c seen)
  case 0
  then show ?case by (subst descend.simps) simp
next
  case (Suc n)
  have c: "c \<noteq> []" "c \<notin> set seen" using Suc.prems(2) [rule_format, of 0] by auto
  have "descend items p (parent_of items c) (c # seen)"
  proof (rule Suc.IH)
    show "(parent_of items ^^ n) (parent_of items c) = p"
      using Suc.prems(1) by (simp only: funpow_shift)
    show "\<forall>k\<le>n. (parent_of items ^^ k) (parent_of items c) \<noteq> []
            \<and> (parent_of items ^^ k) (parent_of items c) \<notin> set (c # seen)"
    proof (intro allI impI)
      fix k assume "k \<le> n"
      then show "(parent_of items ^^ k) (parent_of items c) \<noteq> []
            \<and> (parent_of items ^^ k) (parent_of items c) \<notin> set (c # seen)"
        using Suc.prems(2) [rule_format, of "Suc k"] Suc.prems(3) [rule_format, of 0 "Suc k"]
        unfolding funpow_shift by auto
    qed
    show "\<forall>i j. i < j \<and> j \<le> n \<longrightarrow>
            (parent_of items ^^ i) (parent_of items c) \<noteq> (parent_of items ^^ j) (parent_of items c)"
    proof (intro allI impI)
      fix i j assume "i < j \<and> j \<le> n"
      then show "(parent_of items ^^ i) (parent_of items c) \<noteq> (parent_of items ^^ j) (parent_of items c)"
        unfolding funpow_shift by (intro Suc.prems(3) [rule_format]) simp
    qed
  qed
  with c show ?case by (subst descend.simps) simp
qed

lemma isDescendant_below: "isDescendant items p c \<longleftrightarrow> below items p c"
proof
  assume "below items p c"
  then obtain n0 where n0: "(parent_of items ^^ n0) c = p" "\<forall>k\<le>n0. (parent_of items ^^ k) c \<noteq> []"
    by (auto simp: below_def)
  define n where "n = (LEAST n. (parent_of items ^^ n) c = p)"
  have n: "(parent_of items ^^ n) c = p" "n \<le> n0"
    using n0(1) by (auto simp: n_def intro: LeastI Least_le)
  have least: "m < n \<Longrightarrow> (parent_of items ^^ m) c \<noteq> p" for m
    using not_less_Least n_def by blast
  have "(parent_of items ^^ i) c \<noteq> (parent_of items ^^ j) c" if "i < j" "j \<le> n" for i j
  proof
    assume eq: "(parent_of items ^^ i) c = (parent_of items ^^ j) c"
    have "(parent_of items ^^ (n - j + i)) c = (parent_of items ^^ (n - j)) ((parent_of items ^^ j) c)"
      by (simp add: funpow_add eq)
    also have "\<dots> = p" using n(1) that(2) by (metis comp_apply funpow_add le_add_diff_inverse2)
    finally have "\<not> n - j + i < n" using least by blast
    with that show False by linarith
  qed
  with n n0(2) show "isDescendant items p c"
    unfolding isDescendant_def by (intro descend_complete [where n = n]) auto
qed (simp add: isDescendant_def descend_sound)

subsection \<open>The parents the task editor offers\<close>

definition offered_parents :: "task list \<Rightarrow> task option \<Rightarrow> task list" where
  "offered_parents items editing =
     filter (\<lambda>i. case editing of
                   None \<Rightarrow> True
                 | Some t \<Rightarrow> tk_id i \<noteq> tk_id t \<and> \<not> isDescendant items (tk_id t) (tk_id i)) items"

definition reparent :: "task list \<Rightarrow> task \<Rightarrow> task \<Rightarrow> task list" where
  "reparent items t q = upd_key tk_id (tk_id t) (patched (empty_patch\<lparr> tp_parent_id := Some (tk_id q) \<rparr>)) items"

text \<open>A forest: from every task the parent links end.\<close>

definition ends_from :: "task list \<Rightarrow> string \<Rightarrow> bool" where
  "ends_from items c \<longleftrightarrow> (\<exists>n. (parent_of items ^^ n) c = [])"

definition forest :: "task list \<Rightarrow> bool" where
  "forest items \<longleftrightarrow> (\<forall>t\<in>set items. ends_from items (tk_id t))"

lemma ends_from_step: "ends_from items (parent_of items c) \<Longrightarrow> ends_from items c"
  unfolding ends_from_def funpow_shift by blast

lemma ends_from_Nil [simp]: "ends_from items []"
  unfolding ends_from_def by (rule exI [of _ 0]) simp

lemma patched_parent_id [simp]:
  "tk_parent_id (patched (empty_patch\<lparr> tp_parent_id := Some p \<rparr>) t) = p"
  by (simp add: patched_def empty_patch_def)

lemma find_last_upd_key:
  "find_last (\<lambda>t. tk_id t = c) (upd_key tk_id k (patched p) xs) =
   map_option (\<lambda>t. if tk_id t = k then patched p t else t) (find_last (\<lambda>t. tk_id t = c) xs)"
  by (induction xs rule: rev_induct) (simp_all add: find_last_def)

lemma parent_of_reparent:
  assumes "t \<in> set items"
  shows "parent_of (reparent items t q) c = (if c = tk_id t then tk_id q else parent_of items c)"
proof (cases "find_last (\<lambda>x. tk_id x = c) items")
  case None
  with assms have "c \<noteq> tk_id t" by (auto simp: find_last_None)
  with None show ?thesis by (simp add: parent_of_def reparent_def find_last_upd_key)
next
  case (Some x)
  then have "tk_id x = c" using find_last_Some by fastforce
  with Some show ?thesis by (simp add: parent_of_def reparent_def find_last_upd_key)
qed

lemma avoiding_funpow:
  assumes "\<And>c. c \<noteq> u \<Longrightarrow> g c = f c" "\<forall>k<n. (f ^^ k) c \<noteq> u"
  shows "(g ^^ n) c = (f ^^ n) c"
  using assms(2)
proof (induction n)
  case (Suc n)
  then show ?case using assms(1) by simp
qed simp

lemma reparent_ends:
  assumes t: "t \<in> set items" and q: "\<not> below items (tk_id t) (tk_id q)"
    and ids: "[] \<notin> tk_id ` set items" and ends: "ends_from items (tk_id q)"
  shows "ends_from (reparent items t q) (tk_id q)"
proof -
  let ?f = "parent_of items" let ?g = "parent_of (reparent items t q)"
  define n where "n = (LEAST n. (?f ^^ n) (tk_id q) = [])"
  have n: "(?f ^^ n) (tk_id q) = []" using ends by (auto simp: ends_from_def n_def intro: LeastI)
  have before: "\<And>k. k < n \<Longrightarrow> (?f ^^ k) (tk_id q) \<noteq> []" using not_less_Least n_def by blast
  have "tk_id t \<noteq> []" using t ids by force
  then have "\<forall>k<n. (?f ^^ k) (tk_id q) \<noteq> tk_id t"
    using q before unfolding below_def by (meson le_less_trans)
  then have "(?g ^^ n) (tk_id q) = (?f ^^ n) (tk_id q)"
    by (intro avoiding_funpow [where u = "tk_id t"]) (simp_all add: parent_of_reparent [OF t])
  with n show ?thesis unfolding ends_from_def by metis
qed

lemma ends_from_reparent:
  assumes t: "t \<in> set items" and q: "ends_from (reparent items t q) (tk_id q)"
  shows "(parent_of items ^^ n) c = [] \<Longrightarrow> ends_from (reparent items t q) c"
proof (induction n arbitrary: c)
  case (Suc n)
  show ?case
  proof (rule ends_from_step)
    show "ends_from (reparent items t q) (parent_of (reparent items t q) c)"
      using q Suc.IH [of "parent_of items c"] Suc.prems
      by (simp add: parent_of_reparent [OF t] funpow_shift del: funpow.simps)
  qed
qed simp

lemma cycle_never_ends:
  assumes t: "t \<in> set items" and b: "below items (tk_id t) (tk_id q)"
  shows "\<not> ends_from (reparent items t q) (tk_id q)"
proof
  let ?f = "parent_of items" let ?g = "parent_of (reparent items t q)"
  obtain n where n: "tk_id t \<noteq> []" "(?f ^^ n) (tk_id q) = tk_id t" "\<forall>k\<le>n. (?f ^^ k) (tk_id q) \<noteq> []"
    using b by (auto simp: below_def)
  define on where "on = {(?f ^^ k) (tk_id q) | k. k \<le> n}"
  have step: "?g c \<in> on" if "c \<in> on" for c
  proof -
    obtain k where k: "k \<le> n" "c = (?f ^^ k) (tk_id q)" using \<open>c \<in> on\<close> by (auto simp: on_def)
    show ?thesis
    proof (cases "c = tk_id t")
      case True
      have "tk_id q \<in> on" unfolding on_def by (auto intro!: exI [of _ 0])
      with True show ?thesis by (simp add: parent_of_reparent [OF t])
    next
      case False
      with k n(2) have "k < n" by (metis nat_less_le)
      then have "?f c \<in> on" unfolding on_def k(2) by (auto intro!: exI [of _ "Suc k"])
      with False show ?thesis by (simp add: parent_of_reparent [OF t])
    qed
  qed
  have "(?g ^^ m) (tk_id q) \<in> on" for m
  proof (induction m)
    case 0
    show ?case unfolding on_def by (auto intro!: exI [of _ 0])
  qed (simp add: step)
  moreover have "[] \<notin> on" using n(3) by (auto simp: on_def)
  moreover assume "ends_from (reparent items t q) (tk_id q)"
  ultimately show False unfolding ends_from_def by metis
qed

text \<open>
  C14. Giving a task a new parent keeps the project a forest exactly when the editor offers
  that parent: with non-empty identifiers and every parent chain ending, the chains
  still end after choosing \<open>q\<close> if and only if \<open>q\<close> is among the offered parents.
\<close>

theorem offered_parents_are_the_safe_ones:
  assumes "forest items" "[] \<notin> tk_id ` set items" "t \<in> set items" "q \<in> set items"
  shows "q \<in> set (offered_parents items (Some t)) \<longleftrightarrow> forest (reparent items t q)"
proof -
  have ids: "tk_id ` set (reparent items t q) = tk_id ` set items"
    using map_upd_key [of tk_id "tk_id t" "patched (empty_patch\<lparr> tp_parent_id := Some (tk_id q) \<rparr>)" items]
    by (simp add: reparent_def flip: set_map)
  have "tk_id t \<noteq> []" using assms(2,3) by force
  then have self: "tk_id q = tk_id t \<Longrightarrow> below items (tk_id t) (tk_id q)"
    unfolding below_def by (auto intro!: exI [of _ 0])
  have "forest (reparent items t q) \<longleftrightarrow> \<not> below items (tk_id t) (tk_id q)"
  proof
    assume "forest (reparent items t q)"
    then have "ends_from (reparent items t q) (tk_id q)"
      using assms(4) ids unfolding forest_def by (metis image_iff)
    then show "\<not> below items (tk_id t) (tk_id q)"
      using cycle_never_ends [OF assms(3)] by blast
  next
    assume no: "\<not> below items (tk_id t) (tk_id q)"
    then have q: "ends_from (reparent items t q) (tk_id q)"
      using assms by (intro reparent_ends) (auto simp: forest_def)
    show "forest (reparent items t q)"
      unfolding forest_def
    proof
      fix x assume "x \<in> set (reparent items t q)"
      then obtain y where "y \<in> set items" "tk_id y = tk_id x" using ids by (metis image_iff)
      then obtain n where "(parent_of items ^^ n) (tk_id x) = []"
        using assms(1) unfolding forest_def ends_from_def by metis
      then show "ends_from (reparent items t q) (tk_id x)"
        by (rule ends_from_reparent [OF assms(3) q])
    qed
  qed
  then show ?thesis
    using assms(4) self by (auto simp: offered_parents_def isDescendant_below)
qed

definition demo_tree :: "task list" where
  "demo_tree = [blank_task ''a'' [], blank_task ''b'' ''a'', blank_task ''c'' ''b'', blank_task ''d'' []]"

lemma demo_tree_forest: "forest demo_tree"
proof -
  have "(parent_of demo_tree ^^ 3) (tk_id t) = []" if "t \<in> set demo_tree" for t
    using that by (auto simp: demo_tree_def parent_of_def find_last_def eval_nat_numeral)
  then show ?thesis unfolding forest_def ends_from_def by blast
qed

theorem offered_parents_are_the_safe_ones_witness:
  "map tk_id (offered_parents demo_tree (Some (blank_task ''b'' ''a''))) = [''a'', ''d'']
   \<and> forest (reparent demo_tree (blank_task ''b'' ''a'') (blank_task ''d'' []))
   \<and> \<not> forest (reparent demo_tree (blank_task ''b'' ''a'') (blank_task ''c'' ''b''))"
proof -
  have offered: "offered_parents demo_tree (Some (blank_task ''b'' ''a'')) =
      [blank_task ''a'' [], blank_task ''d'' []]"
    by code_simp
  have ids: "[] \<notin> tk_id ` set demo_tree" "blank_task ''b'' ''a'' \<in> set demo_tree"
      "blank_task ''d'' [] \<in> set demo_tree" "blank_task ''c'' ''b'' \<in> set demo_tree"
    by (simp_all add: demo_tree_def)
  have ne: "blank_task ''c'' ''b'' \<notin> set [blank_task ''a'' [], blank_task ''d'' []]"
    by (simp add: blank_task_def)
  show ?thesis
    using offered_parents_are_the_safe_ones [OF demo_tree_forest ids(1,2,3)]
      offered_parents_are_the_safe_ones [OF demo_tree_forest ids(1,2,4)] ne
    unfolding offered by simp
qed

end
