(* ===== verification/TaskTable.thy ===== *)
theory TaskTable
  imports TaskTree
begin

text \<open>
  How the console lists tasks (\<open>orderTasksForTable\<close> and \<open>makeLanes\<close> of
  \<open>src/console/src/components/project/ProjectWorkspace.tsx\<close>): the depth-first table order and
  the lanes of the kanban.
\<close>

subsection \<open>The table order\<close>

text \<open>
  \<open>children.get(id) || []\<close>, and the nested calls of \<open>append\<close>: the second argument holds the
  tasks the open \<open>for\<close> loops have still to append, the innermost loop's first. The lemma
  \<open>append_unfold\<close> below is the recursive function as it is written.
\<close>

definition children_of :: "task list \<Rightarrow> string \<Rightarrow> task list" where
  "children_of items p = filter (\<lambda>t. tk_parent_id t = p) items"

function walk :: "task list \<Rightarrow> task list \<Rightarrow> string list \<times> task list \<Rightarrow> string list \<times> task list" where
  "walk items [] s = s"
| "walk items (x # rest) s =
     (if tk_id x \<in> set (fst s) then walk items rest s
      else walk items (children_of items (tk_id x) @ rest) (tk_id x # fst s, snd s @ [x]))"
  by pat_completeness auto

lemma set_children_of [simp]: "set (children_of items p) = {t \<in> set items. tk_parent_id t = p}"
  by (auto simp: children_of_def)

termination walk
proof (relation "measures [\<lambda>(items, stack, s). card (tk_id ` set (items @ stack) - set (fst s)),
                           \<lambda>(items, stack, s). length stack]", goal_cases)
  case (2 items x rest s)
  have "tk_id ` set (items @ rest) - set (fst s) = tk_id ` set (items @ x # rest) - set (fst s)"
    using 2 by auto
  then show ?case by simp
next
  case (3 items x rest s)
  have "tk_id ` set (items @ children_of items (tk_id x) @ rest) - set (tk_id x # fst s)
          \<subset> tk_id ` set (items @ x # rest) - set (fst s)"
    using 3 by auto
  then have "card (tk_id ` set (items @ children_of items (tk_id x) @ rest) - set (tk_id x # fst s))
               < card (tk_id ` set (items @ x # rest) - set (fst s))"
    by (intro psubset_card_mono) simp
  then show ?case by simp
qed simp

lemma walk_append: "walk items (xs @ ys) s = walk items ys (walk items xs s)"
  by (induction items xs s rule: walk.induct) simp_all

lemma append_unfold:
  "walk items [x] s =
     (if tk_id x \<in> set (fst s) then s
      else walk items (children_of items (tk_id x)) (tk_id x # fst s, snd s @ [x]))"
  by simp

definition orderTasksForTable :: "task list \<Rightarrow> task list" where
  "orderTasksForTable items = snd (walk items items (walk items (children_of items []) ([], [])))"

text \<open>The visited set is the set of identifiers listed, and nothing is listed twice.\<close>

definition listed_once :: "string list \<times> task list \<Rightarrow> bool" where
  "listed_once s \<longleftrightarrow> set (fst s) = tk_id ` set (snd s) \<and> distinct (map tk_id (snd s))"

lemma walk_listed_once: "listed_once s \<Longrightarrow> listed_once (walk items xs s)"
  by (induction items xs s rule: walk.induct) (auto simp: listed_once_def)

lemma walk_extends: "\<exists>more. snd (walk items xs s) = snd s @ more"
  by (induction items xs s rule: walk.induct) auto

lemma walk_visits: "set (fst s) \<union> tk_id ` set xs \<subseteq> set (fst (walk items xs s))"
  by (induction items xs s rule: walk.induct) auto

lemma walk_from: "set (snd (walk items xs s)) \<subseteq> set (snd s) \<union> set xs \<union> set items"
proof (induction items xs s rule: walk.induct)
  case (2 items x rest s)
  then show ?case by (cases "tk_id x \<in> set (fst s)") auto
qed simp

text \<open>The children of what is listed are listed, and after their parent.\<close>

lemma walk_children:
  assumes "\<forall>x\<in>set (snd s). \<forall>c\<in>set items. tk_parent_id c = tk_id x \<longrightarrow> tk_id c \<in> set (fst s) \<union> tk_id ` set xs"
  shows "\<forall>x\<in>set (snd (walk items xs s)). \<forall>c\<in>set items.
           tk_parent_id c = tk_id x \<longrightarrow> tk_id c \<in> set (fst (walk items xs s))"
  using assms
proof (induction items xs s rule: walk.induct)
  case (2 items x rest s)
  show ?case
  proof (cases "tk_id x \<in> set (fst s)")
    case True
    then have "\<forall>y\<in>set (snd s). \<forall>c\<in>set items. tk_parent_id c = tk_id y \<longrightarrow>
        tk_id c \<in> set (fst s) \<union> tk_id ` set rest"
    proof (intro ballI impI)
      fix y c assume "y \<in> set (snd s)" "c \<in> set items" "tk_parent_id c = tk_id y"
      with 2(3) have "tk_id c \<in> set (fst s) \<union> tk_id ` set (x # rest)" by blast
      with True show "tk_id c \<in> set (fst s) \<union> tk_id ` set rest" by auto
    qed
    from 2(1) [OF True this] True show ?thesis by simp
  next
    case False
    have "\<forall>y\<in>set (snd (tk_id x # fst s, snd s @ [x])). \<forall>c\<in>set items. tk_parent_id c = tk_id y \<longrightarrow>
        tk_id c \<in> set (fst (tk_id x # fst s, snd s @ [x])) \<union> tk_id ` set (children_of items (tk_id x) @ rest)"
      using 2(3) by auto
    from 2(2) [OF False this] False show ?thesis by simp
  qed
qed auto

fun parents_first :: "string set \<Rightarrow> task list \<Rightarrow> bool" where
  "parents_first seen [] = True"
| "parents_first seen (x # xs) =
     ((tk_parent_id x = [] \<or> tk_parent_id x \<in> seen) \<and> parents_first (insert (tk_id x) seen) xs)"

lemma parents_first_append:
  "parents_first seen (xs @ ys) \<longleftrightarrow> parents_first seen xs \<and> parents_first (seen \<union> tk_id ` set xs) ys"
  by (induction seen xs rule: parents_first.induct) (auto simp: Un_insert_left)

lemma parents_first_split:
  "parents_first seen (us @ x # vs) \<Longrightarrow> tk_parent_id x = [] \<or> tk_parent_id x \<in> seen \<union> tk_id ` set us"
  by (simp add: parents_first_append)

lemma walk_parents_first:
  assumes "listed_once s" "parents_first {} (snd s)"
    "\<forall>x\<in>set xs. tk_parent_id x = [] \<or> tk_parent_id x \<in> set (fst s)"
  shows "parents_first {} (snd (walk items xs s))"
  using assms
proof (induction items xs s rule: walk.induct)
  case (2 items x rest s)
  show ?case
  proof (cases "tk_id x \<in> set (fst s)")
    case True
    with 2 show ?thesis by auto
  next
    case False
    have "listed_once (tk_id x # fst s, snd s @ [x])"
      using 2(3) False by (auto simp: listed_once_def)
    moreover have "parents_first {} (snd (tk_id x # fst s, snd s @ [x]))"
      using 2(3,4,5) by (auto simp: parents_first_append listed_once_def)
    moreover have "\<forall>y\<in>set (children_of items (tk_id x) @ rest).
        tk_parent_id y = [] \<or> tk_parent_id y \<in> set (fst (tk_id x # fst s, snd s @ [x]))"
      using 2(5) by auto
    ultimately show ?thesis using 2(2) [OF False] False by simp
  qed
qed simp

text \<open>A task attached to a root by parent links that lead to existing tasks.\<close>

inductive attached :: "task list \<Rightarrow> task \<Rightarrow> bool" for items where
  root: "t \<in> set items \<Longrightarrow> tk_parent_id t = [] \<Longrightarrow> attached items t"
| child: "attached items u \<Longrightarrow> t \<in> set items \<Longrightarrow> tk_parent_id t = tk_id u \<Longrightarrow> attached items t"

inductive_simps attached_iff: "attached items t"

lemma attached_member: "attached items t \<Longrightarrow> t \<in> set items"
  by (auto elim: attached.cases)

abbreviation roots_walk :: "task list \<Rightarrow> string list \<times> task list" where
  "roots_walk items \<equiv> walk items (children_of items []) ([], [])"

lemma roots_walk_once: "listed_once (roots_walk items)"
  by (rule walk_listed_once) (simp add: listed_once_def)

lemma attached_listed: "attached items t \<Longrightarrow> tk_id t \<in> set (fst (roots_walk items))"
proof (induction rule: attached.induct)
  case (root t)
  then show ?case using walk_visits [of "([], [])" "children_of items []" items] by auto
next
  case (child u t)
  have closed: "\<forall>x\<in>set (snd (roots_walk items)). \<forall>c\<in>set items.
      tk_parent_id c = tk_id x \<longrightarrow> tk_id c \<in> set (fst (roots_walk items))"
    by (rule walk_children) simp
  obtain v where "v \<in> set (snd (roots_walk items))" "tk_id v = tk_id u"
    using child.IH roots_walk_once [of items] by (auto simp: listed_once_def)
  with closed child.hyps show ?case by auto
qed

lemma same_task:
  "distinct (map tk_id items) \<Longrightarrow> x \<in> set items \<Longrightarrow> y \<in> set items \<Longrightarrow> tk_id x = tk_id y \<Longrightarrow> x = y"
  by (metis distinct_map inj_onD)

text \<open>
  C16. The task table lists every task exactly once, whatever the parent links are, dangling
  and cyclic ones included, and a task attached to a root stands after its parent.
\<close>

theorem table_lists_every_task_once:
  assumes "distinct (map tk_id items)"
  shows "mset (orderTasksForTable items) = mset items
    \<and> (\<forall>t. attached items t \<and> tk_parent_id t \<noteq> [] \<longrightarrow>
         (\<exists>us p vs. orderTasksForTable items = us @ t # vs \<and> p \<in> set us \<and> tk_id p = tk_parent_id t))"
proof
  let ?s = "roots_walk items" let ?out = "orderTasksForTable items"
  have once: "listed_once (walk items items ?s)"
    by (intro walk_listed_once roots_walk_once)
  have sub: "set ?out \<subseteq> set items"
    using walk_from [of items items ?s] walk_from [of items "children_of items []" "([], [])"]
    by (auto simp: orderTasksForTable_def)
  have "tk_id ` set items \<subseteq> tk_id ` set ?out"
    using walk_visits [of ?s items items] once by (auto simp: orderTasksForTable_def listed_once_def)
  then have "set ?out = set items"
    using sub same_task [OF assms] by (blast dest: subsetD)
  moreover have "distinct ?out"
    using once by (simp add: orderTasksForTable_def listed_once_def distinct_map)
  ultimately show "mset ?out = mset items"
    using assms by (simp add: set_eq_iff_mset_eq_distinct distinct_map)
  obtain more where more: "?out = snd ?s @ more"
    using walk_extends [of items items ?s] by (auto simp: orderTasksForTable_def)
  have first: "parents_first {} (snd ?s)"
    by (rule walk_parents_first) (auto simp: listed_once_def)
  show "\<forall>t. attached items t \<and> tk_parent_id t \<noteq> [] \<longrightarrow>
         (\<exists>us p vs. ?out = us @ t # vs \<and> p \<in> set us \<and> tk_id p = tk_parent_id t)"
  proof (intro allI impI)
    fix t assume t: "attached items t \<and> tk_parent_id t \<noteq> []"
    then obtain u where u: "u \<in> set (snd ?s)" "tk_id u = tk_id t"
      using attached_listed [of items t] roots_walk_once [of items] by (force simp: listed_once_def)
    have "u \<in> set items" using u(1) sub by (auto simp: more)
    then have "u = t" using t u(2) attached_member same_task [OF assms] by blast
    then obtain us vs where split: "snd ?s = us @ t # vs" using u(1) by (metis split_list)
    then obtain p where "p \<in> set us" "tk_id p = tk_parent_id t"
      using first t parents_first_split [of "{}" us t vs] by auto
    then show "\<exists>us p vs. ?out = us @ t # vs \<and> p \<in> set us \<and> tk_id p = tk_parent_id t"
      using more split by (intro exI [of _ us] exI [of _ p] exI [of _ "vs @ more"]) simp
  qed
qed

text \<open>Two tasks that are each other's parent, one whose parent is gone, and a small tree.\<close>

definition odd_tasks :: "task list" where
  "odd_tasks = [blank_task ''x'' ''y'', blank_task ''c'' ''r'', blank_task ''o'' ''gone'',
                blank_task ''y'' ''x'', blank_task ''r'' []]"

theorem table_lists_every_task_once_witness:
  "mset (orderTasksForTable odd_tasks) = mset odd_tasks
   \<and> map tk_id (orderTasksForTable odd_tasks) = [''r'', ''c'', ''x'', ''y'', ''o'']"
proof
  have "distinct (map tk_id odd_tasks)" by code_simp
  then show "mset (orderTasksForTable odd_tasks) = mset odd_tasks"
    using table_lists_every_task_once [of odd_tasks] by blast
  show "map tk_id (orderTasksForTable odd_tasks) = [''r'', ''c'', ''x'', ''y'', ''o'']"
    by code_simp
qed

subsection \<open>Lanes\<close>

datatype group_mode = GmNone | GmAssignee | GmMilestone

record lane =
  ln_key :: string
  ln_label :: string
  ln_items :: "task list"

definition lane_key :: "group_mode \<Rightarrow> task \<Rightarrow> string" where
  "lane_key g t = (if g = GmAssignee then or_str (tk_assignee t) ''unassigned''
                   else or_str (tk_milestone_id t) ''no-milestone'')"

definition msg_all_tasks :: string where "msg_all_tasks = ''All tasks''"
definition msg_unassigned :: string where "msg_unassigned = ''Unassigned''"
definition msg_no_milestone :: string where "msg_no_milestone = ''No milestone''"

definition lane_label :: "group_mode \<Rightarrow> member list \<Rightarrow> plan_milestone list \<Rightarrow> task \<Rightarrow> string" where
  "lane_label g ms pms t =
     (if g = GmAssignee then
        or_str (opt_str (map_option me_member_name (find_key me_account_id (tk_assignee t) ms)))
          (or_opt (tk_assignee_name t) msg_unassigned)
      else or_str (opt_str (map_option pm_name (find_key pm_id (tk_milestone_id t) pms))) msg_no_milestone)"

text \<open>The \<open>Map\<close> of lanes, in insertion order.\<close>

definition into_lane :: "string \<Rightarrow> string \<Rightarrow> task \<Rightarrow> lane list \<Rightarrow> lane list" where
  "into_lane k label t ls =
     (case find_key ln_key k ls of
        None \<Rightarrow> ls @ [\<lparr> ln_key = k, ln_label = label, ln_items = [t] \<rparr>]
      | Some l \<Rightarrow> upd_key ln_key k (\<lambda>l. l\<lparr> ln_items := ln_items l @ [t] \<rparr>) ls)"

definition makeLanes :: "task list \<Rightarrow> group_mode \<Rightarrow> member list \<Rightarrow> plan_milestone list \<Rightarrow> lane list" where
  "makeLanes items g ms pms =
     (if g = GmNone then [\<lparr> ln_key = ''all'', ln_label = msg_all_tasks, ln_items = items \<rparr>]
      else fold (\<lambda>t. into_lane (lane_key g t) (lane_label g ms pms t) t) items [])"

text \<open>Every lane holds exactly the tasks of its key, in order; no key has two lanes.\<close>

definition lanes_of :: "group_mode \<Rightarrow> task list \<Rightarrow> lane list \<Rightarrow> bool" where
  "lanes_of g items ls \<longleftrightarrow> distinct (map ln_key ls) \<and> set (map ln_key ls) = lane_key g ` set items
     \<and> (\<forall>l\<in>set ls. ln_items l = filter (\<lambda>t. lane_key g t = ln_key l) items)"

lemma into_lane_of:
  assumes "lanes_of g items ls"
  shows "lanes_of g (items @ [t]) (into_lane (lane_key g t) label t ls)"
proof (cases "find_key ln_key (lane_key g t) ls")
  case None
  then have eq: "into_lane (lane_key g t) label t ls =
      ls @ [\<lparr> ln_key = lane_key g t, ln_label = label, ln_items = [t] \<rparr>]"
    by (simp add: into_lane_def)
  from None have "lane_key g t \<notin> lane_key g ` set items"
    using assms by (auto simp: find_key_None lanes_of_def)
  then have "filter (\<lambda>u. lane_key g u = lane_key g t) items = []"
    by (metis (mono_tags, lifting) filter_False image_eqI)
  with \<open>lane_key g t \<notin> lane_key g ` set items\<close> assms show ?thesis
    unfolding eq by (auto simp: lanes_of_def)
next
  case (Some l)
  let ?add = "\<lambda>l. l\<lparr> ln_items := ln_items l @ [t] \<rparr>"
  have eq: "into_lane (lane_key g t) label t ls = upd_key ln_key (lane_key g t) ?add ls"
    using Some by (simp add: into_lane_def)
  have keys: "map ln_key (upd_key ln_key (lane_key g t) ?add ls) = map ln_key ls"
    by (rule map_upd_key) simp
  have "l \<in> set ls" "ln_key l = lane_key g t" using Some by (auto dest: find_key_Some)
  then have member: "lane_key g t \<in> lane_key g ` set items"
    using assms unfolding lanes_of_def by (metis image_eqI set_map)
  then have image: "lane_key g ` set (items @ [t]) = lane_key g ` set items"
    by (simp add: insert_absorb)
  have "ln_items m = filter (\<lambda>u. lane_key g u = ln_key m) (items @ [t])"
    if m: "m \<in> set (upd_key ln_key (lane_key g t) ?add ls)" for m
  proof -
    obtain k where k: "k \<in> set ls" "m = (if ln_key k = lane_key g t then ?add k else k)"
      using m unfolding upd_where_def set_map by blast
    then have "ln_items k = filter (\<lambda>u. lane_key g u = ln_key k) items"
      using assms unfolding lanes_of_def by blast
    with k(2) show ?thesis by simp
  qed
  then show ?thesis
    using assms unfolding eq lanes_of_def keys image by blast
qed

lemma lanes_are_groups:
  assumes "g \<noteq> GmNone"
  shows "lanes_of g items (makeLanes items g ms pms)"
proof -
  have "lanes_of g items (fold (\<lambda>t. into_lane (lane_key g t) (lane_label g ms pms t) t) items [])"
    by (induction items rule: rev_induct) (simp_all add: into_lane_of, simp add: lanes_of_def)
  with assms show ?thesis by (simp add: makeLanes_def)
qed

end
