(* ===== verification/ConsoleApi.thy ===== *)
theory ConsoleApi
  imports Http JsUri
begin

text \<open>
  The console's requests (\<open>src/console/src/api.ts\<close>: \<open>apiRequest\<close>, \<open>apiUpload\<close>,
  \<open>apiDownload\<close>; \<open>src/console/src/workspaceApi.ts\<close>: \<open>createTurn\<close>). \<open>fetch\<close> and
  \<open>JSON.stringify\<close> are parameters; a rejected \<open>fetch\<close> is the message of its error.
\<close>

datatype console_error = ApiError string int | PlainError string

fun error_text :: "console_error \<Rightarrow> string" where
  "error_text (ApiError m s) = m"
| "error_text (PlainError m) = m"

type_synonym 'a api_res = "console_error + 'a"

record api_call =
  aq_method :: string
  aq_url :: string
  aq_headers :: "(string \<times> string) list"
  aq_body :: "string option"

type_synonym fetcher = "api_call \<Rightarrow> string + http_response"

definition session_header :: "string \<times> string" where
  "session_header = (''X-AgentMate-Console-Session'', ''1'')"

definition json_header :: "string \<times> string" where
  "json_header = (''Content-Type'', ''application/json'')"

text \<open>\<open>data\<close>: the body's JSON, \<open>null\<close> if there is none.\<close>

definition answer_data :: "http_response \<Rightarrow> json" where
  "answer_data r = (case hr_body r of None \<Rightarrow> JNull | Some v \<Rightarrow> v)"

text \<open>\<open>detail\<close>: the property of that name if the data is an object with one, else \<open>null\<close>.\<close>

definition detail_of :: "json \<Rightarrow> json" where
  "detail_of data = (case jget ''detail'' data of JUndef \<Rightarrow> JNull | d \<Rightarrow> d)"

definition http_text :: "int \<Rightarrow> string" where
  "http_text status = ''HTTP '' @ dec_int status"

definition refusal :: "(json \<Rightarrow> string) \<Rightarrow> http_response \<Rightarrow> string" where
  "refusal stringify r =
     (case detail_of (answer_data r) of
        JStr s \<Rightarrow> s
      | d \<Rightarrow> if jtruthy d then stringify d else http_text (hr_status r))"

definition apiRequest ::
  "(json \<Rightarrow> string) \<Rightarrow> fetcher \<Rightarrow> string \<Rightarrow> string \<Rightarrow> json option \<Rightarrow> json api_res" where
  "apiRequest stringify fetch verb path body =
     (case fetch \<lparr> aq_method = verb, aq_url = ''/api'' @ path,
                   aq_headers = session_header # (case body of None \<Rightarrow> [] | Some _ \<Rightarrow> [json_header]),
                   aq_body = map_option stringify body \<rparr> of
        Inl e \<Rightarrow> Inl (PlainError e)
      | Inr r \<Rightarrow> if hr_ok r then Inr (answer_data r) else Inl (ApiError (refusal stringify r) (hr_status r)))"

text \<open>An upload; an object as \<open>detail\<close> is not printed here.\<close>

definition upload_refusal :: "http_response \<Rightarrow> string" where
  "upload_refusal r =
     (case detail_of (answer_data r) of JStr s \<Rightarrow> s | d \<Rightarrow> http_text (hr_status r))"

definition apiUpload :: "fetcher \<Rightarrow> string \<Rightarrow> string \<Rightarrow> string \<Rightarrow> json api_res" where
  "apiUpload fetch path filename content =
     (case fetch \<lparr> aq_method = ''POST'',
                   aq_url = ''/api'' @ path @ (if includes_str ''?'' path then ''&'' else ''?'')
                              @ ''filename='' @ encodeURIComponent filename,
                   aq_headers = [session_header], aq_body = Some content \<rparr> of
        Inl e \<Rightarrow> Inl (PlainError e)
      | Inr r \<Rightarrow> if hr_ok r then Inr (answer_data r) else Inl (ApiError (upload_refusal r) (hr_status r)))"

text \<open>A download: what is saved is the answer under the given name.\<close>

definition apiDownload :: "fetcher \<Rightarrow> string \<Rightarrow> string \<Rightarrow> (string \<times> http_response) api_res" where
  "apiDownload fetch path filename =
     (case fetch \<lparr> aq_method = ''GET'', aq_url = ''/api'' @ path, aq_headers = [session_header],
                   aq_body = None \<rparr> of
        Inl e \<Rightarrow> Inl (PlainError e)
      | Inr r \<Rightarrow> if hr_ok r then Inr (filename, r)
                 else Inl (ApiError (http_text (hr_status r)) (hr_status r)))"

text \<open>
  \<open>createTurn\<close>; its errors are plain, a body that is not JSON is \<open>null\<close>, and \<open>"detail" in data\<close>
  itself throws when the data is a non-empty primitive.
\<close>

definition msg_in_primitive :: string where
  "msg_in_primitive = ''Cannot use in operator to search for detail''"

fun is_primitive :: "json \<Rightarrow> bool" where
  "is_primitive (JArr xs) = False"
| "is_primitive (JObj ps) = False"
| "is_primitive _ = True"

definition turn_refusal :: "(json \<Rightarrow> string) \<Rightarrow> http_response \<Rightarrow> string" where
  "turn_refusal stringify r =
     (if jtruthy (answer_data r) \<and> is_primitive (answer_data r) then msg_in_primitive
      else refusal stringify r)"

definition createTurn :: "(json \<Rightarrow> string) \<Rightarrow> fetcher \<Rightarrow> json \<Rightarrow> string \<Rightarrow> json api_res" where
  "createTurn stringify fetch body idempotencyKey =
     (case fetch \<lparr> aq_method = ''POST'', aq_url = ''/api/turns'',
                   aq_headers = [json_header, (''Idempotency-Key'', idempotencyKey),
                                 (''X-AgentMate-Protocol-Version'', ''2''), session_header],
                   aq_body = Some (stringify body) \<rparr> of
        Inl e \<Rightarrow> Inl (PlainError e)
      | Inr r \<Rightarrow> if hr_ok r then Inr (answer_data r) else Inl (PlainError (turn_refusal stringify r)))"

text \<open>Every outcome: an accepted answer is handed on, a refusal throws, nothing else happens.\<close>

lemma apiRequest_ok_iff:
  "apiRequest stringify fetch verb path body = Inr v \<longleftrightarrow>
     (\<exists>r. fetch \<lparr> aq_method = verb, aq_url = ''/api'' @ path,
                 aq_headers = session_header # (case body of None \<Rightarrow> [] | Some _ \<Rightarrow> [json_header]),
                 aq_body = map_option stringify body \<rparr> = Inr r \<and> hr_ok r \<and> v = answer_data r)"
  by (auto simp: apiRequest_def split: sum.splits if_splits)

lemma refusal_detail:
  "hr_body r = Some (JObj ps) \<Longrightarrow> map_of ps ''detail'' = Some (JStr s) \<Longrightarrow> refusal stringify r = s"
  by (simp add: refusal_def answer_data_def detail_of_def)

lemma refusal_no_detail:
  "jget ''detail'' (answer_data r) = JUndef \<Longrightarrow> refusal stringify r = http_text (hr_status r)"
  by (simp add: refusal_def detail_of_def)

end
