(* ===== verification/ProjectState.thy ===== *)
theory ProjectState
  imports ProjectData ConsoleApi
begin

text \<open>
  The project workspace of the console (\<open>ProjectWorkProvider\<close> in
  \<open>src/console/src/components/project/ProjectWorkspace.tsx\<close>): its state, and every operation
  cut at its \<open>await\<close> into what it does at once (\<open>_begin\<close>) and what it does with the outcome
  (\<open>_done\<close>). What an operation shows or starts besides changing the state is an effect. An
  operation reads the state as last rendered.
\<close>

subsection \<open>State\<close>

datatype editor_step = StContent | StPlan | StAdvanced | StCollaboration
datatype quick_kind = QkMilestone | QkSprint
datatype notice = NtSuccess | NtWarning | NtError

datatype ws_effect =
    Notify notice string
  | DoReload
  | RefreshActivity
  | LoadDetail string
  | AskDiscard string

text \<open>\<open>ed_editing\<close>: \<open>None\<close> is \<open>undefined\<close> (closed), \<open>Some None\<close> is \<open>null\<close> (a new task).\<close>

record workspace =
  ws_project :: console_project
  ws_items :: "task list"
  ws_members :: "member list"
  ws_milestones :: "plan_milestone list"
  ws_health :: "json option"
  ws_activity :: "json list"
  ws_fields :: "custom_field list"
  ws_sprints :: "sprint list"
  ws_sprint :: string
  ws_loading :: bool
  ws_saving :: "string list"
  ws_selected :: "string list"
  ws_templates :: "task_template list"
  ws_wip :: "work_status \<Rightarrow> int option"
  ws_views :: "saved_view list"
  ws_rev_shared :: int
  ws_rev_views :: int
  ed_editing :: "task option option"
  ed_form :: task_patch
  ed_dirty :: bool
  ed_saving :: bool
  ed_read_only :: bool
  ed_step :: editor_step
  ed_quick :: "quick_kind option"
  ed_quick_saving :: bool
  ed_template_open :: bool
  ed_comments :: "json list"
  ed_activity :: "json list"

definition initial_workspace :: "console_project \<Rightarrow> workspace" where
  "initial_workspace p =
     \<lparr> ws_project = p, ws_items = [], ws_members = [], ws_milestones = [], ws_health = None,
       ws_activity = [], ws_fields = [], ws_sprints = [], ws_sprint = [], ws_loading = True,
       ws_saving = [], ws_selected = [], ws_templates = [], ws_wip = (\<lambda>_. None), ws_views = [],
       ws_rev_shared = 0, ws_rev_views = 0, ed_editing = None, ed_form = empty_patch,
       ed_dirty = False, ed_saving = False, ed_read_only = False, ed_step = StContent,
       ed_quick = None, ed_quick_saving = False, ed_template_open = False, ed_comments = [],
       ed_activity = [] \<rparr>"

definition error_or :: "console_error \<Rightarrow> string" where
  "error_or e = error_text e"

subsection \<open>Loading\<close>

record preferences =
  pf_templates :: "task_template list"
  pf_wip :: "work_status \<Rightarrow> int option"
  pf_views :: "saved_view list"
  pf_shared_updated_at :: int
  pf_views_updated_at :: int

record reload_answers =
  ra_items :: "task list api_res"
  ra_members :: "member list api_res"
  ra_milestones :: "plan_milestone list api_res"
  ra_health :: "json api_res"
  ra_activity :: "json list api_res"
  ra_fields :: "custom_field list api_res"
  ra_sprints :: "sprint list api_res"
  ra_preferences :: "preferences api_res"

definition reload_begin :: "workspace \<Rightarrow> workspace" where
  "reload_begin w = w\<lparr> ws_loading := True \<rparr>"

text \<open>A fulfilled answer replaces its part of the state, a rejected one leaves it.\<close>

definition settle_with :: "'a api_res \<Rightarrow> ('a \<Rightarrow> workspace \<Rightarrow> workspace) \<Rightarrow> workspace \<Rightarrow> workspace" where
  "settle_with r f w = (case r of Inl _ \<Rightarrow> w | Inr v \<Rightarrow> f v w)"

definition set_items :: "task list \<Rightarrow> workspace \<Rightarrow> workspace" where
  "set_items ts w =
     w\<lparr> ws_items := ts, ws_selected := filter (\<lambda>i. i \<in> tk_id ` set ts) (ws_selected w) \<rparr>"

definition pick_sprint :: "sprint list \<Rightarrow> string \<Rightarrow> string" where
  "pick_sprint ss current =
     (if current \<noteq> [] \<and> current \<in> sp_id ` set ss then current
      else case active_sprint ss of Some s \<Rightarrow> sp_id s | None \<Rightarrow> [])"

definition set_sprints :: "sprint list \<Rightarrow> workspace \<Rightarrow> workspace" where
  "set_sprints ss w = w\<lparr> ws_sprints := ss, ws_sprint := pick_sprint ss (ws_sprint w) \<rparr>"

definition set_preferences :: "preferences \<Rightarrow> workspace \<Rightarrow> workspace" where
  "set_preferences p w =
     w\<lparr> ws_templates := pf_templates p, ws_wip := pf_wip p, ws_views := pf_views p,
        ws_rev_shared := pf_shared_updated_at p, ws_rev_views := pf_views_updated_at p \<rparr>"

definition failed :: "'a api_res \<Rightarrow> nat" where
  "failed r = (case r of Inl _ \<Rightarrow> 1 | Inr _ \<Rightarrow> 0)"

definition failed_count :: "reload_answers \<Rightarrow> nat" where
  "failed_count a =
     failed (ra_items a) + failed (ra_members a) + failed (ra_milestones a) + failed (ra_health a)
     + failed (ra_activity a) + failed (ra_fields a) + failed (ra_sprints a) + failed (ra_preferences a)"

definition msg_parts_failed :: "nat \<Rightarrow> string" where
  "msg_parts_failed n = dec_nat n @ '' parts of the project could not be loaded''"

definition reload_done :: "reload_answers \<Rightarrow> workspace \<Rightarrow> workspace \<times> ws_effect list" where
  "reload_done a w =
     (let w1 = settle_with (ra_items a) set_items w;
          w2 = settle_with (ra_members a) (\<lambda>v w. w\<lparr> ws_members := v \<rparr>) w1;
          w3 = settle_with (ra_milestones a) (\<lambda>v w. w\<lparr> ws_milestones := v \<rparr>) w2;
          w4 = settle_with (ra_health a) (\<lambda>v w. w\<lparr> ws_health := Some v \<rparr>) w3;
          w5 = settle_with (ra_activity a) (\<lambda>v w. w\<lparr> ws_activity := v \<rparr>) w4;
          w6 = settle_with (ra_fields a) (\<lambda>v w. w\<lparr> ws_fields := v \<rparr>) w5;
          w7 = settle_with (ra_sprints a) set_sprints w6;
          w8 = settle_with (ra_preferences a) set_preferences w7
      in (w8\<lparr> ws_loading := False \<rparr>,
          if failed_count a \<noteq> 0 then [Notify NtWarning (msg_parts_failed (failed_count a))] else []))"

definition refreshActivity_done :: "json list api_res \<Rightarrow> workspace \<Rightarrow> workspace" where
  "refreshActivity_done r w = settle_with r (\<lambda>v w. w\<lparr> ws_activity := v \<rparr>) w"

definition syncWorkItemProjection :: "task \<Rightarrow> workspace \<Rightarrow> workspace" where
  "syncWorkItemProjection u w =
     (let mine = (case ed_editing w of Some (Some t) \<Rightarrow> tk_id t = tk_id u | _ \<Rightarrow> False)
      in w\<lparr> ws_items := upd_key tk_id (tk_id u) (\<lambda>_. u) (ws_items w),
            ed_editing := (if mine then Some (Some u) else ed_editing w),
            ed_form := (if mine then (ed_form w)\<lparr> tp_status := Some (tk_status u) \<rparr> else ed_form w) \<rparr>)"

subsection \<open>The editor\<close>

definition form_of :: "task \<Rightarrow> task_patch" where
  "form_of t =
     \<lparr> tp_title = Some (tk_title t), tp_description = Some (tk_description t),
       tp_status = Some (tk_status t), tp_priority = Some (tk_priority t),
       tp_source = Some (tk_source t), tp_assignee = Some (tk_assignee t),
       tp_due_date = Some (tk_due_date t), tp_start_date = Some (tk_start_date t),
       tp_labels = Some (tk_labels t), tp_parent_id = Some (tk_parent_id t),
       tp_milestone_id = Some (tk_milestone_id t), tp_estimate_h = Some (tk_estimate_h t),
       tp_spent_h = Some (tk_spent_h t), tp_custom_fields = Some (tk_custom_fields t),
       tp_dependency_ids = Some (tk_dependency_ids t), tp_sprint_id = Some (tk_sprint_id t) \<rparr>"

definition new_task_form :: task_patch where
  "new_task_form = form_of (blank_task [] [])"

definition or_else :: "'a option \<Rightarrow> 'a option \<Rightarrow> 'a option" where
  "or_else a b = (case b of None \<Rightarrow> a | Some _ \<Rightarrow> b)"

text \<open>\<open>{ ...a, ...b }\<close> on two partial tasks.\<close>

definition over :: "task_patch \<Rightarrow> task_patch \<Rightarrow> task_patch" where
  "over a b =
     \<lparr> tp_title = or_else (tp_title a) (tp_title b),
       tp_description = or_else (tp_description a) (tp_description b),
       tp_status = or_else (tp_status a) (tp_status b),
       tp_priority = or_else (tp_priority a) (tp_priority b),
       tp_source = or_else (tp_source a) (tp_source b),
       tp_assignee = or_else (tp_assignee a) (tp_assignee b),
       tp_due_date = or_else (tp_due_date a) (tp_due_date b),
       tp_start_date = or_else (tp_start_date a) (tp_start_date b),
       tp_labels = or_else (tp_labels a) (tp_labels b),
       tp_parent_id = or_else (tp_parent_id a) (tp_parent_id b),
       tp_milestone_id = or_else (tp_milestone_id a) (tp_milestone_id b),
       tp_estimate_h = or_else (tp_estimate_h a) (tp_estimate_h b),
       tp_spent_h = or_else (tp_spent_h a) (tp_spent_h b),
       tp_custom_fields = or_else (tp_custom_fields a) (tp_custom_fields b),
       tp_dependency_ids = or_else (tp_dependency_ids a) (tp_dependency_ids b),
       tp_sprint_id = or_else (tp_sprint_id a) (tp_sprint_id b) \<rparr>"

definition loadTaskEditor :: "task option \<Rightarrow> task_patch \<Rightarrow> bool \<Rightarrow> workspace \<Rightarrow> workspace \<times> ws_effect list" where
  "loadTaskEditor t defaults readOnly w =
     (w\<lparr> ed_dirty := False, ed_read_only := readOnly, ed_step := StContent, ed_editing := Some t,
         ed_form := (case t of Some x \<Rightarrow> form_of x | None \<Rightarrow> over new_task_form defaults),
         ed_comments := [], ed_activity := [] \<rparr>,
      (case t of Some x \<Rightarrow> [LoadDetail (tk_id x)] | None \<Rightarrow> []))"

text \<open>
  The comments and the activity of a task arrive later; the code does not ask whether the
  editor still shows that task.
\<close>

definition loadDetail_done :: "json list api_res \<Rightarrow> json list api_res \<Rightarrow> workspace \<Rightarrow> workspace" where
  "loadDetail_done comments events w =
     settle_with events (\<lambda>v w. w\<lparr> ed_activity := v \<rparr>)
       (settle_with comments (\<lambda>v w. w\<lparr> ed_comments := v \<rparr>) w)"

definition must_ask :: "workspace \<Rightarrow> bool" where
  "must_ask w \<longleftrightarrow> ed_dirty w \<and> canWrite (ws_project w)"

definition msg_switch :: string where "msg_switch = ''Switch tasks and discard the changes?''"
definition msg_new_child :: string where "msg_new_child = ''New subtask and discard the changes?''"
definition msg_close :: string where "msg_close = ''Close and discard the changes?''"

text \<open>
  \<open>confirmDiscard\<close>: the action runs at once, or after the question is confirmed.
\<close>

definition confirmDiscard ::
  "string \<Rightarrow> (workspace \<Rightarrow> workspace \<times> ws_effect list) \<Rightarrow> workspace \<Rightarrow> workspace \<times> ws_effect list" where
  "confirmDiscard title action w = (if must_ask w then (w, [AskDiscard title]) else action w)"

definition openTask :: "task option \<Rightarrow> task_patch \<Rightarrow> bool \<Rightarrow> workspace \<Rightarrow> workspace \<times> ws_effect list" where
  "openTask t defaults readOnly = confirmDiscard msg_switch (loadTaskEditor t defaults readOnly)"

definition load_child :: "task \<Rightarrow> workspace \<Rightarrow> workspace \<times> ws_effect list" where
  "load_child parent w =
     (let (w1, effs) = loadTaskEditor None empty_patch False w
      in (w1\<lparr> ed_form := (ed_form w1)\<lparr> tp_parent_id := Some (tk_id parent) \<rparr> \<rparr>, effs))"

definition openChild :: "task \<Rightarrow> workspace \<Rightarrow> workspace \<times> ws_effect list" where
  "openChild parent = confirmDiscard msg_new_child (load_child parent)"

definition close_editor :: "workspace \<Rightarrow> workspace \<times> ws_effect list" where
  "close_editor w = (w\<lparr> ed_dirty := False, ed_read_only := False, ed_editing := None \<rparr>, [])"

definition closeTaskEditor :: "workspace \<Rightarrow> workspace \<times> ws_effect list" where
  "closeTaskEditor w = (if ed_saving w then (w, []) else confirmDiscard msg_close close_editor w)"

definition edit_form :: "(task_patch \<Rightarrow> task_patch) \<Rightarrow> workspace \<Rightarrow> workspace" where
  "edit_form f w = w\<lparr> ed_form := f (ed_form w), ed_dirty := True \<rparr>"

definition openQuickPlan :: "quick_kind \<Rightarrow> workspace \<Rightarrow> workspace" where
  "openQuickPlan k w = w\<lparr> ed_quick := Some k \<rparr>"

definition quickPlan_begin :: "workspace \<Rightarrow> workspace" where
  "quickPlan_begin w = w\<lparr> ed_quick_saving := True \<rparr>"

definition msg_milestone_made :: string where "msg_milestone_made = ''Milestone created and chosen''"
definition msg_sprint_made :: string where "msg_sprint_made = ''Sprint created and chosen''"

definition quick_milestone_done :: "plan_milestone api_res \<Rightarrow> workspace \<Rightarrow> workspace \<times> ws_effect list" where
  "quick_milestone_done r w =
     (case r of
        Inr m \<Rightarrow> (w\<lparr> ws_milestones := ws_milestones w @ [m],
                     ed_form := (ed_form w)\<lparr> tp_milestone_id := Some (pm_id m) \<rparr>,
                     ed_dirty := True, ed_quick := None, ed_quick_saving := False \<rparr>,
                  [Notify NtSuccess msg_milestone_made])
      | Inl e \<Rightarrow> (w\<lparr> ed_quick_saving := False \<rparr>, [Notify NtError (error_or e)]))"

definition quick_sprint_done :: "sprint api_res \<Rightarrow> workspace \<Rightarrow> workspace \<times> ws_effect list" where
  "quick_sprint_done r w =
     (case r of
        Inr s \<Rightarrow> (w\<lparr> ws_sprints := ws_sprints w @ [s],
                     ed_form := (ed_form w)\<lparr> tp_sprint_id := Some (sp_id s),
                       tp_milestone_id := (if sp_milestone_id s \<noteq> [] then Some (sp_milestone_id s)
                                           else tp_milestone_id (ed_form w)) \<rparr>,
                     ed_dirty := True, ed_quick := None, ed_quick_saving := False \<rparr>,
                  [Notify NtSuccess msg_sprint_made])
      | Inl e \<Rightarrow> (w\<lparr> ed_quick_saving := False \<rparr>, [Notify NtError (error_or e)]))"

subsection \<open>Plan warnings\<close>

definition plan_warning :: "bool \<Rightarrow> string \<Rightarrow> string list" where
  "plan_warning b m = (if b then [m] else [])"

definition msg_other_milestone :: string where "msg_other_milestone = ''The milestone is not the one of the sprint''"
definition msg_starts_early :: "string \<Rightarrow> string" where "msg_starts_early n = ''The task starts before '' @ n"
definition msg_due_late :: "string \<Rightarrow> string" where "msg_due_late n = ''The task is due after '' @ n"
definition msg_after_milestone :: "string \<Rightarrow> string" where "msg_after_milestone n = ''The task is due after the milestone '' @ n"

definition taskPlanWarnings :: "workspace \<Rightarrow> string list" where
  "taskPlanWarnings w =
     (let f = ed_form w;
          sp = find_key sp_id (opt_str (tp_sprint_id f)) (ws_sprints w);
          ms = find_key pm_id (opt_str (tp_milestone_id f)) (ws_milestones w)
      in (case sp of None \<Rightarrow> [] | Some s \<Rightarrow>
            plan_warning (sp_milestone_id s \<noteq> [] \<and> sp_milestone_id s \<noteq> opt_str (tp_milestone_id f)) msg_other_milestone
            @ plan_warning (truthy (tp_start_date f) \<and> opt_str (tp_start_date f) < sp_start_date s) (msg_starts_early (sp_name s))
            @ plan_warning (truthy (tp_due_date f) \<and> opt_str (tp_due_date f) > sp_end_date s) (msg_due_late (sp_name s)))
         @ (case ms of None \<Rightarrow> [] | Some m \<Rightarrow>
            plan_warning (truthy (pm_due_date m) \<and> truthy (tp_due_date f)
                          \<and> opt_str (tp_due_date f) > opt_str (pm_due_date m)) (msg_after_milestone (pm_name m))))"

end
