(* ===== verification/ProjectSaves.thy ===== *)
theory ProjectSaves
  imports ProjectState
begin

text \<open>
  Saving in the project workspace: templates and preferences with their revisions,
  \<open>patchTask\<close> and \<open>batchPatch\<close> with their optimistic edits, the task editor and deletion
  (\<open>src/console/src/components/project/ProjectWorkspace.tsx\<close>).
\<close>

subsection \<open>Templates\<close>

definition known_or_empty :: "string option \<Rightarrow> string list \<Rightarrow> string option" where
  "known_or_empty v known = (if truthy v \<and> opt_str v \<notin> set known then Some [] else v)"

definition template_values :: "task_patch \<Rightarrow> workspace \<Rightarrow> task_patch" where
  "template_values v w =
     v\<lparr> tp_assignee := known_or_empty (tp_assignee v) (map me_account_id (ws_members w)),
        tp_milestone_id := known_or_empty (tp_milestone_id v) (map pm_id (ws_milestones w)),
        tp_sprint_id := known_or_empty (tp_sprint_id v) (map sp_id (ws_sprints w)),
        tp_dependency_ids := Some (filter (\<lambda>i. i \<in> tk_id ` set (ws_items w)) (nullish (tp_dependency_ids v) [])),
        tp_custom_fields := Some (filter (\<lambda>(k, _). k \<in> cf_id ` set (ws_fields w)) (nullish (tp_custom_fields v) [])) \<rparr>"

definition openTemplate :: "string \<Rightarrow> task_patch \<Rightarrow> workspace \<Rightarrow> workspace" where
  "openTemplate templateId defaults w =
     (case find_key tt_id templateId (ws_templates w) of
        None \<Rightarrow> w
      | Some t \<Rightarrow> w\<lparr> ed_editing := Some None,
                     ed_form := over (over new_task_form (template_values (tt_values t) w)) defaults,
                     ed_dirty := True \<rparr>)"

text \<open>
  A template keeps its parent even when that task is gone; the other references are checked.
\<close>

lemma openTemplate_references:
  assumes "find_key tt_id i (ws_templates w) = Some t"
  shows "set (nullish (tp_dependency_ids (ed_form (openTemplate i empty_patch w))) []) \<subseteq> tk_id ` set (ws_items w)"
    and "tp_parent_id (ed_form (openTemplate i empty_patch w)) = or_else (Some []) (tp_parent_id (tt_values t))"
  using assms by (auto simp: openTemplate_def over_def or_else_def template_values_def empty_patch_def
      new_task_form_def form_of_def blank_task_def split: option.splits)

subsection \<open>Preferences\<close>

record prefs_patch =
  pp_templates :: "task_template list option"
  pp_wip :: "(work_status \<Rightarrow> int option) option"
  pp_views :: "saved_view list option"

definition no_prefs :: prefs_patch where
  "no_prefs = \<lparr> pp_templates = None, pp_wip = None, pp_views = None \<rparr>"

record prefs_request =
  pq_patch :: prefs_patch
  pq_expected_shared :: "int option"
  pq_expected_views :: "int option"

definition savePreferences_begin :: "prefs_patch \<Rightarrow> workspace \<Rightarrow> prefs_request" where
  "savePreferences_begin p w =
     \<lparr> pq_patch = p,
       pq_expected_shared = (if pp_templates p \<noteq> None \<or> pp_wip p \<noteq> None then Some (ws_rev_shared w) else None),
       pq_expected_views = (if pp_views p \<noteq> None then Some (ws_rev_views w) else None) \<rparr>"

definition msg_prefs_stale :: string where
  "msg_prefs_stale = ''The plan settings were changed elsewhere and have been refreshed; try again''"

definition savePreferences_done ::
  "preferences api_res \<Rightarrow> workspace \<Rightarrow> workspace \<times> ws_effect list \<times> unit api_res" where
  "savePreferences_done r w =
     (case r of
        Inr p \<Rightarrow> (set_preferences p w, [], Inr ())
      | Inl e \<Rightarrow>
          (let stale = includes_str ''409'' (error_text e)
           in (w, (if stale then [DoReload] else [])
                  @ [Notify NtError (if stale then msg_prefs_stale else error_or e)], Inl e)))"

definition saved_template :: "string \<Rightarrow> string \<Rightarrow> workspace \<Rightarrow> task_template" where
  "saved_template uid name w =
     \<lparr> tt_id = uid, tt_name = slice_units 40 (trim name), tt_values = (ed_form w)\<lparr> tp_title := None \<rparr> \<rparr>"

definition saveTemplate_begin :: "string \<Rightarrow> string \<Rightarrow> workspace \<Rightarrow> prefs_request" where
  "saveTemplate_begin uid name w =
     savePreferences_begin (no_prefs\<lparr> pp_templates := Some (ws_templates w @ [saved_template uid name w]) \<rparr>) w"

definition msg_template_saved :: string where "msg_template_saved = ''Template saved''"
definition msg_template_deleted :: string where "msg_template_deleted = ''Template deleted''"

definition after_prefs ::
  "(workspace \<Rightarrow> workspace) \<Rightarrow> string list \<Rightarrow> preferences api_res \<Rightarrow> workspace \<Rightarrow> workspace \<times> ws_effect list \<times> unit api_res" where
  "after_prefs f note r w =
     (let (w1, effs, out) = savePreferences_done r w
      in case out of Inr _ \<Rightarrow> (f w1, effs @ map (Notify NtSuccess) note, out) | Inl _ \<Rightarrow> (w1, effs, out))"

definition saveTemplate_done ::
  "preferences api_res \<Rightarrow> workspace \<Rightarrow> workspace \<times> ws_effect list \<times> unit api_res" where
  "saveTemplate_done = after_prefs (\<lambda>w. w\<lparr> ed_template_open := False \<rparr>) [msg_template_saved]"

definition deleteTemplate_begin :: "string \<Rightarrow> workspace \<Rightarrow> prefs_request" where
  "deleteTemplate_begin i w =
     savePreferences_begin (no_prefs\<lparr> pp_templates := Some (drop_key tt_id i (ws_templates w)) \<rparr>) w"

definition deleteTemplate_done ::
  "preferences api_res \<Rightarrow> workspace \<Rightarrow> workspace \<times> ws_effect list \<times> unit api_res" where
  "deleteTemplate_done = after_prefs id [msg_template_deleted]"

text \<open>\<open>saveWip\<close>: only positive limits are sent.\<close>

definition wip_limits :: "(work_status \<Rightarrow> int option) \<Rightarrow> work_status \<Rightarrow> int option" where
  "wip_limits values s = (case values s of Some n \<Rightarrow> if 0 < n then Some n else None | None \<Rightarrow> None)"

definition saveWip_begin :: "(work_status \<Rightarrow> int option) \<Rightarrow> workspace \<Rightarrow> prefs_request" where
  "saveWip_begin values w = savePreferences_begin (no_prefs\<lparr> pp_wip := Some (wip_limits values) \<rparr>) w"

definition saveView_begin :: "saved_view \<Rightarrow> workspace \<Rightarrow> prefs_request" where
  "saveView_begin v w =
     savePreferences_begin (no_prefs\<lparr> pp_views := Some (drop_key vw_name (vw_name v) (ws_views w) @ [v]) \<rparr>) w"

definition deleteView_begin :: "string \<Rightarrow> workspace \<Rightarrow> prefs_request" where
  "deleteView_begin name w =
     savePreferences_begin (no_prefs\<lparr> pp_views := Some (drop_key vw_name name (ws_views w)) \<rparr>) w"

lemma saveView_names_distinct:
  "distinct (map vw_name (ws_views w)) \<Longrightarrow> pp_views (pq_patch (saveView_begin v w)) = Some vs
     \<Longrightarrow> distinct (map vw_name vs)"
  by (auto simp: saveView_begin_def savePreferences_begin_def distinct_drop_key)

subsection \<open>One task\<close>

text \<open>
  \<open>patchTask\<close>: the task as it was rendered is the snapshot a failure restores; a task whose
  save is under way is left alone.
\<close>

definition patchTask_begin :: "task \<Rightarrow> task_patch \<Rightarrow> workspace \<Rightarrow> workspace option" where
  "patchTask_begin t p w =
     (if tk_id t \<in> set (ws_saving w) then None
      else Some (w\<lparr> ws_items := upd_key tk_id (tk_id t) (patched p) (ws_items w),
                    ws_saving := tk_id t # ws_saving w \<rparr>))"

definition patchTask_done :: "task \<Rightarrow> task api_res \<Rightarrow> workspace \<Rightarrow> workspace \<times> ws_effect list" where
  "patchTask_done t r w =
     (case r of
        Inr u \<Rightarrow> (w\<lparr> ws_items := upd_key tk_id (tk_id t) (\<lambda>_. u) (ws_items w),
                     ws_saving := filter (\<lambda>i. i \<noteq> tk_id t) (ws_saving w) \<rparr>, [RefreshActivity])
      | Inl e \<Rightarrow> (w\<lparr> ws_items := upd_key tk_id (tk_id t) (\<lambda>_. t) (ws_items w),
                     ws_saving := filter (\<lambda>i. i \<noteq> tk_id t) (ws_saving w) \<rparr>, [Notify NtError (error_or e)]))"

definition msg_task_deleted :: string where "msg_task_deleted = ''Task deleted''"

definition deleteTask_done :: "unit api_res \<Rightarrow> ws_effect list" where
  "deleteTask_done r =
     (case r of Inr _ \<Rightarrow> [Notify NtSuccess msg_task_deleted, DoReload] | Inl e \<Rightarrow> [Notify NtError (error_or e)])"

subsection \<open>Many tasks\<close>

text \<open>The chosen tasks without a save under way, and the tasks as they are before the edit.\<close>

definition batch_ids :: "workspace \<Rightarrow> string list" where
  "batch_ids w = filter (\<lambda>i. i \<notin> set (ws_saving w)) (ws_selected w)"

definition batch_originals :: "workspace \<Rightarrow> task list" where
  "batch_originals w = filter (\<lambda>t. tk_id t \<in> set (batch_ids w)) (ws_items w)"

definition batchPatch_begin :: "task_patch \<Rightarrow> workspace \<Rightarrow> workspace option" where
  "batchPatch_begin p w =
     (if ws_selected w = [] \<or> batch_ids w = [] then None
      else Some (w\<lparr> ws_items := upd_where (\<lambda>t. tk_id t \<in> set (batch_ids w)) (patched p) (ws_items w),
                    ws_saving := batch_ids w @ ws_saving w \<rparr>))"

text \<open>\<open>returned\<close> and \<open>failedIds\<close> of the results, by the position of the request.\<close>

definition returned_of :: "(string \<times> task api_res) list \<Rightarrow> string \<Rightarrow> task option" where
  "returned_of results i =
     map_option (\<lambda>(j, r). projr r) (find_last (\<lambda>(j, r). j = i \<and> \<not> isl r) results)"

definition failed_ids :: "(string \<times> task api_res) list \<Rightarrow> string list" where
  "failed_ids results = uniq (map fst (filter (\<lambda>(j, r). isl r) results))"

definition settle_item :: "task list \<Rightarrow> (string \<times> task api_res) list \<Rightarrow> task \<Rightarrow> task" where
  "settle_item originals results t =
     (case returned_of results (tk_id t) of
        Some u \<Rightarrow> u
      | None \<Rightarrow> if tk_id t \<in> set (failed_ids results)
                then nullish (find_last (\<lambda>o1. tk_id o1 = tk_id t) originals) t else t)"

definition msg_batch_failed :: "nat \<Rightarrow> nat \<Rightarrow> string" where
  "msg_batch_failed ok bad = dec_nat ok @ '' updated, '' @ dec_nat bad @ '' failed and rolled back''"

definition msg_batch_done :: "nat \<Rightarrow> string" where
  "msg_batch_done n = dec_nat n @ '' tasks updated''"

definition batchPatch_done ::
  "string list \<Rightarrow> task list \<Rightarrow> task api_res list \<Rightarrow> workspace \<Rightarrow> workspace \<times> ws_effect list" where
  "batchPatch_done ids originals answers w =
     (let results = zip ids answers; bad = failed_ids results;
          w1 = w\<lparr> ws_items := map (settle_item originals results) (ws_items w),
                  ws_saving := filter (\<lambda>i. i \<notin> set ids) (ws_saving w), ws_selected := bad \<rparr>
      in (w1, (if bad \<noteq> [] then [Notify NtError (msg_batch_failed (length ids - length bad) (length bad))]
               else [Notify NtSuccess (msg_batch_done (length ids))])
              @ (if \<exists>r\<in>set answers. \<not> isl r then [RefreshActivity] else [])))"

subsection \<open>The editor's save\<close>

definition saveTask_begin :: "workspace \<Rightarrow> workspace" where
  "saveTask_begin w = w\<lparr> ed_saving := True \<rparr>"

definition task_body :: "task_patch \<Rightarrow> task_patch" where
  "task_body v =
     v\<lparr> tp_labels := Some (nullish (tp_labels v) []), tp_assignee := Some (opt_str (tp_assignee v)),
        tp_milestone_id := Some (opt_str (tp_milestone_id v)), tp_sprint_id := Some (opt_str (tp_sprint_id v)),
        tp_parent_id := Some (opt_str (tp_parent_id v)),
        tp_dependency_ids := Some (nullish (tp_dependency_ids v) []),
        tp_start_date := Some (opt_str (tp_start_date v)), tp_due_date := Some (opt_str (tp_due_date v)) \<rparr>"

text \<open>The request: an update of the edited task or a creation.\<close>

definition saveTask_request :: "workspace \<Rightarrow> string option \<times> task_patch" where
  "saveTask_request w =
     ((case ed_editing w of Some (Some t) \<Rightarrow> Some (tk_id t) | _ \<Rightarrow> None), task_body (ed_form w))"

definition msg_task_saved :: string where "msg_task_saved = ''Task saved''"
definition msg_task_created :: string where "msg_task_created = ''Task created''"

definition saveTask_done :: "task api_res \<Rightarrow> workspace \<Rightarrow> workspace \<times> ws_effect list" where
  "saveTask_done r w =
     (case r of
        Inr _ \<Rightarrow> (w\<lparr> ed_dirty := False, ed_editing := None \<rparr>,
                  [Notify NtSuccess (case ed_editing w of Some (Some t) \<Rightarrow> msg_task_saved | _ \<Rightarrow> msg_task_created),
                   DoReload])
      | Inl e \<Rightarrow> (w, [Notify NtError (error_or e)]))"

text \<open>The \<open>finally\<close>, after the reload a success waits for.\<close>

definition saveTask_end :: "workspace \<Rightarrow> workspace" where
  "saveTask_end w = w\<lparr> ed_saving := False \<rparr>"

end
