(* ===== verification/TaskSaves.thy ===== *)
theory TaskSaves
  imports ProjectSaves
begin

text \<open>
  Saves under way at the same time: single and batch saves of
  \<open>src/console/src/components/project/ProjectWorkspace.tsx\<close> are started and answered in any
  order. Their optimistic edits and roll-backs implement the plain list of tasks in which only
  the Server's answers change anything.
\<close>

subsection \<open>The steps\<close>

text \<open>A request under way, with the snapshots its failure restores.\<close>

datatype pending_save = SaveOne task | SaveMany "string list" "task list"

fun pending_ids :: "pending_save \<Rightarrow> string list" where
  "pending_ids (SaveOne t) = [tk_id t]"
| "pending_ids (SaveMany ids os) = ids"

fun pending_originals :: "pending_save \<Rightarrow> task list" where
  "pending_originals (SaveOne t) = [t]"
| "pending_originals (SaveMany ids os) = os"

abbreviation all_ids :: "pending_save list \<Rightarrow> string list" where
  "all_ids ps \<equiv> concat (map pending_ids ps)"

abbreviation all_originals :: "pending_save list \<Rightarrow> task list" where
  "all_originals ps \<equiv> concat (map pending_originals ps)"

text \<open>The tasks in the Server's answers; an answer is about the task that was sent.\<close>

definition answered :: "task api_res list \<Rightarrow> task list" where
  "answered rs = concat (map (\<lambda>r. case r of Inl _ \<Rightarrow> [] | Inr u \<Rightarrow> [u]) rs)"

fun answers_for :: "string list \<Rightarrow> task api_res list \<Rightarrow> bool" where
  "answers_for [] [] = True"
| "answers_for (i # is) (r # rs) =
     ((case r of Inl _ \<Rightarrow> True | Inr u \<Rightarrow> tk_id u = i) \<and> answers_for is rs)"
| "answers_for _ _ = False"

inductive save_step ::
  "workspace \<times> pending_save list \<Rightarrow> task list \<Rightarrow> workspace \<times> pending_save list \<Rightarrow> bool" where
  patch [step_intros]:
    "t \<in> set (ws_items w) \<Longrightarrow> patchTask_begin t p w = Some w' \<Longrightarrow> save_step (w, ps) [] (w', SaveOne t # ps)"
| patch_answer [step_intros]:
    "answers_for [tk_id t] [r] \<Longrightarrow>
       save_step (w, ps1 @ SaveOne t # ps2) (answered [r]) (fst (patchTask_done t r w), ps1 @ ps2)"
| batch [step_intros]:
    "batchPatch_begin p w = Some w' \<Longrightarrow> distinct (ws_selected w) \<Longrightarrow>
       save_step (w, ps) [] (w', SaveMany (batch_ids w) (batch_originals w) # ps)"
| batch_answer [step_intros]:
    "answers_for ids rs \<Longrightarrow>
       save_step (w, ps1 @ SaveMany ids os # ps2) (answered rs) (fst (batchPatch_done ids os rs w), ps1 @ ps2)"
| select [step_intros]:
    "save_step (w, ps) [] (w\<lparr> ws_selected := ids \<rparr>, ps)"

inductive save_run ::
  "workspace \<times> pending_save list \<Rightarrow> task list \<Rightarrow> workspace \<times> pending_save list \<Rightarrow> bool" where
  stop: "save_run s [] s"
| step: "save_run s us s' \<Longrightarrow> save_step s' vs s'' \<Longrightarrow> save_run s (us @ vs) s''"

subsection \<open>The abstract list\<close>

definition server_apply :: "task list \<Rightarrow> task list \<Rightarrow> task list" where
  "server_apply us ts = fold (\<lambda>u. upd_key tk_id (tk_id u) (\<lambda>_. u)) us ts"

definition settled_item :: "pending_save list \<Rightarrow> task \<Rightarrow> task" where
  "settled_item ps t = nullish (find_key tk_id (tk_id t) (all_originals ps)) t"

definition settled :: "workspace \<times> pending_save list \<Rightarrow> task list" where
  "settled s = map (settled_item (snd s)) (ws_items (fst s))"

definition saves_ok :: "workspace \<times> pending_save list \<Rightarrow> bool" where
  "saves_ok s \<longleftrightarrow> (case s of (w, ps) \<Rightarrow>
     distinct (map tk_id (ws_items w)) \<and> distinct (all_ids ps) \<and> set (all_ids ps) = set (ws_saving w)
     \<and> (\<forall>P\<in>set ps. distinct (map tk_id (pending_originals P))
          \<and> tk_id ` set (pending_originals P) = set (pending_ids P) \<inter> tk_id ` set (ws_items w)))"

lemma saves_okD:
  assumes "saves_ok (w, ps)"
  shows "distinct (map tk_id (ws_items w))" "distinct (all_ids ps)" "set (all_ids ps) = set (ws_saving w)"
    "P \<in> set ps \<Longrightarrow> distinct (map tk_id (pending_originals P))"
    "P \<in> set ps \<Longrightarrow> tk_id ` set (pending_originals P) = set (pending_ids P) \<inter> tk_id ` set (ws_items w)"
  using assms by (simp_all add: saves_ok_def)

lemma originals_ids:
  "\<forall>P\<in>set ps. tk_id ` set (pending_originals P) \<subseteq> set (pending_ids P) \<Longrightarrow>
     tk_id ` set (all_originals ps) \<subseteq> set (all_ids ps)"
  by (induction ps) auto

lemma originals_distinct:
  "distinct (all_ids ps) \<Longrightarrow>
     \<forall>P\<in>set ps. distinct (map tk_id (pending_originals P)) \<and> tk_id ` set (pending_originals P) \<subseteq> set (pending_ids P)
     \<Longrightarrow> distinct (map tk_id (all_originals ps))"
proof (induction ps)
  case (Cons P ps)
  then have "tk_id ` set (all_originals ps) \<subseteq> set (all_ids ps)" by (intro originals_ids) simp
  with Cons have "tk_id ` set (pending_originals P) \<inter> tk_id ` set (all_originals ps) = {}" by fastforce
  with Cons show ?case by (simp add: image_Un)
qed simp

lemma saves_ok_originals:
  assumes "saves_ok (w, ps)"
  shows "distinct (map tk_id (all_originals ps))" "tk_id ` set (all_originals ps) \<subseteq> set (ws_saving w)"
  using assms originals_distinct [of ps] originals_ids [of ps] by (auto simp: saves_ok_def)

lemma server_apply_simps [simp]:
  "server_apply [] ts = ts"
  "server_apply (us @ vs) ts = server_apply vs (server_apply us ts)"
  "server_apply [u] ts = upd_key tk_id (tk_id u) (\<lambda>_. u) ts"
  by (simp_all add: server_apply_def)

lemma find_key_append:
  "find_key key k (xs @ ys) = (case find_key key k xs of None \<Rightarrow> find_key key k ys | Some x \<Rightarrow> Some x)"
  by (induction xs) (auto simp: find_key_def)

lemma find_absent: "i \<notin> tk_id ` set os \<Longrightarrow> find_key tk_id i os = None"
  by (simp add: find_key_None)

lemma server_apply_map:
  "distinct (map tk_id us) \<Longrightarrow> server_apply us ts = map (\<lambda>t. nullish (find_key tk_id (tk_id t) us) t) ts"
proof (induction us arbitrary: ts)
  case Nil
  then show ?case by (simp add: find_key_def)
next
  case (Cons u us)
  have "nullish (find_key tk_id (tk_id x) us) x = nullish (find_key tk_id (tk_id t) (u # us)) t"
    if "x = (if tk_id t = tk_id u then u else t)" for x t
    using that Cons.prems find_absent [of "tk_id u" us]
    by (cases "tk_id t = tk_id u") (simp_all add: find_key_def)
  moreover have "server_apply (u # us) ts = server_apply us (upd_key tk_id (tk_id u) (\<lambda>_. u) ts)"
    by (simp add: server_apply_def)
  ultimately show ?case
    using Cons by (simp add: upd_where_def)
qed

lemma find_original:
  "distinct (map tk_id os) \<Longrightarrow> o1 \<in> set os \<Longrightarrow> tk_id o1 = i \<Longrightarrow> find_key tk_id i os = Some o1"
  using find_key_unique [of tk_id os o1] by simp

lemma find_middle:
  "i \<notin> tk_id ` set ys \<Longrightarrow> find_key tk_id i (xs @ ys @ zs) = find_key tk_id i (xs @ zs)"
  by (simp add: find_key_append find_absent split: option.splits)

subsection \<open>Answers\<close>

lemma answered_simps [simp]:
  "answered [] = []"
  "answered (Inl e # rs) = answered rs"
  "answered (Inr u # rs) = u # answered rs"
  by (simp_all add: answered_def)

lemma answers_for_ids: "answers_for is rs \<Longrightarrow> tk_id ` set (answered rs) \<subseteq> set is"
  by (induction "is" rs rule: answers_for.induct) (auto split: sum.splits)

lemma answers_for_distinct: "answers_for is rs \<Longrightarrow> distinct is \<Longrightarrow> distinct (map tk_id (answered rs))"
  by (induction "is" rs rule: answers_for.induct) (auto split: sum.splits dest: answers_for_ids)

lemma find_last_Cons:
  "find_last p (x # xs) = (case find_last p xs of None \<Rightarrow> if p x then Some x else None | Some y \<Rightarrow> Some y)"
proof -
  have "List.find p (ys @ [x]) = (case List.find p ys of None \<Rightarrow> if p x then Some x else None | Some y \<Rightarrow> Some y)" for ys
    by (induction ys) auto
  then show ?thesis by (simp add: find_last_def)
qed

lemma returned_of_Cons:
  "returned_of ((j, r) # rs) i =
     (case returned_of rs i of Some u \<Rightarrow> Some u
      | None \<Rightarrow> if j = i \<and> \<not> isl r then Some (projr r) else None)"
  by (auto simp: returned_of_def find_last_Cons split: option.splits)

lemma failed_ids_Cons: "set (failed_ids ((j, r) # rs)) = (if isl r then {j} else {}) \<union> set (failed_ids rs)"
  by (simp add: failed_ids_def)

lemma answers_lookup:
  assumes "answers_for is rs" "distinct is"
  shows "returned_of (zip is rs) i = find_key tk_id i (answered rs)
    \<and> (i \<in> set (failed_ids (zip is rs)) \<longleftrightarrow> i \<in> set is \<and> find_key tk_id i (answered rs) = None)"
  using assms
proof (induction "is" rs rule: answers_for.induct)
  case 1
  show ?case by (simp add: returned_of_def find_last_def find_key_def failed_ids_def uniq_def)
next
  case (2 j js r rs)
  then have IH: "returned_of (zip js rs) i = find_key tk_id i (answered rs)"
      "i \<in> set (failed_ids (zip js rs)) \<longleftrightarrow> i \<in> set js \<and> find_key tk_id i (answered rs) = None"
    by simp_all
  have "j \<notin> tk_id ` set (answered rs)" using 2(2,3) answers_for_ids by fastforce
  then have j: "find_key tk_id j (answered rs) = None" by (rule find_absent)
  show ?case
  proof (cases r)
    case (Inl e)
    with IH j 2(3) show ?thesis
      by (auto simp: returned_of_Cons failed_ids_Cons split: option.splits)
  next
    case (Inr u)
    with 2(2) have "tk_id u = j" by simp
    then have "find_key tk_id i (answered (r # rs)) = (if i = j then Some u else find_key tk_id i (answered rs))"
      using Inr by (simp add: find_key_def)
    with Inr IH j 2(3) show ?thesis
      by (auto simp: returned_of_Cons failed_ids_Cons split: option.splits)
  qed
qed simp_all

lemma find_last_original:
  "distinct (map tk_id os) \<Longrightarrow> find_last (\<lambda>o1. tk_id o1 = i) os = find_key tk_id i os"
proof (cases "find_key tk_id i os")
  case None
  then have "find_last (\<lambda>o1. tk_id o1 = i) os = None"
    by (auto simp: find_key_None find_last_None)
  with None show ?thesis by simp
next
  case (Some x)
  assume "distinct (map tk_id os)"
  then have "find_key tk_id (tk_id x) (rev os) = Some x"
    using Some by (intro find_key_unique) (auto simp: rev_map [symmetric] dest: find_key_Some)
  with Some show ?thesis
    using find_key_Some [OF Some] by (simp add: find_last_def find_key_def)
qed

lemma settle_item_spec:
  assumes "answers_for is rs" "distinct is" "distinct (map tk_id os)"
  shows "settle_item os (zip is rs) t =
    (if tk_id t \<in> set is then nullish (find_key tk_id (tk_id t) (answered rs)) (nullish (find_key tk_id (tk_id t) os) t)
     else t)"
proof -
  have "find_key tk_id (tk_id t) (answered rs) = None" if "tk_id t \<notin> set is"
    using that answers_for_ids [OF assms(1)] by (intro find_absent) blast
  then show ?thesis
    using answers_lookup [OF assms(1,2), of "tk_id t"] assms(3)
    by (auto simp: settle_item_def find_last_original split: option.splits)
qed

subsection \<open>The steps implement the abstract list\<close>

lemma settled_item_id [simp]: "tk_id (settled_item ps t) = tk_id t"
  by (auto simp: settled_item_def nullish_def split: option.splits dest: find_key_Some)

lemma map_settled:
  assumes "ws_items w' = map h (ws_items w)" "us = [] \<or> distinct (map tk_id us)"
    and "\<And>t. t \<in> set (ws_items w) \<Longrightarrow>
      settled_item ps' (h t) = nullish (find_key tk_id (tk_id t) us) (settled_item ps t)"
  shows "settled (w', ps') = server_apply us (settled (w, ps))"
proof -
  have "distinct (map tk_id us)" using assms(2) by auto
  then have "server_apply us (settled (w, ps)) =
      map (\<lambda>t. nullish (find_key tk_id (tk_id t) us) (settled_item ps t)) (ws_items w)"
    by (simp add: server_apply_map settled_def)
  with assms(1,3) show ?thesis by (simp add: settled_def)
qed

lemma patch_settled:
  assumes ok: "saves_ok (w, ps)" and t: "t \<in> set (ws_items w)" and b: "patchTask_begin t p w = Some w'"
  shows "saves_ok (w', SaveOne t # ps) \<and> settled (w', SaveOne t # ps) = settled (w, ps)"
proof
  have new: "tk_id t \<notin> set (ws_saving w)"
    and w': "w' = w\<lparr> ws_items := upd_key tk_id (tk_id t) (patched p) (ws_items w), ws_saving := tk_id t # ws_saving w \<rparr>"
    using b by (auto simp: patchTask_begin_def split: if_splits)
  have ids: "map tk_id (ws_items w') = map tk_id (ws_items w)" by (simp add: w' map_upd_key)
  then have same: "tk_id ` set (ws_items w') = tk_id ` set (ws_items w)" by (metis set_map)
  have absent: "tk_id t \<notin> tk_id ` set (all_originals ps)" using saves_ok_originals [OF ok] new by blast
  show "saves_ok (w', SaveOne t # ps)"
    using ok t new absent ids same by (auto simp: saves_ok_def w')
  have "settled_item (SaveOne t # ps) (if tk_id x = tk_id t then patched p x else x) = settled_item ps x"
    if "x \<in> set (ws_items w)" for x
  proof (cases "tk_id x = tk_id t")
    case True
    then have "x = t" using ok t that by (metis (mono_tags, lifting) saves_ok_def case_prod_conv distinct_map inj_onD)
    with absent show ?thesis by (simp add: settled_item_def find_key_def find_None_iff find_absent [unfolded find_key_def])
  next
    case False
    then show ?thesis by (simp add: settled_item_def find_key_def)
  qed
  then have "settled (w', SaveOne t # ps) = server_apply [] (settled (w, ps))"
    by (intro map_settled [where h = "\<lambda>x. if tk_id x = tk_id t then patched p x else x"])
       (simp_all add: w' upd_where_def find_key_def)
  then show "settled (w', SaveOne t # ps) = settled (w, ps)" by simp
qed

lemma settled_remove:
  assumes "tk_id t \<notin> tk_id ` set (pending_originals P)"
  shows "settled_item (ps1 @ P # ps2) t = settled_item (ps1 @ ps2) t"
  using find_middle [OF assms, of "all_originals ps1" "all_originals ps2"] by (simp add: settled_item_def)

lemma distinct_middle:
  "distinct (xs @ ys @ zs) \<Longrightarrow> distinct (xs @ zs) \<and> set (xs @ zs) = set (xs @ ys @ zs) - set ys"
  by auto

lemma settled_at:
  assumes "distinct (map tk_id (all_originals (ps1 @ P # ps2)))" "o1 \<in> set (pending_originals P)" "tk_id o1 = tk_id t"
  shows "settled_item (ps1 @ P # ps2) t = o1" "settled_item (ps1 @ ps2) t = t"
proof -
  have "o1 \<in> set (all_originals (ps1 @ P # ps2))" using assms(2) by simp
  from find_original [OF assms(1) this assms(3)]
  show "settled_item (ps1 @ P # ps2) t = o1" unfolding settled_item_def by simp
  have "tk_id t \<in> set (map tk_id (pending_originals P))" using assms(2,3) by (metis image_eqI set_map)
  moreover have "distinct (map tk_id (all_originals ps1) @ map tk_id (pending_originals P) @ map tk_id (all_originals ps2))"
    using assms(1) by simp
  ultimately have "tk_id t \<notin> set (map tk_id (all_originals ps1) @ map tk_id (all_originals ps2))"
    using distinct_middle by (metis DiffD2)
  then have "tk_id t \<notin> tk_id ` set (all_originals (ps1 @ ps2))" by (simp add: image_Un)
  from find_absent [OF this] show "settled_item (ps1 @ ps2) t = t" unfolding settled_item_def by simp
qed

lemma saves_ok_remove:
  assumes ok: "saves_ok (w, ps1 @ P # ps2)"
    and items: "map tk_id (ws_items w') = map tk_id (ws_items w)"
    and saving: "set (ws_saving w') = set (ws_saving w) - set (pending_ids P)"
  shows "saves_ok (w', ps1 @ ps2)"
proof -
  have same: "tk_id ` set (ws_items w') = tk_id ` set (ws_items w)" using items by (metis set_map)
  have "distinct (all_ids ps1 @ pending_ids P @ all_ids ps2)" using saves_okD(2) [OF ok] by simp
  from distinct_middle [OF this]
  have "distinct (all_ids (ps1 @ ps2))" "set (all_ids (ps1 @ ps2)) = set (all_ids (ps1 @ P # ps2)) - set (pending_ids P)"
    by simp_all
  then have "distinct (all_ids (ps1 @ ps2))" "set (all_ids (ps1 @ ps2)) = set (ws_saving w')"
    using saves_okD(3) [OF ok] saving by simp_all
  moreover have "distinct (map tk_id (ws_items w'))"
    using saves_okD(1) [OF ok] items by simp
  ultimately show ?thesis
    using saves_okD(4,5) [OF ok] unfolding saves_ok_def prod.case same by simp
qed

lemma patch_answer_settled:
  assumes ok: "saves_ok (w, ps1 @ SaveOne t # ps2)" and r: "answers_for [tk_id t] [r]"
  shows "saves_ok (fst (patchTask_done t r w), ps1 @ ps2)
    \<and> settled (fst (patchTask_done t r w), ps1 @ ps2) = server_apply (answered [r]) (settled (w, ps1 @ SaveOne t # ps2))"
proof
  define v where "v = (case r of Inl _ \<Rightarrow> t | Inr u \<Rightarrow> u)"
  let ?w = "fst (patchTask_done t r w)"
  have v: "tk_id v = tk_id t" using r by (simp add: v_def split: sum.splits)
  have w': "ws_items ?w = upd_key tk_id (tk_id t) (\<lambda>_. v) (ws_items w)"
      "ws_saving ?w = filter (\<lambda>i. i \<noteq> tk_id t) (ws_saving w)"
    by (simp_all add: patchTask_done_def v_def split: sum.splits)
  show "saves_ok (?w, ps1 @ ps2)"
    by (rule saves_ok_remove [OF ok]) (auto simp: w' map_upd_key v)
  show "settled (?w, ps1 @ ps2) = server_apply (answered [r]) (settled (w, ps1 @ SaveOne t # ps2))"
  proof (rule map_settled [where h = "\<lambda>x. if tk_id x = tk_id t then v else x"])
    show "ws_items ?w = map (\<lambda>x. if tk_id x = tk_id t then v else x) (ws_items w)"
      by (simp only: w' upd_where_def)
    show "answered [r] = [] \<or> distinct (map tk_id (answered [r]))"
      by (cases r) simp_all
    fix x
    show "settled_item (ps1 @ ps2) (if tk_id x = tk_id t then v else x) =
        nullish (find_key tk_id (tk_id x) (answered [r])) (settled_item (ps1 @ SaveOne t # ps2) x)"
    proof (cases "tk_id x = tk_id t")
      case True
      have "settled_item (ps1 @ SaveOne t # ps2) x = t" "settled_item (ps1 @ ps2) v = v"
        using settled_at [OF saves_ok_originals(1) [OF ok], of t] True v by simp_all
      with True r show ?thesis
        by (cases r) (simp_all add: v_def find_key_def)
    next
      case False
      then have "settled_item (ps1 @ SaveOne t # ps2) x = settled_item (ps1 @ ps2) x"
        by (intro settled_remove) simp
      moreover have "find_key tk_id (tk_id x) (answered [r]) = None"
        using answers_for_ids [OF r] False by (intro find_absent) auto
      ultimately show ?thesis using False by simp
    qed
  qed
qed

lemma batch_settled:
  assumes ok: "saves_ok (w, ps)" and b: "batchPatch_begin p w = Some w'" and sel: "distinct (ws_selected w)"
  shows "saves_ok (w', SaveMany (batch_ids w) (batch_originals w) # ps)
    \<and> settled (w', SaveMany (batch_ids w) (batch_originals w) # ps) = settled (w, ps)"
proof
  let ?P = "SaveMany (batch_ids w) (batch_originals w)"
  have w': "ws_items w' = upd_where (\<lambda>t. tk_id t \<in> set (batch_ids w)) (patched p) (ws_items w)"
      "ws_saving w' = batch_ids w @ ws_saving w"
    using b by (auto simp: batchPatch_begin_def split: if_splits)
  have ids: "map tk_id (ws_items w') = map tk_id (ws_items w)" by (simp add: w' upd_where_def)
  then have same: "tk_id ` set (ws_items w') = tk_id ` set (ws_items w)" by (metis set_map)
  have new: "set (batch_ids w) \<inter> set (ws_saving w) = {}" "distinct (batch_ids w)"
    using sel by (auto simp: batch_ids_def)
  have orig: "distinct (map tk_id (batch_originals w))"
      "tk_id ` set (batch_originals w) = set (batch_ids w) \<inter> tk_id ` set (ws_items w)"
    using saves_okD(1) [OF ok] by (auto simp: batch_originals_def distinct_map_filter)
  show "saves_ok (w', ?P # ps)"
    using saves_okD [OF ok] new ids same orig by (simp add: saves_ok_def w'(2) Int_commute)
  have absent: "tk_id x \<in> set (batch_ids w) \<Longrightarrow> tk_id x \<notin> tk_id ` set (all_originals ps)" for x
    using saves_ok_originals(2) [OF ok] new(1) by blast
  have "settled_item (?P # ps) (if tk_id x \<in> set (batch_ids w) then patched p x else x) = settled_item ps x"
    if x: "x \<in> set (ws_items w)" for x
  proof (cases "tk_id x \<in> set (batch_ids w)")
    case True
    then have "x \<in> set (batch_originals w)" using x by (simp add: batch_originals_def)
    then have "find_key tk_id (tk_id x) (batch_originals w) = Some x"
      using orig(1) by (intro find_original) simp_all
    with True absent [OF True] show ?thesis by (simp add: settled_item_def find_key_append find_absent)
  next
    case False
    then have "tk_id x \<notin> tk_id ` set (batch_originals w)" using orig(2) by blast
    with False show ?thesis by (simp add: settled_item_def find_key_append find_absent)
  qed
  then have "settled (w', ?P # ps) = server_apply [] (settled (w, ps))"
    by (intro map_settled [where h = "\<lambda>x. if tk_id x \<in> set (batch_ids w) then patched p x else x"])
       (simp_all add: w' upd_where_def find_key_def)
  then show "settled (w', ?P # ps) = settled (w, ps)" by simp
qed

lemma batch_answer_settled:
  assumes ok: "saves_ok (w, ps1 @ SaveMany ids os # ps2)" and r: "answers_for ids rs"
  shows "saves_ok (fst (batchPatch_done ids os rs w), ps1 @ ps2)
    \<and> settled (fst (batchPatch_done ids os rs w), ps1 @ ps2) =
       server_apply (answered rs) (settled (w, ps1 @ SaveMany ids os # ps2))"
proof
  let ?P = "SaveMany ids os" let ?w = "fst (batchPatch_done ids os rs w)"
  have w': "ws_items ?w = map (settle_item os (zip ids rs)) (ws_items w)"
      "ws_saving ?w = filter (\<lambda>i. i \<notin> set ids) (ws_saving w)"
    by (simp_all add: batchPatch_done_def Let_def)
  have dist: "distinct ids" "distinct (map tk_id os)" "tk_id ` set os = set ids \<inter> tk_id ` set (ws_items w)"
    using saves_okD(2) [OF ok] saves_okD(4,5) [OF ok, of ?P] by simp_all
  note spec = settle_item_spec [OF r dist(1,2)]
  have id: "tk_id (settle_item os (zip ids rs) x) = tk_id x" for x
    by (auto simp: spec nullish_def split: option.splits dest: find_key_Some)
  show "saves_ok (?w, ps1 @ ps2)"
    by (rule saves_ok_remove [OF ok]) (auto simp: w' id)
  show "settled (?w, ps1 @ ps2) = server_apply (answered rs) (settled (w, ps1 @ ?P # ps2))"
  proof (rule map_settled [OF w'(1)])
    show "answered rs = [] \<or> distinct (map tk_id (answered rs))"
      using answers_for_distinct [OF r dist(1)] by blast
    fix x assume x: "x \<in> set (ws_items w)"
    let ?x = "settle_item os (zip ids rs) x"
    show "settled_item (ps1 @ ps2) ?x =
        nullish (find_key tk_id (tk_id x) (answered rs)) (settled_item (ps1 @ ?P # ps2) x)"
    proof (cases "tk_id x \<in> set ids")
      case True
      then obtain o1 where o1: "o1 \<in> set os" "tk_id o1 = tk_id x"
        using dist(3) x by (metis IntI image_eqI imageE)
      have "settled_item (ps1 @ ?P # ps2) x = o1" "settled_item (ps1 @ ps2) ?x = ?x"
        using settled_at [OF saves_ok_originals(1) [OF ok], of o1] o1 id by simp_all
      moreover have "find_key tk_id (tk_id x) os = Some o1"
        using dist(2) o1 by (intro find_original)
      ultimately show ?thesis using True by (simp add: spec)
    next
      case False
      then have "settled_item (ps1 @ ?P # ps2) x = settled_item (ps1 @ ps2) x"
        using dist(3) by (intro settled_remove) auto
      moreover have "find_key tk_id (tk_id x) (answered rs) = None"
        using answers_for_ids [OF r] False by (intro find_absent) blast
      ultimately show ?thesis using False by (simp add: spec)
    qed
  qed
qed

lemma save_step_settled:
  "save_step s us s' \<Longrightarrow> saves_ok s \<Longrightarrow> saves_ok s' \<and> settled s' = server_apply us (settled s)"
proof (induction rule: save_step.induct)
  case (patch t w p w' ps)
  then show ?case using patch_settled by simp
next
  case (patch_answer t r w ps1 ps2)
  then show ?case using patch_answer_settled by blast
next
  case (batch p w w' ps)
  then show ?case using batch_settled by simp
next
  case (batch_answer ids rs w ps1 os ps2)
  then show ?case using batch_answer_settled by blast
next
  case (select w ps ids)
  then show ?case by (simp add: saves_ok_def settled_def)
qed

lemma save_run_settled:
  "save_run s us s' \<Longrightarrow> saves_ok s \<Longrightarrow> saves_ok s' \<and> settled s' = server_apply us (settled s)"
  by (induction rule: save_run.induct) (auto dest: save_step_settled)

lemma settled_none: "settled (w, []) = ws_items w"
proof -
  have "settled_item [] = id" by (auto simp: settled_item_def find_key_def)
  then show ?thesis by (simp add: settled_def)
qed

text \<open>
  C6. Optimistic saves implement the plain task list: whatever single and batch saves are
  started and in whatever order the Server accepts or refuses them, the list with the pending
  edits taken back is the list the Server's answers alone make of the first one; and when no
  request is left, that is what the workspace shows and no task is marked as being saved.
\<close>

theorem saves_show_what_the_server_accepted:
  assumes "save_run (w, []) us (w', ps)" "distinct (map tk_id (ws_items w))" "ws_saving w = []"
  shows "settled (w', ps) = server_apply us (ws_items w)
    \<and> (ps = [] \<longrightarrow> ws_items w' = server_apply us (ws_items w) \<and> ws_saving w' = [])"
proof -
  have "saves_ok (w, [])" using assms(2,3) by (simp add: saves_ok_def)
  from save_run_settled [OF assms(1) this]
  have fin: "saves_ok (w', ps)" "settled (w', ps) = server_apply us (ws_items w)"
    by (simp_all add: settled_none)
  then show ?thesis
    using saves_okD(3) [OF fin(1)] settled_none by auto
qed

text \<open>Two saves cross: the one of \<open>a\<close> is refused after the one of \<open>b\<close> was accepted.\<close>

definition demo_project :: console_project where
  "demo_project = \<lparr> cp_id = ''p'', cp_name = ''P'', cp_role = RoOwner, cp_archived_at = 0 \<rparr>"

definition demo_workspace :: workspace where
  "demo_workspace = (initial_workspace demo_project)\<lparr> ws_items := [blank_task ''a'' [], blank_task ''b'' []] \<rparr>"

abbreviation mark_done :: task_patch where
  "mark_done \<equiv> empty_patch\<lparr> tp_status := Some WDone \<rparr>"

definition demo_b :: task where
  "demo_b = (blank_task ''b'' [])\<lparr> tk_status := WDone, tk_version := 1 \<rparr>"

theorem saves_show_what_the_server_accepted_witness:
  "\<exists>w'. save_run (demo_workspace, []) [demo_b] (w', []) \<and> ws_items w' = [blank_task ''a'' [], demo_b] \<and> ws_saving w' = []"
proof -
  let ?a = "blank_task ''a'' []" and ?b = "blank_task ''b'' []"
  define w1 where "w1 = the (patchTask_begin ?a mark_done demo_workspace)"
  define w2 where "w2 = the (patchTask_begin ?b mark_done w1)"
  define w3 where "w3 = fst (patchTask_done ?b (Inr demo_b) w2)"
  define w4 where "w4 = fst (patchTask_done ?a (Inl (ApiError [] 500)) w3)"
  have b1: "patchTask_begin ?a mark_done demo_workspace = Some w1"
    and b2: "patchTask_begin ?b mark_done w1 = Some w2"
    by (simp_all add: w1_def w2_def patchTask_begin_def demo_workspace_def initial_workspace_def)
  have m: "?a \<in> set (ws_items demo_workspace)" "?b \<in> set (ws_items w1)"
    by (simp_all add: w1_def patchTask_begin_def demo_workspace_def initial_workspace_def)
  have r1: "save_run (demo_workspace, []) ([] @ []) (w1, [SaveOne ?a])"
    using save_run.step [OF save_run.stop save_step.patch [OF m(1) b1]] .
  have r2: "save_run (demo_workspace, []) (([] @ []) @ []) (w2, [SaveOne ?b, SaveOne ?a])"
    using save_run.step [OF r1 save_step.patch [OF m(2) b2]] .
  have r3: "save_run (demo_workspace, []) ((([] @ []) @ []) @ answered [Inr demo_b]) (w3, [] @ [SaveOne ?a])"
    unfolding w3_def
    by (rule save_run.step [OF r2]) (use save_step.patch_answer [of ?b "Inr demo_b" w2 "[]" "[SaveOne ?a]"] in
        \<open>simp add: demo_b_def\<close>)
  have r4: "save_run (demo_workspace, []) [demo_b] (w4, [])"
    using save_run.step [OF r3, of "[]" "(w4, [])"] save_step.patch_answer [of ?a "Inl (ApiError [] 500)" w3 "[]" "[]"]
    by (simp add: w4_def)
  have "distinct (map tk_id (ws_items demo_workspace))" "ws_saving demo_workspace = []"
    by (simp_all add: demo_workspace_def initial_workspace_def)
  from saves_show_what_the_server_accepted [OF r4 this] r4
  show ?thesis
    by (intro exI [of _ w4]) (simp add: demo_workspace_def initial_workspace_def demo_b_def)
qed

end
