(* ===== verification/PmPreferences.thy ===== *)
theory PmPreferences
  imports ProjectSaves
begin

text \<open>
  The shared plan settings of a project between several consoles: the Server's compare of
  revisions (\<open>save_project_pm_preferences\<close> in \<open>src/server/db.py\<close> and the route in
  \<open>src/server/routers/pm.py\<close>) and the console's \<open>savePreferences\<close> on top of it.
\<close>

subsection \<open>The Server's side\<close>

record server_prefs =
  sq_templates :: "task_template list"
  sq_wip :: "work_status \<Rightarrow> int option"
  sq_views :: "saved_view list"
  sq_shared_rev :: int
  sq_views_rev :: int

text \<open>
  \<open>save_project_pm_preferences\<close>: \<open>None\<close> is \<open>False\<close> after a rollback. Time stamps are counted in
  microseconds; \<open>now\<close> is the clock.
\<close>

definition save_project_pm_preferences :: "int \<Rightarrow> prefs_request \<Rightarrow> server_prefs \<Rightarrow> server_prefs option" where
  "save_project_pm_preferences now q s =
     (let p = pq_patch q in
      if (\<exists>r. pq_expected_shared q = Some r \<and> sq_shared_rev s \<noteq> r)
       \<or> (\<exists>r. pq_expected_views q = Some r \<and> sq_views_rev s \<noteq> r) then None
      else Some (s\<lparr>
        sq_templates := nullish (pp_templates p) (sq_templates s),
        sq_wip := nullish (pp_wip p) (sq_wip s),
        sq_shared_rev := (if pp_templates p \<noteq> None \<or> pp_wip p \<noteq> None
                          then max now (sq_shared_rev s + 1) else sq_shared_rev s),
        sq_views := nullish (pp_views p) (sq_views s),
        sq_views_rev := (if pp_views p \<noteq> None then max now (sq_views_rev s + 1) else sq_views_rev s) \<rparr>))"

definition get_project_pm_preferences :: "server_prefs \<Rightarrow> preferences" where
  "get_project_pm_preferences s =
     \<lparr> pf_templates = sq_templates s, pf_wip = sq_wip s, pf_views = sq_views s,
       pf_shared_updated_at = sq_shared_rev s, pf_views_updated_at = sq_views_rev s \<rparr>"

definition conflict_detail :: string where
  "conflict_detail = ''PM preferences changed; refresh and retry''"

definition conflict_answer :: http_response where
  "conflict_answer = \<lparr> hr_status = 409, hr_body = Some (JObj [(''detail'', JStr conflict_detail)]) \<rparr>"

text \<open>
  The route, for a patch that passes its validation, as \<open>apiRequest\<close> gives its outcome to the
  console.
\<close>

definition update_pm_preferences ::
  "(json \<Rightarrow> string) \<Rightarrow> int \<Rightarrow> prefs_request \<Rightarrow> server_prefs \<Rightarrow> preferences api_res \<times> server_prefs" where
  "update_pm_preferences stringify now q s =
     (case save_project_pm_preferences now q s of
        None \<Rightarrow> (Inl (ApiError (refusal stringify conflict_answer) (hr_status conflict_answer)), s)
      | Some s1 \<Rightarrow> (Inr (get_project_pm_preferences s1), s1))"

text \<open>One \<open>savePreferences\<close> against the Server.\<close>

definition save_attempt ::
  "(json \<Rightarrow> string) \<Rightarrow> int \<Rightarrow> prefs_patch \<Rightarrow> workspace \<times> server_prefs
     \<Rightarrow> (workspace \<times> server_prefs) \<times> ws_effect list \<times> unit api_res" where
  "save_attempt stringify now p ws =
     (case ws of (w, s) \<Rightarrow>
        let (r, s1) = update_pm_preferences stringify now (savePreferences_begin p w) s;
            (w1, effs, out) = savePreferences_done r w
        in ((w1, s1), effs, out))"

fun save_attempts ::
  "(json \<Rightarrow> string) \<Rightarrow> int list \<Rightarrow> prefs_patch \<Rightarrow> workspace \<times> server_prefs
     \<Rightarrow> (workspace \<times> server_prefs) \<times> ws_effect list list" where
  "save_attempts stringify [] p ws = (ws, [])"
| "save_attempts stringify (now # nows) p ws =
     (let (ws1, effs, out) = save_attempt stringify now p ws;
          (ws2, rest) = save_attempts stringify nows p ws1
      in (ws2, effs # rest))"

subsection \<open>What they do together\<close>

text \<open>The console's revisions are the Server's.\<close>

definition in_sync :: "workspace \<times> server_prefs \<Rightarrow> bool" where
  "in_sync ws \<longleftrightarrow> (case ws of (w, s) \<Rightarrow>
     ws_rev_shared w = sq_shared_rev s \<and> ws_rev_views w = sq_views_rev s
     \<and> ws_templates w = sq_templates s \<and> ws_wip w = sq_wip s \<and> ws_views w = sq_views s)"

text \<open>In sync, a save is accepted and leaves both in sync, so that the next one is accepted too.\<close>

lemma synced_save_succeeds:
  assumes "in_sync (w, s)"
  shows "in_sync (fst (save_attempt stringify now p (w, s)))
    \<and> snd (snd (save_attempt stringify now p (w, s))) = Inr ()
    \<and> sq_templates (snd (fst (save_attempt stringify now p (w, s)))) = nullish (pp_templates p) (sq_templates s)"
proof -
  have "\<exists>s1. save_project_pm_preferences now (savePreferences_begin p w) s = Some s1
      \<and> sq_templates s1 = nullish (pp_templates p) (sq_templates s)"
    using assms by (auto simp: save_project_pm_preferences_def savePreferences_begin_def in_sync_def)
  then show ?thesis
    by (auto simp: save_attempt_def update_pm_preferences_def savePreferences_done_def in_sync_def
        set_preferences_def get_project_pm_preferences_def)
qed

lemma conflict_text: "refusal stringify conflict_answer = conflict_detail"
  by (rule refusal_detail [of _ "[(''detail'', JStr conflict_detail)]"]) (simp_all add: conflict_answer_def)

lemma conflict_status: "hr_status conflict_answer = 409"
  by (simp add: conflict_answer_def)

lemma conflict_not_recognised: "\<not> includes_str ''409'' conflict_detail"
  by code_simp

text \<open>
  C25. Once another console has changed the shared plan settings, a console that goes on saving
  them never gets through: the Server's refusal carries a text without the digits the console
  looks for, so it neither reloads nor learns the new revision, and every retry sends the same
  stale one and is refused like the first.
\<close>

theorem stale_preferences_never_recover:
  assumes "sq_shared_rev s \<noteq> ws_rev_shared w" "pp_templates p \<noteq> None \<or> pp_wip p \<noteq> None"
  shows "save_attempts stringify nows p (w, s) =
           ((w, s), map (\<lambda>_. [Notify NtError conflict_detail]) nows)
    \<and> DoReload \<notin> \<Union> (set ` set (snd (save_attempts stringify nows p (w, s))))"
proof -
  have "save_project_pm_preferences now (savePreferences_begin p w) s = None" for now
    using assms by (auto simp: save_project_pm_preferences_def savePreferences_begin_def)
  then have "save_attempt stringify now p (w, s) =
      ((w, s), [Notify NtError conflict_detail], Inl (ApiError conflict_detail 409))" for now
    by (simp add: save_attempt_def update_pm_preferences_def savePreferences_done_def conflict_text
        conflict_status conflict_not_recognised error_or_def)
  then have "save_attempts stringify nows p (w, s) =
      ((w, s), map (\<lambda>_. [Notify NtError conflict_detail]) nows)"
    by (induction nows) simp_all
  then show ?thesis by simp
qed

definition demo_server :: server_prefs where
  "demo_server = \<lparr> sq_templates = [], sq_wip = (\<lambda>_. None), sq_views = [], sq_shared_rev = 7, sq_views_rev = 0 \<rparr>"

definition demo_console :: workspace where
  "demo_console = initial_workspace \<lparr> cp_id = ''p'', cp_name = ''P'', cp_role = RoOwner, cp_archived_at = 0 \<rparr>"

theorem stale_preferences_never_recover_witness:
  "save_attempts (\<lambda>_. []) [8, 9] (no_prefs\<lparr> pp_templates := Some [] \<rparr>) (demo_console, demo_server) =
     ((demo_console, demo_server), [[Notify NtError conflict_detail], [Notify NtError conflict_detail]])"
proof -
  have "sq_shared_rev demo_server \<noteq> ws_rev_shared demo_console"
    by (simp add: demo_server_def demo_console_def initial_workspace_def)
  from stale_preferences_never_recover [OF this, of "no_prefs\<lparr> pp_templates := Some [] \<rparr>" "\<lambda>_. []" "[8, 9]"]
  show ?thesis by simp
qed

end
