(* ===== verification/Dates.thy ===== *)
theory Dates
  imports JsText
begin

text \<open>
  Dates as ECMAScript computes them: the number of a day since 1970, the day of the week, and
  \<open>new Date(year, month, day)\<close> with its roll-over of days that are not in the month. Local dates
  are read back by the getters they were made from, so no time zone occurs.
\<close>

subsection \<open>Numbers of days\<close>

fun digits_value :: "string \<Rightarrow> nat option" where
  "digits_value [] = Some 0"
| "digits_value s =
     (if byte (last s) < 48 \<or> 58 \<le> byte (last s) then None
      else map_option (\<lambda>n. 10 * n + (byte (last s) - 48)) (digits_value (butlast s)))"

definition leap :: "int \<Rightarrow> bool" where
  "leap y \<longleftrightarrow> y mod 4 = 0 \<and> (y mod 100 \<noteq> 0 \<or> y mod 400 = 0)"

definition days_in_month :: "int \<Rightarrow> int \<Rightarrow> int" where
  "days_in_month y m = (if m = 2 then (if leap y then 29 else 28) else if m \<in> {4, 6, 9, 11} then 30 else 31)"

definition day_number :: "int \<Rightarrow> int \<Rightarrow> int \<Rightarrow> int" where
  "day_number y m d =
     (let y1 = (if m \<le> 2 then y - 1 else y); era = y1 div 400; yoe = y1 mod 400;
          doy = (153 * (m + (if m > 2 then - 3 else 9)) + 2) div 5 + d - 1
      in era * 146097 + yoe * 365 + yoe div 4 - yoe div 100 + doy - 719468)"

lemma days_in_month_bounds: "28 \<le> days_in_month y m" "days_in_month y m \<le> 31"
  by (simp_all add: days_in_month_def)

text \<open>The days before the first of March of a year.\<close>

definition march :: "int \<Rightarrow> int" where
  "march y = 365 * y + y div 4 - y div 100 + y div 400"

lemma march_era: "(y div 400) * 146097 + (y mod 400) * 365 + (y mod 400) div 4 - (y mod 400) div 100 = march y"
proof -
  define q r where "q = y div 400" and "r = y mod 400"
  then have y: "y = 400 * q + r" by simp
  have "(400 * q + r) div 4 = 100 * q + r div 4" "(400 * q + r) div 100 = 4 * q + r div 100"
    using div_mult_self2 [of 4 r "100 * q"] div_mult_self2 [of 100 r "4 * q"]
    by (simp_all add: add.commute mult.assoc)
  moreover have "146097 * q = 365 * (400 * q) + 100 * q - 4 * q + q" by simp
  ultimately show ?thesis unfolding march_def q_def [symmetric] r_def [symmetric] using y by simp
qed

lemma day_number_march:
  "day_number y m d =
     (if m \<le> 2 then march (y - 1) else march y)
      + (153 * (m + (if m > 2 then - 3 else 9)) + 2) div 5 + d - 719469"
  using march_era [of y] march_era [of "y - 1"] by (simp add: day_number_def Let_def)

lemma div_pred:
  assumes "0 < (k::int)"
  shows "y div k = (y - 1) div k + (if y mod k = 0 then 1 else 0)"
proof -
  define q r where "q = y div k" and "r = y mod k"
  have y: "y = k * q + r" "0 \<le> r" "r < k" using assms by (simp_all add: q_def r_def)
  show ?thesis
  proof (cases "r = 0")
    case True
    then have "y - 1 = k * (q - 1) + (k - 1)" using y by (simp add: algebra_simps)
    then have "(y - 1) div k = q - 1" by (rule int_div_pos_eq) (use assms in simp_all)
    then show ?thesis using True by (simp add: q_def r_def)
  next
    case False
    then have "y - 1 = k * q + (r - 1)" "0 \<le> r - 1" "r - 1 < k" using y by simp_all
    then have "(y - 1) div k = q" by (rule int_div_pos_eq)
    then show ?thesis using False by (simp add: q_def r_def)
  qed
qed

lemma march_sum:
  "a = a1 + i \<Longrightarrow> b = b1 + j \<Longrightarrow> c = c1 + k \<Longrightarrow>
     365 * y + a - b + c = 365 * (y - 1) + a1 - b1 + c1 + 365 + i - j + (k :: int)"
  by simp

lemma leap_days:
  fixes m m1 :: int
  assumes "c \<Longrightarrow> b" "b \<Longrightarrow> a" "m = m1 + 365 + (if a then 1 else 0) - (if b then 1 else 0) + (if c then 1 else 0)"
  shows "m = m1 + (if a \<and> (\<not> b \<or> c) then 366 else 365)"
  using assms by (cases a; cases b; cases c) simp_all

lemma march_step: "march y = march (y - 1) + (if leap y then 366 else 365)"
proof -
  have d: "y mod 400 = 0 \<Longrightarrow> y mod 100 = 0" "y mod 100 = 0 \<Longrightarrow> y mod 4 = 0"
    using dvd_trans [of "100::int" 400 y] dvd_trans [of "4::int" 100 y] by (simp_all add: dvd_eq_mod_eq_0)
  define i where "i k = (if y mod k = 0 then 1 else 0 :: int)" for k
  have "march y = march (y - 1) + 365 + i 4 - i 100 + i 400"
    unfolding march_def
    by (rule march_sum; rule div_pred [where y = y, folded i_def, OF zero_less_numeral])
  from leap_days [OF d this [unfolded i_def]] show ?thesis unfolding leap_def .
qed

lemma day_number_day: "day_number y m d = day_number y m 1 + (d - 1)"
  by (simp add: day_number_def Let_def)

lemma month_cases:
  "1 \<le> (m::int) \<Longrightarrow> m \<le> 12 \<Longrightarrow>
     m = 1 \<or> m = 2 \<or> m = 3 \<or> m = 4 \<or> m = 5 \<or> m = 6 \<or> m = 7 \<or> m = 8 \<or> m = 9 \<or> m = 10 \<or> m = 11 \<or> m = 12"
  by arith

lemma day_number_next_month:
  assumes "1 \<le> m" "m < 12"
  shows "day_number y (m + 1) 1 = day_number y m 1 + days_in_month y m"
proof -
  have "m \<le> 12" using assms by simp
  from month_cases [OF assms(1) this] show ?thesis
    using assms march_step [of y]
    by (elim disjE) (simp_all add: day_number_march days_in_month_def)
qed

lemma day_number_next_year: "day_number (y + 1) 1 1 = day_number y 12 1 + 31"
  by (simp add: day_number_march)

subsection \<open>\<open>new Date(year, month, day)\<close>\<close>

text \<open>A date by its getters: the month counts from 0, as \<open>getMonth\<close> does.\<close>

record cal_date =
  cd_year :: int
  cd_month :: int
  cd_day :: int

definition month_len :: "int \<Rightarrow> int \<Rightarrow> int" where
  "month_len y m = days_in_month y (m + 1)"

definition prev_month :: "int \<times> int \<Rightarrow> int \<times> int" where
  "prev_month ym = (if snd ym = 0 then (fst ym - 1, 11) else (fst ym, snd ym - 1))"

definition next_month :: "int \<times> int \<Rightarrow> int \<times> int" where
  "next_month ym = (if snd ym = 11 then (fst ym + 1, 0) else (fst ym, snd ym + 1))"

lemma month_len_bounds: "28 \<le> month_len y m" "month_len y m \<le> 31"
  using days_in_month_bounds by (simp_all add: month_len_def)

function roll :: "int \<times> int \<Rightarrow> int \<Rightarrow> cal_date" where
  "roll ym d =
     (if d < 1 then roll (prev_month ym) (d + month_len (fst (prev_month ym)) (snd (prev_month ym)))
      else if month_len (fst ym) (snd ym) < d then roll (next_month ym) (d - month_len (fst ym) (snd ym))
      else \<lparr> cd_year = fst ym, cd_month = snd ym, cd_day = d \<rparr>)"
  by pat_completeness auto
termination
proof (relation "measure (\<lambda>(ym, d). if d < 1 then nat (1 - d)
                            else if month_len (fst ym) (snd ym) < d then nat d else 0)", goal_cases)
  case (2 ym d)
  then show ?case using month_len_bounds [of "fst (prev_month ym)" "snd (prev_month ym)"] by auto
next
  case (3 ym d)
  then show ?case using month_len_bounds [of "fst ym" "snd ym"] by auto
qed simp

declare roll.simps [simp del]

text \<open>A year below 100 counts from 1900.\<close>

definition new_date :: "int \<Rightarrow> int \<Rightarrow> int \<Rightarrow> cal_date" where
  "new_date y m d =
     (let y1 = (if 0 \<le> y \<and> y \<le> 99 then 1900 + y else y) in roll (y1 + m div 12, m mod 12) d)"

definition cal_number :: "cal_date \<Rightarrow> int" where
  "cal_number c = day_number (cd_year c) (cd_month c + 1) (cd_day c)"

definition real_date :: "cal_date \<Rightarrow> bool" where
  "real_date c \<longleftrightarrow> 0 \<le> cd_month c \<and> cd_month c \<le> 11 \<and> 1 \<le> cd_day c
     \<and> cd_day c \<le> month_len (cd_year c) (cd_month c)"

text \<open>\<open>getDay\<close>: 0 is Sunday; the first of January 1970 was a Thursday.\<close>

definition get_day :: "cal_date \<Rightarrow> int" where
  "get_day c = (cal_number c + 4) mod 7"

lemma month_number:
  assumes "0 \<le> m" "m \<le> 11"
  shows "day_number (fst (next_month (y, m))) (snd (next_month (y, m)) + 1) 1 = day_number y (m + 1) 1 + month_len y m"
  using assms day_number_next_month [of "m + 1" y] day_number_next_year [of y]
  by (auto simp: next_month_def month_len_def days_in_month_def add.commute)

lemma next_prev: "0 \<le> m \<Longrightarrow> m \<le> 11 \<Longrightarrow> next_month (prev_month (y, m)) = (y, m)"
  by (auto simp: next_month_def prev_month_def)

lemma roll_real:
  assumes "0 \<le> snd ym" "snd ym \<le> 11"
  shows "real_date (roll ym d)
       \<and> cal_number (roll ym d) = day_number (fst ym) (snd ym + 1) 1 + (d - 1)"
  using assms
proof (induction ym d rule: roll.induct)
  case (1 ym d)
  obtain y m where ym: "ym = (y, m)" by (cases ym)
  obtain y0 m0 where p: "prev_month ym = (y0, m0)" by (cases "prev_month ym")
  obtain y1 m1 where n: "next_month ym = (y1, m1)" by (cases "next_month ym")
  have m0: "0 \<le> m0" "m0 \<le> 11" "0 \<le> m1" "m1 \<le> 11"
    using p n 1(3, 4) by (auto simp: prev_month_def next_month_def split: if_splits)
  have number0: "day_number y (m + 1) 1 = day_number y0 (m0 + 1) 1 + month_len y0 m0"
    using month_number [OF m0(1, 2), of y0] next_prev [of m y] p 1(3, 4) by (simp add: ym)
  have number1: "day_number y1 (m1 + 1) 1 = day_number y (m + 1) 1 + month_len y m"
    using month_number [of m y] n 1(3, 4) by (simp add: ym)
  show ?case
  proof (cases "d < 1")
    case True
    then show ?thesis using 1(1) [OF True] number0 m0 p by (simp add: roll.simps [of "(y, m)" d] ym)
  next
    case low: False
    show ?thesis
    proof (cases "month_len y m < d")
      case True
      then show ?thesis using 1(2) number1 m0 n low by (simp add: roll.simps [of "(y, m)" d] ym)
    next
      case False
      then show ?thesis using low 1(3, 4)
        by (simp add: roll.simps [of "(y, m)" d] ym real_date_def cal_number_def day_number_day [of y "m + 1" d])
    qed
  qed
qed

lemma roll_id: "real_date c \<Longrightarrow> roll (cd_year c, cd_month c) (cd_day c) = c"
  by (simp add: real_date_def roll.simps)

lemma new_date_real:
  assumes "100 \<le> y"
  shows "real_date (new_date y m d)"
    and "0 \<le> m \<Longrightarrow> m \<le> 11 \<Longrightarrow> cal_number (new_date y m d) = day_number y (m + 1) 1 + (d - 1)"
  using roll_real [of "(y + m div 12, m mod 12)" d] assms
  by (simp_all add: new_date_def div_pos_pos_trivial mod_pos_pos_trivial)

lemma new_date_id:
  assumes "real_date c" "100 \<le> cd_year c"
  shows "new_date (cd_year c) (cd_month c) (cd_day c) = c"
proof -
  have "cd_month c div 12 = 0" "cd_month c mod 12 = cd_month c"
    using assms(1) by (simp_all add: real_date_def)
  then show ?thesis using assms(2) roll_id [OF assms(1)] by (simp add: new_date_def)
qed

end
