(* ===== verification/Gantt.thy ===== *)
theory Gantt
  imports ProjectData Dates
begin

text \<open>
  The dated views of a project (\<open>ProjectGantt\<close>, \<open>ProjectWorkload\<close> and the counters of
  \<open>ProjectOverview\<close> in \<open>src/console/src/components/project/ProjectWorkspace.tsx\<close>). A date at
  midnight UTC is its number of days since 1970; percentages are exact rationals where the
  code has floats.
\<close>

subsection \<open>Dates\<close>

text \<open>\<open>new Date(`${value}T00:00:00Z`)\<close> for \<open>YYYY-MM-DD\<close>; \<open>None\<close> is an invalid date.
  A day past the end of its month is not of ECMAScript's date format, so it is read as invalid
  (the standard leaves it to the engine). The Server only stores real dates.\<close>

definition dateUtc :: "string \<Rightarrow> int option" where
  "dateUtc s =
     (if length s = 10 \<and> s ! 4 = CHR ''-'' \<and> s ! 7 = CHR ''-'' then
        case (digits_value (take 4 s), digits_value (take 2 (drop 5 s)), digits_value (drop 8 s)) of
          (Some y, Some m, Some d) \<Rightarrow>
            if 1 \<le> m \<and> m \<le> 12 \<and> 1 \<le> d \<and> int d \<le> days_in_month (int y) (int m)
            then Some (day_number (int y) (int m) (int d)) else None
        | _ \<Rightarrow> None
      else None)"

lemma dateUtc_examples:
  "dateUtc ''1970-01-01'' = Some 0" "dateUtc ''2024-02-29'' = Some 19782" "dateUtc ''2023-02-29'' = None"
  by code_simp+

definition daysBetween :: "int \<Rightarrow> int \<Rightarrow> int" where
  "daysBetween from to = to - from"

subsection \<open>The Gantt chart\<close>

record gantt_task =
  gt_task :: task
  gt_start :: int
  gt_end :: int

record gantt_chart =
  gc_bars :: "gantt_task list"
  gc_min :: int
  gc_max :: int
  gc_span :: int
  gc_middle :: int

text \<open>An invalid date makes the chart throw: its label is asked of an invalid \<open>Date\<close>.\<close>

datatype gantt_view = GanttEmpty | GanttThrows | GanttChart gantt_chart

definition dated_tasks :: "task list \<Rightarrow> task list" where
  "dated_tasks roots = filter (\<lambda>t. tk_start_date t \<noteq> [] \<or> tk_due_date t \<noteq> []) roots"

definition gantt_task_of :: "task \<Rightarrow> gantt_task option" where
  "gantt_task_of t =
     (case (dateUtc (or_str (tk_start_date t) (tk_due_date t)), dateUtc (or_str (tk_due_date t) (tk_start_date t))) of
        (Some s, Some e) \<Rightarrow> Some \<lparr> gt_task = t, gt_start = (if s \<le> e then s else e), gt_end = (if e \<ge> s then e else s) \<rparr>
      | _ \<Rightarrow> None)"

definition gantt :: "task list \<Rightarrow> gantt_view" where
  "gantt roots =
     (if dated_tasks roots = [] then GanttEmpty
      else if list_ex (\<lambda>t. gantt_task_of t = None) (dated_tasks roots) then GanttThrows
      else let bars = sort_key gt_start (map (the \<circ> gantt_task_of) (dated_tasks roots));
               lo = Min (set (map gt_start bars)); hi = Max (set (map gt_end bars));
               span = max 1 (daysBetween lo hi + 1)
           in GanttChart \<lparr> gc_bars = bars, gc_min = lo, gc_max = hi, gc_span = span,
                           gc_middle = lo + span div 2 \<rparr>)"

definition bar_left :: "gantt_chart \<Rightarrow> gantt_task \<Rightarrow> rat" where
  "bar_left c g = of_int (daysBetween (gc_min c) (gt_start g)) / of_int (gc_span c) * 100"

definition bar_width :: "gantt_chart \<Rightarrow> gantt_task \<Rightarrow> rat" where
  "bar_width c g = max (3/2) (of_int (daysBetween (gt_start g) (gt_end g) + 1) / of_int (gc_span c) * 100)"

definition chart_min_width :: "gantt_chart \<Rightarrow> int" where
  "chart_min_width c = max 760 (gc_span c * 18)"

lemma gantt_task_order: "gantt_task_of t = Some g \<Longrightarrow> gt_start g \<le> gt_end g"
  by (auto simp: gantt_task_of_def split: option.splits)

lemma gantt_fields:
  assumes "gantt roots = GanttChart c"
  defines "bars \<equiv> sort_key gt_start (map (the \<circ> gantt_task_of) (dated_tasks roots))"
  shows "dated_tasks roots \<noteq> []" "\<And>t. t \<in> set (dated_tasks roots) \<Longrightarrow> gantt_task_of t \<noteq> None"
    "gc_bars c = bars" "gc_min c = Min (set (map gt_start bars))" "gc_max c = Max (set (map gt_end bars))"
      "gc_span c = max 1 (gc_max c - gc_min c + 1)"
proof -
  show ne: "dated_tasks roots \<noteq> []"
  proof
    assume "dated_tasks roots = []"
    then show False using assms(1) by (simp only: gantt_def simp_thms if_True gantt_view.distinct)
  qed
  have n: "\<not> list_ex (\<lambda>t. gantt_task_of t = None) (dated_tasks roots)"
  proof
    assume "list_ex (\<lambda>t. gantt_task_of t = None) (dated_tasks roots)"
    then show False using assms(1) ne by (simp only: gantt_def if_True if_False gantt_view.distinct)
  qed
  show "gantt_task_of t \<noteq> None" if "t \<in> set (dated_tasks roots)" for t
    using n that by (auto simp: list_ex_iff)
  have c: "GanttChart c = (let lo = Min (set (map gt_start bars)); hi = Max (set (map gt_end bars));
               span = max 1 (daysBetween lo hi + 1)
           in GanttChart \<lparr> gc_bars = bars, gc_min = lo, gc_max = hi, gc_span = span,
                           gc_middle = lo + span div 2 \<rparr>)"
    using assms(1) n \<open>dated_tasks roots \<noteq> []\<close> unfolding gantt_def bars_def by (simp only: if_False Let_def)
  show "gc_bars c = bars" "gc_min c = Min (set (map gt_start bars))" "gc_max c = Max (set (map gt_end bars))"
    "gc_span c = max 1 (gc_max c - gc_min c + 1)"
    using c by (simp_all only: Let_def gantt_view.inject gantt_chart.simps daysBetween_def)
qed

lemma gantt_chartD:
  assumes "gantt roots = GanttChart c"
  shows "gc_bars c \<noteq> []" "g \<in> set (gc_bars c) \<Longrightarrow> gt_start g \<le> gt_end g"
    "g \<in> set (gc_bars c) \<Longrightarrow> gc_min c \<le> gt_start g" "g \<in> set (gc_bars c) \<Longrightarrow> gt_end g \<le> gc_max c"
    "gc_span c = gc_max c - gc_min c + 1" "1 \<le> gc_span c"
    "\<exists>g\<in>set (gc_bars c). gt_start g = gc_min c" "\<exists>g\<in>set (gc_bars c). gt_end g = gc_max c"
proof -
  define bars where "bars = sort_key gt_start (map (the \<circ> gantt_task_of) (dated_tasks roots))"
  note ne = gantt_fields(1) [OF assms] and ok = gantt_fields(2) [OF assms]
    and c = gantt_fields(3-) [OF assms, folded bars_def]
  show nonempty: "gc_bars c \<noteq> []" using ne by (simp add: c(1) bars_def flip: set_empty)
  show order: "gt_start g \<le> gt_end g" if "g \<in> set (gc_bars c)" for g
  proof -
    have "g \<in> (the \<circ> gantt_task_of) ` set (dated_tasks roots)"
      using that by (simp add: c(1) bars_def)
    then obtain t where t: "t \<in> set (dated_tasks roots)" "g = the (gantt_task_of t)"
      unfolding comp_def by blast
    then have "gantt_task_of t = Some g" using ok [OF t(1)] by auto
    then show ?thesis by (rule gantt_task_order)
  qed
  show lo: "gc_min c \<le> gt_start g" if "g \<in> set (gc_bars c)" for g
    using that by (auto simp: c intro!: Min_le)
  show hi: "gt_end g \<le> gc_max c" if "g \<in> set (gc_bars c)" for g
    using that by (auto simp: c intro!: Max_ge)
  obtain g where "g \<in> set (gc_bars c)" using nonempty by (cases "gc_bars c") auto
  with order lo hi have "gc_min c \<le> gc_max c" by (meson order_trans)
  with c(4) show "gc_span c = gc_max c - gc_min c + 1" "1 \<le> gc_span c" by simp_all
  have "Min (set (map gt_start bars)) \<in> set (map gt_start bars)" "Max (set (map gt_end bars)) \<in> set (map gt_end bars)"
    using nonempty c(1) by (auto intro!: Min_in Max_in simp del: set_map)
  then show "\<exists>g\<in>set (gc_bars c). gt_start g = gc_min c" "\<exists>g\<in>set (gc_bars c). gt_end g = gc_max c"
    using c by auto
qed

text \<open>
  C27. Every bar of the Gantt chart lies on it: it starts inside the track and, since narrow
  bars are widened to 1.5 percent, ends less than 1.5 percent beyond it; on a chart of at most
  66 days no bar passes the end. The chart is tight: a bar starts at 0 and one ends on the
  last day.
\<close>

theorem gantt_bars_fit:
  assumes "gantt roots = GanttChart c"
  shows "(\<forall>g\<in>set (gc_bars c). 0 \<le> bar_left c g \<and> bar_left c g < 100 \<and> 3/2 \<le> bar_width c g \<and> bar_width c g \<le> 100
            \<and> bar_left c g + bar_width c g < 100 + 3/2
            \<and> (gc_span c \<le> 66 \<longrightarrow> bar_left c g + bar_width c g \<le> 100))
    \<and> (\<exists>g\<in>set (gc_bars c). bar_left c g = 0)
    \<and> (\<exists>g\<in>set (gc_bars c). gt_end g = gc_min c + gc_span c - 1)"
proof -
  note facts = gantt_chartD [OF assms]
  have "0 \<le> bar_left c g \<and> bar_left c g < 100 \<and> 3/2 \<le> bar_width c g \<and> bar_width c g \<le> 100
            \<and> bar_left c g + bar_width c g < 100 + 3/2
            \<and> (gc_span c \<le> 66 \<longrightarrow> bar_left c g + bar_width c g \<le> 100)"
    if g: "g \<in> set (gc_bars c)" for g
  proof -
    define n a b :: rat where "n = of_int (gc_span c)" "a = of_int (gt_start g - gc_min c)"
      "b = of_int (gt_end g - gt_start g + 1)"
    have n: "1 \<le> n" unfolding n_a_b_def(1) using facts(6) by (metis of_int_1 of_int_le_iff)
    have a: "0 \<le> a" unfolding n_a_b_def using facts(3) [OF g] by (metis diff_ge_0_iff_ge of_int_0_le_iff)
    have b: "1 \<le> b" unfolding n_a_b_def using facts(2) [OF g] by (simp flip: of_int_add of_int_diff)
    have "gt_start g - gc_min c + (gt_end g - gt_start g + 1) \<le> gc_span c" using facts(4) [OF g] facts(5) by linarith
    then have ab: "a + b \<le> n" unfolding n_a_b_def by (simp only: of_int_le_iff flip: of_int_add)
    have left: "bar_left c g = a / n * 100" and width: "bar_width c g = max (3/2) (b / n * 100)"
      by (simp_all add: bar_left_def bar_width_def daysBetween_def n_a_b_def)
    have sum: "a / n * 100 + b / n * 100 \<le> 100" using ab n by (simp add: field_simps)
    have "a / n * 100 < 100" "0 \<le> a / n * 100" "b / n * 100 \<le> 100" "0 < b / n * 100"
      using n a b ab by (simp_all add: field_simps)
    moreover have "3/2 \<le> b / n * 100" if "gc_span c \<le> 66"
    proof -
      have "n \<le> 66" unfolding n_a_b_def using that by (metis of_int_le_iff of_int_numeral)
      with n b show ?thesis by (simp add: field_simps)
    qed
    ultimately show ?thesis using sum unfolding left width by (auto simp: max_def)
  qed
  moreover obtain g where "g \<in> set (gc_bars c)" "gt_start g = gc_min c" using facts(7) by blast
  then have "\<exists>g\<in>set (gc_bars c). bar_left c g = 0" by (auto simp: bar_left_def daysBetween_def)
  moreover have "\<exists>g\<in>set (gc_bars c). gt_end g = gc_min c + gc_span c - 1" using facts(5,8) by simp
  ultimately show ?thesis by blast
qed

definition demo_dated :: "task list" where
  "demo_dated = [(blank_task ''a'' [])\<lparr> tk_start_date := ''2024-03-01'', tk_due_date := ''2024-02-27'' \<rparr>,
                 (blank_task ''b'' [])\<lparr> tk_due_date := ''2024-06-30'' \<rparr>, blank_task ''c'' []]"

theorem gantt_bars_fit_witness:
  "\<exists>c. gantt demo_dated = GanttChart c \<and> gc_span c = 125 \<and> (\<forall>g\<in>set (gc_bars c). bar_left c g < 100)"
proof -
  have "case gantt demo_dated of GanttChart c \<Rightarrow> gc_span c = 125 | _ \<Rightarrow> False"
    by code_simp
  then obtain c where c: "gantt demo_dated = GanttChart c" "gc_span c = 125"
    by (cases "gantt demo_dated") simp_all
  from gantt_bars_fit [OF c(1)] c show ?thesis by blast
qed

end
