(* ===== verification/ProjectViews.thy ===== *)
theory ProjectViews
  imports TaskTable ProjectSaves
begin

text \<open>
  What the tabs of the project workspace compute and do (\<open>ProjectOverview\<close>, \<open>ProjectPlan\<close>,
  \<open>ProjectTasks\<close>, \<open>ProjectIterations\<close>, \<open>ProjectWorkload\<close> and \<open>CustomFieldOptionEditor\<close> in
  \<open>src/console/src/components/project/ProjectWorkspace.tsx\<close>): counters, filters, the kanban with
  its limits, the life cycle of sprints, and the options of a custom field.
\<close>

subsection \<open>Counters\<close>

text \<open>\<open>Math.round(a / b * 100)\<close>, 0 for an empty whole.\<close>

definition percent :: "rat \<Rightarrow> rat \<Rightarrow> int" where
  "percent part whole = (if whole = 0 then 0 else \<lfloor>part / whole * 100 + 1/2\<rfloor>)"

definition root_tasks :: "task list \<Rightarrow> task list" where
  "root_tasks items = filter (\<lambda>t. tk_parent_id t = []) items"

definition overdue :: "string \<Rightarrow> task \<Rightarrow> bool" where
  "overdue today t \<longleftrightarrow> tk_due_date t \<noteq> [] \<and> tk_due_date t < today \<and> tk_status t \<noteq> WDone"

definition count_where :: "('a \<Rightarrow> bool) \<Rightarrow> 'a list \<Rightarrow> nat" where
  "count_where p xs = length (filter p xs)"

record overview =
  ow_done :: nat
  ow_doing :: nat
  ow_overdue :: nat
  ow_percent :: int

definition overview_of :: "string \<Rightarrow> task list \<Rightarrow> overview" where
  "overview_of today roots =
     \<lparr> ow_done = count_where (\<lambda>t. tk_status t = WDone) roots,
       ow_doing = count_where (\<lambda>t. tk_status t = WDoing) roots,
       ow_overdue = count_where (overdue today) roots,
       ow_percent = percent (of_nat (count_where (\<lambda>t. tk_status t = WDone) roots)) (of_nat (length roots)) \<rparr>"

record sprint_stat =
  ss_tasks :: nat
  ss_completed :: nat
  ss_percent :: int
  ss_estimate :: rat
  ss_spent :: rat

definition sprint_stat_of :: "task list \<Rightarrow> sprint \<Rightarrow> sprint_stat" where
  "sprint_stat_of items s =
     (let ts = filter (\<lambda>t. tk_sprint_id t = sp_id s) items;
          completed = count_where (\<lambda>t. tk_status t = WDone) ts
      in \<lparr> ss_tasks = length ts, ss_completed = completed,
           ss_percent = percent (of_nat completed) (of_nat (length ts)),
           ss_estimate = sum_list (map tk_estimate_h ts), ss_spent = sum_list (map tk_spent_h ts) \<rparr>)"

record workload_row =
  wr_key :: string
  wr_name :: string
  wr_tasks :: nat
  wr_doing :: nat
  wr_overdue :: nat
  wr_estimate :: rat
  wr_spent :: rat

definition workload_row_of :: "string \<Rightarrow> task list \<Rightarrow> string \<times> string \<Rightarrow> workload_row" where
  "workload_row_of today roots p =
     (let ts = filter (\<lambda>t. if fst p = ''unassigned'' then tk_assignee t = [] else tk_assignee t = fst p) roots
      in \<lparr> wr_key = fst p, wr_name = snd p, wr_tasks = length ts,
           wr_doing = count_where (\<lambda>t. tk_status t = WDoing) ts, wr_overdue = count_where (overdue today) ts,
           wr_estimate = sum_list (map tk_estimate_h ts), wr_spent = sum_list (map tk_spent_h ts) \<rparr>)"

definition workload :: "string \<Rightarrow> task list \<Rightarrow> member list \<Rightarrow> workload_row list" where
  "workload today roots ms =
     filter (\<lambda>r. 0 < wr_tasks r \<or> wr_key r \<noteq> ''unassigned'')
       (map (workload_row_of today roots)
          (map (\<lambda>m. (me_account_id m, me_member_name m)) ms @ [(''unassigned'', msg_unassigned)]))"

definition row_progress :: "workload_row \<Rightarrow> int" where
  "row_progress r = (if wr_estimate r = 0 then 0 else min 100 (percent (wr_spent r) (wr_estimate r)))"

lemma percent_bounds:
  assumes "0 \<le> a" "a \<le> b"
  shows "0 \<le> percent a b \<and> percent a b \<le> 100"
proof (cases "b = 0")
  case False
  with assms have "0 \<le> a / b * 100" "a / b * 100 \<le> 100" by (simp_all add: field_simps)
  then have "0 \<le> \<lfloor>a / b * 100 + 1/2\<rfloor>" "\<lfloor>a / b * 100 + 1/2\<rfloor> < 101"
    by (simp_all add: floor_less_iff)
  with False show ?thesis by (simp add: percent_def)
qed (simp add: percent_def)

lemma percent_full: "0 < b \<Longrightarrow> percent b b = 100"
  by (simp add: percent_def floor_eq_iff)

lemma count_where_le: "count_where p xs \<le> length xs"
  by (simp add: count_where_def)

lemma overview_percent: "0 \<le> ow_percent (overview_of today roots) \<and> ow_percent (overview_of today roots) \<le> 100"
  unfolding overview_of_def by (simp add: percent_bounds count_where_le)

lemma sprint_stat_percent: "0 \<le> ss_percent (sprint_stat_of items s) \<and> ss_percent (sprint_stat_of items s) \<le> 100"
  unfolding sprint_stat_of_def Let_def by (simp add: percent_bounds count_where_le)

text \<open>
  Every root task counts in exactly one row of the workload, as long as its assignee is a
  member. A task of a former member is in none.
\<close>

lemma rows_count:
  "sum_list (map (\<lambda>k. count_where (\<lambda>t. f t = k) ts) ks) = count_where (\<lambda>t. f t \<in> set ks) ts"
  if "distinct ks"
  using that
proof (induction ks)
  case (Cons k ks)
  have "count_where (\<lambda>t. f t \<in> set (k # ks)) ts = count_where (\<lambda>t. f t = k) ts + count_where (\<lambda>t. f t \<in> set ks) ts"
    using Cons.prems by (induction ts) (auto simp: count_where_def)
  with Cons show ?case by simp
qed (simp add: count_where_def)

lemma workload_counts_all:
  assumes "distinct (map me_account_id ms)" "''unassigned'' \<notin> me_account_id ` set ms" "[] \<notin> me_account_id ` set ms"
    and "\<forall>t\<in>set roots. tk_assignee t \<in> insert [] (me_account_id ` set ms)"
  shows "sum_list (map wr_tasks (workload today roots ms)) = length roots"
proof -
  let ?keys = "map me_account_id ms @ [[]]"
  have drop: "sum_list (map wr_tasks (filter (\<lambda>r. 0 < wr_tasks r \<or> wr_key r \<noteq> ''unassigned'') rs)) = sum_list (map wr_tasks rs)"
    for rs :: "workload_row list" by (induction rs) auto
  have row: "wr_tasks (workload_row_of today roots (k, n)) =
      count_where (\<lambda>t. tk_assignee t = (if k = ''unassigned'' then [] else k)) roots" for k n
    by (simp add: workload_row_of_def Let_def count_where_def)
  have "sum_list (map wr_tasks (workload today roots ms)) = sum_list (map (\<lambda>k. count_where (\<lambda>t. tk_assignee t = k) roots) ?keys)"
  proof -
    have "me_account_id m \<noteq> ''unassigned''" if "m \<in> set ms" for m using assms(2) that by (metis image_eqI)
    then have "map wr_tasks (map (workload_row_of today roots) (map (\<lambda>m. (me_account_id m, me_member_name m)) ms))
        = map (\<lambda>k. count_where (\<lambda>t. tk_assignee t = k) roots) (map me_account_id ms)"
      by (simp add: row)
    then show ?thesis unfolding workload_def drop
      by (simp only: map_append sum_list_append list.map row simp_thms if_True)
  qed
  also have "\<dots> = count_where (\<lambda>t. tk_assignee t \<in> set ?keys) roots"
    using assms(1,3) by (intro rows_count) auto
  also have "\<dots> = length roots"
    using assms(4) by (auto simp: count_where_def filter_id_conv)
  finally show ?thesis .
qed

subsection \<open>Filters\<close>

record task_filters =
  tf_search :: string
  tf_status :: "work_status option"
  tf_assignee :: string
  tf_priority :: string
  tf_milestone :: string
  tf_sprint :: string

definition no_filters :: task_filters where
  "no_filters = \<lparr> tf_search = [], tf_status = None, tf_assignee = [], tf_priority = [], tf_milestone = [], tf_sprint = [] \<rparr>"

fun priority_value :: "work_priority \<Rightarrow> string" where
  "priority_value PrNone = []"
| "priority_value PrLow = ''low''"
| "priority_value PrMedium = ''medium''"
| "priority_value PrHigh = ''high''"
| "priority_value PrUrgent = ''urgent''"

definition found_in :: "string \<Rightarrow> string \<Rightarrow> bool" where
  "found_in search text \<longleftrightarrow> search = [] \<or> includes_str (lower search) (lower text)"

definition task_matches :: "task_filters \<Rightarrow> task \<Rightarrow> bool" where
  "task_matches f t \<longleftrightarrow>
     found_in (tf_search f) (tk_title t @ '' '' @ tk_description t)
     \<and> (case tf_status f of None \<Rightarrow> True | Some s \<Rightarrow> tk_status t = s)
     \<and> (tf_assignee f = [] \<or> tk_assignee t = tf_assignee f)
     \<and> (tf_priority f = [] \<or> (if tf_priority f = ''__none__'' then tk_priority t = PrNone
                               else priority_value (tk_priority t) = tf_priority f))
     \<and> (tf_milestone f = [] \<or> tk_milestone_id t = tf_milestone f)
     \<and> (tf_sprint f = [] \<or> (if tf_sprint f = ''__unplanned__'' then tk_sprint_id t = []
                             else tk_sprint_id t = tf_sprint f))"

datatype list_scope = ScopeBacklog | ScopeAll

definition scoped_items :: "list_scope \<Rightarrow> task list \<Rightarrow> task list" where
  "scoped_items scope items = (if scope = ScopeBacklog then filter (\<lambda>t. tk_sprint_id t = []) items else items)"

definition table_rows :: "list_scope \<Rightarrow> task_filters \<Rightarrow> task list \<Rightarrow> task list" where
  "table_rows scope f items = filter (task_matches f) (orderTasksForTable (scoped_items scope items))"

record plan_filters =
  pl_group :: group_mode
  pl_assignee :: string
  pl_source :: string
  pl_search :: string
  pl_view :: string

definition no_plan_filters :: plan_filters where
  "no_plan_filters = \<lparr> pl_group = GmNone, pl_assignee = [], pl_source = [], pl_search = [], pl_view = [] \<rparr>"

definition plan_matches :: "plan_filters \<Rightarrow> task \<Rightarrow> bool" where
  "plan_matches f t \<longleftrightarrow>
     (pl_assignee f = [] \<or> tk_assignee t = pl_assignee f)
     \<and> (pl_source f = [] \<or> tk_source t = pl_source f)
     \<and> found_in (pl_search f) (tk_title t @ '' '' @ tk_description t @ '' '' @ join_with '' '' (tk_labels t))"

definition plan_sources :: "task list \<Rightarrow> string list" where
  "plan_sources roots = uniq (filter (\<lambda>s. s \<noteq> []) (map tk_source roots))"

fun group_named :: "string \<Rightarrow> group_mode" where
  "group_named g = (if g = ''assignee'' then GmAssignee else if g = ''milestone'' then GmMilestone else GmNone)"

definition applyView :: "string \<Rightarrow> saved_view list \<Rightarrow> plan_filters \<Rightarrow> plan_filters" where
  "applyView name views f =
     (case find_key vw_name name views of
        None \<Rightarrow> f\<lparr> pl_view := name \<rparr>
      | Some v \<Rightarrow> \<lparr> pl_group = group_named (or_opt (vw_group v) ''none''), pl_assignee = opt_str (vw_assignee v),
                    pl_source = opt_str (vw_source v), pl_search = opt_str (vw_search v), pl_view = name \<rparr>)"

fun group_name :: "group_mode \<Rightarrow> string" where
  "group_name GmNone = ''none''"
| "group_name GmAssignee = ''assignee''"
| "group_name GmMilestone = ''milestone''"

definition view_of :: "string \<Rightarrow> string \<Rightarrow> plan_filters \<Rightarrow> saved_view" where
  "view_of uid name f =
     \<lparr> vw_id = uid, vw_name = name, vw_group = Some (group_name (pl_group f)), vw_assignee = Some (pl_assignee f),
       vw_source = Some (pl_source f), vw_search = Some (pl_search f) \<rparr>"

text \<open>Applying a view that was saved from the filters gives the filters back.\<close>

lemma applyView_saved:
  assumes "name \<notin> vw_name ` set views"
  shows "applyView name (views @ [view_of uid name f]) g = f\<lparr> pl_view := name \<rparr>"
proof -
  have "List.find (\<lambda>v. vw_name v = name) (views @ [view_of uid name f]) = Some (view_of uid name f)"
    using assms by (induction views) (auto simp: view_of_def)
  moreover have "group_named (group_name (pl_group f)) = pl_group f" "group_name (pl_group f) \<noteq> []"
    by (cases "pl_group f"; simp)+
  ultimately show ?thesis by (simp add: applyView_def find_key_def view_of_def or_opt_def)
qed

lemma no_filters_shows_all: "mset (table_rows ScopeAll no_filters items) = mset (orderTasksForTable items)"
  by (simp add: table_rows_def scoped_items_def task_matches_def no_filters_def found_in_def)

subsection \<open>The kanban\<close>

definition sprint_items :: "workspace \<Rightarrow> task list" where
  "sprint_items w =
     (case find_key sp_id (ws_sprint w) (ws_sprints w) of
        None \<Rightarrow> [] | Some s \<Rightarrow> filter (\<lambda>t. tk_sprint_id t = sp_id s) (ws_items w))"

definition canEditSelectedSprint :: "workspace \<Rightarrow> bool" where
  "canEditSelectedSprint w \<longleftrightarrow> canWrite (ws_project w) \<and>
     (case find_key sp_id (ws_sprint w) (ws_sprints w) of Some s \<Rightarrow> sp_status s \<noteq> SpClosed | None \<Rightarrow> True)"

definition sprint_lanes :: "plan_filters \<Rightarrow> workspace \<Rightarrow> lane list" where
  "sprint_lanes f w =
     makeLanes (filter (plan_matches f) (root_tasks (sprint_items w))) (pl_group f) (ws_members w) (ws_milestones w)"

definition column_cards :: "lane \<Rightarrow> work_status \<Rightarrow> task list" where
  "column_cards l s = filter (\<lambda>t. tk_status t = s) (ln_items l)"

definition over_wip :: "int option \<Rightarrow> nat \<Rightarrow> bool" where
  "over_wip limit n \<longleftrightarrow> (case limit of None \<Rightarrow> False | Some l \<Rightarrow> l \<noteq> 0 \<and> int n > l)"

definition at_wip :: "int option \<Rightarrow> nat \<Rightarrow> bool" where
  "at_wip limit n \<longleftrightarrow> (case limit of None \<Rightarrow> False | Some l \<Rightarrow> l \<noteq> 0 \<and> int n \<ge> l)"

datatype drop_outcome = DropIgnored | DropMoves task task_patch | DropAsks task task_patch

definition drop_card :: "workspace \<Rightarrow> lane \<Rightarrow> work_status \<Rightarrow> string \<Rightarrow> drop_outcome" where
  "drop_card w l s i =
     (if \<not> canEditSelectedSprint w then DropIgnored
      else case find_key tk_id i (root_tasks (sprint_items w)) of
        None \<Rightarrow> DropIgnored
      | Some t \<Rightarrow>
          if tk_status t = s then DropIgnored
          else let p = empty_patch\<lparr> tp_status := Some s \<rparr>
               in if at_wip (ws_wip w s) (length (column_cards l s)) then DropAsks t p else DropMoves t p)"

text \<open>A card that moves without a question does not take its column over the limit.\<close>

lemma silent_drop_respects_wip:
  assumes "drop_card w l s i = DropMoves t p"
  shows "\<not> over_wip (ws_wip w s) (Suc (length (column_cards l s)))"
    "t \<in> set (ws_items w)" "tk_status (patched p t) = s"
proof -
  show "\<not> over_wip (ws_wip w s) (Suc (length (column_cards l s)))"
    using assms by (auto simp: drop_card_def Let_def at_wip_def over_wip_def split: if_splits option.splits)
  show "t \<in> set (ws_items w)"
    using assms by (auto simp: drop_card_def Let_def sprint_items_def root_tasks_def
        split: if_splits option.splits dest!: find_key_Some)
  show "tk_status (patched p t) = s"
    using assms by (auto simp: drop_card_def Let_def patched_def empty_patch_def split: if_splits option.splits)
qed

definition toggleSelected :: "string \<Rightarrow> bool \<Rightarrow> string list \<Rightarrow> string list" where
  "toggleSelected i checked sel = (if checked then uniq (sel @ [i]) else filter (\<lambda>v. v \<noteq> i) sel)"

lemma distinct_toggleSelected: "distinct sel \<Longrightarrow> distinct (toggleSelected i c sel)"
  by (simp add: toggleSelected_def)

text \<open>In a grouping, every card of the sprint that passes the filters is in exactly one lane.\<close>

lemma card_in_one_lane:
  assumes "pl_group f \<noteq> GmNone" "t \<in> set (root_tasks (sprint_items w))" "plan_matches f t"
  shows "\<exists>!l. l \<in> set (sprint_lanes f w) \<and> t \<in> set (ln_items l)"
proof -
  let ?ts = "filter (plan_matches f) (root_tasks (sprint_items w))"
  have L: "lanes_of (pl_group f) ?ts (sprint_lanes f w)"
    using lanes_are_groups [OF assms(1)] by (simp add: sprint_lanes_def)
  have t: "t \<in> set ?ts" using assms by simp
  then have "lane_key (pl_group f) t \<in> set (map ln_key (sprint_lanes f w))" using L unfolding lanes_of_def by blast
  then obtain l where l: "l \<in> set (sprint_lanes f w)" "ln_key l = lane_key (pl_group f) t" by auto
  have holds: "t \<in> set (ln_items m) \<longleftrightarrow> lane_key (pl_group f) t = ln_key m" if "m \<in> set (sprint_lanes f w)" for m
  proof -
    have "ln_items m = filter (\<lambda>u. lane_key (pl_group f) u = ln_key m) ?ts"
      using L that unfolding lanes_of_def by blast
    with t show ?thesis by auto
  qed
  have "inj_on ln_key (set (sprint_lanes f w))" using L by (simp add: lanes_of_def distinct_map)
  with l holds show ?thesis by (metis inj_onD)
qed

subsection \<open>Sprints\<close>

definition msg_sprint_started :: "string \<Rightarrow> string" where "msg_sprint_started n = ''Started '' @ n"
definition msg_sprint_closed :: "string \<Rightarrow> string" where "msg_sprint_closed n = n @ '' closed''"
definition msg_sprint_deleted :: string where "msg_sprint_deleted = ''Sprint deleted''"

definition startSprint_done :: "sprint \<Rightarrow> sprint api_res \<Rightarrow> workspace \<Rightarrow> workspace \<times> ws_effect list" where
  "startSprint_done s r w =
     (case r of
        Inr _ \<Rightarrow> (w\<lparr> ws_sprint := sp_id s \<rparr>, [DoReload, Notify NtSuccess (msg_sprint_started (sp_name s))])
      | Inl e \<Rightarrow> (w, [Notify NtError (error_or e)]))"

definition closeSprint_done :: "sprint \<Rightarrow> sprint api_res \<Rightarrow> workspace \<Rightarrow> workspace \<times> ws_effect list" where
  "closeSprint_done s r w =
     (case r of
        Inr _ \<Rightarrow> (w\<lparr> ws_sprint := (if ws_sprint w = sp_id s then [] else ws_sprint w) \<rparr>,
                  [DoReload, Notify NtSuccess (msg_sprint_closed (sp_name s))])
      | Inl e \<Rightarrow> (w, [Notify NtError (error_or e)]))"

definition deletePlannedSprint_done :: "sprint \<Rightarrow> unit api_res \<Rightarrow> workspace \<Rightarrow> workspace \<times> ws_effect list" where
  "deletePlannedSprint_done s r w =
     (case r of
        Inr _ \<Rightarrow> (w\<lparr> ws_sprint := (if ws_sprint w = sp_id s then [] else ws_sprint w) \<rparr>,
                  [DoReload, Notify NtSuccess msg_sprint_deleted])
      | Inl e \<Rightarrow> (w, [Notify NtError (error_or e)]))"

record sprint_form =
  sf_name :: string
  sf_goal :: string
  sf_milestone_id :: "string option"
  sf_start_date :: string
  sf_end_date :: string
  sf_sync :: bool

definition sprint_dates_ok :: "string \<Rightarrow> string \<Rightarrow> bool" where
  "sprint_dates_ok start end \<longleftrightarrow> end = [] \<or> start = [] \<or> start \<le> end"

definition milestoneChanged :: "sprint option \<Rightarrow> sprint_form \<Rightarrow> bool" where
  "milestoneChanged editing f \<longleftrightarrow>
     (case editing of None \<Rightarrow> False | Some s \<Rightarrow> sp_milestone_id s \<noteq> opt_str (sf_milestone_id f))"

text \<open>The task updates that follow the sprint's own update.\<close>

definition sync_requests :: "sprint option \<Rightarrow> sprint_form \<Rightarrow> task list \<Rightarrow> (string \<times> task_patch) list" where
  "sync_requests editing f items =
     (case editing of
        None \<Rightarrow> []
      | Some s \<Rightarrow>
          if milestoneChanged editing f \<and> sf_sync f
          then map (\<lambda>t. (tk_id t, empty_patch\<lparr> tp_milestone_id := Some (opt_str (sf_milestone_id f)) \<rparr>))
                 (filter (\<lambda>t. tk_sprint_id t = sp_id s) items)
          else [])"

datatype sprint_notice = SnPartly nat | SnSynced | SnUpdated | SnCreated

definition sprint_notice_of :: "sprint option \<Rightarrow> sprint_form \<Rightarrow> task api_res list \<Rightarrow> sprint_notice" where
  "sprint_notice_of editing f answers =
     (let bad = count_where isl answers
      in if bad \<noteq> 0 then SnPartly bad
         else if sf_sync f \<and> milestoneChanged editing f then SnSynced
         else if editing \<noteq> None then SnUpdated else SnCreated)"

text \<open>After a close, the reload leaves the closed sprint and picks the current one or none.\<close>

lemma closed_sprint_is_left:
  assumes "ws_sprint w = sp_id s" "sp_id s \<noteq> []"
    and "\<forall>t\<in>set ss. sp_id t = sp_id s \<longrightarrow> sp_status t = SpClosed"
  shows "ws_sprint (set_sprints ss (fst (closeSprint_done s (Inr u) w))) \<noteq> sp_id s"
  using assms by (auto simp: closeSprint_done_def set_sprints_def pick_sprint_def active_sprint_def
      split: option.splits dest!: find_Some_iff [THEN iffD1])

subsection \<open>The options of a custom field\<close>

definition option_delims :: "string list" where
  "option_delims = [[CHR '','' ], [CHR 0x0A], [CHR 0xEF, CHR 0xBC, CHR 0x8C]]"

lemma option_delims_shorter: "strip_any option_delims s = Some r \<Longrightarrow> length r < length s"
  by (drule strip_any_Some) (auto simp: option_delims_def)

function split_options :: "string \<Rightarrow> string \<Rightarrow> string list" where
  "split_options acc s =
     (case strip_any option_delims s of
        Some r \<Rightarrow> rev acc # split_options [] r
      | None \<Rightarrow> (case s of [] \<Rightarrow> [rev acc] | c # cs \<Rightarrow> split_options (c # acc) cs))"
  by pat_completeness auto

termination
  by (relation "measure (\<lambda>(acc, s). length s)") (auto dest: option_delims_shorter)

definition option_candidates :: "string \<Rightarrow> string list" where
  "option_candidates draft = filter (\<lambda>s. s \<noteq> []) (map trim (split_options [] draft))"

datatype option_error = OeTooLong string | OeExists string | OeTooMany

fun add_options :: "string list \<Rightarrow> string list \<Rightarrow> option_error + string list" where
  "add_options next [] = Inr next"
| "add_options next (c # cs) =
     (if 80 < length_units c then Inl (OeTooLong (slice_units 20 c))
      else if c \<in> set next then Inl (OeExists c)
      else if 50 \<le> length next then Inl OeTooMany
      else add_options (next @ [c]) cs)"

record option_editor =
  oe_value :: "string list"
  oe_draft :: string
  oe_error :: "option_error option"

definition addOptions :: "option_editor \<Rightarrow> option_editor" where
  "addOptions e =
     (let cs = option_candidates (oe_draft e)
      in if cs = [] then e
         else case add_options (oe_value e) cs of
           Inl err \<Rightarrow> e\<lparr> oe_error := Some err \<rparr>
         | Inr next \<Rightarrow> \<lparr> oe_value = next, oe_draft = [], oe_error = None \<rparr>)"

definition typeOption :: "string \<Rightarrow> option_editor \<Rightarrow> option_editor" where
  "typeOption s e = e\<lparr> oe_draft := s, oe_error := None \<rparr>"

definition removeOption :: "nat \<Rightarrow> option_editor \<Rightarrow> option_editor" where
  "removeOption n e =
     e\<lparr> oe_value := map snd (filter (\<lambda>(i, x). i \<noteq> n) (enumerate 0 (oe_value e))), oe_error := None \<rparr>"

definition options_ok :: "string list \<Rightarrow> bool" where
  "options_ok os \<longleftrightarrow> distinct os \<and> length os \<le> 50 \<and> (\<forall>s\<in>set os. s \<noteq> [] \<and> length_units s \<le> 80)"

lemma add_options_ok:
  "options_ok next \<Longrightarrow> [] \<notin> set cs \<Longrightarrow> add_options next cs = Inr out \<Longrightarrow>
     options_ok out \<and> out = next @ cs"
proof (induction "next" cs rule: add_options.induct)
  case (2 n c cs)
  then have c: "length_units c \<le> 80" "c \<notin> set n" "length n < 50" "add_options (n @ [c]) cs = Inr out" "c \<noteq> []" "[] \<notin> set cs"
    by (auto split: if_splits)
  then have "options_ok (n @ [c])" using "2.prems"(1) by (simp add: options_ok_def)
  then show ?case using "2.IH" c by (simp add: not_less) auto
qed simp

lemma addOptions_ok: "options_ok (oe_value e) \<Longrightarrow> options_ok (oe_value (addOptions e))"
  using add_options_ok [of "oe_value e" "option_candidates (oe_draft e)"]
  by (auto simp: addOptions_def Let_def option_candidates_def split: sum.splits)

lemma removeOption_ok: "options_ok (oe_value e) \<Longrightarrow> options_ok (oe_value (removeOption n e))"
proof -
  assume ok: "options_ok (oe_value e)"
  let ?xs = "map snd (filter (\<lambda>(i, x). i \<noteq> n) (enumerate 0 (oe_value e)))"
  have "set ?xs \<subseteq> set (oe_value e)" by (force simp: in_set_enumerate_eq)
  moreover have "distinct ?xs"
    using ok by (auto simp: options_ok_def distinct_map_filter)
  moreover have "length ?xs \<le> length (oe_value e)"
    by (metis length_enumerate length_filter_le length_map)
  ultimately show ?thesis
    using ok unfolding options_ok_def removeOption_def by (simp del: set_map set_filter) (meson subsetD le_trans)
qed

end
