(* ===== verification/Calendar.thy ===== *)
theory Calendar
  imports Dates WorkItems
begin

text \<open>
  The calendar of the desktop client's plan (\<open>localDateKey\<close>, \<open>monthGrid\<close> and \<open>CalendarView\<close> in
  \<open>src/src/components/project/ProjectWork.tsx\<close>): six weeks from the Monday on or before the
  first of the month, and the tasks filed under each of their days.
\<close>

subsection \<open>The view\<close>

definition localDateKey :: "cal_date \<Rightarrow> string" where
  "localDateKey c = dec_int (cd_year c) @ ''-'' @ pad2 (nat (cd_month c + 1)) @ ''-'' @ pad2 (nat (cd_day c))"

definition monthGrid :: "cal_date \<Rightarrow> cal_date list" where
  "monthGrid anchor =
     (let first = new_date (cd_year anchor) (cd_month anchor) 1;
          mondayOffset = (get_day first + 6) mod 7;
          start = new_date (cd_year first) (cd_month first) (1 - mondayOffset)
      in map (\<lambda>index. new_date (cd_year start) (cd_month start) (cd_day start + int index)) [0..<42])"

text \<open>The component's state: \<open>anchor\<close>, \<open>detailId\<close> and \<open>createOn\<close>.\<close>

record calendar =
  cl_anchor :: cal_date
  cl_detailId :: "string option"
  cl_createOn :: "string option"

definition initial_calendar :: "cal_date \<Rightarrow> calendar" where
  "initial_calendar now = \<lparr> cl_anchor = new_date (cd_year now) (cd_month now) 1, cl_detailId = None, cl_createOn = None \<rparr>"

definition moveMonth :: "int \<Rightarrow> calendar \<Rightarrow> calendar" where
  "moveMonth delta c =
     c\<lparr> cl_anchor := new_date (cd_year (cl_anchor c)) (cd_month (cl_anchor c) + delta) 1 \<rparr>"

definition goToday :: "cal_date \<Rightarrow> calendar \<Rightarrow> calendar" where
  "goToday now c = c\<lparr> cl_anchor := new_date (cd_year now) (cd_month now) 1 \<rparr>"

definition undated :: "work_item list \<Rightarrow> work_item list" where
  "undated items = filter (\<lambda>t. \<not> truthy (wi_start_date t) \<and> \<not> truthy (wi_due_date t)) items"

definition item_date :: "work_item \<Rightarrow> string" where
  "item_date t = or_str (opt_str (wi_due_date t)) (opt_str (wi_start_date t))"

text \<open>\<open>byDate\<close>: a map from dates to the tasks of that date, in the order of the list.\<close>

definition file_item :: "work_item \<Rightarrow> (string \<Rightarrow> work_item list option) \<Rightarrow> string \<Rightarrow> work_item list option" where
  "file_item t m =
     (if item_date t = [] then m
      else m(item_date t \<mapsto> nullish (m (item_date t)) [] @ [t]))"

definition byDate :: "work_item list \<Rightarrow> string \<Rightarrow> work_item list option" where
  "byDate items = fold file_item items Map.empty"

record calendar_cell =
  cc_key :: string
  cc_in_month :: bool
  cc_today :: bool
  cc_records :: "work_item list"
  cc_shown :: "work_item list"
  cc_more :: nat

definition calendar_cell_of :: "cal_date \<Rightarrow> cal_date \<Rightarrow> work_item list \<Rightarrow> cal_date \<Rightarrow> calendar_cell" where
  "calendar_cell_of anchor today items day =
     (let records = nullish (byDate items (localDateKey day)) []
      in \<lparr> cc_key = localDateKey day, cc_in_month = (cd_month day = cd_month anchor),
           cc_today = (localDateKey day = localDateKey today), cc_records = records,
           cc_shown = take 3 records, cc_more = length records - 3 \<rparr>)"

definition calendar_cells :: "cal_date \<Rightarrow> work_item list \<Rightarrow> calendar \<Rightarrow> calendar_cell list" where
  "calendar_cells today items c = map (calendar_cell_of (cl_anchor c) today items) (monthGrid (cl_anchor c))"

subsection \<open>Keys\<close>

text \<open>The value of decimal digits, read from the left.\<close>

definition dec_value :: "string \<Rightarrow> nat" where
  "dec_value s = fold (\<lambda>c n. 10 * n + (byte c - 48)) s 0"

lemma dec_value_dec_nat [simp]: "dec_value (dec_nat n) = n"
proof (induction n rule: dec_nat.induct)
  case (1 n)
  show ?case
  proof (cases "n < 10")
    case True
    then show ?thesis by (simp add: dec_nat.simps [of n] dec_value_def)
  next
    case False
    then show ?thesis using 1 by (simp add: dec_nat.simps [of n] dec_value_def)
  qed
qed

lemma dec_nat_inj: "dec_nat a = dec_nat b \<longleftrightarrow> a = b"
  using dec_value_dec_nat by metis

lemma dec_value_pad2 [simp]: "dec_value (pad2 n) = n"
  using dec_value_dec_nat [of n] by (simp add: pad2_def dec_value_def)

lemma no_dash: "CHR ''-'' \<notin> set (dec_nat n)" "CHR ''-'' \<notin> set (pad2 n)"
proof -
  have "CHR ''-'' \<noteq> chr 48" by code_simp
  then show "CHR ''-'' \<notin> set (dec_nat n)" "CHR ''-'' \<notin> set (pad2 n)"
    using dec_nat_digits [of "CHR ''-''" n] by (auto simp: pad2_def)
qed

lemma localDateKey_inj:
  assumes "localDateKey a = localDateKey b" "real_date a" "real_date b" "0 \<le> cd_year a" "0 \<le> cd_year b"
  shows "a = b"
proof -
  have parts: "split_on CHR ''-'' (localDateKey c) =
      [dec_nat (nat (cd_year c)), pad2 (nat (cd_month c + 1)), pad2 (nat (cd_day c))]" if "0 \<le> cd_year c" for c
    using that by (simp add: localDateKey_def dec_int_def split_on_append split_on_no_delim no_dash)
  have pad: "pad2 m = pad2 n \<longleftrightarrow> m = n" for m n
    using dec_value_pad2 by metis
  from assms(1) parts [OF assms(4)] parts [OF assms(5)]
  show ?thesis using assms(2-5) by (cases a; cases b) (auto simp: dec_nat_inj pad real_date_def)
qed

subsection \<open>The grid\<close>

definition grid_offset :: "cal_date \<Rightarrow> int" where
  "grid_offset anchor = (get_day (new_date (cd_year anchor) (cd_month anchor) 1) + 6) mod 7"

lemma grid_offset_bounds: "0 \<le> grid_offset anchor" "grid_offset anchor \<le> 6"
  by (simp_all add: grid_offset_def)

text \<open>Days of the grid are consecutive days, numbered from the first of the month.\<close>

definition shown_month :: "cal_date \<Rightarrow> bool" where
  "shown_month anchor \<longleftrightarrow> real_date anchor \<and> 101 \<le> cd_year anchor"

lemma shown_monthD:
  assumes "shown_month anchor"
  shows "0 \<le> cd_month anchor" "cd_month anchor \<le> 11" "101 \<le> cd_year anchor"
  using assms by (simp_all add: shown_month_def real_date_def)

lemma roll_year_ge: "1 \<le> d \<Longrightarrow> fst ym \<le> cd_year (roll ym d)"
proof (induction ym d rule: roll.induct)
  case (1 ym d)
  have "fst ym \<le> fst (next_month ym)" by (simp add: next_month_def)
  then show ?case using 1 by (cases "month_len (fst ym) (snd ym) < d") (auto simp: roll.simps [of ym d])
qed

lemma grid_start_year:
  assumes anchor: "shown_month anchor" and "-5 \<le> d" "d \<le> 1"
  shows "cd_year (new_date (cd_year anchor) (cd_month anchor) d) \<ge> cd_year anchor - 1"
proof -
  note m = shown_monthD [OF anchor]
  let ?p = "prev_month (cd_year anchor, cd_month anchor)"
  have r: "roll (y, k) e = \<lparr> cd_year = y, cd_month = k, cd_day = e \<rparr>" if "1 \<le> e" "e \<le> 28" for y k e
    using that month_len_bounds [of y k] by (simp add: roll.simps)
  have y: "fst ?p \<ge> cd_year anchor - 1" by (simp add: prev_month_def)
  have nd: "new_date (cd_year anchor) (cd_month anchor) d = roll (cd_year anchor, cd_month anchor) d"
    using m by (simp add: new_date_def)
  have p: "roll (cd_year anchor, cd_month anchor) d = roll ?p (d + month_len (fst ?p) (snd ?p))" if "d < 1"
    using that by (simp add: roll.simps [of "(cd_year anchor, cd_month anchor)" d])
  have "cd_year (roll ?p (d + month_len (fst ?p) (snd ?p))) = fst ?p" if "d < 1"
    using that assms(2) month_len_bounds [of "fst ?p" "snd ?p"]
    by (simp add: roll.simps [of ?p "d + month_len (fst ?p) (snd ?p)"])
  then show ?thesis using nd p y r [of d] assms by (cases "d < 1") simp_all
qed

lemma grid_days:
  assumes anchor: "shown_month anchor" and i: "i < 42"
  shows "monthGrid anchor ! i = new_date
           (cd_year (new_date (cd_year anchor) (cd_month anchor) (1 - grid_offset anchor)))
           (cd_month (new_date (cd_year anchor) (cd_month anchor) (1 - grid_offset anchor)))
           (cd_day (new_date (cd_year anchor) (cd_month anchor) (1 - grid_offset anchor)) + int i)"
proof -
  let ?first = "new_date (cd_year anchor) (cd_month anchor) 1"
  note m = shown_monthD [OF anchor]
  have "?first = \<lparr> cd_year = cd_year anchor, cd_month = cd_month anchor, cd_day = 1 \<rparr>"
    using m month_len_bounds [of "cd_year anchor" "cd_month anchor"]
    by (simp add: new_date_def roll.simps)
  then show ?thesis using i by (simp add: monthGrid_def grid_offset_def Let_def)
qed

lemma grid_day:
  assumes anchor: "shown_month anchor" and i: "i < 42"
  shows "real_date (monthGrid anchor ! i)"
    and "100 \<le> cd_year (monthGrid anchor ! i)"
    and "cal_number (monthGrid anchor ! i)
           = day_number (cd_year anchor) (cd_month anchor + 1) 1 - grid_offset anchor + int i"
proof -
  let ?s = "new_date (cd_year anchor) (cd_month anchor) (1 - grid_offset anchor)"
  note m = shown_monthD [OF anchor]
  have s: "real_date ?s" "cal_number ?s = day_number (cd_year anchor) (cd_month anchor + 1) 1 - grid_offset anchor"
    using new_date_real [of "cd_year anchor"] m by simp_all
  have y: "100 \<le> cd_year ?s"
    using grid_start_year [OF anchor, of "1 - grid_offset anchor"] grid_offset_bounds [of anchor] m by simp
  have ms: "0 \<le> cd_month ?s" "cd_month ?s \<le> 11" using s(1) by (simp_all add: real_date_def)
  show "real_date (monthGrid anchor ! i)"
    using grid_days [OF anchor i] new_date_real(1) [OF y] by simp
  show "100 \<le> cd_year (monthGrid anchor ! i)"
    using grid_days [OF anchor i] y ms s(1) roll_year_ge [of "cd_day ?s + int i" "(cd_year ?s, cd_month ?s)"]
    by (simp add: new_date_def real_date_def)
  show "cal_number (monthGrid anchor ! i)
           = day_number (cd_year anchor) (cd_month anchor + 1) 1 - grid_offset anchor + int i"
    using grid_days [OF anchor i] new_date_real(2) [OF y ms, of "cd_day ?s + int i"] s(2)
    by (simp add: cal_number_def day_number_day [of "cd_year ?s" "cd_month ?s + 1" "cd_day ?s"])
qed

lemma grid_first_monday:
  assumes "shown_month anchor"
  shows "get_day (monthGrid anchor ! 0) = 1"
proof -
  let ?n = "day_number (cd_year anchor) (cd_month anchor + 1) 1"
  have "cal_number (new_date (cd_year anchor) (cd_month anchor) 1) = ?n"
    using new_date_real(2) [of "cd_year anchor" "cd_month anchor" 1] shown_monthD [OF assms] by simp
  then have "grid_offset anchor = (?n + 4 + 6) mod 7"
    by (simp add: grid_offset_def get_day_def mod_simps)
  then have "grid_offset anchor = (?n + 3) mod 7"
    using mod_add_self2 [of "?n + 3" 7] by (simp add: add.commute)
  moreover have "?n + 3 - (?n + 3) mod 7 = 7 * ((?n + 3) div 7)" by (simp add: minus_mod_eq_mult_div)
  ultimately have "cal_number (monthGrid anchor ! 0) + 4 = 1 + 7 * ((?n + 3) div 7)"
    using grid_day(3) [OF assms, of 0] by simp
  then have "(cal_number (monthGrid anchor ! 0) + 4) mod 7 = (1 + 7 * ((?n + 3) div 7)) mod 7"
    by (rule arg_cong)
  then show ?thesis unfolding get_day_def mod_mult_self2 by simp
qed

lemma distinct_grid:
  assumes "shown_month anchor"
  shows "distinct (map localDateKey (monthGrid anchor))"
proof -
  have len: "length (monthGrid anchor) = 42" by (simp add: monthGrid_def Let_def)
  have "i = j" if "i < 42" "j < 42" "localDateKey (monthGrid anchor ! i) = localDateKey (monthGrid anchor ! j)" for i j
  proof -
    have "0 \<le> cd_year (monthGrid anchor ! i)" "0 \<le> cd_year (monthGrid anchor ! j)"
      using grid_day(2) [OF assms that(1)] grid_day(2) [OF assms that(2)] by linarith+
    with that(3) grid_day(1) [OF assms that(1)] grid_day(1) [OF assms that(2)]
    have "monthGrid anchor ! i = monthGrid anchor ! j" by (rule localDateKey_inj)
    then have "cal_number (monthGrid anchor ! i) = cal_number (monthGrid anchor ! j)" by (rule arg_cong)
    then show ?thesis unfolding grid_day(3) [OF assms that(1)] grid_day(3) [OF assms that(2)] by simp
  qed
  then show ?thesis using len by (auto simp: distinct_conv_nth)
qed

text \<open>Dates are their numbers: a real date is where its number puts it in the grid.\<close>

lemma month_day_in_grid:
  assumes "shown_month anchor" "1 \<le> d" "d \<le> month_len (cd_year anchor) (cd_month anchor)"
  shows "monthGrid anchor ! nat (grid_offset anchor + d - 1)
           = \<lparr> cd_year = cd_year anchor, cd_month = cd_month anchor, cd_day = d \<rparr>"
    and "nat (grid_offset anchor + d - 1) < 42"
proof -
  let ?o = "grid_offset anchor" and ?ym = "(cd_year anchor, cd_month anchor)"
  let ?p = "prev_month ?ym"
  have o: "0 \<le> ?o" "?o \<le> 6" by (rule grid_offset_bounds)+
  have m: "0 \<le> cd_month anchor" "cd_month anchor \<le> 11" "101 \<le> cd_year anchor"
    using shown_monthD [OF assms(1)] by simp_all
  have d31: "d \<le> 31" using assms(3) month_len_bounds [of "cd_year anchor" "cd_month anchor"] by simp
  show i: "nat (?o + d - 1) < 42" using o d31 by simp
  have start: "new_date (cd_year anchor) (cd_month anchor) (1 - ?o) =
      (if ?o = 0 then \<lparr> cd_year = cd_year anchor, cd_month = cd_month anchor, cd_day = 1 \<rparr>
       else \<lparr> cd_year = fst ?p, cd_month = snd ?p, cd_day = 1 - ?o + month_len (fst ?p) (snd ?p) \<rparr>)"
    using m o month_len_bounds [of "fst ?p" "snd ?p"] month_len_bounds [of "cd_year anchor" "cd_month anchor"]
    by (simp add: new_date_def roll.simps [of ?ym "1 - ?o"] roll.simps [of ?p "1 - ?o + month_len (fst ?p) (snd ?p)"])
  have p: "next_month ?p = ?ym" "100 \<le> fst ?p" "0 \<le> snd ?p" "snd ?p \<le> 11"
    using m by (auto simp: next_month_def prev_month_def)
  have real: "roll ?ym d = \<lparr> cd_year = cd_year anchor, cd_month = cd_month anchor, cd_day = d \<rparr>"
    using assms(2, 3) by (simp add: roll.simps)
  show "monthGrid anchor ! nat (?o + d - 1) = \<lparr> cd_year = cd_year anchor, cd_month = cd_month anchor, cd_day = d \<rparr>"
  proof (cases "?o = 0")
    case True
    then show ?thesis using grid_days [OF assms(1) i] start m assms(2) real by (simp add: new_date_def)
  next
    case False
    let ?e = "month_len (fst ?p) (snd ?p) + d"
    have "roll ?p ?e = roll ?ym d"
      using assms(2) month_len_bounds [of "fst ?p" "snd ?p"] p(1)
      by (simp add: roll.simps [of ?p ?e])
    then show ?thesis using grid_days [OF assms(1) i] start m o assms(2) real False p(2-4)
      by (simp add: new_date_def algebra_simps)
  qed
qed

subsection \<open>The tasks of a day\<close>

lemma byDate_filter:
  "nullish (byDate items k) [] = filter (\<lambda>t. item_date t = k \<and> item_date t \<noteq> []) items"
proof -
  have "nullish (fold file_item xs m k) [] = nullish (m k) [] @ filter (\<lambda>t. item_date t = k \<and> item_date t \<noteq> []) xs" for xs m
    by (induction xs arbitrary: m) (auto simp: file_item_def)
  then show ?thesis by (simp add: byDate_def)
qed

lemma localDateKey_not_Nil: "localDateKey c \<noteq> []"
  by (simp add: localDateKey_def)

lemma cell_records:
  "cc_records (calendar_cell_of anchor today items day) = filter (\<lambda>t. item_date t = localDateKey day) items"
  using localDateKey_not_Nil [of day]
  by (auto simp: calendar_cell_of_def Let_def byDate_filter intro: filter_cong)

lemma anchor_real:
  assumes "shown_month (cl_anchor c)" "\<bar>delta\<bar> \<le> 1"
  shows "real_date (cl_anchor (moveMonth delta c))"
  using new_date_real(1) shown_monthD [OF assms(1)] by (simp add: moveMonth_def)

text \<open>
  C18. The calendar shows each day of its month in one place: its six weeks start on a Monday,
  no date occurs twice, each day of the shown month is one of the cells, marked as of the
  month, and a cell lists, in the board's order, exactly the tasks due on its date (starting on
  it where they have no due date), the first three and the number of the others.
\<close>

theorem calendar_shows_each_day_once:
  assumes "shown_month (cl_anchor c)"
  shows "length (calendar_cells today items c) = 42
    \<and> get_day (monthGrid (cl_anchor c) ! 0) = 1
    \<and> distinct (map cc_key (calendar_cells today items c))
    \<and> (\<forall>d\<in>{1..month_len (cd_year (cl_anchor c)) (cd_month (cl_anchor c))}.
         \<exists>cell\<in>set (calendar_cells today items c). cc_in_month cell
           \<and> cc_key cell = localDateKey \<lparr> cd_year = cd_year (cl_anchor c), cd_month = cd_month (cl_anchor c), cd_day = d \<rparr>)
    \<and> (\<forall>cell\<in>set (calendar_cells today items c).
         cc_records cell = filter (\<lambda>t. item_date t = cc_key cell) items
         \<and> cc_shown cell = take 3 (cc_records cell)
         \<and> length (cc_shown cell) + cc_more cell = length (cc_records cell))"
proof (intro conjI ballI)
  let ?a = "cl_anchor c"
  have len: "length (monthGrid ?a) = 42" by (simp add: monthGrid_def Let_def)
  show "length (calendar_cells today items c) = 42" by (simp add: calendar_cells_def len)
  show "get_day (monthGrid ?a ! 0) = 1" by (rule grid_first_monday [OF assms])
  have "map cc_key (calendar_cells today items c) = map localDateKey (monthGrid ?a)"
    by (simp add: calendar_cells_def calendar_cell_of_def Let_def)
  then show "distinct (map cc_key (calendar_cells today items c))" using distinct_grid [OF assms] by simp
next
  fix d assume "d \<in> {1..month_len (cd_year (cl_anchor c)) (cd_month (cl_anchor c))}"
  then have d: "1 \<le> d" "d \<le> month_len (cd_year (cl_anchor c)) (cd_month (cl_anchor c))" by simp_all
  let ?day = "\<lparr> cd_year = cd_year (cl_anchor c), cd_month = cd_month (cl_anchor c), cd_day = d \<rparr>"
  have "?day \<in> set (monthGrid (cl_anchor c))"
    using month_day_in_grid [OF assms d] nth_mem [of _ "monthGrid (cl_anchor c)"]
    by (metis length_map length_upt minus_nat.diff_0 monthGrid_def)
  then show "\<exists>cell\<in>set (calendar_cells today items c). cc_in_month cell \<and> cc_key cell = localDateKey ?day"
    by (intro bexI [where x = "calendar_cell_of (cl_anchor c) today items ?day"])
      (auto simp: calendar_cells_def calendar_cell_of_def Let_def)
next
  fix cell assume "cell \<in> set (calendar_cells today items c)"
  then obtain day where cell: "cell = calendar_cell_of (cl_anchor c) today items day"
    by (auto simp: calendar_cells_def)
  have key: "cc_key cell = localDateKey day" by (simp add: cell calendar_cell_of_def Let_def)
  show "cc_records cell = filter (\<lambda>t. item_date t = cc_key cell) items"
    unfolding key unfolding cell by (rule cell_records)
  show "cc_shown cell = take 3 (cc_records cell)"
    by (simp add: cell calendar_cell_of_def Let_def)
  show "length (cc_shown cell) + cc_more cell = length (cc_records cell)"
    by (simp add: cell calendar_cell_of_def Let_def)
qed

theorem calendar_shows_each_day_once_witness:
  "\<exists>cell\<in>set (calendar_cells \<lparr> cd_year = 2024, cd_month = 1, cd_day = 20 \<rparr> [] (initial_calendar \<lparr> cd_year = 2024, cd_month = 1, cd_day = 9 \<rparr>)).
     cc_key cell = ''2024-02-29'' \<and> cc_in_month cell"
proof -
  let ?c = "initial_calendar \<lparr> cd_year = 2024, cd_month = 1, cd_day = 9 \<rparr>"
  have c: "cl_anchor ?c = \<lparr> cd_year = 2024, cd_month = 1, cd_day = 1 \<rparr>"
    "month_len 2024 1 = 29" "localDateKey \<lparr> cd_year = 2024, cd_month = 1, cd_day = 29 \<rparr> = ''2024-02-29''"
    by code_simp+
  have "shown_month (cl_anchor ?c)" unfolding c by code_simp
  from calendar_shows_each_day_once [OF this, of "\<lparr> cd_year = 2024, cd_month = 1, cd_day = 20 \<rparr>" "[]",
      THEN conjunct2, THEN conjunct2, THEN conjunct2, THEN conjunct1, THEN bspec [where x = 29]]
  show ?thesis by (auto simp: c)
qed

end
