(* ===== verification/PlanStore.thy ===== *)
theory PlanStore
  imports WorkItems Http "HOL-Library.Countable"
begin

text \<open>
  What a project's plan keeps beside its tasks: templates, limits of the columns and saved views,
  in the browser's storage for a local project and in the Server's shared settings for a team's
  (the helpers at the head of \<open>src/src/components/project/ProjectWork.tsx\<close>, \<open>saveAsTemplate\<close>,
  \<open>saveWip\<close> and \<open>saveKView\<close>). Hours are rationals, so the numeric fields of a raw object are
  read beside its other fields.
\<close>

subsection \<open>Templates\<close>

record raw_values =
  rv_fields :: json
  rv_estimate :: "rat option"
  rv_spent :: "rat option"

record work_template =
  wt_name :: string
  wt_values :: new_work_item

text \<open>\<open>String(value)\<close>; that of arrays, objects and infinities is an argument.\<close>

fun js_string :: "(json \<Rightarrow> string) \<Rightarrow> json \<Rightarrow> string" where
  "js_string other (JStr s) = s"
| "js_string other (JNum n) = dec_int n"
| "js_string other (JBool True) = ''true''"
| "js_string other (JBool False) = ''false''"
| "js_string other JNull = ''null''"
| "js_string other JUndef = ''undefined''"
| "js_string other v = other v"

text \<open>\<open>String(raw.field || d)\<close>\<close>

definition field_string :: "(json \<Rightarrow> string) \<Rightarrow> string \<Rightarrow> string \<Rightarrow> raw_values \<Rightarrow> string" where
  "field_string other k d raw =
     (if jtruthy (jget k (rv_fields raw)) then js_string other (jget k (rv_fields raw)) else d)"

definition status_key :: "work_status \<Rightarrow> string" where
  "status_key s = (case s of WTodo \<Rightarrow> ''todo'' | WDoing \<Rightarrow> ''doing'' | WPaused \<Rightarrow> ''paused''
     | WReview \<Rightarrow> ''review'' | WDone \<Rightarrow> ''done'')"

definition priority_key :: "work_priority \<Rightarrow> string" where
  "priority_key p = (case p of PrNone \<Rightarrow> [] | PrLow \<Rightarrow> ''low'' | PrMedium \<Rightarrow> ''medium''
     | PrHigh \<Rightarrow> ''high'' | PrUrgent \<Rightarrow> ''urgent'')"

definition COLS :: "work_status list" where
  "COLS = [WTodo, WDoing, WPaused, WReview, WDone]"

definition PRIORITY_OPTS :: "work_priority list" where
  "PRIORITY_OPTS = [PrNone, PrLow, PrMedium, PrHigh, PrUrgent]"

definition status_of_key :: "string \<Rightarrow> work_status option" where
  "status_of_key k = find_key status_key k COLS"

definition priority_of_key :: "string \<Rightarrow> work_priority option" where
  "priority_of_key k = find_key priority_key k PRIORITY_OPTS"

definition date_field :: "string \<Rightarrow> raw_values \<Rightarrow> string option" where
  "date_field k raw = or_none (jstr (jget k (rv_fields raw)))"

definition numberValue :: "rat option \<Rightarrow> rat" where
  "numberValue v = (case v of Some q \<Rightarrow> if 0 \<le> q then q else 0 | None \<Rightarrow> 0)"

definition list_field :: "(json \<Rightarrow> string) \<Rightarrow> string \<Rightarrow> raw_values \<Rightarrow> string list" where
  "list_field other k raw = map (js_string other) (jarr_d (jget k (rv_fields raw)))"

definition plan_source_default :: string where
  "plan_source_default = ''manual''"

definition templateValues :: "(json \<Rightarrow> string) \<Rightarrow> raw_values \<Rightarrow> new_work_item" where
  "templateValues other raw =
     \<lparr> nw_title = [],
       nw_status = Some (nullish (status_of_key (field_string other ''status'' [] raw)) WTodo),
       nw_source = Some (field_string other ''source'' plan_source_default raw),
       nw_assignee = Some (field_string other ''assignee'' [] raw),
       nw_description = Some (field_string other ''description'' [] raw),
       nw_due_date = Some (date_field ''due_date'' raw),
       nw_attachments = None,
       nw_priority = Some (nullish (priority_of_key (field_string other ''priority'' [] raw)) PrNone),
       nw_start_date = Some (date_field ''start_date'' raw),
       nw_labels = Some (list_field other ''labels'' raw),
       nw_parent_id = Some (field_string other ''parent_id'' [] raw),
       nw_milestone_id = Some (field_string other ''milestone_id'' [] raw),
       nw_estimate_h = Some (numberValue (rv_estimate raw)),
       nw_spent_h = Some (numberValue (rv_spent raw)),
       nw_custom_fields = Some (case jget ''custom_fields'' (rv_fields raw) of JObj ps \<Rightarrow> ps | _ \<Rightarrow> []),
       nw_dependency_ids = Some (list_field other ''dependency_ids'' raw),
       nw_sprint_id = Some (field_string other ''sprint_id'' [] raw) \<rparr>"

definition opt_json :: "string option \<Rightarrow> json" where
  "opt_json v = (case v of None \<Rightarrow> JNull | Some s \<Rightarrow> JStr s)"

text \<open>A task read as such an object (\<open>workItemTemplateValues\<close>), and typed values as they are printed.\<close>

definition raw_of_item :: "work_item \<Rightarrow> raw_values" where
  "raw_of_item t =
     \<lparr> rv_fields = JObj [(''status'', JStr (status_key (wi_status t))), (''source'', JStr (wi_source t)),
         (''assignee'', JStr (wi_assignee t)), (''description'', JStr (wi_description t)),
         (''due_date'', opt_json (wi_due_date t)), (''priority'', JStr (priority_key (wi_priority t))),
         (''start_date'', opt_json (wi_start_date t)), (''labels'', JArr (map JStr (wi_labels t))),
         (''parent_id'', JStr (wi_parent_id t)), (''milestone_id'', JStr (wi_milestone_id t)),
         (''custom_fields'', JObj (wi_custom_fields t)),
         (''dependency_ids'', JArr (map JStr (wi_dependency_ids t))), (''sprint_id'', JStr (wi_sprint_id t))],
       rv_estimate = Some (wi_estimate_h t), rv_spent = Some (wi_spent_h t) \<rparr>"

definition workItemTemplateValues :: "(json \<Rightarrow> string) \<Rightarrow> work_item \<Rightarrow> new_work_item" where
  "workItemTemplateValues other t = templateValues other (raw_of_item t)"

definition raw_of_values :: "new_work_item \<Rightarrow> raw_values" where
  "raw_of_values v =
     \<lparr> rv_fields = JObj [(''status'', JStr (status_key (nullish (nw_status v) WTodo))),
         (''source'', JStr (opt_str (nw_source v))), (''assignee'', JStr (opt_str (nw_assignee v))),
         (''description'', JStr (opt_str (nw_description v))), (''due_date'', opt_json (nullish (nw_due_date v) None)),
         (''priority'', JStr (priority_key (nullish (nw_priority v) PrNone))),
         (''start_date'', opt_json (nullish (nw_start_date v) None)),
         (''labels'', JArr (map JStr (nullish (nw_labels v) []))), (''parent_id'', JStr (opt_str (nw_parent_id v))),
         (''milestone_id'', JStr (opt_str (nw_milestone_id v))),
         (''custom_fields'', JObj (nullish (nw_custom_fields v) [])),
         (''dependency_ids'', JArr (map JStr (nullish (nw_dependency_ids v) []))),
         (''sprint_id'', JStr (opt_str (nw_sprint_id v)))],
       rv_estimate = Some (nullish (nw_estimate_h v) 0),
       rv_spent = Some (nullish (nw_spent_h v) 0) \<rparr>"

subsection \<open>The storage of a local project\<close>

text \<open>
  The browser's storage, with the parsing and printing of each kind of value it holds: a row is
  a name and its raw values. \<open>JSON.parse\<close> throws on \<open>None\<close>; a value that is no list reads as
  no rows.
\<close>

record kview =
  kv_name :: string
  kv_assignee :: string
  kv_source :: string
  kv_q :: string
  kv_group :: string

record plan_codec =
  pc_other :: "json \<Rightarrow> string"
  pc_rows :: "string \<Rightarrow> (string \<times> raw_values) list option"
  pc_print_rows :: "(string \<times> raw_values) list \<Rightarrow> string"
  pc_wip :: "string \<Rightarrow> (string \<times> int) list option"
  pc_print_wip :: "(string \<times> int) list \<Rightarrow> string"
  pc_views :: "string \<Rightarrow> kview list option"
  pc_print_views :: "kview list \<Rightarrow> string"

type_synonym storage = "string \<Rightarrow> string option"

definition tpl_key :: "string \<Rightarrow> string" where
  "tpl_key pid = ''pm.tpl.'' @ pid"

definition wip_key :: "string \<Rightarrow> string" where
  "wip_key pid = ''pm.wip.'' @ pid"

definition kview_key :: "string \<Rightarrow> string" where
  "kview_key pid = ''pm.kview.'' @ pid"

definition stored_value :: "(string \<Rightarrow> 'a list option) \<Rightarrow> string \<Rightarrow> storage \<Rightarrow> 'a list" where
  "stored_value parse k ls = (case ls k of None \<Rightarrow> [] | Some s \<Rightarrow> if s = [] then [] else nullish (parse s) [])"

text \<open>\<open>localStorage.setItem\<close> inside a \<open>try\<close>: a full storage changes nothing.\<close>

definition store_value :: "bool \<Rightarrow> string \<Rightarrow> string \<Rightarrow> storage \<Rightarrow> storage" where
  "store_value fits k s ls = (if fits then ls(k \<mapsto> s) else ls)"

definition getTpl :: "plan_codec \<Rightarrow> string option \<Rightarrow> storage \<Rightarrow> work_template list" where
  "getTpl c pid ls =
     (if \<not> truthy pid then []
      else filter (\<lambda>t. wt_name t \<noteq> [])
        (map (\<lambda>(name, raw). \<lparr> wt_name = name, wt_values = templateValues (pc_other c) raw \<rparr>)
          (stored_value (pc_rows c) (tpl_key (opt_str pid)) ls)))"

definition setTpl :: "plan_codec \<Rightarrow> bool \<Rightarrow> string \<Rightarrow> work_template list \<Rightarrow> storage \<Rightarrow> storage" where
  "setTpl c fits pid ts ls =
     store_value fits (tpl_key pid) (pc_print_rows c (map (\<lambda>t. (wt_name t, raw_of_values (wt_values t))) ts)) ls"

definition getWip :: "plan_codec \<Rightarrow> string option \<Rightarrow> storage \<Rightarrow> (string \<times> int) list" where
  "getWip c pid ls = (if \<not> truthy pid then [] else stored_value (pc_wip c) (wip_key (opt_str pid)) ls)"

definition setWip :: "plan_codec \<Rightarrow> bool \<Rightarrow> string \<Rightarrow> (string \<times> int) list \<Rightarrow> storage \<Rightarrow> storage" where
  "setWip c fits pid w ls = store_value fits (wip_key pid) (pc_print_wip c w) ls"

definition getKViews :: "plan_codec \<Rightarrow> string option \<Rightarrow> storage \<Rightarrow> kview list" where
  "getKViews c pid ls = (if \<not> truthy pid then [] else stored_value (pc_views c) (kview_key (opt_str pid)) ls)"

definition setKViews :: "plan_codec \<Rightarrow> bool \<Rightarrow> string \<Rightarrow> kview list \<Rightarrow> storage \<Rightarrow> storage" where
  "setKViews c fits pid vs ls = store_value fits (kview_key pid) (pc_print_views c vs) ls"

text \<open>\<open>w[k] = v\<close> where the limit is positive, \<open>delete w[k]\<close> otherwise.\<close>

definition set_limit :: "string \<Rightarrow> int \<Rightarrow> (string \<times> int) list \<Rightarrow> (string \<times> int) list" where
  "set_limit k v w =
     (if 0 < v then (if k \<in> fst ` set w then map (\<lambda>(j, n). if j = k then (j, v) else (j, n)) w else w @ [(k, v)])
      else filter (\<lambda>(j, n). j \<noteq> k) w)"

subsection \<open>The shared settings of a team's project\<close>

record shared_template =
  st_id :: string
  st_name :: string
  st_values :: raw_values

record shared_view =
  sv_id :: string
  sv_name :: string
  sv_group :: "string option"
  sv_assignee :: "string option"
  sv_source :: "string option"
  sv_search :: "string option"

record shared_prefs =
  sp_templates :: "shared_template list"
  sp_views :: "shared_view list"
  sp_wip :: "(string \<times> int) list"
  sp_shared_updated_at :: int
  sp_views_updated_at :: int

record shared_patch =
  sx_templates :: "shared_template list option"
  sx_views :: "shared_view list option"
  sx_wip :: "(string \<times> int) list option"
  sx_expected_shared :: "int option"
  sx_expected_views :: "int option"

definition no_shared_patch :: shared_patch where
  "no_shared_patch = \<lparr> sx_templates = None, sx_views = None, sx_wip = None,
     sx_expected_shared = None, sx_expected_views = None \<rparr>"

definition sharedTemplates :: "(json \<Rightarrow> string) \<Rightarrow> shared_prefs option \<Rightarrow> work_template list" where
  "sharedTemplates other p =
     map (\<lambda>t. \<lparr> wt_name = st_name t, wt_values = templateValues other (st_values t) \<rparr>)
       (case p of None \<Rightarrow> [] | Some p \<Rightarrow> sp_templates p)"

definition sharedViews :: "shared_prefs option \<Rightarrow> kview list" where
  "sharedViews p =
     map (\<lambda>v. \<lparr> kv_name = sv_name v, kv_assignee = or_opt (sv_assignee v) ''all'',
                kv_source = or_opt (sv_source v) ''all'', kv_q = or_opt (sv_search v) [],
                kv_group = or_opt (sv_group v) ''none'' \<rparr>)
       (case p of None \<Rightarrow> [] | Some p \<Rightarrow> sp_views p)"

definition saveAsTemplate_request :: "(json \<Rightarrow> string) \<Rightarrow> string \<Rightarrow> work_item \<Rightarrow> shared_prefs \<Rightarrow> shared_patch" where
  "saveAsTemplate_request other uuid t current =
     no_shared_patch\<lparr>
       sx_templates := Some (sp_templates current @
         [\<lparr> st_id = uuid, st_name = wi_title t, st_values = raw_of_values (workItemTemplateValues other t) \<rparr>]),
       sx_expected_shared := Some (sp_shared_updated_at current) \<rparr>"

definition saveAsTemplate_local ::
  "plan_codec \<Rightarrow> bool \<Rightarrow> string option \<Rightarrow> work_item \<Rightarrow> storage \<Rightarrow> storage" where
  "saveAsTemplate_local c fits pid t ls =
     (if pid = None then ls
      else setTpl c fits (opt_str pid)
        (getTpl c pid ls @ [\<lparr> wt_name = wi_title t, wt_values = workItemTemplateValues (pc_other c) t \<rparr>]) ls)"

text \<open>
  The message of a refused save: the code looks for \<open>409\<close> in the error's text.
\<close>

datatype prefs_toast = SaidConflict | SaidRefused

definition prefs_toast_of :: "exn \<Rightarrow> prefs_toast" where
  "prefs_toast_of e = (if includes_str ''409'' (exn_message e) then SaidConflict else SaidRefused)"

subsection \<open>What is saved is read back\<close>

lemma status_key_back [simp]: "status_of_key (status_key s) = Some s"
  by (cases s) (simp_all add: status_of_key_def status_key_def COLS_def find_key_def)

lemma priority_key_back [simp]: "priority_of_key (priority_key p) = Some p"
  by (cases p) (simp_all add: priority_of_key_def priority_key_def PRIORITY_OPTS_def find_key_def)

text \<open>Values as the reader makes them: no empty dates, a source, no negative hours.\<close>

definition normal_values :: "new_work_item \<Rightarrow> bool" where
  "normal_values v \<longleftrightarrow> (\<exists>st src asg desc due pr start labels par ms est spent flds deps spr.
     v = \<lparr> nw_title = [], nw_status = Some st, nw_source = Some src, nw_assignee = Some asg,
           nw_description = Some desc, nw_due_date = Some due, nw_attachments = None, nw_priority = Some pr,
           nw_start_date = Some start, nw_labels = Some labels, nw_parent_id = Some par,
           nw_milestone_id = Some ms, nw_estimate_h = Some est, nw_spent_h = Some spent,
           nw_custom_fields = Some flds, nw_dependency_ids = Some deps, nw_sprint_id = Some spr \<rparr>
     \<and> src \<noteq> [] \<and> due \<noteq> Some [] \<and> start \<noteq> Some [] \<and> 0 \<le> est \<and> 0 \<le> spent)"

lemma or_none_not_empty: "or_none v \<noteq> Some []"
  by (cases v) (auto simp: or_none_def)

lemma normal_templateValues:
  assumes "field_string other ''source'' plan_source_default raw \<noteq> []"
  shows "normal_values (templateValues other raw)"
  using assms or_none_not_empty
  by (auto simp: normal_values_def templateValues_def date_field_def numberValue_def split: option.split)

lemma str_truthy [simp]: "jtruthy (JStr s) \<longleftrightarrow> s \<noteq> []"
  by simp

lemma field_back:
  "jget k (rv_fields raw) = JStr s \<Longrightarrow> s \<noteq> [] \<or> d = [] \<Longrightarrow> field_string other k d raw = s"
  by (auto simp: field_string_def)

lemma jstr_opt_json: "v \<noteq> Some [] \<Longrightarrow> or_none (jstr (opt_json v)) = v"
  by (cases v) (simp_all add: opt_json_def or_none_def)

lemma strings_back: "map (js_string other \<circ> JStr) xs = xs"
  by (induction xs) simp_all

lemma template_roundtrip:
  assumes "normal_values v"
  shows "templateValues other (raw_of_values v) = v"
  using assms unfolding normal_values_def
  by (elim exE conjE) (simp add: templateValues_def raw_of_values_def field_back date_field_def
      numberValue_def list_field_def jstr_opt_json strings_back)

text \<open>What \<open>JSON.parse\<close> and \<open>JSON.stringify\<close> promise of the three kinds of value.\<close>

definition codec_ok :: "plan_codec \<Rightarrow> bool" where
  "codec_ok c \<longleftrightarrow>
     (\<forall>rows. pc_print_rows c rows \<noteq> [] \<and> pc_rows c (pc_print_rows c rows) = Some rows)
   \<and> (\<forall>w. pc_print_wip c w \<noteq> [] \<and> pc_wip c (pc_print_wip c w) = Some w)
   \<and> (\<forall>vs. pc_print_views c vs \<noteq> [] \<and> pc_views c (pc_print_views c vs) = Some vs)"

lemma stored_back:
  "s \<noteq> [] \<Longrightarrow> parse s = Some v \<Longrightarrow> stored_value parse k (store_value True k s ls) = v"
  by (simp add: stored_value_def store_value_def)

lemma get_set_tpl:
  assumes "codec_ok c" "pid \<noteq> []" "\<forall>t\<in>set ts. wt_name t \<noteq> [] \<and> normal_values (wt_values t)"
  shows "getTpl c (Some pid) (setTpl c True pid ts ls) = ts"
proof -
  let ?rows = "map (\<lambda>t. (wt_name t, raw_of_values (wt_values t))) ts"
  have "stored_value (pc_rows c) (tpl_key pid) (setTpl c True pid ts ls) = ?rows"
    unfolding setTpl_def using assms(1) by (intro stored_back) (simp_all add: codec_ok_def)
  moreover have "map (\<lambda>t. \<lparr> wt_name = wt_name t, wt_values = templateValues (pc_other c) (raw_of_values (wt_values t)) \<rparr>) ts = ts"
    using assms(3) by (induction ts) (simp_all add: template_roundtrip)
  moreover have "filter (\<lambda>t. wt_name t \<noteq> []) ts = ts"
    using assms(3) by (simp add: filter_id_conv)
  ultimately show ?thesis using assms(2) by (simp add: getTpl_def comp_def)
qed

text \<open>A limit that is set shows, one that is not positive is gone, the others stay.\<close>

lemma map_of_set_limit:
  "map_of (set_limit k v w) j =
     (if j = k then (if 0 < v then Some v else None) else map_of w j)"
proof -
  have "map_of (map (\<lambda>(i, n). if i = k then (i, v) else (i, n)) w) j =
      (if j = k then (if k \<in> fst ` set w then Some v else None) else map_of w j)"
    by (induction w) (auto split: if_splits)
  moreover have "map_of (filter (\<lambda>(i, n). i \<noteq> k) w) j = (if j = k then None else map_of w j)"
    by (induction w) auto
  moreover have "k \<notin> fst ` set w \<Longrightarrow> map_of w k = None" by (simp add: map_of_eq_None_iff)
  ultimately show ?thesis
    by (cases "j = k") (auto simp: set_limit_def map_add_def split: option.splits)
qed

text \<open>The template a task becomes, and a project in which tasks are saved one after another.\<close>

definition template_of :: "(json \<Rightarrow> string) \<Rightarrow> work_item \<Rightarrow> work_template" where
  "template_of other t = \<lparr> wt_name = wi_title t, wt_values = workItemTemplateValues other t \<rparr>"

lemma normal_item: "normal_values (workItemTemplateValues other t)"
  unfolding workItemTemplateValues_def
  by (rule normal_templateValues) (simp add: field_string_def raw_of_item_def plan_source_default_def)

lemma save_template:
  assumes "codec_ok c" "pid \<noteq> []" "getTpl c (Some pid) ls = map (template_of (pc_other c)) ts"
    and "\<forall>t\<in>set (ts @ [t]). wi_title t \<noteq> []"
  shows "getTpl c (Some pid) (saveAsTemplate_local c True (Some pid) t ls) = map (template_of (pc_other c)) (ts @ [t])"
proof -
  have "saveAsTemplate_local c True (Some pid) t ls = setTpl c True pid (map (template_of (pc_other c)) (ts @ [t])) ls"
    using assms(3) by (simp add: saveAsTemplate_local_def template_of_def)
  then show ?thesis using get_set_tpl [OF assms(1, 2)] assms(4) normal_item
    by (auto simp: template_of_def)
qed

text \<open>
  Templates are read back: after tasks of a local project were saved as templates one after
  another, the list of templates is exactly those tasks, in that order, each with the status,
  priority, dates, labels, hours and fields it had.
\<close>

theorem templates_are_read_back:
  assumes "codec_ok c" "pid \<noteq> []" "ls (tpl_key pid) = None" "\<forall>t\<in>set ts. wi_title t \<noteq> []"
  shows "getTpl c (Some pid) (fold (saveAsTemplate_local c True (Some pid)) ts ls) = map (template_of (pc_other c)) ts"
  using assms(4)
proof (induction ts rule: rev_induct)
  case Nil
  then show ?case using assms(2, 3) by (simp add: getTpl_def stored_value_def)
next
  case (snoc t ts)
  then show ?case using save_template [OF assms(1, 2), of _ ts t] by simp
qed

text \<open>
  An instance: printed is the number of the value in an enumeration of all values of its kind.
\<close>

instance json :: countable
  by countable_datatype

instance raw_values_ext :: (countable) countable
  by (rule countable_classI [of "\<lambda>v. to_nat (rv_fields v, rv_estimate v, rv_spent v, raw_values.more v)"]) simp

instance kview_ext :: (countable) countable
  by (rule countable_classI [of "\<lambda>v. to_nat (kv_name v, kv_assignee v, kv_source v, kv_q v, kv_group v, kview.more v)"]) simp

definition printed :: "'a::countable \<Rightarrow> string" where
  "printed v = replicate (Suc (to_nat v)) CHR ''1''"

definition parsed :: "string \<Rightarrow> 'a::countable option" where
  "parsed s = Some (from_nat (length s - 1))"

lemma parsed_printed: "printed v \<noteq> []" "parsed (printed v) = Some v"
  by (simp_all add: printed_def parsed_def)

definition demo_codec :: plan_codec where
  "demo_codec = \<lparr> pc_other = (\<lambda>_. []), pc_rows = parsed, pc_print_rows = printed, pc_wip = parsed,
     pc_print_wip = printed, pc_views = parsed, pc_print_views = printed \<rparr>"

lemma demo_codec_ok: "codec_ok demo_codec"
  by (simp add: codec_ok_def demo_codec_def parsed_printed)

definition demo_task :: work_item where
  "demo_task = (blank_item ''t'' ''p'' ''Review'')\<lparr> wi_status := WReview, wi_priority := PrHigh,
     wi_labels := [''qa''], wi_due_date := Some ''2024-02-29'', wi_estimate_h := 3 / 2 \<rparr>"

theorem templates_are_read_back_witness:
  "map wt_name (getTpl demo_codec (Some ''p'')
     (fold (saveAsTemplate_local demo_codec True (Some ''p'')) [demo_task, demo_task] Map.empty)) = [''Review'', ''Review'']"
proof -
  have "\<forall>t\<in>set [demo_task, demo_task]. wi_title t \<noteq> []" by (simp add: demo_task_def blank_item_def)
  from templates_are_read_back [OF demo_codec_ok _ _ this, of "''p''" Map.empty]
  show ?thesis by (simp add: template_of_def demo_task_def blank_item_def)
qed

end
