(* ===== verification/Buckets.thy ===== *)
theory Buckets
  imports Prelude
begin

text \<open>
  Grouping with a \<open>Map\<close> of lists, as the views do it: an element goes to the end of the list
  of its key, a new key to the end of the map.
\<close>

fun bucket_put :: "'k \<Rightarrow> 'a \<Rightarrow> ('k \<times> 'a list) list \<Rightarrow> ('k \<times> 'a list) list" where
  "bucket_put k x [] = [(k, [x])]"
| "bucket_put k x ((j, ys) # m) = (if j = k then (j, ys @ [x]) # m else (j, ys) # bucket_put k x m)"

definition buckets :: "('a \<Rightarrow> 'k) \<Rightarrow> 'a list \<Rightarrow> ('k \<times> 'a list) list" where
  "buckets key xs = fold (\<lambda>x. bucket_put (key x) x) xs []"

lemma keys_bucket_put: "fst ` set (bucket_put k x m) = insert k (fst ` set m)"
  by (induction k x m rule: bucket_put.induct) auto

lemma distinct_bucket_put: "distinct (map fst m) \<Longrightarrow> distinct (map fst (bucket_put k x m))"
  by (induction k x m rule: bucket_put.induct) (auto simp: keys_bucket_put)

lemma mset_bucket_put: "mset (concat (map snd (bucket_put k x m))) = add_mset x (mset (concat (map snd m)))"
  by (induction k x m rule: bucket_put.induct) auto

lemma bucket_put_bucket:
  assumes "distinct (map fst m)" "(j, ys) \<in> set (bucket_put k x m)"
  shows "if j = k then (k \<notin> fst ` set m \<and> ys = [x]) \<or> (\<exists>zs. (k, zs) \<in> set m \<and> ys = zs @ [x])
         else (j, ys) \<in> set m"
  using assms
proof (induction k x m rule: bucket_put.induct)
  case (2 k x i zs m)
  show ?case
  proof (cases "i = k")
    case True
    have "k \<notin> fst ` set m" using True "2.prems"(1) by simp
    then have "(j, ys) = (k, zs @ [x]) \<or> (j \<noteq> k \<and> (j, ys) \<in> set m)"
      using True "2.prems"(2) by (auto intro: rev_image_eqI)
    then show ?thesis using True by auto
  next
    case False
    then have "(j, ys) = (i, zs) \<or> (j, ys) \<in> set (bucket_put k x m)" using "2.prems"(2) by simp
    then show ?thesis
    proof
      assume "(j, ys) = (i, zs)"
      then show ?thesis using False by simp
    next
      assume "(j, ys) \<in> set (bucket_put k x m)"
      from "2.IH" [OF False _ this] "2.prems"(1) show ?thesis using False by (auto split: if_splits)
    qed
  qed
qed simp

lemma buckets_snoc: "buckets key (xs @ [x]) = bucket_put (key x) x (buckets key xs)"
  by (simp add: buckets_def)

lemma keys_buckets: "fst ` set (buckets key xs) = key ` set xs"
  by (induction xs rule: rev_induct) (auto simp: buckets_snoc keys_bucket_put, auto simp: buckets_def)

lemma distinct_buckets: "distinct (map fst (buckets key xs))"
  by (induction xs rule: rev_induct) (simp_all add: buckets_snoc distinct_bucket_put, simp add: buckets_def)

lemma mset_buckets: "mset (concat (map snd (buckets key xs))) = mset xs"
  by (induction xs rule: rev_induct) (simp_all add: buckets_snoc mset_bucket_put, simp add: buckets_def)

lemma bucket_filter:
  "(k, ys) \<in> set (buckets key xs) \<Longrightarrow> ys = filter (\<lambda>x. key x = k) xs"
proof (induction xs arbitrary: ys rule: rev_induct)
  case Nil
  then show ?case by (simp add: buckets_def)
next
  case (snoc x xs)
  from bucket_put_bucket [OF distinct_buckets snoc.prems [unfolded buckets_snoc]]
  show ?case
  proof (cases "k = key x")
    case True
    with bucket_put_bucket [OF distinct_buckets snoc.prems [unfolded buckets_snoc]]
    consider "key x \<notin> fst ` set (buckets key xs)" "ys = [x]"
      | zs where "(key x, zs) \<in> set (buckets key xs)" "ys = zs @ [x]" by auto
    then show ?thesis
    proof cases
      case 1
      then have "filter (\<lambda>y. key y = key x) xs = []"
        unfolding keys_buckets filter_empty_conv by (metis image_eqI)
      with 1 True show ?thesis by simp
    next
      case 2
      with snoc.IH [of zs] True show ?thesis by simp
    qed
  next
    case False
    with bucket_put_bucket [OF distinct_buckets snoc.prems [unfolded buckets_snoc]]
    show ?thesis using snoc.IH [of ys] by auto
  qed
qed

lemma bucket_not_empty: "(k, ys) \<in> set (buckets key xs) \<Longrightarrow> ys \<noteq> []"
proof -
  assume b: "(k, ys) \<in> set (buckets key xs)"
  then have "k \<in> fst ` set (buckets key xs)" by force
  then have "k \<in> key ` set xs" by (simp add: keys_buckets)
  with bucket_filter [OF b] show "ys \<noteq> []" by (auto simp: filter_empty_conv)
qed

lemma sum_buckets: "sum_list (map (length \<circ> snd) (buckets key xs)) = length xs"
proof -
  have "length (concat (map snd (buckets key xs))) = length xs"
    using mset_buckets [of key xs] by (metis size_mset)
  then show ?thesis by (simp add: length_concat comp_def)
qed

end
