(* ===== verification/PlanBoard.thy ===== *)
theory PlanBoard
  imports PlanStore Buckets Loadout StreamChat "HOL-Library.List_Lexorder" "HOL-Library.Char_ord"
begin

text \<open>
  The plan of a project in the desktop client (\<open>src/src/components/project/ProjectWork.tsx\<close>):
  the kanban with its filters, lanes, batches and saved settings (\<open>KanbanBoard\<close>), the forms for
  a new task and its labels, the grouped list, the load per person, and the detail of a task
  with its execution by an agent (\<open>TodoDetailModal\<close>). What a handler asks of the store and of
  the client's API is a list of requests.
\<close>

subsection \<open>The kanban\<close>

datatype plan_group = GroupNone | GroupAssignee | GroupMilestone

record kanban =
  kb_detailId :: "string option"
  kb_newIn :: "work_status option"
  kb_dropCol :: "work_status option"
  kb_quickIn :: "work_status option"
  kb_quickDraft :: string
  kb_fAssignee :: string
  kb_fSource :: string
  kb_q :: string
  kb_batch :: bool
  kb_sel :: "string list"
  kb_group :: plan_group
  kb_wipEdit :: bool
  kb_sharedPrefs :: "shared_prefs option"

definition initial_kanban :: "shared_prefs option \<Rightarrow> kanban" where
  "initial_kanban p =
     \<lparr> kb_detailId = None, kb_newIn = None, kb_dropCol = None, kb_quickIn = None, kb_quickDraft = [],
       kb_fAssignee = ''all'', kb_fSource = ''all'', kb_q = [], kb_batch = False, kb_sel = [],
       kb_group = GroupNone, kb_wipEdit = False, kb_sharedPrefs = p \<rparr>"

datatype plan_request =
    AddTask new_work_item
  | MoveTask string work_status
  | RemoveTask string
  | UpdateTask string work_item_patch
  | SharePrefs shared_patch
  | RereadPrefs
  | KeepWip "(string \<times> int) list"
  | KeepViews "kview list"

datatype plan_say = SaidWipUnavailable | SaidNameMissing | SaidViewsUnavailable | SaidToast prefs_toast

definition visible_item :: "kanban \<Rightarrow> work_item \<Rightarrow> bool" where
  "visible_item k t \<longleftrightarrow>
     (kb_fAssignee k = ''all'' \<or> wi_assignee t = kb_fAssignee k) \<and>
     (kb_fSource k = ''all'' \<or> wi_source t = kb_fSource k) \<and>
     (trim (kb_q k) = [] \<or> includes_str (lower (trim (kb_q k))) (lower (wi_title t)))"

definition visible :: "kanban \<Rightarrow> work_item list \<Rightarrow> work_item list" where
  "visible k items = filter (visible_item k) items"

text \<open>The options of the two filters: a \<open>Map\<close> from assignees to names, a \<open>Set\<close> of sources.\<close>

definition assigneeOpts :: "work_item list \<Rightarrow> (string \<times> string) list" where
  "assigneeOpts items =
     (''all'', ''all owners'') # map (\<lambda>(k, ts). (k, wi_assignee_name (last ts))) (buckets wi_assignee items)"

definition sourceOpts :: "work_item list \<Rightarrow> string list" where
  "sourceOpts items = ''all'' # uniq (map wi_source items)"

record plan_lane =
  pl_id :: string
  pl_label :: string
  pl_items :: "work_item list"

definition lane_of :: "plan_group \<Rightarrow> work_item \<Rightarrow> string" where
  "lane_of g t = (if g = GroupAssignee then wi_assignee t else wi_milestone_id t)"

definition lane_name :: "plan_group \<Rightarrow> milestone list \<Rightarrow> string \<Rightarrow> work_item \<Rightarrow> string" where
  "lane_name g mss k t =
     (if g = GroupAssignee then (if k = [] then ''unassigned'' else or_str (wi_assignee_name t) k)
      else if k = [] then ''no milestone''
      else or_opt (map_option ms_name (find_last (\<lambda>m. ms_id m = k) mss)) ''milestone'')"

definition lane_entry :: "plan_group \<Rightarrow> milestone list \<Rightarrow> string \<times> work_item list \<Rightarrow> plan_lane" where
  "lane_entry g mss b =
     \<lparr> pl_id = fst b, pl_label = lane_name g mss (fst b) (hd (snd b)), pl_items = snd b \<rparr>"

lemma lane_entry_simps [simp]: "pl_id (lane_entry g mss b) = fst b" "pl_items (lane_entry g mss b) = snd b"
  by (simp_all add: lane_entry_def)

definition lanes :: "kanban \<Rightarrow> milestone list \<Rightarrow> work_item list \<Rightarrow> plan_lane list" where
  "lanes k mss items =
     (if kb_group k = GroupNone then []
      else sort_key (\<lambda>l. if pl_id l = [] then 1 else 0 :: nat)
        (map (lane_entry (kb_group k) mss) (buckets (lane_of (kb_group k)) (visible k items))))"

record plan_column =
  co_status :: work_status
  co_items :: "work_item list"
  co_over :: bool
  co_limit :: int

definition plan_column_of :: "(string \<times> int) list \<Rightarrow> work_item list \<Rightarrow> work_status \<Rightarrow> plan_column" where
  "plan_column_of wip source s =
     (let ts = filter (\<lambda>t. wi_status t = s) source; lim = nullish (map_of wip (status_key s)) 0
      in \<lparr> co_status = s, co_items = ts, co_over = (lim \<noteq> 0 \<and> lim < int (length ts)), co_limit = lim \<rparr>)"

definition renderKanban :: "(string \<times> int) list \<Rightarrow> work_item list \<Rightarrow> plan_column list" where
  "renderKanban wip source = map (plan_column_of wip source) COLS"

text \<open>The body of a quick entry.\<close>

definition quick_item :: "string \<Rightarrow> work_status \<Rightarrow> new_work_item" where
  "quick_item title s =
     \<lparr> nw_title = title, nw_status = Some s, nw_source = None, nw_assignee = None, nw_description = None,
       nw_due_date = None, nw_attachments = None, nw_priority = None, nw_start_date = None, nw_labels = None,
       nw_parent_id = None, nw_milestone_id = None, nw_estimate_h = None, nw_spent_h = None,
       nw_custom_fields = None, nw_dependency_ids = None, nw_sprint_id = None \<rparr>"

definition quickSubmit :: "work_status \<Rightarrow> kanban \<Rightarrow> kanban \<times> plan_request list" where
  "quickSubmit s k =
     (k\<lparr> kb_quickDraft := [], kb_quickIn := None \<rparr>,
      if trim (kb_quickDraft k) \<noteq> [] then [AddTask (quick_item (kb_quickDraft k) s)] else [])"

definition toggleSel :: "string \<Rightarrow> kanban \<Rightarrow> kanban" where
  "toggleSel i k =
     k\<lparr> kb_sel := (if i \<in> set (kb_sel k) then filter (\<lambda>j. j \<noteq> i) (kb_sel k) else kb_sel k @ [i]) \<rparr>"

definition exitBatch :: "kanban \<Rightarrow> kanban" where
  "exitBatch k = k\<lparr> kb_batch := False, kb_sel := [] \<rparr>"

definition batchMove :: "work_status \<Rightarrow> kanban \<Rightarrow> kanban \<times> plan_request list" where
  "batchMove s k = (exitBatch k, map (\<lambda>i. MoveTask i s) (kb_sel k))"

definition batchDelete :: "kanban \<Rightarrow> kanban \<times> plan_request list" where
  "batchDelete k = (exitBatch k, map RemoveTask (kb_sel k))"

definition cardClick :: "work_item \<Rightarrow> kanban \<Rightarrow> kanban" where
  "cardClick t k = (if kb_batch k then toggleSel (wi_id t) k else k\<lparr> kb_detailId := Some (wi_id t) \<rparr>)"

definition dragOver :: "bool \<Rightarrow> work_status \<Rightarrow> kanban \<Rightarrow> kanban" where
  "dragOver canWrite s k = (if \<not> canWrite \<or> kb_batch k then k else k\<lparr> kb_dropCol := Some s \<rparr>)"

definition dropCard :: "bool \<Rightarrow> work_status \<Rightarrow> string \<Rightarrow> kanban \<Rightarrow> kanban \<times> plan_request list" where
  "dropCard canWrite s i k =
     (if \<not> canWrite then (k, []) else (k\<lparr> kb_dropCol := None \<rparr>, if i \<noteq> [] then [MoveTask i s] else []))"

definition newFromTpl :: "work_template list \<Rightarrow> nat \<Rightarrow> plan_request list" where
  "newFromTpl ts i =
     (if i < length ts then [AddTask ((wt_values (ts ! i))\<lparr> nw_title := wt_name (ts ! i) \<rparr>)] else [])"

definition group_key :: "plan_group \<Rightarrow> string" where
  "group_key g = (case g of GroupNone \<Rightarrow> ''none'' | GroupAssignee \<Rightarrow> ''assignee'' | GroupMilestone \<Rightarrow> ''milestone'')"

text \<open>Of a group's text the view only asks whether it is empty, the first or the second.\<close>

definition group_of_key :: "string \<Rightarrow> plan_group" where
  "group_of_key k =
     (if k = ''assignee'' then GroupAssignee else if k = [] \<or> k = ''none'' then GroupNone else GroupMilestone)"

lemma group_key_back [simp]: "group_of_key (group_key g) = g"
  by (cases g) (simp_all add: group_key_def group_of_key_def)

definition applyKView :: "kview list \<Rightarrow> nat \<Rightarrow> kanban \<Rightarrow> kanban" where
  "applyKView vs i k =
     (if i < length vs then
        (let v = vs ! i
         in k\<lparr> kb_fAssignee := kv_assignee v, kb_fSource := kv_source v, kb_q := kv_q v,
               kb_group := group_of_key (kv_group v) \<rparr>)
      else k)"

subsection \<open>Limits and views are saved\<close>

definition saveWip ::
  "bool \<Rightarrow> bool \<Rightarrow> bool \<Rightarrow> string option \<Rightarrow> string \<Rightarrow> int \<Rightarrow> (string \<times> int) list \<Rightarrow> kanban \<Rightarrow> plan_request list \<times> plan_say list" where
  "saveWip sharedProject canManage ready pid col v local k =
     (if sharedProject then
        (if \<not> canManage \<or> \<not> truthy pid then ([], [])
         else case (if ready then kb_sharedPrefs k else None) of
           None \<Rightarrow> ([], [SaidWipUnavailable])
         | Some current \<Rightarrow>
             ([SharePrefs (no_shared_patch\<lparr> sx_wip := Some (set_limit col v (sp_wip current)),
                 sx_expected_shared := Some (sp_shared_updated_at current) \<rparr>)], []))
      else (if truthy pid then [KeepWip (set_limit col v local)] else [], []))"

definition view_filters :: "string \<Rightarrow> string \<Rightarrow> kanban \<Rightarrow> shared_view" where
  "view_filters uuid name k =
     \<lparr> sv_id = uuid, sv_name = name,
       sv_group = (if kb_group k \<noteq> GroupNone then Some (group_key (kb_group k)) else None),
       sv_assignee = (if kb_fAssignee k \<noteq> ''all'' then Some (kb_fAssignee k) else None),
       sv_source = (if kb_fSource k \<noteq> ''all'' then Some (kb_fSource k) else None),
       sv_search = (if trim (kb_q k) \<noteq> [] then Some (trim (kb_q k)) else None) \<rparr>"

definition saveKView ::
  "bool \<Rightarrow> bool \<Rightarrow> string option \<Rightarrow> string \<Rightarrow> string \<Rightarrow> kview list \<Rightarrow> kanban \<Rightarrow> plan_request list \<times> plan_say list" where
  "saveKView sharedProject ready pid uuid name local k =
     (if \<not> truthy pid then ([], [])
      else if trim name = [] then ([], [SaidNameMissing])
      else if sharedProject then
        (case (if ready then kb_sharedPrefs k else None) of
           None \<Rightarrow> ([], [SaidViewsUnavailable])
         | Some current \<Rightarrow>
             ([SharePrefs (no_shared_patch\<lparr> sx_views := Some (sp_views current @ [view_filters uuid (trim name) k]),
                 sx_expected_views := Some (sp_views_updated_at current) \<rparr>)], []))
      else ([KeepViews (local @ [\<lparr> kv_name = trim name, kv_assignee = kb_fAssignee k, kv_source = kb_fSource k,
                                   kv_q = kb_q k, kv_group = group_key (kb_group k) \<rparr>])], []))"

text \<open>The answer to a shared save, of limits or of views.\<close>

definition savePrefs_done :: "shared_prefs res \<Rightarrow> kanban \<Rightarrow> kanban \<times> plan_request list \<times> plan_say list" where
  "savePrefs_done r k =
     (case r of
        Inr p \<Rightarrow> (k\<lparr> kb_sharedPrefs := Some p \<rparr>, [], [])
      | Inl e \<Rightarrow> (k, [RereadPrefs], [SaidToast (prefs_toast_of e)]))"

definition refreshSharedPrefs_done :: "shared_prefs res \<Rightarrow> kanban \<Rightarrow> kanban" where
  "refreshSharedPrefs_done r k = (case r of Inr p \<Rightarrow> k\<lparr> kb_sharedPrefs := Some p \<rparr> | Inl e \<Rightarrow> k)"

subsection \<open>Labels, the form of a new task, the grouped list\<close>

definition add_label :: "string \<Rightarrow> string list \<Rightarrow> string list" where
  "add_label draft labels =
     (let t = slice_units 40 (trim draft) in if t \<noteq> [] \<and> t \<notin> set labels then labels @ [t] else labels)"

definition remove_at :: "nat \<Rightarrow> 'a list \<Rightarrow> 'a list" where
  "remove_at i xs = take i xs @ drop (Suc i) xs"

record todo_form =
  tf_title :: string
  tf_desc :: string
  tf_status :: work_status
  tf_start :: "string option"
  tf_due :: "string option"
  tf_attachments :: "work_attachment list"
  tf_priority :: work_priority
  tf_labels :: "string list"
  tf_milestoneId :: string
  tf_busy :: bool

datatype form_say = SaidDatesSwapped | SaidCreated | SaidCreateFailed | FormClosed | OpenedDetail string

definition create_begin :: "todo_form \<Rightarrow> (form_say list, todo_form \<times> new_work_item) sum" where
  "create_begin f =
     (if trim (tf_title f) = [] \<or> tf_busy f then Inl []
      else if truthy (tf_start f) \<and> truthy (tf_due f) \<and> opt_str (tf_due f) < opt_str (tf_start f) then Inl [SaidDatesSwapped]
      else Inr (f\<lparr> tf_busy := True \<rparr>,
        \<lparr> nw_title = tf_title f, nw_status = Some (tf_status f), nw_source = None, nw_assignee = None,
          nw_description = Some (tf_desc f), nw_due_date = Some (tf_due f),
          nw_attachments = Some (tf_attachments f), nw_priority = Some (tf_priority f),
          nw_start_date = Some (tf_start f), nw_labels = Some (tf_labels f), nw_parent_id = None,
          nw_milestone_id = Some (tf_milestoneId f), nw_estimate_h = None, nw_spent_h = None,
          nw_custom_fields = None, nw_dependency_ids = None, nw_sprint_id = None \<rparr>))"

text \<open>The store's \<open>add\<close> gives the created task or \<open>null\<close>; the form closes either way.\<close>

definition create_done :: "work_item option \<Rightarrow> todo_form \<Rightarrow> todo_form \<times> form_say list" where
  "create_done wi f =
     (f\<lparr> tf_busy := False \<rparr>,
      (case wi of Some t \<Rightarrow> [SaidCreated, OpenedDetail (wi_id t)] | None \<Rightarrow> []) @ [FormClosed])"

definition grouped_rows :: "work_item list \<Rightarrow> (work_status \<times> work_item list) list" where
  "grouped_rows items = map (\<lambda>s. (s, filter (\<lambda>t. wi_status t = s) items)) COLS"

definition search_rows :: "string \<Rightarrow> work_item list \<Rightarrow> work_item list" where
  "search_rows q items = filter (\<lambda>t. includes_str (lower (trim q)) (lower (wi_title t))) items"

subsection \<open>The load per person\<close>

record load_row =
  lr_id :: string
  lr_name :: string
  lr_t :: nat
  lr_count :: "work_status \<Rightarrow> nat"
  lr_overdue :: nat
  lr_pct :: int
  lr_est :: rat
  lr_spent :: rat

definition load_row_of :: "string \<Rightarrow> string \<times> work_item list \<Rightarrow> load_row" where
  "load_row_of today g =
     (case g of (i, ts) \<Rightarrow>
        let count = (\<lambda>s. length (filter (\<lambda>t. wi_status t = s) ts))
        in \<lparr> lr_id = i, lr_name = (if i = [] then ''unassigned'' else or_str (wi_assignee_name (hd ts)) i),
             lr_t = length ts, lr_count = count,
             lr_overdue = length (filter (\<lambda>t. truthy (wi_due_date t) \<and> opt_str (wi_due_date t) < today \<and> wi_status t \<noteq> WDone) ts),
             lr_pct = (if ts = [] then 0 else \<lfloor>rat_of_nat (count WDone) / rat_of_nat (length ts) * 100 + 1/2\<rfloor>),
             lr_est = sum_list (map wi_estimate_h ts), lr_spent = sum_list (map wi_spent_h ts) \<rparr>)"

text \<open>Without an assignee last, then by the number of tasks, most first.\<close>

definition plan_load :: "string \<Rightarrow> work_item list \<Rightarrow> load_row list" where
  "plan_load today items =
     sort_key (\<lambda>r. if lr_id r = [] then 1 else 0 :: nat)
       (sort_desc (int \<circ> lr_t)
         (map (load_row_of today) (buckets wi_assignee (filter (\<lambda>t. wi_parent_id t = []) items))))"

subsection \<open>Every visible task is shown once\<close>

lemma mset_columns: "mset (concat (map co_items (renderKanban wip ts))) = mset ts"
proof (induction ts)
  case (Cons t ts)
  then show ?case
    by (cases "wi_status t") (simp_all add: renderKanban_def plan_column_of_def COLS_def Let_def)
qed (simp add: renderKanban_def plan_column_of_def COLS_def Let_def)

lemma mset_lanes:
  assumes "kb_group k \<noteq> GroupNone"
  shows "mset (concat (map pl_items (lanes k mss items))) = mset (visible k items)"
proof -
  let ?bs = "buckets (lane_of (kb_group k)) (visible k items)" and ?lane = "lane_entry (kb_group k) mss"
  have "mset (map pl_items (lanes k mss items)) = mset (map snd ?bs)"
    using assms by (simp add: lanes_def image_mset.compositionality comp_def)
  then have "mset (concat (map pl_items (lanes k mss items))) = mset (concat (map snd ?bs))"
    by (metis mset_concat sum_mset_sum_list mset_map)
  then show ?thesis by (simp add: mset_buckets)
qed

text \<open>
  C17. The kanban shows every visible task exactly once: grouped or not, the columns of its lanes
  together hold exactly the tasks the filters let through, a lane holds the tasks of its owner
  or milestone, in the board's order, no two lanes are of the same one, and the lane of the
  tasks without one comes last.
\<close>

theorem kanban_shows_each_task_once:
  "mset (concat (map (\<lambda>ts. concat (map co_items (renderKanban wip ts)))
      (if kb_group k = GroupNone then [visible k items] else map pl_items (lanes k mss items)))) = mset (visible k items)
   \<and> distinct (map pl_id (lanes k mss items))
   \<and> (\<forall>l\<in>set (lanes k mss items). pl_items l \<noteq> []
        \<and> pl_items l = filter (\<lambda>t. lane_of (kb_group k) t = pl_id l) (visible k items))
   \<and> (\<forall>i j. i < j \<and> j < length (lanes k mss items) \<longrightarrow> pl_id (lanes k mss items ! i) \<noteq> [])"
proof (intro conjI)
  let ?bs = "buckets (lane_of (kb_group k)) (visible k items)" and ?lane = "lane_entry (kb_group k) mss"
  let ?last = "\<lambda>l. if pl_id l = [] then 1 else 0 :: nat"
  have set_lanes: "set (lanes k mss items) = (if kb_group k = GroupNone then {} else ?lane ` set ?bs)"
    by (simp add: lanes_def)
  have ids: "distinct (map pl_id (map ?lane ?bs))"
    using distinct_buckets [of "lane_of (kb_group k)" "visible k items"] by (simp add: comp_def case_prod_beta)
  show d: "distinct (map pl_id (lanes k mss items))"
  proof -
    have "distinct (map pl_id (sort_key ?last (map ?lane ?bs))) = distinct (map pl_id (map ?lane ?bs))"
      by (rule mset_eq_imp_distinct_iff) (simp only: mset_map mset_sort)
    then show ?thesis using ids by (simp add: lanes_def)
  qed
  show "mset (concat (map (\<lambda>ts. concat (map co_items (renderKanban wip ts)))
      (if kb_group k = GroupNone then [visible k items] else map pl_items (lanes k mss items)))) = mset (visible k items)"
  proof (cases "kb_group k = GroupNone")
    case False
    have "mset (concat (map (\<lambda>ts. concat (map co_items (renderKanban wip ts))) ls)) = mset (concat ls)" for ls
      by (induction ls) (simp_all add: mset_columns)
    from this [of "map pl_items (lanes k mss items)"] show ?thesis
      using False mset_lanes [OF False, of mss items] by (simp only: if_False simp_thms)
  qed (simp add: mset_columns)
  show "\<forall>l\<in>set (lanes k mss items). pl_items l \<noteq> []
        \<and> pl_items l = filter (\<lambda>t. lane_of (kb_group k) t = pl_id l) (visible k items)"
    using bucket_filter [of _ _ "lane_of (kb_group k)" "visible k items"]
      bucket_not_empty [of _ _ "lane_of (kb_group k)" "visible k items"]
    by (fastforce simp: set_lanes split: if_splits)
  show "\<forall>i j. i < j \<and> j < length (lanes k mss items) \<longrightarrow> pl_id (lanes k mss items ! i) \<noteq> []"
  proof (intro allI impI notI)
    fix i j assume ij: "i < j \<and> j < length (lanes k mss items)" and e: "pl_id (lanes k mss items ! i) = []"
    have "sorted (map ?last (lanes k mss items))" by (cases "kb_group k = GroupNone") (simp_all add: lanes_def)
    then have "?last (lanes k mss items ! i) \<le> ?last (lanes k mss items ! j)"
      using sorted_nth_mono [of "map ?last (lanes k mss items)" i j] ij by simp
    then have "pl_id (lanes k mss items ! j) = []" using e by (simp split: if_splits)
    with e ij have "map pl_id (lanes k mss items) ! i = map pl_id (lanes k mss items) ! j" by simp
    with d ij show False by (subst (asm) nth_eq_iff_index_eq) simp_all
  qed
qed

theorem kanban_shows_each_task_once_witness:
  "mset (concat (map (\<lambda>ts. concat (map co_items (renderKanban [] ts)))
     (map pl_items (lanes ((initial_kanban None)\<lparr> kb_group := GroupAssignee \<rparr>) [] [demo_task])))) = {# demo_task #}"
  using kanban_shows_each_task_once [where wip = "[]" and k = "(initial_kanban None)\<lparr> kb_group := GroupAssignee \<rparr>"
    and mss = "[]" and items = "[demo_task]", THEN conjunct1]
  by (simp add: visible_def visible_item_def initial_kanban_def)

subsection \<open>Loads\<close>

lemma sum_of_parts: "(\<Sum>x\<leftarrow>concat xss. f x) = (\<Sum>xs\<leftarrow>xss. \<Sum>x\<leftarrow>xs. (f x :: 'a::comm_monoid_add))"
  by (induction xss) simp_all

text \<open>
  The load adds up: every task that is no subtask counts in exactly one row, within the row in
  exactly one status, the hours of the rows are those of all these tasks, and a row's share of
  finished tasks is a percentage.
\<close>

theorem load_adds_up:
  "(\<Sum>r\<leftarrow>plan_load today items. lr_t r) = length (filter (\<lambda>t. wi_parent_id t = []) items)
   \<and> (\<Sum>r\<leftarrow>plan_load today items. lr_est r) = (\<Sum>t\<leftarrow>filter (\<lambda>t. wi_parent_id t = []) items. wi_estimate_h t)
   \<and> (\<forall>r\<in>set (plan_load today items). (\<Sum>s\<leftarrow>COLS. lr_count r s) = lr_t r
        \<and> lr_overdue r \<le> lr_t r \<and> 0 \<le> lr_pct r \<and> lr_pct r \<le> 100)"
proof (intro conjI ballI)
  let ?roots = "filter (\<lambda>t. wi_parent_id t = []) items"
  let ?bs = "buckets wi_assignee ?roots"
  have rows: "mset (plan_load today items) = mset (map (load_row_of today) ?bs)"
    by (simp add: plan_load_def)
  have sums: "(\<Sum>r\<leftarrow>plan_load today items. f r) = (\<Sum>b\<leftarrow>?bs. f (load_row_of today b))"
    for f :: "load_row \<Rightarrow> 'b::comm_monoid_add"
  proof -
    have "(\<Sum>r\<leftarrow>plan_load today items. f r) = sum_mset (image_mset f (mset (plan_load today items)))"
      by (simp flip: sum_mset_sum_list)
    also have "\<dots> = (\<Sum>b\<leftarrow>?bs. f (load_row_of today b))"
      unfolding rows by (simp flip: sum_mset_sum_list add: multiset.map_comp comp_def)
    finally show ?thesis .
  qed
  show "(\<Sum>r\<leftarrow>plan_load today items. lr_t r) = length ?roots"
    using sum_buckets [of wi_assignee ?roots] unfolding sums
    by (simp add: load_row_of_def case_prod_beta comp_def Let_def)
  have "(\<Sum>b\<leftarrow>?bs. \<Sum>t\<leftarrow>snd b. wi_estimate_h t) = (\<Sum>t\<leftarrow>concat (map snd ?bs). wi_estimate_h t)"
    by (simp add: sum_of_parts comp_def)
  also have "\<dots> = (\<Sum>t\<leftarrow>?roots. wi_estimate_h t)"
    unfolding sum_mset_sum_list [symmetric] mset_map mset_buckets ..
  finally show "(\<Sum>r\<leftarrow>plan_load today items. lr_est r) = (\<Sum>t\<leftarrow>?roots. wi_estimate_h t)"
    unfolding sums by (simp add: load_row_of_def case_prod_beta Let_def)
next
  fix r assume "r \<in> set (plan_load today items)"
  then obtain b where r: "r = load_row_of today b" by (auto simp: plan_load_def)
  show "(\<Sum>s\<leftarrow>COLS. lr_count r s) = lr_t r"
  proof -
    have "(\<Sum>s\<leftarrow>COLS. length (filter (\<lambda>t. wi_status t = s) ts)) = length ts" for ts
    proof (induction ts)
      case (Cons t ts)
      then show ?case by (cases "wi_status t") (simp_all add: COLS_def)
    qed (simp add: COLS_def)
    then show ?thesis by (simp add: r load_row_of_def case_prod_beta Let_def)
  qed
  show "lr_overdue r \<le> lr_t r" by (simp add: r load_row_of_def case_prod_beta Let_def)
  define d t where "d = rat_of_nat (lr_count r WDone)" and "t = rat_of_nat (lr_t r)"
  have pct: "lr_pct r = (if lr_t r = 0 then 0 else \<lfloor>d / t * 100 + 1/2\<rfloor>)"
    by (simp add: r load_row_of_def case_prod_beta Let_def d_def t_def)
  have "0 \<le> d" "d \<le> t" by (simp_all add: d_def t_def r load_row_of_def case_prod_beta Let_def)
  then have "0 < lr_t r \<Longrightarrow> 0 \<le> d / t * 100 \<and> d / t * 100 \<le> 100"
    by (simp add: t_def field_simps)
  then have "0 \<le> lr_pct r \<and> lr_pct r < 101"
    unfolding pct by (auto simp: floor_less_iff)
  then show "0 \<le> lr_pct r" "lr_pct r \<le> 100" by simp_all
qed

theorem load_adds_up_witness:
  "(\<Sum>r\<leftarrow>plan_load ''2026-01-01'' [demo_task, demo_task]. lr_t r) = 2"
  using load_adds_up [of "''2026-01-01''" "[demo_task, demo_task]", THEN conjunct1]
  by (simp add: demo_task_def blank_item_def)

subsection \<open>Saved views\<close>

definition same_filters :: "kanban \<Rightarrow> kanban \<Rightarrow> bool" where
  "same_filters a b \<longleftrightarrow> kb_group a = kb_group b \<and> visible_item a = visible_item b"

definition last_view :: "kview list \<Rightarrow> kanban \<Rightarrow> kanban" where
  "last_view vs k = applyKView vs (length vs - 1) k"

lemma last_view_snoc:
  "last_view (vs @ [v]) k =
     k\<lparr> kb_fAssignee := kv_assignee v, kb_fSource := kv_source v, kb_q := kv_q v, kb_group := group_of_key (kv_group v) \<rparr>"
  by (simp add: last_view_def applyKView_def Let_def)

text \<open>A local view keeps its filters as they are.\<close>

lemma local_view_back:
  assumes "saveKView False ready pid uuid name old k = ([KeepViews vs], [])"
  shows "same_filters (last_view vs k1) k"
proof -
  have "vs = old @ [\<lparr> kv_name = trim name, kv_assignee = kb_fAssignee k, kv_source = kb_fSource k,
                     kv_q = kb_q k, kv_group = group_key (kb_group k) \<rparr>]"
    using assms by (simp add: saveKView_def split: if_splits)
  then show ?thesis
    by (simp add: same_filters_def last_view_snoc visible_item_def [abs_def])
qed

text \<open>Trimming twice is trimming once.\<close>

lemma strip_any_None: "strip_any ps s = None \<longleftrightarrow> (\<forall>p\<in>set ps. \<forall>r. s \<noteq> p @ r)"
proof (induction ps)
  case (Cons p ps)
  then show ?case using strip_prefix_Some [of p s] by (auto split: option.splits)
qed simp

lemma strip_any_prefix: "strip_any ps (s @ t) = None \<Longrightarrow> strip_any ps s = None"
  by (auto simp: strip_any_None)

lemma trim_start_stripped: "strip_any ws_seqs (trim_start s) = None"
  by (induction s rule: trim_start.induct) (subst trim_start.simps, auto split: option.split)

lemma trim_rev_stripped: "strip_any (map rev ws_seqs) (trim_rev s) = None"
  by (induction s rule: trim_rev.induct) (subst trim_rev.simps, auto split: option.split)

lemma trim_trim [simp]: "trim (trim s) = trim s"
proof (rule trim_id)
  obtain p where "rev (trim_start s) = p @ trim_rev (rev (trim_start s))" using trim_rev_suffix by blast
  then have "trim_start s = trim s @ rev p" by (metis rev_append rev_rev_ident trim_def)
  then show "strip_any ws_seqs (trim s) = None"
    using trim_start_stripped [of s] strip_any_prefix by metis
  show "strip_any (map rev ws_seqs) (rev (trim s)) = None"
    by (simp add: trim_def trim_rev_stripped)
qed

text \<open>
  A shared view reads back as it was saved: the group and the tasks it lets through are those
  of the board it was saved from, except that a filter for the tasks without an owner (or of
  the empty source) is read back as no filter at all.
\<close>

theorem shared_view_reads_back:
  assumes "saveKView True ready pid uuid name old k = ([SharePrefs p], [])"
    and "sx_views p = Some (sp_views stored)"
  shows "case last_view (sharedViews (Some stored)) k1 of k' \<Rightarrow>
     kb_group k' = kb_group k
   \<and> kb_fAssignee k' = or_str (kb_fAssignee k) ''all'' \<and> kb_fSource k' = or_str (kb_fSource k) ''all''
   \<and> (kb_fAssignee k \<noteq> [] \<and> kb_fSource k \<noteq> [] \<longrightarrow> visible_item k' = visible_item k)"
proof -
  obtain vs where "sp_views stored = vs @ [view_filters uuid (trim name) k]"
    using assms by (auto simp: saveKView_def split: if_splits option.splits dest: sym)
  then obtain ws where ws: "sharedViews (Some stored) = ws @
      [\<lparr> kv_name = trim name, kv_assignee = or_str (kb_fAssignee k) ''all'', kv_source = or_str (kb_fSource k) ''all'',
         kv_q = trim (kb_q k), kv_group = group_key (kb_group k) \<rparr>]"
    by (cases "kb_group k") (simp_all add: sharedViews_def view_filters_def or_opt_def or_str_def truthy_def group_key_def)
  have v: "last_view (sharedViews (Some stored)) k1 =
      k1\<lparr> kb_fAssignee := or_str (kb_fAssignee k) ''all'', kb_fSource := or_str (kb_fSource k) ''all'',
          kb_q := trim (kb_q k), kb_group := kb_group k \<rparr>"
    by (simp add: ws last_view_snoc)
  show ?thesis unfolding v
    by (auto simp: visible_item_def [abs_def])
qed

theorem shared_view_reads_back_witness:
  "\<exists>p. saveKView True True (Some ''p'') ''u'' ''Mine'' [] ((initial_kanban (Some
        \<lparr> sp_templates = [], sp_views = [], sp_wip = [], sp_shared_updated_at = 1, sp_views_updated_at = 2 \<rparr>))
        \<lparr> kb_fAssignee := [] \<rparr>) = ([SharePrefs p], [])
     \<and> kb_fAssignee (last_view (sharedViews (Some
          \<lparr> sp_templates = [], sp_views = the (sx_views p), sp_wip = [], sp_shared_updated_at = 1, sp_views_updated_at = 3 \<rparr>))
          (initial_kanban None)) = ''all''"
proof -
  let ?k = "(initial_kanban (Some \<lparr> sp_templates = [], sp_views = [], sp_wip = [], sp_shared_updated_at = 1,
    sp_views_updated_at = 2 \<rparr>))\<lparr> kb_fAssignee := [] \<rparr>"
  have t: "trim ''Mine'' = ''Mine''" by (rule trim_plain) simp_all
  let ?p = "no_shared_patch\<lparr> sx_views := Some [view_filters ''u'' ''Mine'' ?k], sx_expected_views := Some 2 \<rparr>"
  have s: "saveKView True True (Some ''p'') ''u'' ''Mine'' [] ?k = ([SharePrefs ?p], [])"
    by (simp add: saveKView_def t initial_kanban_def)
  let ?stored = "\<lparr> sp_templates = [], sp_views = the (sx_views ?p), sp_wip = [], sp_shared_updated_at = 1, sp_views_updated_at = 3 \<rparr>"
  have "sx_views ?p = Some (sp_views ?stored)" by simp
  from shared_view_reads_back [OF s this, of "initial_kanban None"] s
  show ?thesis by (intro exI [where x = ?p]) (simp add: initial_kanban_def)
qed

end
