(* ===== verification/Routes.thy ===== *)
theory Routes
  imports Router Http
begin

text \<open>
  Requests and the handlers they reach. A client writes the path of a request as a template
  literal: fixed parts and identifiers, percent-encoded (\<open>Enc\<close>) or as they are (\<open>Raw\<close>). A
  server keeps a table of routes, decodes the path, and calls the first handler whose route
  matches it, as FastAPI documents. What a client relies on is a locale: a request whose
  identifiers are no fixed part of any route reaches the handler its template was written for,
  with the identifiers as the handler's parameters.
\<close>

subsection \<open>Paths as the clients write them\<close>

datatype piece = Lit string | Enc string | Raw string

fun piece_text :: "piece \<Rightarrow> string" where
  "piece_text (Lit s) = s"
| "piece_text (Enc i) = encodeURIComponent i"
| "piece_text (Raw i) = i"

fun piece_value :: "piece \<Rightarrow> string" where
  "piece_value (Lit s) = s"
| "piece_value (Enc i) = i"
| "piece_value (Raw i) = i"

definition render_path :: "piece list \<Rightarrow> string" where
  "render_path ps = concat (map (\<lambda>p. CHR ''/'' # piece_text p) ps)"

text \<open>\<open>?k=v&...\<close> with the values as they are rendered; nothing for an empty query.\<close>

definition render_query :: "(string \<times> string) list \<Rightarrow> string" where
  "render_query qs =
     (if qs = [] then [] else ''?'' @ join_with ''&'' (map (\<lambda>(k, v). k @ ''='' @ v) qs))"

record endpoint =
  ep_method :: string
  ep_path :: "piece list"
  ep_query :: "(string \<times> string) list"
  ep_body :: "json option"

definition endpoint_url :: "endpoint \<Rightarrow> string" where
  "endpoint_url e = render_path (ep_path e) @ render_query (ep_query e)"

subsection \<open>Routes as the servers declare them\<close>

datatype segment = Fixed string | Var string

record route =
  rt_method :: string
  rt_path :: "segment list"
  rt_handler :: string

fun seg_match :: "segment \<Rightarrow> string \<Rightarrow> bool" where
  "seg_match (Fixed s) v \<longleftrightarrow> s = v"
| "seg_match (Var n) v \<longleftrightarrow> v \<noteq> []"

fun segs_match :: "segment list \<Rightarrow> string list \<Rightarrow> bool" where
  "segs_match [] [] \<longleftrightarrow> True"
| "segs_match (s # ss) (v # vs) \<longleftrightarrow> seg_match s v \<and> segs_match ss vs"
| "segs_match _ _ \<longleftrightarrow> False"

fun route_params :: "segment list \<Rightarrow> string list \<Rightarrow> (string \<times> string) list" where
  "route_params (Var n # ss) (v # vs) = (n, v) # route_params ss vs"
| "route_params (Fixed s # ss) (v # vs) = route_params ss vs"
| "route_params _ _ = []"

fun find_route :: "route list \<Rightarrow> string \<Rightarrow> string list \<Rightarrow> route option" where
  "find_route [] m vs = None"
| "find_route (r # rs) m vs =
     (if rt_method r = m \<and> segs_match (rt_path r) vs then Some r else find_route rs m vs)"

text \<open>The path of a URL, without its query, decoded and split; a path starts with a slash.\<close>

definition request_segments :: "string \<Rightarrow> string list option" where
  "request_segments url =
     (case decodeURIComponent (takeWhile (\<lambda>c. c \<noteq> CHR ''?'') url) of
        None \<Rightarrow> None
      | Some path \<Rightarrow> if path \<noteq> [] \<and> hd path = CHR ''/'' then Some (split_on CHR ''/'' (tl path)) else None)"

text \<open>The handler that serves a request, with its parameters.\<close>

definition serve :: "route list \<Rightarrow> string \<Rightarrow> string \<Rightarrow> (string \<times> (string \<times> string) list) option" where
  "serve table m url =
     (case request_segments url of
        None \<Rightarrow> None
      | Some vs \<Rightarrow> map_option (\<lambda>r. (rt_handler r, route_params (rt_path r) vs)) (find_route table m vs))"

fun fixed_of :: "segment list \<Rightarrow> string list" where
  "fixed_of [] = []"
| "fixed_of (Fixed s # ss) = s # fixed_of ss"
| "fixed_of (Var n # ss) = fixed_of ss"

definition reserved :: "route list \<Rightarrow> string list" where
  "reserved table = concat (map (fixed_of \<circ> rt_path) table)"

text \<open>
  An identifier that is one segment of a path and no fixed part of a route. \<open>fetch\<close> resolves
  the segments \<open>.\<close> and \<open>..\<close> before it sends a request, encoding does not protect them.
\<close>

definition plain_id :: "route list \<Rightarrow> string \<Rightarrow> bool" where
  "plain_id table i \<longleftrightarrow> utf8 i \<and> i \<noteq> [] \<and> CHR ''/'' \<notin> set i
     \<and> i \<noteq> ''.'' \<and> i \<noteq> ''..'' \<and> i \<notin> set (reserved table)"

fun piece_ok :: "route list \<Rightarrow> piece \<Rightarrow> bool" where
  "piece_ok table (Lit s) \<longleftrightarrow> s \<noteq> [] \<and> list_all unreserved s"
| "piece_ok table (Enc i) \<longleftrightarrow> plain_id table i"
| "piece_ok table (Raw i) \<longleftrightarrow> plain_id table i \<and> list_all unreserved i"

subsection \<open>What the server reads of a client's path\<close>

lemma decode_append:
  "utf8 s \<Longrightarrow> decodeURIComponent (encodeURIComponent s @ t) = map_option ((@) s) (decodeURIComponent t)"
proof (induction s rule: utf8.induct)
  case 1
  show ?case by (cases "decodeURIComponent t") (simp_all add: encodeURIComponent_def)
next
  case (2 c r)
  show ?case
  proof (cases "byte c < 0x80")
    case True
    with "2" show ?thesis
      by (simp add: encodeURIComponent_def decode_ascii utf8.simps(2) option.map_comp comp_def)
  next
    case False
    let ?k = "conts (byte c)"
    from False "2.prems" have h: "0 < ?k" "?k \<le> length r" "utf8_seq (map byte (c # take ?k r))"
      "utf8 (drop ?k r)"
      by (simp_all add: utf8.simps(2) Let_def)
    have split: "encodeURIComponent (c # r) @ t
        = concat (map enc_byte (c # take ?k r)) @ encodeURIComponent (drop ?k r) @ t"
      unfolding encodeURIComponent_def
      by (metis append_Cons append_assoc append_take_drop_id concat_append map_append)
    have "decodeURIComponent (encodeURIComponent (c # r) @ t)
        = map_option ((@) (c # take ?k r)) (decodeURIComponent (encodeURIComponent (drop ?k r) @ t))"
      unfolding split using False h by (intro decode_multi) auto
    also have "\<dots> = map_option ((@) (c # take ?k r) \<circ> (@) (drop ?k r)) (decodeURIComponent t)"
      using "2.IH"(2) [OF False refl h(4)] by (simp only: option.map_comp)
    also have "(@) (c # take ?k r) \<circ> (@) (drop ?k r) = (@) (c # r)"
      by (rule ext) (simp flip: append_assoc)
    finally show ?thesis .
  qed
qed

lemma decode_slash: "decodeURIComponent (CHR ''/'' # t) = map_option (Cons CHR ''/'') (decodeURIComponent t)"
  by (simp add: decodeURIComponent.simps(2))

lemma utf8_ascii: "list_all unreserved s \<Longrightarrow> utf8 s"
  by (induction s) (auto simp: utf8.simps(2) dest: unreserved_ascii)

lemma piece_ok_text:
  assumes "piece_ok table p"
  shows "piece_text p = encodeURIComponent (piece_value p)" "utf8 (piece_value p)" "piece_value p \<noteq> []"
    "CHR ''/'' \<notin> set (piece_value p)"
proof -
  have raw: "encodeURIComponent s = s" "CHR ''/'' \<notin> set s" if "list_all unreserved s" for s
    using that encode_unreserved [of s] by (auto simp: list_all_iff unreserved_def Let_def)
  show "piece_text p = encodeURIComponent (piece_value p)" "utf8 (piece_value p)" "piece_value p \<noteq> []"
    "CHR ''/'' \<notin> set (piece_value p)"
    using assms by (cases p; auto simp: plain_id_def raw utf8_ascii)+
qed

lemma render_path_Cons: "render_path (p # ps) = CHR ''/'' # piece_text p @ render_path ps"
  by (simp add: render_path_def)

lemma decode_path:
  "list_all (piece_ok table) ps \<Longrightarrow>
     decodeURIComponent (render_path ps) = Some (concat (map (\<lambda>p. CHR ''/'' # piece_value p) ps))"
proof (induction ps)
  case (Cons p ps)
  then show ?case
    using piece_ok_text [of table p]
    by (simp add: render_path_Cons decode_slash decode_append)
qed (simp add: render_path_def)

lemma split_path:
  "ps \<noteq> [] \<Longrightarrow> list_all (piece_ok table) ps \<Longrightarrow>
     split_on CHR ''/'' (tl (concat (map (\<lambda>p. CHR ''/'' # piece_value p) ps))) = map piece_value ps"
proof (induction ps rule: induct_list012)
  case (2 p)
  then show ?case using piece_ok_text [of table p] by (simp add: split_on_no_delim)
next
  case (3 p q ps)
  then show ?case using piece_ok_text [of table p] by (simp add: split_on_append)
qed simp

lemma path_no_query: "list_all (piece_ok table) ps \<Longrightarrow> CHR ''?'' \<notin> set (render_path ps)"
proof (induction ps)
  case (Cons p ps)
  then show ?case using piece_ok_text [of table p] uri.enc_no_query by (simp add: render_path_Cons)
qed (simp add: render_path_def)

lemma takeWhile_until: "x \<notin> set a \<Longrightarrow> takeWhile (\<lambda>c. c \<noteq> x) (a @ x # b) = a"
  by (induction a) auto

lemma endpoint_path:
  assumes "list_all (piece_ok table) (ep_path e)"
  shows "takeWhile (\<lambda>c. c \<noteq> CHR ''?'') (endpoint_url e) = render_path (ep_path e)"
  using path_no_query [OF assms]
  by (cases "ep_query e = []") (auto simp: endpoint_url_def render_query_def takeWhile_until
      takeWhile_eq_all_conv)

lemma endpoint_segments:
  assumes "list_all (piece_ok table) (ep_path e)" "ep_path e \<noteq> []"
  shows "request_segments (endpoint_url e) = Some (map piece_value (ep_path e))"
proof -
  obtain p ps where "ep_path e = p # ps" using assms(2) by (cases "ep_path e") simp
  then show ?thesis
    using assms split_path [OF assms(2,1)] decode_path [OF assms(1)] endpoint_path [OF assms(1)]
    by (simp add: request_segments_def)
qed

subsection \<open>Matching does not look into identifiers\<close>

definition place_holder :: string where
  "place_holder = ''~''"

fun shape :: "piece \<Rightarrow> string" where
  "shape (Lit s) = s"
| "shape _ = place_holder"

lemma shape_match:
  assumes "piece_ok table p" "set (fixed_of [s]) \<subseteq> set (reserved table)" "place_holder \<notin> set (reserved table)"
  shows "seg_match s (piece_value p) \<longleftrightarrow> seg_match s (shape p)"
  using assms by (cases s; cases p) (auto simp: plain_id_def place_holder_def)

lemma shapes_match:
  "list_all (piece_ok table) ps \<Longrightarrow> set (fixed_of ss) \<subseteq> set (reserved table) \<Longrightarrow>
     place_holder \<notin> set (reserved table) \<Longrightarrow>
     segs_match ss (map piece_value ps) \<longleftrightarrow> segs_match ss (map shape ps)"
proof (induction ss arbitrary: ps)
  case Nil
  then show ?case by (cases ps) simp_all
next
  case (Cons s ss)
  show ?case
  proof (cases ps)
    case (Cons p qs)
    have "set (fixed_of [s]) \<subseteq> set (fixed_of (s # ss)) \<and> set (fixed_of ss) \<subseteq> set (fixed_of (s # ss))"
      by (cases s) auto
    then have "set (fixed_of [s]) \<subseteq> set (reserved table)" "set (fixed_of ss) \<subseteq> set (reserved table)"
      by (meson Cons.prems(2) order_trans)+
    with Cons.prems \<open>ps = p # qs\<close> show ?thesis
      using shape_match [of table p s] Cons.IH [of qs] by simp
  qed simp
qed

lemma find_shape:
  assumes "list_all (piece_ok table) ps" "place_holder \<notin> set (reserved table)"
  shows "find_route table m (map piece_value ps) = find_route table m (map shape ps)"
proof -
  have "find_route rs m (map piece_value ps) = find_route rs m (map shape ps)"
    if "set (reserved rs) \<subseteq> set (reserved table)" for rs
    using that
  proof (induction rs)
    case (Cons r rs)
    then have "set (fixed_of (rt_path r)) \<subseteq> set (reserved table)" "set (reserved rs) \<subseteq> set (reserved table)"
      by (simp_all add: reserved_def)
    with Cons.IH shapes_match [OF assms(1) _ assms(2)] show ?case by simp
  qed simp
  from this [OF order_refl] show ?thesis .
qed

subsection \<open>The interface: calls that reach the handlers meant\<close>

text \<open>The path with the prefix both clients put before every path.\<close>

definition api_path :: "endpoint \<Rightarrow> piece list" where
  "api_path e = Lit ''api'' # ep_path e"

definition planned :: "route list \<Rightarrow> endpoint \<Rightarrow> (string \<times> (string \<times> string) list) option" where
  "planned table e =
     map_option (\<lambda>r. (rt_handler r, route_params (rt_path r) (map piece_value (api_path e))))
       (find_route table (ep_method e) (map shape (api_path e)))"

lemma api_url: "''/api'' @ endpoint_url e = endpoint_url (e\<lparr> ep_path := api_path e \<rparr>)"
  by (simp add: endpoint_url_def api_path_def render_path_Cons)

lemma serve_planned:
  assumes "list_all (piece_ok table) (ep_path e)" "place_holder \<notin> set (reserved table)"
  shows "serve table (ep_method e) (''/api'' @ endpoint_url e) = planned table e"
proof -
  have api: "piece_ok table (Lit ''api'')" by (simp add: unreserved_def)
  let ?e = "e\<lparr> ep_path := api_path e \<rparr>"
  have ok: "list_all (piece_ok table) (ep_path ?e)" "ep_path ?e \<noteq> []"
    using assms(1) api by (simp_all add: api_path_def)
  from endpoint_segments [OF this] show ?thesis
    using find_shape [OF ok(1) assms(2)] unfolding api_url serve_def planned_def by simp
qed

locale reaching =
  fixes table :: "route list"
    and call :: "'c \<Rightarrow> endpoint"
    and meant :: "'c \<Rightarrow> (string \<times> (string \<times> string) list) option"
  assumes planned_meant: "planned table (call c) = meant c"
    and holder_free: "place_holder \<notin> set (reserved table)"
begin

lemma reaches:
  "list_all (piece_ok table) (ep_path (call c)) \<Longrightarrow>
     serve table (ep_method (call c)) (''/api'' @ endpoint_url (call c)) = meant c"
  by (simp only: serve_planned [OF _ holder_free] planned_meant)

lemma never_lost:
  assumes "list_all (piece_ok table) (ep_path (call c))" "meant c = Some h"
  shows "serve table (ep_method (call c)) (''/api'' @ endpoint_url (call c)) \<noteq> None"
  by (simp only: reaches [OF assms(1)] assms(2) option.distinct not_False_eq_True)

end

lemma reserved_append: "reserved (xs @ ys) = reserved xs @ reserved ys"
  by (simp add: reserved_def)

subsection \<open>Looking up a route\<close>

text \<open>
  A table is searched router by router (\<open>find_route_append\<close>), a router that has no route with the
  second part of the path is skipped (the lemmas \<open>look_...\<close> of the tables), and the routes of the
  others are compared one after the other, without looking at the rest of the table.
\<close>

named_theorems route_lookup

lemma find_route_append:
  "find_route (xs @ ys) m vs = (case find_route xs m vs of None \<Rightarrow> find_route ys m vs | Some r \<Rightarrow> Some r)"
  by (induction xs) auto

fun other_branch :: "string \<Rightarrow> route \<Rightarrow> bool" where
  "other_branch b r = (case rt_path r of s # Fixed q # ss \<Rightarrow> b \<noteq> q | _ \<Rightarrow> False)"

lemma skip_router: "list_all (other_branch b) rs \<Longrightarrow> find_route rs m (a # b # vs) = None"
proof (induction rs)
  case (Cons r rs)
  then obtain s q ss where "rt_path r = s # Fixed q # ss" "b \<noteq> q"
    by (auto split: list.splits segment.splits)
  with Cons show ?case by simp
qed simp

text \<open>A router is opened only for a path that may be one of its own.\<close>

definition opened :: "route list \<Rightarrow> route list" where
  "opened rs = rs"

lemma find_opened [route_lookup]: "find_route (opened (r # rs)) m vs = find_route (r # rs) m vs"
  by (simp add: opened_def)

lemma look_router:
  "(\<not> c \<Longrightarrow> list_all (other_branch b) rs) \<Longrightarrow>
     find_route rs m (a # b # vs) = (if c then find_route (opened rs) m (a # b # vs) else None)"
  by (simp add: skip_router opened_def)

lemma find_route_step [route_lookup]:
  "find_route (\<lparr> rt_method = a, rt_path = p, rt_handler = h \<rparr> # rs) m vs =
     (if a = m then if segs_match p vs then Some \<lparr> rt_method = a, rt_path = p, rt_handler = h \<rparr>
                    else find_route rs m vs
      else find_route rs m vs)"
  by simp

lemma segs_match_step [route_lookup]:
  "segs_match (Fixed s # ss) (v # vs) = (if s = v then segs_match ss vs else False)"
  "segs_match (Var n # ss) (v # vs) = (if v \<noteq> [] then segs_match ss vs else False)"
  by simp_all

lemma find_route_lazy [cong]: "m = m' \<Longrightarrow> vs = vs' \<Longrightarrow> find_route rs m vs = find_route rs m' vs'"
  by simp

lemma segs_match_lazy [cong]: "vs = vs' \<Longrightarrow> segs_match ss vs = segs_match ss vs'"
  by simp

declare find_route.simps(2) [simp del] segs_match.simps(2) [simp del]

end
