(* ===== verification/ServerRoutes.thy ===== *)
theory ServerRoutes
  imports Routes
begin

text \<open>
  The Server's table of routes (\<open>src/server/main.py\<close> and \<open>src/server/routers\<close>): one list per
  router, in the order of its decorators, and the routers in the order \<open>main.py\<close> includes them.
  The pages of the console (\<open>/\<close> and the fallback for deep links) are no part of the interface.
\<close>

definition main_routes :: "route list" where
  "main_routes = [
    \<lparr> rt_method = ''GET'', rt_path = [Fixed ''api'', Fixed ''health''],
      rt_handler = ''main.health'' \<rparr>]"

definition auth_routes :: "route list" where
  "auth_routes = [
    \<lparr> rt_method = ''GET'', rt_path = [Fixed ''api'', Fixed ''auth'', Fixed ''capabilities''],
      rt_handler = ''auth.capabilities'' \<rparr>,
    \<lparr> rt_method = ''POST'', rt_path = [Fixed ''api'', Fixed ''auth'', Fixed ''register''],
      rt_handler = ''auth.register'' \<rparr>,
    \<lparr> rt_method = ''POST'', rt_path = [Fixed ''api'', Fixed ''auth'', Fixed ''bootstrap''],
      rt_handler = ''auth.bootstrap'' \<rparr>,
    \<lparr> rt_method = ''POST'', rt_path = [Fixed ''api'', Fixed ''auth'', Fixed ''login''],
      rt_handler = ''auth.login'' \<rparr>,
    \<lparr> rt_method = ''POST'', rt_path = [Fixed ''api'', Fixed ''auth'', Fixed ''logout''],
      rt_handler = ''auth.logout'' \<rparr>,
    \<lparr> rt_method = ''GET'', rt_path = [Fixed ''api'', Fixed ''me''],
      rt_handler = ''auth.me'' \<rparr>,
    \<lparr> rt_method = ''GET'', rt_path = [Fixed ''api'', Fixed ''auth'', Fixed ''verify''],
      rt_handler = ''auth.verify'' \<rparr>]"

definition project_analytics_routes :: "route list" where
  "project_analytics_routes = [
    \<lparr> rt_method = ''GET'', rt_path = [Fixed ''api'', Fixed ''projects'', Var ''project_id'', Fixed ''execution-analytics''],
      rt_handler = ''project_analytics.execution_analytics'' \<rparr>]"

definition sso_routes :: "route list" where
  "sso_routes = [
    \<lparr> rt_method = ''GET'', rt_path = [Fixed ''api'', Fixed ''auth'', Fixed ''sso'', Fixed ''providers''],
      rt_handler = ''sso.providers'' \<rparr>,
    \<lparr> rt_method = ''GET'', rt_path = [Fixed ''api'', Fixed ''admin'', Fixed ''sso'', Fixed ''providers''],
      rt_handler = ''sso.admin_providers'' \<rparr>,
    \<lparr> rt_method = ''GET'', rt_path = [Fixed ''api'', Fixed ''admin'', Fixed ''sso'', Fixed ''audit''],
      rt_handler = ''sso.provider_audit'' \<rparr>,
    \<lparr> rt_method = ''GET'', rt_path = [Fixed ''api'', Fixed ''admin'', Fixed ''sso'', Fixed ''readiness''],
      rt_handler = ''sso.readiness'' \<rparr>,
    \<lparr> rt_method = ''POST'', rt_path = [Fixed ''api'', Fixed ''admin'', Fixed ''sso'', Fixed ''rotate-encryption''],
      rt_handler = ''sso.rotate_encryption'' \<rparr>,
    \<lparr> rt_method = ''PUT'', rt_path = [Fixed ''api'', Fixed ''admin'', Fixed ''sso'', Fixed ''providers'', Var ''provider''],
      rt_handler = ''sso.update_provider'' \<rparr>,
    \<lparr> rt_method = ''POST'', rt_path = [Fixed ''api'', Fixed ''admin'', Fixed ''sso'', Fixed ''signup-invites''],
      rt_handler = ''sso.create_signup_invite'' \<rparr>,
    \<lparr> rt_method = ''POST'', rt_path = [Fixed ''api'', Fixed ''auth'', Fixed ''sso'', Fixed ''start''],
      rt_handler = ''sso.start_sso'' \<rparr>,
    \<lparr> rt_method = ''GET'', rt_path = [Fixed ''api'', Fixed ''auth'', Fixed ''sso'', Var ''provider'', Fixed ''callback''],
      rt_handler = ''sso.callback'' \<rparr>,
    \<lparr> rt_method = ''POST'', rt_path = [Fixed ''api'', Fixed ''auth'', Fixed ''sso'', Fixed ''poll''],
      rt_handler = ''sso.poll_sso'' \<rparr>,
    \<lparr> rt_method = ''GET'', rt_path = [Fixed ''api'', Fixed ''auth'', Fixed ''identities''],
      rt_handler = ''sso.identities'' \<rparr>,
    \<lparr> rt_method = ''DELETE'', rt_path = [Fixed ''api'', Fixed ''auth'', Fixed ''identities'', Var ''provider''],
      rt_handler = ''sso.unlink'' \<rparr>]"

definition accounts_routes :: "route list" where
  "accounts_routes = [
    \<lparr> rt_method = ''GET'', rt_path = [Fixed ''api'', Fixed ''accounts''],
      rt_handler = ''accounts.list_accounts'' \<rparr>,
    \<lparr> rt_method = ''POST'', rt_path = [Fixed ''api'', Fixed ''accounts''],
      rt_handler = ''accounts.create_account'' \<rparr>,
    \<lparr> rt_method = ''PATCH'', rt_path = [Fixed ''api'', Fixed ''accounts'', Var ''account_id''],
      rt_handler = ''accounts.update_account'' \<rparr>,
    \<lparr> rt_method = ''POST'', rt_path = [Fixed ''api'', Fixed ''accounts'', Var ''account_id'', Fixed ''password''],
      rt_handler = ''accounts.reset_password'' \<rparr>,
    \<lparr> rt_method = ''PUT'', rt_path = [Fixed ''api'', Fixed ''accounts'', Var ''account_id'', Fixed ''password-login''],
      rt_handler = ''accounts.password_login'' \<rparr>,
    \<lparr> rt_method = ''PUT'', rt_path = [Fixed ''api'', Fixed ''accounts'', Var ''account_id'', Fixed ''suspension''],
      rt_handler = ''accounts.suspension'' \<rparr>,
    \<lparr> rt_method = ''POST'', rt_path = [Fixed ''api'', Fixed ''accounts'', Var ''account_id'', Fixed ''sessions'', Fixed ''revoke''],
      rt_handler = ''accounts.revoke_sessions'' \<rparr>,
    \<lparr> rt_method = ''GET'', rt_path = [Fixed ''api'', Fixed ''accounts'', Var ''account_id'', Fixed ''identities''],
      rt_handler = ''accounts.account_identities'' \<rparr>,
    \<lparr> rt_method = ''DELETE'', rt_path = [Fixed ''api'', Fixed ''accounts'', Var ''account_id'', Fixed ''identities'', Var ''provider''],
      rt_handler = ''accounts.unlink_account_identity'' \<rparr>,
    \<lparr> rt_method = ''GET'', rt_path = [Fixed ''api'', Fixed ''accounts'', Fixed ''auth-audit''],
      rt_handler = ''accounts.auth_audit'' \<rparr>,
    \<lparr> rt_method = ''DELETE'', rt_path = [Fixed ''api'', Fixed ''accounts'', Var ''account_id''],
      rt_handler = ''accounts.delete_account'' \<rparr>]"

definition orgs_routes :: "route list" where
  "orgs_routes = [
    \<lparr> rt_method = ''POST'', rt_path = [Fixed ''api'', Fixed ''orgs''],
      rt_handler = ''orgs.create_org'' \<rparr>,
    \<lparr> rt_method = ''GET'', rt_path = [Fixed ''api'', Fixed ''orgs''],
      rt_handler = ''orgs.list_orgs'' \<rparr>,
    \<lparr> rt_method = ''GET'', rt_path = [Fixed ''api'', Fixed ''orgs'', Var ''org_id'', Fixed ''members''],
      rt_handler = ''orgs.org_members'' \<rparr>,
    \<lparr> rt_method = ''POST'', rt_path = [Fixed ''api'', Fixed ''orgs'', Var ''org_id'', Fixed ''members''],
      rt_handler = ''orgs.add_org_member'' \<rparr>,
    \<lparr> rt_method = ''GET'', rt_path = [Fixed ''api'', Fixed ''orgs'', Fixed ''model-policies''],
      rt_handler = ''orgs.list_model_policies'' \<rparr>,
    \<lparr> rt_method = ''GET'', rt_path = [Fixed ''api'', Fixed ''orgs'', Var ''org_id'', Fixed ''model-policy''],
      rt_handler = ''orgs.get_model_policy'' \<rparr>,
    \<lparr> rt_method = ''PUT'', rt_path = [Fixed ''api'', Fixed ''orgs'', Var ''org_id'', Fixed ''model-policy''],
      rt_handler = ''orgs.set_model_policy'' \<rparr>]"

definition projects_routes :: "route list" where
  "projects_routes = [
    \<lparr> rt_method = ''POST'', rt_path = [Fixed ''api'', Fixed ''projects''],
      rt_handler = ''projects.create_project'' \<rparr>,
    \<lparr> rt_method = ''GET'', rt_path = [Fixed ''api'', Fixed ''projects''],
      rt_handler = ''projects.list_projects'' \<rparr>,
    \<lparr> rt_method = ''GET'', rt_path = [Fixed ''api'', Fixed ''projects'', Var ''project_id''],
      rt_handler = ''projects.get_project'' \<rparr>,
    \<lparr> rt_method = ''PATCH'', rt_path = [Fixed ''api'', Fixed ''projects'', Var ''project_id''],
      rt_handler = ''projects.update_project'' \<rparr>,
    \<lparr> rt_method = ''POST'', rt_path = [Fixed ''api'', Fixed ''projects'', Var ''project_id'', Fixed ''transfer''],
      rt_handler = ''projects.transfer_project'' \<rparr>,
    \<lparr> rt_method = ''POST'', rt_path = [Fixed ''api'', Fixed ''projects'', Var ''project_id'', Fixed ''archive''],
      rt_handler = ''projects.archive_project'' \<rparr>,
    \<lparr> rt_method = ''POST'', rt_path = [Fixed ''api'', Fixed ''projects'', Var ''project_id'', Fixed ''restore''],
      rt_handler = ''projects.restore_project'' \<rparr>,
    \<lparr> rt_method = ''DELETE'', rt_path = [Fixed ''api'', Fixed ''projects'', Var ''project_id''],
      rt_handler = ''projects.remove_project'' \<rparr>,
    \<lparr> rt_method = ''GET'', rt_path = [Fixed ''api'', Fixed ''projects'', Var ''project_id'', Fixed ''members''],
      rt_handler = ''projects.project_members'' \<rparr>,
    \<lparr> rt_method = ''POST'', rt_path = [Fixed ''api'', Fixed ''projects'', Var ''project_id'', Fixed ''members''],
      rt_handler = ''projects.add_project_member'' \<rparr>,
    \<lparr> rt_method = ''PATCH'', rt_path = [Fixed ''api'', Fixed ''projects'', Var ''project_id'', Fixed ''members'', Var ''account_id''],
      rt_handler = ''projects.change_member_role'' \<rparr>,
    \<lparr> rt_method = ''DELETE'', rt_path = [Fixed ''api'', Fixed ''projects'', Var ''project_id'', Fixed ''members'', Var ''account_id''],
      rt_handler = ''projects.remove_member'' \<rparr>]"

definition assets_routes :: "route list" where
  "assets_routes = [
    \<lparr> rt_method = ''POST'', rt_path = [Fixed ''api'', Fixed ''assets'', Fixed ''uploads''],
      rt_handler = ''assets.start_upload'' \<rparr>,
    \<lparr> rt_method = ''GET'', rt_path = [Fixed ''api'', Fixed ''assets'', Fixed ''uploads'', Var ''upload_id''],
      rt_handler = ''assets.get_upload'' \<rparr>,
    \<lparr> rt_method = ''PUT'', rt_path = [Fixed ''api'', Fixed ''assets'', Fixed ''uploads'', Var ''upload_id'', Fixed ''parts'', Var ''part_number''],
      rt_handler = ''assets.upload_part'' \<rparr>,
    \<lparr> rt_method = ''POST'', rt_path = [Fixed ''api'', Fixed ''assets'', Fixed ''uploads'', Var ''upload_id'', Fixed ''complete''],
      rt_handler = ''assets.finish_upload'' \<rparr>,
    \<lparr> rt_method = ''DELETE'', rt_path = [Fixed ''api'', Fixed ''assets'', Fixed ''uploads'', Var ''upload_id''],
      rt_handler = ''assets.cancel_upload'' \<rparr>,
    \<lparr> rt_method = ''POST'', rt_path = [Fixed ''api'', Fixed ''assets'', Var ''asset_id'', Fixed ''download-grant''],
      rt_handler = ''assets.download_grant'' \<rparr>,
    \<lparr> rt_method = ''GET'', rt_path = [Fixed ''api'', Fixed ''assets'', Var ''asset_id'', Fixed ''content''],
      rt_handler = ''assets.download_content'' \<rparr>]"

definition business_routes :: "route list" where
  "business_routes = [
    \<lparr> rt_method = ''GET'', rt_path = [Fixed ''api'', Fixed ''sessions''],
      rt_handler = ''business.list_sessions'' \<rparr>,
    \<lparr> rt_method = ''POST'', rt_path = [Fixed ''api'', Fixed ''sessions''],
      rt_handler = ''business.create_session'' \<rparr>,
    \<lparr> rt_method = ''GET'', rt_path = [Fixed ''api'', Fixed ''sessions'', Var ''session_id''],
      rt_handler = ''business.get_session'' \<rparr>,
    \<lparr> rt_method = ''PATCH'', rt_path = [Fixed ''api'', Fixed ''sessions'', Var ''session_id''],
      rt_handler = ''business.update_session'' \<rparr>,
    \<lparr> rt_method = ''DELETE'', rt_path = [Fixed ''api'', Fixed ''sessions'', Var ''session_id''],
      rt_handler = ''business.delete_session'' \<rparr>,
    \<lparr> rt_method = ''GET'', rt_path = [Fixed ''api'', Fixed ''sessions'', Var ''session_id'', Fixed ''messages''],
      rt_handler = ''business.list_messages'' \<rparr>,
    \<lparr> rt_method = ''POST'', rt_path = [Fixed ''api'', Fixed ''sessions'', Var ''session_id'', Fixed ''messages''],
      rt_handler = ''business.create_message'' \<rparr>,
    \<lparr> rt_method = ''GET'', rt_path = [Fixed ''api'', Fixed ''runs''],
      rt_handler = ''business.list_runs'' \<rparr>,
    \<lparr> rt_method = ''POST'', rt_path = [Fixed ''api'', Fixed ''runs''],
      rt_handler = ''business.create_run'' \<rparr>,
    \<lparr> rt_method = ''POST'', rt_path = [Fixed ''api'', Fixed ''turns''],
      rt_handler = ''business.create_turn'' \<rparr>,
    \<lparr> rt_method = ''GET'', rt_path = [Fixed ''api'', Fixed ''runs'', Var ''run_id''],
      rt_handler = ''business.get_run'' \<rparr>,
    \<lparr> rt_method = ''PATCH'', rt_path = [Fixed ''api'', Fixed ''runs'', Var ''run_id''],
      rt_handler = ''business.update_run'' \<rparr>,
    \<lparr> rt_method = ''GET'', rt_path = [Fixed ''api'', Fixed ''runs'', Var ''run_id'', Fixed ''steps''],
      rt_handler = ''business.list_run_steps'' \<rparr>,
    \<lparr> rt_method = ''POST'', rt_path = [Fixed ''api'', Fixed ''runs'', Var ''run_id'', Fixed ''steps''],
      rt_handler = ''business.create_run_step'' \<rparr>,
    \<lparr> rt_method = ''GET'', rt_path = [Fixed ''api'', Fixed ''assistants''],
      rt_handler = ''business.list_assistants'' \<rparr>,
    \<lparr> rt_method = ''POST'', rt_path = [Fixed ''api'', Fixed ''assistants''],
      rt_handler = ''business.create_assistant'' \<rparr>,
    \<lparr> rt_method = ''GET'', rt_path = [Fixed ''api'', Fixed ''assistants'', Var ''assistant_id''],
      rt_handler = ''business.get_assistant'' \<rparr>,
    \<lparr> rt_method = ''PATCH'', rt_path = [Fixed ''api'', Fixed ''assistants'', Var ''assistant_id''],
      rt_handler = ''business.update_assistant'' \<rparr>,
    \<lparr> rt_method = ''DELETE'', rt_path = [Fixed ''api'', Fixed ''assistants'', Var ''assistant_id''],
      rt_handler = ''business.delete_assistant'' \<rparr>,
    \<lparr> rt_method = ''GET'', rt_path = [Fixed ''api'', Fixed ''assistants'', Var ''assistant_id'', Fixed ''channels''],
      rt_handler = ''business.list_channels'' \<rparr>,
    \<lparr> rt_method = ''POST'', rt_path = [Fixed ''api'', Fixed ''assistants'', Var ''assistant_id'', Fixed ''channels''],
      rt_handler = ''business.create_channel'' \<rparr>,
    \<lparr> rt_method = ''PATCH'', rt_path = [Fixed ''api'', Fixed ''assistants'', Var ''assistant_id'', Fixed ''channels'', Var ''channel_id''],
      rt_handler = ''business.update_channel'' \<rparr>,
    \<lparr> rt_method = ''DELETE'', rt_path = [Fixed ''api'', Fixed ''assistants'', Var ''assistant_id'', Fixed ''channels'', Var ''channel_id''],
      rt_handler = ''business.delete_channel'' \<rparr>,
    \<lparr> rt_method = ''GET'', rt_path = [Fixed ''api'', Fixed ''automations''],
      rt_handler = ''business.list_automations'' \<rparr>,
    \<lparr> rt_method = ''POST'', rt_path = [Fixed ''api'', Fixed ''automations''],
      rt_handler = ''business.create_automation'' \<rparr>,
    \<lparr> rt_method = ''GET'', rt_path = [Fixed ''api'', Fixed ''automations'', Var ''automation_id''],
      rt_handler = ''business.get_automation'' \<rparr>,
    \<lparr> rt_method = ''PATCH'', rt_path = [Fixed ''api'', Fixed ''automations'', Var ''automation_id''],
      rt_handler = ''business.update_automation'' \<rparr>,
    \<lparr> rt_method = ''DELETE'', rt_path = [Fixed ''api'', Fixed ''automations'', Var ''automation_id''],
      rt_handler = ''business.delete_automation'' \<rparr>,
    \<lparr> rt_method = ''POST'', rt_path = [Fixed ''api'', Fixed ''automations'', Var ''automation_id'', Fixed ''run''],
      rt_handler = ''business.run_automation_now'' \<rparr>,
    \<lparr> rt_method = ''GET'', rt_path = [Fixed ''api'', Fixed ''automation-fires''],
      rt_handler = ''business.list_automation_fires'' \<rparr>,
    \<lparr> rt_method = ''POST'', rt_path = [Fixed ''api'', Fixed ''automation-fires'', Var ''fire_id'', Fixed ''replay''],
      rt_handler = ''business.replay_automation_fire'' \<rparr>,
    \<lparr> rt_method = ''POST'', rt_path = [Fixed ''api'', Fixed ''automation-fires'', Var ''fire_id'', Fixed ''ignore''],
      rt_handler = ''business.ignore_automation_fire'' \<rparr>,
    \<lparr> rt_method = ''GET'', rt_path = [Fixed ''api'', Fixed ''assets''],
      rt_handler = ''business.list_assets'' \<rparr>,
    \<lparr> rt_method = ''POST'', rt_path = [Fixed ''api'', Fixed ''assets''],
      rt_handler = ''business.create_asset'' \<rparr>,
    \<lparr> rt_method = ''GET'', rt_path = [Fixed ''api'', Fixed ''assets'', Var ''asset_id''],
      rt_handler = ''business.get_asset'' \<rparr>,
    \<lparr> rt_method = ''PATCH'', rt_path = [Fixed ''api'', Fixed ''assets'', Var ''asset_id''],
      rt_handler = ''business.update_asset'' \<rparr>,
    \<lparr> rt_method = ''DELETE'', rt_path = [Fixed ''api'', Fixed ''assets'', Var ''asset_id''],
      rt_handler = ''business.delete_asset'' \<rparr>,
    \<lparr> rt_method = ''GET'', rt_path = [Fixed ''api'', Fixed ''business'', Fixed ''audit''],
      rt_handler = ''business.business_audit'' \<rparr>]"

definition automation_webhooks_routes :: "route list" where
  "automation_webhooks_routes = [
    \<lparr> rt_method = ''GET'', rt_path = [Fixed ''api'', Fixed ''automations'', Var ''automation_id'', Fixed ''webhook''],
      rt_handler = ''automation_webhooks.get_webhook'' \<rparr>,
    \<lparr> rt_method = ''POST'', rt_path = [Fixed ''api'', Fixed ''automations'', Var ''automation_id'', Fixed ''webhook''],
      rt_handler = ''automation_webhooks.create_webhook'' \<rparr>,
    \<lparr> rt_method = ''POST'', rt_path = [Fixed ''api'', Fixed ''automations'', Var ''automation_id'', Fixed ''webhook'', Fixed ''rotate''],
      rt_handler = ''automation_webhooks.rotate_webhook'' \<rparr>,
    \<lparr> rt_method = ''DELETE'', rt_path = [Fixed ''api'', Fixed ''automations'', Var ''automation_id'', Fixed ''webhook''],
      rt_handler = ''automation_webhooks.delete_webhook'' \<rparr>,
    \<lparr> rt_method = ''POST'', rt_path = [Fixed ''api'', Fixed ''webhooks'', Fixed ''automations'', Var ''webhook_id''],
      rt_handler = ''automation_webhooks.receive_webhook'' \<rparr>]"

definition run_protocol_routes :: "route list" where
  "run_protocol_routes = [
    \<lparr> rt_method = ''POST'', rt_path = [Fixed ''api'', Fixed ''devices'', Fixed ''register''],
      rt_handler = ''run_protocol.register_device'' \<rparr>,
    \<lparr> rt_method = ''POST'', rt_path = [Fixed ''api'', Fixed ''devices'', Var ''device_id'', Fixed ''verify''],
      rt_handler = ''run_protocol.verify_device'' \<rparr>,
    \<lparr> rt_method = ''GET'', rt_path = [Fixed ''api'', Fixed ''devices''],
      rt_handler = ''run_protocol.devices'' \<rparr>,
    \<lparr> rt_method = ''DELETE'', rt_path = [Fixed ''api'', Fixed ''devices'', Var ''device_id''],
      rt_handler = ''run_protocol.revoke_device'' \<rparr>,
    \<lparr> rt_method = ''POST'', rt_path = [Fixed ''api'', Fixed ''agent'', Fixed ''heartbeat''],
      rt_handler = ''run_protocol.heartbeat'' \<rparr>,
    \<lparr> rt_method = ''POST'', rt_path = [Fixed ''api'', Fixed ''agent'', Fixed ''runs'', Fixed ''lease''],
      rt_handler = ''run_protocol.lease_run'' \<rparr>,
    \<lparr> rt_method = ''POST'', rt_path = [Fixed ''api'', Fixed ''agent'', Fixed ''runs'', Var ''run_id'', Fixed ''leases'', Var ''lease_id'', Fixed ''renew''],
      rt_handler = ''run_protocol.renew_lease'' \<rparr>,
    \<lparr> rt_method = ''POST'', rt_path = [Fixed ''api'', Fixed ''agent'', Fixed ''runs'', Var ''run_id'', Fixed ''leases'', Var ''lease_id'', Fixed ''events''],
      rt_handler = ''run_protocol.submit_events'' \<rparr>,
    \<lparr> rt_method = ''GET'', rt_path = [Fixed ''api'', Fixed ''agent'', Fixed ''runs'', Var ''run_id'', Fixed ''leases'', Var ''lease_id'', Fixed ''commands''],
      rt_handler = ''run_protocol.commands'' \<rparr>,
    \<lparr> rt_method = ''POST'', rt_path = [Fixed ''api'', Fixed ''runs'', Var ''run_id'', Fixed ''cancel''],
      rt_handler = ''run_protocol.cancel_run'' \<rparr>,
    \<lparr> rt_method = ''POST'', rt_path = [Fixed ''api'', Fixed ''runs'', Var ''run_id'', Fixed ''pause''],
      rt_handler = ''run_protocol.pause_run'' \<rparr>,
    \<lparr> rt_method = ''POST'', rt_path = [Fixed ''api'', Fixed ''runs'', Var ''run_id'', Fixed ''resume''],
      rt_handler = ''run_protocol.resume_run'' \<rparr>,
    \<lparr> rt_method = ''GET'', rt_path = [Fixed ''api'', Fixed ''runs'', Var ''run_id'', Fixed ''events''],
      rt_handler = ''run_protocol.run_events'' \<rparr>,
    \<lparr> rt_method = ''POST'', rt_path = [Fixed ''api'', Fixed ''runs'', Var ''run_id'', Fixed ''answer''],
      rt_handler = ''run_protocol.answer_user'' \<rparr>]"

definition invites_routes :: "route list" where
  "invites_routes = [
    \<lparr> rt_method = ''POST'', rt_path = [Fixed ''api'', Fixed ''projects'', Var ''project_id'', Fixed ''invites''],
      rt_handler = ''invites.create_invite'' \<rparr>,
    \<lparr> rt_method = ''GET'', rt_path = [Fixed ''api'', Fixed ''invites'', Var ''code''],
      rt_handler = ''invites.get_invite'' \<rparr>,
    \<lparr> rt_method = ''POST'', rt_path = [Fixed ''api'', Fixed ''invites'', Var ''code'', Fixed ''accept''],
      rt_handler = ''invites.accept_invite'' \<rparr>]"

definition catalog_routes :: "route list" where
  "catalog_routes = [
    \<lparr> rt_method = ''GET'', rt_path = [Fixed ''api'', Fixed ''catalog''],
      rt_handler = ''catalog.list_all_catalog'' \<rparr>,
    \<lparr> rt_method = ''GET'', rt_path = [Fixed ''api'', Fixed ''catalog'', Fixed ''skill-tools''],
      rt_handler = ''catalog.list_skill_tools'' \<rparr>,
    \<lparr> rt_method = ''GET'', rt_path = [Fixed ''api'', Fixed ''catalog'', Fixed ''tools''],
      rt_handler = ''catalog.list_tools'' \<rparr>,
    \<lparr> rt_method = ''POST'', rt_path = [Fixed ''api'', Fixed ''catalog'', Fixed ''tools''],
      rt_handler = ''catalog.create_shell_tool'' \<rparr>,
    \<lparr> rt_method = ''PATCH'', rt_path = [Fixed ''api'', Fixed ''catalog'', Fixed ''tools'', Var ''name''],
      rt_handler = ''catalog.update_tool'' \<rparr>,
    \<lparr> rt_method = ''DELETE'', rt_path = [Fixed ''api'', Fixed ''catalog'', Fixed ''tools'', Var ''name''],
      rt_handler = ''catalog.delete_tool'' \<rparr>,
    \<lparr> rt_method = ''GET'', rt_path = [Fixed ''api'', Fixed ''catalog'', Fixed ''tools'', Var ''name'', Fixed ''audit''],
      rt_handler = ''catalog.tool_audit'' \<rparr>,
    \<lparr> rt_method = ''GET'', rt_path = [Fixed ''api'', Fixed ''catalog'', Fixed ''skill-releases''],
      rt_handler = ''catalog.list_releases'' \<rparr>,
    \<lparr> rt_method = ''POST'', rt_path = [Fixed ''api'', Fixed ''catalog'', Fixed ''skill-releases''],
      rt_handler = ''catalog.create_release'' \<rparr>,
    \<lparr> rt_method = ''POST'', rt_path = [Fixed ''api'', Fixed ''catalog'', Fixed ''skill-releases'', Var ''release_id'', Fixed ''test-result''],
      rt_handler = ''catalog.record_release_test'' \<rparr>,
    \<lparr> rt_method = ''POST'', rt_path = [Fixed ''api'', Fixed ''catalog'', Fixed ''skill-releases'', Var ''release_id'', Fixed ''approve''],
      rt_handler = ''catalog.approve_release'' \<rparr>,
    \<lparr> rt_method = ''POST'', rt_path = [Fixed ''api'', Fixed ''catalog'', Fixed ''skill-releases'', Var ''release_id'', Fixed ''publish''],
      rt_handler = ''catalog.publish_release'' \<rparr>,
    \<lparr> rt_method = ''POST'', rt_path = [Fixed ''api'', Fixed ''catalog'', Fixed ''skill-releases'', Var ''release_id'', Fixed ''pause''],
      rt_handler = ''catalog.pause_release'' \<rparr>,
    \<lparr> rt_method = ''POST'', rt_path = [Fixed ''api'', Fixed ''catalog'', Fixed ''skill-releases'', Var ''release_id'', Fixed ''withdraw''],
      rt_handler = ''catalog.withdraw_release'' \<rparr>,
    \<lparr> rt_method = ''POST'', rt_path = [Fixed ''api'', Fixed ''catalog'', Fixed ''skill-releases'', Var ''release_id'', Fixed ''rollback''],
      rt_handler = ''catalog.rollback_release'' \<rparr>,
    \<lparr> rt_method = ''POST'', rt_path = [Fixed ''api'', Fixed ''catalog'', Fixed ''skill-releases'', Var ''release_id'', Fixed ''metrics''],
      rt_handler = ''catalog.record_release_metric'' \<rparr>,
    \<lparr> rt_method = ''GET'', rt_path = [Fixed ''api'', Fixed ''catalog'', Var ''category''],
      rt_handler = ''catalog.list_catalog'' \<rparr>,
    \<lparr> rt_method = ''POST'', rt_path = [Fixed ''api'', Fixed ''catalog'', Fixed ''pull''],
      rt_handler = ''catalog.pull_catalog'' \<rparr>,
    \<lparr> rt_method = ''POST'', rt_path = [Fixed ''api'', Fixed ''catalog''],
      rt_handler = ''catalog.create_item'' \<rparr>,
    \<lparr> rt_method = ''PATCH'', rt_path = [Fixed ''api'', Fixed ''catalog'', Fixed ''item'', Var ''item_id''],
      rt_handler = ''catalog.update_item'' \<rparr>,
    \<lparr> rt_method = ''DELETE'', rt_path = [Fixed ''api'', Fixed ''catalog'', Fixed ''item'', Var ''item_id''],
      rt_handler = ''catalog.delete_item'' \<rparr>]"

definition timeline_routes :: "route list" where
  "timeline_routes = [
    \<lparr> rt_method = ''POST'', rt_path = [Fixed ''api'', Fixed ''projects'', Var ''project_id'', Fixed ''timeline''],
      rt_handler = ''timeline.post_event'' \<rparr>,
    \<lparr> rt_method = ''GET'', rt_path = [Fixed ''api'', Fixed ''projects'', Var ''project_id'', Fixed ''timeline''],
      rt_handler = ''timeline.get_timeline'' \<rparr>]"

definition comments_routes :: "route list" where
  "comments_routes = [
    \<lparr> rt_method = ''POST'', rt_path = [Fixed ''api'', Fixed ''projects'', Var ''project_id'', Fixed ''comments''],
      rt_handler = ''comments.post_comment'' \<rparr>,
    \<lparr> rt_method = ''GET'', rt_path = [Fixed ''api'', Fixed ''projects'', Var ''project_id'', Fixed ''comments''],
      rt_handler = ''comments.get_comments'' \<rparr>,
    \<lparr> rt_method = ''GET'', rt_path = [Fixed ''api'', Fixed ''projects'', Var ''project_id'', Fixed ''work-items'', Var ''wid'', Fixed ''comments''],
      rt_handler = ''comments.get_item_comments'' \<rparr>,
    \<lparr> rt_method = ''POST'', rt_path = [Fixed ''api'', Fixed ''projects'', Var ''project_id'', Fixed ''work-items'', Var ''wid'', Fixed ''comments''],
      rt_handler = ''comments.post_item_comment'' \<rparr>,
    \<lparr> rt_method = ''GET'', rt_path = [Fixed ''api'', Fixed ''projects'', Var ''project_id'', Fixed ''presence''],
      rt_handler = ''comments.get_presence'' \<rparr>]"

definition notifications_routes :: "route list" where
  "notifications_routes = [
    \<lparr> rt_method = ''GET'', rt_path = [Fixed ''api'', Fixed ''notifications''],
      rt_handler = ''notifications.list_notifs'' \<rparr>,
    \<lparr> rt_method = ''POST'', rt_path = [Fixed ''api'', Fixed ''notifications'', Fixed ''read''],
      rt_handler = ''notifications.mark_read'' \<rparr>]"

definition work_items_routes :: "route list" where
  "work_items_routes = [
    \<lparr> rt_method = ''GET'', rt_path = [Fixed ''api'', Fixed ''work-items'', Fixed ''action-items''],
      rt_handler = ''work_items.personal_action_items'' \<rparr>,
    \<lparr> rt_method = ''GET'', rt_path = [Fixed ''api'', Fixed ''projects'', Var ''project_id'', Fixed ''work-items''],
      rt_handler = ''work_items.list_items'' \<rparr>,
    \<lparr> rt_method = ''GET'', rt_path = [Fixed ''api'', Fixed ''projects'', Var ''project_id'', Fixed ''work-items'', Var ''wid'', Fixed ''delivery''],
      rt_handler = ''work_items.item_delivery'' \<rparr>,
    \<lparr> rt_method = ''POST'', rt_path = [Fixed ''api'', Fixed ''projects'', Var ''project_id'', Fixed ''work-items'', Var ''wid'', Fixed ''execute''],
      rt_handler = ''work_items.execute_item'' \<rparr>,
    \<lparr> rt_method = ''POST'', rt_path = [Fixed ''api'', Fixed ''projects'', Var ''project_id'', Fixed ''work-items''],
      rt_handler = ''work_items.create_item'' \<rparr>,
    \<lparr> rt_method = ''PUT'', rt_path = [Fixed ''api'', Fixed ''projects'', Var ''project_id'', Fixed ''work-items'', Var ''wid'', Fixed ''execution-policy''],
      rt_handler = ''work_items.set_execution_policy'' \<rparr>,
    \<lparr> rt_method = ''PATCH'', rt_path = [Fixed ''api'', Fixed ''projects'', Var ''project_id'', Fixed ''work-items'', Var ''wid'', Fixed ''planning''],
      rt_handler = ''work_items.update_item_planning'' \<rparr>,
    \<lparr> rt_method = ''POST'', rt_path = [Fixed ''api'', Fixed ''projects'', Var ''project_id'', Fixed ''work-items'', Var ''wid'', Fixed ''execution-policy'', Fixed ''trigger''],
      rt_handler = ''work_items.trigger_execution_policy'' \<rparr>,
    \<lparr> rt_method = ''PATCH'', rt_path = [Fixed ''api'', Fixed ''projects'', Var ''project_id'', Fixed ''work-items'', Var ''wid''],
      rt_handler = ''work_items.update_item'' \<rparr>,
    \<lparr> rt_method = ''POST'', rt_path = [Fixed ''api'', Fixed ''projects'', Var ''project_id'', Fixed ''work-items'', Var ''wid'', Fixed ''accept''],
      rt_handler = ''work_items.accept_item'' \<rparr>,
    \<lparr> rt_method = ''DELETE'', rt_path = [Fixed ''api'', Fixed ''projects'', Var ''project_id'', Fixed ''work-items'', Var ''wid''],
      rt_handler = ''work_items.delete_item'' \<rparr>,
    \<lparr> rt_method = ''GET'', rt_path = [Fixed ''api'', Fixed ''projects'', Var ''project_id'', Fixed ''work-items'', Var ''wid'', Fixed ''activity''],
      rt_handler = ''work_items.item_activity'' \<rparr>,
    \<lparr> rt_method = ''GET'', rt_path = [Fixed ''api'', Fixed ''projects'', Var ''project_id'', Fixed ''activity''],
      rt_handler = ''work_items.project_activity'' \<rparr>]"

definition milestones_routes :: "route list" where
  "milestones_routes = [
    \<lparr> rt_method = ''GET'', rt_path = [Fixed ''api'', Fixed ''projects'', Var ''project_id'', Fixed ''milestones''],
      rt_handler = ''milestones.list_items'' \<rparr>,
    \<lparr> rt_method = ''POST'', rt_path = [Fixed ''api'', Fixed ''projects'', Var ''project_id'', Fixed ''milestones''],
      rt_handler = ''milestones.create_item'' \<rparr>,
    \<lparr> rt_method = ''PATCH'', rt_path = [Fixed ''api'', Fixed ''projects'', Var ''project_id'', Fixed ''milestones'', Var ''mid''],
      rt_handler = ''milestones.update_item'' \<rparr>,
    \<lparr> rt_method = ''DELETE'', rt_path = [Fixed ''api'', Fixed ''projects'', Var ''project_id'', Fixed ''milestones'', Var ''mid''],
      rt_handler = ''milestones.delete_item'' \<rparr>]"

definition governance_routes :: "route list" where
  "governance_routes = [
    \<lparr> rt_method = ''GET'', rt_path = [Fixed ''api'', Fixed ''projects'', Var ''project_id'', Fixed ''governance''],
      rt_handler = ''governance.list_records'' \<rparr>,
    \<lparr> rt_method = ''GET'', rt_path = [Fixed ''api'', Fixed ''projects'', Var ''project_id'', Fixed ''governance'', Fixed ''activity''],
      rt_handler = ''governance.list_activity'' \<rparr>,
    \<lparr> rt_method = ''POST'', rt_path = [Fixed ''api'', Fixed ''projects'', Var ''project_id'', Fixed ''governance''],
      rt_handler = ''governance.create_record'' \<rparr>,
    \<lparr> rt_method = ''POST'', rt_path = [Fixed ''api'', Fixed ''projects'', Var ''project_id'', Fixed ''governance'', Var ''record_id'', Fixed ''action-task''],
      rt_handler = ''governance.create_action_task'' \<rparr>,
    \<lparr> rt_method = ''PATCH'', rt_path = [Fixed ''api'', Fixed ''projects'', Var ''project_id'', Fixed ''governance'', Var ''record_id''],
      rt_handler = ''governance.update_record'' \<rparr>,
    \<lparr> rt_method = ''DELETE'', rt_path = [Fixed ''api'', Fixed ''projects'', Var ''project_id'', Fixed ''governance'', Var ''record_id''],
      rt_handler = ''governance.delete_record'' \<rparr>]"

definition project_health_routes :: "route list" where
  "project_health_routes = [
    \<lparr> rt_method = ''GET'', rt_path = [Fixed ''api'', Fixed ''project-health''],
      rt_handler = ''project_health.project_health_portfolio'' \<rparr>,
    \<lparr> rt_method = ''GET'', rt_path = [Fixed ''api'', Fixed ''projects'', Var ''project_id'', Fixed ''health''],
      rt_handler = ''project_health.project_health'' \<rparr>,
    \<lparr> rt_method = ''POST'', rt_path = [Fixed ''api'', Fixed ''project-health'', Fixed ''scan''],
      rt_handler = ''project_health.scan_project_health'' \<rparr>,
    \<lparr> rt_method = ''GET'', rt_path = [Fixed ''api'', Fixed ''projects'', Var ''project_id'', Fixed ''health-events''],
      rt_handler = ''project_health.project_health_events'' \<rparr>]"

definition pm_routes :: "route list" where
  "pm_routes = [
    \<lparr> rt_method = ''GET'', rt_path = [Fixed ''api'', Fixed ''projects'', Var ''project_id'', Fixed ''custom-fields''],
      rt_handler = ''pm.list_custom_fields'' \<rparr>,
    \<lparr> rt_method = ''POST'', rt_path = [Fixed ''api'', Fixed ''projects'', Var ''project_id'', Fixed ''custom-fields''],
      rt_handler = ''pm.create_custom_field'' \<rparr>,
    \<lparr> rt_method = ''PATCH'', rt_path = [Fixed ''api'', Fixed ''projects'', Var ''project_id'', Fixed ''custom-fields'', Var ''field_id''],
      rt_handler = ''pm.update_custom_field'' \<rparr>,
    \<lparr> rt_method = ''DELETE'', rt_path = [Fixed ''api'', Fixed ''projects'', Var ''project_id'', Fixed ''custom-fields'', Var ''field_id''],
      rt_handler = ''pm.delete_custom_field'' \<rparr>,
    \<lparr> rt_method = ''GET'', rt_path = [Fixed ''api'', Fixed ''projects'', Var ''project_id'', Fixed ''pm-preferences''],
      rt_handler = ''pm.get_pm_preferences'' \<rparr>,
    \<lparr> rt_method = ''PUT'', rt_path = [Fixed ''api'', Fixed ''projects'', Var ''project_id'', Fixed ''pm-preferences''],
      rt_handler = ''pm.update_pm_preferences'' \<rparr>,
    \<lparr> rt_method = ''GET'', rt_path = [Fixed ''api'', Fixed ''projects'', Var ''project_id'', Fixed ''sprints''],
      rt_handler = ''pm.list_sprints'' \<rparr>,
    \<lparr> rt_method = ''POST'', rt_path = [Fixed ''api'', Fixed ''projects'', Var ''project_id'', Fixed ''sprints''],
      rt_handler = ''pm.create_sprint'' \<rparr>,
    \<lparr> rt_method = ''PATCH'', rt_path = [Fixed ''api'', Fixed ''projects'', Var ''project_id'', Fixed ''sprints'', Var ''sprint_id''],
      rt_handler = ''pm.update_sprint'' \<rparr>,
    \<lparr> rt_method = ''DELETE'', rt_path = [Fixed ''api'', Fixed ''projects'', Var ''project_id'', Fixed ''sprints'', Var ''sprint_id''],
      rt_handler = ''pm.delete_sprint'' \<rparr>,
    \<lparr> rt_method = ''GET'', rt_path = [Fixed ''api'', Fixed ''projects'', Var ''project_id'', Fixed ''sprints'', Var ''sprint_id'', Fixed ''burndown''],
      rt_handler = ''pm.sprint_burndown'' \<rparr>,
    \<lparr> rt_method = ''GET'', rt_path = [Fixed ''api'', Fixed ''projects'', Var ''project_id'', Fixed ''pm-export.csv''],
      rt_handler = ''pm.export_pm_csv'' \<rparr>]"

definition knowledge_routes :: "route list" where
  "knowledge_routes = [
    \<lparr> rt_method = ''GET'', rt_path = [Fixed ''api'', Fixed ''knowledge'', Fixed ''config''],
      rt_handler = ''knowledge.knowledge_config'' \<rparr>,
    \<lparr> rt_method = ''POST'', rt_path = [Fixed ''api'', Fixed ''knowledge'', Fixed ''config'', Fixed ''test''],
      rt_handler = ''knowledge.test_knowledge_config'' \<rparr>,
    \<lparr> rt_method = ''GET'', rt_path = [Fixed ''api'', Fixed ''projects'', Var ''project_id'', Fixed ''knowledge-bases''],
      rt_handler = ''knowledge.list_kbs'' \<rparr>,
    \<lparr> rt_method = ''POST'', rt_path = [Fixed ''api'', Fixed ''projects'', Var ''project_id'', Fixed ''knowledge-bases''],
      rt_handler = ''knowledge.create_kb'' \<rparr>,
    \<lparr> rt_method = ''GET'', rt_path = [Fixed ''api'', Fixed ''projects'', Var ''project_id'', Fixed ''knowledge-bases'', Var ''kb_id''],
      rt_handler = ''knowledge.get_kb'' \<rparr>,
    \<lparr> rt_method = ''PATCH'', rt_path = [Fixed ''api'', Fixed ''projects'', Var ''project_id'', Fixed ''knowledge-bases'', Var ''kb_id''],
      rt_handler = ''knowledge.update_kb'' \<rparr>,
    \<lparr> rt_method = ''DELETE'', rt_path = [Fixed ''api'', Fixed ''projects'', Var ''project_id'', Fixed ''knowledge-bases'', Var ''kb_id''],
      rt_handler = ''knowledge.delete_kb'' \<rparr>,
    \<lparr> rt_method = ''POST'', rt_path = [Fixed ''api'', Fixed ''projects'', Var ''project_id'', Fixed ''knowledge-bases'', Var ''kb_id'', Fixed ''migrate''],
      rt_handler = ''knowledge.migrate_legacy_kb'' \<rparr>,
    \<lparr> rt_method = ''GET'', rt_path = [Fixed ''api'', Fixed ''projects'', Var ''project_id'', Fixed ''knowledge-bases'', Var ''kb_id'', Fixed ''documents''],
      rt_handler = ''knowledge.list_documents'' \<rparr>,
    \<lparr> rt_method = ''POST'', rt_path = [Fixed ''api'', Fixed ''projects'', Var ''project_id'', Fixed ''knowledge-bases'', Var ''kb_id'', Fixed ''documents''],
      rt_handler = ''knowledge.upload_document'' \<rparr>,
    \<lparr> rt_method = ''POST'', rt_path = [Fixed ''api'', Fixed ''projects'', Var ''project_id'', Fixed ''knowledge-bases'', Var ''kb_id'', Fixed ''documents'', Fixed ''url''],
      rt_handler = ''knowledge.import_url'' \<rparr>,
    \<lparr> rt_method = ''GET'', rt_path = [Fixed ''api'', Fixed ''projects'', Var ''project_id'', Fixed ''knowledge-bases'', Var ''kb_id'', Fixed ''documents'', Var ''doc_id'', Fixed ''download''],
      rt_handler = ''knowledge.download_legacy_document'' \<rparr>,
    \<lparr> rt_method = ''DELETE'', rt_path = [Fixed ''api'', Fixed ''projects'', Var ''project_id'', Fixed ''knowledge-bases'', Var ''kb_id'', Fixed ''documents'', Var ''doc_id''],
      rt_handler = ''knowledge.delete_document'' \<rparr>,
    \<lparr> rt_method = ''POST'', rt_path = [Fixed ''api'', Fixed ''projects'', Var ''project_id'', Fixed ''knowledge-search''],
      rt_handler = ''knowledge.search_project_knowledge'' \<rparr>]"

definition desktop_updates_routes :: "route list" where
  "desktop_updates_routes = [
    \<lparr> rt_method = ''GET'', rt_path = [Fixed ''api'', Fixed ''admin'', Fixed ''desktop-releases''],
      rt_handler = ''desktop_updates.releases'' \<rparr>,
    \<lparr> rt_method = ''POST'', rt_path = [Fixed ''api'', Fixed ''admin'', Fixed ''desktop-releases''],
      rt_handler = ''desktop_updates.create_release'' \<rparr>,
    \<lparr> rt_method = ''POST'', rt_path = [Fixed ''api'', Fixed ''admin'', Fixed ''desktop-releases'', Var ''release_id'', Fixed ''publish''],
      rt_handler = ''desktop_updates.publish'' \<rparr>,
    \<lparr> rt_method = ''POST'', rt_path = [Fixed ''api'', Fixed ''admin'', Fixed ''desktop-update-channels'', Var ''channel'', Fixed ''pause''],
      rt_handler = ''desktop_updates.pause'' \<rparr>,
    \<lparr> rt_method = ''POST'', rt_path = [Fixed ''api'', Fixed ''admin'', Fixed ''desktop-update-channels'', Var ''channel'', Fixed ''rollback''],
      rt_handler = ''desktop_updates.rollback'' \<rparr>,
    \<lparr> rt_method = ''GET'', rt_path = [Fixed ''api'', Fixed ''desktop-updates'', Var ''channel'', Var ''target'', Var ''arch'', Var ''current_version''],
      rt_handler = ''desktop_updates.check_update'' \<rparr>,
    \<lparr> rt_method = ''POST'', rt_path = [Fixed ''api'', Fixed ''desktop-updates'', Fixed ''events''],
      rt_handler = ''desktop_updates.record_update_event'' \<rparr>]"

definition platform_settings_routes :: "route list" where
  "platform_settings_routes = [
    \<lparr> rt_method = ''GET'', rt_path = [Fixed ''api'', Fixed ''admin'', Fixed ''settings''],
      rt_handler = ''platform_settings.get_platform_settings'' \<rparr>,
    \<lparr> rt_method = ''PUT'', rt_path = [Fixed ''api'', Fixed ''admin'', Fixed ''settings''],
      rt_handler = ''platform_settings.put_platform_settings'' \<rparr>,
    \<lparr> rt_method = ''POST'', rt_path = [Fixed ''api'', Fixed ''admin'', Fixed ''settings'', Fixed ''test''],
      rt_handler = ''platform_settings.test_platform_settings'' \<rparr>]"

definition relay_routes :: "route list" where
  "relay_routes = [
    \<lparr> rt_method = ''GET'', rt_path = [Fixed ''api'', Fixed ''integrations'', Fixed ''service-accounts''],
      rt_handler = ''relay.list_service_accounts'' \<rparr>,
    \<lparr> rt_method = ''POST'', rt_path = [Fixed ''api'', Fixed ''integrations'', Fixed ''service-accounts''],
      rt_handler = ''relay.create_service_account'' \<rparr>,
    \<lparr> rt_method = ''POST'', rt_path = [Fixed ''api'', Fixed ''integrations'', Fixed ''service-accounts'', Var ''service_id'', Fixed ''rotate''],
      rt_handler = ''relay.rotate_service_account'' \<rparr>,
    \<lparr> rt_method = ''DELETE'', rt_path = [Fixed ''api'', Fixed ''integrations'', Fixed ''service-accounts'', Var ''service_id''],
      rt_handler = ''relay.revoke_service_account'' \<rparr>,
    \<lparr> rt_method = ''POST'', rt_path = [Fixed ''api'', Fixed ''relay'', Fixed ''events''],
      rt_handler = ''relay.receive_event'' \<rparr>,
    \<lparr> rt_method = ''GET'', rt_path = [Fixed ''api'', Fixed ''relay'', Fixed ''events'', Var ''event_id''],
      rt_handler = ''relay.get_event'' \<rparr>,
    \<lparr> rt_method = ''POST'', rt_path = [Fixed ''api'', Fixed ''relay'', Fixed ''pull''],
      rt_handler = ''relay.pull_events'' \<rparr>,
    \<lparr> rt_method = ''GET'', rt_path = [Fixed ''api'', Fixed ''relay'', Fixed ''devices''],
      rt_handler = ''relay.list_devices'' \<rparr>,
    \<lparr> rt_method = ''POST'', rt_path = [Fixed ''api'', Fixed ''relay'', Fixed ''events'', Var ''event_id'', Fixed ''ack''],
      rt_handler = ''relay.acknowledge_event'' \<rparr>]"

definition server_routes :: "route list" where
  "server_routes = main_routes @ auth_routes @ project_analytics_routes @ sso_routes @
     accounts_routes @ orgs_routes @ projects_routes @ assets_routes @ business_routes @
     automation_webhooks_routes @ run_protocol_routes @ invites_routes @ catalog_routes @
     timeline_routes @ comments_routes @ notifications_routes @ work_items_routes @
     milestones_routes @ governance_routes @ project_health_routes @ pm_routes @ knowledge_routes @
     desktop_updates_routes @ platform_settings_routes @ relay_routes"

subsection \<open>Looking up a route\<close>

text \<open>
  The table is searched router by router: a router none of whose routes has the second part of
  the path is skipped, the routes of the others are compared one after the other.
\<close>

lemma look_main [route_lookup]:
  "find_route main_routes m (a # b # vs) =
     (if b = ''health''
      then find_route (opened main_routes) m (a # b # vs) else None)"
  by (rule look_router) (simp add: main_routes_def)

lemma look_auth [route_lookup]:
  "find_route auth_routes m (a # b # vs) =
     (if b = ''auth'' \<or> b = ''me''
      then find_route (opened auth_routes) m (a # b # vs) else None)"
  by (rule look_router) (simp add: auth_routes_def)

lemma look_project_analytics [route_lookup]:
  "find_route project_analytics_routes m (a # b # vs) =
     (if b = ''projects''
      then find_route (opened project_analytics_routes) m (a # b # vs) else None)"
  by (rule look_router) (simp add: project_analytics_routes_def)

lemma look_sso [route_lookup]:
  "find_route sso_routes m (a # b # vs) =
     (if b = ''auth'' \<or> b = ''admin''
      then find_route (opened sso_routes) m (a # b # vs) else None)"
  by (rule look_router) (simp add: sso_routes_def)

lemma look_accounts [route_lookup]:
  "find_route accounts_routes m (a # b # vs) =
     (if b = ''accounts''
      then find_route (opened accounts_routes) m (a # b # vs) else None)"
  by (rule look_router) (simp add: accounts_routes_def)

lemma look_orgs [route_lookup]:
  "find_route orgs_routes m (a # b # vs) =
     (if b = ''orgs''
      then find_route (opened orgs_routes) m (a # b # vs) else None)"
  by (rule look_router) (simp add: orgs_routes_def)

lemma look_projects [route_lookup]:
  "find_route projects_routes m (a # b # vs) =
     (if b = ''projects''
      then find_route (opened projects_routes) m (a # b # vs) else None)"
  by (rule look_router) (simp add: projects_routes_def)

lemma look_assets [route_lookup]:
  "find_route assets_routes m (a # b # vs) =
     (if b = ''assets''
      then find_route (opened assets_routes) m (a # b # vs) else None)"
  by (rule look_router) (simp add: assets_routes_def)

lemma look_business [route_lookup]:
  "find_route business_routes m (a # b # vs) =
     (if b = ''sessions'' \<or> b = ''runs'' \<or> b = ''turns'' \<or> b = ''assistants'' \<or> b = ''automations'' \<or> b = ''automation-fires'' \<or> b = ''assets'' \<or> b = ''business''
      then find_route (opened business_routes) m (a # b # vs) else None)"
  by (rule look_router) (simp add: business_routes_def)

lemma look_automation_webhooks [route_lookup]:
  "find_route automation_webhooks_routes m (a # b # vs) =
     (if b = ''automations'' \<or> b = ''webhooks''
      then find_route (opened automation_webhooks_routes) m (a # b # vs) else None)"
  by (rule look_router) (simp add: automation_webhooks_routes_def)

lemma look_run_protocol [route_lookup]:
  "find_route run_protocol_routes m (a # b # vs) =
     (if b = ''devices'' \<or> b = ''agent'' \<or> b = ''runs''
      then find_route (opened run_protocol_routes) m (a # b # vs) else None)"
  by (rule look_router) (simp add: run_protocol_routes_def)

lemma look_invites [route_lookup]:
  "find_route invites_routes m (a # b # vs) =
     (if b = ''projects'' \<or> b = ''invites''
      then find_route (opened invites_routes) m (a # b # vs) else None)"
  by (rule look_router) (simp add: invites_routes_def)

lemma look_catalog [route_lookup]:
  "find_route catalog_routes m (a # b # vs) =
     (if b = ''catalog''
      then find_route (opened catalog_routes) m (a # b # vs) else None)"
  by (rule look_router) (simp add: catalog_routes_def)

lemma look_timeline [route_lookup]:
  "find_route timeline_routes m (a # b # vs) =
     (if b = ''projects''
      then find_route (opened timeline_routes) m (a # b # vs) else None)"
  by (rule look_router) (simp add: timeline_routes_def)

lemma look_comments [route_lookup]:
  "find_route comments_routes m (a # b # vs) =
     (if b = ''projects''
      then find_route (opened comments_routes) m (a # b # vs) else None)"
  by (rule look_router) (simp add: comments_routes_def)

lemma look_notifications [route_lookup]:
  "find_route notifications_routes m (a # b # vs) =
     (if b = ''notifications''
      then find_route (opened notifications_routes) m (a # b # vs) else None)"
  by (rule look_router) (simp add: notifications_routes_def)

lemma look_work_items [route_lookup]:
  "find_route work_items_routes m (a # b # vs) =
     (if b = ''work-items'' \<or> b = ''projects''
      then find_route (opened work_items_routes) m (a # b # vs) else None)"
  by (rule look_router) (simp add: work_items_routes_def)

lemma look_milestones [route_lookup]:
  "find_route milestones_routes m (a # b # vs) =
     (if b = ''projects''
      then find_route (opened milestones_routes) m (a # b # vs) else None)"
  by (rule look_router) (simp add: milestones_routes_def)

lemma look_governance [route_lookup]:
  "find_route governance_routes m (a # b # vs) =
     (if b = ''projects''
      then find_route (opened governance_routes) m (a # b # vs) else None)"
  by (rule look_router) (simp add: governance_routes_def)

lemma look_project_health [route_lookup]:
  "find_route project_health_routes m (a # b # vs) =
     (if b = ''project-health'' \<or> b = ''projects''
      then find_route (opened project_health_routes) m (a # b # vs) else None)"
  by (rule look_router) (simp add: project_health_routes_def)

lemma look_pm [route_lookup]:
  "find_route pm_routes m (a # b # vs) =
     (if b = ''projects''
      then find_route (opened pm_routes) m (a # b # vs) else None)"
  by (rule look_router) (simp add: pm_routes_def)

lemma look_knowledge [route_lookup]:
  "find_route knowledge_routes m (a # b # vs) =
     (if b = ''knowledge'' \<or> b = ''projects''
      then find_route (opened knowledge_routes) m (a # b # vs) else None)"
  by (rule look_router) (simp add: knowledge_routes_def)

lemma look_desktop_updates [route_lookup]:
  "find_route desktop_updates_routes m (a # b # vs) =
     (if b = ''admin'' \<or> b = ''desktop-updates''
      then find_route (opened desktop_updates_routes) m (a # b # vs) else None)"
  by (rule look_router) (simp add: desktop_updates_routes_def)

lemma look_platform_settings [route_lookup]:
  "find_route platform_settings_routes m (a # b # vs) =
     (if b = ''admin''
      then find_route (opened platform_settings_routes) m (a # b # vs) else None)"
  by (rule look_router) (simp add: platform_settings_routes_def)

lemma look_relay [route_lookup]:
  "find_route relay_routes m (a # b # vs) =
     (if b = ''integrations'' \<or> b = ''relay''
      then find_route (opened relay_routes) m (a # b # vs) else None)"
  by (rule look_router) (simp add: relay_routes_def)

lemmas server_lookup =
  server_routes_def [THEN arg_cong, of "\<lambda>t. find_route t m vs" for m vs, unfolded find_route_append]

lemmas server_routers =
  main_routes_def auth_routes_def project_analytics_routes_def sso_routes_def
  accounts_routes_def orgs_routes_def projects_routes_def assets_routes_def business_routes_def
  automation_webhooks_routes_def run_protocol_routes_def invites_routes_def catalog_routes_def
  timeline_routes_def comments_routes_def notifications_routes_def work_items_routes_def
  milestones_routes_def governance_routes_def project_health_routes_def pm_routes_def
  knowledge_routes_def desktop_updates_routes_def platform_settings_routes_def relay_routes_def

lemmas router_lookup = server_routers [THEN arg_cong, of "\<lambda>t. find_route (opened t) m vs" for m vs]

lemma server_holder_free: "place_holder \<notin> set (reserved server_routes)"
  unfolding server_routes_def reserved_append set_append
  by (simp add: place_holder_def reserved_def server_routers)

end
