(* ===== verification/AgentRoutes.thy ===== *)
theory AgentRoutes
  imports Routes
begin

text \<open>
  The Local Agent's two tables of routes (\<open>src/backend/main.py\<close> and \<open>src/backend/routers\<close>): the
  application of a development setup, and the one the installed desktop starts, which includes
  only some of the same routers.
\<close>

definition agent_main_routes :: "route list" where
  "agent_main_routes = [
    \<lparr> rt_method = ''GET'', rt_path = [Fixed ''api'', Fixed ''health''],
      rt_handler = ''main.health'' \<rparr>]"

definition agent_auth_routes :: "route list" where
  "agent_auth_routes = [
    \<lparr> rt_method = ''POST'', rt_path = [Fixed ''api'', Fixed ''auth'', Fixed ''register''],
      rt_handler = ''auth.register'' \<rparr>,
    \<lparr> rt_method = ''POST'', rt_path = [Fixed ''api'', Fixed ''auth'', Fixed ''login''],
      rt_handler = ''auth.login'' \<rparr>,
    \<lparr> rt_method = ''GET'', rt_path = [Fixed ''api'', Fixed ''auth'', Fixed ''sso'', Fixed ''providers''],
      rt_handler = ''auth.sso_providers'' \<rparr>,
    \<lparr> rt_method = ''GET'', rt_path = [Fixed ''api'', Fixed ''auth'', Fixed ''capabilities''],
      rt_handler = ''auth.auth_capabilities'' \<rparr>,
    \<lparr> rt_method = ''POST'', rt_path = [Fixed ''api'', Fixed ''auth'', Fixed ''sso'', Fixed ''start''],
      rt_handler = ''auth.sso_start'' \<rparr>,
    \<lparr> rt_method = ''POST'', rt_path = [Fixed ''api'', Fixed ''auth'', Fixed ''sso'', Fixed ''poll''],
      rt_handler = ''auth.sso_poll'' \<rparr>,
    \<lparr> rt_method = ''POST'', rt_path = [Fixed ''api'', Fixed ''auth'', Fixed ''logout''],
      rt_handler = ''auth.logout'' \<rparr>]"

definition agent_me_routes :: "route list" where
  "agent_me_routes = [
    \<lparr> rt_method = ''GET'', rt_path = [Fixed ''api'', Fixed ''me''],
      rt_handler = ''me.get_me'' \<rparr>]"

definition agent_models_routes :: "route list" where
  "agent_models_routes = [
    \<lparr> rt_method = ''GET'', rt_path = [Fixed ''api'', Fixed ''models''],
      rt_handler = ''models.list_models'' \<rparr>,
    \<lparr> rt_method = ''GET'', rt_path = [Fixed ''api'', Fixed ''models'', Fixed ''governance''],
      rt_handler = ''models.get_model_governance'' \<rparr>,
    \<lparr> rt_method = ''PUT'', rt_path = [Fixed ''api'', Fixed ''models'', Fixed ''governance''],
      rt_handler = ''models.set_model_governance'' \<rparr>,
    \<lparr> rt_method = ''PUT'', rt_path = [Fixed ''api'', Fixed ''providers'', Var ''pid'', Fixed ''key''],
      rt_handler = ''models.set_provider_key'' \<rparr>,
    \<lparr> rt_method = ''PUT'', rt_path = [Fixed ''api'', Fixed ''models'', Fixed ''default''],
      rt_handler = ''models.set_default_model'' \<rparr>,
    \<lparr> rt_method = ''PATCH'', rt_path = [Fixed ''api'', Fixed ''providers'', Var ''pid'', Fixed ''config''],
      rt_handler = ''models.set_provider_config'' \<rparr>,
    \<lparr> rt_method = ''POST'', rt_path = [Fixed ''api'', Fixed ''providers'', Var ''pid'', Fixed ''health''],
      rt_handler = ''models.check_provider_health'' \<rparr>,
    \<lparr> rt_method = ''POST'', rt_path = [Fixed ''api'', Fixed ''providers'', Var ''pid'', Fixed ''models'', Fixed ''fetch''],
      rt_handler = ''models.fetch_provider_models'' \<rparr>,
    \<lparr> rt_method = ''POST'', rt_path = [Fixed ''api'', Fixed ''providers'', Var ''pid'', Fixed ''models''],
      rt_handler = ''models.add_provider_model'' \<rparr>,
    \<lparr> rt_method = ''POST'', rt_path = [Fixed ''api'', Fixed ''providers'', Var ''pid'', Fixed ''models'', Fixed ''hide''],
      rt_handler = ''models.hide_provider_model'' \<rparr>,
    \<lparr> rt_method = ''PUT'', rt_path = [Fixed ''api'', Fixed ''models'', Fixed ''meta''],
      rt_handler = ''models.set_model_meta'' \<rparr>,
    \<lparr> rt_method = ''POST'', rt_path = [Fixed ''api'', Fixed ''models'', Fixed ''custom''],
      rt_handler = ''models.create_custom'' \<rparr>,
    \<lparr> rt_method = ''PATCH'', rt_path = [Fixed ''api'', Fixed ''models'', Fixed ''custom'', Var ''model_id''],
      rt_handler = ''models.update_custom'' \<rparr>,
    \<lparr> rt_method = ''DELETE'', rt_path = [Fixed ''api'', Fixed ''models'', Fixed ''custom'', Var ''model_id''],
      rt_handler = ''models.delete_custom'' \<rparr>]"

definition agent_sessions_routes :: "route list" where
  "agent_sessions_routes = [
    \<lparr> rt_method = ''GET'', rt_path = [Fixed ''api'', Fixed ''sessions''],
      rt_handler = ''sessions.list_sessions'' \<rparr>,
    \<lparr> rt_method = ''POST'', rt_path = [Fixed ''api'', Fixed ''sessions''],
      rt_handler = ''sessions.create_session'' \<rparr>,
    \<lparr> rt_method = ''GET'', rt_path = [Fixed ''api'', Fixed ''sessions'', Var ''session_id'', Fixed ''messages''],
      rt_handler = ''sessions.get_messages'' \<rparr>,
    \<lparr> rt_method = ''PATCH'', rt_path = [Fixed ''api'', Fixed ''sessions'', Var ''session_id''],
      rt_handler = ''sessions.rename_session'' \<rparr>,
    \<lparr> rt_method = ''DELETE'', rt_path = [Fixed ''api'', Fixed ''sessions'', Var ''session_id''],
      rt_handler = ''sessions.delete_session'' \<rparr>]"

definition agent_runs_routes :: "route list" where
  "agent_runs_routes = [
    \<lparr> rt_method = ''GET'', rt_path = [Fixed ''api'', Fixed ''runs''],
      rt_handler = ''runs.list_runs'' \<rparr>,
    \<lparr> rt_method = ''GET'', rt_path = [Fixed ''api'', Fixed ''runs'', Var ''run_id''],
      rt_handler = ''runs.get_run'' \<rparr>,
    \<lparr> rt_method = ''POST'', rt_path = [Fixed ''api'', Fixed ''runs'', Var ''run_id'', Fixed ''plan'', Var ''plan_item_id'', Fixed ''promote''],
      rt_handler = ''runs.promote_plan_item'' \<rparr>,
    \<lparr> rt_method = ''GET'', rt_path = [Fixed ''api'', Fixed ''runs'', Var ''run_id'', Fixed ''artifacts''],
      rt_handler = ''runs.list_run_artifacts'' \<rparr>,
    \<lparr> rt_method = ''POST'', rt_path = [Fixed ''api'', Fixed ''artifacts'', Var ''artifact_id'', Fixed ''review''],
      rt_handler = ''runs.review_artifact'' \<rparr>,
    \<lparr> rt_method = ''POST'', rt_path = [Fixed ''api'', Fixed ''runs'', Var ''run_id'', Fixed ''retry''],
      rt_handler = ''runs.retry_run'' \<rparr>]"

definition agent_orchestrations_routes :: "route list" where
  "agent_orchestrations_routes = [
    \<lparr> rt_method = ''POST'', rt_path = [Fixed ''api'', Fixed ''orchestrations''],
      rt_handler = ''orchestrations.create'' \<rparr>,
    \<lparr> rt_method = ''GET'', rt_path = [Fixed ''api'', Fixed ''orchestrations''],
      rt_handler = ''orchestrations.list_orchestrations'' \<rparr>,
    \<lparr> rt_method = ''GET'', rt_path = [Fixed ''api'', Fixed ''orchestrations'', Var ''orchestration_id''],
      rt_handler = ''orchestrations.get'' \<rparr>,
    \<lparr> rt_method = ''GET'', rt_path = [Fixed ''api'', Fixed ''orchestrations'', Var ''orchestration_id'', Fixed ''events''],
      rt_handler = ''orchestrations.stream_events'' \<rparr>,
    \<lparr> rt_method = ''POST'', rt_path = [Fixed ''api'', Fixed ''orchestrations'', Var ''orchestration_id'', Fixed ''cancel''],
      rt_handler = ''orchestrations.cancel'' \<rparr>]"

definition agent_chat_routes :: "route list" where
  "agent_chat_routes = [
    \<lparr> rt_method = ''GET'', rt_path = [Fixed ''api'', Fixed ''device-runtime-status''],
      rt_handler = ''chat.device_runtime_status'' \<rparr>,
    \<lparr> rt_method = ''PUT'', rt_path = [Fixed ''api'', Fixed ''local-run-inputs''],
      rt_handler = ''chat.stage_local_run_input'' \<rparr>,
    \<lparr> rt_method = ''POST'', rt_path = [Fixed ''api'', Fixed ''chat''],
      rt_handler = ''chat.chat'' \<rparr>,
    \<lparr> rt_method = ''POST'', rt_path = [Fixed ''api'', Fixed ''chat'', Var ''session_id'', Fixed ''stop''],
      rt_handler = ''chat.stop'' \<rparr>,
    \<lparr> rt_method = ''POST'', rt_path = [Fixed ''api'', Fixed ''chat'', Var ''session_id'', Fixed ''answer''],
      rt_handler = ''chat.answer'' \<rparr>]"

definition agent_files_routes :: "route list" where
  "agent_files_routes = [
    \<lparr> rt_method = ''GET'', rt_path = [Fixed ''api'', Fixed ''files'', Fixed ''tree''],
      rt_handler = ''files.tree'' \<rparr>,
    \<lparr> rt_method = ''GET'', rt_path = [Fixed ''api'', Fixed ''files'', Fixed ''content''],
      rt_handler = ''files.content'' \<rparr>,
    \<lparr> rt_method = ''GET'', rt_path = [Fixed ''api'', Fixed ''files'', Fixed ''usage''],
      rt_handler = ''files.usage'' \<rparr>,
    \<lparr> rt_method = ''POST'', rt_path = [Fixed ''api'', Fixed ''files'', Fixed ''upload''],
      rt_handler = ''files.upload'' \<rparr>,
    \<lparr> rt_method = ''GET'', rt_path = [Fixed ''api'', Fixed ''files'', Fixed ''download''],
      rt_handler = ''files.download'' \<rparr>,
    \<lparr> rt_method = ''POST'', rt_path = [Fixed ''api'', Fixed ''files'', Fixed ''mkdir''],
      rt_handler = ''files.mkdir'' \<rparr>,
    \<lparr> rt_method = ''POST'', rt_path = [Fixed ''api'', Fixed ''files'', Fixed ''rename''],
      rt_handler = ''files.rename'' \<rparr>,
    \<lparr> rt_method = ''POST'', rt_path = [Fixed ''api'', Fixed ''files'', Fixed ''delete''],
      rt_handler = ''files.delete'' \<rparr>]"

definition agent_projects_routes :: "route list" where
  "agent_projects_routes = [
    \<lparr> rt_method = ''GET'', rt_path = [Fixed ''api'', Fixed ''projects''],
      rt_handler = ''projects.list_projects'' \<rparr>,
    \<lparr> rt_method = ''POST'', rt_path = [Fixed ''api'', Fixed ''projects''],
      rt_handler = ''projects.create_project'' \<rparr>,
    \<lparr> rt_method = ''GET'', rt_path = [Fixed ''api'', Fixed ''projects'', Var ''project_id''],
      rt_handler = ''projects.get_project'' \<rparr>,
    \<lparr> rt_method = ''PATCH'', rt_path = [Fixed ''api'', Fixed ''projects'', Var ''project_id''],
      rt_handler = ''projects.update_project'' \<rparr>,
    \<lparr> rt_method = ''GET'', rt_path = [Fixed ''api'', Fixed ''projects'', Var ''project_id'', Fixed ''sessions''],
      rt_handler = ''projects.project_sessions'' \<rparr>,
    \<lparr> rt_method = ''GET'', rt_path = [Fixed ''api'', Fixed ''projects'', Var ''project_id'', Fixed ''members''],
      rt_handler = ''projects.list_members'' \<rparr>,
    \<lparr> rt_method = ''POST'', rt_path = [Fixed ''api'', Fixed ''projects'', Var ''project_id'', Fixed ''members''],
      rt_handler = ''projects.add_member'' \<rparr>,
    \<lparr> rt_method = ''PATCH'', rt_path = [Fixed ''api'', Fixed ''projects'', Var ''project_id'', Fixed ''members'', Var ''user_id''],
      rt_handler = ''projects.update_member'' \<rparr>,
    \<lparr> rt_method = ''DELETE'', rt_path = [Fixed ''api'', Fixed ''projects'', Var ''project_id'', Fixed ''members'', Var ''user_id''],
      rt_handler = ''projects.remove_member'' \<rparr>]"

definition agent_experts_routes :: "route list" where
  "agent_experts_routes = [
    \<lparr> rt_method = ''GET'', rt_path = [Fixed ''api'', Fixed ''experts''],
      rt_handler = ''experts.list_experts'' \<rparr>,
    \<lparr> rt_method = ''POST'', rt_path = [Fixed ''api'', Fixed ''experts''],
      rt_handler = ''experts.create_expert'' \<rparr>,
    \<lparr> rt_method = ''DELETE'', rt_path = [Fixed ''api'', Fixed ''experts'', Var ''expert_id''],
      rt_handler = ''experts.delete_expert'' \<rparr>]"

definition agent_kdocs_routes :: "route list" where
  "agent_kdocs_routes = [
    \<lparr> rt_method = ''GET'', rt_path = [Fixed ''api'', Fixed ''connectors'', Fixed ''kdocs'', Fixed ''status''],
      rt_handler = ''kdocs.status'' \<rparr>,
    \<lparr> rt_method = ''POST'', rt_path = [Fixed ''api'', Fixed ''connectors'', Fixed ''kdocs'', Fixed ''connect''],
      rt_handler = ''kdocs.connect'' \<rparr>,
    \<lparr> rt_method = ''GET'', rt_path = [Fixed ''api'', Fixed ''connectors'', Fixed ''kdocs'', Fixed ''files''],
      rt_handler = ''kdocs.files'' \<rparr>,
    \<lparr> rt_method = ''GET'', rt_path = [Fixed ''api'', Fixed ''connectors'', Fixed ''kdocs'', Fixed ''folder''],
      rt_handler = ''kdocs.folder'' \<rparr>,
    \<lparr> rt_method = ''POST'', rt_path = [Fixed ''api'', Fixed ''connectors'', Fixed ''kdocs'', Fixed ''disconnect''],
      rt_handler = ''kdocs.disconnect'' \<rparr>]"

definition agent_skills_routes :: "route list" where
  "agent_skills_routes = [
    \<lparr> rt_method = ''GET'', rt_path = [Fixed ''api'', Fixed ''skill-candidates''],
      rt_handler = ''skills.list_skill_candidates'' \<rparr>,
    \<lparr> rt_method = ''POST'', rt_path = [Fixed ''api'', Fixed ''skill-candidates''],
      rt_handler = ''skills.create_skill_candidate'' \<rparr>,
    \<lparr> rt_method = ''GET'', rt_path = [Fixed ''api'', Fixed ''skill-candidates'', Var ''candidate_id''],
      rt_handler = ''skills.get_skill_candidate'' \<rparr>,
    \<lparr> rt_method = ''POST'', rt_path = [Fixed ''api'', Fixed ''skill-candidates'', Var ''candidate_id'', Fixed ''test''],
      rt_handler = ''skills.test_skill_candidate'' \<rparr>,
    \<lparr> rt_method = ''POST'', rt_path = [Fixed ''api'', Fixed ''skill-candidates'', Var ''candidate_id'', Fixed ''approve''],
      rt_handler = ''skills.approve_skill_candidate'' \<rparr>,
    \<lparr> rt_method = ''POST'', rt_path = [Fixed ''api'', Fixed ''skill-candidates'', Var ''candidate_id'', Fixed ''reject''],
      rt_handler = ''skills.reject_skill_candidate'' \<rparr>,
    \<lparr> rt_method = ''POST'', rt_path = [Fixed ''api'', Fixed ''skill-candidates'', Var ''candidate_id'', Fixed ''install''],
      rt_handler = ''skills.install_skill_candidate'' \<rparr>,
    \<lparr> rt_method = ''POST'', rt_path = [Fixed ''api'', Fixed ''skill-candidates'', Var ''candidate_id'', Fixed ''rollback''],
      rt_handler = ''skills.rollback_skill_candidate'' \<rparr>,
    \<lparr> rt_method = ''GET'', rt_path = [Fixed ''api'', Fixed ''skill-candidates'', Var ''candidate_id'', Fixed ''platform-release-payload''],
      rt_handler = ''skills.skill_candidate_platform_payload'' \<rparr>,
    \<lparr> rt_method = ''GET'', rt_path = [Fixed ''api'', Fixed ''skills''],
      rt_handler = ''skills.list_installed'' \<rparr>,
    \<lparr> rt_method = ''GET'', rt_path = [Fixed ''api'', Fixed ''skill-bundles''],
      rt_handler = ''skills.list_skill_bundles'' \<rparr>,
    \<lparr> rt_method = ''POST'', rt_path = [Fixed ''api'', Fixed ''skill-bundles''],
      rt_handler = ''skills.create_skill_bundle'' \<rparr>,
    \<lparr> rt_method = ''PUT'', rt_path = [Fixed ''api'', Fixed ''skill-bundles'', Var ''bundle_id''],
      rt_handler = ''skills.update_skill_bundle'' \<rparr>,
    \<lparr> rt_method = ''DELETE'', rt_path = [Fixed ''api'', Fixed ''skill-bundles'', Var ''bundle_id''],
      rt_handler = ''skills.delete_skill_bundle'' \<rparr>,
    \<lparr> rt_method = ''POST'', rt_path = [Fixed ''api'', Fixed ''skill-bundles'', Var ''bundle_id'', Fixed ''resolve''],
      rt_handler = ''skills.resolve_skill_bundle'' \<rparr>,
    \<lparr> rt_method = ''GET'', rt_path = [Fixed ''api'', Fixed ''skill-usage''],
      rt_handler = ''skills.skill_usage_summary'' \<rparr>,
    \<lparr> rt_method = ''GET'', rt_path = [Fixed ''api'', Fixed ''skill-governance''],
      rt_handler = ''skills.skill_governance_suggestions'' \<rparr>,
    \<lparr> rt_method = ''POST'', rt_path = [Fixed ''api'', Fixed ''skill-governance'', Var ''suggestion_id'', Fixed ''ignore''],
      rt_handler = ''skills.ignore_skill_governance_suggestion'' \<rparr>,
    \<lparr> rt_method = ''POST'', rt_path = [Fixed ''api'', Fixed ''skills'', Var ''key'', Fixed ''rating''],
      rt_handler = ''skills.rate_skill'' \<rparr>,
    \<lparr> rt_method = ''GET'', rt_path = [Fixed ''api'', Fixed ''skills'', Fixed ''builtin''],
      rt_handler = ''skills.list_builtin'' \<rparr>,
    \<lparr> rt_method = ''GET'', rt_path = [Fixed ''api'', Fixed ''skills'', Fixed ''search''],
      rt_handler = ''skills.search_skills'' \<rparr>,
    \<lparr> rt_method = ''GET'', rt_path = [Fixed ''api'', Fixed ''skills'', Fixed ''rankings''],
      rt_handler = ''skills.skills_rankings'' \<rparr>,
    \<lparr> rt_method = ''GET'', rt_path = [Fixed ''api'', Fixed ''skills'', Fixed ''catalog'', Var ''key''],
      rt_handler = ''skills.catalog_skill_detail'' \<rparr>,
    \<lparr> rt_method = ''POST'', rt_path = [Fixed ''api'', Fixed ''skills'', Fixed ''catalog'', Var ''key'', Fixed ''install''],
      rt_handler = ''skills.install_catalog_skill'' \<rparr>,
    \<lparr> rt_method = ''POST'', rt_path = [Fixed ''api'', Fixed ''skills'', Fixed ''catalog'', Var ''key'', Fixed ''upgrade''],
      rt_handler = ''skills.upgrade_catalog_skill'' \<rparr>,
    \<lparr> rt_method = ''GET'', rt_path = [Fixed ''api'', Fixed ''skills'', Var ''key''],
      rt_handler = ''skills.get_detail'' \<rparr>,
    \<lparr> rt_method = ''PATCH'', rt_path = [Fixed ''api'', Fixed ''skills'', Var ''key''],
      rt_handler = ''skills.update_skill'' \<rparr>,
    \<lparr> rt_method = ''POST'', rt_path = [Fixed ''api'', Fixed ''skills'', Fixed ''install''],
      rt_handler = ''skills.install_skill'' \<rparr>,
    \<lparr> rt_method = ''POST'', rt_path = [Fixed ''api'', Fixed ''skills'', Fixed ''import''],
      rt_handler = ''skills.import_skill'' \<rparr>,
    \<lparr> rt_method = ''POST'', rt_path = [Fixed ''api'', Fixed ''skills'', Fixed ''import-directory''],
      rt_handler = ''skills.import_skill_directory'' \<rparr>,
    \<lparr> rt_method = ''POST'', rt_path = [Fixed ''api'', Fixed ''skills'', Var ''key'', Fixed ''uninstall''],
      rt_handler = ''skills.uninstall_skill'' \<rparr>,
    \<lparr> rt_method = ''POST'', rt_path = [Fixed ''api'', Fixed ''skills'', Var ''key'', Fixed ''restore''],
      rt_handler = ''skills.restore_skill'' \<rparr>,
    \<lparr> rt_method = ''POST'', rt_path = [Fixed ''api'', Fixed ''skills'', Var ''key'', Fixed ''toggle''],
      rt_handler = ''skills.toggle_skill'' \<rparr>,
    \<lparr> rt_method = ''POST'', rt_path = [Fixed ''api'', Fixed ''skills'', Var ''key'', Fixed ''reveal''],
      rt_handler = ''skills.reveal_skill'' \<rparr>]"

definition agent_work_items_routes :: "route list" where
  "agent_work_items_routes = [
    \<lparr> rt_method = ''GET'', rt_path = [Fixed ''api'', Fixed ''work-items''],
      rt_handler = ''work_items.list_items'' \<rparr>,
    \<lparr> rt_method = ''POST'', rt_path = [Fixed ''api'', Fixed ''work-items''],
      rt_handler = ''work_items.create_item'' \<rparr>,
    \<lparr> rt_method = ''PATCH'', rt_path = [Fixed ''api'', Fixed ''work-items'', Var ''item_id''],
      rt_handler = ''work_items.update_item'' \<rparr>,
    \<lparr> rt_method = ''DELETE'', rt_path = [Fixed ''api'', Fixed ''work-items'', Var ''item_id''],
      rt_handler = ''work_items.delete_item'' \<rparr>,
    \<lparr> rt_method = ''GET'', rt_path = [Fixed ''api'', Fixed ''work-items'', Var ''item_id'', Fixed ''delivery''],
      rt_handler = ''work_items.get_item_delivery'' \<rparr>,
    \<lparr> rt_method = ''POST'', rt_path = [Fixed ''api'', Fixed ''work-items'', Var ''item_id'', Fixed ''execute''],
      rt_handler = ''work_items.execute_item'' \<rparr>,
    \<lparr> rt_method = ''POST'', rt_path = [Fixed ''api'', Fixed ''work-items'', Var ''item_id'', Fixed ''accept''],
      rt_handler = ''work_items.accept_item_delivery'' \<rparr>]"

definition agent_milestones_routes :: "route list" where
  "agent_milestones_routes = [
    \<lparr> rt_method = ''GET'', rt_path = [Fixed ''api'', Fixed ''milestones''],
      rt_handler = ''milestones.list_items'' \<rparr>,
    \<lparr> rt_method = ''POST'', rt_path = [Fixed ''api'', Fixed ''milestones''],
      rt_handler = ''milestones.create_item'' \<rparr>,
    \<lparr> rt_method = ''PATCH'', rt_path = [Fixed ''api'', Fixed ''milestones'', Var ''mid''],
      rt_handler = ''milestones.update_item'' \<rparr>,
    \<lparr> rt_method = ''DELETE'', rt_path = [Fixed ''api'', Fixed ''milestones'', Var ''mid''],
      rt_handler = ''milestones.delete_item'' \<rparr>]"

definition agent_governance_routes :: "route list" where
  "agent_governance_routes = [
    \<lparr> rt_method = ''GET'', rt_path = [Fixed ''api'', Fixed ''governance''],
      rt_handler = ''governance.list_records'' \<rparr>,
    \<lparr> rt_method = ''POST'', rt_path = [Fixed ''api'', Fixed ''governance''],
      rt_handler = ''governance.create_record'' \<rparr>,
    \<lparr> rt_method = ''PATCH'', rt_path = [Fixed ''api'', Fixed ''governance'', Var ''record_id''],
      rt_handler = ''governance.update_record'' \<rparr>,
    \<lparr> rt_method = ''DELETE'', rt_path = [Fixed ''api'', Fixed ''governance'', Var ''record_id''],
      rt_handler = ''governance.delete_record'' \<rparr>]"

definition agent_project_health_routes :: "route list" where
  "agent_project_health_routes = [
    \<lparr> rt_method = ''GET'', rt_path = [Fixed ''api'', Fixed ''project-health''],
      rt_handler = ''project_health.project_health'' \<rparr>,
    \<lparr> rt_method = ''GET'', rt_path = [Fixed ''api'', Fixed ''project-health'', Fixed ''portfolio''],
      rt_handler = ''project_health.project_health_portfolio'' \<rparr>,
    \<lparr> rt_method = ''GET'', rt_path = [Fixed ''api'', Fixed ''project-health'', Fixed ''events''],
      rt_handler = ''project_health.project_health_events'' \<rparr>]"

definition agent_automations_routes :: "route list" where
  "agent_automations_routes = [
    \<lparr> rt_method = ''GET'', rt_path = [Fixed ''api'', Fixed ''automations''],
      rt_handler = ''automations.list_automations'' \<rparr>,
    \<lparr> rt_method = ''POST'', rt_path = [Fixed ''api'', Fixed ''automations''],
      rt_handler = ''automations.create_automation'' \<rparr>,
    \<lparr> rt_method = ''PATCH'', rt_path = [Fixed ''api'', Fixed ''automations'', Var ''auto_id''],
      rt_handler = ''automations.update_automation'' \<rparr>,
    \<lparr> rt_method = ''DELETE'', rt_path = [Fixed ''api'', Fixed ''automations'', Var ''auto_id''],
      rt_handler = ''automations.delete_automation'' \<rparr>,
    \<lparr> rt_method = ''POST'', rt_path = [Fixed ''api'', Fixed ''automations'', Var ''auto_id'', Fixed ''run''],
      rt_handler = ''automations.run_automation'' \<rparr>,
    \<lparr> rt_method = ''GET'', rt_path = [Fixed ''api'', Fixed ''automations'', Var ''auto_id'', Fixed ''webhook''],
      rt_handler = ''automations.get_automation_webhook'' \<rparr>,
    \<lparr> rt_method = ''POST'', rt_path = [Fixed ''api'', Fixed ''automations'', Var ''auto_id'', Fixed ''webhook''],
      rt_handler = ''automations.create_automation_webhook'' \<rparr>,
    \<lparr> rt_method = ''POST'', rt_path = [Fixed ''api'', Fixed ''automations'', Var ''auto_id'', Fixed ''webhook'', Fixed ''rotate''],
      rt_handler = ''automations.rotate_automation_webhook'' \<rparr>,
    \<lparr> rt_method = ''DELETE'', rt_path = [Fixed ''api'', Fixed ''automations'', Var ''auto_id'', Fixed ''webhook''],
      rt_handler = ''automations.delete_automation_webhook'' \<rparr>,
    \<lparr> rt_method = ''POST'', rt_path = [Fixed ''api'', Fixed ''webhooks'', Fixed ''automations'', Var ''webhook_id''],
      rt_handler = ''automations.receive_automation_webhook'' \<rparr>,
    \<lparr> rt_method = ''GET'', rt_path = [Fixed ''api'', Fixed ''automation-fires''],
      rt_handler = ''automations.list_automation_fires'' \<rparr>,
    \<lparr> rt_method = ''POST'', rt_path = [Fixed ''api'', Fixed ''automation-fires'', Var ''fire_id'', Fixed ''replay''],
      rt_handler = ''automations.replay_automation_fire'' \<rparr>,
    \<lparr> rt_method = ''POST'', rt_path = [Fixed ''api'', Fixed ''automation-fires'', Var ''fire_id'', Fixed ''ignore''],
      rt_handler = ''automations.ignore_automation_fire'' \<rparr>,
    \<lparr> rt_method = ''GET'', rt_path = [Fixed ''api'', Fixed ''automations'', Var ''auto_id'', Fixed ''runs''],
      rt_handler = ''automations.list_automation_runs'' \<rparr>,
    \<lparr> rt_method = ''GET'', rt_path = [Fixed ''api'', Fixed ''automation-runs''],
      rt_handler = ''automations.list_all_automation_runs'' \<rparr>]"

definition agent_notifications_routes :: "route list" where
  "agent_notifications_routes = [
    \<lparr> rt_method = ''GET'', rt_path = [Fixed ''api'', Fixed ''notifications''],
      rt_handler = ''notifications.list_notifications'' \<rparr>,
    \<lparr> rt_method = ''POST'', rt_path = [Fixed ''api'', Fixed ''notifications'', Fixed ''read''],
      rt_handler = ''notifications.mark_read'' \<rparr>]"

definition agent_ops_routes :: "route list" where
  "agent_ops_routes = [
    \<lparr> rt_method = ''GET'', rt_path = [Fixed ''api'', Fixed ''ops'', Fixed ''background-health''],
      rt_handler = ''ops.background_health'' \<rparr>,
    \<lparr> rt_method = ''GET'', rt_path = [Fixed ''api'', Fixed ''ops'', Fixed ''summary''],
      rt_handler = ''ops.ops_summary'' \<rparr>]"

definition agent_catalog_routes :: "route list" where
  "agent_catalog_routes = [
    \<lparr> rt_method = ''GET'', rt_path = [Fixed ''api'', Fixed ''catalog''],
      rt_handler = ''catalog.get_catalog'' \<rparr>,
    \<lparr> rt_method = ''GET'', rt_path = [Fixed ''api'', Fixed ''catalog'', Fixed ''inspiration-favorites''],
      rt_handler = ''catalog.get_inspiration_favorites'' \<rparr>,
    \<lparr> rt_method = ''PUT'', rt_path = [Fixed ''api'', Fixed ''catalog'', Fixed ''inspiration-favorites'', Var ''template_id''],
      rt_handler = ''catalog.put_inspiration_favorite'' \<rparr>]"

definition agent_channels_routes :: "route list" where
  "agent_channels_routes = [
    \<lparr> rt_method = ''GET'', rt_path = [Fixed ''api'', Fixed ''channels'', Fixed ''types''],
      rt_handler = ''channels.channel_types'' \<rparr>,
    \<lparr> rt_method = ''GET'', rt_path = [Fixed ''api'', Fixed ''assistants''],
      rt_handler = ''channels.list_assistants'' \<rparr>,
    \<lparr> rt_method = ''POST'', rt_path = [Fixed ''api'', Fixed ''assistants''],
      rt_handler = ''channels.create_assistant'' \<rparr>,
    \<lparr> rt_method = ''GET'', rt_path = [Fixed ''api'', Fixed ''assistants'', Var ''assistant_id''],
      rt_handler = ''channels.get_assistant'' \<rparr>,
    \<lparr> rt_method = ''PATCH'', rt_path = [Fixed ''api'', Fixed ''assistants'', Var ''assistant_id''],
      rt_handler = ''channels.update_assistant'' \<rparr>,
    \<lparr> rt_method = ''DELETE'', rt_path = [Fixed ''api'', Fixed ''assistants'', Var ''assistant_id''],
      rt_handler = ''channels.delete_assistant'' \<rparr>,
    \<lparr> rt_method = ''POST'', rt_path = [Fixed ''api'', Fixed ''assistants'', Var ''assistant_id'', Fixed ''say''],
      rt_handler = ''channels.assistant_say'' \<rparr>,
    \<lparr> rt_method = ''POST'', rt_path = [Fixed ''api'', Fixed ''assistants'', Var ''assistant_id'', Fixed ''channels''],
      rt_handler = ''channels.add_channel'' \<rparr>,
    \<lparr> rt_method = ''PATCH'', rt_path = [Fixed ''api'', Fixed ''assistants'', Var ''assistant_id'', Fixed ''channels'', Var ''channel_id''],
      rt_handler = ''channels.update_channel'' \<rparr>,
    \<lparr> rt_method = ''DELETE'', rt_path = [Fixed ''api'', Fixed ''assistants'', Var ''assistant_id'', Fixed ''channels'', Var ''channel_id''],
      rt_handler = ''channels.delete_channel'' \<rparr>,
    \<lparr> rt_method = ''POST'', rt_path = [Fixed ''api'', Fixed ''assistants'', Var ''assistant_id'', Fixed ''channels'', Var ''channel_id'', Fixed ''unbind''],
      rt_handler = ''channels.unbind_channel'' \<rparr>]"

definition agent_asr_routes :: "route list" where
  "agent_asr_routes = [
    \<lparr> rt_method = ''GET'', rt_path = [Fixed ''api'', Fixed ''asr'', Fixed ''status''],
      rt_handler = ''asr.status'' \<rparr>,
    \<lparr> rt_method = ''POST'', rt_path = [Fixed ''api'', Fixed ''asr'', Fixed ''transcribe''],
      rt_handler = ''asr.transcribe'' \<rparr>]"

definition agent_knowledge_routes :: "route list" where
  "agent_knowledge_routes = [
    \<lparr> rt_method = ''GET'', rt_path = [Fixed ''api'', Fixed ''knowledge'', Fixed ''config''],
      rt_handler = ''knowledge.get_config'' \<rparr>,
    \<lparr> rt_method = ''PUT'', rt_path = [Fixed ''api'', Fixed ''knowledge'', Fixed ''config''],
      rt_handler = ''knowledge.put_config'' \<rparr>,
    \<lparr> rt_method = ''POST'', rt_path = [Fixed ''api'', Fixed ''knowledge'', Fixed ''config'', Fixed ''test''],
      rt_handler = ''knowledge.test_config'' \<rparr>,
    \<lparr> rt_method = ''GET'', rt_path = [Fixed ''api'', Fixed ''knowledge''],
      rt_handler = ''knowledge.list_kb'' \<rparr>,
    \<lparr> rt_method = ''POST'', rt_path = [Fixed ''api'', Fixed ''knowledge''],
      rt_handler = ''knowledge.create_kb'' \<rparr>,
    \<lparr> rt_method = ''GET'', rt_path = [Fixed ''api'', Fixed ''knowledge'', Var ''kb_id''],
      rt_handler = ''knowledge.get_kb'' \<rparr>,
    \<lparr> rt_method = ''PATCH'', rt_path = [Fixed ''api'', Fixed ''knowledge'', Var ''kb_id''],
      rt_handler = ''knowledge.update_kb'' \<rparr>,
    \<lparr> rt_method = ''DELETE'', rt_path = [Fixed ''api'', Fixed ''knowledge'', Var ''kb_id''],
      rt_handler = ''knowledge.delete_kb'' \<rparr>,
    \<lparr> rt_method = ''GET'', rt_path = [Fixed ''api'', Fixed ''knowledge'', Var ''kb_id'', Fixed ''documents''],
      rt_handler = ''knowledge.list_docs'' \<rparr>,
    \<lparr> rt_method = ''POST'', rt_path = [Fixed ''api'', Fixed ''knowledge'', Var ''kb_id'', Fixed ''documents''],
      rt_handler = ''knowledge.upload_document'' \<rparr>,
    \<lparr> rt_method = ''DELETE'', rt_path = [Fixed ''api'', Fixed ''knowledge'', Fixed ''documents'', Var ''doc_id''],
      rt_handler = ''knowledge.delete_document'' \<rparr>,
    \<lparr> rt_method = ''POST'', rt_path = [Fixed ''api'', Fixed ''knowledge'', Fixed ''retrieve''],
      rt_handler = ''knowledge.retrieve'' \<rparr>]"

definition agent_local_connectors_routes :: "route list" where
  "agent_local_connectors_routes = [
    \<lparr> rt_method = ''GET'', rt_path = [Fixed ''api'', Fixed ''connectors'', Fixed ''local''],
      rt_handler = ''local_connectors.list_local_connectors'' \<rparr>,
    \<lparr> rt_method = ''POST'', rt_path = [Fixed ''api'', Fixed ''connectors'', Fixed ''local''],
      rt_handler = ''local_connectors.create_local_connector'' \<rparr>,
    \<lparr> rt_method = ''PUT'', rt_path = [Fixed ''api'', Fixed ''connectors'', Fixed ''local'', Var ''instance_id''],
      rt_handler = ''local_connectors.update_local_connector'' \<rparr>,
    \<lparr> rt_method = ''POST'', rt_path = [Fixed ''api'', Fixed ''connectors'', Fixed ''local'', Var ''instance_id'', Fixed ''enabled''],
      rt_handler = ''local_connectors.set_local_connector_enabled'' \<rparr>,
    \<lparr> rt_method = ''POST'', rt_path = [Fixed ''api'', Fixed ''connectors'', Fixed ''local'', Var ''instance_id'', Fixed ''test''],
      rt_handler = ''local_connectors.test_local_connector'' \<rparr>,
    \<lparr> rt_method = ''POST'', rt_path = [Fixed ''api'', Fixed ''connectors'', Fixed ''local'', Fixed ''test-by-name''],
      rt_handler = ''local_connectors.test_connector_by_name'' \<rparr>,
    \<lparr> rt_method = ''PUT'', rt_path = [Fixed ''api'', Fixed ''connectors'', Fixed ''local'', Fixed ''builtins'', Var ''name'', Fixed ''credentials''],
      rt_handler = ''local_connectors.set_builtin_credentials'' \<rparr>,
    \<lparr> rt_method = ''DELETE'', rt_path = [Fixed ''api'', Fixed ''connectors'', Fixed ''local'', Var ''instance_id''],
      rt_handler = ''local_connectors.delete_local_connector'' \<rparr>]"

definition agent_prefs_routes :: "route list" where
  "agent_prefs_routes = [
    \<lparr> rt_method = ''GET'', rt_path = [Fixed ''api'', Fixed ''settings''],
      rt_handler = ''prefs.get_settings'' \<rparr>,
    \<lparr> rt_method = ''PUT'', rt_path = [Fixed ''api'', Fixed ''settings''],
      rt_handler = ''prefs.put_settings'' \<rparr>,
    \<lparr> rt_method = ''GET'', rt_path = [Fixed ''api'', Fixed ''settings'', Fixed ''agent''],
      rt_handler = ''prefs.get_agent_settings'' \<rparr>,
    \<lparr> rt_method = ''PUT'', rt_path = [Fixed ''api'', Fixed ''settings'', Fixed ''agent''],
      rt_handler = ''prefs.put_agent_settings'' \<rparr>,
    \<lparr> rt_method = ''GET'', rt_path = [Fixed ''api'', Fixed ''settings'', Fixed ''system''],
      rt_handler = ''prefs.get_system_settings'' \<rparr>,
    \<lparr> rt_method = ''PUT'', rt_path = [Fixed ''api'', Fixed ''settings'', Fixed ''system''],
      rt_handler = ''prefs.put_system_settings'' \<rparr>]"

definition agent_device_settings_routes :: "route list" where
  "agent_device_settings_routes = [
    \<lparr> rt_method = ''GET'', rt_path = [Fixed ''api'', Fixed ''settings'', Fixed ''runtime''],
      rt_handler = ''device_settings.get_runtime_settings'' \<rparr>,
    \<lparr> rt_method = ''PUT'', rt_path = [Fixed ''api'', Fixed ''settings'', Fixed ''runtime''],
      rt_handler = ''device_settings.put_runtime_settings'' \<rparr>,
    \<lparr> rt_method = ''POST'', rt_path = [Fixed ''api'', Fixed ''settings'', Fixed ''runtime'', Fixed ''test''],
      rt_handler = ''device_settings.test_runtime_settings'' \<rparr>]"

definition agent_device_diagnostics_routes :: "route list" where
  "agent_device_diagnostics_routes = [
    \<lparr> rt_method = ''GET'', rt_path = [Fixed ''api'', Fixed ''device-diagnostics''],
      rt_handler = ''device_diagnostics.diagnostics'' \<rparr>,
    \<lparr> rt_method = ''POST'', rt_path = [Fixed ''api'', Fixed ''device-diagnostics'', Fixed ''actions''],
      rt_handler = ''device_diagnostics.diagnostic_action'' \<rparr>]"

definition agent_memory_routes :: "route list" where
  "agent_memory_routes = [
    \<lparr> rt_method = ''GET'', rt_path = [Fixed ''api'', Fixed ''memory''],
      rt_handler = ''memory.get_memory'' \<rparr>,
    \<lparr> rt_method = ''GET'', rt_path = [Fixed ''api'', Fixed ''memory'', Fixed ''stats''],
      rt_handler = ''memory.stats'' \<rparr>,
    \<lparr> rt_method = ''POST'', rt_path = [Fixed ''api'', Fixed ''memory'', Fixed ''search''],
      rt_handler = ''memory.search'' \<rparr>,
    \<lparr> rt_method = ''GET'', rt_path = [Fixed ''api'', Fixed ''memory'', Fixed ''decaying''],
      rt_handler = ''memory.decaying'' \<rparr>,
    \<lparr> rt_method = ''POST'', rt_path = [Fixed ''api'', Fixed ''memory''],
      rt_handler = ''memory.add'' \<rparr>,
    \<lparr> rt_method = ''POST'', rt_path = [Fixed ''api'', Fixed ''memory'', Fixed ''clear''],
      rt_handler = ''memory.clear'' \<rparr>,
    \<lparr> rt_method = ''PUT'', rt_path = [Fixed ''api'', Fixed ''memory'', Fixed ''enabled''],
      rt_handler = ''memory.set_enabled'' \<rparr>,
    \<lparr> rt_method = ''PUT'', rt_path = [Fixed ''api'', Fixed ''memory'', Fixed ''embed-backend''],
      rt_handler = ''memory.set_embed_backend'' \<rparr>,
    \<lparr> rt_method = ''GET'', rt_path = [Fixed ''api'', Fixed ''memory'', Fixed ''workspace''],
      rt_handler = ''memory.get_workspace_memory'' \<rparr>,
    \<lparr> rt_method = ''PUT'', rt_path = [Fixed ''api'', Fixed ''memory'', Fixed ''workspace''],
      rt_handler = ''memory.put_workspace_memory'' \<rparr>,
    \<lparr> rt_method = ''GET'', rt_path = [Fixed ''api'', Fixed ''memory'', Var ''mem_id''],
      rt_handler = ''memory.detail'' \<rparr>,
    \<lparr> rt_method = ''PUT'', rt_path = [Fixed ''api'', Fixed ''memory'', Var ''mem_id''],
      rt_handler = ''memory.edit'' \<rparr>,
    \<lparr> rt_method = ''PATCH'', rt_path = [Fixed ''api'', Fixed ''memory'', Var ''mem_id'', Fixed ''importance''],
      rt_handler = ''memory.set_importance'' \<rparr>,
    \<lparr> rt_method = ''POST'', rt_path = [Fixed ''api'', Fixed ''memory'', Var ''mem_id'', Fixed ''archive''],
      rt_handler = ''memory.archive'' \<rparr>,
    \<lparr> rt_method = ''POST'', rt_path = [Fixed ''api'', Fixed ''memory'', Var ''mem_id'', Fixed ''rollback''],
      rt_handler = ''memory.rollback'' \<rparr>,
    \<lparr> rt_method = ''DELETE'', rt_path = [Fixed ''api'', Fixed ''memory'', Var ''mem_id''],
      rt_handler = ''memory.remove'' \<rparr>]"

definition agent_ideas_routes :: "route list" where
  "agent_ideas_routes = [
    \<lparr> rt_method = ''GET'', rt_path = [Fixed ''api'', Fixed ''ideas''],
      rt_handler = ''ideas.list_ideas'' \<rparr>,
    \<lparr> rt_method = ''POST'', rt_path = [Fixed ''api'', Fixed ''ideas''],
      rt_handler = ''ideas.create_idea'' \<rparr>,
    \<lparr> rt_method = ''GET'', rt_path = [Fixed ''api'', Fixed ''ideas'', Var ''idea_id''],
      rt_handler = ''ideas.get_idea'' \<rparr>,
    \<lparr> rt_method = ''PATCH'', rt_path = [Fixed ''api'', Fixed ''ideas'', Var ''idea_id''],
      rt_handler = ''ideas.update_idea'' \<rparr>,
    \<lparr> rt_method = ''POST'', rt_path = [Fixed ''api'', Fixed ''ideas'', Var ''idea_id'', Fixed ''relations''],
      rt_handler = ''ideas.add_relation'' \<rparr>,
    \<lparr> rt_method = ''DELETE'', rt_path = [Fixed ''api'', Fixed ''ideas'', Var ''idea_id'', Fixed ''relations'', Var ''target_idea_id'', Var ''relation''],
      rt_handler = ''ideas.remove_relation'' \<rparr>,
    \<lparr> rt_method = ''POST'', rt_path = [Fixed ''api'', Fixed ''ideas'', Var ''idea_id'', Fixed ''apply-processing''],
      rt_handler = ''ideas.apply_processing'' \<rparr>,
    \<lparr> rt_method = ''GET'', rt_path = [Fixed ''api'', Fixed ''ideas'', Var ''idea_id'', Fixed ''memory-preview''],
      rt_handler = ''ideas.memory_preview'' \<rparr>,
    \<lparr> rt_method = ''POST'', rt_path = [Fixed ''api'', Fixed ''ideas'', Var ''idea_id'', Fixed ''settle''],
      rt_handler = ''ideas.settle_idea'' \<rparr>]"

definition agent_data_routes :: "route list" where
  "agent_data_routes = [
    \<lparr> rt_method = ''GET'', rt_path = [Fixed ''api'', Fixed ''data'', Fixed ''summary''],
      rt_handler = ''data.summary'' \<rparr>,
    \<lparr> rt_method = ''GET'', rt_path = [Fixed ''api'', Fixed ''data'', Fixed ''export''],
      rt_handler = ''data.export'' \<rparr>,
    \<lparr> rt_method = ''POST'', rt_path = [Fixed ''api'', Fixed ''data'', Fixed ''clear-conversations''],
      rt_handler = ''data.clear_conversations'' \<rparr>]"

definition agent_security_routes :: "route list" where
  "agent_security_routes = [
    \<lparr> rt_method = ''GET'', rt_path = [Fixed ''api'', Fixed ''security'', Fixed ''policy''],
      rt_handler = ''security.get_policy'' \<rparr>,
    \<lparr> rt_method = ''PUT'', rt_path = [Fixed ''api'', Fixed ''security'', Fixed ''policy''],
      rt_handler = ''security.put_policy'' \<rparr>,
    \<lparr> rt_method = ''GET'', rt_path = [Fixed ''api'', Fixed ''security'', Fixed ''audit''],
      rt_handler = ''security.get_audit'' \<rparr>,
    \<lparr> rt_method = ''POST'', rt_path = [Fixed ''api'', Fixed ''security'', Fixed ''audit'', Fixed ''clear''],
      rt_handler = ''security.clear_audit'' \<rparr>]"

definition agent_local_agent_core_routes :: "route list" where
  "agent_local_agent_core_routes = [
    \<lparr> rt_method = ''GET'', rt_path = [Fixed ''api'', Fixed ''local-agent'', Fixed ''health''],
      rt_handler = ''local_agent_core.health'' \<rparr>,
    \<lparr> rt_method = ''GET'', rt_path = [Fixed ''api'', Fixed ''local-agent'', Fixed ''status''],
      rt_handler = ''local_agent_core.status'' \<rparr>,
    \<lparr> rt_method = ''PUT'', rt_path = [Fixed ''api'', Fixed ''local-agent'', Fixed ''identity''],
      rt_handler = ''local_agent_core.bind_identity'' \<rparr>,
    \<lparr> rt_method = ''DELETE'', rt_path = [Fixed ''api'', Fixed ''local-agent'', Fixed ''identity''],
      rt_handler = ''local_agent_core.remove_identity'' \<rparr>,
    \<lparr> rt_method = ''PUT'', rt_path = [Fixed ''api'', Fixed ''local-agent'', Fixed ''run-inputs''],
      rt_handler = ''local_agent_core.stage_run_input'' \<rparr>,
    \<lparr> rt_method = ''POST'', rt_path = [Fixed ''api'', Fixed ''local-agent'', Fixed ''runs'', Fixed ''claim''],
      rt_handler = ''local_agent_core.claim_run'' \<rparr>,
    \<lparr> rt_method = ''POST'', rt_path = [Fixed ''api'', Fixed ''local-agent'', Fixed ''runs'', Var ''run_id'', Fixed ''events''],
      rt_handler = ''local_agent_core.append_run_event'' \<rparr>,
    \<lparr> rt_method = ''POST'', rt_path = [Fixed ''api'', Fixed ''local-agent'', Fixed ''runs'', Var ''run_id'', Fixed ''renew''],
      rt_handler = ''local_agent_core.renew_run'' \<rparr>,
    \<lparr> rt_method = ''POST'', rt_path = [Fixed ''api'', Fixed ''local-agent'', Fixed ''runs'', Fixed ''flush''],
      rt_handler = ''local_agent_core.flush_runs'' \<rparr>,
    \<lparr> rt_method = ''POST'', rt_path = [Fixed ''api'', Fixed ''local-agent'', Fixed ''assets'', Fixed ''commit''],
      rt_handler = ''local_agent_core.commit_asset'' \<rparr>,
    \<lparr> rt_method = ''POST'', rt_path = [Fixed ''api'', Fixed ''local-agent'', Fixed ''assets'', Var ''asset_id'', Fixed ''download''],
      rt_handler = ''local_agent_core.download_asset'' \<rparr>,
    \<lparr> rt_method = ''GET'', rt_path = [Fixed ''api'', Fixed ''local-agent'', Fixed ''assets'', Fixed ''working-copies''],
      rt_handler = ''local_agent_core.working_copies'' \<rparr>,
    \<lparr> rt_method = ''DELETE'', rt_path = [Fixed ''api'', Fixed ''local-agent'', Fixed ''assets'', Fixed ''working-copies'', Var ''copy_id''],
      rt_handler = ''local_agent_core.cleanup_working_copy'' \<rparr>]"

definition agent_routes :: "route list" where
  "agent_routes = agent_main_routes @ agent_auth_routes @ agent_me_routes @ agent_models_routes @
     agent_sessions_routes @ agent_runs_routes @ agent_orchestrations_routes @ agent_chat_routes @
     agent_files_routes @ agent_projects_routes @ agent_experts_routes @ agent_kdocs_routes @
     agent_skills_routes @ agent_work_items_routes @ agent_milestones_routes @
     agent_governance_routes @ agent_project_health_routes @ agent_automations_routes @
     agent_notifications_routes @ agent_ops_routes @ agent_catalog_routes @ agent_channels_routes @
     agent_asr_routes @ agent_knowledge_routes @ agent_local_connectors_routes @
     agent_prefs_routes @ agent_device_settings_routes @ agent_device_diagnostics_routes @
     agent_memory_routes @ agent_ideas_routes @ agent_data_routes @ agent_security_routes @
     agent_local_agent_core_routes"

definition installed_routes :: "route list" where
  "installed_routes = agent_main_routes @ agent_models_routes @ agent_files_routes @
     agent_skills_routes @ agent_channels_routes @ agent_asr_routes @ agent_knowledge_routes @
     agent_local_connectors_routes @ agent_prefs_routes @ agent_device_settings_routes @
     agent_device_diagnostics_routes @ agent_memory_routes @ agent_data_routes @
     agent_security_routes @ agent_local_agent_core_routes"

subsection \<open>Looking up a route\<close>

lemma look_agent_main_routes [route_lookup]:
  "find_route agent_main_routes m (a # b # vs) =
     (if b = ''health''
      then find_route (opened agent_main_routes) m (a # b # vs) else None)"
  by (rule look_router) (simp add: agent_main_routes_def)

lemma look_agent_auth_routes [route_lookup]:
  "find_route agent_auth_routes m (a # b # vs) =
     (if b = ''auth''
      then find_route (opened agent_auth_routes) m (a # b # vs) else None)"
  by (rule look_router) (simp add: agent_auth_routes_def)

lemma look_agent_me_routes [route_lookup]:
  "find_route agent_me_routes m (a # b # vs) =
     (if b = ''me''
      then find_route (opened agent_me_routes) m (a # b # vs) else None)"
  by (rule look_router) (simp add: agent_me_routes_def)

lemma look_agent_models_routes [route_lookup]:
  "find_route agent_models_routes m (a # b # vs) =
     (if b = ''models'' \<or> b = ''providers''
      then find_route (opened agent_models_routes) m (a # b # vs) else None)"
  by (rule look_router) (simp add: agent_models_routes_def)

lemma look_agent_sessions_routes [route_lookup]:
  "find_route agent_sessions_routes m (a # b # vs) =
     (if b = ''sessions''
      then find_route (opened agent_sessions_routes) m (a # b # vs) else None)"
  by (rule look_router) (simp add: agent_sessions_routes_def)

lemma look_agent_runs_routes [route_lookup]:
  "find_route agent_runs_routes m (a # b # vs) =
     (if b = ''runs'' \<or> b = ''artifacts''
      then find_route (opened agent_runs_routes) m (a # b # vs) else None)"
  by (rule look_router) (simp add: agent_runs_routes_def)

lemma look_agent_orchestrations_routes [route_lookup]:
  "find_route agent_orchestrations_routes m (a # b # vs) =
     (if b = ''orchestrations''
      then find_route (opened agent_orchestrations_routes) m (a # b # vs) else None)"
  by (rule look_router) (simp add: agent_orchestrations_routes_def)

lemma look_agent_chat_routes [route_lookup]:
  "find_route agent_chat_routes m (a # b # vs) =
     (if b = ''device-runtime-status'' \<or> b = ''local-run-inputs'' \<or> b = ''chat''
      then find_route (opened agent_chat_routes) m (a # b # vs) else None)"
  by (rule look_router) (simp add: agent_chat_routes_def)

lemma look_agent_files_routes [route_lookup]:
  "find_route agent_files_routes m (a # b # vs) =
     (if b = ''files''
      then find_route (opened agent_files_routes) m (a # b # vs) else None)"
  by (rule look_router) (simp add: agent_files_routes_def)

lemma look_agent_projects_routes [route_lookup]:
  "find_route agent_projects_routes m (a # b # vs) =
     (if b = ''projects''
      then find_route (opened agent_projects_routes) m (a # b # vs) else None)"
  by (rule look_router) (simp add: agent_projects_routes_def)

lemma look_agent_experts_routes [route_lookup]:
  "find_route agent_experts_routes m (a # b # vs) =
     (if b = ''experts''
      then find_route (opened agent_experts_routes) m (a # b # vs) else None)"
  by (rule look_router) (simp add: agent_experts_routes_def)

lemma look_agent_kdocs_routes [route_lookup]:
  "find_route agent_kdocs_routes m (a # b # vs) =
     (if b = ''connectors''
      then find_route (opened agent_kdocs_routes) m (a # b # vs) else None)"
  by (rule look_router) (simp add: agent_kdocs_routes_def)

lemma look_agent_skills_routes [route_lookup]:
  "find_route agent_skills_routes m (a # b # vs) =
     (if b = ''skill-candidates'' \<or> b = ''skills'' \<or> b = ''skill-bundles'' \<or> b = ''skill-usage'' \<or> b = ''skill-governance''
      then find_route (opened agent_skills_routes) m (a # b # vs) else None)"
  by (rule look_router) (simp add: agent_skills_routes_def)

lemma look_agent_work_items_routes [route_lookup]:
  "find_route agent_work_items_routes m (a # b # vs) =
     (if b = ''work-items''
      then find_route (opened agent_work_items_routes) m (a # b # vs) else None)"
  by (rule look_router) (simp add: agent_work_items_routes_def)

lemma look_agent_milestones_routes [route_lookup]:
  "find_route agent_milestones_routes m (a # b # vs) =
     (if b = ''milestones''
      then find_route (opened agent_milestones_routes) m (a # b # vs) else None)"
  by (rule look_router) (simp add: agent_milestones_routes_def)

lemma look_agent_governance_routes [route_lookup]:
  "find_route agent_governance_routes m (a # b # vs) =
     (if b = ''governance''
      then find_route (opened agent_governance_routes) m (a # b # vs) else None)"
  by (rule look_router) (simp add: agent_governance_routes_def)

lemma look_agent_project_health_routes [route_lookup]:
  "find_route agent_project_health_routes m (a # b # vs) =
     (if b = ''project-health''
      then find_route (opened agent_project_health_routes) m (a # b # vs) else None)"
  by (rule look_router) (simp add: agent_project_health_routes_def)

lemma look_agent_automations_routes [route_lookup]:
  "find_route agent_automations_routes m (a # b # vs) =
     (if b = ''automations'' \<or> b = ''webhooks'' \<or> b = ''automation-fires'' \<or> b = ''automation-runs''
      then find_route (opened agent_automations_routes) m (a # b # vs) else None)"
  by (rule look_router) (simp add: agent_automations_routes_def)

lemma look_agent_notifications_routes [route_lookup]:
  "find_route agent_notifications_routes m (a # b # vs) =
     (if b = ''notifications''
      then find_route (opened agent_notifications_routes) m (a # b # vs) else None)"
  by (rule look_router) (simp add: agent_notifications_routes_def)

lemma look_agent_ops_routes [route_lookup]:
  "find_route agent_ops_routes m (a # b # vs) =
     (if b = ''ops''
      then find_route (opened agent_ops_routes) m (a # b # vs) else None)"
  by (rule look_router) (simp add: agent_ops_routes_def)

lemma look_agent_catalog_routes [route_lookup]:
  "find_route agent_catalog_routes m (a # b # vs) =
     (if b = ''catalog''
      then find_route (opened agent_catalog_routes) m (a # b # vs) else None)"
  by (rule look_router) (simp add: agent_catalog_routes_def)

lemma look_agent_channels_routes [route_lookup]:
  "find_route agent_channels_routes m (a # b # vs) =
     (if b = ''channels'' \<or> b = ''assistants''
      then find_route (opened agent_channels_routes) m (a # b # vs) else None)"
  by (rule look_router) (simp add: agent_channels_routes_def)

lemma look_agent_asr_routes [route_lookup]:
  "find_route agent_asr_routes m (a # b # vs) =
     (if b = ''asr''
      then find_route (opened agent_asr_routes) m (a # b # vs) else None)"
  by (rule look_router) (simp add: agent_asr_routes_def)

lemma look_agent_knowledge_routes [route_lookup]:
  "find_route agent_knowledge_routes m (a # b # vs) =
     (if b = ''knowledge''
      then find_route (opened agent_knowledge_routes) m (a # b # vs) else None)"
  by (rule look_router) (simp add: agent_knowledge_routes_def)

lemma look_agent_local_connectors_routes [route_lookup]:
  "find_route agent_local_connectors_routes m (a # b # vs) =
     (if b = ''connectors''
      then find_route (opened agent_local_connectors_routes) m (a # b # vs) else None)"
  by (rule look_router) (simp add: agent_local_connectors_routes_def)

lemma look_agent_prefs_routes [route_lookup]:
  "find_route agent_prefs_routes m (a # b # vs) =
     (if b = ''settings''
      then find_route (opened agent_prefs_routes) m (a # b # vs) else None)"
  by (rule look_router) (simp add: agent_prefs_routes_def)

lemma look_agent_device_settings_routes [route_lookup]:
  "find_route agent_device_settings_routes m (a # b # vs) =
     (if b = ''settings''
      then find_route (opened agent_device_settings_routes) m (a # b # vs) else None)"
  by (rule look_router) (simp add: agent_device_settings_routes_def)

lemma look_agent_device_diagnostics_routes [route_lookup]:
  "find_route agent_device_diagnostics_routes m (a # b # vs) =
     (if b = ''device-diagnostics''
      then find_route (opened agent_device_diagnostics_routes) m (a # b # vs) else None)"
  by (rule look_router) (simp add: agent_device_diagnostics_routes_def)

lemma look_agent_memory_routes [route_lookup]:
  "find_route agent_memory_routes m (a # b # vs) =
     (if b = ''memory''
      then find_route (opened agent_memory_routes) m (a # b # vs) else None)"
  by (rule look_router) (simp add: agent_memory_routes_def)

lemma look_agent_ideas_routes [route_lookup]:
  "find_route agent_ideas_routes m (a # b # vs) =
     (if b = ''ideas''
      then find_route (opened agent_ideas_routes) m (a # b # vs) else None)"
  by (rule look_router) (simp add: agent_ideas_routes_def)

lemma look_agent_data_routes [route_lookup]:
  "find_route agent_data_routes m (a # b # vs) =
     (if b = ''data''
      then find_route (opened agent_data_routes) m (a # b # vs) else None)"
  by (rule look_router) (simp add: agent_data_routes_def)

lemma look_agent_security_routes [route_lookup]:
  "find_route agent_security_routes m (a # b # vs) =
     (if b = ''security''
      then find_route (opened agent_security_routes) m (a # b # vs) else None)"
  by (rule look_router) (simp add: agent_security_routes_def)

lemma look_agent_local_agent_core_routes [route_lookup]:
  "find_route agent_local_agent_core_routes m (a # b # vs) =
     (if b = ''local-agent''
      then find_route (opened agent_local_agent_core_routes) m (a # b # vs) else None)"
  by (rule look_router) (simp add: agent_local_agent_core_routes_def)

lemmas agent_routers =
  agent_main_routes_def agent_auth_routes_def agent_me_routes_def agent_models_routes_def
  agent_sessions_routes_def agent_runs_routes_def agent_orchestrations_routes_def
  agent_chat_routes_def agent_files_routes_def agent_projects_routes_def
  agent_experts_routes_def agent_kdocs_routes_def agent_skills_routes_def
  agent_work_items_routes_def agent_milestones_routes_def agent_governance_routes_def
  agent_project_health_routes_def agent_automations_routes_def agent_notifications_routes_def
  agent_ops_routes_def agent_catalog_routes_def agent_channels_routes_def agent_asr_routes_def
  agent_knowledge_routes_def agent_local_connectors_routes_def agent_prefs_routes_def
  agent_device_settings_routes_def agent_device_diagnostics_routes_def agent_memory_routes_def
  agent_ideas_routes_def agent_data_routes_def agent_security_routes_def
  agent_local_agent_core_routes_def

lemmas agent_router_lookup = agent_routers [THEN arg_cong, of "\<lambda>t. find_route (opened t) m vs" for m vs]

lemmas agent_lookup =
  agent_routes_def [THEN arg_cong, of "\<lambda>t. find_route t m vs" for m vs, unfolded find_route_append]
  installed_routes_def [THEN arg_cong, of "\<lambda>t. find_route t m vs" for m vs, unfolded find_route_append]

lemma agent_holder_free: "place_holder \<notin> set (reserved agent_routes)"
  unfolding agent_routes_def reserved_append set_append
  by (simp add: place_holder_def reserved_def agent_routers)

lemma installed_holder_free: "place_holder \<notin> set (reserved installed_routes)"
  unfolding installed_routes_def reserved_append set_append
  by (simp add: place_holder_def reserved_def agent_routers)

end
