(* ===== verification/LocalCalls.thy ===== *)
theory LocalCalls
  imports AgentRoutes
begin

text \<open>
  The desktop client's calls to its Local Agent (\<open>src/src/lib/api.ts\<close>): the token and its
  invalidation, reads that are retried once as a guest, writes that are never replayed, the
  answers of skill installations; then every call with the request it makes and the handler it
  is meant for, against the two tables of the Local Agent.
\<close>

subsection \<open>Requests\<close>

record local_request =
  lq_method :: string
  lq_path :: string
  lq_token :: "string option"
  lq_body :: "json option"

datatype local_effect = Fetched local_request | AuthInvalid

text \<open>\<open>authHeaders\<close>: the token, if it is not empty.\<close>

definition authHeaders :: "string option \<Rightarrow> string option" where
  "authHeaders token = or_none token"

text \<open>\<open>invalidateStaleServerToken\<close>: whether there was a token, the storage, the event.\<close>

definition invalidateStaleServerToken :: "string option \<Rightarrow> bool \<times> string option \<times> local_effect list" where
  "invalidateStaleServerToken token =
     (if truthy token then (True, None, [AuthInvalid]) else (False, token, []))"

definition local_error :: "string \<Rightarrow> string \<Rightarrow> http_response \<Rightarrow> exn" where
  "local_error verb path r = Err (verb @ '' '' @ path @ '' -> '' @ dec_int (hr_status r))"

definition local_value :: "string \<Rightarrow> string \<Rightarrow> http_response res \<Rightarrow> json res" where
  "local_value verb path answer =
     bind_res answer (\<lambda>r. if hr_ok r then hr_json r else Inl (local_error verb path r))"

text \<open>\<open>get\<close>: \<open>fetch\<close> gives the answer to each request it is asked.\<close>

definition local_get ::
  "(local_request \<Rightarrow> http_response res) \<Rightarrow> string \<Rightarrow> string option
     \<Rightarrow> json res \<times> string option \<times> local_effect list" where
  "local_get fetch path token =
     (let q = \<lparr> lq_method = ''GET'', lq_path = path, lq_token = authHeaders token, lq_body = None \<rparr>;
          q' = q\<lparr> lq_token := None \<rparr>
      in case fetch q of
           Inl e \<Rightarrow> (Inl e, token, [Fetched q])
         | Inr r \<Rightarrow>
             (if hr_status r = 401 then
                case invalidateStaleServerToken token of
                  (True, token1, effs) \<Rightarrow> (local_value ''GET'' path (fetch q'), token1, Fetched q # effs @ [Fetched q'])
                | (False, token1, effs) \<Rightarrow> (local_value ''GET'' path (Inr r), token1, Fetched q # effs)
              else (local_value ''GET'' path (Inr r), token, [Fetched q])))"

text \<open>\<open>send\<close>: the token of a refused identity is dropped, the request is not repeated.\<close>

definition local_send ::
  "(local_request \<Rightarrow> http_response res) \<Rightarrow> string \<Rightarrow> string \<Rightarrow> json option \<Rightarrow> string option
     \<Rightarrow> json res \<times> string option \<times> local_effect list" where
  "local_send fetch verb path body token =
     (let q = \<lparr> lq_method = verb, lq_path = path, lq_token = authHeaders token, lq_body = body \<rparr>
      in case fetch q of
           Inl e \<Rightarrow> (Inl e, token, [Fetched q])
         | Inr r \<Rightarrow>
             (let (dropped, token1, effs) =
                    (if hr_status r = 401 then invalidateStaleServerToken token else (False, token, []))
              in (local_value verb path (Inr r), token1, Fetched q # effs)))"

subsection \<open>Answers of skill installations\<close>

datatype skill_failure = SkillSecurityError string string json | SkillError string

definition skill_fallback :: "string \<Rightarrow> http_response \<Rightarrow> string" where
  "skill_fallback fallback r = fallback @ '' ('' @ dec_int (hr_status r) @ '')''"

text \<open>
  \<open>readSkillResponse\<close>: an object as \<open>detail\<close> with a security report is its own error; another
  object is printed by \<open>String\<close> (\<open>[object Object]\<close>; \<open>joined\<close> for an array). A body that is not
  JSON, or is \<open>null\<close>, leaves the fallback.
\<close>

definition security_detail :: "json \<Rightarrow> bool" where
  "security_detail d \<longleftrightarrow> jtruthy (jget ''security_scan'' d)"

definition string_or :: "json \<Rightarrow> string \<Rightarrow> string" where
  "string_or v fallback = or_str (jstr_d v) fallback"

definition readSkillResponse ::
  "(json \<Rightarrow> string) \<Rightarrow> string \<Rightarrow> http_response \<Rightarrow> skill_failure + json" where
  "readSkillResponse printed fallback r =
     (if hr_ok r then (case hr_body r of Some v \<Rightarrow> Inr v | None \<Rightarrow> Inl (SkillError msg_bad_json))
      else let message = skill_fallback fallback r;
               d = (case hr_body r of Some payload \<Rightarrow> jget ''detail'' payload | None \<Rightarrow> JUndef)
           in if security_detail d
              then Inl (SkillSecurityError (string_or (jget ''code'' d) ''skill_security_rejected'')
                          (string_or (jget ''message'' d) message) (jget ''security_scan'' d))
              else if jtruthy d then Inl (SkillError (printed d))
              else Inl (SkillError message))"

subsection \<open>Parts of requests\<close>

text \<open>\<open>v || null\<close> in a body; \<open>{ ...o }\<close> of an object; the optional fields of \<open>opts\<close>.\<close>

definition str_or_null :: "string option \<Rightarrow> json" where
  "str_or_null v = (if truthy v then JStr (opt_str v) else JNull)"

fun object_fields :: "json \<Rightarrow> (string \<times> json) list" where
  "object_fields (JObj ps) = ps"
| "object_fields _ = []"

record file_scope =
  sc_project :: "string option"
  sc_session :: "string option"

definition scope_fields :: "file_scope \<Rightarrow> (string \<times> json) list" where
  "scope_fields opts =
     (case sc_project opts of None \<Rightarrow> [] | Some p \<Rightarrow> [(''project'', JStr p)])
     @ (case sc_session opts of None \<Rightarrow> [] | Some s \<Rightarrow> [(''session'', JStr s)])"

definition scope_query :: "file_scope \<Rightarrow> (string \<times> string) list" where
  "scope_query opts =
     (if truthy (sc_project opts) then [(''project'', opt_str (sc_project opts))]
      else if truthy (sc_session opts) then [(''session'', opt_str (sc_session opts))] else [])"

definition form_opt :: "string \<Rightarrow> string option \<Rightarrow> (string \<times> string) list" where
  "form_opt k v = (if truthy v then [(k, form_encode (opt_str v))] else [])"

definition uri_opt :: "string \<Rightarrow> string option \<Rightarrow> (string \<times> string) list" where
  "uri_opt k v = (if truthy v then [(k, encodeURIComponent (opt_str v))] else [])"

subsection \<open>The calls\<close>

datatype settings_op =
    LOpsSummary int | LBackgroundHealth | LSettings | LSaveSettings json | LSystemSettings
    | LSaveSystemSettings json | LRuntimeSettings | LSaveRuntimeSettings json "string list"
    | LTestRuntimeSettings string | LDeviceDiagnostics | LDeviceDiagnosticAction string

primrec settings_endpoint :: "settings_op \<Rightarrow> endpoint" where
  "settings_endpoint (LOpsSummary dys) = \<lparr> ep_method = ''GET'',
     ep_path = [Lit ''ops'', Lit ''summary''],
     ep_query = [(''days'', dec_int dys)], ep_body = None \<rparr>"
| "settings_endpoint LBackgroundHealth = \<lparr> ep_method = ''GET'',
     ep_path = [Lit ''ops'', Lit ''background-health''],
     ep_query = [], ep_body = None \<rparr>"
| "settings_endpoint LSettings = \<lparr> ep_method = ''GET'',
     ep_path = [Lit ''settings''],
     ep_query = [], ep_body = None \<rparr>"
| "settings_endpoint (LSaveSettings bod) = \<lparr> ep_method = ''PUT'',
     ep_path = [Lit ''settings''],
     ep_query = [], ep_body = Some bod \<rparr>"
| "settings_endpoint LSystemSettings = \<lparr> ep_method = ''GET'',
     ep_path = [Lit ''settings'', Lit ''system''],
     ep_query = [], ep_body = None \<rparr>"
| "settings_endpoint (LSaveSystemSettings bod) = \<lparr> ep_method = ''PUT'',
     ep_path = [Lit ''settings'', Lit ''system''],
     ep_query = [], ep_body = Some bod \<rparr>"
| "settings_endpoint LRuntimeSettings = \<lparr> ep_method = ''GET'',
     ep_path = [Lit ''settings'', Lit ''runtime''],
     ep_query = [], ep_body = None \<rparr>"
| "settings_endpoint (LSaveRuntimeSettings vals cleared) = \<lparr> ep_method = ''PUT'',
     ep_path = [Lit ''settings'', Lit ''runtime''],
     ep_query = [], ep_body = Some (JObj [(''values'', vals), (''clear'', JArr (map JStr cleared))]) \<rparr>"
| "settings_endpoint (LTestRuntimeSettings grp) = \<lparr> ep_method = ''POST'',
     ep_path = [Lit ''settings'', Lit ''runtime'', Lit ''test''],
     ep_query = [], ep_body = Some (JObj [(''group'', JStr grp)]) \<rparr>"
| "settings_endpoint LDeviceDiagnostics = \<lparr> ep_method = ''GET'',
     ep_path = [Lit ''device-diagnostics''],
     ep_query = [], ep_body = None \<rparr>"
| "settings_endpoint (LDeviceDiagnosticAction act) = \<lparr> ep_method = ''POST'',
     ep_path = [Lit ''device-diagnostics'', Lit ''actions''],
     ep_query = [], ep_body = Some (JObj [(''action'', JStr act)]) \<rparr>"

primrec settings_handler :: "settings_op \<Rightarrow> string \<times> (string \<times> string) list" where
  "settings_handler (LOpsSummary dys) = (''ops.ops_summary'', [])"
| "settings_handler LBackgroundHealth = (''ops.background_health'', [])"
| "settings_handler LSettings = (''prefs.get_settings'', [])"
| "settings_handler (LSaveSettings bod) = (''prefs.put_settings'', [])"
| "settings_handler LSystemSettings = (''prefs.get_system_settings'', [])"
| "settings_handler (LSaveSystemSettings bod) = (''prefs.put_system_settings'', [])"
| "settings_handler LRuntimeSettings = (''device_settings.get_runtime_settings'', [])"
| "settings_handler (LSaveRuntimeSettings vals cleared) = (''device_settings.put_runtime_settings'', [])"
| "settings_handler (LTestRuntimeSettings grp) = (''device_settings.test_runtime_settings'', [])"
| "settings_handler LDeviceDiagnostics = (''device_diagnostics.diagnostics'', [])"
| "settings_handler (LDeviceDiagnosticAction act) = (''device_diagnostics.diagnostic_action'', [])"

datatype memory_op =
    LMemory "string option" "string option" | LAddMemory string "string option"
    | LEditMemory string string | LDeleteMemory string | LClearMemory "string option"
    | LSetMemoryEnabled bool | LSetEmbedBackend string | LMemoryStats "string option"
    | LSearchMemory string int "string option" | LSetMemoryImportance string json
    | LArchiveMemory string | LRollbackMemory string | LMemoryDetail string
    | LWorkspaceMemory string | LSaveWorkspaceMemory string string

primrec memory_endpoint :: "memory_op \<Rightarrow> endpoint" where
  "memory_endpoint (LMemory sts projectId) = \<lparr> ep_method = ''GET'',
     ep_path = [Lit ''memory''],
     ep_query = form_opt ''status'' sts @ form_opt ''project_id'' projectId, ep_body = None \<rparr>"
| "memory_endpoint (LAddMemory txt projectId) = \<lparr> ep_method = ''POST'',
     ep_path = [Lit ''memory''],
     ep_query = [], ep_body = Some (JObj [(''content'', JStr txt), (''project_id'', str_or_null projectId)]) \<rparr>"
| "memory_endpoint (LEditMemory i txt) = \<lparr> ep_method = ''PUT'',
     ep_path = [Lit ''memory'', Raw i],
     ep_query = [], ep_body = Some (JObj [(''content'', JStr txt)]) \<rparr>"
| "memory_endpoint (LDeleteMemory i) = \<lparr> ep_method = ''DELETE'',
     ep_path = [Lit ''memory'', Raw i],
     ep_query = [], ep_body = None \<rparr>"
| "memory_endpoint (LClearMemory projectId) = \<lparr> ep_method = ''POST'',
     ep_path = [Lit ''memory'', Lit ''clear''],
     ep_query = uri_opt ''project_id'' projectId, ep_body = None \<rparr>"
| "memory_endpoint (LSetMemoryEnabled en) = \<lparr> ep_method = ''PUT'',
     ep_path = [Lit ''memory'', Lit ''enabled''],
     ep_query = [], ep_body = Some (JObj [(''enabled'', JBool en)]) \<rparr>"
| "memory_endpoint (LSetEmbedBackend backend) = \<lparr> ep_method = ''PUT'',
     ep_path = [Lit ''memory'', Lit ''embed-backend''],
     ep_query = [], ep_body = Some (JObj [(''backend'', JStr backend)]) \<rparr>"
| "memory_endpoint (LMemoryStats projectId) = \<lparr> ep_method = ''GET'',
     ep_path = [Lit ''memory'', Lit ''stats''],
     ep_query = uri_opt ''project_id'' projectId, ep_body = None \<rparr>"
| "memory_endpoint (LSearchMemory qry top_k projectId) = \<lparr> ep_method = ''POST'',
     ep_path = [Lit ''memory'', Lit ''search''],
     ep_query = [], ep_body = Some (JObj [(''query'', JStr qry), (''top_k'', JNum top_k), (''project_id'', str_or_null projectId)]) \<rparr>"
| "memory_endpoint (LSetMemoryImportance i importance) = \<lparr> ep_method = ''PATCH'',
     ep_path = [Lit ''memory'', Raw i, Lit ''importance''],
     ep_query = [], ep_body = Some (JObj [(''importance'', importance)]) \<rparr>"
| "memory_endpoint (LArchiveMemory i) = \<lparr> ep_method = ''POST'',
     ep_path = [Lit ''memory'', Raw i, Lit ''archive''],
     ep_query = [], ep_body = None \<rparr>"
| "memory_endpoint (LRollbackMemory i) = \<lparr> ep_method = ''POST'',
     ep_path = [Lit ''memory'', Raw i, Lit ''rollback''],
     ep_query = [], ep_body = None \<rparr>"
| "memory_endpoint (LMemoryDetail i) = \<lparr> ep_method = ''GET'',
     ep_path = [Lit ''memory'', Raw i],
     ep_query = [], ep_body = None \<rparr>"
| "memory_endpoint (LWorkspaceMemory projectId) = \<lparr> ep_method = ''GET'',
     ep_path = [Lit ''memory'', Lit ''workspace''],
     ep_query = [(''project_id'', encodeURIComponent projectId)], ep_body = None \<rparr>"
| "memory_endpoint (LSaveWorkspaceMemory projectId txt) = \<lparr> ep_method = ''PUT'',
     ep_path = [Lit ''memory'', Lit ''workspace''],
     ep_query = [], ep_body = Some (JObj [(''project_id'', JStr projectId), (''content'', JStr txt)]) \<rparr>"

primrec memory_handler :: "memory_op \<Rightarrow> string \<times> (string \<times> string) list" where
  "memory_handler (LMemory sts projectId) = (''memory.get_memory'', [])"
| "memory_handler (LAddMemory txt projectId) = (''memory.add'', [])"
| "memory_handler (LEditMemory i txt) = (''memory.edit'', [(''mem_id'', i)])"
| "memory_handler (LDeleteMemory i) = (''memory.remove'', [(''mem_id'', i)])"
| "memory_handler (LClearMemory projectId) = (''memory.clear'', [])"
| "memory_handler (LSetMemoryEnabled en) = (''memory.set_enabled'', [])"
| "memory_handler (LSetEmbedBackend backend) = (''memory.set_embed_backend'', [])"
| "memory_handler (LMemoryStats projectId) = (''memory.stats'', [])"
| "memory_handler (LSearchMemory qry top_k projectId) = (''memory.search'', [])"
| "memory_handler (LSetMemoryImportance i importance) = (''memory.set_importance'', [(''mem_id'', i)])"
| "memory_handler (LArchiveMemory i) = (''memory.archive'', [(''mem_id'', i)])"
| "memory_handler (LRollbackMemory i) = (''memory.rollback'', [(''mem_id'', i)])"
| "memory_handler (LMemoryDetail i) = (''memory.detail'', [(''mem_id'', i)])"
| "memory_handler (LWorkspaceMemory projectId) = (''memory.get_workspace_memory'', [])"
| "memory_handler (LSaveWorkspaceMemory projectId txt) = (''memory.put_workspace_memory'', [])"

datatype idea_op =
    LListIdeas "string option" "string option" "string option" | LGetIdea string | LCreateIdea json
    | LUpdateIdea string json | LAddIdeaRelation string string string
    | LRemoveIdeaRelation string string string | LApplyIdeaProcessing string
    | LIdeaMemoryPreview string | LSettleIdea string string string

primrec idea_endpoint :: "idea_op \<Rightarrow> endpoint" where
  "idea_endpoint (LListIdeas projectId sts qq) = \<lparr> ep_method = ''GET'',
     ep_path = [Lit ''ideas''],
     ep_query = form_opt ''project_id'' projectId @ form_opt ''status'' sts @ form_opt ''q'' qq, ep_body = None \<rparr>"
| "idea_endpoint (LGetIdea i) = \<lparr> ep_method = ''GET'',
     ep_path = [Lit ''ideas'', Raw i],
     ep_query = [], ep_body = None \<rparr>"
| "idea_endpoint (LCreateIdea bod) = \<lparr> ep_method = ''POST'',
     ep_path = [Lit ''ideas''],
     ep_query = [], ep_body = Some bod \<rparr>"
| "idea_endpoint (LUpdateIdea i pat) = \<lparr> ep_method = ''PATCH'',
     ep_path = [Lit ''ideas'', Raw i],
     ep_query = [], ep_body = Some pat \<rparr>"
| "idea_endpoint (LAddIdeaRelation i targetIdeaId rel) = \<lparr> ep_method = ''POST'',
     ep_path = [Lit ''ideas'', Raw i, Lit ''relations''],
     ep_query = [], ep_body = Some (JObj [(''target_idea_id'', JStr targetIdeaId), (''relation'', JStr rel)]) \<rparr>"
| "idea_endpoint (LRemoveIdeaRelation i targetIdeaId rel) = \<lparr> ep_method = ''DELETE'',
     ep_path = [Lit ''ideas'', Raw i, Lit ''relations'', Raw targetIdeaId, Raw rel],
     ep_query = [], ep_body = None \<rparr>"
| "idea_endpoint (LApplyIdeaProcessing i) = \<lparr> ep_method = ''POST'',
     ep_path = [Lit ''ideas'', Raw i, Lit ''apply-processing''],
     ep_query = [], ep_body = None \<rparr>"
| "idea_endpoint (LIdeaMemoryPreview i) = \<lparr> ep_method = ''GET'',
     ep_path = [Lit ''ideas'', Raw i, Lit ''memory-preview''],
     ep_query = [], ep_body = None \<rparr>"
| "idea_endpoint (LSettleIdea i knd memoryBaseSha256) = \<lparr> ep_method = ''POST'',
     ep_path = [Lit ''ideas'', Raw i, Lit ''settle''],
     ep_query = [], ep_body = Some (JObj [(''kind'', JStr knd), (''memory_base_sha256'', JStr memoryBaseSha256)]) \<rparr>"

primrec idea_handler :: "idea_op \<Rightarrow> string \<times> (string \<times> string) list" where
  "idea_handler (LListIdeas projectId sts qq) = (''ideas.list_ideas'', [])"
| "idea_handler (LGetIdea i) = (''ideas.get_idea'', [(''idea_id'', i)])"
| "idea_handler (LCreateIdea bod) = (''ideas.create_idea'', [])"
| "idea_handler (LUpdateIdea i pat) = (''ideas.update_idea'', [(''idea_id'', i)])"
| "idea_handler (LAddIdeaRelation i targetIdeaId rel) = (''ideas.add_relation'', [(''idea_id'', i)])"
| "idea_handler (LRemoveIdeaRelation i targetIdeaId rel) = (''ideas.remove_relation'', [(''idea_id'', i), (''target_idea_id'', targetIdeaId), (''relation'', rel)])"
| "idea_handler (LApplyIdeaProcessing i) = (''ideas.apply_processing'', [(''idea_id'', i)])"
| "idea_handler (LIdeaMemoryPreview i) = (''ideas.memory_preview'', [(''idea_id'', i)])"
| "idea_handler (LSettleIdea i knd memoryBaseSha256) = (''ideas.settle_idea'', [(''idea_id'', i)])"

datatype local_data_op =
    LDataSummary | LDataExport | LClearConversations | LAgentSettings | LSaveAgentSettings json
    | LSecurityPolicy | LSaveSecurityPolicy "string list" | LSecurityAudit | LClearAudit

primrec local_data_endpoint :: "local_data_op \<Rightarrow> endpoint" where
  "local_data_endpoint LDataSummary = \<lparr> ep_method = ''GET'',
     ep_path = [Lit ''data'', Lit ''summary''],
     ep_query = [], ep_body = None \<rparr>"
| "local_data_endpoint LDataExport = \<lparr> ep_method = ''GET'',
     ep_path = [Lit ''data'', Lit ''export''],
     ep_query = [], ep_body = None \<rparr>"
| "local_data_endpoint LClearConversations = \<lparr> ep_method = ''POST'',
     ep_path = [Lit ''data'', Lit ''clear-conversations''],
     ep_query = [], ep_body = None \<rparr>"
| "local_data_endpoint LAgentSettings = \<lparr> ep_method = ''GET'',
     ep_path = [Lit ''settings'', Lit ''agent''],
     ep_query = [], ep_body = None \<rparr>"
| "local_data_endpoint (LSaveAgentSettings bod) = \<lparr> ep_method = ''PUT'',
     ep_path = [Lit ''settings'', Lit ''agent''],
     ep_query = [], ep_body = Some bod \<rparr>"
| "local_data_endpoint LSecurityPolicy = \<lparr> ep_method = ''GET'',
     ep_path = [Lit ''security'', Lit ''policy''],
     ep_query = [], ep_body = None \<rparr>"
| "local_data_endpoint (LSaveSecurityPolicy command_blocklist) = \<lparr> ep_method = ''PUT'',
     ep_path = [Lit ''security'', Lit ''policy''],
     ep_query = [], ep_body = Some (JObj [(''command_blocklist'', JArr (map JStr command_blocklist))]) \<rparr>"
| "local_data_endpoint LSecurityAudit = \<lparr> ep_method = ''GET'',
     ep_path = [Lit ''security'', Lit ''audit''],
     ep_query = [], ep_body = None \<rparr>"
| "local_data_endpoint LClearAudit = \<lparr> ep_method = ''POST'',
     ep_path = [Lit ''security'', Lit ''audit'', Lit ''clear''],
     ep_query = [], ep_body = None \<rparr>"

primrec local_data_handler :: "local_data_op \<Rightarrow> string \<times> (string \<times> string) list" where
  "local_data_handler LDataSummary = (''data.summary'', [])"
| "local_data_handler LDataExport = (''data.export'', [])"
| "local_data_handler LClearConversations = (''data.clear_conversations'', [])"
| "local_data_handler LAgentSettings = (''prefs.get_agent_settings'', [])"
| "local_data_handler (LSaveAgentSettings bod) = (''prefs.put_agent_settings'', [])"
| "local_data_handler LSecurityPolicy = (''security.get_policy'', [])"
| "local_data_handler (LSaveSecurityPolicy command_blocklist) = (''security.put_policy'', [])"
| "local_data_handler LSecurityAudit = (''security.get_audit'', [])"
| "local_data_handler LClearAudit = (''security.clear_audit'', [])"

datatype model_op =
    LModels | LModelGovernance | LSetModelGovernance json | LSetDefaultModel string
    | LSetProviderKey string string | LSetProviderConfig string string string
    | LFetchProviderModels string | LCheckProviderHealth string | LAddProviderModel string string
    | LSetModelMeta string json | LResetModelMeta string | LDeleteProviderModel string string
    | LCreateCustomModel json | LUpdateCustomModel string json | LDeleteCustomModel string

primrec model_endpoint :: "model_op \<Rightarrow> endpoint" where
  "model_endpoint LModels = \<lparr> ep_method = ''GET'',
     ep_path = [Lit ''models''],
     ep_query = [], ep_body = None \<rparr>"
| "model_endpoint LModelGovernance = \<lparr> ep_method = ''GET'',
     ep_path = [Lit ''models'', Lit ''governance''],
     ep_query = [], ep_body = None \<rparr>"
| "model_endpoint (LSetModelGovernance policy) = \<lparr> ep_method = ''PUT'',
     ep_path = [Lit ''models'', Lit ''governance''],
     ep_query = [], ep_body = Some policy \<rparr>"
| "model_endpoint (LSetDefaultModel model_ref) = \<lparr> ep_method = ''PUT'',
     ep_path = [Lit ''models'', Lit ''default''],
     ep_query = [], ep_body = Some (JObj [(''model_ref'', JStr model_ref)]) \<rparr>"
| "model_endpoint (LSetProviderKey pid api_key) = \<lparr> ep_method = ''PUT'',
     ep_path = [Lit ''providers'', Raw pid, Lit ''key''],
     ep_query = [], ep_body = Some (JObj [(''api_key'', JStr api_key)]) \<rparr>"
| "model_endpoint (LSetProviderConfig pid baseUrl chatPath) = \<lparr> ep_method = ''PATCH'',
     ep_path = [Lit ''providers'', Raw pid, Lit ''config''],
     ep_query = [], ep_body = Some (JObj [(''base_url'', JStr baseUrl), (''chat_path'', JStr chatPath)]) \<rparr>"
| "model_endpoint (LFetchProviderModels pid) = \<lparr> ep_method = ''POST'',
     ep_path = [Lit ''providers'', Raw pid, Lit ''models'', Lit ''fetch''],
     ep_query = [], ep_body = None \<rparr>"
| "model_endpoint (LCheckProviderHealth pid) = \<lparr> ep_method = ''POST'',
     ep_path = [Lit ''providers'', Raw pid, Lit ''health''],
     ep_query = [], ep_body = None \<rparr>"
| "model_endpoint (LAddProviderModel pid model_id) = \<lparr> ep_method = ''POST'',
     ep_path = [Lit ''providers'', Raw pid, Lit ''models''],
     ep_query = [], ep_body = Some (JObj [(''model_id'', JStr model_id)]) \<rparr>"
| "model_endpoint (LSetModelMeta model_ref mta) = \<lparr> ep_method = ''PUT'',
     ep_path = [Lit ''models'', Lit ''meta''],
     ep_query = [], ep_body = Some (JObj ([(''model_ref'', JStr model_ref)] @ object_fields mta)) \<rparr>"
| "model_endpoint (LResetModelMeta model_ref) = \<lparr> ep_method = ''PUT'',
     ep_path = [Lit ''models'', Lit ''meta''],
     ep_query = [], ep_body = Some (JObj [(''model_ref'', JStr model_ref), (''reset'', JBool True)]) \<rparr>"
| "model_endpoint (LDeleteProviderModel pid model_id) = \<lparr> ep_method = ''POST'',
     ep_path = [Lit ''providers'', Raw pid, Lit ''models'', Lit ''hide''],
     ep_query = [], ep_body = Some (JObj [(''model_id'', JStr model_id), (''hidden'', JBool True)]) \<rparr>"
| "model_endpoint (LCreateCustomModel mm) = \<lparr> ep_method = ''POST'',
     ep_path = [Lit ''models'', Lit ''custom''],
     ep_query = [], ep_body = Some mm \<rparr>"
| "model_endpoint (LUpdateCustomModel i mm) = \<lparr> ep_method = ''PATCH'',
     ep_path = [Lit ''models'', Lit ''custom'', Raw i],
     ep_query = [], ep_body = Some mm \<rparr>"
| "model_endpoint (LDeleteCustomModel i) = \<lparr> ep_method = ''DELETE'',
     ep_path = [Lit ''models'', Lit ''custom'', Raw i],
     ep_query = [], ep_body = None \<rparr>"

primrec model_handler :: "model_op \<Rightarrow> string \<times> (string \<times> string) list" where
  "model_handler LModels = (''models.list_models'', [])"
| "model_handler LModelGovernance = (''models.get_model_governance'', [])"
| "model_handler (LSetModelGovernance policy) = (''models.set_model_governance'', [])"
| "model_handler (LSetDefaultModel model_ref) = (''models.set_default_model'', [])"
| "model_handler (LSetProviderKey pid api_key) = (''models.set_provider_key'', [(''pid'', pid)])"
| "model_handler (LSetProviderConfig pid baseUrl chatPath) = (''models.set_provider_config'', [(''pid'', pid)])"
| "model_handler (LFetchProviderModels pid) = (''models.fetch_provider_models'', [(''pid'', pid)])"
| "model_handler (LCheckProviderHealth pid) = (''models.check_provider_health'', [(''pid'', pid)])"
| "model_handler (LAddProviderModel pid model_id) = (''models.add_provider_model'', [(''pid'', pid)])"
| "model_handler (LSetModelMeta model_ref mta) = (''models.set_model_meta'', [])"
| "model_handler (LResetModelMeta model_ref) = (''models.set_model_meta'', [])"
| "model_handler (LDeleteProviderModel pid model_id) = (''models.hide_provider_model'', [(''pid'', pid)])"
| "model_handler (LCreateCustomModel mm) = (''models.create_custom'', [])"
| "model_handler (LUpdateCustomModel i mm) = (''models.update_custom'', [(''model_id'', i)])"
| "model_handler (LDeleteCustomModel i) = (''models.delete_custom'', [(''model_id'', i)])"

datatype assistant_op =
    LListAssistants | LGetAssistant string | LCreateAssistant json | LUpdateAssistant string json
    | LDeleteAssistant string | LAssistantSay string string | LChannelTypes
    | LAddAssistantChannel string json | LUpdateAssistantChannel string string json
    | LDeleteAssistantChannel string string | LUnbindAssistantChannel string string

primrec assistant_endpoint :: "assistant_op \<Rightarrow> endpoint" where
  "assistant_endpoint LListAssistants = \<lparr> ep_method = ''GET'',
     ep_path = [Lit ''assistants''],
     ep_query = [], ep_body = None \<rparr>"
| "assistant_endpoint (LGetAssistant i) = \<lparr> ep_method = ''GET'',
     ep_path = [Lit ''assistants'', Raw i],
     ep_query = [], ep_body = None \<rparr>"
| "assistant_endpoint (LCreateAssistant bod) = \<lparr> ep_method = ''POST'',
     ep_path = [Lit ''assistants''],
     ep_query = [], ep_body = Some bod \<rparr>"
| "assistant_endpoint (LUpdateAssistant i pat) = \<lparr> ep_method = ''PATCH'',
     ep_path = [Lit ''assistants'', Raw i],
     ep_query = [], ep_body = Some pat \<rparr>"
| "assistant_endpoint (LDeleteAssistant i) = \<lparr> ep_method = ''DELETE'',
     ep_path = [Lit ''assistants'', Raw i],
     ep_query = [], ep_body = None \<rparr>"
| "assistant_endpoint (LAssistantSay i txt) = \<lparr> ep_method = ''POST'',
     ep_path = [Lit ''assistants'', Raw i, Lit ''say''],
     ep_query = [], ep_body = Some (JObj [(''text'', JStr txt)]) \<rparr>"
| "assistant_endpoint LChannelTypes = \<lparr> ep_method = ''GET'',
     ep_path = [Lit ''channels'', Lit ''types''],
     ep_query = [], ep_body = None \<rparr>"
| "assistant_endpoint (LAddAssistantChannel i bod) = \<lparr> ep_method = ''POST'',
     ep_path = [Lit ''assistants'', Raw i, Lit ''channels''],
     ep_query = [], ep_body = Some bod \<rparr>"
| "assistant_endpoint (LUpdateAssistantChannel i cid bod) = \<lparr> ep_method = ''PATCH'',
     ep_path = [Lit ''assistants'', Raw i, Lit ''channels'', Raw cid],
     ep_query = [], ep_body = Some bod \<rparr>"
| "assistant_endpoint (LDeleteAssistantChannel i cid) = \<lparr> ep_method = ''DELETE'',
     ep_path = [Lit ''assistants'', Raw i, Lit ''channels'', Raw cid],
     ep_query = [], ep_body = None \<rparr>"
| "assistant_endpoint (LUnbindAssistantChannel i cid) = \<lparr> ep_method = ''POST'',
     ep_path = [Lit ''assistants'', Raw i, Lit ''channels'', Raw cid, Lit ''unbind''],
     ep_query = [], ep_body = None \<rparr>"

primrec assistant_handler :: "assistant_op \<Rightarrow> string \<times> (string \<times> string) list" where
  "assistant_handler LListAssistants = (''channels.list_assistants'', [])"
| "assistant_handler (LGetAssistant i) = (''channels.get_assistant'', [(''assistant_id'', i)])"
| "assistant_handler (LCreateAssistant bod) = (''channels.create_assistant'', [])"
| "assistant_handler (LUpdateAssistant i pat) = (''channels.update_assistant'', [(''assistant_id'', i)])"
| "assistant_handler (LDeleteAssistant i) = (''channels.delete_assistant'', [(''assistant_id'', i)])"
| "assistant_handler (LAssistantSay i txt) = (''channels.assistant_say'', [(''assistant_id'', i)])"
| "assistant_handler LChannelTypes = (''channels.channel_types'', [])"
| "assistant_handler (LAddAssistantChannel i bod) = (''channels.add_channel'', [(''assistant_id'', i)])"
| "assistant_handler (LUpdateAssistantChannel i cid bod) = (''channels.update_channel'', [(''assistant_id'', i), (''channel_id'', cid)])"
| "assistant_handler (LDeleteAssistantChannel i cid) = (''channels.delete_channel'', [(''assistant_id'', i), (''channel_id'', cid)])"
| "assistant_handler (LUnbindAssistantChannel i cid) = (''channels.unbind_channel'', [(''assistant_id'', i), (''channel_id'', cid)])"

datatype favorite_op =
    LInspirationFavorites | LSetInspirationFavorite string bool

primrec favorite_endpoint :: "favorite_op \<Rightarrow> endpoint" where
  "favorite_endpoint LInspirationFavorites = \<lparr> ep_method = ''GET'',
     ep_path = [Lit ''catalog'', Lit ''inspiration-favorites''],
     ep_query = [], ep_body = None \<rparr>"
| "favorite_endpoint (LSetInspirationFavorite templateId favorite) = \<lparr> ep_method = ''PUT'',
     ep_path = [Lit ''catalog'', Lit ''inspiration-favorites'', Enc templateId],
     ep_query = [], ep_body = Some (JObj [(''favorite'', JBool favorite)]) \<rparr>"

primrec favorite_handler :: "favorite_op \<Rightarrow> string \<times> (string \<times> string) list" where
  "favorite_handler LInspirationFavorites = (''catalog.get_inspiration_favorites'', [])"
| "favorite_handler (LSetInspirationFavorite templateId favorite) = (''catalog.put_inspiration_favorite'', [(''template_id'', templateId)])"

datatype orchestration_op =
    LPromoteRunPlanItem string string | LCreateOrchestration json | LGetOrchestration string
    | LListOrchestrations | LCancelOrchestration string

primrec orchestration_endpoint :: "orchestration_op \<Rightarrow> endpoint" where
  "orchestration_endpoint (LPromoteRunPlanItem runId itemId) = \<lparr> ep_method = ''POST'',
     ep_path = [Lit ''runs'', Raw runId, Lit ''plan'', Raw itemId, Lit ''promote''],
     ep_query = [], ep_body = None \<rparr>"
| "orchestration_endpoint (LCreateOrchestration bod) = \<lparr> ep_method = ''POST'',
     ep_path = [Lit ''orchestrations''],
     ep_query = [], ep_body = Some bod \<rparr>"
| "orchestration_endpoint (LGetOrchestration i) = \<lparr> ep_method = ''GET'',
     ep_path = [Lit ''orchestrations'', Raw i],
     ep_query = [], ep_body = None \<rparr>"
| "orchestration_endpoint LListOrchestrations = \<lparr> ep_method = ''GET'',
     ep_path = [Lit ''orchestrations''],
     ep_query = [], ep_body = None \<rparr>"
| "orchestration_endpoint (LCancelOrchestration i) = \<lparr> ep_method = ''POST'',
     ep_path = [Lit ''orchestrations'', Raw i, Lit ''cancel''],
     ep_query = [], ep_body = None \<rparr>"

primrec orchestration_handler :: "orchestration_op \<Rightarrow> string \<times> (string \<times> string) list" where
  "orchestration_handler (LPromoteRunPlanItem runId itemId) = (''runs.promote_plan_item'', [(''run_id'', runId), (''plan_item_id'', itemId)])"
| "orchestration_handler (LCreateOrchestration bod) = (''orchestrations.create'', [])"
| "orchestration_handler (LGetOrchestration i) = (''orchestrations.get'', [(''orchestration_id'', i)])"
| "orchestration_handler LListOrchestrations = (''orchestrations.list_orchestrations'', [])"
| "orchestration_handler (LCancelOrchestration i) = (''orchestrations.cancel'', [(''orchestration_id'', i)])"

datatype expert_op =
    LListExperts | LCreateExpert json | LDeleteExpert string

primrec expert_endpoint :: "expert_op \<Rightarrow> endpoint" where
  "expert_endpoint LListExperts = \<lparr> ep_method = ''GET'',
     ep_path = [Lit ''experts''],
     ep_query = [], ep_body = None \<rparr>"
| "expert_endpoint (LCreateExpert bod) = \<lparr> ep_method = ''POST'',
     ep_path = [Lit ''experts''],
     ep_query = [], ep_body = Some bod \<rparr>"
| "expert_endpoint (LDeleteExpert i) = \<lparr> ep_method = ''DELETE'',
     ep_path = [Lit ''experts'', Raw i],
     ep_query = [], ep_body = None \<rparr>"

primrec expert_handler :: "expert_op \<Rightarrow> string \<times> (string \<times> string) list" where
  "expert_handler LListExperts = (''experts.list_experts'', [])"
| "expert_handler (LCreateExpert bod) = (''experts.create_expert'', [])"
| "expert_handler (LDeleteExpert i) = (''experts.delete_expert'', [(''expert_id'', i)])"

datatype connector_op =
    LKdocsStatus | LKdocsConnect | LKdocsDisconnect | LLocalConnectors | LCreateLocalConnector json
    | LUpdateLocalConnector string json | LSetLocalConnectorEnabled string bool
    | LTestLocalConnector string | LTestConnectorByName string
    | LSetBuiltinConnectorCredentials string json "string list" | LDeleteLocalConnector string
    | LKdocsFiles string string | LKdocsFolder string string string

primrec connector_endpoint :: "connector_op \<Rightarrow> endpoint" where
  "connector_endpoint LKdocsStatus = \<lparr> ep_method = ''GET'',
     ep_path = [Lit ''connectors'', Lit ''kdocs'', Lit ''status''],
     ep_query = [], ep_body = None \<rparr>"
| "connector_endpoint LKdocsConnect = \<lparr> ep_method = ''POST'',
     ep_path = [Lit ''connectors'', Lit ''kdocs'', Lit ''connect''],
     ep_query = [], ep_body = None \<rparr>"
| "connector_endpoint LKdocsDisconnect = \<lparr> ep_method = ''POST'',
     ep_path = [Lit ''connectors'', Lit ''kdocs'', Lit ''disconnect''],
     ep_query = [], ep_body = None \<rparr>"
| "connector_endpoint LLocalConnectors = \<lparr> ep_method = ''GET'',
     ep_path = [Lit ''connectors'', Lit ''local''],
     ep_query = [], ep_body = None \<rparr>"
| "connector_endpoint (LCreateLocalConnector bod) = \<lparr> ep_method = ''POST'',
     ep_path = [Lit ''connectors'', Lit ''local''],
     ep_query = [], ep_body = Some bod \<rparr>"
| "connector_endpoint (LUpdateLocalConnector i bod) = \<lparr> ep_method = ''PUT'',
     ep_path = [Lit ''connectors'', Lit ''local'', Raw i],
     ep_query = [], ep_body = Some bod \<rparr>"
| "connector_endpoint (LSetLocalConnectorEnabled i en) = \<lparr> ep_method = ''POST'',
     ep_path = [Lit ''connectors'', Lit ''local'', Raw i, Lit ''enabled''],
     ep_query = [], ep_body = Some (JObj [(''enabled'', JBool en)]) \<rparr>"
| "connector_endpoint (LTestLocalConnector i) = \<lparr> ep_method = ''POST'',
     ep_path = [Lit ''connectors'', Lit ''local'', Raw i, Lit ''test''],
     ep_query = [], ep_body = None \<rparr>"
| "connector_endpoint (LTestConnectorByName nam) = \<lparr> ep_method = ''POST'',
     ep_path = [Lit ''connectors'', Lit ''local'', Lit ''test-by-name''],
     ep_query = [], ep_body = Some (JObj [(''name'', JStr nam)]) \<rparr>"
| "connector_endpoint (LSetBuiltinConnectorCredentials nam vals cleared) = \<lparr> ep_method = ''PUT'',
     ep_path = [Lit ''connectors'', Lit ''local'', Lit ''builtins'', Enc nam, Lit ''credentials''],
     ep_query = [], ep_body = Some (JObj [(''values'', vals), (''clear'', JArr (map JStr cleared))]) \<rparr>"
| "connector_endpoint (LDeleteLocalConnector i) = \<lparr> ep_method = ''DELETE'',
     ep_path = [Lit ''connectors'', Lit ''local'', Raw i],
     ep_query = [], ep_body = None \<rparr>"
| "connector_endpoint (LKdocsFiles kw knd) = \<lparr> ep_method = ''GET'',
     ep_path = [Lit ''connectors'', Lit ''kdocs'', Lit ''files''],
     ep_query = [(''keyword'', encodeURIComponent kw), (''kind'', knd)], ep_body = None \<rparr>"
| "connector_endpoint (LKdocsFolder driveId parent kuid) = \<lparr> ep_method = ''GET'',
     ep_path = [Lit ''connectors'', Lit ''kdocs'', Lit ''folder''],
     ep_query = [(''drive_id'', encodeURIComponent driveId), (''parent_id'', encodeURIComponent parent), (''kuid'', encodeURIComponent kuid)], ep_body = None \<rparr>"

primrec connector_handler :: "connector_op \<Rightarrow> string \<times> (string \<times> string) list" where
  "connector_handler LKdocsStatus = (''kdocs.status'', [])"
| "connector_handler LKdocsConnect = (''kdocs.connect'', [])"
| "connector_handler LKdocsDisconnect = (''kdocs.disconnect'', [])"
| "connector_handler LLocalConnectors = (''local_connectors.list_local_connectors'', [])"
| "connector_handler (LCreateLocalConnector bod) = (''local_connectors.create_local_connector'', [])"
| "connector_handler (LUpdateLocalConnector i bod) = (''local_connectors.update_local_connector'', [(''instance_id'', i)])"
| "connector_handler (LSetLocalConnectorEnabled i en) = (''local_connectors.set_local_connector_enabled'', [(''instance_id'', i)])"
| "connector_handler (LTestLocalConnector i) = (''local_connectors.test_local_connector'', [(''instance_id'', i)])"
| "connector_handler (LTestConnectorByName nam) = (''local_connectors.test_connector_by_name'', [])"
| "connector_handler (LSetBuiltinConnectorCredentials nam vals cleared) = (''local_connectors.set_builtin_credentials'', [(''name'', nam)])"
| "connector_handler (LDeleteLocalConnector i) = (''local_connectors.delete_local_connector'', [(''instance_id'', i)])"
| "connector_handler (LKdocsFiles kw knd) = (''kdocs.files'', [])"
| "connector_handler (LKdocsFolder driveId parent kuid) = (''kdocs.folder'', [])"

datatype skill_op =
    LListSkills | LListSkillBundles | LCreateSkillBundle json | LUpdateSkillBundle string json
    | LDeleteSkillBundle string | LSearchSkills string int | LSkillRankings string
    | LSkillDetail string | LSkillCatalogDetail string | LInstallCatalogSkill string
    | LUpgradeCatalogSkill string "string list" | LUpdateSkill string json | LInstallSkill json
    | LImportSkillFile string bool | LImportSkillDirectory json bool | LUninstallSkill string
    | LRestoreSkill string | LToggleSkill string bool bool | LRateSkill string string
    | LRevealSkill string

primrec skill_endpoint :: "skill_op \<Rightarrow> endpoint" where
  "skill_endpoint LListSkills = \<lparr> ep_method = ''GET'',
     ep_path = [Lit ''skills''],
     ep_query = [], ep_body = None \<rparr>"
| "skill_endpoint LListSkillBundles = \<lparr> ep_method = ''GET'',
     ep_path = [Lit ''skill-bundles''],
     ep_query = [], ep_body = None \<rparr>"
| "skill_endpoint (LCreateSkillBundle bod) = \<lparr> ep_method = ''POST'',
     ep_path = [Lit ''skill-bundles''],
     ep_query = [], ep_body = Some bod \<rparr>"
| "skill_endpoint (LUpdateSkillBundle i bod) = \<lparr> ep_method = ''PUT'',
     ep_path = [Lit ''skill-bundles'', Enc i],
     ep_query = [], ep_body = Some bod \<rparr>"
| "skill_endpoint (LDeleteSkillBundle i) = \<lparr> ep_method = ''DELETE'',
     ep_path = [Lit ''skill-bundles'', Enc i],
     ep_query = [], ep_body = None \<rparr>"
| "skill_endpoint (LSearchSkills qq lim) = \<lparr> ep_method = ''GET'',
     ep_path = [Lit ''skills'', Lit ''search''],
     ep_query = [(''q'', encodeURIComponent qq), (''limit'', dec_int lim)], ep_body = None \<rparr>"
| "skill_endpoint (LSkillRankings typ) = \<lparr> ep_method = ''GET'',
     ep_path = [Lit ''skills'', Lit ''rankings''],
     ep_query = [(''type'', encodeURIComponent typ)], ep_body = None \<rparr>"
| "skill_endpoint (LSkillDetail ky) = \<lparr> ep_method = ''GET'',
     ep_path = [Lit ''skills'', Enc ky],
     ep_query = [], ep_body = None \<rparr>"
| "skill_endpoint (LSkillCatalogDetail ky) = \<lparr> ep_method = ''GET'',
     ep_path = [Lit ''skills'', Lit ''catalog'', Enc ky],
     ep_query = [], ep_body = None \<rparr>"
| "skill_endpoint (LInstallCatalogSkill ky) = \<lparr> ep_method = ''POST'',
     ep_path = [Lit ''skills'', Lit ''catalog'', Enc ky, Lit ''install''],
     ep_query = [], ep_body = None \<rparr>"
| "skill_endpoint (LUpgradeCatalogSkill ky acceptPermissions) = \<lparr> ep_method = ''POST'',
     ep_path = [Lit ''skills'', Lit ''catalog'', Enc ky, Lit ''upgrade''],
     ep_query = [], ep_body = Some (JObj [(''accept_permissions'', JArr (map JStr acceptPermissions))]) \<rparr>"
| "skill_endpoint (LUpdateSkill ky bod) = \<lparr> ep_method = ''PATCH'',
     ep_path = [Lit ''skills'', Enc ky],
     ep_query = [], ep_body = Some bod \<rparr>"
| "skill_endpoint (LInstallSkill bod) = \<lparr> ep_method = ''POST'',
     ep_path = [Lit ''skills'', Lit ''install''],
     ep_query = [], ep_body = Some bod \<rparr>"
| "skill_endpoint (LImportSkillFile file acceptSecurityWarnings) = \<lparr> ep_method = ''POST'',
     ep_path = [Lit ''skills'', Lit ''import''],
     ep_query = [(''filename'', form_encode file)] @ [(''accept_security_warnings'', if acceptSecurityWarnings then ''true'' else ''false'')], ep_body = None \<rparr>"
| "skill_endpoint (LImportSkillDirectory fls acceptSecurityWarnings) = \<lparr> ep_method = ''POST'',
     ep_path = [Lit ''skills'', Lit ''import-directory''],
     ep_query = [], ep_body = Some (JObj [(''files'', fls), (''accept_security_warnings'', JBool acceptSecurityWarnings)]) \<rparr>"
| "skill_endpoint (LUninstallSkill ky) = \<lparr> ep_method = ''POST'',
     ep_path = [Lit ''skills'', Enc ky, Lit ''uninstall''],
     ep_query = [], ep_body = None \<rparr>"
| "skill_endpoint (LRestoreSkill ky) = \<lparr> ep_method = ''POST'',
     ep_path = [Lit ''skills'', Enc ky, Lit ''restore''],
     ep_query = [], ep_body = None \<rparr>"
| "skill_endpoint (LToggleSkill ky disabled acceptSecurityWarnings) = \<lparr> ep_method = ''POST'',
     ep_path = [Lit ''skills'', Enc ky, Lit ''toggle''],
     ep_query = [], ep_body = Some (JObj [(''disabled'', JBool disabled), (''accept_security_warnings'', JBool acceptSecurityWarnings)]) \<rparr>"
| "skill_endpoint (LRateSkill ky rating) = \<lparr> ep_method = ''POST'',
     ep_path = [Lit ''skills'', Enc ky, Lit ''rating''],
     ep_query = [], ep_body = Some (JObj [(''rating'', JStr rating)]) \<rparr>"
| "skill_endpoint (LRevealSkill ky) = \<lparr> ep_method = ''POST'',
     ep_path = [Lit ''skills'', Enc ky, Lit ''reveal''],
     ep_query = [], ep_body = None \<rparr>"

primrec skill_handler :: "skill_op \<Rightarrow> string \<times> (string \<times> string) list" where
  "skill_handler LListSkills = (''skills.list_installed'', [])"
| "skill_handler LListSkillBundles = (''skills.list_skill_bundles'', [])"
| "skill_handler (LCreateSkillBundle bod) = (''skills.create_skill_bundle'', [])"
| "skill_handler (LUpdateSkillBundle i bod) = (''skills.update_skill_bundle'', [(''bundle_id'', i)])"
| "skill_handler (LDeleteSkillBundle i) = (''skills.delete_skill_bundle'', [(''bundle_id'', i)])"
| "skill_handler (LSearchSkills qq lim) = (''skills.search_skills'', [])"
| "skill_handler (LSkillRankings typ) = (''skills.skills_rankings'', [])"
| "skill_handler (LSkillDetail ky) = (''skills.get_detail'', [(''key'', ky)])"
| "skill_handler (LSkillCatalogDetail ky) = (''skills.catalog_skill_detail'', [(''key'', ky)])"
| "skill_handler (LInstallCatalogSkill ky) = (''skills.install_catalog_skill'', [(''key'', ky)])"
| "skill_handler (LUpgradeCatalogSkill ky acceptPermissions) = (''skills.upgrade_catalog_skill'', [(''key'', ky)])"
| "skill_handler (LUpdateSkill ky bod) = (''skills.update_skill'', [(''key'', ky)])"
| "skill_handler (LInstallSkill bod) = (''skills.install_skill'', [])"
| "skill_handler (LImportSkillFile file acceptSecurityWarnings) = (''skills.import_skill'', [])"
| "skill_handler (LImportSkillDirectory fls acceptSecurityWarnings) = (''skills.import_skill_directory'', [])"
| "skill_handler (LUninstallSkill ky) = (''skills.uninstall_skill'', [(''key'', ky)])"
| "skill_handler (LRestoreSkill ky) = (''skills.restore_skill'', [(''key'', ky)])"
| "skill_handler (LToggleSkill ky disabled acceptSecurityWarnings) = (''skills.toggle_skill'', [(''key'', ky)])"
| "skill_handler (LRateSkill ky rating) = (''skills.rate_skill'', [(''key'', ky)])"
| "skill_handler (LRevealSkill ky) = (''skills.reveal_skill'', [(''key'', ky)])"

datatype file_op =
    LFilesTree file_scope | LFileContent string file_scope | LFileUsage file_scope
    | LUploadFile string file_scope | LDownloadFile string file_scope | LMkdir string file_scope
    | LRenameFile string string file_scope | LDeleteFile string file_scope

primrec file_endpoint :: "file_op \<Rightarrow> endpoint" where
  "file_endpoint (LFilesTree opts) = \<lparr> ep_method = ''GET'',
     ep_path = [Lit ''files'', Lit ''tree''],
     ep_query = scope_query opts, ep_body = None \<rparr>"
| "file_endpoint (LFileContent pth opts) = \<lparr> ep_method = ''GET'',
     ep_path = [Lit ''files'', Lit ''content''],
     ep_query = [(''path'', encodeURIComponent pth)] @ scope_query opts, ep_body = None \<rparr>"
| "file_endpoint (LFileUsage opts) = \<lparr> ep_method = ''GET'',
     ep_path = [Lit ''files'', Lit ''usage''],
     ep_query = scope_query opts, ep_body = None \<rparr>"
| "file_endpoint (LUploadFile pth opts) = \<lparr> ep_method = ''POST'',
     ep_path = [Lit ''files'', Lit ''upload''],
     ep_query = [(''path'', encodeURIComponent pth)] @ scope_query opts, ep_body = None \<rparr>"
| "file_endpoint (LDownloadFile pth opts) = \<lparr> ep_method = ''GET'',
     ep_path = [Lit ''files'', Lit ''download''],
     ep_query = [(''path'', encodeURIComponent pth)] @ scope_query opts, ep_body = None \<rparr>"
| "file_endpoint (LMkdir pth opts) = \<lparr> ep_method = ''POST'',
     ep_path = [Lit ''files'', Lit ''mkdir''],
     ep_query = [], ep_body = Some (JObj ([(''path'', JStr pth)] @ scope_fields opts)) \<rparr>"
| "file_endpoint (LRenameFile pth newName opts) = \<lparr> ep_method = ''POST'',
     ep_path = [Lit ''files'', Lit ''rename''],
     ep_query = [], ep_body = Some (JObj ([(''path'', JStr pth), (''new_name'', JStr newName)] @ scope_fields opts)) \<rparr>"
| "file_endpoint (LDeleteFile pth opts) = \<lparr> ep_method = ''POST'',
     ep_path = [Lit ''files'', Lit ''delete''],
     ep_query = [], ep_body = Some (JObj ([(''path'', JStr pth)] @ scope_fields opts)) \<rparr>"

primrec file_handler :: "file_op \<Rightarrow> string \<times> (string \<times> string) list" where
  "file_handler (LFilesTree opts) = (''files.tree'', [])"
| "file_handler (LFileContent pth opts) = (''files.content'', [])"
| "file_handler (LFileUsage opts) = (''files.usage'', [])"
| "file_handler (LUploadFile pth opts) = (''files.upload'', [])"
| "file_handler (LDownloadFile pth opts) = (''files.download'', [])"
| "file_handler (LMkdir pth opts) = (''files.mkdir'', [])"
| "file_handler (LRenameFile pth newName opts) = (''files.rename'', [])"
| "file_handler (LDeleteFile pth opts) = (''files.delete'', [])"

datatype ears_op =
    LAsrStatus | LTranscribeAudio | LKnowledgeConfig | LSaveKnowledgeConfig json
    | LTestKnowledgeConfig | LListKb | LCreateKb json | LDeleteKb string | LListKbDocs string
    | LDeleteKbDoc string | LRetrieveKb json | LUploadKbDoc string string

primrec ears_endpoint :: "ears_op \<Rightarrow> endpoint" where
  "ears_endpoint LAsrStatus = \<lparr> ep_method = ''GET'',
     ep_path = [Lit ''asr'', Lit ''status''],
     ep_query = [], ep_body = None \<rparr>"
| "ears_endpoint LTranscribeAudio = \<lparr> ep_method = ''POST'',
     ep_path = [Lit ''asr'', Lit ''transcribe''],
     ep_query = [], ep_body = None \<rparr>"
| "ears_endpoint LKnowledgeConfig = \<lparr> ep_method = ''GET'',
     ep_path = [Lit ''knowledge'', Lit ''config''],
     ep_query = [], ep_body = None \<rparr>"
| "ears_endpoint (LSaveKnowledgeConfig bod) = \<lparr> ep_method = ''PUT'',
     ep_path = [Lit ''knowledge'', Lit ''config''],
     ep_query = [], ep_body = Some bod \<rparr>"
| "ears_endpoint LTestKnowledgeConfig = \<lparr> ep_method = ''POST'',
     ep_path = [Lit ''knowledge'', Lit ''config'', Lit ''test''],
     ep_query = [], ep_body = None \<rparr>"
| "ears_endpoint LListKb = \<lparr> ep_method = ''GET'',
     ep_path = [Lit ''knowledge''],
     ep_query = [], ep_body = None \<rparr>"
| "ears_endpoint (LCreateKb bod) = \<lparr> ep_method = ''POST'',
     ep_path = [Lit ''knowledge''],
     ep_query = [], ep_body = Some bod \<rparr>"
| "ears_endpoint (LDeleteKb i) = \<lparr> ep_method = ''DELETE'',
     ep_path = [Lit ''knowledge'', Raw i],
     ep_query = [], ep_body = None \<rparr>"
| "ears_endpoint (LListKbDocs i) = \<lparr> ep_method = ''GET'',
     ep_path = [Lit ''knowledge'', Enc i, Lit ''documents''],
     ep_query = [], ep_body = None \<rparr>"
| "ears_endpoint (LDeleteKbDoc docId) = \<lparr> ep_method = ''DELETE'',
     ep_path = [Lit ''knowledge'', Lit ''documents'', Raw docId],
     ep_query = [], ep_body = None \<rparr>"
| "ears_endpoint (LRetrieveKb bod) = \<lparr> ep_method = ''POST'',
     ep_path = [Lit ''knowledge'', Lit ''retrieve''],
     ep_query = [], ep_body = Some bod \<rparr>"
| "ears_endpoint (LUploadKbDoc i file) = \<lparr> ep_method = ''POST'',
     ep_path = [Lit ''knowledge'', Enc i, Lit ''documents''],
     ep_query = [(''filename'', encodeURIComponent file)], ep_body = None \<rparr>"

primrec ears_handler :: "ears_op \<Rightarrow> string \<times> (string \<times> string) list" where
  "ears_handler LAsrStatus = (''asr.status'', [])"
| "ears_handler LTranscribeAudio = (''asr.transcribe'', [])"
| "ears_handler LKnowledgeConfig = (''knowledge.get_config'', [])"
| "ears_handler (LSaveKnowledgeConfig bod) = (''knowledge.put_config'', [])"
| "ears_handler LTestKnowledgeConfig = (''knowledge.test_config'', [])"
| "ears_handler LListKb = (''knowledge.list_kb'', [])"
| "ears_handler (LCreateKb bod) = (''knowledge.create_kb'', [])"
| "ears_handler (LDeleteKb i) = (''knowledge.delete_kb'', [(''kb_id'', i)])"
| "ears_handler (LListKbDocs i) = (''knowledge.list_docs'', [(''kb_id'', i)])"
| "ears_handler (LDeleteKbDoc docId) = (''knowledge.delete_document'', [(''doc_id'', docId)])"
| "ears_handler (LRetrieveKb bod) = (''knowledge.retrieve'', [])"
| "ears_handler (LUploadKbDoc i file) = (''knowledge.upload_document'', [(''kb_id'', i)])"

subsection \<open>All of them\<close>

datatype local_op =
    SettingsCalls settings_op | MemoryCalls memory_op | IdeaCalls idea_op | LocalDataCalls
    local_data_op | ModelCalls model_op | AssistantCalls assistant_op | FavoriteCalls
    favorite_op | OrchestrationCalls orchestration_op | ExpertCalls expert_op | ConnectorCalls
    connector_op | SkillCalls skill_op | FileCalls file_op | EarsCalls ears_op

primrec local_endpoint :: "local_op \<Rightarrow> endpoint" where
  "local_endpoint (SettingsCalls c) = settings_endpoint c"
| "local_endpoint (MemoryCalls c) = memory_endpoint c"
| "local_endpoint (IdeaCalls c) = idea_endpoint c"
| "local_endpoint (LocalDataCalls c) = local_data_endpoint c"
| "local_endpoint (ModelCalls c) = model_endpoint c"
| "local_endpoint (AssistantCalls c) = assistant_endpoint c"
| "local_endpoint (FavoriteCalls c) = favorite_endpoint c"
| "local_endpoint (OrchestrationCalls c) = orchestration_endpoint c"
| "local_endpoint (ExpertCalls c) = expert_endpoint c"
| "local_endpoint (ConnectorCalls c) = connector_endpoint c"
| "local_endpoint (SkillCalls c) = skill_endpoint c"
| "local_endpoint (FileCalls c) = file_endpoint c"
| "local_endpoint (EarsCalls c) = ears_endpoint c"

primrec local_handler :: "local_op \<Rightarrow> string \<times> (string \<times> string) list" where
  "local_handler (SettingsCalls c) = settings_handler c"
| "local_handler (MemoryCalls c) = memory_handler c"
| "local_handler (IdeaCalls c) = idea_handler c"
| "local_handler (LocalDataCalls c) = local_data_handler c"
| "local_handler (ModelCalls c) = model_handler c"
| "local_handler (AssistantCalls c) = assistant_handler c"
| "local_handler (FavoriteCalls c) = favorite_handler c"
| "local_handler (OrchestrationCalls c) = orchestration_handler c"
| "local_handler (ExpertCalls c) = expert_handler c"
| "local_handler (ConnectorCalls c) = connector_handler c"
| "local_handler (SkillCalls c) = skill_handler c"
| "local_handler (FileCalls c) = file_handler c"
| "local_handler (EarsCalls c) = ears_handler c"

text \<open>The calls whose router the installed Local Agent leaves out.\<close>

primrec retired_settings :: "settings_op \<Rightarrow> bool" where
  "retired_settings (LOpsSummary dys) \<longleftrightarrow> True"
| "retired_settings LBackgroundHealth \<longleftrightarrow> True"
| "retired_settings LSettings \<longleftrightarrow> False"
| "retired_settings (LSaveSettings bod) \<longleftrightarrow> False"
| "retired_settings LSystemSettings \<longleftrightarrow> False"
| "retired_settings (LSaveSystemSettings bod) \<longleftrightarrow> False"
| "retired_settings LRuntimeSettings \<longleftrightarrow> False"
| "retired_settings (LSaveRuntimeSettings vals cleared) \<longleftrightarrow> False"
| "retired_settings (LTestRuntimeSettings grp) \<longleftrightarrow> False"
| "retired_settings LDeviceDiagnostics \<longleftrightarrow> False"
| "retired_settings (LDeviceDiagnosticAction act) \<longleftrightarrow> False"

primrec retired_connector :: "connector_op \<Rightarrow> bool" where
  "retired_connector LKdocsStatus \<longleftrightarrow> True"
| "retired_connector LKdocsConnect \<longleftrightarrow> True"
| "retired_connector LKdocsDisconnect \<longleftrightarrow> True"
| "retired_connector LLocalConnectors \<longleftrightarrow> False"
| "retired_connector (LCreateLocalConnector bod) \<longleftrightarrow> False"
| "retired_connector (LUpdateLocalConnector i bod) \<longleftrightarrow> False"
| "retired_connector (LSetLocalConnectorEnabled i en) \<longleftrightarrow> False"
| "retired_connector (LTestLocalConnector i) \<longleftrightarrow> False"
| "retired_connector (LTestConnectorByName nam) \<longleftrightarrow> False"
| "retired_connector (LSetBuiltinConnectorCredentials nam vals cleared) \<longleftrightarrow> False"
| "retired_connector (LDeleteLocalConnector i) \<longleftrightarrow> False"
| "retired_connector (LKdocsFiles kw knd) \<longleftrightarrow> True"
| "retired_connector (LKdocsFolder driveId parent kuid) \<longleftrightarrow> True"

primrec retired :: "local_op \<Rightarrow> bool" where
  "retired (SettingsCalls c) \<longleftrightarrow> retired_settings c"
| "retired (MemoryCalls c) \<longleftrightarrow> False"
| "retired (IdeaCalls c) \<longleftrightarrow> True"
| "retired (LocalDataCalls c) \<longleftrightarrow> False"
| "retired (ModelCalls c) \<longleftrightarrow> False"
| "retired (AssistantCalls c) \<longleftrightarrow> False"
| "retired (FavoriteCalls c) \<longleftrightarrow> True"
| "retired (OrchestrationCalls c) \<longleftrightarrow> True"
| "retired (ExpertCalls c) \<longleftrightarrow> True"
| "retired (ConnectorCalls c) \<longleftrightarrow> retired_connector c"
| "retired (SkillCalls c) \<longleftrightarrow> False"
| "retired (FileCalls c) \<longleftrightarrow> False"
| "retired (EarsCalls c) \<longleftrightarrow> False"

subsection \<open>Which of them reach a handler\<close>

lemmas local_planning =
  planned_def api_path_def place_holder_def agent_lookup agent_router_lookup route_lookup

lemma settings_planned:
  "planned agent_routes (settings_endpoint c) = Some (settings_handler c)"
  "planned installed_routes (settings_endpoint c) = (if retired_settings c then None else Some (settings_handler c))"
  by (cases c; simp add: local_planning)+

lemma memory_planned:
  "planned agent_routes (memory_endpoint c) = Some (memory_handler c)"
  "planned installed_routes (memory_endpoint c) = Some (memory_handler c)"
  by (cases c; simp add: local_planning)+

lemma idea_planned:
  "planned agent_routes (idea_endpoint c) = Some (idea_handler c)"
  "planned installed_routes (idea_endpoint c) = None"
  by (cases c; simp add: local_planning)+

lemma local_data_planned:
  "planned agent_routes (local_data_endpoint c) = Some (local_data_handler c)"
  "planned installed_routes (local_data_endpoint c) = Some (local_data_handler c)"
  by (cases c; simp add: local_planning)+

lemma model_planned:
  "planned agent_routes (model_endpoint c) = Some (model_handler c)"
  "planned installed_routes (model_endpoint c) = Some (model_handler c)"
  by (cases c; simp add: local_planning)+

lemma assistant_planned:
  "planned agent_routes (assistant_endpoint c) = Some (assistant_handler c)"
  "planned installed_routes (assistant_endpoint c) = Some (assistant_handler c)"
  by (cases c; simp add: local_planning)+

lemma favorite_planned:
  "planned agent_routes (favorite_endpoint c) = Some (favorite_handler c)"
  "planned installed_routes (favorite_endpoint c) = None"
  by (cases c; simp add: local_planning)+

lemma orchestration_planned:
  "planned agent_routes (orchestration_endpoint c) = Some (orchestration_handler c)"
  "planned installed_routes (orchestration_endpoint c) = None"
  by (cases c; simp add: local_planning)+

lemma expert_planned:
  "planned agent_routes (expert_endpoint c) = Some (expert_handler c)"
  "planned installed_routes (expert_endpoint c) = None"
  by (cases c; simp add: local_planning)+

lemma connector_planned:
  "planned agent_routes (connector_endpoint c) = Some (connector_handler c)"
  "planned installed_routes (connector_endpoint c) = (if retired_connector c then None else Some (connector_handler c))"
  by (cases c; simp add: local_planning)+

lemma skill_planned:
  "planned agent_routes (skill_endpoint c) = Some (skill_handler c)"
  "planned installed_routes (skill_endpoint c) = Some (skill_handler c)"
  by (cases c; simp add: local_planning)+

lemma file_planned:
  "planned agent_routes (file_endpoint c) = Some (file_handler c)"
  "planned installed_routes (file_endpoint c) = Some (file_handler c)"
  by (cases c; simp add: local_planning)+

lemma ears_planned:
  "planned agent_routes (ears_endpoint c) = Some (ears_handler c)"
  "planned installed_routes (ears_endpoint c) = Some (ears_handler c)"
  by (cases c; simp add: local_planning)+

lemma local_planned:
  "planned agent_routes (local_endpoint c) = Some (local_handler c)"
  "planned installed_routes (local_endpoint c) = (if retired c then None else Some (local_handler c))"
  by (cases c; simp add: settings_planned memory_planned idea_planned local_data_planned model_planned assistant_planned
      favorite_planned orchestration_planned expert_planned connector_planned skill_planned file_planned ears_planned)+

interpretation development: reaching agent_routes local_endpoint "\<lambda>c. Some (local_handler c)"
  by unfold_locales (rule local_planned(1), rule agent_holder_free)

interpretation installed: reaching installed_routes local_endpoint
    "\<lambda>c. if retired c then None else Some (local_handler c)"
  by unfold_locales (rule local_planned(2), rule installed_holder_free)

text \<open>
  C24. What the installed desktop loses: the development agent gives every local call of the
  client's \<open>lib/api.ts\<close> to the handler meant for it (the four requests \<open>sse.ts\<close>, \<open>skillStore.ts\<close> and
  \<open>authStore.ts\<close> make by themselves are not among them); the installed agent serves the same handlers except for
  the calls of its left-out routers (ideas, experts, orchestrations, Kingsoft documents,
  favourite inspirations, promoted plan items, operations), which the client still makes and
  which find no route at all.
\<close>

theorem installed_agent_loses_the_retired_calls:
  assumes "list_all (piece_ok agent_routes) (ep_path (local_endpoint c))"
    and "list_all (piece_ok installed_routes) (ep_path (local_endpoint c))"
  shows "serve agent_routes (ep_method (local_endpoint c)) (''/api'' @ endpoint_url (local_endpoint c))
           = Some (local_handler c)
       \<and> serve installed_routes (ep_method (local_endpoint c)) (''/api'' @ endpoint_url (local_endpoint c))
           = (if retired c then None else Some (local_handler c))"
  by (intro conjI development.reaches [OF assms(1)] installed.reaches [OF assms(2)])

theorem installed_agent_loses_the_retired_calls_witness:
  "serve agent_routes ''GET'' ''/api/ideas'' = Some (''ideas.list_ideas'', [])
   \<and> serve installed_routes ''GET'' ''/api/ideas'' = None
   \<and> serve installed_routes ''GET'' ''/api/skills'' = Some (''skills.list_installed'', [])"
proof -
  let ?i = "IdeaCalls (LListIdeas None None None)" and ?s = "SkillCalls LListSkills"
  have "list_all (piece_ok t) (ep_path (local_endpoint ?i))" "list_all (piece_ok t) (ep_path (local_endpoint ?s))" for t
    by (simp_all add: unreserved_def)
  from installed_agent_loses_the_retired_calls [OF this(1) this(1)]
    installed_agent_loses_the_retired_calls [OF this(2) this(2)]
  show ?thesis
    by (simp add: endpoint_url_def render_path_def render_query_def form_opt_def)
qed

subsection \<open>Which requests are repeated\<close>

primrec request_of :: "local_effect \<Rightarrow> local_request list" where
  "request_of (Fetched q) = [q]"
| "request_of AuthInvalid = []"

definition fetched :: "local_effect list \<Rightarrow> local_request list" where
  "fetched effs = concat (map request_of effs)"

definition refused_identity :: "http_response res \<Rightarrow> string option \<Rightarrow> bool" where
  "refused_identity answer token \<longleftrightarrow>
     truthy token \<and> (case answer of Inl e \<Rightarrow> False | Inr r \<Rightarrow> hr_status r = 401)"

lemma truthy_None [simp]: "\<not> truthy None"
  by (simp add: truthy_def)

text \<open>
  Only reads are repeated: a local write is sent exactly once, whatever the answer; a read
  is sent a second time exactly when the first was refused with a token, and then without any
  token. Either way the token is dropped, with the event that says so, exactly when it was
  refused, and a result is always the last answer's.
\<close>

theorem only_reads_are_repeated:
  "(case local_send fetch verb path body token of (result, token', effs) \<Rightarrow>
     (let q = \<lparr> lq_method = verb, lq_path = path, lq_token = authHeaders token, lq_body = body \<rparr>
      in fetched effs = [q]
       \<and> token' = (if refused_identity (fetch q) token then None else token)
       \<and> (AuthInvalid \<in> set effs \<longleftrightarrow> refused_identity (fetch q) token)
       \<and> result = local_value verb path (fetch q)))
   \<and> (case local_get fetch path token of (result, token', effs) \<Rightarrow>
     (let q = \<lparr> lq_method = ''GET'', lq_path = path, lq_token = authHeaders token, lq_body = None \<rparr>
      in fetched effs = (if refused_identity (fetch q) token then [q, q\<lparr> lq_token := None \<rparr>] else [q])
       \<and> token' = (if refused_identity (fetch q) token then None else token)
       \<and> (AuthInvalid \<in> set effs \<longleftrightarrow> refused_identity (fetch q) token)
       \<and> result = local_value ''GET'' path (fetch (last (fetched effs)))))"
  by (auto simp: local_send_def local_get_def Let_def fetched_def refused_identity_def
      invalidateStaleServerToken_def local_value_def split: sum.splits prod.splits if_splits)

end
