(* ===== verification/ServerCalls.thy ===== *)
theory ServerCalls
  imports ServerRoutes LocalCalls
begin

text \<open>
  The desktop client's calls to the Server (\<open>src/src/lib/api.ts\<close>): the request each makes and
  the handler it is meant for, against the Server's table of routes. Most paths take their
  identifiers as they are, so that these have to be made of unreserved characters.
\<close>

subsection \<open>The calls\<close>

datatype account_call =
    SMe | SRegister string string | SLogin string string | SSsoProviders | SAuthCapabilities |
    SSsoStart string string | SSsoPoll string string | SLogout

primrec server_account_endpoint :: "account_call \<Rightarrow> endpoint" where
  "server_account_endpoint SMe = \<lparr> ep_method = ''GET'',
     ep_path = [Lit ''me''],
     ep_query = [], ep_body = None \<rparr>"
| "server_account_endpoint (SRegister nam pwd) = \<lparr> ep_method = ''POST'',
     ep_path = [Lit ''auth'', Lit ''register''],
     ep_query = [], ep_body = Some (JObj [(''name'', JStr nam), (''password'', JStr pwd)]) \<rparr>"
| "server_account_endpoint (SLogin nam pwd) = \<lparr> ep_method = ''POST'',
     ep_path = [Lit ''auth'', Lit ''login''],
     ep_query = [], ep_body = Some (JObj [(''name'', JStr nam), (''password'', JStr pwd)]) \<rparr>"
| "server_account_endpoint SSsoProviders = \<lparr> ep_method = ''GET'',
     ep_path = [Lit ''auth'', Lit ''sso'', Lit ''providers''],
     ep_query = [], ep_body = None \<rparr>"
| "server_account_endpoint SAuthCapabilities = \<lparr> ep_method = ''GET'',
     ep_path = [Lit ''auth'', Lit ''capabilities''],
     ep_query = [], ep_body = None \<rparr>"
| "server_account_endpoint (SSsoStart prov invite_code) = \<lparr> ep_method = ''POST'',
     ep_path = [Lit ''auth'', Lit ''sso'', Lit ''start''],
     ep_query = [], ep_body = Some (JObj [(''provider'', JStr prov), (''invite_code'', JStr invite_code)]) \<rparr>"
| "server_account_endpoint (SSsoPoll attempt_id attempt_token) = \<lparr> ep_method = ''POST'',
     ep_path = [Lit ''auth'', Lit ''sso'', Lit ''poll''],
     ep_query = [], ep_body = Some (JObj [(''attempt_id'', JStr attempt_id), (''attempt_token'', JStr attempt_token)]) \<rparr>"
| "server_account_endpoint SLogout = \<lparr> ep_method = ''POST'',
     ep_path = [Lit ''auth'', Lit ''logout''],
     ep_query = [], ep_body = None \<rparr>"

primrec server_account_handler :: "account_call \<Rightarrow> string \<times> (string \<times> string) list" where
  "server_account_handler SMe = (''auth.me'', [])"
| "server_account_handler (SRegister nam pwd) = (''auth.register'', [])"
| "server_account_handler (SLogin nam pwd) = (''auth.login'', [])"
| "server_account_handler SSsoProviders = (''sso.providers'', [])"
| "server_account_handler SAuthCapabilities = (''auth.capabilities'', [])"
| "server_account_handler (SSsoStart prov invite_code) = (''sso.start_sso'', [])"
| "server_account_handler (SSsoPoll attempt_id attempt_token) = (''sso.poll_sso'', [])"
| "server_account_handler SLogout = (''auth.logout'', [])"

datatype team_call =
    SComments string | SPostComment string string | SItemComments string string |
    SPostItemComment string string string | SPresence string | STimeline string |
    SProjectActivity string | SCustomFields string | SCreateCustomField string json |
    SUpdateCustomField string string json | SDeleteCustomField string string | SSprints string |
    SCreateSprint string json | SUpdateSprint string string json | SDeleteSprint string string |
    SPmPreferences string | SUpdatePmPreferences string json | SNotifications | SMarkNotifs
    "string list option"

primrec server_team_endpoint :: "team_call \<Rightarrow> endpoint" where
  "server_team_endpoint (SComments pid) = \<lparr> ep_method = ''GET'',
     ep_path = [Lit ''projects'', Raw pid, Lit ''comments''],
     ep_query = [], ep_body = None \<rparr>"
| "server_team_endpoint (SPostComment pid bod) = \<lparr> ep_method = ''POST'',
     ep_path = [Lit ''projects'', Raw pid, Lit ''comments''],
     ep_query = [], ep_body = Some (JObj [(''body'', JStr bod)]) \<rparr>"
| "server_team_endpoint (SItemComments pid wid) = \<lparr> ep_method = ''GET'',
     ep_path = [Lit ''projects'', Raw pid, Lit ''work-items'', Raw wid, Lit ''comments''],
     ep_query = [], ep_body = None \<rparr>"
| "server_team_endpoint (SPostItemComment pid wid bod) = \<lparr> ep_method = ''POST'',
     ep_path = [Lit ''projects'', Raw pid, Lit ''work-items'', Raw wid, Lit ''comments''],
     ep_query = [], ep_body = Some (JObj [(''body'', JStr bod)]) \<rparr>"
| "server_team_endpoint (SPresence pid) = \<lparr> ep_method = ''GET'',
     ep_path = [Lit ''projects'', Raw pid, Lit ''presence''],
     ep_query = [], ep_body = None \<rparr>"
| "server_team_endpoint (STimeline pid) = \<lparr> ep_method = ''GET'',
     ep_path = [Lit ''projects'', Raw pid, Lit ''timeline''],
     ep_query = [], ep_body = None \<rparr>"
| "server_team_endpoint (SProjectActivity pid) = \<lparr> ep_method = ''GET'',
     ep_path = [Lit ''projects'', Raw pid, Lit ''activity''],
     ep_query = [], ep_body = None \<rparr>"
| "server_team_endpoint (SCustomFields pid) = \<lparr> ep_method = ''GET'',
     ep_path = [Lit ''projects'', Raw pid, Lit ''custom-fields''],
     ep_query = [], ep_body = None \<rparr>"
| "server_team_endpoint (SCreateCustomField pid bod) = \<lparr> ep_method = ''POST'',
     ep_path = [Lit ''projects'', Raw pid, Lit ''custom-fields''],
     ep_query = [], ep_body = Some bod \<rparr>"
| "server_team_endpoint (SUpdateCustomField pid fieldId bod) = \<lparr> ep_method = ''PATCH'',
     ep_path = [Lit ''projects'', Raw pid, Lit ''custom-fields'', Raw fieldId],
     ep_query = [], ep_body = Some bod \<rparr>"
| "server_team_endpoint (SDeleteCustomField pid fieldId) = \<lparr> ep_method = ''DELETE'',
     ep_path = [Lit ''projects'', Raw pid, Lit ''custom-fields'', Raw fieldId],
     ep_query = [], ep_body = None \<rparr>"
| "server_team_endpoint (SSprints pid) = \<lparr> ep_method = ''GET'',
     ep_path = [Lit ''projects'', Raw pid, Lit ''sprints''],
     ep_query = [], ep_body = None \<rparr>"
| "server_team_endpoint (SCreateSprint pid bod) = \<lparr> ep_method = ''POST'',
     ep_path = [Lit ''projects'', Raw pid, Lit ''sprints''],
     ep_query = [], ep_body = Some bod \<rparr>"
| "server_team_endpoint (SUpdateSprint pid sprintId bod) = \<lparr> ep_method = ''PATCH'',
     ep_path = [Lit ''projects'', Raw pid, Lit ''sprints'', Raw sprintId],
     ep_query = [], ep_body = Some bod \<rparr>"
| "server_team_endpoint (SDeleteSprint pid sprintId) = \<lparr> ep_method = ''DELETE'',
     ep_path = [Lit ''projects'', Raw pid, Lit ''sprints'', Raw sprintId],
     ep_query = [], ep_body = None \<rparr>"
| "server_team_endpoint (SPmPreferences pid) = \<lparr> ep_method = ''GET'',
     ep_path = [Lit ''projects'', Raw pid, Lit ''pm-preferences''],
     ep_query = [], ep_body = None \<rparr>"
| "server_team_endpoint (SUpdatePmPreferences pid pat) = \<lparr> ep_method = ''PUT'',
     ep_path = [Lit ''projects'', Raw pid, Lit ''pm-preferences''],
     ep_query = [], ep_body = Some pat \<rparr>"
| "server_team_endpoint SNotifications = \<lparr> ep_method = ''GET'',
     ep_path = [Lit ''notifications''],
     ep_query = [], ep_body = None \<rparr>"
| "server_team_endpoint (SMarkNotifs ids) = \<lparr> ep_method = ''POST'',
     ep_path = [Lit ''notifications'', Lit ''read''],
     ep_query = [], ep_body = Some (JObj (case ids of None \<Rightarrow> [] | Some xs \<Rightarrow> [(''ids'', JArr (map JStr xs))])) \<rparr>"

primrec server_team_handler :: "team_call \<Rightarrow> string \<times> (string \<times> string) list" where
  "server_team_handler (SComments pid) = (''comments.get_comments'', [(''project_id'', pid)])"
| "server_team_handler (SPostComment pid bod) = (''comments.post_comment'', [(''project_id'', pid)])"
| "server_team_handler (SItemComments pid wid) = (''comments.get_item_comments'', [(''project_id'', pid), (''wid'', wid)])"
| "server_team_handler (SPostItemComment pid wid bod) = (''comments.post_item_comment'', [(''project_id'', pid), (''wid'', wid)])"
| "server_team_handler (SPresence pid) = (''comments.get_presence'', [(''project_id'', pid)])"
| "server_team_handler (STimeline pid) = (''timeline.get_timeline'', [(''project_id'', pid)])"
| "server_team_handler (SProjectActivity pid) = (''work_items.project_activity'', [(''project_id'', pid)])"
| "server_team_handler (SCustomFields pid) = (''pm.list_custom_fields'', [(''project_id'', pid)])"
| "server_team_handler (SCreateCustomField pid bod) = (''pm.create_custom_field'', [(''project_id'', pid)])"
| "server_team_handler (SUpdateCustomField pid fieldId bod) = (''pm.update_custom_field'', [(''project_id'', pid), (''field_id'', fieldId)])"
| "server_team_handler (SDeleteCustomField pid fieldId) = (''pm.delete_custom_field'', [(''project_id'', pid), (''field_id'', fieldId)])"
| "server_team_handler (SSprints pid) = (''pm.list_sprints'', [(''project_id'', pid)])"
| "server_team_handler (SCreateSprint pid bod) = (''pm.create_sprint'', [(''project_id'', pid)])"
| "server_team_handler (SUpdateSprint pid sprintId bod) = (''pm.update_sprint'', [(''project_id'', pid), (''sprint_id'', sprintId)])"
| "server_team_handler (SDeleteSprint pid sprintId) = (''pm.delete_sprint'', [(''project_id'', pid), (''sprint_id'', sprintId)])"
| "server_team_handler (SPmPreferences pid) = (''pm.get_pm_preferences'', [(''project_id'', pid)])"
| "server_team_handler (SUpdatePmPreferences pid pat) = (''pm.update_pm_preferences'', [(''project_id'', pid)])"
| "server_team_handler SNotifications = (''notifications.list_notifs'', [])"
| "server_team_handler (SMarkNotifs ids) = (''notifications.mark_read'', [])"

datatype run_call =
    SSessions | SSession string | SMessages string | SRuns "string option" "string option"
    "string option" | SRunsOf string | SRun string | SRunArtifacts string | SAsset string |
    SPatchAsset string json | SCreateRun json | SPatchSession string json | SDeleteSession
    string int | SPauseRun string | SResumeRun string | SCancelRun string | SAnswerRun string
    string "string list"

primrec server_run_endpoint :: "run_call \<Rightarrow> endpoint" where
  "server_run_endpoint SSessions = \<lparr> ep_method = ''GET'',
     ep_path = [Lit ''sessions''],
     ep_query = [], ep_body = None \<rparr>"
| "server_run_endpoint (SSession i) = \<lparr> ep_method = ''GET'',
     ep_path = [Lit ''sessions'', Raw i],
     ep_query = [], ep_body = None \<rparr>"
| "server_run_endpoint (SMessages i) = \<lparr> ep_method = ''GET'',
     ep_path = [Lit ''sessions'', Raw i, Lit ''messages''],
     ep_query = [], ep_body = None \<rparr>"
| "server_run_endpoint (SRuns sessionId projectId workItemId) = \<lparr> ep_method = ''GET'',
     ep_path = [Lit ''runs''],
     ep_query = form_opt ''session_id'' sessionId @ form_opt ''project_id'' projectId @ form_opt ''work_item_id'' workItemId, ep_body = None \<rparr>"
| "server_run_endpoint (SRunsOf i) = \<lparr> ep_method = ''GET'',
     ep_path = [Lit ''runs''],
     ep_query = [(''session_id'', encodeURIComponent i)], ep_body = None \<rparr>"
| "server_run_endpoint (SRun i) = \<lparr> ep_method = ''GET'',
     ep_path = [Lit ''runs'', Raw i],
     ep_query = [], ep_body = None \<rparr>"
| "server_run_endpoint (SRunArtifacts i) = \<lparr> ep_method = ''GET'',
     ep_path = [Lit ''assets''],
     ep_query = [(''run_id'', encodeURIComponent i)], ep_body = None \<rparr>"
| "server_run_endpoint (SAsset i) = \<lparr> ep_method = ''GET'',
     ep_path = [Lit ''assets'', Raw i],
     ep_query = [], ep_body = None \<rparr>"
| "server_run_endpoint (SPatchAsset i bod) = \<lparr> ep_method = ''PATCH'',
     ep_path = [Lit ''assets'', Raw i],
     ep_query = [], ep_body = Some bod \<rparr>"
| "server_run_endpoint (SCreateRun bod) = \<lparr> ep_method = ''POST'',
     ep_path = [Lit ''runs''],
     ep_query = [], ep_body = Some bod \<rparr>"
| "server_run_endpoint (SPatchSession i bod) = \<lparr> ep_method = ''PATCH'',
     ep_path = [Lit ''sessions'', Raw i],
     ep_query = [], ep_body = Some bod \<rparr>"
| "server_run_endpoint (SDeleteSession i ver) = \<lparr> ep_method = ''DELETE'',
     ep_path = [Lit ''sessions'', Raw i],
     ep_query = [(''expected_version'', dec_int ver)], ep_body = None \<rparr>"
| "server_run_endpoint (SPauseRun runId) = \<lparr> ep_method = ''POST'',
     ep_path = [Lit ''runs'', Raw runId, Lit ''pause''],
     ep_query = [], ep_body = None \<rparr>"
| "server_run_endpoint (SResumeRun runId) = \<lparr> ep_method = ''POST'',
     ep_path = [Lit ''runs'', Raw runId, Lit ''resume''],
     ep_query = [], ep_body = None \<rparr>"
| "server_run_endpoint (SCancelRun runId) = \<lparr> ep_method = ''POST'',
     ep_path = [Lit ''runs'', Raw runId, Lit ''cancel''],
     ep_query = [], ep_body = None \<rparr>"
| "server_run_endpoint (SAnswerRun runId questionEventId answs) = \<lparr> ep_method = ''POST'',
     ep_path = [Lit ''runs'', Raw runId, Lit ''answer''],
     ep_query = [], ep_body = Some (JObj [(''question_event_id'', JStr questionEventId), (''answers'', JArr (map JStr answs))]) \<rparr>"

primrec server_run_handler :: "run_call \<Rightarrow> string \<times> (string \<times> string) list" where
  "server_run_handler SSessions = (''business.list_sessions'', [])"
| "server_run_handler (SSession i) = (''business.get_session'', [(''session_id'', i)])"
| "server_run_handler (SMessages i) = (''business.list_messages'', [(''session_id'', i)])"
| "server_run_handler (SRuns sessionId projectId workItemId) = (''business.list_runs'', [])"
| "server_run_handler (SRunsOf i) = (''business.list_runs'', [])"
| "server_run_handler (SRun i) = (''business.get_run'', [(''run_id'', i)])"
| "server_run_handler (SRunArtifacts i) = (''business.list_assets'', [])"
| "server_run_handler (SAsset i) = (''business.get_asset'', [(''asset_id'', i)])"
| "server_run_handler (SPatchAsset i bod) = (''business.update_asset'', [(''asset_id'', i)])"
| "server_run_handler (SCreateRun bod) = (''business.create_run'', [])"
| "server_run_handler (SPatchSession i bod) = (''business.update_session'', [(''session_id'', i)])"
| "server_run_handler (SDeleteSession i ver) = (''business.delete_session'', [(''session_id'', i)])"
| "server_run_handler (SPauseRun runId) = (''run_protocol.pause_run'', [(''run_id'', runId)])"
| "server_run_handler (SResumeRun runId) = (''run_protocol.resume_run'', [(''run_id'', runId)])"
| "server_run_handler (SCancelRun runId) = (''run_protocol.cancel_run'', [(''run_id'', runId)])"
| "server_run_handler (SAnswerRun runId questionEventId answs) = (''run_protocol.answer_user'', [(''run_id'', runId)])"

datatype project_call =
    SProjects | SCreateProject json | SProject string | SUpdateProject string json |
    SProjectSessions string | SMembers string | SAddMember string string string |
    SUpdateMemberRole string string string | SRemoveMember string string | SCatalog

primrec server_project_endpoint :: "project_call \<Rightarrow> endpoint" where
  "server_project_endpoint SProjects = \<lparr> ep_method = ''GET'',
     ep_path = [Lit ''projects''],
     ep_query = [], ep_body = None \<rparr>"
| "server_project_endpoint (SCreateProject bod) = \<lparr> ep_method = ''POST'',
     ep_path = [Lit ''projects''],
     ep_query = [], ep_body = Some bod \<rparr>"
| "server_project_endpoint (SProject i) = \<lparr> ep_method = ''GET'',
     ep_path = [Lit ''projects'', Raw i],
     ep_query = [], ep_body = None \<rparr>"
| "server_project_endpoint (SUpdateProject i pat) = \<lparr> ep_method = ''PATCH'',
     ep_path = [Lit ''projects'', Raw i],
     ep_query = [], ep_body = Some pat \<rparr>"
| "server_project_endpoint (SProjectSessions i) = \<lparr> ep_method = ''GET'',
     ep_path = [Lit ''sessions''],
     ep_query = [(''project_id'', encodeURIComponent i)], ep_body = None \<rparr>"
| "server_project_endpoint (SMembers i) = \<lparr> ep_method = ''GET'',
     ep_path = [Lit ''projects'', Raw i, Lit ''members''],
     ep_query = [], ep_body = None \<rparr>"
| "server_project_endpoint (SAddMember i nam rol) = \<lparr> ep_method = ''POST'',
     ep_path = [Lit ''projects'', Raw i, Lit ''members''],
     ep_query = [], ep_body = Some (JObj [(''name'', JStr nam), (''role'', JStr rol)]) \<rparr>"
| "server_project_endpoint (SUpdateMemberRole i userId rol) = \<lparr> ep_method = ''PATCH'',
     ep_path = [Lit ''projects'', Raw i, Lit ''members'', Raw userId],
     ep_query = [], ep_body = Some (JObj [(''role'', JStr rol)]) \<rparr>"
| "server_project_endpoint (SRemoveMember i userId) = \<lparr> ep_method = ''DELETE'',
     ep_path = [Lit ''projects'', Raw i, Lit ''members'', Raw userId],
     ep_query = [], ep_body = None \<rparr>"
| "server_project_endpoint SCatalog = \<lparr> ep_method = ''GET'',
     ep_path = [Lit ''catalog''],
     ep_query = [], ep_body = None \<rparr>"

primrec server_project_handler :: "project_call \<Rightarrow> string \<times> (string \<times> string) list" where
  "server_project_handler SProjects = (''projects.list_projects'', [])"
| "server_project_handler (SCreateProject bod) = (''projects.create_project'', [])"
| "server_project_handler (SProject i) = (''projects.get_project'', [(''project_id'', i)])"
| "server_project_handler (SUpdateProject i pat) = (''projects.update_project'', [(''project_id'', i)])"
| "server_project_handler (SProjectSessions i) = (''business.list_sessions'', [])"
| "server_project_handler (SMembers i) = (''projects.project_members'', [(''project_id'', i)])"
| "server_project_handler (SAddMember i nam rol) = (''projects.add_project_member'', [(''project_id'', i)])"
| "server_project_handler (SUpdateMemberRole i userId rol) = (''projects.change_member_role'', [(''project_id'', i), (''account_id'', userId)])"
| "server_project_handler (SRemoveMember i userId) = (''projects.remove_member'', [(''project_id'', i), (''account_id'', userId)])"
| "server_project_handler SCatalog = (''catalog.list_all_catalog'', [])"

datatype task_call =
    SWorkItems string | SPersonalActionItems string | SCreateWorkItem string json |
    SUpdateWorkItem string string json | SDeleteWorkItem string string | SWorkItemDelivery
    string string | SAcceptWorkItemDelivery string string string int | SAssetGrant string |
    SAssetContent string | SMilestones string | SCreateMilestone string json | SUpdateMilestone
    string string json | SDeleteMilestone string string | SGovernance string | SCreateGovernance
    string json | SUpdateGovernance string string json | SRiskActionTask string string json |
    SDeleteGovernance string string | SProjectHealth string | SHealthPortfolio | SHealthEvents
    string

primrec server_task_endpoint :: "task_call \<Rightarrow> endpoint" where
  "server_task_endpoint (SWorkItems prj) = \<lparr> ep_method = ''GET'',
     ep_path = [Lit ''projects'', Raw prj, Lit ''work-items''],
     ep_query = [], ep_body = None \<rparr>"
| "server_task_endpoint (SPersonalActionItems asOf) = \<lparr> ep_method = ''GET'',
     ep_path = [Lit ''work-items'', Lit ''action-items''],
     ep_query = [(''as_of'', encodeURIComponent asOf)], ep_body = None \<rparr>"
| "server_task_endpoint (SCreateWorkItem prj bod) = \<lparr> ep_method = ''POST'',
     ep_path = [Lit ''projects'', Raw prj, Lit ''work-items''],
     ep_query = [], ep_body = Some bod \<rparr>"
| "server_task_endpoint (SUpdateWorkItem prj i pat) = \<lparr> ep_method = ''PATCH'',
     ep_path = [Lit ''projects'', Raw prj, Lit ''work-items'', Raw i],
     ep_query = [], ep_body = Some pat \<rparr>"
| "server_task_endpoint (SDeleteWorkItem prj i) = \<lparr> ep_method = ''DELETE'',
     ep_path = [Lit ''projects'', Raw prj, Lit ''work-items'', Raw i],
     ep_query = [], ep_body = None \<rparr>"
| "server_task_endpoint (SWorkItemDelivery prj i) = \<lparr> ep_method = ''GET'',
     ep_path = [Lit ''projects'', Raw prj, Lit ''work-items'', Raw i, Lit ''delivery''],
     ep_query = [], ep_body = None \<rparr>"
| "server_task_endpoint (SAcceptWorkItemDelivery prj i runId artifactCount) = \<lparr> ep_method = ''POST'',
     ep_path = [Lit ''projects'', Raw prj, Lit ''work-items'', Raw i, Lit ''accept''],
     ep_query = [], ep_body = Some (JObj [(''run_id'', JStr runId), (''artifact_count'', JNum artifactCount)]) \<rparr>"
| "server_task_endpoint (SAssetGrant assetId) = \<lparr> ep_method = ''POST'',
     ep_path = [Lit ''assets'', Raw assetId, Lit ''download-grant''],
     ep_query = [], ep_body = None \<rparr>"
| "server_task_endpoint (SAssetContent assetId) = \<lparr> ep_method = ''GET'',
     ep_path = [Lit ''assets'', Raw assetId, Lit ''content''],
     ep_query = [(''download'', ''true'')], ep_body = None \<rparr>"
| "server_task_endpoint (SMilestones prj) = \<lparr> ep_method = ''GET'',
     ep_path = [Lit ''projects'', Raw prj, Lit ''milestones''],
     ep_query = [], ep_body = None \<rparr>"
| "server_task_endpoint (SCreateMilestone prj bod) = \<lparr> ep_method = ''POST'',
     ep_path = [Lit ''projects'', Raw prj, Lit ''milestones''],
     ep_query = [], ep_body = Some bod \<rparr>"
| "server_task_endpoint (SUpdateMilestone prj i pat) = \<lparr> ep_method = ''PATCH'',
     ep_path = [Lit ''projects'', Raw prj, Lit ''milestones'', Raw i],
     ep_query = [], ep_body = Some pat \<rparr>"
| "server_task_endpoint (SDeleteMilestone prj i) = \<lparr> ep_method = ''DELETE'',
     ep_path = [Lit ''projects'', Raw prj, Lit ''milestones'', Raw i],
     ep_query = [], ep_body = None \<rparr>"
| "server_task_endpoint (SGovernance prj) = \<lparr> ep_method = ''GET'',
     ep_path = [Lit ''projects'', Enc prj, Lit ''governance''],
     ep_query = [], ep_body = None \<rparr>"
| "server_task_endpoint (SCreateGovernance prj bod) = \<lparr> ep_method = ''POST'',
     ep_path = [Lit ''projects'', Raw prj, Lit ''governance''],
     ep_query = [], ep_body = Some bod \<rparr>"
| "server_task_endpoint (SUpdateGovernance prj i pat) = \<lparr> ep_method = ''PATCH'',
     ep_path = [Lit ''projects'', Raw prj, Lit ''governance'', Raw i],
     ep_query = [], ep_body = Some pat \<rparr>"
| "server_task_endpoint (SRiskActionTask prj i bod) = \<lparr> ep_method = ''POST'',
     ep_path = [Lit ''projects'', Raw prj, Lit ''governance'', Raw i, Lit ''action-task''],
     ep_query = [], ep_body = Some bod \<rparr>"
| "server_task_endpoint (SDeleteGovernance prj i) = \<lparr> ep_method = ''DELETE'',
     ep_path = [Lit ''projects'', Raw prj, Lit ''governance'', Raw i],
     ep_query = [], ep_body = None \<rparr>"
| "server_task_endpoint (SProjectHealth prj) = \<lparr> ep_method = ''GET'',
     ep_path = [Lit ''projects'', Enc prj, Lit ''health''],
     ep_query = [], ep_body = None \<rparr>"
| "server_task_endpoint SHealthPortfolio = \<lparr> ep_method = ''GET'',
     ep_path = [Lit ''project-health''],
     ep_query = [], ep_body = None \<rparr>"
| "server_task_endpoint (SHealthEvents prj) = \<lparr> ep_method = ''GET'',
     ep_path = [Lit ''projects'', Enc prj, Lit ''health-events''],
     ep_query = [], ep_body = None \<rparr>"

primrec server_task_handler :: "task_call \<Rightarrow> string \<times> (string \<times> string) list" where
  "server_task_handler (SWorkItems prj) = (''work_items.list_items'', [(''project_id'', prj)])"
| "server_task_handler (SPersonalActionItems asOf) = (''work_items.personal_action_items'', [])"
| "server_task_handler (SCreateWorkItem prj bod) = (''work_items.create_item'', [(''project_id'', prj)])"
| "server_task_handler (SUpdateWorkItem prj i pat) = (''work_items.update_item'', [(''project_id'', prj), (''wid'', i)])"
| "server_task_handler (SDeleteWorkItem prj i) = (''work_items.delete_item'', [(''project_id'', prj), (''wid'', i)])"
| "server_task_handler (SWorkItemDelivery prj i) = (''work_items.item_delivery'', [(''project_id'', prj), (''wid'', i)])"
| "server_task_handler (SAcceptWorkItemDelivery prj i runId artifactCount) = (''work_items.accept_item'', [(''project_id'', prj), (''wid'', i)])"
| "server_task_handler (SAssetGrant assetId) = (''assets.download_grant'', [(''asset_id'', assetId)])"
| "server_task_handler (SAssetContent assetId) = (''assets.download_content'', [(''asset_id'', assetId)])"
| "server_task_handler (SMilestones prj) = (''milestones.list_items'', [(''project_id'', prj)])"
| "server_task_handler (SCreateMilestone prj bod) = (''milestones.create_item'', [(''project_id'', prj)])"
| "server_task_handler (SUpdateMilestone prj i pat) = (''milestones.update_item'', [(''project_id'', prj), (''mid'', i)])"
| "server_task_handler (SDeleteMilestone prj i) = (''milestones.delete_item'', [(''project_id'', prj), (''mid'', i)])"
| "server_task_handler (SGovernance prj) = (''governance.list_records'', [(''project_id'', prj)])"
| "server_task_handler (SCreateGovernance prj bod) = (''governance.create_record'', [(''project_id'', prj)])"
| "server_task_handler (SUpdateGovernance prj i pat) = (''governance.update_record'', [(''project_id'', prj), (''record_id'', i)])"
| "server_task_handler (SRiskActionTask prj i bod) = (''governance.create_action_task'', [(''project_id'', prj), (''record_id'', i)])"
| "server_task_handler (SDeleteGovernance prj i) = (''governance.delete_record'', [(''project_id'', prj), (''record_id'', i)])"
| "server_task_handler (SProjectHealth prj) = (''project_health.project_health'', [(''project_id'', prj)])"
| "server_task_handler SHealthPortfolio = (''project_health.project_health_portfolio'', [])"
| "server_task_handler (SHealthEvents prj) = (''project_health.project_health_events'', [(''project_id'', prj)])"

datatype automation_call =
    SAutomations | SCreateAutomation json | SAutomation string | SUpdateAutomation string json |
    SDeleteAutomation string int | SRunAutomation string | SAutomationFires string |
    SReplayAutomationFire string string | SIgnoreAutomationFire string | SAutomationWebhook
    string | SCreateAutomationWebhook string | SRotateAutomationWebhook string |
    SDeleteAutomationWebhook string

primrec server_automation_endpoint :: "automation_call \<Rightarrow> endpoint" where
  "server_automation_endpoint SAutomations = \<lparr> ep_method = ''GET'',
     ep_path = [Lit ''automations''],
     ep_query = [], ep_body = None \<rparr>"
| "server_automation_endpoint (SCreateAutomation bod) = \<lparr> ep_method = ''POST'',
     ep_path = [Lit ''automations''],
     ep_query = [], ep_body = Some bod \<rparr>"
| "server_automation_endpoint (SAutomation i) = \<lparr> ep_method = ''GET'',
     ep_path = [Lit ''automations'', Raw i],
     ep_query = [], ep_body = None \<rparr>"
| "server_automation_endpoint (SUpdateAutomation i pat) = \<lparr> ep_method = ''PATCH'',
     ep_path = [Lit ''automations'', Raw i],
     ep_query = [], ep_body = Some pat \<rparr>"
| "server_automation_endpoint (SDeleteAutomation i ver) = \<lparr> ep_method = ''DELETE'',
     ep_path = [Lit ''automations'', Raw i],
     ep_query = [(''expected_version'', dec_int ver)], ep_body = None \<rparr>"
| "server_automation_endpoint (SRunAutomation i) = \<lparr> ep_method = ''POST'',
     ep_path = [Lit ''automations'', Raw i, Lit ''run''],
     ep_query = [], ep_body = None \<rparr>"
| "server_automation_endpoint (SAutomationFires sts) = \<lparr> ep_method = ''GET'',
     ep_path = [Lit ''automation-fires''],
     ep_query = [(''status'', encodeURIComponent sts)], ep_body = None \<rparr>"
| "server_automation_endpoint (SReplayAutomationFire i idempotencyKey) = \<lparr> ep_method = ''POST'',
     ep_path = [Lit ''automation-fires'', Raw i, Lit ''replay''],
     ep_query = [], ep_body = Some (JObj [(''idempotency_key'', JStr idempotencyKey)]) \<rparr>"
| "server_automation_endpoint (SIgnoreAutomationFire i) = \<lparr> ep_method = ''POST'',
     ep_path = [Lit ''automation-fires'', Raw i, Lit ''ignore''],
     ep_query = [], ep_body = Some (JObj []) \<rparr>"
| "server_automation_endpoint (SAutomationWebhook i) = \<lparr> ep_method = ''GET'',
     ep_path = [Lit ''automations'', Raw i, Lit ''webhook''],
     ep_query = [], ep_body = None \<rparr>"
| "server_automation_endpoint (SCreateAutomationWebhook i) = \<lparr> ep_method = ''POST'',
     ep_path = [Lit ''automations'', Raw i, Lit ''webhook''],
     ep_query = [], ep_body = Some (JObj []) \<rparr>"
| "server_automation_endpoint (SRotateAutomationWebhook i) = \<lparr> ep_method = ''POST'',
     ep_path = [Lit ''automations'', Raw i, Lit ''webhook'', Lit ''rotate''],
     ep_query = [], ep_body = Some (JObj []) \<rparr>"
| "server_automation_endpoint (SDeleteAutomationWebhook i) = \<lparr> ep_method = ''DELETE'',
     ep_path = [Lit ''automations'', Raw i, Lit ''webhook''],
     ep_query = [], ep_body = None \<rparr>"

primrec server_automation_handler :: "automation_call \<Rightarrow> string \<times> (string \<times> string) list" where
  "server_automation_handler SAutomations = (''business.list_automations'', [])"
| "server_automation_handler (SCreateAutomation bod) = (''business.create_automation'', [])"
| "server_automation_handler (SAutomation i) = (''business.get_automation'', [(''automation_id'', i)])"
| "server_automation_handler (SUpdateAutomation i pat) = (''business.update_automation'', [(''automation_id'', i)])"
| "server_automation_handler (SDeleteAutomation i ver) = (''business.delete_automation'', [(''automation_id'', i)])"
| "server_automation_handler (SRunAutomation i) = (''business.run_automation_now'', [(''automation_id'', i)])"
| "server_automation_handler (SAutomationFires sts) = (''business.list_automation_fires'', [])"
| "server_automation_handler (SReplayAutomationFire i idempotencyKey) = (''business.replay_automation_fire'', [(''fire_id'', i)])"
| "server_automation_handler (SIgnoreAutomationFire i) = (''business.ignore_automation_fire'', [(''fire_id'', i)])"
| "server_automation_handler (SAutomationWebhook i) = (''automation_webhooks.get_webhook'', [(''automation_id'', i)])"
| "server_automation_handler (SCreateAutomationWebhook i) = (''automation_webhooks.create_webhook'', [(''automation_id'', i)])"
| "server_automation_handler (SRotateAutomationWebhook i) = (''automation_webhooks.rotate_webhook'', [(''automation_id'', i)])"
| "server_automation_handler (SDeleteAutomationWebhook i) = (''automation_webhooks.delete_webhook'', [(''automation_id'', i)])"

subsection \<open>All of them\<close>

datatype server_op =
    AccountRequests account_call | TeamRequests team_call | RunRequests run_call |
    ProjectRequests project_call | TaskRequests task_call | AutomationRequests automation_call

primrec server_endpoint :: "server_op \<Rightarrow> endpoint" where
  "server_endpoint (AccountRequests c) = server_account_endpoint c"
| "server_endpoint (TeamRequests c) = server_team_endpoint c"
| "server_endpoint (RunRequests c) = server_run_endpoint c"
| "server_endpoint (ProjectRequests c) = server_project_endpoint c"
| "server_endpoint (TaskRequests c) = server_task_endpoint c"
| "server_endpoint (AutomationRequests c) = server_automation_endpoint c"

primrec server_handler :: "server_op \<Rightarrow> string \<times> (string \<times> string) list" where
  "server_handler (AccountRequests c) = server_account_handler c"
| "server_handler (TeamRequests c) = server_team_handler c"
| "server_handler (RunRequests c) = server_run_handler c"
| "server_handler (ProjectRequests c) = server_project_handler c"
| "server_handler (TaskRequests c) = server_task_handler c"
| "server_handler (AutomationRequests c) = server_automation_handler c"

subsection \<open>They reach their handlers\<close>

lemmas server_planning = planned_def api_path_def place_holder_def server_lookup router_lookup route_lookup

lemma server_account_planned: "planned server_routes (server_account_endpoint c) = Some (server_account_handler c)"
  by (cases c) (simp_all add: server_planning)

lemma server_team_planned: "planned server_routes (server_team_endpoint c) = Some (server_team_handler c)"
  by (cases c) (simp_all add: server_planning)

lemma server_run_planned: "planned server_routes (server_run_endpoint c) = Some (server_run_handler c)"
  by (cases c) (simp_all add: server_planning)

lemma server_project_planned: "planned server_routes (server_project_endpoint c) = Some (server_project_handler c)"
  by (cases c) (simp_all add: server_planning)

lemma server_task_planned: "planned server_routes (server_task_endpoint c) = Some (server_task_handler c)"
  by (cases c) (simp_all add: server_planning)

lemma server_automation_planned: "planned server_routes (server_automation_endpoint c) = Some (server_automation_handler c)"
  by (cases c) (simp_all add: server_planning)

lemma server_planned: "planned server_routes (server_endpoint c) = Some (server_handler c)"
  by (cases c) (simp_all only: server_endpoint.simps server_handler.simps
      server_account_planned server_team_planned server_run_planned
      server_project_planned server_task_planned server_automation_planned)

interpretation direct: reaching server_routes server_endpoint "\<lambda>c. Some (server_handler c)"
  by unfold_locales (rule server_planned, rule server_holder_free)

end
