(* ===== verification/DesktopApi.thy ===== *)
theory DesktopApi
  imports ServerCalls Channels
begin

text \<open>
  The desktop client's operations on the Server that do more than one request or work on the
  answer (\<open>src/src/lib/api.ts\<close>). An operation is a script: the requests it makes one after the
  other and what it does with each answer. A script runs against anything that answers
  requests: the client's channel with its cache and outages, or a model of the Server.
\<close>

subsection \<open>Scripts\<close>

datatype server_ask =
    AskGet server_op bool
  | AskAll server_op string int
  | AskSend server_op "(string \<times> string) list"

datatype 'a script = Done 'a | Fail exn | Ask server_ask "json res \<Rightarrow> 'a script"

primrec and_then :: "'a script \<Rightarrow> ('a \<Rightarrow> 'b script) \<Rightarrow> 'b script" where
  "and_then (Done x) f = f x"
| "and_then (Fail e) f = Fail e"
| "and_then (Ask q k) f = Ask q (\<lambda>r. and_then (k r) f)"

definition returned :: "'a res \<Rightarrow> 'a script" where
  "returned r = (case r of Inl e \<Rightarrow> Fail e | Inr v \<Rightarrow> Done v)"

definition ask :: "server_ask \<Rightarrow> json script" where
  "ask q = Ask q returned"

text \<open>\<open>Promise.all\<close> of two and of three requests: all are made, the first failure is thrown.\<close>

definition both_of :: "'a res \<Rightarrow> 'b res \<Rightarrow> ('a \<times> 'b) res" where
  "both_of r s = bind_res r (\<lambda>x. bind_res s (\<lambda>y. Inr (x, y)))"

definition ask_two :: "server_ask \<Rightarrow> server_ask \<Rightarrow> (json \<times> json) script" where
  "ask_two p q = Ask p (\<lambda>r. Ask q (\<lambda>s. returned (both_of r s)))"

definition ask_three :: "server_ask \<Rightarrow> server_ask \<Rightarrow> server_ask \<Rightarrow> (json \<times> json \<times> json) script" where
  "ask_three p q o' = Ask p (\<lambda>r. Ask q (\<lambda>s. Ask o' (\<lambda>t. returned (both_of r (both_of s t)))))"

primrec run_script ::
  "(server_ask \<Rightarrow> 's \<Rightarrow> json res \<times> 's) \<Rightarrow> 'a script \<Rightarrow> 's \<Rightarrow> 'a res \<times> 's" where
  "run_script h (Done x) st = (Inr x, st)"
| "run_script h (Fail e) st = (Inl e, st)"
| "run_script h (Ask q k) st = (case h q st of (r, st1) \<Rightarrow> run_script h (k r) st1)"

lemma run_returned [simp]: "run_script h (returned r) st = (r, st)"
  by (cases r) (simp_all add: returned_def)

lemma run_ask [simp]: "run_script h (ask q) st = h q st"
  by (simp add: ask_def split: prod.split)

lemma run_and_then:
  "run_script h (and_then p f) st =
     (case run_script h p st of (Inl e, st1) \<Rightarrow> (Inl e, st1) | (Inr x, st1) \<Rightarrow> run_script h (f x) st1)"
  by (induction p arbitrary: st) (simp_all split: prod.split)

lemma run_two:
  "run_script h (ask_two p q) st =
     (case h p st of (r, st1) \<Rightarrow> (case h q st1 of (s, st2) \<Rightarrow> (both_of r s, st2)))"
  by (simp add: ask_two_def split: prod.split)

text \<open>The client's channel as what answers.\<close>

definition server_url :: "server_op \<Rightarrow> string" where
  "server_url c = endpoint_url (server_endpoint c)"

definition get_value :: "net \<Rightarrow> bool \<Rightarrow> string \<Rightarrow> channels \<Rightarrow> json res \<times> channels" where
  "get_value n cache path ch = (case serverGet n path cache ch of (r, _, ch1) \<Rightarrow> (r, ch1))"

fun channel_answer :: "net \<Rightarrow> server_ask \<Rightarrow> channels \<Rightarrow> json res \<times> channels" where
  "channel_answer n (AskGet c cache) ch = get_value n cache (server_url c) ch"
| "channel_answer n (AskAll c key limit) ch =
     (case serverGetAll (get_value n True) (server_url c) key limit ch of
        (r, ch1) \<Rightarrow> (map_sum id JArr r, ch1))"
| "channel_answer n (AskSend c headers) ch = serverSend n (ep_method (server_endpoint c)) (server_url c) ch"

subsection \<open>Objects\<close>

text \<open>\<open>a || b\<close> and \<open>a ?? b\<close>, \<open>{ ...o, k: v, ... }\<close>, \<open>{ k, ...rest } = o\<close>, and the body sent of an
  object: \<open>JSON.stringify\<close> leaves out what is undefined.\<close>

definition jor :: "json \<Rightarrow> json \<Rightarrow> json" where
  "jor a b = (if jtruthy a then a else b)"

definition jnullish :: "json \<Rightarrow> json \<Rightarrow> json" where
  "jnullish a b = (if is_nullish a then b else a)"

definition spread :: "json \<Rightarrow> (string \<times> json) list \<Rightarrow> json" where
  "spread ob kvs = JObj (fold (\<lambda>(k, v). jset k v) kvs (object_fields ob))"

definition without :: "string \<Rightarrow> json \<Rightarrow> json" where
  "without k ob = JObj (filter (\<lambda>p. fst p \<noteq> k) (object_fields ob))"

definition json_body :: "json \<Rightarrow> json" where
  "json_body ob = JObj (filter (\<lambda>p. snd p \<noteq> JUndef) (object_fields ob))"

lemma jget_spread_none: "k \<notin> fst ` set kvs \<Longrightarrow> jget k (spread (JObj ps) kvs) = jget k (JObj ps)"
proof (induction kvs arbitrary: ps)
  case (Cons kv kvs)
  obtain j v where [simp]: "kv = (j, v)" by (cases kv)
  from Cons.prems have "k \<noteq> j" "k \<notin> fst ` set kvs" by auto
  from Cons.IH [OF this(2), of "jset j v ps"] jget_jset_other [OF this(1), of v ps]
  show ?case by (simp add: spread_def del: jget.simps)
qed (simp add: spread_def)

lemma spread_Cons: "spread (JObj ps) ((k, v) # kvs) = spread (JObj (jset k v ps)) kvs"
  by (simp add: spread_def)

lemma jget_json_body: "jget k (json_body (JObj ps)) = jget k (JObj (filter (\<lambda>p. snd p \<noteq> JUndef) ps))"
  by (simp add: json_body_def)

subsection \<open>Accounts\<close>

record auth_user =
  au_id :: json
  au_name :: json
  au_role :: string
  au_plan :: string

record auth_result =
  ar_token :: json
  ar_expires_at :: json
  ar_user :: auth_user

definition msg_bad_account :: string where
  "msg_bad_account = ''AgentMate Server returned invalid account information''"

definition serverAccount :: "json \<Rightarrow> json res" where
  "serverAccount v =
     (let account = jnullish (jget ''account'' v) (jget ''user'' v)
      in if jtruthy (jget ''id'' account) then Inr account else Inl (Err msg_bad_account))"

definition user_of :: "json \<Rightarrow> auth_user" where
  "user_of account =
     \<lparr> au_id = jget ''id'' account, au_name = jget ''name'' account,
       au_role = (if jtruthy (jget ''is_platform_admin'' account) then ''admin'' else ''user''),
       au_plan = string_or (jget ''plan'' account) ''free'' \<rparr>"

definition authResult :: "json \<Rightarrow> auth_result res" where
  "authResult v =
     bind_res (serverAccount v) (\<lambda>account.
       Inr \<lparr> ar_token = jget ''token'' v, ar_expires_at = jget ''expires_at'' v, ar_user = user_of account \<rparr>)"

definition me_call :: "auth_user script" where
  "me_call = and_then (ask (AskGet (AccountRequests SMe) False))
               (\<lambda>v. returned (bind_res (serverAccount v) (\<lambda>a. Inr (user_of a))))"

definition register_call :: "string \<Rightarrow> string \<Rightarrow> auth_result script" where
  "register_call nam pwd =
     and_then (ask (AskSend (AccountRequests (SRegister nam pwd)) [])) (\<lambda>v. returned (authResult v))"

definition login_call :: "string \<Rightarrow> string \<Rightarrow> auth_result script" where
  "login_call nam pwd =
     and_then (ask (AskSend (AccountRequests (SLogin nam pwd)) [])) (\<lambda>v. returned (authResult v))"

datatype sso_answer = SsoAnswer json | SsoSignedIn auth_result

definition ssoPoll :: "string \<Rightarrow> string \<Rightarrow> sso_answer script" where
  "ssoPoll attempt_id attempt_token =
     and_then (ask (AskSend (AccountRequests (SSsoPoll attempt_id attempt_token)) []))
       (\<lambda>v. if jget ''status'' v = JStr ''completed''
            then returned (bind_res (authResult v) (\<lambda>a. Inr (SsoSignedIn a))) else Done (SsoAnswer v))"

subsection \<open>Runs of automations\<close>

text \<open>
  \<open>serverAutomationSessions\<close>: the latest run of each session among the runs linked to the
  automation (to any, without one), a later run of the list winning a tie; then the sessions
  that have one, in the Server's order.
\<close>

definition linked_id :: "json \<Rightarrow> string" where
  "linked_id run = jstr_d (jget ''automation_id'' (jget ''request_snapshot'' run))"

definition run_stamp :: "json \<Rightarrow> int" where
  "run_stamp run = jint_d (jget ''updated_at'' run)"

definition run_session :: "json \<Rightarrow> string" where
  "run_session run = jstr_d (jget ''session_id'' run)"

definition linked :: "string option \<Rightarrow> json \<Rightarrow> bool" where
  "linked automationId run \<longleftrightarrow>
     \<not> (linked_id run = [] \<or> (truthy automationId \<and> linked_id run \<noteq> opt_str automationId))"

definition keep_run :: "string option \<Rightarrow> (string \<Rightarrow> json option) \<Rightarrow> json \<Rightarrow> string \<Rightarrow> json option" where
  "keep_run automationId m run =
     (if \<not> linked automationId run then m
      else case m (run_session run) of
             None \<Rightarrow> m(run_session run \<mapsto> run)
           | Some previous \<Rightarrow>
               if run_stamp previous \<le> run_stamp run then m(run_session run \<mapsto> run) else m)"

definition run_outcome :: "json \<Rightarrow> string" where
  "run_outcome run =
     (let status = jget ''status'' run
      in if status = JStr ''completed'' then ''ok''
         else if status = JStr ''failed'' \<or> status = JStr ''cancelled'' then ''error'' else ''running'')"

definition session_row :: "json \<Rightarrow> json \<Rightarrow> json" where
  "session_row session run =
     spread session [(''run_status'', JStr (run_outcome run)), (''run_kind'', JStr ''test'')]"

definition automation_sessions :: "string option \<Rightarrow> json list \<Rightarrow> json list \<Rightarrow> json list" where
  "automation_sessions automationId runs sessions =
     (let bySession = foldl (keep_run automationId) Map.empty runs
      in concat (map (\<lambda>s. case bySession (jstr_d (jget ''id'' s)) of
                            None \<Rightarrow> [] | Some run \<Rightarrow> [session_row s run]) sessions))"

definition serverAutomationSessions :: "string option \<Rightarrow> json list script" where
  "serverAutomationSessions automationId =
     and_then (ask_two (AskAll (RunRequests (SRuns None None None)) ''runs'' 200)
                       (AskAll (RunRequests SSessions) ''sessions'' 200))
       (\<lambda>(runs, sessions). Done (automation_sessions automationId (jarr_d runs) (jarr_d sessions)))"

text \<open>The reference: the last of the runs with the greatest time among those linked.\<close>

definition latest_run :: "string option \<Rightarrow> json list \<Rightarrow> string \<Rightarrow> json option" where
  "latest_run automationId runs sid =
     (let rs = filter (\<lambda>r. linked automationId r \<and> run_session r = sid) runs
      in if rs = [] then None
         else Some (last (filter (\<lambda>r. \<forall>q\<in>set rs. run_stamp q \<le> run_stamp r) rs)))"

lemma latest_run_snoc:
  "latest_run a (runs @ [r]) sid =
     (if linked a r \<and> run_session r = sid
      then (case latest_run a runs sid of
              None \<Rightarrow> Some r
            | Some p \<Rightarrow> if run_stamp p \<le> run_stamp r then Some r else Some p)
      else latest_run a runs sid)"
proof (cases "linked a r \<and> run_session r = sid")
  case True
  define rs where "rs = filter (\<lambda>r. linked a r \<and> run_session r = sid) runs"
  define top where "top xs = filter (\<lambda>x. \<forall>q\<in>set xs. run_stamp q \<le> run_stamp x) xs" for xs
  have old: "latest_run a runs sid = (if rs = [] then None else Some (last (top rs)))"
    and new: "latest_run a (runs @ [r]) sid = Some (last (top (rs @ [r])))"
    using True by (simp_all add: latest_run_def rs_def top_def Let_def)
  show ?thesis
  proof (cases "rs = []")
    case True
    with old new \<open>linked a r \<and> run_session r = sid\<close> show ?thesis by (simp add: top_def)
  next
    case False
    then have "Max (run_stamp ` set rs) \<in> run_stamp ` set rs" by (intro Max_in) auto
    then obtain m where m: "m \<in> set rs" "run_stamp m = Max (run_stamp ` set rs)" by auto
    then have "\<forall>q\<in>set rs. run_stamp q \<le> run_stamp m" by simp
    with m(1) have "m \<in> set (top rs)" by (simp add: top_def)
    then have ne: "top rs \<noteq> []" by auto
    then have last: "last (top rs) \<in> set rs" "\<forall>q\<in>set rs. run_stamp q \<le> run_stamp (last (top rs))"
      using last_in_set [OF ne] by (auto simp: top_def)
    have "last (top (rs @ [r])) = (if run_stamp (last (top rs)) \<le> run_stamp r then r else last (top rs))"
    proof (cases "run_stamp (last (top rs)) \<le> run_stamp r")
      case True
      with last(2) have "\<forall>q\<in>set rs. run_stamp q \<le> run_stamp r" by force
      with True show ?thesis by (simp add: top_def)
    next
      case False
      then have "top (rs @ [r]) = top rs"
        using last by (auto simp: top_def intro!: filter_cong)
      with False show ?thesis by simp
    qed
    with old new False \<open>linked a r \<and> run_session r = sid\<close> show ?thesis by simp
  qed
next
  case False
  then have "filter (\<lambda>r. linked a r \<and> run_session r = sid) (runs @ [r])
      = filter (\<lambda>r. linked a r \<and> run_session r = sid) runs" by simp
  with False show ?thesis by (simp only: latest_run_def if_False)
qed

lemma kept_run: "foldl (keep_run a) Map.empty runs sid = latest_run a runs sid"
proof (induction runs arbitrary: sid rule: rev_induct)
  case Nil
  show ?case by (simp add: latest_run_def)
next
  case (snoc r runs)
  then show ?case by (auto simp: keep_run_def latest_run_snoc split: option.splits)
qed

subsection \<open>Sessions and runs\<close>

definition listSessions :: "string option \<Rightarrow> json list script" where
  "listSessions space =
     and_then (ask (AskAll (RunRequests SSessions) ''sessions'' 200))
       (\<lambda>v. Done (if truthy space then filter (\<lambda>s. jget ''space'' s = JStr (opt_str space)) (jarr_d v)
                 else jarr_d v))"

text \<open>\<open>runById.get(message.run_id)\<close>: of runs with the same identifier the last one.\<close>

definition run_by_id :: "json list \<Rightarrow> json \<Rightarrow> json" where
  "run_by_id runs i =
     (case filter (\<lambda>r. jget ''id'' r = i) runs of [] \<Rightarrow> JUndef | r # rs \<Rightarrow> last (r # rs))"

definition joined_message :: "json list \<Rightarrow> json \<Rightarrow> json" where
  "joined_message runs m =
     (let run = (if jtruthy (jget ''run_id'' m) then run_by_id runs (jget ''run_id'' m) else JUndef)
      in spread m
           [(''actor'', jor (jget ''actor'' m) (jor (jget ''actor_id'' m) (jget ''role'' m))),
            (''usage'', jor (jget ''usage'' m) JNull),
            (''run_status'', jget ''status'' run), (''run_plan'', jget ''plan'' run),
            (''run_plan_version'', jget ''plan_version'' run), (''run_project_id'', jget ''project_id'' run),
            (''run_queue_context'', jget ''queue_context'' run)])"

record session_messages =
  sm_session :: json
  sm_runs :: "json list"
  sm_messages :: "json list"

definition getMessages :: "string \<Rightarrow> session_messages script" where
  "getMessages i =
     and_then (ask_three (AskGet (RunRequests (SSession i)) True)
                         (AskAll (RunRequests (SMessages i)) ''messages'' 500)
                         (AskAll (RunRequests (SRunsOf i)) ''runs'' 200))
       (\<lambda>(session, messages, runs).
          Done \<lparr> sm_session = session, sm_runs = jarr_d runs,
                 sm_messages = map (joined_message (jarr_d runs)) (jarr_d messages) \<rparr>)"

definition artifact_row :: "json \<Rightarrow> json" where
  "artifact_row asset =
     spread asset
       [(''path'', jor (jget ''path'' asset) (jor (jget ''object_ref'' asset) (JStr []))),
        (''acceptance_status'', jor (jget ''acceptance_status'' asset) (JStr ''pending''))]"

definition listRunArtifacts :: "string \<Rightarrow> json list script" where
  "listRunArtifacts i =
     and_then (ask (AskAll (RunRequests (SRunArtifacts i)) ''assets'' 200))
       (\<lambda>v. Done (map artifact_row (jarr_d v)))"

text \<open>The operations that read the version they then write against.\<close>

definition version_of :: "json \<Rightarrow> int" where
  "version_of current = jint_d (jget ''version'' current)"

definition reviewArtifact :: "string \<Rightarrow> string \<Rightarrow> json \<Rightarrow> json script" where
  "reviewArtifact i status now_seconds =
     and_then (ask (AskGet (RunRequests (SAsset i)) False))
       (\<lambda>current. ask (AskSend (RunRequests (SPatchAsset i
          (JObj [(''expected_version'', JNum (version_of current)), (''acceptance_status'', JStr status),
                 (''accepted_at'', if status = ''accepted'' then now_seconds else JNull)]))) []))"

definition renameSession :: "string \<Rightarrow> string \<Rightarrow> unit script" where
  "renameSession i title =
     and_then (ask (AskGet (RunRequests (SSession i)) False))
       (\<lambda>current. and_then
          (ask (AskSend (RunRequests (SPatchSession i
             (JObj [(''title'', JStr title), (''expected_version'', JNum (version_of current))]))) []))
          (\<lambda>_. Done ()))"

definition deleteSession :: "string \<Rightarrow> json script" where
  "deleteSession i =
     and_then (ask (AskGet (RunRequests (SSession i)) False))
       (\<lambda>current. ask (AskSend (RunRequests (SDeleteSession i (version_of current))) []))"

record retried_run =
  rr_run :: json
  rr_created :: bool

definition retryRun :: "string \<Rightarrow> string option \<Rightarrow> string \<Rightarrow> retried_run script" where
  "retryRun i idempotencyKey uuid =
     and_then (ask (AskGet (RunRequests (SRun i)) False))
       (\<lambda>current. and_then
          (ask (AskSend (RunRequests (SCreateRun (json_body (JObj
             [(''session_id'', jget ''session_id'' current),
              (''work_item_id'', jor (jget ''work_item_id'' current) JNull),
              (''mode'', jget ''mode'' current), (''workspace'', jget ''workspace'' current),
              (''retry_of'', JStr i),
              (''model_ref'', jor (jget ''model_ref'' current) JNull),
              (''model_id'', jor (jget ''model_id'' current) JNull),
              (''model_snapshot'', jor (jget ''model_snapshot'' current) (JObj [])),
              (''permission_snapshot'', jor (jget ''permission_snapshot'' current) (JObj [])),
              (''request_snapshot'', JObj [])]))))
             [(''Idempotency-Key'', or_str (opt_str idempotencyKey) (''retry:'' @ uuid))]))
          (\<lambda>result. Done \<lparr> rr_run = jget ''run'' result,
                           rr_created = (\<not> jtruthy (jget ''duplicate'' result)) \<rparr>))"

subsection \<open>Projects, members and tasks\<close>

definition msg_kb_managed :: string where
  "msg_kb_managed = ''project knowledge bindings are managed by Server and Console''"

definition msg_upload_first :: string where
  "msg_upload_first = ''task attachments have to be uploaded as Server assets first''"

definition from_server :: "json \<Rightarrow> json" where
  "from_server project = spread project [(''origin'', JStr ''server'')]"

definition listProjects :: "json list script" where
  "listProjects =
     and_then (ask (AskGet (ProjectRequests SProjects) True))
       (\<lambda>v. Done (map from_server (jarr_d (jget ''projects'' v))))"

definition createProject :: "json \<Rightarrow> json script" where
  "createProject body =
     (if jarr_d (jget ''knowledge_ids'' body) \<noteq> [] then Fail (Err msg_kb_managed)
      else and_then (ask (AskSend (ProjectRequests (SCreateProject
             (json_body (JObj (map (\<lambda>k. (k, jget k body))
                [''name'', ''instruction'', ''connectors'', ''experts'', ''skills'']))))) []))
             (\<lambda>project. Done (from_server project)))"

definition getProject :: "string \<Rightarrow> json script" where
  "getProject i = and_then (ask (AskGet (ProjectRequests (SProject i)) True)) (\<lambda>p. Done (from_server p))"

definition updateProject :: "string \<Rightarrow> json \<Rightarrow> json script" where
  "updateProject i patch =
     (if jget ''knowledge_ids'' patch \<noteq> JUndef then Fail (Err msg_kb_managed)
      else ask (AskSend (ProjectRequests (SUpdateProject i (json_body patch))) []))"

definition member_row :: "json \<Rightarrow> json" where
  "member_row m =
     spread m [(''user_id'', jget ''account_id'' m), (''is_owner'', jor (jget ''is_owner'' m) (JBool False))]"

definition listMembers :: "string \<Rightarrow> json list script" where
  "listMembers i =
     and_then (ask (AskGet (ProjectRequests (SMembers i)) True))
       (\<lambda>v. Done (map member_row (jarr_d (jget ''members'' v))))"

definition addMember :: "string \<Rightarrow> string \<Rightarrow> string \<Rightarrow> json list script" where
  "addMember i nam rol =
     and_then (ask (AskSend (ProjectRequests (SAddMember i nam rol)) [])) (\<lambda>_. listMembers i)"

definition updateMemberRole :: "string \<Rightarrow> string \<Rightarrow> string \<Rightarrow> json list script" where
  "updateMemberRole i userId rol =
     and_then (ask (AskSend (ProjectRequests (SUpdateMemberRole i userId rol)) [])) (\<lambda>_. listMembers i)"

definition createWorkItem :: "json \<Rightarrow> json script" where
  "createWorkItem body =
     (if jarr_d (jget ''attachments'' body) \<noteq> [] then Fail (Err msg_upload_first)
      else ask (AskSend (TaskRequests (SCreateWorkItem (jstr_d (jget ''project_id'' body))
             (json_body (spread (without ''project_id'' body)
                [(''due_date'', jor (jget ''due_date'' body) (JStr [])),
                 (''start_date'', jor (jget ''start_date'' body) (JStr [])),
                 (''attachments'', JUndef)])))) []))"

definition null_to_empty :: "json \<Rightarrow> json" where
  "null_to_empty v = (if v = JNull then JStr [] else v)"

definition updateWorkItem :: "string \<Rightarrow> string \<Rightarrow> json \<Rightarrow> json script" where
  "updateWorkItem projectId i patch =
     (if jarr_d (jget ''attachments'' patch) \<noteq> [] then Fail (Err msg_upload_first)
      else ask (AskSend (TaskRequests (SUpdateWorkItem projectId i
             (json_body (spread patch
                [(''due_date'', null_to_empty (jget ''due_date'' patch)),
                 (''start_date'', null_to_empty (jget ''start_date'' patch)),
                 (''attachments'', JUndef)])))) []))"

definition createMilestone :: "json \<Rightarrow> json script" where
  "createMilestone body =
     ask (AskSend (TaskRequests (SCreateMilestone (jstr_d (jget ''project_id'' body))
       (json_body (spread (without ''project_id'' body)
          [(''due_date'', jor (jget ''due_date'' body) (JStr []))])))) [])"

subsection \<open>Automations and the catalogue\<close>

definition with_model :: "json \<Rightarrow> json" where
  "with_model item = spread item [(''model'', jor (jget ''model_ref'' item) JNull)]"

definition listAutomations :: "json list script" where
  "listAutomations =
     and_then (ask (AskGet (AutomationRequests SAutomations) True))
       (\<lambda>v. Done (map with_model (jarr_d (jget ''automations'' v))))"

definition createAutomation :: "json \<Rightarrow> json script" where
  "createAutomation body =
     and_then (ask (AskSend (AutomationRequests (SCreateAutomation
       (json_body (spread body [(''model_ref'', jor (jget ''model'' body) JNull), (''model'', JUndef)])))) []))
       (\<lambda>v. Done (with_model (jget ''automation'' v)))"

definition updateAutomation :: "string \<Rightarrow> json \<Rightarrow> json script" where
  "updateAutomation i patch =
     and_then (ask (AskGet (AutomationRequests (SAutomation i)) False))
       (\<lambda>current. and_then
          (ask (AskSend (AutomationRequests (SUpdateAutomation i
             (json_body (spread patch
                [(''model_ref'', jnullish (jget ''model'' patch) JUndef), (''model'', JUndef),
                 (''expected_version'', JNum (version_of current))])))) []))
          (\<lambda>updated. Done (with_model updated)))"

definition deleteAutomation :: "string \<Rightarrow> json script" where
  "deleteAutomation i =
     and_then (ask (AskGet (AutomationRequests (SAutomation i)) False))
       (\<lambda>current. ask (AskSend (AutomationRequests (SDeleteAutomation i (version_of current))) []))"

text \<open>\<open>getCatalog\<close>: the items by category, for categories that are no property of every object.\<close>

definition add_to_group :: "(string \<times> json list) list \<Rightarrow> json \<Rightarrow> (string \<times> json list) list" where
  "add_to_group groups item =
     (let c = jstr_d (jget ''category'' item); d = jget ''data'' item
      in if c \<in> fst ` set groups
         then map (\<lambda>(k, ds). if k = c then (k, ds @ [d]) else (k, ds)) groups
         else groups @ [(c, [d])])"

definition getCatalog :: "(string \<times> json list) list script" where
  "getCatalog =
     and_then (ask (AskGet (ProjectRequests SCatalog) True))
       (\<lambda>v. Done (foldl add_to_group [] (jarr_d (jget ''items'' v))))"

text \<open>\<open>serverTimeline\<close> reads the channel's state after the answer.\<close>

record timeline_view =
  tv_reachable :: bool
  tv_stale :: bool
  tv_events :: json

definition serverTimeline :: "net \<Rightarrow> string \<Rightarrow> channels \<Rightarrow> timeline_view res \<times> channels" where
  "serverTimeline n pid ch =
     (case get_value n True (server_url (TeamRequests (STimeline pid))) ch of
        (Inl e, ch1) \<Rightarrow> (Inl e, ch1)
      | (Inr v, ch1) \<Rightarrow>
          (let stale = (cn_state (ch_server ch1) = ConnCached)
           in (Inr \<lparr> tv_reachable = (\<not> stale), tv_stale = stale, tv_events = jget ''events'' v \<rparr>, ch1)))"

subsection \<open>What the operations give\<close>

lemma attachments_refused:
  "jarr_d (jget ''attachments'' body) \<noteq> [] \<Longrightarrow>
     run_script h (createWorkItem body) st = (Inl (Err msg_upload_first), st)
   \<and> run_script h (updateWorkItem p i body) st = (Inl (Err msg_upload_first), st)"
  by (simp add: createWorkItem_def updateWorkItem_def)

text \<open>A null model is not sent, so that an automation's model is never cleared by an update.\<close>

lemma null_model_not_sent:
  assumes "jget ''model'' (JObj ps) = JNull" "\<forall>p\<in>set ps. fst p \<noteq> ''model_ref''"
  shows "jget ''model_ref'' (json_body (spread (JObj ps)
           [(''model_ref'', jnullish (jget ''model'' (JObj ps)) JUndef), (''model'', JUndef), (''expected_version'', v)])) = JUndef"
proof -
  let ?o = "[(''model_ref'', JUndef), (''model'', JUndef), (''expected_version'', v)]"
  have "(''model_ref'', x) \<in> set (object_fields (spread (JObj ps) ?o)) \<Longrightarrow> x = JUndef" for x
    using assms(2) by (auto simp: spread_def jset_def split: if_splits)
  then have "map_of (filter (\<lambda>p. snd p \<noteq> JUndef) (object_fields (spread (JObj ps) ?o))) ''model_ref'' = None"
    by (auto simp: map_of_eq_None_iff)
  then show ?thesis using assms(1) by (simp add: jnullish_def json_body_def)
qed

text \<open>
  C13. The history of an automation: the sessions shown are, in the Server's order, exactly
  those with a run linked to that automation, each once per listed session and with the outcome
  of its latest linked run, the later of the Server's list where two have the same time.
\<close>

theorem automation_history_is_the_latest:
  assumes "h (AskAll (RunRequests (SRuns None None None)) ''runs'' 200) st = (Inr (JArr runs), st1)"
    and "h (AskAll (RunRequests SSessions) ''sessions'' 200) st1 = (Inr (JArr sessions), st2)"
  shows "run_script h (serverAutomationSessions automationId) st =
    (Inr (concat (map (\<lambda>s. case latest_run automationId runs (jstr_d (jget ''id'' s)) of
                              None \<Rightarrow> [] | Some run \<Rightarrow> [session_row s run]) sessions)), st2)"
  using assms
  by (simp add: serverAutomationSessions_def run_and_then run_two both_of_def automation_sessions_def kept_run)

definition demo_run :: "string \<Rightarrow> string \<Rightarrow> int \<Rightarrow> string \<Rightarrow> json" where
  "demo_run i sid stamp status =
     JObj [(''id'', JStr i), (''session_id'', JStr sid), (''updated_at'', JNum stamp), (''status'', JStr status),
           (''request_snapshot'', JObj [(''automation_id'', JStr ''a'')])]"

definition demo_runs :: "json list" where
  "demo_runs = [demo_run ''r1'' ''s'' 5 ''failed'', demo_run ''r2'' ''s'' 9 ''failed'',
                demo_run ''r3'' ''s'' 9 ''completed'', demo_run ''r4'' ''s'' 7 ''running'']"

definition demo_sessions :: "json list" where
  "demo_sessions = [JObj [(''id'', JStr ''t'')], JObj [(''id'', JStr ''s'')]]"

fun demo_answers :: "server_ask \<Rightarrow> unit \<Rightarrow> json res \<times> unit" where
  "demo_answers (AskAll c key limit) st = (Inr (JArr (if key = ''runs'' then demo_runs else demo_sessions)), st)"
| "demo_answers _ st = (Inl AbortError, st)"

theorem automation_history_is_the_latest_witness:
  "run_script demo_answers (serverAutomationSessions (Some ''a'')) () =
     (Inr [JObj [(''id'', JStr ''s''), (''run_status'', JStr ''ok''), (''run_kind'', JStr ''test'')]], ())"
proof -
  have "demo_answers (AskAll (RunRequests (SRuns None None None)) ''runs'' 200) () = (Inr (JArr demo_runs), ())"
    "demo_answers (AskAll (RunRequests SSessions) ''sessions'' 200) () = (Inr (JArr demo_sessions), ())"
    by simp_all
  from automation_history_is_the_latest [of demo_answers "()", OF this, of "Some ''a''"] show ?thesis
    by (simp add: demo_runs_def demo_sessions_def demo_run_def latest_run_def linked_def linked_id_def
        run_session_def run_stamp_def session_row_def run_outcome_def spread_def jset_def Let_def)
qed

end
