(* ===== verification/PlanDetail.thy ===== *)
theory PlanDetail
  imports PlanBoard Calendar DesktopApi
begin

text \<open>
  The detail of a task in the desktop client (\<open>TodoDetailModal\<close> in
  \<open>src/src/components/project/ProjectWork.tsx\<close>): editing, comments, the execution by an agent
  and its acceptance, with the Server's view of a delivery (\<open>item_delivery\<close> in
  \<open>src/server/routers/work_items.py\<close>); the Gantt chart, the choice of a view and what a batch
  and an attachment become in the store.
\<close>

subsection \<open>A task's delivery\<close>

datatype launch_status = LaQueued | LaRunning | LaCompleted | LaFailed | LaCancelled

record work_launch =
  la_id :: string
  la_run_id :: "string option"
  la_status :: launch_status
  la_error_code :: "string option"

record delivery_run =
  dr_id :: string
  dr_status :: run_status
  dr_artifacts :: "artifact list option"

record delivery =
  dl_item_status :: work_status
  dl_can_write :: bool
  dl_launches :: "work_launch list"
  dl_runs :: "delivery_run list"

definition deliveryActive :: "delivery option \<Rightarrow> bool" where
  "deliveryActive d =
     (case d of None \<Rightarrow> False
      | Some d \<Rightarrow> list_ex (\<lambda>l. la_status l \<in> {LaQueued, LaRunning}) (dl_launches d)
          \<or> list_ex (\<lambda>r. dr_status r \<in> {RQueued, RPlanning, RRunning, RWaitingUser}) (dl_runs d))"

text \<open>\<open>item_delivery\<close>: every run of the task gives a launch too, its status read off the run's.\<close>

definition launch_status_of :: "run_status \<Rightarrow> launch_status" where
  "launch_status_of s =
     (if s \<in> {RRunning, RPlanning, RWaitingUser} then LaRunning
      else if s \<in> {RCompleted, RSucceeded} then LaCompleted
      else if s = RCancelled then LaCancelled
      else if s = RFailed then LaFailed else LaQueued)"

definition item_delivery :: "work_status \<Rightarrow> bool \<Rightarrow> (delivery_run \<times> string option) list \<Rightarrow> delivery" where
  "item_delivery st can_write runs =
     \<lparr> dl_item_status = st, dl_can_write = can_write,
       dl_launches = map (\<lambda>(r, code). \<lparr> la_id = dr_id r, la_run_id = Some (dr_id r),
                            la_status = launch_status_of (dr_status r), la_error_code = code \<rparr>) runs,
       dl_runs = map fst runs \<rparr>"

definition run_ended :: "run_status \<Rightarrow> bool" where
  "run_ended s \<longleftrightarrow> s \<in> {RCompleted, RSucceeded, RFailed, RCancelled}"

text \<open>The launches the view shows: those without a run yet.\<close>

definition waiting_launches :: "delivery \<Rightarrow> work_launch list" where
  "waiting_launches d = filter (\<lambda>l. \<not> truthy (la_run_id l) \<and> la_status l \<noteq> LaCompleted) (dl_launches d)"

definition can_accept :: "bool \<Rightarrow> delivery \<Rightarrow> delivery_run \<Rightarrow> bool" where
  "can_accept canWrite d r \<longleftrightarrow> canWrite \<and> dl_can_write d \<and> dr_status r = RCompleted \<and> nullish (dr_artifacts r) [] \<noteq> []"

subsection \<open>The detail's state and handlers\<close>

record todo_detail =
  td_editDesc :: bool
  td_descDraft :: string
  td_comments :: "json list"
  td_cbody :: string
  td_serverOn :: bool
  td_delivery :: "delivery option"
  td_busy :: bool

definition initial_detail :: todo_detail where
  "initial_detail = \<lparr> td_editDesc = False, td_descDraft = [], td_comments = [], td_cbody = [],
     td_serverOn = True, td_delivery = None, td_busy = False \<rparr>"

datatype detail_effect =
    UpdateItem string work_item_patch
  | ApplyRemote work_item_change
  | RereadDelivery
  | DetailSaid string
  | CloseDetail

definition status_change :: "string \<Rightarrow> string \<Rightarrow> work_status \<Rightarrow> work_item_change" where
  "status_change i pid s = \<lparr> wc_id = i, wc_project_id = pid, wc_status = Some s, wc_title = None,
     wc_sprint_id = None, wc_milestone_id = None, wc_version = None \<rparr>"

definition startEdit :: "work_item \<Rightarrow> todo_detail \<Rightarrow> todo_detail" where
  "startEdit t d = d\<lparr> td_descDraft := wi_description t, td_editDesc := True \<rparr>"

definition saveDesc :: "work_item \<Rightarrow> todo_detail \<Rightarrow> todo_detail \<times> detail_effect list" where
  "saveDesc t d =
     (d\<lparr> td_editDesc := False \<rparr>,
      if td_descDraft d \<noteq> wi_description t
      then [UpdateItem (wi_id t) (no_patch\<lparr> wp_description := Some (td_descDraft d) \<rparr>)] else [])"

definition addToInput :: "string \<Rightarrow> work_item \<Rightarrow> loadout \<Rightarrow> loadout \<times> bool" where
  "addToInput fresh t lo =
     addRef \<lparr> af_id = fresh, af_name = wi_title t,
       af_content = (if trim (wi_description t) \<noteq> [] then wi_title t @ [CHR 0x0A, CHR 0x0A] @ wi_description t
                     else wi_title t),
       af_kind = Some RefTodo, af_item_id = Some (wi_id t) \<rparr> lo"

definition addAttach :: "work_item \<Rightarrow> work_attachment \<Rightarrow> detail_effect list" where
  "addAttach t a = [UpdateItem (wi_id t) (no_patch\<lparr> wp_attachments := Some (wi_attachments t @ [a]) \<rparr>)]"

definition rmAttach :: "work_item \<Rightarrow> nat \<Rightarrow> detail_effect list" where
  "rmAttach t i = [UpdateItem (wi_id t) (no_patch\<lparr> wp_attachments := Some (remove_at i (wi_attachments t)) \<rparr>)]"

text \<open>A blurred field of hours is saved when it differs; \<open>parseFloat(v) || 0\<close> is the argument.\<close>

definition blurEstimate :: "rat \<Rightarrow> work_item \<Rightarrow> detail_effect list" where
  "blurEstimate v t =
     (if v \<noteq> wi_estimate_h t then [UpdateItem (wi_id t) (no_patch\<lparr> wp_estimate_h := Some v \<rparr>)] else [])"

definition blurSpent :: "rat \<Rightarrow> work_item \<Rightarrow> detail_effect list" where
  "blurSpent v t =
     (if v \<noteq> wi_spent_h t then [UpdateItem (wi_id t) (no_patch\<lparr> wp_spent_h := Some v \<rparr>)] else [])"

definition sendComment_begin :: "string option \<Rightarrow> todo_detail \<Rightarrow> string option" where
  "sendComment_begin pid d =
     (if trim (td_cbody d) = [] \<or> \<not> truthy pid then None else Some (trim (td_cbody d)))"

definition sendComment_sent :: "unit res \<Rightarrow> todo_detail \<Rightarrow> todo_detail \<times> detail_effect list" where
  "sendComment_sent r d =
     (case r of Inr _ \<Rightarrow> (d\<lparr> td_cbody := [] \<rparr>, []) | Inl e \<Rightarrow> (d, [DetailSaid ''comment failed'']))"

definition comments_done :: "json list res \<Rightarrow> todo_detail \<Rightarrow> todo_detail" where
  "comments_done r d =
     (case r of Inr cs \<Rightarrow> d\<lparr> td_comments := cs, td_serverOn := True \<rparr> | Inl e \<Rightarrow> d)"

definition loadDelivery_done ::
  "string \<Rightarrow> string \<Rightarrow> work_status option \<Rightarrow> delivery res \<Rightarrow> todo_detail \<Rightarrow> todo_detail \<times> detail_effect list" where
  "loadDelivery_done pid i shown r d =
     (case r of
        Inl e \<Rightarrow> (d, [])
      | Inr v \<Rightarrow> (d\<lparr> td_delivery := Some v \<rparr>,
          if pid \<noteq> [] \<and> Some (dl_item_status v) \<noteq> shown then [ApplyRemote (status_change i pid (dl_item_status v))] else []))"

definition executeWithAgent_begin ::
  "string option \<Rightarrow> work_item \<Rightarrow> string \<Rightarrow> todo_detail \<Rightarrow> (todo_detail \<times> (string \<times> string \<times> string \<times> string \<times> string)) option" where
  "executeWithAgent_begin pid t uuid d =
     (if \<not> truthy pid then None
      else Some (d\<lparr> td_busy := True \<rparr>, (opt_str pid, wi_id t, wi_title t, wi_description t, uuid)))"

definition executeWithAgent_done :: "string \<Rightarrow> work_item \<Rightarrow> server_turn res \<Rightarrow> todo_detail \<Rightarrow> todo_detail \<times> detail_effect list" where
  "executeWithAgent_done pid t r d =
     (d\<lparr> td_busy := False \<rparr>,
      case r of
        Inr _ \<Rightarrow> [ApplyRemote (status_change (wi_id t) pid WDoing), DetailSaid ''handed to the agent'', RereadDelivery]
      | Inl e \<Rightarrow> [DetailSaid ''starting the execution failed''])"

text \<open>What is accepted is the number of artifacts the view shows of the run.\<close>

definition acceptDelivery_begin :: "string option \<Rightarrow> string \<Rightarrow> todo_detail \<Rightarrow> (todo_detail \<times> string \<times> nat) option" where
  "acceptDelivery_begin pid runId d =
     (if \<not> truthy pid then None
      else Some (d\<lparr> td_busy := True \<rparr>, runId,
        length (nullish (Option.bind (Option.bind (td_delivery d) (\<lambda>v. find_key dr_id runId (dl_runs v))) dr_artifacts) [])))"

definition acceptDelivery_done :: "string \<Rightarrow> work_item \<Rightarrow> unit res \<Rightarrow> todo_detail \<Rightarrow> todo_detail \<times> detail_effect list" where
  "acceptDelivery_done pid t r d =
     (d\<lparr> td_busy := False \<rparr>,
      case r of
        Inr _ \<Rightarrow> [ApplyRemote (status_change (wi_id t) pid WDone), DetailSaid ''delivery accepted'', RereadDelivery]
      | Inl e \<Rightarrow> [DetailSaid ''acceptance failed''])"

subsection \<open>A delivery is watched until its runs have ended\<close>

lemma launch_waits:
  "launch_status_of s = LaQueued \<or> launch_status_of s = LaRunning \<longleftrightarrow> \<not> run_ended s"
  by (cases s) (simp_all add: launch_status_of_def run_ended_def)

lemma active_not_ended:
  "s = RQueued \<or> s = RPlanning \<or> s = RRunning \<or> s = RWaitingUser \<Longrightarrow> \<not> run_ended s"
  by (auto simp: run_ended_def)

lemma launches_wait:
  "list_ex (\<lambda>l. la_status l \<in> {LaQueued, LaRunning}) (dl_launches (item_delivery st can_write runs))
     \<longleftrightarrow> (\<exists>r\<in>set runs. \<not> run_ended (dr_status (fst r)))"
  by (simp add: item_delivery_def list_ex_iff case_prod_beta launch_waits)

text \<open>
  The client keeps reading a task's delivery exactly while a run of the task the Server lists
  has not ended: the launches the Server makes of the runs cover the states (leased,
  paused, recoverable, waiting for approval) the client's own list of active runs leaves out.
\<close>

theorem delivery_is_watched_until_it_ends:
  "deliveryActive (Some (item_delivery st can_write runs)) \<longleftrightarrow> (\<exists>r\<in>set runs. \<not> run_ended (dr_status (fst r)))"
proof -
  have "list_ex (\<lambda>r. dr_status r \<in> {RQueued, RPlanning, RRunning, RWaitingUser}) (map fst runs)
      \<Longrightarrow> \<exists>r\<in>set runs. \<not> run_ended (dr_status (fst r))"
    by (simp add: list_ex_iff) (metis active_not_ended)
  moreover have "dl_runs (item_delivery st can_write runs) = map fst runs" by (simp add: item_delivery_def)
  ultimately show ?thesis using launches_wait [of st can_write runs] by (auto simp: deliveryActive_def)
qed

subsection \<open>Attachments\<close>

definition attachment_json :: "work_attachment \<Rightarrow> json" where
  "attachment_json a =
     JObj ([(''name'', JStr (wa_name a)), (''kind'', JStr (case wa_kind a of AttLocal \<Rightarrow> ''local'' | AttAsset \<Rightarrow> ''asset''))]
       @ (case wa_path a of None \<Rightarrow> [] | Some p \<Rightarrow> [(''path'', JStr p)]))"

definition attachments_json :: "work_attachment list \<Rightarrow> json" where
  "attachments_json xs = JArr (map attachment_json xs)"

text \<open>
  Attachments are never saved: a task created or changed with an attachment in its body is
  refused by the client itself before any request, so adding one leaves the board as it was
  with a message of failure, and the form of a new task closes without a task.
\<close>

theorem attachments_are_never_saved:
  assumes "jget ''attachments'' body = attachments_json (xs @ [a])"
  shows "run_script h (updateWorkItem pid i body) st = (Inl (Err msg_upload_first), st)
    \<and> run_script h (createWorkItem body) st = (Inl (Err msg_upload_first), st)
    \<and> update_done pid i (Inl (Err msg_upload_first)) now b = (b, [msg_save_failed])
    \<and> add_done pid (Inl (Err msg_upload_first)) now b = (b, None, [msg_add_failed])
    \<and> snd (create_done None f) = [FormClosed]"
proof -
  have "jarr_d (jget ''attachments'' body) \<noteq> []"
    using assms by (simp add: attachments_json_def)
  from attachments_refused [OF this, of h st pid i] show ?thesis
    by (simp add: update_done_def add_done_def create_done_def)
qed

theorem attachments_are_never_saved_witness:
  "run_script (\<lambda>q st. (Inr JNull, Suc st)) (updateWorkItem ''p'' ''t''
      (JObj [(''attachments'', attachments_json [\<lparr> wa_name = ''a.txt'', wa_kind = AttLocal, wa_path = Some ''a.txt'' \<rparr>])])) (0::nat)
     = (Inl (Err msg_upload_first), 0)"
proof -
  let ?a = "\<lparr> wa_name = ''a.txt'', wa_kind = AttLocal, wa_path = Some ''a.txt'' \<rparr>"
  have "jget ''attachments'' (JObj [(''attachments'', attachments_json [?a])]) = attachments_json ([] @ [?a])" by simp
  from attachments_are_never_saved [OF this, where h = "\<lambda>q st. (Inr JNull, Suc st)" and pid = "''p''" and i = "''t''" and st = "0 :: nat", THEN conjunct1]
  show ?thesis .
qed

subsection \<open>Deleting a batch\<close>

text \<open>
  A batch that fails in part brings deleted tasks back: where two tasks are deleted together
  and the Server deletes the second but refuses the first, the board shows both again, the
  second one although it is gone, until the next load.
\<close>

theorem batch_delete_brings_back:
  assumes "kb_sel k = [i, j]" "i \<noteq> j" "bd_project_id b = Some pid" "pid \<noteq> []"
  shows "case batchDelete k of (k', qs) \<Rightarrow>
    qs = [RemoveTask i, RemoveTask j] \<and> \<not> kb_batch k'
    \<and> (case remove_begin i b of (b1, p1, prev1) \<Rightarrow>
       case remove_begin j b1 of (b2, p2, prev2) \<Rightarrow>
       case remove_done p2 prev2 (Inr ()) now b2 of (b3, says3) \<Rightarrow>
       case remove_done p1 prev1 (Inl e) now b3 of (b4, says4) \<Rightarrow>
         j \<notin> wi_id ` set (bd_items b2) \<and> says3 = [] \<and> says4 = [msg_remove_failed]
         \<and> bd_items b4 = bd_items b)"
  using assms by (auto simp: batchDelete_def exitBatch_def remove_begin_def remove_done_def)

definition batch_board :: board where
  "batch_board = initial_board\<lparr> bd_project_id := Some ''p'',
     bd_items := [blank_item ''a'' ''p'' ''A'', blank_item ''b'' ''p'' ''B''] \<rparr>"

theorem batch_delete_brings_back_witness:
  "case remove_begin ''a'' batch_board of (b1, p1, prev1) \<Rightarrow>
   case remove_begin ''b'' b1 of (b2, p2, prev2) \<Rightarrow>
     bd_items b2 = [] \<and>
     map wi_id (bd_items (fst (remove_done p1 prev1 (Inl (Err [])) 1 (fst (remove_done p2 prev2 (Inr ()) 1 b2))))) = [''a'', ''b'']"
proof -
  let ?k = "(initial_kanban None)\<lparr> kb_batch := True, kb_sel := [''a'', ''b''] \<rparr>"
  have "kb_sel ?k = [''a'', ''b'']" "(''a'' :: string) \<noteq> ''b''" "bd_project_id batch_board = Some ''p''" "''p'' \<noteq> []"
    by (simp_all add: batch_board_def)
  from batch_delete_brings_back [OF this, where now = 1 and e = "Err []"] show ?thesis
    by (simp add: remove_begin_def remove_done_def batch_board_def initial_board_def blank_item_def split: prod.splits)
qed

subsection \<open>The Gantt chart\<close>

text \<open>
  \<open>toD\<close> on a date of the form the Server stores, in days; the chart's ends are padded, so they
  are rationals, as are the percentages before they are rounded for display.
\<close>

definition toD :: "string \<Rightarrow> int option" where
  "toD s =
     (if length s = 10 \<and> s ! 4 = CHR ''-'' \<and> s ! 7 = CHR ''-'' then
        (case (digits_value (take 4 s), digits_value (take 2 (drop 5 s)), digits_value (drop 8 s)) of
           (Some y, Some m, Some d) \<Rightarrow>
             Some (cal_number (new_date (int y) ((if m = 0 then 1 else int m) - 1) (if d = 0 then 1 else int d)))
         | _ \<Rightarrow> None)
      else None)"

definition bar_span :: "work_item \<Rightarrow> int option \<times> int option" where
  "bar_span t =
     (toD (or_str (opt_str (wi_start_date t)) (opt_str (wi_due_date t))),
      toD (or_str (opt_str (wi_due_date t)) (opt_str (wi_start_date t))))"

text \<open>A date that is none is NaN: it is compared false, so it moves no end and has no bar.\<close>

record plan_chart =
  ch_min :: rat
  ch_max :: rat
  ch_today :: int

definition chart_ends :: "int \<Rightarrow> (int option \<times> int option) list \<Rightarrow> int \<times> int" where
  "chart_ends today spans =
     (let lo = fold min (List.map_filter fst spans) today; hi = fold max (List.map_filter snd spans) today
      in (lo, if hi \<le> lo then lo + 1 else hi))"

definition plan_chart :: "int \<Rightarrow> (int option \<times> int option) list \<Rightarrow> plan_chart" where
  "plan_chart today spans =
     (case chart_ends today spans of (lo, hi) \<Rightarrow>
        let pad = max (of_int (hi - lo) * (4 / 100)) 1
        in \<lparr> ch_min = of_int lo - pad, ch_max = of_int hi + pad, ch_today = today \<rparr>)"

definition chart_percent :: "plan_chart \<Rightarrow> int \<Rightarrow> rat" where
  "chart_percent c d = (of_int d - ch_min c) / (ch_max c - ch_min c) * 100"

definition plan_bar :: "plan_chart \<Rightarrow> int \<times> int \<Rightarrow> rat \<times> rat" where
  "plan_bar c se =
     (chart_percent c (fst se), max (of_int (snd se - fst se) / (ch_max c - ch_min c) * 100) (12 / 10))"

text \<open>The rows: the tasks with a date that are no subtask, each with its bar, and the line of today.\<close>

definition plan_dated :: "work_item list \<Rightarrow> work_item list" where
  "plan_dated items = filter (\<lambda>t. wi_parent_id t = [] \<and> (truthy (wi_due_date t) \<or> truthy (wi_start_date t))) items"

definition plan_gantt :: "int \<Rightarrow> work_item list \<Rightarrow> (work_item \<times> (rat \<times> rat) option) list" where
  "plan_gantt today items =
     (let c = plan_chart today (map bar_span (plan_dated items))
      in map (\<lambda>t. (t, case bar_span t of (Some s, Some e) \<Rightarrow> Some (plan_bar c (s, e)) | _ \<Rightarrow> None)) (plan_dated items))"

definition today_line :: "int \<Rightarrow> work_item list \<Rightarrow> rat" where
  "today_line today items = chart_percent (plan_chart today (map bar_span (plan_dated items))) today"

lemma fold_min_le_start: "fold min xs (a::int) \<le> a"
proof (induction xs arbitrary: a)
  case (Cons x xs)
  have "fold min xs (min x a) \<le> min x a" by (rule Cons)
  then show ?case by simp
qed simp

lemma fold_min_le: "x \<in> set xs \<Longrightarrow> fold min xs (a::int) \<le> x"
proof (induction xs arbitrary: a)
  case (Cons y xs)
  show ?case
  proof (cases "x = y")
    case True
    have "fold min xs (min y a) \<le> min y a" by (rule fold_min_le_start)
    then show ?thesis using True by simp
  qed (use Cons in simp)
qed simp

lemma fold_max_ge_start: "(a::int) \<le> fold max xs a"
proof (induction xs arbitrary: a)
  case (Cons x xs)
  have "max x a \<le> fold max xs (max x a)" by (rule Cons)
  then show ?case by simp
qed simp

lemma fold_max_ge: "x \<in> set xs \<Longrightarrow> x \<le> fold max xs (a::int)"
proof (induction xs arbitrary: a)
  case (Cons y xs)
  show ?case
  proof (cases "x = y")
    case True
    have "max y a \<le> fold max xs (max y a)" by (rule fold_max_ge_start)
    then show ?thesis using True by simp
  qed (use Cons in simp)
qed simp

lemma chart_ends_bounds:
  assumes "chart_ends today spans = (lo, hi)"
  shows "lo \<le> today" "today \<le> hi" "lo < hi" "(Some s, Some e) \<in> set spans \<Longrightarrow> lo \<le> s" "(Some s, Some e) \<in> set spans \<Longrightarrow> e \<le> hi"
proof -
  let ?lo = "fold min (List.map_filter fst spans) today" and ?hi = "fold max (List.map_filter snd spans) today"
  have eq: "lo = ?lo" "hi = (if ?hi \<le> ?lo then ?lo + 1 else ?hi)"
    using assms by (auto simp: chart_ends_def Let_def)
  have b: "?lo \<le> today" "today \<le> ?hi" by (rule fold_min_le_start, rule fold_max_ge_start)
  show "lo \<le> today" "today \<le> hi" "lo < hi" using eq b by (auto split: if_splits)
  assume "(Some s, Some e) \<in> set spans"
  then have "s \<in> set (List.map_filter fst spans)" "e \<in> set (List.map_filter snd spans)"
    by (force simp: List.map_filter_def)+
  then show "lo \<le> s" "e \<le> hi"
    using eq fold_min_le [of s "List.map_filter fst spans" today] fold_max_ge [of e "List.map_filter snd spans" today]
    by (auto split: if_splits)
qed

lemma percent_on_chart:
  assumes "chart_ends today spans = (lo, hi)" "lo \<le> d" "d \<le> hi"
  shows "0 < chart_percent (plan_chart today spans) d \<and> chart_percent (plan_chart today spans) d < 100"
proof -
  define c where "c = plan_chart today spans"
  obtain pad where pad: "0 < pad" "ch_min c = of_int lo - pad" "ch_max c = of_int hi + pad"
  proof
    show "0 < max (rat_of_int (hi - lo) * (4 / 100)) 1" by simp
  qed (simp_all add: c_def plan_chart_def assms(1) Let_def)
  define w where "w = ch_max c - ch_min c"
  have "rat_of_int lo \<le> of_int d" "rat_of_int d \<le> of_int hi" using assms(2, 3) by simp_all
  then have "0 < of_int d - ch_min c" "of_int d - ch_min c < w" using pad by (simp_all add: w_def)
  then show ?thesis by (simp add: chart_percent_def c_def [symmetric] w_def [symmetric] divide_less_eq)
qed

lemma widened_fits:
  fixes l w :: rat
  assumes "l < 100" "l + w < 100"
  shows "12 / 10 \<le> max w (12 / 10)" "l + max w (12 / 10) < 100 + 12 / 10"
    "12 / 10 < max w (12 / 10) \<Longrightarrow> l + max w (12 / 10) < 100"
  using assms by (auto simp: max_def)

text \<open>
  Every bar of the plan's Gantt chart lies on the chart, and so does the line of today: for a
  task that does not end before it starts, the left end and the width of its bar are percentages
  that together stay below a hundred; only the widening of a bar that would be too thin to see may
  reach past the padding, by less than its 1.2 percent.
\<close>

theorem plan_bars_fit:
  assumes "t \<in> set (plan_dated items)" "bar_span t = (Some s, Some e)" "s \<le> e"
  shows "\<exists>left width. (t, Some (left, width)) \<in> set (plan_gantt today items)
      \<and> 0 < left \<and> 12 / 10 \<le> width \<and> left + width < 100 + 12 / 10
      \<and> (12 / 10 < width \<longrightarrow> left + width < 100)
      \<and> 0 < today_line today items \<and> today_line today items < 100"
proof -
  define spans where "spans = map bar_span (plan_dated items)"
  have mem: "(Some s, Some e) \<in> set spans" using assms(1, 2) by (force simp: spans_def)
  obtain lo hi where ends: "chart_ends today spans = (lo, hi)" by (cases "chart_ends today spans")
  note b = chart_ends_bounds [OF ends]
  define c where "c = plan_chart today spans"
  have c: "c = plan_chart today (map bar_span (plan_dated items))" by (simp add: c_def spans_def)
  have pos: "0 < chart_percent c d \<and> chart_percent c d < 100" if "lo \<le> d" "d \<le> hi" for d
    using percent_on_chart [OF ends that] by (simp add: c_def)
  have se: "lo \<le> s" "e \<le> hi" using b(4, 5) [OF mem] by simp_all
  let ?left = "chart_percent c s" and ?width = "rat_of_int (e - s) / (ch_max c - ch_min c) * 100"
  have "?left + ?width = chart_percent c e"
    by (simp add: chart_percent_def add_divide_distrib [symmetric] ring_distribs)
  then have "?left + ?width < 100" using pos [of e] se assms(3) by simp
  moreover have "0 < ?left" "?left < 100" using pos [of s] se assms(3) by simp_all
  moreover have "0 < today_line today items" "today_line today items < 100"
    using pos b(1, 2) by (simp_all add: today_line_def c)
  moreover have "(t, Some (?left, max ?width (12 / 10))) \<in> set (plan_gantt today items)"
    using assms(1, 2) by (force simp: plan_gantt_def plan_bar_def c)
  ultimately show ?thesis using widened_fits [of ?left ?width] by blast
qed

definition dated_task :: work_item where
  "dated_task = (blank_item ''t'' ''p'' ''T'')\<lparr> wi_due_date := Some ''2026-01-05'', wi_start_date := Some ''2026-01-01'' \<rparr>"

theorem plan_bars_fit_witness:
  "\<exists>left width. (dated_task, Some (left, width)) \<in> set (plan_gantt 20454 [dated_task]) \<and> left + width < 100 + 12 / 10"
proof -
  have d: "dated_task \<in> set (plan_dated [dated_task])"
    by (simp add: plan_dated_def dated_task_def blank_item_def truthy_def)
  have s: "bar_span dated_task = (Some 20454, Some 20458)"
    by code_simp
  from plan_bars_fit [OF d s, of 20454] show ?thesis by auto
qed

subsection \<open>The choice of a view\<close>

datatype plan_view = PvTable | PvKanban | PvList | PvGantt | PvCalendar | PvWorkload

definition plan_view_key :: "plan_view \<Rightarrow> string" where
  "plan_view_key v = (case v of PvTable \<Rightarrow> ''table'' | PvKanban \<Rightarrow> ''kanban'' | PvList \<Rightarrow> ''list''
     | PvGantt \<Rightarrow> ''gantt'' | PvCalendar \<Rightarrow> ''calendar'' | PvWorkload \<Rightarrow> ''workload'')"

definition PLAN_VIEWS :: "plan_view list" where
  "PLAN_VIEWS = [PvTable, PvKanban, PvList, PvGantt, PvCalendar, PvWorkload]"

definition plan_view_slot :: "string \<Rightarrow> string" where
  "plan_view_slot pid = ''pm.plan.view.'' @ pid"

definition open_plan :: "string option \<Rightarrow> storage \<Rightarrow> plan_view \<Rightarrow> plan_view" where
  "open_plan pid ls v =
     (if \<not> truthy pid then v
      else case ls (plan_view_slot (opt_str pid)) of
        None \<Rightarrow> v
      | Some saved \<Rightarrow> nullish (find_key plan_view_key saved PLAN_VIEWS) v)"

definition selectView :: "string option \<Rightarrow> plan_view \<Rightarrow> storage \<Rightarrow> plan_view \<times> storage" where
  "selectView pid v ls =
     (v, if truthy pid then ls(plan_view_slot (opt_str pid) \<mapsto> plan_view_key v) else ls)"

lemma selected_view_reopens:
  "truthy pid \<Longrightarrow> open_plan pid (snd (selectView pid v ls)) w = v"
  by (cases v) (simp_all add: open_plan_def selectView_def plan_view_key_def PLAN_VIEWS_def find_key_def)

subsection \<open>Files of a project\<close>

datatype file_entry = FileEntry string string | DirEntry "file_entry list"

fun flattenFiles :: "file_entry list \<Rightarrow> (string \<times> string) list"
  and flattenEntry :: "file_entry \<Rightarrow> (string \<times> string) list" where
  "flattenFiles [] = []"
| "flattenFiles (e # es) = flattenEntry e @ flattenFiles es"
| "flattenEntry (FileEntry name path) = [(name, path)]"
| "flattenEntry (DirEntry es) = flattenFiles es"

end
