(* ===== verification/KnowledgeTab.thy ===== *)
theory KnowledgeTab
  imports ProjectState
begin

text \<open>
  The knowledge tab of a project in the console (\<open>KnowledgeTab\<close> in
  \<open>src/console/src/pages/ProjectDetailPage.tsx\<close>): the list of bases, and the drawer of one base
  with its documents, read page by page, by search and by a timer, each read numbered so that
  only the answer of the last one counts.
\<close>

subsection \<open>State\<close>

datatype provider_status = KbReady | KbLegacyPending | KbMigrating | KbUnavailable

record console_kb =
  ck_id :: string
  ck_name :: string
  ck_status :: provider_status

record console_doc =
  kd_id :: string
  kd_filename :: string
  kd_vector_status :: int
  kd_parse_status :: string

record knowledge_tab =
  kt_items :: "console_kb list"
  kt_loading :: bool
  kt_configured :: bool
  kt_createOpen :: bool
  kt_editingKb :: "console_kb option"
  kt_selected :: "console_kb option"
  kt_documents :: "console_doc list"
  kt_docLoading :: bool
  kt_docError :: string
  kt_docPage :: nat
  kt_docPageSize :: nat
  kt_docTotal :: nat
  kt_docSearch :: string
  kt_docKeyword :: string
  kt_testQuery :: string
  kt_testLoading :: bool
  kt_testHits :: "json list"
  kt_testRan :: bool
  kt_docRequest :: nat

definition initial_knowledge_tab :: knowledge_tab where
  "initial_knowledge_tab =
     \<lparr> kt_items = [], kt_loading = True, kt_configured = True, kt_createOpen = False,
       kt_editingKb = None, kt_selected = None, kt_documents = [], kt_docLoading = False,
       kt_docError = [], kt_docPage = 1, kt_docPageSize = 10, kt_docTotal = 0, kt_docSearch = [],
       kt_docKeyword = [], kt_testQuery = [], kt_testLoading = False, kt_testHits = [],
       kt_testRan = False, kt_docRequest = 0 \<rparr>"

text \<open>A read of documents under way: its number and its arguments.\<close>

record doc_read =
  dq_request :: nat
  dq_kb :: string
  dq_page :: nat
  dq_size :: nat
  dq_keyword :: string
  dq_silent :: bool

datatype kt_effect = KtSaid notice string | KtFetch doc_read | KtLoad

subsection \<open>Loading\<close>

definition kb_load_begin :: "knowledge_tab \<Rightarrow> knowledge_tab" where
  "kb_load_begin t = t\<lparr> kt_loading := True \<rparr>"

definition kb_load_done :: "(console_kb list \<times> bool) api_res \<Rightarrow> knowledge_tab \<Rightarrow> knowledge_tab \<times> kt_effect list" where
  "kb_load_done r t =
     (case r of
        Inr (items, configured) \<Rightarrow> (t\<lparr> kt_items := items, kt_configured := configured, kt_loading := False \<rparr>, [])
      | Inl e \<Rightarrow> (t\<lparr> kt_loading := False \<rparr>, [KtSaid NtError (error_or e)]))"

definition fetch_begin ::
  "string \<Rightarrow> nat \<Rightarrow> nat \<Rightarrow> string \<Rightarrow> bool \<Rightarrow> knowledge_tab \<Rightarrow> knowledge_tab \<times> doc_read" where
  "fetch_begin kbId page pageSize keyword silent t =
     (let requestId = Suc (kt_docRequest t)
      in (t\<lparr> kt_docRequest := requestId, kt_docLoading := (if silent then kt_docLoading t else True),
             kt_docError := (if silent then kt_docError t else []) \<rparr>,
          \<lparr> dq_request = requestId, dq_kb = kbId, dq_page = page, dq_size = pageSize,
            dq_keyword = keyword, dq_silent = silent \<rparr>))"

definition fetch_done ::
  "doc_read \<Rightarrow> (console_doc list \<times> nat) api_res \<Rightarrow> knowledge_tab \<Rightarrow> knowledge_tab \<times> kt_effect list" where
  "fetch_done q r t =
     (if dq_request q \<noteq> kt_docRequest t then (t, [])
      else let loading = (if dq_silent q then kt_docLoading t else False)
      in case r of
        Inr (docs, n) \<Rightarrow>
          (t\<lparr> kt_documents := docs, kt_docTotal := n, kt_docError := [], kt_docLoading := loading \<rparr>, [])
      | Inl e \<Rightarrow>
          (t\<lparr> kt_docError := error_or e, kt_docLoading := loading \<rparr>,
           if dq_silent q then [] else [KtSaid NtError (error_or e)]))"

subsection \<open>The drawer\<close>

definition openDocs :: "console_kb \<Rightarrow> knowledge_tab \<Rightarrow> knowledge_tab \<times> doc_read" where
  "openDocs kb t =
     fetch_begin (ck_id kb) 1 10 [] False
       (t\<lparr> kt_selected := Some kb, kt_documents := [], kt_docTotal := 0, kt_docPage := 1,
           kt_docPageSize := 10, kt_docSearch := [], kt_docKeyword := [], kt_docError := [],
           kt_testQuery := [], kt_testHits := [], kt_testRan := False \<rparr>)"

definition closeDocs :: "knowledge_tab \<Rightarrow> knowledge_tab" where
  "closeDocs t =
     t\<lparr> kt_docRequest := Suc (kt_docRequest t), kt_selected := None, kt_documents := [],
        kt_testHits := [], kt_testRan := False \<rparr>"

definition hasPendingDocuments :: "knowledge_tab \<Rightarrow> bool" where
  "hasPendingDocuments t \<longleftrightarrow>
     list_ex (\<lambda>d. kd_vector_status d = 0 \<and> kd_parse_status d \<noteq> ''legacy_pending'') (kt_documents t)"

text \<open>The timer's tick; its effect is renewed whenever what it reads changes.\<close>

definition doc_poll :: "knowledge_tab \<Rightarrow> (knowledge_tab \<times> doc_read) option" where
  "doc_poll t =
     (case kt_selected t of
        None \<Rightarrow> None
      | Some kb \<Rightarrow>
          if hasPendingDocuments t
          then Some (fetch_begin (ck_id kb) (kt_docPage t) (kt_docPageSize t) (kt_docKeyword t) True t)
          else None)"

definition searchDocs :: "console_kb \<Rightarrow> string \<Rightarrow> knowledge_tab \<Rightarrow> knowledge_tab \<times> doc_read" where
  "searchDocs kb value t =
     fetch_begin (ck_id kb) 1 (kt_docPageSize t) (trim value) False
       (t\<lparr> kt_docKeyword := trim value, kt_docPage := 1 \<rparr>)"

definition turnPage :: "console_kb \<Rightarrow> nat \<Rightarrow> nat \<Rightarrow> knowledge_tab \<Rightarrow> knowledge_tab \<times> doc_read" where
  "turnPage kb page pageSize t =
     fetch_begin (ck_id kb) page pageSize (kt_docKeyword t) False
       (t\<lparr> kt_docPage := page, kt_docPageSize := pageSize \<rparr>)"

text \<open>
  Uploading and deleting go on with the values of the render the button was pressed in: \<open>t0\<close>,
  the state then, and \<open>kb\<close>, the base shown then.
\<close>

definition upload_done ::
  "console_kb \<Rightarrow> knowledge_tab \<Rightarrow> unit api_res \<Rightarrow> knowledge_tab \<Rightarrow> knowledge_tab \<times> kt_effect list" where
  "upload_done kb t0 r t =
     (case r of
        Inl e \<Rightarrow> (t, [KtSaid NtError (error_or e)])
      | Inr _ \<Rightarrow>
          (case fetch_begin (ck_id kb) 1 (kt_docPageSize t0) [] False
                  (t\<lparr> kt_docPage := 1, kt_docSearch := [], kt_docKeyword := [] \<rparr>) of
             (t1, q) \<Rightarrow> (kb_load_begin t1, [KtSaid NtSuccess ''document uploaded'', KtFetch q, KtLoad])))"

definition next_page :: "knowledge_tab \<Rightarrow> nat" where
  "next_page t0 = (if length (kt_documents t0) = 1 \<and> 1 < kt_docPage t0 then kt_docPage t0 - 1 else kt_docPage t0)"

definition delete_doc_done ::
  "console_kb \<Rightarrow> knowledge_tab \<Rightarrow> unit api_res \<Rightarrow> knowledge_tab \<Rightarrow> knowledge_tab \<times> kt_effect list" where
  "delete_doc_done kb t0 r t =
     (case r of
        Inl e \<Rightarrow> (t, [KtSaid NtError (error_or e)])
      | Inr _ \<Rightarrow>
          (case fetch_begin (ck_id kb) (next_page t0) (kt_docPageSize t0) (kt_docKeyword t0) False
                  (t\<lparr> kt_docPage := next_page t0 \<rparr>) of
             (t1, q) \<Rightarrow> (kb_load_begin t1, [KtSaid NtSuccess ''document deleted'', KtFetch q, KtLoad])))"

text \<open>The test of the retrieval: its answer is stored whatever base is shown by then.\<close>

definition runKnowledgeTest_begin :: "knowledge_tab \<Rightarrow> (kt_effect list, knowledge_tab \<times> string \<times> string) sum" where
  "runKnowledgeTest_begin t =
     (case kt_selected t of
        None \<Rightarrow> Inl [KtSaid NtWarning ''enter a question'']
      | Some kb \<Rightarrow>
          if trim (kt_testQuery t) = [] then Inl [KtSaid NtWarning ''enter a question'']
          else Inr (t\<lparr> kt_testLoading := True, kt_testRan := False \<rparr>, trim (kt_testQuery t), ck_id kb))"

definition runKnowledgeTest_done :: "json list api_res \<Rightarrow> knowledge_tab \<Rightarrow> knowledge_tab \<times> kt_effect list" where
  "runKnowledgeTest_done r t =
     (case r of
        Inr hits \<Rightarrow> (t\<lparr> kt_testHits := hits, kt_testRan := True, kt_testLoading := False \<rparr>, [])
      | Inl e \<Rightarrow>
          (t\<lparr> kt_testHits := [], kt_testRan := False, kt_testLoading := False \<rparr>, [KtSaid NtError (error_or e)]))"

subsection \<open>The form of a base\<close>

definition new_kb :: "knowledge_tab \<Rightarrow> knowledge_tab" where
  "new_kb t = t\<lparr> kt_editingKb := None, kt_createOpen := True \<rparr>"

definition edit_kb :: "console_kb \<Rightarrow> knowledge_tab \<Rightarrow> knowledge_tab" where
  "edit_kb kb t = t\<lparr> kt_editingKb := Some kb, kt_createOpen := True \<rparr>"

definition cancel_kb :: "knowledge_tab \<Rightarrow> knowledge_tab" where
  "cancel_kb t = t\<lparr> kt_createOpen := False, kt_editingKb := None \<rparr>"

definition save_kb_done :: "unit api_res \<Rightarrow> knowledge_tab \<Rightarrow> knowledge_tab \<times> kt_effect list" where
  "save_kb_done r t =
     (case r of
        Inr _ \<Rightarrow> (kb_load_begin (cancel_kb t), [KtSaid NtSuccess ''base saved'', KtLoad])
      | Inl e \<Rightarrow> (t, [KtSaid NtError (error_or e)]))"

definition migrate_or_delete_kb_done :: "unit api_res \<Rightarrow> knowledge_tab \<Rightarrow> knowledge_tab \<times> kt_effect list" where
  "migrate_or_delete_kb_done r t =
     (case r of
        Inr _ \<Rightarrow> (kb_load_begin t, [KtSaid NtSuccess ''done'', KtLoad])
      | Inl e \<Rightarrow> (t, [KtSaid NtError (error_or e)]))"

subsection \<open>What the drawer shows, whatever the order of the answers\<close>

lemmas fetch_simps = fetch_begin_def fetch_done_def Let_def

text \<open>
  The tab with the reads under way. An answer to a read of a base lists documents of that base,
  which is what the Server's query by base gives. The rule for an upload or a deletion asks that
  the base it belongs to is still the one shown when it ends.
\<close>

inductive kt_step ::
  "(console_doc \<Rightarrow> string) \<Rightarrow> knowledge_tab \<times> doc_read list \<Rightarrow> knowledge_tab \<times> doc_read list \<Rightarrow> bool"
  for base :: "console_doc \<Rightarrow> string" where
  opens: "openDocs kb t = (t', q) \<Longrightarrow> kt_step base (t, qs) (t', q # qs)"
| closes: "kt_step base (t, qs) (closeDocs t, qs)"
| polls: "doc_poll t = Some (t', q) \<Longrightarrow> kt_step base (t, qs) (t', q # qs)"
| searches: "kt_selected t = Some kb \<Longrightarrow> searchDocs kb v t = (t', q) \<Longrightarrow> kt_step base (t, qs) (t', q # qs)"
| turns: "kt_selected t = Some kb \<Longrightarrow> turnPage kb p n t = (t', q) \<Longrightarrow> kt_step base (t, qs) (t', q # qs)"
| uploads: "kt_selected t = Some kb \<Longrightarrow> upload_done kb t0 r t = (t', es)
     \<Longrightarrow> kt_step base (t, qs) (t', [q. KtFetch q \<leftarrow> es] @ qs)"
| deletes: "kt_selected t = Some kb \<Longrightarrow> delete_doc_done kb t0 r t = (t', es)
     \<Longrightarrow> kt_step base (t, qs) (t', [q. KtFetch q \<leftarrow> es] @ qs)"
| answers: "q \<in> set qs \<Longrightarrow> (\<And>docs n d. r = Inr (docs, n) \<Longrightarrow> d \<in> set docs \<Longrightarrow> base d = dq_kb q)
     \<Longrightarrow> kt_step base (t, qs) (fst (fetch_done q r t), remove1 q qs)"
| reloads: "kt_step base (t, qs) (fst (kb_load_done r t), qs)"
| tests: "runKnowledgeTest_begin t = Inr (t', query, i) \<Longrightarrow> kt_step base (t, qs) (t', qs)"
| tested: "kt_step base (t, qs) (fst (runKnowledgeTest_done h t), qs)"
| forms: "t' \<in> {new_kb t, edit_kb kb t, cancel_kb t, fst (save_kb_done r t)} \<Longrightarrow> kt_step base (t, qs) (t', qs)"

inductive kt_reached :: "(console_doc \<Rightarrow> string) \<Rightarrow> knowledge_tab \<times> doc_read list \<Rightarrow> bool"
  for base :: "console_doc \<Rightarrow> string" where
  start: "kt_reached base (initial_knowledge_tab, [])"
| step: "kt_reached base s \<Longrightarrow> kt_step base s s' \<Longrightarrow> kt_reached base s'"

definition own_documents :: "(console_doc \<Rightarrow> string) \<Rightarrow> knowledge_tab \<times> doc_read list \<Rightarrow> bool" where
  "own_documents base s \<longleftrightarrow>
     (\<forall>q\<in>set (snd s). dq_request q \<le> kt_docRequest (fst s)
        \<and> (dq_request q = kt_docRequest (fst s) \<longrightarrow> map_option ck_id (kt_selected (fst s)) = Some (dq_kb q)))
     \<and> (\<forall>d\<in>set (kt_documents (fst s)). map_option ck_id (kt_selected (fst s)) = Some (base d))"

lemma begin_own:
  assumes "own_documents base (t, qs)" "fetch_begin (ck_id kb) p n w silent (f t) = (t', q)"
    and "kt_selected (f t) = Some kb" "kt_docRequest (f t) = kt_docRequest t"
    and "kt_documents (f t) = [] \<or> (kt_documents (f t) = kt_documents t \<and> kt_selected t = Some kb)"
  shows "own_documents base (t', q # qs)"
  using assms by (fastforce simp: own_documents_def fetch_begin_def Let_def)

lemma own_start: "own_documents base (initial_knowledge_tab, [])"
  by (simp add: own_documents_def initial_knowledge_tab_def)

lemma own_same:
  assumes "own_documents base (t, qs)"
    and "kt_docRequest t' = kt_docRequest t" "kt_selected t' = kt_selected t" "kt_documents t' = kt_documents t"
  shows "own_documents base (t', qs)"
  using assms by (simp add: own_documents_def)

lemma own_answer:
  assumes own: "own_documents base (t, qs)" and q: "q \<in> set qs"
    and docs: "\<And>docs n d. r = Inr (docs, n) \<Longrightarrow> d \<in> set docs \<Longrightarrow> base d = dq_kb q"
  shows "own_documents base (fst (fetch_done q r t), remove1 q qs)"
proof -
  have sub: "set (remove1 q qs) \<subseteq> set qs" by (rule set_remove1_subset)
  show ?thesis
  proof (cases "dq_request q = kt_docRequest t \<and> (\<exists>docs n. r = Inr (docs, n))")
    case True
    then obtain ds n where r: "r = Inr (ds, n)" and cur: "dq_request q = kt_docRequest t" by auto
    have "map_option ck_id (kt_selected t) = Some (dq_kb q)" using own q cur by (simp add: own_documents_def)
    then show ?thesis using own sub docs [OF r] cur
      by (auto simp: own_documents_def fetch_done_def Let_def r)
  next
    case False
    then have "kt_docRequest (fst (fetch_done q r t)) = kt_docRequest t
        \<and> kt_selected (fst (fetch_done q r t)) = kt_selected t
        \<and> kt_documents (fst (fetch_done q r t)) = kt_documents t"
      by (auto simp: fetch_done_def Let_def split: sum.splits)
    then show ?thesis using own sub by (auto simp: own_documents_def)
  qed
qed

lemma own_begin:
  assumes "own_documents base (t, qs)" "fetch_begin (ck_id kb) p n w silent u = (t', q)"
    and "kt_selected u = Some kb" "kt_docRequest u = kt_docRequest t"
    and "kt_documents u = [] \<or> (kt_documents u = kt_documents t \<and> kt_selected t = Some kb)"
  shows "own_documents base (t', q # qs)"
  using begin_own [where f = "\<lambda>_. u" and t = t] assms by simp

lemma own_step: "kt_step base s s' \<Longrightarrow> own_documents base s \<Longrightarrow> own_documents base s'"
proof (induction rule: kt_step.induct)
  case (opens kb t t' q qs)
  show ?case
    by (rule own_begin [OF opens(2)  opens(1) [unfolded openDocs_def]]) simp_all
next
  case (closes t qs)
  then show ?case by (fastforce simp: own_documents_def closeDocs_def)
next
  case (polls t t' q qs)
  then obtain kb where "kt_selected t = Some kb"
    "fetch_begin (ck_id kb) (kt_docPage t) (kt_docPageSize t) (kt_docKeyword t) True t = (t', q)"
    by (auto simp: doc_poll_def split: option.splits if_splits)
  then show ?case using own_begin polls.prems by blast
next
  case (searches t kb v t' q qs)
  show ?case
    by (rule own_begin [OF searches(3) searches(2) [unfolded searchDocs_def]]) (simp_all add: searches(1))
next
  case (turns t kb p n t' q qs)
  show ?case
    by (rule own_begin [OF turns(3) turns(2) [unfolded turnPage_def]]) (simp_all add: turns(1))
next
  case (uploads t kb t0 r t' es qs)
  show ?case
  proof (cases r)
    case (Inl e)
    then show ?thesis using uploads by (auto simp: upload_done_def)
  next
    case (Inr v)
    let ?u = "t\<lparr> kt_docPage := 1, kt_docSearch := [], kt_docKeyword := [] \<rparr>"
    obtain t1 q where b: "fetch_begin (ck_id kb) 1 (kt_docPageSize t0) [] False ?u = (t1, q)" by force
    have "own_documents base (t1, q # qs)"
      by (rule own_begin [OF uploads(3) b]) (simp_all add: uploads(1))
    then show ?thesis using uploads(2) b Inr
      by (auto simp: upload_done_def kb_load_begin_def intro: own_same)
  qed
next
  case (deletes t kb t0 r t' es qs)
  show ?case
  proof (cases r)
    case (Inl e)
    then show ?thesis using deletes by (auto simp: delete_doc_done_def)
  next
    case (Inr v)
    obtain t1 q where b: "fetch_begin (ck_id kb) (next_page t0) (kt_docPageSize t0) (kt_docKeyword t0) False
        (t\<lparr> kt_docPage := next_page t0 \<rparr>) = (t1, q)" by force
    have "own_documents base (t1, q # qs)"
      by (rule own_begin [OF deletes(3) b]) (simp_all add: deletes(1))
    then show ?thesis using deletes(2) b Inr
      by (auto simp: delete_doc_done_def kb_load_begin_def intro: own_same)
  qed
next
  case (answers q qs r t)
  then show ?case using own_answer by blast
next
  case (reloads t qs r)
  then show ?case by (auto simp: kb_load_done_def split: sum.splits elim: own_same)
next
  case (tests t t' query i qs)
  then show ?case
    by (auto simp: runKnowledgeTest_begin_def split: option.splits if_splits elim: own_same)
next
  case (tested t qs h)
  then show ?case by (auto simp: runKnowledgeTest_done_def split: sum.splits elim: own_same)
next
  case (forms t' t kb r qs)
  then show ?case
    by (auto simp: new_kb_def edit_kb_def cancel_kb_def save_kb_done_def kb_load_begin_def
        split: sum.splits elim!: own_same)
qed

text \<open>
  C19. The drawer of a knowledge base only shows documents of that base: whatever the order in
  which the reads of pages, searches, timer ticks and of bases opened before are answered, as
  long as uploads and deletions end while their base is the one shown.
\<close>

theorem drawer_shows_its_base:
  assumes "kt_reached base (t, qs)" "kt_selected t = Some kb" "d \<in> set (kt_documents t)"
  shows "base d = ck_id kb"
proof -
  have "own_documents base s" if "kt_reached base s" for s
    using that by induction (rule own_start, rule own_step)
  from this [OF assms(1)] show ?thesis using assms(2, 3) by (auto simp: own_documents_def)
qed

definition demo_kb :: "string \<Rightarrow> console_kb" where
  "demo_kb i = \<lparr> ck_id = i, ck_name = i, ck_status = KbReady \<rparr>"

definition demo_doc :: "string \<Rightarrow> console_doc" where
  "demo_doc i = \<lparr> kd_id = i, kd_filename = i, kd_vector_status = 0, kd_parse_status = [] \<rparr>"

theorem drawer_shows_its_base_witness:
  "case openDocs (demo_kb ''a'') initial_knowledge_tab of (t, q) \<Rightarrow>
     kt_documents (fst (fetch_done q (Inr ([demo_doc ''d''], 1)) t)) = [demo_doc ''d'']
     \<and> (\<lambda>_. ''a'') (demo_doc ''d'') = ck_id (demo_kb ''a'')"
proof -
  obtain t q where o: "openDocs (demo_kb ''a'') initial_knowledge_tab = (t, q)" by force
  let ?r = "Inr ([demo_doc ''d''], 1) :: (console_doc list \<times> nat) api_res"
  let ?base = "\<lambda>d::console_doc. ''a''"
  have q: "dq_kb q = ''a''" and sel: "kt_selected (fst (fetch_done q ?r t)) = Some (demo_kb ''a'')"
    and docs: "kt_documents (fst (fetch_done q ?r t)) = [demo_doc ''d'']"
    using o by (auto simp: openDocs_def fetch_simps demo_kb_def)
  have "kt_reached ?base (t, [q])" by (rule kt_reached.step [OF kt_reached.start kt_step.opens [OF o]])
  then have "kt_reached ?base (fst (fetch_done q ?r t), remove1 q [q])"
    by (rule kt_reached.step) (rule kt_step.answers, simp_all add: q)
  from drawer_shows_its_base [OF this sel, of "demo_doc ''d''"] docs o show ?thesis by simp
qed

text \<open>
  An upload that ends after another base was opened fills that base's drawer
  with the documents of the old one: it starts a read of the old base that supersedes the one
  of the base shown, so whatever the order of the two answers, those of the old base stay.
\<close>

theorem late_upload_shows_other_base:
  "case openDocs b t of (t1, qb) \<Rightarrow>
   case upload_done a t0 (Inr ()) t1 of (t2, es) \<Rightarrow>
     \<exists>qa. es = [KtSaid NtSuccess ''document uploaded'', KtFetch qa, KtLoad] \<and> dq_kb qa = ck_id a
     \<and> (let t3 = fst (fetch_done qb rb (fst (fetch_done qa (Inr (docs, n)) t2)));
            t4 = fst (fetch_done qa (Inr (docs, n)) (fst (fetch_done qb rb t2)))
        in kt_selected t3 = Some b \<and> kt_documents t3 = docs \<and> kt_selected t4 = Some b \<and> kt_documents t4 = docs)"
  by (simp add: openDocs_def upload_done_def kb_load_begin_def fetch_simps)

text \<open>
  A tick of the timer during a slow read leaves the drawer busy: the tick supersedes the
  read, whose end therefore does not clear the indicator, and does not clear it itself; with
  both answered, in either order, the documents are there and the indicator still turns.
\<close>

theorem tick_leaves_the_drawer_busy:
  assumes "kt_selected t = Some kb" "hasPendingDocuments t" "turnPage kb p n t = (t1, q1)" "doc_poll t1 = Some (t2, q2)"
  shows "kt_docLoading (fst (fetch_done q2 rb (fst (fetch_done q1 ra t2))))
    \<and> kt_docLoading (fst (fetch_done q1 ra (fst (fetch_done q2 rb t2))))
    \<and> (rb = Inr (docs, m) \<longrightarrow> kt_documents (fst (fetch_done q2 rb (fst (fetch_done q1 ra t2)))) = docs)"
proof -
  have "q1 = \<lparr> dq_request = Suc (kt_docRequest t), dq_kb = ck_id kb, dq_page = p, dq_size = n,
      dq_keyword = kt_docKeyword t, dq_silent = False \<rparr>" "kt_docLoading t1" "kt_docRequest t1 = Suc (kt_docRequest t)"
    using assms(3) by (auto simp: turnPage_def fetch_begin_def Let_def)
  moreover from assms(4) have "dq_request q2 = Suc (kt_docRequest t1)" "dq_silent q2" "kt_docLoading t2 = kt_docLoading t1"
    "kt_docRequest t2 = Suc (kt_docRequest t1)"
    by (auto simp: doc_poll_def fetch_begin_def Let_def split: option.splits if_splits)
  ultimately show ?thesis by (auto simp: fetch_done_def Let_def split: sum.splits)
qed

theorem tick_leaves_the_drawer_busy_witness:
  "\<exists>t2 q1 q2. kt_docLoading (fst (fetch_done q2 (Inr ([], 0)) (fst (fetch_done q1 (Inr ([], 0)) t2))))
     \<and> dq_request q1 = 1 \<and> dq_request q2 = 2"
proof -
  let ?t = "initial_knowledge_tab\<lparr> kt_selected := Some (demo_kb ''a''), kt_documents := [demo_doc ''d''] \<rparr>"
  have p: "hasPendingDocuments ?t" by (simp add: hasPendingDocuments_def demo_doc_def)
  obtain t1 q1 where b: "turnPage (demo_kb ''a'') 2 10 ?t = (t1, q1)" by force
  then have s: "kt_selected t1 = Some (demo_kb ''a'')" "hasPendingDocuments t1" "dq_request q1 = 1" "kt_docRequest t1 = 1"
    using p by (auto simp: turnPage_def fetch_simps initial_knowledge_tab_def hasPendingDocuments_def)
  then obtain t2 q2 where "doc_poll t1 = Some (t2, q2)" by (simp add: doc_poll_def)
      (metis surj_pair)
  moreover from this have "dq_request q2 = 2" using s by (auto simp: doc_poll_def fetch_simps)
  ultimately show ?thesis
    using tick_leaves_the_drawer_busy [OF _ p b, where ra = "Inr ([], 0)" and rb = "Inr ([], 0)", THEN conjunct1] s
    by simp blast
qed

end
