(* ===== verification/ProjectPage.thy ===== *)
theory ProjectPage
  imports ProjectState PlanStore
begin

text \<open>
  The page of a project in the console (\<open>src/console/src/pages/ProjectDetailPage.tsx\<close>): the tab
  kept in the address, the collaboration tab, the assets, and the picker of a project's default
  capabilities with the options it makes of the catalogue.
\<close>

subsection \<open>Tabs and sections\<close>

datatype project_tab =
    PtOverview | PtAnalytics | PtPlan | PtBacklog | PtTasks | PtWorkload | PtMilestones | PtSprints
  | PtGantt | PtIterations | PtGovernance | PtKnowledge | PtAssets | PtCollab | PtConfig

datatype project_section =
    SecOverview | SecAnalytics | SecWork | SecPlanning | SecTeam | SecGovernance | SecKnowledge
  | SecAssets | SecConfig

definition tab_key :: "project_tab \<Rightarrow> string" where
  "tab_key t = (case t of
       PtOverview \<Rightarrow> ''overview'' | PtAnalytics \<Rightarrow> ''analytics'' | PtPlan \<Rightarrow> ''plan''
     | PtBacklog \<Rightarrow> ''backlog'' | PtTasks \<Rightarrow> ''tasks'' | PtWorkload \<Rightarrow> ''workload''
     | PtMilestones \<Rightarrow> ''milestones'' | PtSprints \<Rightarrow> ''sprints'' | PtGantt \<Rightarrow> ''gantt''
     | PtIterations \<Rightarrow> ''iterations'' | PtGovernance \<Rightarrow> ''governance'' | PtKnowledge \<Rightarrow> ''knowledge''
     | PtAssets \<Rightarrow> ''assets'' | PtCollab \<Rightarrow> ''collab'' | PtConfig \<Rightarrow> ''config'')"

definition PROJECT_TABS :: "project_tab list" where
  "PROJECT_TABS = [PtOverview, PtAnalytics, PtPlan, PtBacklog, PtTasks, PtWorkload, PtMilestones,
     PtSprints, PtGantt, PtIterations, PtGovernance, PtKnowledge, PtAssets, PtCollab, PtConfig]"

definition PROJECT_SECTION_BY_TAB :: "project_tab \<Rightarrow> project_section" where
  "PROJECT_SECTION_BY_TAB t = (case t of
       PtOverview \<Rightarrow> SecOverview | PtAnalytics \<Rightarrow> SecAnalytics | PtPlan \<Rightarrow> SecWork
     | PtBacklog \<Rightarrow> SecWork | PtTasks \<Rightarrow> SecWork | PtWorkload \<Rightarrow> SecTeam
     | PtMilestones \<Rightarrow> SecPlanning | PtSprints \<Rightarrow> SecPlanning | PtGantt \<Rightarrow> SecPlanning
     | PtIterations \<Rightarrow> SecPlanning | PtGovernance \<Rightarrow> SecGovernance | PtKnowledge \<Rightarrow> SecKnowledge
     | PtAssets \<Rightarrow> SecAssets | PtCollab \<Rightarrow> SecTeam | PtConfig \<Rightarrow> SecConfig)"

definition PROJECT_SECTION_DEFAULT :: "project_section \<Rightarrow> project_tab" where
  "PROJECT_SECTION_DEFAULT s = (case s of
       SecOverview \<Rightarrow> PtOverview | SecAnalytics \<Rightarrow> PtAnalytics | SecWork \<Rightarrow> PtPlan
     | SecPlanning \<Rightarrow> PtMilestones | SecTeam \<Rightarrow> PtWorkload | SecGovernance \<Rightarrow> PtGovernance
     | SecKnowledge \<Rightarrow> PtKnowledge | SecAssets \<Rightarrow> PtAssets | SecConfig \<Rightarrow> PtConfig)"

text \<open>The views each section of the page offers, as its items list them.\<close>

definition section_views :: "project_section \<Rightarrow> project_tab list" where
  "section_views s = (case s of
       SecOverview \<Rightarrow> [PtOverview] | SecAnalytics \<Rightarrow> [PtAnalytics]
     | SecWork \<Rightarrow> [PtPlan, PtBacklog, PtTasks]
     | SecPlanning \<Rightarrow> [PtMilestones, PtSprints, PtGantt, PtIterations]
     | SecTeam \<Rightarrow> [PtWorkload, PtCollab] | SecGovernance \<Rightarrow> [PtGovernance]
     | SecKnowledge \<Rightarrow> [PtKnowledge] | SecAssets \<Rightarrow> [PtAssets] | SecConfig \<Rightarrow> [PtConfig])"

subsection \<open>The tab in the address\<close>

text \<open>An address is its query's parameters; \<open>set\<close> and \<open>delete\<close> are those of \<open>URLSearchParams\<close>.\<close>

type_synonym url_params = "(string \<times> string) list"

definition param_delete :: "string \<Rightarrow> url_params \<Rightarrow> url_params" where
  "param_delete k ps = filter (\<lambda>p. fst p \<noteq> k) ps"

fun param_set :: "string \<Rightarrow> string \<Rightarrow> url_params \<Rightarrow> url_params" where
  "param_set k v [] = [(k, v)]"
| "param_set k v (p # ps) = (if fst p = k then (k, v) # param_delete k ps else p # param_set k v ps)"

definition requestedProjectTab :: "url_params \<Rightarrow> project_tab" where
  "requestedProjectTab ps =
     (case map_of ps ''tab'' of
        None \<Rightarrow> PtOverview
      | Some requested \<Rightarrow> nullish (find_key tab_key requested PROJECT_TABS) PtOverview)"

text \<open>The page's tab and the browser's history: what lies behind, the address, what lies ahead.\<close>

record tab_page =
  pg_tab :: project_tab
  pg_back :: "url_params list"
  pg_now :: url_params
  pg_ahead :: "url_params list"

definition syncTabFromUrl :: "tab_page \<Rightarrow> tab_page" where
  "syncTabFromUrl g =
     (let requested = opt_str (map_of (pg_now g) ''tab'')
      in g\<lparr> pg_tab := requestedProjectTab (pg_now g),
            pg_now := (if requested \<noteq> [] \<and> find_key tab_key requested PROJECT_TABS = None
                       then param_delete ''tab'' (pg_now g) else pg_now g) \<rparr>)"

definition open_project_page :: "url_params list \<Rightarrow> url_params \<Rightarrow> tab_page" where
  "open_project_page past ps =
     syncTabFromUrl \<lparr> pg_tab = requestedProjectTab ps, pg_back = past, pg_now = ps, pg_ahead = [] \<rparr>"

definition selectProjectTab :: "project_tab \<Rightarrow> tab_page \<Rightarrow> tab_page" where
  "selectProjectTab next g =
     (if next = pg_tab g then g
      else g\<lparr> pg_tab := next, pg_back := pg_now g # pg_back g, pg_ahead := [],
              pg_now := (if next = PtOverview then param_delete ''tab'' (pg_now g)
                         else param_set ''tab'' (tab_key next) (pg_now g)) \<rparr>)"

definition select_section :: "project_section \<Rightarrow> tab_page \<Rightarrow> tab_page" where
  "select_section s = selectProjectTab (PROJECT_SECTION_DEFAULT s)"

datatype page_event = SelectTab project_tab | SelectSection project_section | HistoryBack | HistoryForward

definition page_event_step :: "tab_page \<Rightarrow> page_event \<Rightarrow> tab_page" where
  "page_event_step g e =
     (case e of
        SelectTab t \<Rightarrow> selectProjectTab t g
      | SelectSection s \<Rightarrow> select_section s g
      | HistoryBack \<Rightarrow> (case pg_back g of [] \<Rightarrow> g
          | u # us \<Rightarrow> syncTabFromUrl (g\<lparr> pg_back := us, pg_now := u, pg_ahead := pg_now g # pg_ahead g \<rparr>))
      | HistoryForward \<Rightarrow> (case pg_ahead g of [] \<Rightarrow> g
          | u # us \<Rightarrow> syncTabFromUrl (g\<lparr> pg_ahead := us, pg_now := u, pg_back := pg_now g # pg_back g \<rparr>)))"

lemma tab_of_key [simp]: "find_key tab_key (tab_key t) PROJECT_TABS = Some t"
  by (cases t) (simp_all add: find_key_def PROJECT_TABS_def tab_key_def)

lemma param_get_delete [simp]: "map_of (param_delete k ps) k = None"
  by (simp add: map_of_eq_None_iff param_delete_def image_iff)

lemma param_get_set [simp]: "map_of (param_set k v ps) k = Some v"
  by (induction ps) simp_all

lemma param_get_other [simp]:
  "j \<noteq> k \<Longrightarrow> map_of (param_delete k ps) j = map_of ps j"
  "j \<noteq> k \<Longrightarrow> map_of (param_set k v ps) j = map_of ps j"
  by (induction ps) (auto simp: param_delete_def)

lemma requested_sync:
  "requestedProjectTab (pg_now (syncTabFromUrl g)) = requestedProjectTab (pg_now g)"
  by (auto simp: syncTabFromUrl_def Let_def requestedProjectTab_def nullish_def split: option.splits)

lemma requested_select:
  assumes "pg_tab g = requestedProjectTab (pg_now g)"
  shows "requestedProjectTab (pg_now (selectProjectTab t g)) = t" "pg_tab (selectProjectTab t g) = t"
  using assms by (auto simp: selectProjectTab_def requestedProjectTab_def nullish_def)

lemma tab_synced: "pg_tab (syncTabFromUrl g) = requestedProjectTab (pg_now (syncTabFromUrl g))"
  using requested_sync [of g] by (simp add: syncTabFromUrl_def Let_def)

lemma tab_stepped:
  "pg_tab g = requestedProjectTab (pg_now g)
   \<Longrightarrow> pg_tab (page_event_step g e) = requestedProjectTab (pg_now (page_event_step g e))"
  by (cases e) (simp_all add: page_event_step_def select_section_def tab_synced requested_select split: list.split)

lemma tab_is_requested:
  "pg_tab (foldl page_event_step (open_project_page past ps) es)
     = requestedProjectTab (pg_now (foldl page_event_step (open_project_page past ps) es))"
  by (induction es rule: rev_induct) (simp_all add: open_project_page_def tab_synced tab_stepped)

lemma back_undoes_select:
  assumes "pg_tab g = requestedProjectTab (pg_now g)" "t \<noteq> pg_tab g"
  shows "pg_tab (page_event_step (selectProjectTab t g) HistoryBack) = pg_tab g"
  using assms by (simp add: page_event_step_def selectProjectTab_def syncTabFromUrl_def Let_def)

text \<open>
  The tab shown is always the one the address names: whatever tabs and sections are chosen
  and however the browser goes back and forward, opening the address afresh shows the same tab,
  the section shown offers that tab, choosing a section shows a tab of that section, and the
  other parameters of the address stay.
\<close>

theorem tab_follows_address:
  "case foldl page_event_step (open_project_page past ps) es of g \<Rightarrow>
     pg_tab (open_project_page earlier (pg_now g)) = pg_tab g
   \<and> pg_tab g \<in> set (section_views (PROJECT_SECTION_BY_TAB (pg_tab g)))
   \<and> PROJECT_SECTION_BY_TAB (pg_tab (select_section s g)) = s
   \<and> (t \<noteq> pg_tab g \<longrightarrow> pg_tab (page_event_step (selectProjectTab t g) HistoryBack) = pg_tab g)
   \<and> (k \<noteq> ''tab'' \<longrightarrow> map_of (pg_now (selectProjectTab t g)) k = map_of (pg_now g) k)"
proof -
  define g where "g = foldl page_event_step (open_project_page past ps) es"
  have r: "pg_tab g = requestedProjectTab (pg_now g)" unfolding g_def by (rule tab_is_requested)
  have "pg_tab (open_project_page earlier (pg_now g)) = pg_tab g"
    by (simp add: open_project_page_def syncTabFromUrl_def Let_def r)
  moreover have "pg_tab g \<in> set (section_views (PROJECT_SECTION_BY_TAB (pg_tab g)))"
    by (cases "pg_tab g") (simp_all add: PROJECT_SECTION_BY_TAB_def section_views_def)
  moreover have "PROJECT_SECTION_BY_TAB (pg_tab (select_section s g)) = s"
    using requested_select(2) [OF r, of "PROJECT_SECTION_DEFAULT s"]
    by (cases s) (simp_all add: select_section_def PROJECT_SECTION_DEFAULT_def PROJECT_SECTION_BY_TAB_def)
  moreover have "t \<noteq> pg_tab g \<longrightarrow> pg_tab (page_event_step (selectProjectTab t g) HistoryBack) = pg_tab g"
    using back_undoes_select [OF r] by blast
  moreover have "k \<noteq> ''tab'' \<longrightarrow> map_of (pg_now (selectProjectTab t g)) k = map_of (pg_now g) k"
    by (simp add: selectProjectTab_def)
  ultimately show ?thesis by (simp add: g_def)
qed

theorem tab_follows_address_witness:
  "case foldl page_event_step (open_project_page [] [(''tab'', ''gantt'')]) [SelectTab PtCollab, HistoryBack] of g \<Rightarrow>
     pg_tab (open_project_page [] (pg_now g)) = pg_tab g \<and> pg_tab g = PtGantt"
proof -
  let ?g = "foldl page_event_step (open_project_page [] [(''tab'', ''gantt'')]) [SelectTab PtCollab, HistoryBack]"
  have "pg_tab ?g = PtGantt" by code_simp
  then show ?thesis
    using tab_follows_address [where earlier = "[]" and es = "[SelectTab PtCollab, HistoryBack]" and past = "[]"
      and ps = "[(''tab'', ''gantt'')]"] by simp
qed

subsection \<open>Rights and errors\<close>

definition canManage :: "console_project \<Rightarrow> bool" where
  "canManage p \<longleftrightarrow> (cp_role p = RoOwner \<or> cp_role p = RoAdmin) \<and> cp_archived_at p = 0"

text \<open>Who may become the owner, and what the last dialog asks before a project is deleted.\<close>

definition transfer_candidates :: "string \<Rightarrow> member list \<Rightarrow> member list" where
  "transfer_candidates owner_id ms = filter (\<lambda>m. me_account_id m \<noteq> owner_id \<and> me_member_role m \<noteq> RoViewer) ms"

definition delete_allowed :: "string \<Rightarrow> console_project \<Rightarrow> bool" where
  "delete_allowed deleteName p \<longleftrightarrow> deleteName = cp_name p"

subsection \<open>Collaboration\<close>

record collab =
  cb_members :: "member list"
  cb_presence :: "member list"
  cb_comments :: "json list"
  cb_timeline :: "json list"
  cb_inviteCode :: string
  cb_inviteRole :: project_role

definition initial_collab :: collab where
  "initial_collab = \<lparr> cb_members = [], cb_presence = [], cb_comments = [], cb_timeline = [],
     cb_inviteCode = [], cb_inviteRole = RoMember \<rparr>"

definition kept_or :: "'a api_res \<Rightarrow> 'a \<Rightarrow> 'a" where
  "kept_or r old = (case r of Inl _ \<Rightarrow> old | Inr v \<Rightarrow> v)"

definition collab_load_done ::
  "member list api_res \<Rightarrow> member list api_res \<Rightarrow> json list api_res \<Rightarrow> json list api_res \<Rightarrow> collab \<Rightarrow> collab \<times> ws_effect list" where
  "collab_load_done ms ps cs ts b =
     (let n = failed ms + failed ps + failed cs + failed ts
      in (b\<lparr> cb_members := kept_or ms (cb_members b), cb_presence := kept_or ps (cb_presence b),
              cb_comments := kept_or cs (cb_comments b), cb_timeline := kept_or ts (cb_timeline b) \<rparr>,
          if n \<noteq> 0 then [Notify NtWarning (msg_parts_failed n)] else []))"

text \<open>Changing a role and removing a member have no \<open>catch\<close>: a refusal is not shown.\<close>

definition member_changed :: "unit api_res \<Rightarrow> ws_effect list" where
  "member_changed r = (case r of Inr _ \<Rightarrow> [DoReload] | Inl e \<Rightarrow> [])"

definition member_added :: "unit api_res \<Rightarrow> ws_effect list" where
  "member_added r = (case r of Inr _ \<Rightarrow> [Notify NtSuccess ''member joined'', DoReload] | Inl e \<Rightarrow> [Notify NtError (error_or e)])"

definition invited :: "string api_res \<Rightarrow> collab \<Rightarrow> collab \<times> ws_effect list" where
  "invited r b = (case r of Inr code \<Rightarrow> (b\<lparr> cb_inviteCode := code \<rparr>, []) | Inl e \<Rightarrow> (b, [Notify NtError (error_or e)]))"

definition commented :: "unit api_res \<Rightarrow> ws_effect list" where
  "commented r = (case r of Inr _ \<Rightarrow> [DoReload] | Inl e \<Rightarrow> [Notify NtError (error_or e)])"

subsection \<open>Capabilities\<close>

record capability_option =
  co_value :: string
  co_label :: string
  co_icon :: string
  co_description :: string
  co_meta :: string
  co_tags :: "string list"
  co_builtin :: "bool option"

datatype capability_kind = CapConnector | CapExpert | CapSkill

text \<open>The first of the keys with a non-blank string or a number; \<open>String\<close> of an infinity is an argument.\<close>

fun catalogField :: "(json \<Rightarrow> string) \<Rightarrow> json \<Rightarrow> string list \<Rightarrow> string" where
  "catalogField other data [] = []"
| "catalogField other data (k # ks) =
     (case jget k data of
        JStr s \<Rightarrow> if trim s \<noteq> [] then trim s else catalogField other data ks
      | JNum n \<Rightarrow> dec_int n
      | JNonFinite \<Rightarrow> other JNonFinite
      | _ \<Rightarrow> catalogField other data ks)"

definition is_text_or_number :: "json \<Rightarrow> bool" where
  "is_text_or_number v \<longleftrightarrow> (case v of JStr _ \<Rightarrow> True | JNum _ \<Rightarrow> True | JNonFinite \<Rightarrow> True | _ \<Rightarrow> False)"

definition catalogTags :: "(json \<Rightarrow> string) \<Rightarrow> json \<Rightarrow> string list" where
  "catalogTags other v = filter (\<lambda>s. s \<noteq> []) (map (js_string other) (filter is_text_or_number (jarr_d v)))"

definition catalog_object :: "json \<Rightarrow> json" where
  "catalog_object v = (case v of JObj ps \<Rightarrow> v | JArr xs \<Rightarrow> v | _ \<Rightarrow> JObj [(''value'', v)])"

definition capability_label :: "(json \<Rightarrow> string) \<Rightarrow> string \<times> json \<Rightarrow> string" where
  "capability_label other item =
     or_str (catalogField other (catalog_object (snd item)) [''name'', ''title'', ''slug'', ''value'']) (fst item)"

definition capability_option_of :: "(json \<Rightarrow> string) \<Rightarrow> capability_kind \<Rightarrow> string \<times> json \<Rightarrow> capability_option" where
  "capability_option_of other kind item =
     (let data = catalog_object (snd item);
          label = capability_label other item;
          st = catalogField other data [''status'']
      in \<lparr> co_value = (if kind = CapSkill then or_str (catalogField other data [''slug'', ''key'']) label else label),
           co_label = label,
           co_icon = or_str (catalogField other data [''icon'', ''avatar'']) (slice_units 1 label),
           co_description = or_str (catalogField other data [''description'', ''desc'', ''intro'', ''subtitle''])
             ''no description in the catalogue'',
           co_meta = or_str (catalogField other data [''category''])
             (case kind of CapConnector \<Rightarrow> ''connector catalogue'' | CapExpert \<Rightarrow> ''project expert'' | CapSkill \<Rightarrow> ''project skill''),
           co_tags = take 4 (uniq (catalogTags other (jget ''tags'' data)
             @ (if kind = CapSkill then catalogTags other (jget ''tools'' data) else []))),
           co_builtin = (if kind = CapConnector \<and> st \<noteq> [] then Some (st \<noteq> ''tok'') else None) \<rparr>)"

definition mapProjectCapabilityOptions :: "(json \<Rightarrow> string) \<Rightarrow> capability_kind \<Rightarrow> (string \<times> json) list \<Rightarrow> capability_option list" where
  "mapProjectCapabilityOptions other kind items = map (capability_option_of other kind) items"

text \<open>The picker: what is chosen but no longer offered, what the query shows, and the toggle.\<close>

definition picker_missing :: "capability_option list \<Rightarrow> string list \<Rightarrow> string list" where
  "picker_missing options value = filter (\<lambda>v. v \<notin> co_value ` set options) value"

definition picker_text :: "capability_option \<Rightarrow> string" where
  "picker_text c = join_with '' '' ([co_label c, co_description c, co_meta c] @ co_tags c)"

definition picker_visible :: "string \<Rightarrow> capability_option list \<Rightarrow> capability_option list" where
  "picker_visible query options = filter (\<lambda>c. includes_str (lower (trim query)) (lower (picker_text c))) options"

definition picker_toggle :: "bool \<Rightarrow> string \<Rightarrow> string list \<Rightarrow> string list" where
  "picker_toggle disabled item value =
     (if disabled then value
      else if item \<in> set value then filter (\<lambda>c. c \<noteq> item) value else value @ [item])"

lemma includes_nothing: "includes_str [] s"
  by (cases s) simp_all

text \<open>
  The picker accounts for every chosen capability: each one is shown as chosen in the grid
  (with no query) or listed as no longer offered, never both; every entry of the catalogue gives
  an option with a value and a label, for entries with an id; and the toggle, from a list without
  duplicates, changes the choice of that capability alone, twice being the same as not at all
  up to the order.
\<close>

theorem picker_accounts_for_every_choice:
  assumes "\<forall>i\<in>set items. fst i \<noteq> []" "distinct value" "trim query = []"
  shows "case mapProjectCapabilityOptions other kind items of options \<Rightarrow>
     set value = set (picker_missing options value) \<union> (co_value ` set (picker_visible query options) \<inter> set value)
   \<and> set (picker_missing options value) \<inter> co_value ` set (picker_visible query options) = {}
   \<and> (\<forall>c\<in>set options. co_value c \<noteq> [] \<and> co_label c \<noteq> [])
   \<and> length options = length items
   \<and> distinct (picker_toggle disabled x value)
   \<and> (\<forall>y. y \<in> set (picker_toggle False x value) \<longleftrightarrow> (if y = x then y \<notin> set value else y \<in> set value))
   \<and> set (picker_toggle disabled x (picker_toggle disabled x value)) = set value"
proof -
  let ?options = "mapProjectCapabilityOptions other kind items"
  have vis: "picker_visible query ?options = ?options"
    using assms(3) by (simp add: picker_visible_def lower_def includes_nothing)
  have label: "capability_label other i \<noteq> []" if "fst i \<noteq> []" for i
    using that by (simp add: capability_label_def or_str_def)
  have "co_value (capability_option_of other kind i) \<noteq> [] \<and> co_label (capability_option_of other kind i) \<noteq> []"
    if "i \<in> set items" for i
    using label [of i] assms(1) that by (auto simp: capability_option_of_def Let_def or_str_def)
  then have opts: "\<forall>c\<in>set ?options. co_value c \<noteq> [] \<and> co_label c \<noteq> []"
    by (simp add: mapProjectCapabilityOptions_def)
  have len: "length ?options = length items" by (simp add: mapProjectCapabilityOptions_def)
  show ?thesis using assms(2) opts len
    by (auto simp: vis picker_missing_def picker_toggle_def)
qed

theorem picker_accounts_for_every_choice_witness:
  "set (picker_toggle False ''a'' (picker_toggle False ''a'' [''a'', ''b''])) = {''a'', ''b''}"
proof -
  have "\<forall>i\<in>set [(''i'', JStr ''a'')]. fst i \<noteq> []" "distinct [''a'', ''b'']" "trim [] = []"
    by simp_all
  from picker_accounts_for_every_choice [OF this, where other = "\<lambda>_. []" and kind = CapSkill and disabled = False and x = "''a''"]
  show ?thesis by simp
qed

subsection \<open>Assets\<close>

text \<open>\<open>toFixed\<close> of a number that is not negative, and the size of a file in words.\<close>

definition to_fixed :: "nat \<Rightarrow> rat \<Rightarrow> string" where
  "to_fixed f x =
     (let n = nat \<lfloor>x * 10 ^ f + 1 / 2\<rfloor>; d = dec_nat (n mod 10 ^ f)
      in dec_nat (n div 10 ^ f) @ ''.'' @ replicate (f - length d) (CHR ''0'') @ d)"

definition formatAssetSize :: "nat \<Rightarrow> string" where
  "formatAssetSize v =
     (if v < 1024 then dec_nat v @ '' B''
      else if v < 1024 * 1024 then to_fixed 1 (of_nat v / 1024) @ '' KB''
      else if v < 1024 * 1024 * 1024 then to_fixed 1 (of_nat v / 1024 / 1024) @ '' MB''
      else to_fixed 2 (of_nat v / 1024 / 1024 / 1024) @ '' GB'')"

datatype storage_tag = TagCommitted | TagUploading | TagMetadata

definition storage_tag_of :: "string \<Rightarrow> storage_tag" where
  "storage_tag_of s = (if s = ''committed'' then TagCommitted else if s = ''uploading'' then TagUploading else TagMetadata)"

definition asset_done :: "string \<Rightarrow> unit api_res \<Rightarrow> ws_effect list" where
  "asset_done said r = (case r of Inr _ \<Rightarrow> [Notify NtSuccess said, DoReload] | Inl e \<Rightarrow> [Notify NtError (error_or e)])"

end
