(* ===== verification/ConsoleWorkspace.thy ===== *)
theory ConsoleWorkspace
  imports ProjectData ConsoleApi Router ChatTypes
begin

text \<open>
  The personal workspace of the console (\<open>src/console/src/pages/WorkspacePage.tsx\<close>,
  \<open>workspaceApi.ts\<close>, \<open>localAgentPresentation.ts\<close>, \<open>format.ts\<close>): its runs, action items and
  devices, the start of a run, and the checks of \<open>create_turn\<close> in \<open>src/server/routers/business.py\<close>
  a start has to pass.
\<close>

subsection \<open>Records\<close>

record workspace_run =
  wr_id :: string
  wr_session_id :: string
  wr_project_id :: "string option"
  wr_work_item_id :: "string option"
  wr_status :: run_status
  wr_updated_at :: int
  wr_error_message :: "string option"
  wr_queue_message :: "string option"

record workspace_session =
  wn_id :: string
  wn_title :: string
  wn_project_id :: "string option"

record action_item =
  ac_id :: string
  ac_title :: string
  ac_project_id :: string

record action_items =
  as_items :: "action_item list"
  as_unassigned :: "action_item list"
  as_assigned :: int

datatype readiness = ReReady | ReBusy | ReOffline | ReIncompatible | ReUnverified | ReRevoked

record device_capacity =
  dc_active :: "int option"
  dc_parallel :: "int option"
  dc_resident :: "int option"
  dc_resident_limit :: "int option"

record agent_device =
  dv_id :: string
  dv_name :: string
  dv_status :: string
  dv_verified :: "bool option"
  dv_online :: bool
  dv_compatible :: bool
  dv_readiness :: "readiness option"
  dv_capacity :: "device_capacity option"
  dv_max_parallel :: "int option"
  dv_max_resident :: "int option"
  dv_authenticated_at :: int
  dv_revoked_at :: int

datatype workspace_mode = WmAsk | WmPlan | WmExec

record turn_request =
  tr_text :: string
  tr_title :: string
  tr_project_id :: "string option"
  tr_kind :: string
  tr_mode :: workspace_mode
  tr_workspace :: string
  tr_target_device_id :: string
  tr_capabilities :: "string list"
  tr_snapshot :: json

record workspace_turn =
  wt_session_id :: string
  wt_project :: "string option"
  wt_run_id :: string
  wt_duplicate :: bool

record my_workspace =
  mw_actions :: "action_items option"
  mw_runs :: "workspace_run list"
  mw_sessions :: "workspace_session list"
  mw_devices :: "agent_device list"
  mw_projects :: "console_project list"
  mw_loading :: bool
  mw_prompt :: string
  mw_mode :: workspace_mode
  mw_projectId :: string
  mw_targetDeviceId :: string
  mw_submitting :: bool
  mw_createdTurn :: "workspace_turn option"

definition initial_my_workspace :: my_workspace where
  "initial_my_workspace =
     \<lparr> mw_actions = None, mw_runs = [], mw_sessions = [], mw_devices = [], mw_projects = [],
       mw_loading = True, mw_prompt = [], mw_mode = WmExec, mw_projectId = [],
       mw_targetDeviceId = [], mw_submitting = False, mw_createdTurn = None \<rparr>"

subsection \<open>Presentation\<close>

definition ACTIVE_RUNS :: "run_status list" where
  "ACTIVE_RUNS = [RQueued, RLeased, RPlanning, RRunning, RWaitingUser, RWaitingApproval, RPaused, RRecoverable]"

definition ATTENTION_RUNS :: "run_status list" where
  "ATTENTION_RUNS = [RWaitingUser, RWaitingApproval]"

definition FAILED_RUNS :: "run_status list" where
  "FAILED_RUNS = [RFailed, RCancelled]"

datatype tag_color = ColWarning | ColError | ColSuccess | ColProcessing | ColDefault

definition runColor :: "run_status \<Rightarrow> tag_color" where
  "runColor s =
     (if s \<in> set ATTENTION_RUNS \<or> s = RPaused then ColWarning
      else if s \<in> set FAILED_RUNS then ColError
      else if s = RCompleted \<or> s = RSucceeded then ColSuccess else ColProcessing)"

definition deviceColor :: "agent_device \<Rightarrow> tag_color" where
  "deviceColor d =
     (if dv_readiness d = Some ReReady then ColSuccess
      else if dv_readiness d = Some ReBusy then ColProcessing
      else if dv_readiness d = Some ReIncompatible \<or> dv_readiness d = Some ReUnverified then ColWarning
      else ColDefault)"

definition deviceLabel :: "agent_device \<Rightarrow> string" where
  "deviceLabel d =
     (case dv_readiness d of
        Some ReReady \<Rightarrow> ''can execute'' | Some ReBusy \<Rightarrow> ''busy'' | Some ReOffline \<Rightarrow> ''offline''
      | Some ReIncompatible \<Rightarrow> ''protocol not compatible'' | Some ReUnverified \<Rightarrow> ''not verified''
      | Some ReRevoked \<Rightarrow> ''revoked'' | None \<Rightarrow> if dv_online d then ''online'' else ''offline'')"

text \<open>The clock in milliseconds; the difference is rounded to seconds.\<close>

definition relativeTime :: "int \<Rightarrow> int \<Rightarrow> string" where
  "relativeTime now value =
     (if value = 0 then ''time unknown''
      else let seconds = max 0 ((now + 500) div 1000 - value)
        in if seconds < 60 then ''just now''
           else if seconds < 3600 then dec_int (seconds div 60) @ '' minutes ago''
           else if seconds < 86400 then dec_int (seconds div 3600) @ '' hours ago''
           else dec_int (seconds div 86400) @ '' days ago'')"

definition epoch_ms :: "int \<Rightarrow> int option" where
  "epoch_ms value = (if value = 0 then None else Some (if value < 1000000000000 then value * 1000 else value))"

definition localAgentVerified :: "agent_device \<Rightarrow> bool" where
  "localAgentVerified d = nullish (dv_verified d) (0 < dv_authenticated_at d)"

text \<open>\<open>None\<close> is the state \<open>upgrading\<close>: a Server that does not send the readiness yet.\<close>

definition localAgentReadiness :: "agent_device \<Rightarrow> readiness option" where
  "localAgentReadiness d =
     (case dv_readiness d of
        Some r \<Rightarrow> Some r
      | None \<Rightarrow>
          if dv_status d = ''revoked'' \<or> 0 < dv_revoked_at d then Some ReRevoked
          else if \<not> localAgentVerified d then Some ReUnverified else None)"

definition or_int :: "int option \<Rightarrow> int \<Rightarrow> int" where
  "or_int v d = (case v of None \<Rightarrow> d | Some n \<Rightarrow> if n = 0 then d else n)"

record shown_capacity =
  sc_active :: int
  sc_parallel :: int
  sc_resident :: int
  sc_resident_limit :: int

definition localAgentCapacity :: "agent_device \<Rightarrow> shown_capacity" where
  "localAgentCapacity d =
     (let declared = max 1 (or_int (dv_max_parallel d) 1);
          cap = (\<lambda>f. Option.bind (dv_capacity d) f);
          parallel = max 1 (or_int (cap dc_parallel) declared)
      in \<lparr> sc_active = max 0 (or_int (cap dc_active) 0), sc_parallel = parallel,
           sc_resident = max 0 (or_int (cap dc_resident) 0),
           sc_resident_limit = max parallel (or_int (cap dc_resident_limit) (or_int (dv_max_resident d) (parallel * 4))) \<rparr>)"

lemma capacity_bounds:
  "0 \<le> sc_active (localAgentCapacity d) \<and> 1 \<le> sc_parallel (localAgentCapacity d)
   \<and> 0 \<le> sc_resident (localAgentCapacity d) \<and> sc_parallel (localAgentCapacity d) \<le> sc_resident_limit (localAgentCapacity d)"
  by (simp add: localAgentCapacity_def Let_def)

subsection \<open>Loading and the lists\<close>

text \<open>\<open>Promise.all\<close>: one answer that fails leaves all the lists as they were.\<close>

definition workspace_load_begin :: "my_workspace \<Rightarrow> my_workspace" where
  "workspace_load_begin w = w\<lparr> mw_loading := True \<rparr>"

definition workspace_load_done ::
  "(action_items \<times> workspace_run list \<times> workspace_session list \<times> agent_device list \<times> console_project list) api_res
    \<Rightarrow> my_workspace \<Rightarrow> my_workspace \<times> string list" where
  "workspace_load_done r w =
     (case r of
        Inr (a, rs, ss, ds, ps) \<Rightarrow>
          (w\<lparr> mw_actions := Some a, mw_runs := rs, mw_sessions := ss, mw_devices := ds, mw_projects := ps,
              mw_loading := False \<rparr>, [])
      | Inl e \<Rightarrow> (w\<lparr> mw_loading := False \<rparr>, [error_text e]))"

definition sortedRuns :: "my_workspace \<Rightarrow> workspace_run list" where
  "sortedRuns w = sort_desc wr_updated_at (mw_runs w)"

definition activeRuns :: "my_workspace \<Rightarrow> workspace_run list" where
  "activeRuns w = filter (\<lambda>r. wr_status r \<in> set ACTIVE_RUNS) (sortedRuns w)"

definition attentionRuns :: "my_workspace \<Rightarrow> workspace_run list" where
  "attentionRuns w = filter (\<lambda>r. wr_status r \<in> set ATTENTION_RUNS) (sortedRuns w)"

text \<open>\<open>run.updated_at >= Date.now() / 1000 - 7 * 86400\<close>\<close>

definition recentFailed :: "int \<Rightarrow> my_workspace \<Rightarrow> workspace_run list" where
  "recentFailed now w =
     filter (\<lambda>r. wr_status r \<in> set FAILED_RUNS \<and> now - 7 * 86400 * 1000 \<le> wr_updated_at r * 1000) (sortedRuns w)"

definition writableProjects :: "my_workspace \<Rightarrow> console_project list" where
  "writableProjects w = filter (\<lambda>p. cp_role p \<noteq> RoViewer \<and> cp_archived_at p = 0) (mw_projects w)"

definition compatibleDevices :: "my_workspace \<Rightarrow> agent_device list" where
  "compatibleDevices w =
     filter (\<lambda>d. dv_status d = ''active'' \<and> dv_verified d = Some True \<and> dv_compatible d
       \<and> dv_readiness d \<in> {Some ReReady, Some ReBusy}) (mw_devices w)"

definition action_of :: "my_workspace \<Rightarrow> workspace_run \<Rightarrow> action_item option" where
  "action_of w r =
     (if truthy (wr_work_item_id r)
      then find_last (\<lambda>a. ac_id a = opt_str (wr_work_item_id r))
        (case mw_actions w of None \<Rightarrow> [] | Some a \<Rightarrow> as_items a @ as_unassigned a)
      else None)"

definition session_of :: "my_workspace \<Rightarrow> workspace_run \<Rightarrow> workspace_session option" where
  "session_of w r = find_last (\<lambda>s. wn_id s = wr_session_id r) (mw_sessions w)"

definition runTitle :: "my_workspace \<Rightarrow> workspace_run \<Rightarrow> string" where
  "runTitle w r =
     or_str (opt_str (map_option ac_title (action_of w r)))
       (or_str (opt_str (map_option wn_title (session_of w r))) (''Run '' @ slice_units 8 (wr_id r)))"

definition runProject :: "my_workspace \<Rightarrow> workspace_run \<Rightarrow> string option" where
  "runProject w r =
     or_none (Some (or_str (opt_str (wr_project_id r))
       (or_str (opt_str (map_option ac_project_id (action_of w r)))
         (opt_str (Option.bind (session_of w r) wn_project_id)))))"

text \<open>Where a run's two links lead: its project in the console, its session in the desktop app.\<close>

definition openRun :: "(string \<Rightarrow> string) \<Rightarrow> my_workspace \<Rightarrow> workspace_run \<Rightarrow> string option" where
  "openRun encode w r = map_option (\<lambda>p. ''/projects/'' @ encode p) (runProject w r)"

definition desktop_link :: "my_workspace \<Rightarrow> workspace_run \<Rightarrow> string" where
  "desktop_link w r = desktopCompanionRunUrl (wr_session_id r) (runProject w r)"

subsection \<open>Starting a run\<close>

definition workspace_snapshot :: json where
  "workspace_snapshot =
     JObj [(''launched_from'', JStr ''server_workspace''),
       (''loadout'', JObj [(''experts'', JArr []), (''skills'', JArr []), (''skill_bundles'', JArr []),
          (''connectors'', JArr []), (''knowledge_ids'', JArr [])]),
       (''refs'', JArr []), (''local_input_key'', JNull)]"

definition startRun_begin :: "my_workspace \<Rightarrow> (my_workspace \<times> turn_request) option" where
  "startRun_begin w =
     (let text = trim (mw_prompt w); pid = mw_projectId w
      in if text = [] then None
         else Some (w\<lparr> mw_submitting := True \<rparr>,
           \<lparr> tr_text = text, tr_title = slice_units 500 text, tr_project_id = or_none (Some pid),
             tr_kind = (if pid \<noteq> [] then ''projexec'' else ''chat''), tr_mode = mw_mode w,
             tr_workspace = (if pid \<noteq> [] then ''project:'' @ pid else ''default''),
             tr_target_device_id = mw_targetDeviceId w,
             tr_capabilities = [''run_events_v1'', ''llm.chat''] @ (if mw_mode w = WmAsk then [] else [''agent.tools'']),
             tr_snapshot = workspace_snapshot \<rparr>))"

definition startRun_done :: "workspace_turn api_res \<Rightarrow> my_workspace \<Rightarrow> my_workspace \<times> string list" where
  "startRun_done r w =
     (case r of
        Inr t \<Rightarrow> (workspace_load_begin (w\<lparr> mw_createdTurn := Some t, mw_prompt := [] \<rparr>),
          [if wt_duplicate t then ''the same request was found'' else ''run submitted''])
      | Inl e \<Rightarrow> (w\<lparr> mw_submitting := False \<rparr>, [error_text e]))"

definition startRun_reloaded :: "my_workspace \<Rightarrow> my_workspace" where
  "startRun_reloaded w = w\<lparr> mw_submitting := False \<rparr>"

subsection \<open>What the Server asks of a turn\<close>

text \<open>\<open>len\<close> counts code points; a key is secret by its letters and digits in lower case (the
  regular expression the code tries first finds no ASCII key that these markers do not).\<close>

definition code_points :: "string \<Rightarrow> nat" where
  "code_points s = length (filter (\<lambda>c. \<not> (0x80 \<le> byte c \<and> byte c < 0xC0)) s)"

definition alnum_lower :: "string \<Rightarrow> string" where
  "alnum_lower s = filter (\<lambda>c. (97 \<le> byte c \<and> byte c < 123) \<or> (48 \<le> byte c \<and> byte c < 58)) (lower s)"

definition secret_markers :: "string list" where
  "secret_markers = [''token'', ''secret'', ''password'', ''apikey'', ''authorization'', ''credential'']"

fun contains_secret_key :: "json \<Rightarrow> bool" where
  "contains_secret_key (JObj ps) =
     list_ex (\<lambda>(k, v). list_ex (\<lambda>m. includes_str m (alnum_lower k)) secret_markers \<or> contains_secret_key v) ps"
| "contains_secret_key (JArr xs) = list_ex contains_secret_key xs"
| "contains_secret_key _ = False"

definition request_key_ok :: "string \<Rightarrow> bool" where
  "request_key_ok k \<longleftrightarrow>
     (let alnum = (\<lambda>c. (97 \<le> byte c \<and> byte c < 123) \<or> (65 \<le> byte c \<and> byte c < 91) \<or> (48 \<le> byte c \<and> byte c < 58))
      in k \<noteq> [] \<and> alnum (hd k) \<and> length k \<le> 120
         \<and> list_all (\<lambda>c. alnum c \<or> c \<in> {CHR ''.'', CHR ''_'', CHR '':'', CHR ''-''}) (tl k))"

text \<open>
  The refusals of \<open>create_turn\<close> and of its request model, by their status: the access of the
  account to a project (its role and whether it is archived), its active devices and the size
  of the snapshot as JSON text are arguments.
\<close>

definition turn_refused ::
  "(string \<Rightarrow> (project_role \<times> bool) option) \<Rightarrow> (string \<Rightarrow> bool) \<Rightarrow> (json \<Rightarrow> nat) \<Rightarrow> string \<Rightarrow> turn_request \<Rightarrow> int option" where
  "turn_refused access active_device json_bytes key q =
     (if code_points (tr_text q) < 1 \<or> 200000 < code_points (tr_text q)
        \<or> code_points (tr_title q) < 1 \<or> 500 < code_points (tr_title q)
        \<or> 500 < code_points (tr_workspace q) \<or> 200 < code_points (tr_target_device_id q)
        \<or> 100 < length (tr_capabilities q) then Some 422
      else if key \<noteq> [] \<and> \<not> request_key_ok key then Some 400
      else if key = [] then Some 400
      else if tr_kind q \<notin> {''chat'', ''assistant'', ''projexec'', ''automation''} then Some 400
      else if \<not> distinct (tr_capabilities q) \<or> list_ex (\<lambda>c. c = [] \<or> 200 < code_points c) (tr_capabilities q) then Some 400
      else if contains_secret_key (tr_snapshot q) then Some 400
      else if 256 * 1024 < json_bytes (tr_snapshot q) then Some 413
      else case (if truthy (tr_project_id q) then
               (case access (opt_str (tr_project_id q)) of
                  None \<Rightarrow> Some 404
                | Some (role, archived) \<Rightarrow> if archived then Some 409 else if role = RoViewer then Some 403 else None)
             else None) of
        Some e \<Rightarrow> Some e
      | None \<Rightarrow> if tr_target_device_id q \<noteq> [] \<and> \<not> active_device (tr_target_device_id q) then Some (400::int) else None)"

lemma code_points_units: "code_points s \<le> length_units s"
  by (induction s) (auto simp: code_points_def utf16_units_def)

lemma code_points_prefix: "code_points s \<le> code_points (s @ t)"
  by (simp add: code_points_def)

lemma utf8_starts: "utf8 s \<Longrightarrow> s \<noteq> [] \<Longrightarrow> \<not> (0x80 \<le> byte (hd s) \<and> byte (hd s) < 0xC0)"
  by (cases s) (auto simp: utf8.simps(2) conts_def Let_def split: if_splits)

lemma title_starts:
  assumes "utf8 s" "s \<noteq> []"
  shows "1 \<le> code_points (slice_units 500 s)" "1 \<le> code_points s"
proof -
  obtain c cs where s: "s = c # cs" using assms(2) by (cases s) auto
  have c: "\<not> (0x80 \<le> byte c \<and> byte c < 0xC0)" using utf8_starts [OF assms] s by simp
  then have "1 \<le> code_points (c # r)" for r by (simp add: code_points_def)
  moreover have "slice_units 500 s = c # slice_units (500 - utf16_units c) cs" by (simp add: s utf16_units_def)
  ultimately show "1 \<le> code_points (slice_units 500 s)" "1 \<le> code_points s" using s by simp_all
qed

lemma snapshot_is_public: "\<not> contains_secret_key workspace_snapshot"
  by code_simp

lemma turn_fields:
  assumes "startRun_begin w = Some (w', q)" "utf8 (trim (mw_prompt w))" "length_units (trim (mw_prompt w)) \<le> 200000"
  shows "1 \<le> code_points (tr_text q)" "code_points (tr_text q) \<le> 200000"
    "1 \<le> code_points (tr_title q)" "code_points (tr_title q) \<le> 500"
    "length (tr_capabilities q) \<le> 3" "distinct (tr_capabilities q)"
    "\<not> list_ex (\<lambda>c. c = [] \<or> 200 < code_points c) (tr_capabilities q)"
    "tr_kind q \<in> {''chat'', ''assistant'', ''projexec'', ''automation''}" "tr_snapshot q = workspace_snapshot"
proof -
  have t: "trim (mw_prompt w) \<noteq> []" using assms(1) by (auto simp: startRun_begin_def Let_def)
  have q: "tr_text q = trim (mw_prompt w)" "tr_title q = slice_units 500 (trim (mw_prompt w))"
    using assms(1) by (auto simp: startRun_begin_def Let_def split: if_splits)
  show "1 \<le> code_points (tr_text q)" "1 \<le> code_points (tr_title q)"
    using title_starts [OF assms(2) t] q by simp_all
  show "code_points (tr_text q) \<le> 200000"
    using code_points_units [of "trim (mw_prompt w)"] assms(3) q by simp
  show "code_points (tr_title q) \<le> 500"
    using code_points_units [of "slice_units 500 (trim (mw_prompt w))"] slice_units_bound [of 500 "trim (mw_prompt w)"] q by simp
  show "length (tr_capabilities q) \<le> 3" "distinct (tr_capabilities q)"
    "tr_kind q \<in> {''chat'', ''assistant'', ''projexec'', ''automation''}" "tr_snapshot q = workspace_snapshot"
    using assms(1) by (auto simp: startRun_begin_def Let_def split: if_splits)
  show "\<not> list_ex (\<lambda>c. c = [] \<or> 200 < code_points c) (tr_capabilities q)"
    using assms(1) by (auto simp: startRun_begin_def Let_def code_points_def split: if_splits)
qed

text \<open>
  C20. The Server accepts every run the workspace page lets its user start, with a project and a
  device chosen from the page's lists, as long as the account's rights and devices are still
  those of the lists: of all the checks of \<open>create_turn\<close> only the ones of access can refuse it.
  The text is within the field's limit, ids within the Server's, and the key a UUID.
\<close>

theorem workspace_run_is_accepted:
  assumes "startRun_begin w = Some (w', q)" "utf8 (trim (mw_prompt w))" "length_units (trim (mw_prompt w)) \<le> 200000"
    and "request_key_ok key" "json_bytes workspace_snapshot \<le> 256 * 1024"
    and "code_points (mw_projectId w) \<le> 400" "code_points (mw_targetDeviceId w) \<le> 200"
    and "mw_projectId w = [] \<or> mw_projectId w \<in> cp_id ` set (writableProjects w)"
    and "\<forall>p\<in>set (mw_projects w). access (cp_id p) = Some (cp_role p, cp_archived_at p \<noteq> 0)"
    and "mw_targetDeviceId w = [] \<or> mw_targetDeviceId w \<in> dv_id ` set (compatibleDevices w)"
    and "\<forall>d\<in>set (mw_devices w). active_device (dv_id d) \<longleftrightarrow> dv_status d = ''active''"
  shows "turn_refused access active_device json_bytes key q = None"
proof -
  note f = turn_fields [OF assms(1-3)]
  have q: "tr_project_id q = or_none (Some (mw_projectId w))" "tr_target_device_id q = mw_targetDeviceId w"
    "tr_workspace q = (if mw_projectId w \<noteq> [] then ''project:'' @ mw_projectId w else ''default'')"
    using assms(1) by (auto simp: startRun_begin_def Let_def split: if_splits)
  have ws: "code_points (tr_workspace q) \<le> 500"
    using assms(6) by (simp add: q code_points_def)
  have key: "key \<noteq> []" using assms(4) by (simp add: request_key_ok_def Let_def)
  have project: "\<exists>r. access (mw_projectId w) = Some (r, False) \<and> r \<noteq> RoViewer" if "mw_projectId w \<noteq> []"
    using that assms(8, 9) by (auto simp: writableProjects_def)
  have device: "mw_targetDeviceId w = [] \<or> active_device (mw_targetDeviceId w)"
    using assms(10, 11) by (auto simp: compatibleDevices_def)
  have "\<not> (code_points (tr_text q) < 1 \<or> 200000 < code_points (tr_text q)
      \<or> code_points (tr_title q) < 1 \<or> 500 < code_points (tr_title q) \<or> 500 < code_points (tr_workspace q)
      \<or> 200 < code_points (tr_target_device_id q) \<or> 100 < length (tr_capabilities q))"
    using f ws assms(7) by (simp add: q)
  then have "turn_refused access active_device json_bytes key q =
      (case (if mw_projectId w = [] then None else case access (mw_projectId w) of None \<Rightarrow> Some 404
        | Some (role, archived) \<Rightarrow> if archived then Some 409 else if role = RoViewer then Some 403 else None) of
        Some e \<Rightarrow> Some e
      | None \<Rightarrow> if mw_targetDeviceId w \<noteq> [] \<and> \<not> active_device (mw_targetDeviceId w) then Some 400 else None)"
    using f key assms(4, 5) snapshot_is_public by (simp add: turn_refused_def q or_none_def truthy_def)
  then show ?thesis using device project by (cases "mw_projectId w = []") auto
qed

definition demo_workspace :: my_workspace where
  "demo_workspace = initial_my_workspace\<lparr> mw_prompt := ''do it'', mw_projectId := ''p'',
     mw_projects := [\<lparr> cp_id = ''p'', cp_name = ''P'', cp_role = RoMember, cp_archived_at = 0 \<rparr>] \<rparr>"

theorem workspace_run_is_accepted_witness:
  "\<exists>w' q. startRun_begin demo_workspace = Some (w', q) \<and> tr_kind q = ''projexec''
     \<and> turn_refused (\<lambda>i. if i = ''p'' then Some (RoMember, False) else None) (\<lambda>_. False) (\<lambda>_. 200) ''0b5c-1'' q = None"
proof -
  have "trim ''do it'' = ''do it''" by (rule trim_plain) simp_all
  then have t: "trim (mw_prompt demo_workspace) = ''do it''" by (simp add: demo_workspace_def)
  have u: "utf8 ''do it''" by (simp add: utf8.simps)
  have u': "utf8 (trim (mw_prompt demo_workspace))" unfolding t by (rule u)
  have l: "length_units (trim (mw_prompt demo_workspace)) \<le> 200000" unfolding t by (simp add: utf16_units_def)
  have k: "request_key_ok ''0b5c-1''" by code_simp
  have pid: "mw_projectId demo_workspace = ''p''" by (simp add: demo_workspace_def)
  obtain w' q where s: "startRun_begin demo_workspace = Some (w', q)" "tr_kind q = ''projexec''"
    by (simp add: startRun_begin_def t pid Let_def)
  have "turn_refused (\<lambda>i. if i = ''p'' then Some (RoMember, False) else None) (\<lambda>_. False) (\<lambda>_. 200) ''0b5c-1'' q = None"
    by (rule workspace_run_is_accepted [OF s(1) u' l k])
      (simp_all add: utf16_units_def demo_workspace_def initial_my_workspace_def code_points_def writableProjects_def)
  then show ?thesis using s by blast
qed

text \<open>
  Every run is active, failed or completed, in exactly one of the three, but for drafts and
  accepted ones; those that wait for their user are active.
\<close>

lemma run_kinds:
  "s \<in> set ACTIVE_RUNS \<longleftrightarrow> s \<notin> set FAILED_RUNS \<and> s \<notin> {RCompleted, RSucceeded, RDraft, RAccepted}"
  "s \<in> set ATTENTION_RUNS \<Longrightarrow> s \<in> set ACTIVE_RUNS"
  by (cases s; simp add: ACTIVE_RUNS_def FAILED_RUNS_def ATTENTION_RUNS_def)+

lemma workspace_lists_its_runs:
  "mset (sortedRuns w) = mset (mw_runs w)"
  "set (attentionRuns w) \<subseteq> set (activeRuns w)"
  "set (activeRuns w) \<inter> set (recentFailed now w) = {}"
proof -
  show "mset (sortedRuns w) = mset (mw_runs w)" by (simp add: sortedRuns_def)
  show "set (attentionRuns w) \<subseteq> set (activeRuns w)"
    using run_kinds(2) by (auto simp: attentionRuns_def activeRuns_def)
  show "set (activeRuns w) \<inter> set (recentFailed now w) = {}"
    using run_kinds(1) by (auto simp: activeRuns_def recentFailed_def)
qed

end
