(* ===== verification/Updates.thy ===== *)
theory Updates
  imports PlanStore
begin

text \<open>
  The desktop updates (\<open>src/src/platform/updates.ts\<close>): the preferences kept in the storage, the
  check for an update with the report of its failure, and the automatic check at start, at most
  once a day for an endpoint and channel. \<open>JSON.parse\<close> and \<open>JSON.stringify\<close> are arguments, as
  are the clock (in milliseconds), the fresh device id and the endpoint of the build.
\<close>

subsection \<open>Preferences\<close>

datatype update_channel = ChStable | ChBeta

record update_preferences =
  up_endpoint :: string
  up_channel :: update_channel
  up_automatic :: bool
  up_deviceId :: string

record json_codec =
  jc_parse :: "string \<Rightarrow> json option"
  jc_print :: "json \<Rightarrow> string"

definition PREFS_KEY :: string where "PREFS_KEY = ''agentmate.desktopUpdate.preferences.v1''"
definition LAST_CHECK_KEY :: string where "LAST_CHECK_KEY = ''agentmate.desktopUpdate.lastCheck.v1''"
definition LAST_RESULT_KEY :: string where "LAST_RESULT_KEY = ''agentmate.desktopUpdate.lastResult.v1''"
definition AUTO_INTERVAL_MS :: int where "AUTO_INTERVAL_MS = 24 * 60 * 60 * 1000"

definition channel_key :: "update_channel \<Rightarrow> string" where
  "channel_key c = (case c of ChStable \<Rightarrow> ''stable'' | ChBeta \<Rightarrow> ''beta'')"

text \<open>\<open>value.trim().replace(/\/$/, '')\<close>\<close>

definition clean_endpoint :: "string \<Rightarrow> string" where
  "clean_endpoint v = (let t = trim v in if t \<noteq> [] \<and> last t = CHR ''/'' then butlast t else t)"

definition preferences_json :: "update_preferences \<Rightarrow> json" where
  "preferences_json p =
     JObj [(''endpoint'', JStr (up_endpoint p)), (''channel'', JStr (channel_key (up_channel p))),
           (''automatic'', JBool (up_automatic p)), (''deviceId'', JStr (up_deviceId p))]"

definition fallback_preferences :: "string \<Rightarrow> string \<Rightarrow> update_preferences" where
  "fallback_preferences build_endpoint uuid =
     \<lparr> up_endpoint = clean_endpoint build_endpoint, up_channel = ChStable, up_automatic = True, up_deviceId = uuid \<rparr>"

definition read_preferences :: "update_preferences \<Rightarrow> json \<Rightarrow> update_preferences" where
  "read_preferences fallback v =
     \<lparr> up_endpoint = (case jget ''endpoint'' v of JStr s \<Rightarrow> clean_endpoint s | _ \<Rightarrow> up_endpoint fallback),
       up_channel = (if jget ''channel'' v = JStr ''beta'' then ChBeta else ChStable),
       up_automatic = (case jget ''automatic'' v of JBool b \<Rightarrow> b | _ \<Rightarrow> True),
       up_deviceId = (case jget ''deviceId'' v of
            JStr s \<Rightarrow> if 8 \<le> length_units s then s else up_deviceId fallback | _ \<Rightarrow> up_deviceId fallback) \<rparr>"

text \<open>Reading a property of \<open>null\<close> throws, as a text that is no JSON does.\<close>

definition getUpdatePreferences ::
  "json_codec \<Rightarrow> string \<Rightarrow> string \<Rightarrow> storage \<Rightarrow> update_preferences \<times> storage" where
  "getUpdatePreferences c build_endpoint uuid ls =
     (let fallback = fallback_preferences build_endpoint uuid;
          next = (case jc_parse c (or_opt (ls PREFS_KEY) ''{}'') of
              None \<Rightarrow> fallback
            | Some v \<Rightarrow> if is_nullish v then fallback else read_preferences fallback v)
      in (next, ls(PREFS_KEY \<mapsto> jc_print c (preferences_json next))))"

definition saveUpdatePreferences :: "json_codec \<Rightarrow> update_preferences \<Rightarrow> storage \<Rightarrow> update_preferences \<times> storage" where
  "saveUpdatePreferences c p ls =
     (let next = p\<lparr> up_endpoint := clean_endpoint (up_endpoint p) \<rparr>
      in (next, ls(PREFS_KEY \<mapsto> jc_print c (preferences_json next))))"

subsection \<open>Checking\<close>

definition errorCode :: "string \<Rightarrow> bool \<Rightarrow> string" where
  "errorCode text install =
     (let m = lower text
      in if includes_str ''signature'' m then ''signature_invalid''
         else if includes_str ''timeout'' m then ''timeout''
         else if includes_str ''network'' m \<or> includes_str ''connect'' m then ''network_error''
         else if install then ''install_failed'' else ''check_failed'')"

definition getLastUpdateResult :: "json_codec \<Rightarrow> storage \<Rightarrow> json" where
  "getLastUpdateResult c ls = nullish (jc_parse c (or_opt (ls LAST_RESULT_KEY) ''null'')) JNull"

record failure_report =
  fr_url :: string
  fr_device :: string
  fr_body :: json

definition reportFailure :: "update_preferences \<Rightarrow> json \<Rightarrow> string \<Rightarrow> bool \<Rightarrow> failure_report option" where
  "reportFailure p result code install =
     (if up_endpoint p = [] then None
      else Some \<lparr> fr_url = up_endpoint p @ ''/api/desktop-updates/events'', fr_device = up_deviceId p,
        fr_body = JObj [(''channel'', JStr (channel_key (up_channel p))),
          (''event'', JStr (if install then ''install_failed'' else ''download_failed'')),
          (''current_version'', if jtruthy (jget ''current_version'' result) then jget ''current_version'' result else JStr []),
          (''release_id'', if jtruthy (jget ''release_id'' result) then jget ''release_id'' result else JNull),
          (''error_code'', JStr code)] \<rparr>)"

text \<open>The outcome of a check, the storage after it, and the report it sends.\<close>

definition checkDesktopUpdate ::
  "json_codec \<Rightarrow> bool \<Rightarrow> (update_preferences \<Rightarrow> bool \<Rightarrow> json res) \<Rightarrow> update_preferences \<Rightarrow> bool \<Rightarrow> storage
    \<Rightarrow> json res \<times> storage \<times> failure_report option" where
  "checkDesktopUpdate c isDesktop checkForUpdates p install ls =
     (if \<not> isDesktop then (Inr (JObj [(''status'', JStr ''unsupported'')]), ls, None)
      else if up_endpoint p = [] then (Inl (Err ''no update service configured''), ls, None)
      else case checkForUpdates p install of
        Inr r \<Rightarrow> (Inr r, ls(LAST_RESULT_KEY \<mapsto> jc_print c r), None)
      | Inl e \<Rightarrow> (Inl e, ls, reportFailure p (getLastUpdateResult c ls) (errorCode (exn_message e) install) install))"

subsection \<open>The automatic check\<close>

definition check_key :: "update_preferences \<Rightarrow> string" where
  "check_key p = up_endpoint p @ ''|'' @ channel_key (up_channel p)"

definition checked_recently :: "json_codec \<Rightarrow> update_preferences \<Rightarrow> int \<Rightarrow> storage \<Rightarrow> bool" where
  "checked_recently c p now ls =
     (case jc_parse c (or_opt (ls LAST_CHECK_KEY) ''{}'') of
        None \<Rightarrow> False
      | Some v \<Rightarrow> \<not> is_nullish v \<and> jget ''key'' v = JStr (check_key p) \<and> now - jint_d (jget ''at'' v) < AUTO_INTERVAL_MS)"

text \<open>The preferences a check starts with, if one starts, and the storage.\<close>

definition startAutomaticUpdateCheck ::
  "json_codec \<Rightarrow> bool \<Rightarrow> string \<Rightarrow> string \<Rightarrow> int \<Rightarrow> storage \<Rightarrow> update_preferences option \<times> storage" where
  "startAutomaticUpdateCheck c isDesktop build_endpoint uuid now ls =
     (if \<not> isDesktop then (None, ls)
      else case getUpdatePreferences c build_endpoint uuid ls of (p, ls1) \<Rightarrow>
        if \<not> up_automatic p \<or> up_endpoint p = [] then (None, ls1)
        else if checked_recently c p now ls1 then (None, ls1)
        else (Some p, ls1(LAST_CHECK_KEY \<mapsto> jc_print c (JObj [(''key'', JStr (check_key p)), (''at'', JNum now)]))))"

subsection \<open>Preferences read back\<close>

definition json_codec_ok :: "json_codec \<Rightarrow> bool" where
  "json_codec_ok c \<longleftrightarrow>
     jc_parse c ''{}'' = Some (JObj []) \<and> (\<forall>v. jc_parse c (jc_print c v) = Some v \<and> jc_print c v \<noteq> [])"

lemma keys_differ [simp]:
  "PREFS_KEY \<noteq> LAST_CHECK_KEY" "LAST_CHECK_KEY \<noteq> PREFS_KEY" "LAST_RESULT_KEY \<noteq> LAST_CHECK_KEY"
  "LAST_CHECK_KEY \<noteq> LAST_RESULT_KEY" "PREFS_KEY \<noteq> LAST_RESULT_KEY" "LAST_RESULT_KEY \<noteq> PREFS_KEY"
  by (simp_all add: PREFS_KEY_def LAST_CHECK_KEY_def LAST_RESULT_KEY_def)

definition kept_preferences :: "update_preferences \<Rightarrow> bool" where
  "kept_preferences p \<longleftrightarrow> clean_endpoint (up_endpoint p) = up_endpoint p \<and> 8 \<le> length_units (up_deviceId p)"

definition holds_preferences :: "json_codec \<Rightarrow> update_preferences \<Rightarrow> storage \<Rightarrow> bool" where
  "holds_preferences c p ls \<longleftrightarrow> ls PREFS_KEY = Some (jc_print c (preferences_json p))"

lemma stored_preferences:
  assumes "json_codec_ok c" "kept_preferences p" "holds_preferences c p ls"
  shows "getUpdatePreferences c build uuid ls = (p, ls)"
proof -
  have "jc_parse c (or_opt (ls PREFS_KEY) ''{}'') = Some (preferences_json p)"
    using assms(1, 3) by (simp add: json_codec_ok_def holds_preferences_def or_opt_def truthy_def)
  moreover have "read_preferences f (preferences_json p) = p" for f
    using assms(2) by (cases "up_channel p")
      (simp_all add: read_preferences_def preferences_json_def kept_preferences_def channel_key_def)
  moreover have "ls(PREFS_KEY \<mapsto> jc_print c (preferences_json p)) = ls"
    using assms(3) by (simp add: holds_preferences_def fun_upd_idem)
  ultimately show ?thesis by (simp add: getUpdatePreferences_def preferences_json_def)
qed

lemma first_preferences:
  assumes "json_codec_ok c"
  shows "getUpdatePreferences c build uuid Map.empty
     = (fallback_preferences build uuid, [PREFS_KEY \<mapsto> jc_print c (preferences_json (fallback_preferences build uuid))])"
  using assms by (simp add: getUpdatePreferences_def json_codec_ok_def or_opt_def truthy_def read_preferences_def
      fallback_preferences_def Let_def)

lemma start_keeps_preferences:
  assumes "json_codec_ok c" "kept_preferences p" "holds_preferences c p ls"
  shows "holds_preferences c p (snd (startAutomaticUpdateCheck c desktop build uuid now ls))"
  using assms(3) by (simp add: startAutomaticUpdateCheck_def stored_preferences [OF assms] holds_preferences_def)

text \<open>
  The update preferences read back as saved, whatever endpoint the running build has and
  however often it starts, with the endpoint cleaned of a trailing slash; and those of the first
  start are kept like saved ones, so an endpoint a later build brings never takes effect.
\<close>

theorem update_preferences_stick:
  assumes "json_codec_ok c" "8 \<le> length_units (up_deviceId p)" "8 \<le> length_units uuid"
    and "clean_endpoint (clean_endpoint (up_endpoint p)) = clean_endpoint (up_endpoint p)"
    and "clean_endpoint (clean_endpoint build) = clean_endpoint build"
  shows "fst (getUpdatePreferences c later_build later_uuid
        (snd (startAutomaticUpdateCheck c desktop build uuid now (snd (saveUpdatePreferences c p ls)))))
      = p\<lparr> up_endpoint := clean_endpoint (up_endpoint p) \<rparr>
    \<and> fst (getUpdatePreferences c later_build later_uuid
        (snd (startAutomaticUpdateCheck c True build uuid now Map.empty)))
      = fallback_preferences build uuid"
proof
  let ?p = "p\<lparr> up_endpoint := clean_endpoint (up_endpoint p) \<rparr>"
  define ls1 where "ls1 = snd (saveUpdatePreferences c p ls)"
  have kept: "kept_preferences ?p" using assms(2, 4) by (simp add: kept_preferences_def)
  have s1: "holds_preferences c ?p ls1"
    by (simp add: ls1_def saveUpdatePreferences_def Let_def holds_preferences_def)
  from stored_preferences [OF assms(1) kept start_keeps_preferences [OF assms(1) kept s1]]
  show "fst (getUpdatePreferences c later_build later_uuid
        (snd (startAutomaticUpdateCheck c desktop build uuid now (snd (saveUpdatePreferences c p ls))))) = ?p"
    by (simp add: ls1_def)
  let ?f = "fallback_preferences build uuid"
  have kept: "kept_preferences ?f" using assms(3, 5) by (simp add: kept_preferences_def fallback_preferences_def)
  have "holds_preferences c ?f (snd (startAutomaticUpdateCheck c True build uuid now Map.empty))"
    by (simp add: startAutomaticUpdateCheck_def first_preferences [OF assms(1)] holds_preferences_def)
  from stored_preferences [OF assms(1) kept this]
  show "fst (getUpdatePreferences c later_build later_uuid
        (snd (startAutomaticUpdateCheck c True build uuid now Map.empty))) = ?f" by simp
qed

definition demo_json_codec :: json_codec where
  "demo_json_codec = \<lparr> jc_parse = (\<lambda>s. if s = ''{}'' then Some (JObj []) else parsed s), jc_print = printed \<rparr>"

lemma printed_no_object: "printed v \<noteq> ''{}''"
  by (simp add: printed_def)

lemma demo_json_codec_ok: "json_codec_ok demo_json_codec"
  by (simp add: json_codec_ok_def demo_json_codec_def parsed_printed printed_no_object)

definition demo_preferences :: update_preferences where
  "demo_preferences = \<lparr> up_endpoint = ''https://u/'', up_channel = ChBeta, up_automatic = True, up_deviceId = ''device-1'' \<rparr>"

lemma demo_trim: "trim ''https://u/'' = ''https://u/''"
  by (rule trim_plain) simp_all

lemma demo_trim_clean: "trim ''https://u'' = ''https://u''"
  by (rule trim_plain) simp_all

lemma demo_endpoint: "clean_endpoint ''https://u/'' = ''https://u''" "clean_endpoint ''https://u'' = ''https://u''"
  by (simp_all add: clean_endpoint_def demo_trim demo_trim_clean)

theorem update_preferences_stick_witness:
  "up_endpoint (fst (getUpdatePreferences demo_json_codec ''https://new'' ''device-3''
     (snd (startAutomaticUpdateCheck demo_json_codec True ''https://u/'' ''device-2'' 5
       (snd (saveUpdatePreferences demo_json_codec demo_preferences Map.empty)))))) = ''https://u''"
proof -
  have "8 \<le> length_units (up_deviceId demo_preferences)" "8 \<le> length_units ''device-2''"
    "clean_endpoint (clean_endpoint (up_endpoint demo_preferences)) = clean_endpoint (up_endpoint demo_preferences)"
    "clean_endpoint (clean_endpoint ''https://u/'') = clean_endpoint ''https://u/''"
    by (simp_all add: demo_preferences_def demo_endpoint utf16_units_def)
  from update_preferences_stick [OF demo_json_codec_ok this, THEN conjunct1]
  show ?thesis by (simp add: demo_preferences_def demo_endpoint)
qed

subsection \<open>At most one automatic check a day\<close>

fun automatic_checks :: "json_codec \<Rightarrow> (int \<times> string \<times> string) list \<Rightarrow> storage \<Rightarrow> int list" where
  "automatic_checks c [] ls = []"
| "automatic_checks c ((now, build, uuid) # starts) ls =
     (case startAutomaticUpdateCheck c True build uuid now ls of
        (None, ls1) \<Rightarrow> automatic_checks c starts ls1
      | (Some p, ls1) \<Rightarrow> now # automatic_checks c starts ls1)"

definition last_check :: "json_codec \<Rightarrow> update_preferences \<Rightarrow> int \<Rightarrow> storage \<Rightarrow> bool" where
  "last_check c p t ls \<longleftrightarrow>
     ls LAST_CHECK_KEY = Some (jc_print c (JObj [(''key'', JStr (check_key p)), (''at'', JNum t)]))"

definition keeps_preferences :: "json_codec \<Rightarrow> update_preferences \<Rightarrow> storage \<Rightarrow> bool" where
  "keeps_preferences c p ls \<longleftrightarrow>
     json_codec_ok c \<and> kept_preferences p \<and> up_automatic p \<and> up_endpoint p \<noteq> []
     \<and> holds_preferences c p ls"

lemma start_cases:
  assumes "keeps_preferences c p ls"
  shows "startAutomaticUpdateCheck c True build uuid now ls =
     (if checked_recently c p now ls then (None, ls)
      else (Some p, ls(LAST_CHECK_KEY \<mapsto> jc_print c (JObj [(''key'', JStr (check_key p)), (''at'', JNum now)]))))"
  using assms stored_preferences [of c p ls build uuid]
  by (simp add: startAutomaticUpdateCheck_def keeps_preferences_def)

lemma recently_iff:
  assumes "json_codec_ok c" "last_check c p t ls"
  shows "checked_recently c p now ls \<longleftrightarrow> now < t + AUTO_INTERVAL_MS"
  using assms by (auto simp: checked_recently_def last_check_def json_codec_ok_def or_opt_def truthy_def)

lemma checks_apart:
  assumes "keeps_preferences c p ls"
  shows "sorted_wrt (\<lambda>a b. a + AUTO_INTERVAL_MS \<le> b) (automatic_checks c starts ls)
    \<and> (last_check c p t ls \<longrightarrow> (\<forall>n\<in>set (automatic_checks c starts ls). t + AUTO_INTERVAL_MS \<le> n))"
  using assms
proof (induction starts arbitrary: ls t)
  case Nil
  then show ?case by simp
next
  case (Cons s starts)
  obtain now build uuid where s: "s = (now, build, uuid)" by (cases s)
  have ok: "json_codec_ok c" using Cons.prems by (simp add: keeps_preferences_def)
  show ?case
  proof (cases "checked_recently c p now ls")
    case True
    then show ?thesis using Cons.IH [OF Cons.prems] by (simp add: s start_cases [OF Cons.prems])
  next
    case False
    let ?ls = "ls(LAST_CHECK_KEY \<mapsto> jc_print c (JObj [(''key'', JStr (check_key p)), (''at'', JNum now)]))"
    have "keeps_preferences c p ?ls" using Cons.prems by (simp add: keeps_preferences_def holds_preferences_def)
    moreover have "last_check c p now ?ls" by (simp add: last_check_def)
    ultimately have rest: "sorted_wrt (\<lambda>a b. a + AUTO_INTERVAL_MS \<le> b) (automatic_checks c starts ?ls)"
      "\<forall>n\<in>set (automatic_checks c starts ?ls). now + AUTO_INTERVAL_MS \<le> n"
      using Cons.IH [of ?ls now] by blast+
    have "t + AUTO_INTERVAL_MS \<le> now" if "last_check c p t ls"
      using recently_iff [OF ok that] False by simp
    then show ?thesis using rest False
      by (force simp: s start_cases [OF Cons.prems] AUTO_INTERVAL_MS_def)
  qed
qed

text \<open>
  However often the desktop app starts, and whatever its clock says, its automatic checks for
  one endpoint and channel are at least a day apart, and a start a day after the last check (or
  the very first one) does check.
\<close>

theorem one_check_a_day:
  assumes "keeps_preferences c p ls"
  shows "sorted_wrt (\<lambda>a b. a + 24 * 60 * 60 * 1000 \<le> b) (automatic_checks c starts ls)
    \<and> (last_check c p t ls \<longrightarrow> automatic_checks c [(now, build, uuid)] ls = (if t + 24 * 60 * 60 * 1000 \<le> now then [now] else []))
    \<and> (ls LAST_CHECK_KEY = None \<longrightarrow> automatic_checks c [(now, build, uuid)] ls = [now])"
proof (intro conjI impI)
  have ok: "json_codec_ok c" using assms by (simp add: keeps_preferences_def)
  show "sorted_wrt (\<lambda>a b. a + 24 * 60 * 60 * 1000 \<le> b) (automatic_checks c starts ls)"
    using checks_apart [OF assms, of starts] by (simp add: AUTO_INTERVAL_MS_def)
  show "automatic_checks c [(now, build, uuid)] ls = (if t + 24 * 60 * 60 * 1000 \<le> now then [now] else [])"
    if "last_check c p t ls"
    using recently_iff [OF ok that, of now] by (simp add: start_cases [OF assms] AUTO_INTERVAL_MS_def)
  show "automatic_checks c [(now, build, uuid)] ls = [now]" if "ls LAST_CHECK_KEY = None"
  proof -
    have "\<not> checked_recently c p now ls"
      using that ok by (simp add: checked_recently_def or_opt_def truthy_def json_codec_ok_def)
    then show ?thesis by (simp add: start_cases [OF assms])
  qed
qed

theorem one_check_a_day_witness:
  "automatic_checks demo_json_codec [(7, ''b'', ''u'')]
     [PREFS_KEY \<mapsto> printed (preferences_json (demo_preferences\<lparr> up_endpoint := ''https://u'' \<rparr>))] = [7]"
proof -
  let ?p = "demo_preferences\<lparr> up_endpoint := ''https://u'' \<rparr>"
  have "kept_preferences ?p" "up_automatic ?p" "up_endpoint ?p \<noteq> []"
    by (simp_all add: kept_preferences_def demo_endpoint) (simp_all add: demo_preferences_def utf16_units_def)
  then have "keeps_preferences demo_json_codec ?p [PREFS_KEY \<mapsto> printed (preferences_json ?p)]"
    using demo_json_codec_ok by (simp only: keeps_preferences_def holds_preferences_def) (simp add: demo_json_codec_def)
  from one_check_a_day [OF this, THEN conjunct2, THEN conjunct2] show ?thesis by simp
qed

end
