(* ===== verification/WorkItemExecution.thy ===== *)
theory WorkItemExecution
  imports ProjectState ConsoleWorkspace
begin

text \<open>
  The execution of a task and the acceptance of what it delivered, in the console
  (\<open>src/console/src/components/project/WorkItemExecution.tsx\<close>) and on the Server
  (\<open>src/server/routers/work_items.py\<close>, \<open>src/server/db.py\<close>, \<open>src/server/run_protocol_store.py\<close>): the
  runs and their artifacts, the policy of automatic execution, and the life of a task from its
  first run to its acceptance and after. Times are seconds.
\<close>

subsection \<open>Data\<close>

record run_plan_entry =
  pn_title :: string
  pn_status :: string
  pn_order :: int

record run_event =
  rv_type :: string
  rv_occurred_at :: int
  rv_payload :: json

record run_artifact =
  rf_id :: string
  rf_name :: string
  rf_exists :: bool
  rf_hash_matches :: bool
  rf_committed :: bool
  rf_accepted :: bool

record item_run =
  ir_id :: string
  ir_status :: run_status
  ir_plan :: "run_plan_entry list"
  ir_events :: "run_event list"
  ir_artifacts :: "run_artifact list"
  ir_started_at :: "int option"
  ir_ended_at :: "int option"
  ir_session_id :: string
  ir_project_id :: "string option"

record acceptance =
  ac_run_id :: string
  ac_artifact_count :: nat
  ac_accepted_by :: string
  ac_accepted_at :: int

datatype policy_mode = PmManual | PmAuto

datatype routing_mode = RmAny | RmSpecific

datatype policy_state =
    PyManual | PyEvaluating | PyBlocked | PyQueued | PyRunning | PyWaitingRetry | PyFailed
  | PyAwaitingAcceptance | PyCompletedWithoutAcceptance | PyAccepted

record policy_draft =
  po_mode :: policy_mode
  po_routing :: routing_mode
  po_target :: string
  po_timeout :: int
  po_attempts :: int

record exec_policy = policy_draft +
  po_owner :: string
  po_owner_name :: string
  po_capabilities :: "string list"
  po_model_ref :: "string option"
  po_backoff :: int
  po_tokens :: int
  po_notify :: string
  po_permissions :: "string list"
  po_version :: int
  po_state :: policy_state
  po_blocker_message :: string

record console_delivery =
  id_item :: task
  id_policy :: "exec_policy option"
  id_can_write :: bool
  id_runs :: "item_run list"
  id_launches :: "string list"
  id_acceptance :: "acceptance option"
  id_next_cursor :: string

subsection \<open>What a run shows\<close>

definition active_item_run :: "run_status \<Rightarrow> bool" where
  "active_item_run s \<longleftrightarrow> s \<in> {RQueued, RLeased, RPlanning, RRunning, RWaitingUser, RPaused, RRecoverable}"

datatype run_duration = NotStarted | InSeconds int | InMinutes int int | InHours int int

definition duration :: "int \<Rightarrow> item_run \<Rightarrow> run_duration" where
  "duration now r =
     (if or_int (ir_started_at r) 0 = 0 then NotStarted
      else let seconds = max 0 (or_int (ir_ended_at r) now - or_int (ir_started_at r) 0)
        in if seconds < 60 then InSeconds seconds
           else if seconds < 3600 then InMinutes (seconds div 60) (seconds mod 60)
           else InHours (seconds div 3600) (seconds mod 3600 div 60))"

definition payloadText :: "json \<Rightarrow> string \<Rightarrow> string" where
  "payloadText p key = jstr_d (jget key p)"

definition eventLabel :: "run_event \<Rightarrow> string" where
  "eventLabel e =
     (let t = rv_type e; p = rv_payload e
      in if t = ''run.started'' then ''the Local Agent began''
         else if t = ''run.waiting_user'' then ''waiting for an answer or a permission''
         else if t = ''run.paused'' \<or> t = ''run.pause_ack'' then ''paused''
         else if t = ''run.completed'' then ''completed, waiting for acceptance''
         else if t = ''run.failed'' then or_str (payloadText p ''message'') ''failed''
         else if t = ''run.cancelled'' \<or> t = ''run.cancel_ack'' then ''cancelled''
         else if t = ''ui.step'' then or_str (payloadText p ''label'') (or_str (payloadText p ''tool'') ''a step'')
         else if t = ''ui.todo'' then or_str (payloadText p ''text'') ''a todo changed''
         else if t = ''ui.plan_snapshot'' then ''a plan was made''
         else if t = ''ui.plan_patch'' then ''the plan was changed''
         else if t = ''ui.artifact'' then ''artifact: '' @ or_str (payloadText p ''name'') ''unnamed''
         else if t = ''ui.error'' then or_str (payloadText p ''message'') ''an error''
         else if t = ''ui.usage'' then ''usage''
         else t)"

definition plan_types :: "string list" where
  "plan_types = [''ui.plan_snapshot'', ''ui.plan_patch'']"

text \<open>
  The plan of the run, or the items of the last event that has a plan; the items are cast, not
  checked, by the argument.
\<close>

definition projectedPlan :: "(json list \<Rightarrow> run_plan_entry list) \<Rightarrow> item_run \<Rightarrow> run_plan_entry list" where
  "projectedPlan as_plan r =
     (if ir_plan r \<noteq> [] then ir_plan r
      else case find_last (\<lambda>e. rv_type e \<in> set plan_types) (ir_events r) of
        None \<Rightarrow> []
      | Some e \<Rightarrow> (case jget ''items'' (rv_payload e) of JArr xs \<Rightarrow> as_plan xs | _ \<Rightarrow> []))"

definition shown_plan :: "(json list \<Rightarrow> run_plan_entry list) \<Rightarrow> item_run \<Rightarrow> run_plan_entry list" where
  "shown_plan as_plan r = sort_key pn_order (projectedPlan as_plan r)"

definition visible_run_events :: "item_run \<Rightarrow> run_event list" where
  "visible_run_events r =
     (let es = filter (\<lambda>e. rv_type e \<notin> set (''ui.usage'' # plan_types)) (ir_events r)
      in drop (length es - 20) es)"

definition verified_artifacts :: "item_run \<Rightarrow> run_artifact list" where
  "verified_artifacts r = filter (\<lambda>a. rf_exists a \<and> rf_hash_matches a) (ir_artifacts r)"

definition run_accepted :: "console_delivery \<Rightarrow> item_run \<Rightarrow> bool" where
  "run_accepted d r \<longleftrightarrow> map_option ac_run_id (id_acceptance d) = Some (ir_id r)"

definition canAccept :: "console_delivery \<Rightarrow> item_run \<Rightarrow> bool" where
  "canAccept d r \<longleftrightarrow> id_can_write d \<and> tk_status (id_item d) = WReview
     \<and> (ir_status r = RCompleted \<or> ir_status r = RSucceeded) \<and> 0 < length (ir_artifacts r)
     \<and> length (verified_artifacts r) = length (ir_artifacts r) \<and> \<not> run_accepted d r"

subsection \<open>The panel\<close>

record execution_panel =
  xp_delivery :: "console_delivery option"
  xp_loading :: bool
  xp_loadingMore :: bool
  xp_accepting :: string
  xp_error :: string
  xp_devices :: "agent_device list"
  xp_savingPolicy :: bool
  xp_triggering :: bool
  xp_draft :: policy_draft

definition first_draft :: policy_draft where
  "first_draft = \<lparr> po_mode = PmManual, po_routing = RmAny, po_target = [], po_timeout = 300, po_attempts = 1 \<rparr>"

definition initial_execution :: execution_panel where
  "initial_execution = \<lparr> xp_delivery = None, xp_loading = True, xp_loadingMore = False, xp_accepting = [],
     xp_error = [], xp_devices = [], xp_savingPolicy = False, xp_triggering = False, xp_draft = first_draft \<rparr>"

definition draft_of_policy :: "exec_policy \<Rightarrow> policy_draft" where
  "draft_of_policy p =
     \<lparr> po_mode = po_mode p, po_routing = po_routing p, po_target = po_target p, po_timeout = po_timeout p,
       po_attempts = po_attempts p \<rparr>"

definition delivery_load :: "bool \<Rightarrow> execution_panel \<Rightarrow> execution_panel" where
  "delivery_load quiet x = (if quiet then x else x\<lparr> xp_loading := True \<rparr>)"

text \<open>
  The answer. A new delivery brings a new policy object, and the effect on it puts the policy into
  the draft; a task with another status is handed to the page.
\<close>

definition delivery_loaded ::
  "bool \<Rightarrow> work_status \<Rightarrow> console_delivery res \<Rightarrow> execution_panel \<Rightarrow> execution_panel \<times> task option" where
  "delivery_loaded quiet shown r x =
     (let y = (if quiet then x else x\<lparr> xp_loading := False \<rparr>)
      in case r of
        Inl e \<Rightarrow> (y\<lparr> xp_error := exn_message e \<rparr>, None)
      | Inr d \<Rightarrow>
          (y\<lparr> xp_delivery := Some d, xp_error := [],
             xp_draft := (case id_policy d of None \<Rightarrow> xp_draft x | Some p \<Rightarrow> draft_of_policy p) \<rparr>,
           if tk_status (id_item d) \<noteq> shown then Some (id_item d) else None))"

definition devices_loaded :: "agent_device list res \<Rightarrow> execution_panel \<Rightarrow> execution_panel" where
  "devices_loaded r x = x\<lparr> xp_devices := (case r of Inr ds \<Rightarrow> ds | Inl _ \<Rightarrow> []) \<rparr>"

text \<open>While a run is active the delivery is read again every 2.5 seconds.\<close>

definition polls :: "execution_panel \<Rightarrow> bool" where
  "polls x = (case xp_delivery x of None \<Rightarrow> False | Some d \<Rightarrow> list_ex (\<lambda>r. active_item_run (ir_status r)) (id_runs d))"

definition loadMore :: "execution_panel \<Rightarrow> execution_panel \<times> string option" where
  "loadMore x =
     (case xp_delivery x of
        None \<Rightarrow> (x, None)
      | Some d \<Rightarrow> if id_next_cursor d = [] then (x, None)
                else (x\<lparr> xp_loadingMore := True \<rparr>, Some (id_next_cursor d)))"

text \<open>The page is joined to the delivery of the press, whatever was read since.\<close>

definition loadMore_done :: "console_delivery \<Rightarrow> console_delivery res \<Rightarrow> execution_panel \<Rightarrow> execution_panel" where
  "loadMore_done d r x =
     (let y = x\<lparr> xp_loadingMore := False \<rparr>
      in case r of
        Inl _ \<Rightarrow> y
      | Inr page \<Rightarrow>
          y\<lparr> xp_delivery := Some (page\<lparr> id_runs := id_runs d @ id_runs page,
                                       id_launches := id_launches d @ id_launches page \<rparr>),
             xp_draft := (case id_policy page of None \<Rightarrow> xp_draft x | Some p \<Rightarrow> draft_of_policy p) \<rparr>)"

definition accept_begin :: "item_run \<Rightarrow> execution_panel \<Rightarrow> execution_panel \<times> (string \<times> nat)" where
  "accept_begin r x = (x\<lparr> xp_accepting := ir_id r \<rparr>, (ir_id r, length (ir_artifacts r)))"

text \<open>The task as updated is handed to the page, and the delivery is read again before the button is freed.\<close>

definition accept_done :: "task res \<Rightarrow> execution_panel \<Rightarrow> execution_panel \<times> task option" where
  "accept_done r x =
     (case r of
        Inr t \<Rightarrow> (x, Some t)
      | Inl _ \<Rightarrow> (x\<lparr> xp_accepting := [] \<rparr>, None))"

definition accept_reloaded :: "execution_panel \<Rightarrow> execution_panel" where
  "accept_reloaded x = x\<lparr> xp_accepting := [] \<rparr>"

subsection \<open>The policy of automatic execution\<close>

definition CORE_CAPABILITIES :: "string list" where
  "CORE_CAPABILITIES = [''run_events_v1'', ''llm.chat'', ''agent.tools'']"

datatype policy_edit =
  SetMode bool | SetRouting routing_mode | SetTarget string | SetTimeout "int option" | SetAttempts "int option"

fun edit_policy :: "policy_edit \<Rightarrow> policy_draft \<Rightarrow> policy_draft" where
  "edit_policy (SetMode on) p = p\<lparr> po_mode := (if on then PmAuto else PmManual) \<rparr>"
| "edit_policy (SetRouting m) p = p\<lparr> po_routing := m \<rparr>"
| "edit_policy (SetTarget t) p = p\<lparr> po_target := t \<rparr>"
| "edit_policy (SetTimeout n) p = p\<lparr> po_timeout := or_int n 300 \<rparr>"
| "edit_policy (SetAttempts n) p = p\<lparr> po_attempts := or_int n 1 \<rparr>"

text \<open>The edits the panel shows: all but the switch only for a policy that is switched on.\<close>

fun edit_shown :: "agent_device list \<Rightarrow> policy_draft \<Rightarrow> policy_edit \<Rightarrow> bool" where
  "edit_shown devices p (SetMode on) \<longleftrightarrow> True"
| "edit_shown devices p (SetRouting m) \<longleftrightarrow> po_mode p = PmAuto"
| "edit_shown devices p (SetTarget t) \<longleftrightarrow> po_mode p = PmAuto \<and> po_routing p = RmSpecific
     \<and> (\<exists>d\<in>set devices. dv_id d = t \<and> localAgentVerified d \<and> dv_status d = ''active'')"
| "edit_shown devices p (SetTimeout n) \<longleftrightarrow> po_mode p = PmAuto \<and> (\<forall>k. n = Some k \<longrightarrow> 1 \<le> k \<and> k \<le> 3600)"
| "edit_shown devices p (SetAttempts n) \<longleftrightarrow> po_mode p = PmAuto \<and> (\<forall>k. n = Some k \<longrightarrow> 1 \<le> k \<and> k \<le> 10)"

definition edit_draft :: "policy_edit \<Rightarrow> execution_panel \<Rightarrow> execution_panel" where
  "edit_draft e x = x\<lparr> xp_draft := edit_policy e (xp_draft x) \<rparr>"

definition policy_save_disabled :: "policy_draft \<Rightarrow> bool" where
  "policy_save_disabled p \<longleftrightarrow> po_mode p = PmAuto \<and> po_routing p = RmSpecific \<and> po_target p = []"

text \<open>The body of the request: the draft, and fixed values of the rest; the owner is the account that asks.\<close>

record policy_request = policy_draft +
  pq_capabilities :: "string list"
  pq_backoff :: int
  pq_tokens :: int
  pq_notify :: string
  pq_permissions :: "string list"

definition savePolicy :: "execution_panel \<Rightarrow> execution_panel \<times> policy_request" where
  "savePolicy x =
     (x\<lparr> xp_savingPolicy := True \<rparr>,
      \<lparr> po_mode = po_mode (xp_draft x), po_routing = po_routing (xp_draft x),
        po_target = (if po_routing (xp_draft x) = RmSpecific then po_target (xp_draft x) else []),
        po_timeout = po_timeout (xp_draft x), po_attempts = po_attempts (xp_draft x),
        pq_capabilities = CORE_CAPABILITIES, pq_backoff = 30, pq_tokens = 0,
        pq_notify = ''failure,recovery'', pq_permissions = [''workspace.write''] \<rparr>)"

definition savePolicy_done :: "task res \<Rightarrow> execution_panel \<Rightarrow> execution_panel \<times> task option" where
  "savePolicy_done r x =
     (case r of
        Inr t \<Rightarrow> (x, Some t)
      | Inl _ \<Rightarrow> (x\<lparr> xp_savingPolicy := False \<rparr>, None))"

definition savePolicy_reloaded :: "execution_panel \<Rightarrow> execution_panel" where
  "savePolicy_reloaded x = x\<lparr> xp_savingPolicy := False \<rparr>"

definition trigger_offered :: "console_delivery \<Rightarrow> bool" where
  "trigger_offered d \<longleftrightarrow> id_can_write d
     \<and> (case id_policy d of None \<Rightarrow> False
        | Some p \<Rightarrow> po_mode p = PmAuto \<and> po_state p \<in> {PyBlocked, PyFailed, PyWaitingRetry})"

definition triggerPolicy :: "execution_panel \<Rightarrow> execution_panel" where
  "triggerPolicy x = x\<lparr> xp_triggering := True \<rparr>"

definition triggerPolicy_done :: "task res \<Rightarrow> execution_panel \<Rightarrow> execution_panel \<times> task option" where
  "triggerPolicy_done r x =
     (case r of
        Inr t \<Rightarrow> (x, Some t)
      | Inl _ \<Rightarrow> (x\<lparr> xp_triggering := False \<rparr>, None))"

definition triggerPolicy_reloaded :: "execution_panel \<Rightarrow> execution_panel" where
  "triggerPolicy_reloaded x = x\<lparr> xp_triggering := False \<rparr>"

subsubsection \<open>The Server\<close>

record server_device =
  vd_id :: string
  vd_owner :: string
  vd_active :: bool
  vd_authenticated_at :: int
  vd_revoked_at :: int

definition usable_device :: "string \<Rightarrow> server_device \<Rightarrow> bool" where
  "usable_device account d \<longleftrightarrow> vd_owner d = account \<and> vd_active d \<and> 0 < vd_authenticated_at d \<and> vd_revoked_at d \<le> 0"

definition request_bounds :: "policy_request \<Rightarrow> bool" where
  "request_bounds q \<longleftrightarrow> code_points (po_target q) \<le> 200 \<and> length (pq_capabilities q) \<le> 100
     \<and> 1 \<le> po_timeout q \<and> po_timeout q \<le> 3600 \<and> 1 \<le> po_attempts q \<and> po_attempts q \<le> 10
     \<and> 1 \<le> pq_backoff q \<and> pq_backoff q \<le> 86400 \<and> 0 \<le> pq_tokens q \<and> pq_tokens q \<le> 10000000
     \<and> code_points (pq_notify q) \<le> 200 \<and> length (pq_permissions q) \<le> 100"

text \<open>\<open>_normalized_policy\<close>, of values within those bounds.\<close>

definition normalized_policy :: "policy_request \<Rightarrow> (string, policy_request) sum" where
  "normalized_policy q =
     (let caps = uniq (if pq_capabilities q = [] then CORE_CAPABILITIES else pq_capabilities q)
      in if po_mode q = PmAuto \<and> \<not> set CORE_CAPABILITIES \<subseteq> set caps then Inl ''core capabilities''
         else if po_routing q = RmSpecific \<and> po_target q = [] then Inl ''specific routing requires target_device_id''
         else Inr (q\<lparr> po_target := (if po_routing q = RmAny then [] else po_target q),
                      pq_capabilities := caps, pq_permissions := uniq (pq_permissions q) \<rparr>))"

definition comparable :: "string \<Rightarrow> policy_request \<Rightarrow> exec_policy \<Rightarrow> bool" where
  "comparable account q p \<longleftrightarrow> po_owner p = account \<and> po_mode p = po_mode q \<and> po_routing p = po_routing q
     \<and> po_target p = po_target q \<and> po_timeout p = po_timeout q \<and> po_attempts p = po_attempts q
     \<and> po_capabilities p = pq_capabilities q \<and> po_model_ref p = None \<and> po_backoff p = pq_backoff q
     \<and> po_tokens p = pq_tokens q \<and> po_notify p = pq_notify q \<and> po_permissions p = pq_permissions q"

text \<open>\<open>configure_policy\<close>, with the status of a refusal; what an automatic policy then starts is left out.\<close>

definition configure_policy ::
  "server_device list \<Rightarrow> string \<Rightarrow> string \<Rightarrow> policy_request \<Rightarrow> exec_policy option \<Rightarrow> (int, exec_policy) sum" where
  "configure_policy devices account name q existing =
     (if \<not> request_bounds q then Inl 422
      else case normalized_policy q of
        Inl _ \<Rightarrow> Inl 400
      | Inr n \<Rightarrow>
          if po_routing n = RmSpecific
             \<and> \<not> list_ex (\<lambda>d. vd_id d = po_target n \<and> usable_device account d) devices then Inl 400
          else case existing of
            Some p \<Rightarrow>
              if comparable account n p then Inr p
              else Inr \<lparr> po_mode = po_mode n, po_routing = po_routing n, po_target = po_target n,
                po_timeout = po_timeout n, po_attempts = po_attempts n, po_owner = account, po_owner_name = name,
                po_capabilities = pq_capabilities n, po_model_ref = None, po_backoff = pq_backoff n,
                po_tokens = pq_tokens n, po_notify = pq_notify n, po_permissions = pq_permissions n,
                po_version = po_version p + 1, po_state = (if po_mode n = PmManual then PyManual else PyEvaluating),
                po_blocker_message = [] \<rparr>
          | None \<Rightarrow> Inr \<lparr> po_mode = po_mode n, po_routing = po_routing n, po_target = po_target n,
                po_timeout = po_timeout n, po_attempts = po_attempts n, po_owner = account, po_owner_name = name,
                po_capabilities = pq_capabilities n, po_model_ref = None, po_backoff = pq_backoff n,
                po_tokens = pq_tokens n, po_notify = pq_notify n, po_permissions = pq_permissions n,
                po_version = 1, po_state = (if po_mode n = PmManual then PyManual else PyEvaluating),
                po_blocker_message = [] \<rparr>)"

definition may_trigger :: "string \<Rightarrow> exec_policy \<Rightarrow> (int, unit) sum" where
  "may_trigger account p =
     (if po_mode p \<noteq> PmAuto then Inl 409 else if po_owner p \<noteq> account then Inl 403 else Inr ())"

subsection \<open>The life of a task on the Server\<close>

record server_asset =
  sa_id :: string
  sa_committed :: bool
  sa_verified :: bool
  sa_accepted :: bool

record server_run =
  sn_id :: string
  sn_status :: run_status
  sn_assets :: "server_asset list"

record task_delivery =
  de_status :: work_status
  de_runs :: "server_run list"
  de_acceptance :: "acceptance option"

definition ended_run :: "run_status \<Rightarrow> bool" where
  "ended_run s \<longleftrightarrow> s \<in> {RCompleted, RSucceeded, RFailed, RCancelled}"

text \<open>\<open>accept_server_work_item_delivery\<close>: the refusal is a 404 or 409.\<close>

definition accept_delivery ::
  "string \<Rightarrow> int \<Rightarrow> string \<Rightarrow> nat \<Rightarrow> task_delivery \<Rightarrow> (int, task_delivery) sum" where
  "accept_delivery actor now run_id expected d =
     (case find_key sn_id run_id (de_runs d) of
        None \<Rightarrow> Inl 404
      | Some r \<Rightarrow>
          let n = length (sn_assets r);
              marked = upd_key sn_id run_id
                (\<lambda>x. x\<lparr> sn_assets := map (\<lambda>a. a\<lparr> sa_accepted := True \<rparr>) (sn_assets x) \<rparr>) (de_runs d)
          in if sn_status r \<noteq> RCompleted \<and> sn_status r \<noteq> RSucceeded then Inl 409
             else if n = 0 \<or> n \<noteq> expected then Inl 409
             else if \<not> list_all (\<lambda>a. sa_committed a \<and> sa_verified a) (sn_assets r) then Inl 409
             else (case de_acceptance d of
                 Some a \<Rightarrow> if ac_run_id a \<noteq> run_id \<or> ac_artifact_count a \<noteq> n then Inl 409
                          else Inr (d\<lparr> de_runs := marked \<rparr>)
               | None \<Rightarrow> if de_status d \<noteq> WReview then Inl 409
                         else Inr \<lparr> de_status = WDone, de_runs = marked,
                           de_acceptance = Some \<lparr> ac_run_id = run_id, ac_artifact_count = n,
                             ac_accepted_by = actor, ac_accepted_at = now \<rparr> \<rparr>))"

text \<open>\<open>update_item\<close> with a new status.\<close>

definition patch_status :: "work_status \<Rightarrow> task_delivery \<Rightarrow> (int, task_delivery) sum" where
  "patch_status s d = (if s = WDone \<and> de_status d = WReview then Inl 409 else Inr (d\<lparr> de_status := s \<rparr>))"

text \<open>\<open>execute_item\<close>: a new run of a task that is not done.\<close>

definition execute_task :: "string \<Rightarrow> task_delivery \<Rightarrow> (int, task_delivery) sum" where
  "execute_task fresh d =
     (if de_status d = WDone then Inl 409
      else Inr (d\<lparr> de_status := WDoing,
                  de_runs := \<lparr> sn_id = fresh, sn_status = RQueued, sn_assets = [] \<rparr> # de_runs d \<rparr>))"

text \<open>A run under way changes: its status, and the files it delivers.\<close>

definition change_run :: "string \<Rightarrow> (server_run \<Rightarrow> server_run) \<Rightarrow> task_delivery \<Rightarrow> task_delivery" where
  "change_run i f d = d\<lparr> de_runs := upd_key sn_id i f (de_runs d) \<rparr>"

definition progress_run :: "string \<Rightarrow> run_status \<Rightarrow> server_asset list \<Rightarrow> task_delivery \<Rightarrow> task_delivery" where
  "progress_run i s assets d =
     change_run i (\<lambda>r. if ended_run (sn_status r) then r else r\<lparr> sn_status := s, sn_assets := sn_assets r @ assets \<rparr>) d"

text \<open>
  The files of a run can be added, changed and taken away at any time, also when it has ended
  (\<open>create_asset\<close>, \<open>update_asset\<close>, \<open>delete_asset\<close> and the uploads).
\<close>

definition change_assets :: "string \<Rightarrow> server_asset list \<Rightarrow> task_delivery \<Rightarrow> task_delivery" where
  "change_assets i assets d = change_run i (\<lambda>r. r\<lparr> sn_assets := assets \<rparr>) d"

text \<open>The end of a run moves its task on, unless it is done.\<close>

definition finish_run :: "string \<Rightarrow> run_status \<Rightarrow> task_delivery \<Rightarrow> task_delivery" where
  "finish_run i s d =
     (case find_key sn_id i (de_runs d) of
        None \<Rightarrow> d
      | Some r \<Rightarrow>
          if ended_run (sn_status r) then d
          else let verified = filter (\<lambda>a. sa_committed a \<and> sa_verified a) (sn_assets r);
                   next = (if s = RFailed \<or> s = RCancelled \<or> verified = [] then WPaused else WReview)
               in (change_run i (\<lambda>r. r\<lparr> sn_status := s \<rparr>) d)
                    \<lparr> de_status := (if de_status d = WDone then WDone else next) \<rparr>)"

inductive task_step :: "task_delivery \<Rightarrow> task_delivery \<Rightarrow> bool" where
  accepted: "accept_delivery actor now i n d = Inr d' \<Longrightarrow> task_step d d'"
| patched: "patch_status s d = Inr d' \<Longrightarrow> task_step d d'"
| executed: "execute_task fresh d = Inr d' \<Longrightarrow> fresh \<notin> sn_id ` set (de_runs d) \<Longrightarrow> task_step d d'"
| progressed: "\<not> ended_run s \<Longrightarrow> task_step d (progress_run i s assets d)"
| filed: "task_step d (change_assets i assets d)"
| finished: "ended_run s \<Longrightarrow> task_step d (finish_run i s d)"

inductive task_reached :: "task_delivery \<Rightarrow> task_delivery \<Rightarrow> bool" for d0 :: task_delivery where
  start: "task_reached d0 d0"
| step: "task_reached d0 d \<Longrightarrow> task_step d d' \<Longrightarrow> task_reached d0 d'"

definition new_delivery :: task_delivery where
  "new_delivery = \<lparr> de_status = WTodo, de_runs = [], de_acceptance = None \<rparr>"

text \<open>What the console reads of it: 500 files of a run at most.\<close>

definition artifact_view :: "server_asset \<Rightarrow> run_artifact" where
  "artifact_view a =
     \<lparr> rf_id = sa_id a, rf_name = sa_id a, rf_exists = sa_committed a, rf_hash_matches = sa_verified a,
       rf_committed = sa_committed a, rf_accepted = sa_accepted a \<rparr>"

definition run_view :: "server_run \<Rightarrow> item_run" where
  "run_view r =
     \<lparr> ir_id = sn_id r, ir_status = sn_status r, ir_plan = [], ir_events = [],
       ir_artifacts = map artifact_view (take 500 (sn_assets r)), ir_started_at = None, ir_ended_at = None,
       ir_session_id = [], ir_project_id = None \<rparr>"

definition delivery_view :: "bool \<Rightarrow> task \<Rightarrow> exec_policy option \<Rightarrow> task_delivery \<Rightarrow> console_delivery" where
  "delivery_view can_write t p d =
     \<lparr> id_item = t\<lparr> tk_status := de_status d \<rparr>, id_policy = p, id_can_write = can_write,
       id_runs = map run_view (de_runs d), id_launches = map sn_id (de_runs d),
       id_acceptance = de_acceptance d, id_next_cursor = [] \<rparr>"

subsection \<open>What is offered and what is accepted\<close>

lemma upd_ids [simp]: "(\<And>x. sn_id (f x) = sn_id x) \<Longrightarrow> map sn_id (upd_key sn_id i f rs) = map sn_id rs"
  by (simp add: upd_where_def)

lemma accept_cases:
  assumes "accept_delivery actor now i n d = Inr d'"
  shows "map sn_id (de_runs d') = map sn_id (de_runs d)
    \<and> (de_acceptance d = None \<and> de_acceptance d' \<noteq> None \<or> de_acceptance d' = de_acceptance d)"
  using assms by (auto simp: accept_delivery_def Let_def split: option.splits if_splits)

lemma step_ids: "task_step d d' \<Longrightarrow> distinct (map sn_id (de_runs d)) \<Longrightarrow> distinct (map sn_id (de_runs d'))"
proof (induction rule: task_step.induct)
  case (accepted actor now i n d d')
  then show ?case using accept_cases by metis
next
  case (finished s i d)
  then show ?case by (simp add: finish_run_def change_run_def Let_def split: option.split)
qed (auto simp: patch_status_def execute_task_def progress_run_def change_assets_def change_run_def split: if_splits)

lemma reached_ids: "task_reached d0 d \<Longrightarrow> distinct (map sn_id (de_runs d0)) \<Longrightarrow> distinct (map sn_id (de_runs d))"
  by (induction rule: task_reached.induct) (auto dest: step_ids)

lemma step_acceptance: "task_step d d' \<Longrightarrow> de_acceptance d = Some a \<Longrightarrow> de_acceptance d' = Some a"
proof (induction rule: task_step.induct)
  case (accepted actor now i n d d')
  then show ?case using accept_cases by (metis option.distinct(1))
next
  case (finished s i d)
  then show ?case by (simp add: finish_run_def change_run_def Let_def split: option.split)
qed (auto simp: patch_status_def execute_task_def progress_run_def change_assets_def change_run_def split: if_splits)

lemma reached_acceptance: "task_reached d0 d \<Longrightarrow> de_acceptance d0 = Some a \<Longrightarrow> de_acceptance d = Some a"
  by (induction rule: task_reached.induct) (auto dest: step_acceptance)

lemma length_filter_full: "length (filter P xs) = length xs \<Longrightarrow> filter P xs = xs"
  by (metis length_filter_less filter_True less_irrefl)

lemma offered_run:
  assumes "canAccept (delivery_view w t p d) (run_view r)"
  shows "de_status d = WReview" and "sn_status r = RCompleted \<or> sn_status r = RSucceeded" and "sn_assets r \<noteq> []"
    and "list_all (\<lambda>a. sa_committed a \<and> sa_verified a) (take 500 (sn_assets r))"
    and "\<And>a. de_acceptance d = Some a \<Longrightarrow> ac_run_id a \<noteq> sn_id r"
proof -
  have "filter (\<lambda>a. rf_exists a \<and> rf_hash_matches a) (ir_artifacts (run_view r)) = ir_artifacts (run_view r)"
    using assms by (simp add: canAccept_def verified_artifacts_def length_filter_full)
  then show "list_all (\<lambda>a. sa_committed a \<and> sa_verified a) (take 500 (sn_assets r))"
    unfolding filter_id_conv by (auto simp: run_view_def artifact_view_def list_all_iff)
qed (use assms in \<open>auto simp: canAccept_def delivery_view_def run_view_def run_accepted_def\<close>)

text \<open>
  C38. The Server accepts a delivery the console offers for acceptance, whatever happened to the task
  before, but for two kinds: any delivery of a task that was accepted before, and a run with more
  than 500 files, of which the console only sees and counts the first 500.
\<close>

theorem offered_acceptance_outcome:
  assumes "task_reached new_delivery d" and "r \<in> set (de_runs d)"
    and "canAccept (delivery_view w t p d) (run_view r)"
  shows "isl (accept_delivery actor now (sn_id r) (length (ir_artifacts (run_view r))) d)
    \<longleftrightarrow> de_acceptance d \<noteq> None \<or> 500 < length (sn_assets r)"
proof -
  note offered = offered_run[OF assms(3)]
  have "distinct (map sn_id (de_runs d))" using reached_ids[OF assms(1)] by (simp add: new_delivery_def)
  then have f: "find_key sn_id (sn_id r) (de_runs d) = Some r" using find_key_unique assms(2) by fastforce
  have n: "length (ir_artifacts (run_view r)) = min (length (sn_assets r)) 500" by (simp add: run_view_def)
  show ?thesis
    using f n offered
    by (cases "de_acceptance d") (auto simp: accept_delivery_def Let_def)
qed

text \<open>
  C39. A task that was accepted once and taken up again can never be accepted again: the run it is
  given next may end well and its delivery is offered for acceptance, but the Server refuses it
  and refuses to close the task from its review, in every later state.
\<close>

theorem reopened_task_is_never_accepted:
  assumes "de_acceptance d = Some a" and "task_reached d d'" and "canAccept (delivery_view w t p d') (run_view r)"
  shows "isl (accept_delivery actor now (sn_id r) n d') \<and> patch_status WDone d' = Inl 409"
proof -
  have acc: "de_acceptance d' = Some a" using reached_acceptance[OF assms(2,1)] .
  note offered = offered_run[OF assms(3)]
  have ne: "ac_run_id a \<noteq> sn_id r" using offered(5) acc by blast
  have "isl (accept_delivery actor now (sn_id r) n d')"
    using acc ne by (auto simp: accept_delivery_def Let_def split: option.split)
  then show ?thesis using offered(1) by (simp add: patch_status_def)
qed

text \<open>A task executed, accepted, taken up again and executed a second time.\<close>

definition demo_asset :: server_asset where
  "demo_asset = \<lparr> sa_id = ''report'', sa_committed = True, sa_verified = True, sa_accepted = False \<rparr>"

definition demo_delivered :: task_delivery where
  "demo_delivered =
     \<lparr> de_status = WReview, de_runs = [\<lparr> sn_id = ''r1'', sn_status = RCompleted, sn_assets = [demo_asset] \<rparr>],
       de_acceptance = None \<rparr>"

definition demo_accepted :: task_delivery where
  "demo_accepted =
     \<lparr> de_status = WDone,
       de_runs = [\<lparr> sn_id = ''r1'', sn_status = RCompleted, sn_assets = [demo_asset\<lparr> sa_accepted := True \<rparr>] \<rparr>],
       de_acceptance = Some \<lparr> ac_run_id = ''r1'', ac_artifact_count = 1, ac_accepted_by = ''ana'', ac_accepted_at = 0 \<rparr> \<rparr>"

definition demo_rerun :: server_run where
  "demo_rerun = \<lparr> sn_id = ''r2'', sn_status = RCompleted, sn_assets = [demo_asset] \<rparr>"

definition demo_redelivered :: task_delivery where
  "demo_redelivered = demo_accepted\<lparr> de_status := WReview, de_runs := demo_rerun # de_runs demo_accepted \<rparr>"

lemmas demo_delivery_defs = demo_asset_def demo_delivered_def demo_accepted_def demo_rerun_def demo_redelivered_def

text \<open>An execution from its start to its end, with one file delivered.\<close>

lemma executed_reached:
  assumes "task_reached d0 d" and "de_status d \<noteq> WDone" and "fresh \<notin> sn_id ` set (de_runs d)"
    and "sa_committed a" and "sa_verified a"
  shows "task_reached d0 (d\<lparr> de_status := WReview,
    de_runs := \<lparr> sn_id = fresh, sn_status = RCompleted, sn_assets = [a] \<rparr> # de_runs d \<rparr>)"
proof -
  define d1 where "d1 = d\<lparr> de_status := WDoing, de_runs := \<lparr> sn_id = fresh, sn_status = RQueued, sn_assets = [] \<rparr> # de_runs d \<rparr>"
  have s1: "task_step d d1"
    by (rule task_step.executed[of fresh]) (use assms(2,3) in \<open>simp_all add: execute_task_def d1_def\<close>)
  have s2: "task_step d1 (progress_run fresh RRunning [a] d1)"
    by (rule task_step.progressed) (simp add: ended_run_def)
  have s3: "task_step (progress_run fresh RRunning [a] d1) (finish_run fresh RCompleted (progress_run fresh RRunning [a] d1))"
    by (rule task_step.finished) (simp add: ended_run_def)
  have rest: "upd_key sn_id fresh f (de_runs d) = de_runs d" for f
    using assms(3) by (intro upd_where_nop) auto
  have "finish_run fresh RCompleted (progress_run fresh RRunning [a] d1) =
      d\<lparr> de_status := WReview, de_runs := \<lparr> sn_id = fresh, sn_status = RCompleted, sn_assets = [a] \<rparr> # de_runs d \<rparr>"
    using assms(4,5)
    by (simp add: finish_run_def progress_run_def change_run_def d1_def find_key_def ended_run_def rest)
  then show ?thesis using task_reached.step[OF task_reached.step[OF task_reached.step[OF assms(1) s1] s2] s3] by simp
qed

lemma demo_delivered_reached: "task_reached new_delivery demo_delivered"
  using executed_reached[OF task_reached.start, of new_delivery "''r1''" demo_asset]
  by (simp add: new_delivery_def demo_delivery_defs)

lemma demo_accepted_step: "task_step demo_delivered demo_accepted"
  by (rule task_step.accepted[of "''ana''" 0 "''r1''" 1])
    (simp add: accept_delivery_def find_key_def demo_delivery_defs)

lemma demo_redelivered_reached: "task_reached demo_accepted demo_redelivered"
proof -
  have "task_reached demo_accepted (demo_accepted\<lparr> de_status := WDoing \<rparr>)"
    by (rule task_reached.step[OF task_reached.start task_step.patched[of WDoing]])
      (simp add: patch_status_def)
  from executed_reached[OF this, of "''r2''" demo_asset] show ?thesis by (simp add: demo_delivery_defs)
qed

lemma demo_offered:
  "canAccept (delivery_view True (blank_task ''t'' []) None demo_delivered) (run_view (hd (de_runs demo_delivered)))"
  "canAccept (delivery_view True (blank_task ''t'' []) None demo_redelivered) (run_view demo_rerun)"
  by (simp_all add: canAccept_def delivery_view_def run_view_def verified_artifacts_def artifact_view_def
      run_accepted_def demo_delivery_defs)

theorem offered_acceptance_outcome_witness:
  "\<not> isl (accept_delivery ''ana'' 0 ''r1'' 1 demo_delivered)"
  using offered_acceptance_outcome[OF demo_delivered_reached _ demo_offered(1), of "''ana''" 0]
  by (simp add: demo_delivery_defs run_view_def)

theorem reopened_task_is_never_accepted_witness:
  "isl (accept_delivery ''ana'' 0 ''r2'' 1 demo_redelivered) \<and> patch_status WDone demo_redelivered = Inl 409"
  using reopened_task_is_never_accepted[OF _ demo_redelivered_reached demo_offered(2), of _ "''ana''" 0 1]
  by (simp add: demo_accepted_def demo_rerun_def)

subsection \<open>Policies saved\<close>

text \<open>A policy that is saved is the one the draft shows after the next read, and the Server refuses few.\<close>

lemma saved_policy_is_shown:
  assumes "configure_policy devices account name (snd (savePolicy x)) old = Inr p"
  shows "draft_of_policy p = (xp_draft x)\<lparr> po_target := (if po_routing (xp_draft x) = RmSpecific then po_target (xp_draft x) else []) \<rparr>"
  using assms
  by (cases "po_routing (xp_draft x)")
    (auto simp: configure_policy_def normalized_policy_def savePolicy_def draft_of_policy_def comparable_def Let_def
      split: if_splits option.splits)

text \<open>While a run is active every answer replaces what was changed in the draft and not saved.\<close>

lemma poll_discards_policy_draft:
  "id_policy d = Some p \<Longrightarrow>
   xp_draft (fst (delivery_loaded True shown (Inr d) (fold edit_draft es x))) = draft_of_policy p"
  by (simp add: delivery_loaded_def Let_def)

text \<open>The edits one after the other, each offered when it is made.\<close>

fun offered_edits :: "agent_device list \<Rightarrow> policy_edit list \<Rightarrow> policy_draft \<Rightarrow> bool" where
  "offered_edits shown [] p \<longleftrightarrow> True"
| "offered_edits shown (e # es) p \<longleftrightarrow> edit_shown shown p e \<and> offered_edits shown es (edit_policy e p)"

definition draft_bounds :: "policy_draft \<Rightarrow> bool" where
  "draft_bounds p \<longleftrightarrow> code_points (po_target p) \<le> 200 \<and> 1 \<le> po_timeout p \<and> po_timeout p \<le> 3600
     \<and> 1 \<le> po_attempts p \<and> po_attempts p \<le> 10"

lemma edit_bounds:
  assumes "edit_shown shown p e" "draft_bounds p" "list_all (\<lambda>d. code_points (dv_id d) \<le> 200) shown"
  shows "draft_bounds (edit_policy e p)"
  using assms by (cases e) (auto simp: draft_bounds_def or_int_def list_all_iff split: option.splits)

lemma offered_bounds:
  "offered_edits shown es p \<Longrightarrow> draft_bounds p \<Longrightarrow> list_all (\<lambda>d. code_points (dv_id d) \<le> 200) shown \<Longrightarrow>
   draft_bounds (fold edit_policy es p)"
  by (induction es arbitrary: p) (auto intro: edit_bounds)

fun is_switch :: "policy_edit \<Rightarrow> bool" where
  "is_switch (SetMode on) \<longleftrightarrow> True"
| "is_switch _ \<longleftrightarrow> False"

lemma switches_keep_route:
  "list_all is_switch es \<Longrightarrow> po_routing (fold edit_policy es p) = po_routing p \<and> po_target (fold edit_policy es p) = po_target p"
proof (induction es arbitrary: p)
  case (Cons e es)
  then show ?case by (cases e) simp_all
qed simp

text \<open>
  C40. Switching automatic execution off needs the device it is routed to: whatever edits the panel
  offered led from the automatic policy to a draft that is manual, the panel lets it be saved, and
  the Server refuses it exactly when the draft is still routed to one device and none was chosen, or
  the one chosen is no active verified device of the account asking (revoked, or another member's).
  Switching alone keeps the routing and the device of the policy, and once it is done the panel
  offers nothing but the switch again: the routing has to be set to any device before.
\<close>

theorem switching_off_needs_a_usable_device:
  assumes "draft_bounds (draft_of_policy p)" and "list_all (\<lambda>d. code_points (dv_id d) \<le> 200) shown"
    and "offered_edits shown es (draft_of_policy p)" and "xp_draft x = fold edit_policy es (draft_of_policy p)"
    and "po_mode (xp_draft x) = PmManual"
  shows "\<not> policy_save_disabled (xp_draft x)
    \<and> (isl (configure_policy devices account name (snd (savePolicy x)) (Some p)) \<longleftrightarrow>
         po_routing (xp_draft x) = RmSpecific
         \<and> (po_target (xp_draft x) = []
            \<or> \<not> list_ex (\<lambda>d. vd_id d = po_target (xp_draft x) \<and> usable_device account d) devices))
    \<and> (list_all is_switch es \<longrightarrow> po_routing (xp_draft x) = po_routing p \<and> po_target (xp_draft x) = po_target p)
    \<and> (\<forall>e. edit_shown shown (xp_draft x) e \<longleftrightarrow> is_switch e)"
proof -
  have bounds: "draft_bounds (xp_draft x)" using offered_bounds [OF assms(3,1,2)] assms(4) by simp
  have "request_bounds (snd (savePolicy x))"
    using bounds by (simp add: request_bounds_def savePolicy_def draft_bounds_def CORE_CAPABILITIES_def code_points_def)
  then have "isl (configure_policy devices account name (snd (savePolicy x)) (Some p)) \<longleftrightarrow>
         po_routing (xp_draft x) = RmSpecific
         \<and> (po_target (xp_draft x) = []
            \<or> \<not> list_ex (\<lambda>d. vd_id d = po_target (xp_draft x) \<and> usable_device account d) devices)"
    using assms(5)
    by (cases "po_routing (xp_draft x)") (simp_all add: configure_policy_def normalized_policy_def savePolicy_def Let_def)
  moreover have "edit_shown shown (xp_draft x) e \<longleftrightarrow> is_switch e" for e using assms(5) by (cases e) simp_all
  ultimately show ?thesis
    using assms(4,5) switches_keep_route [of es "draft_of_policy p"] by (simp add: policy_save_disabled_def draft_of_policy_def)
qed

definition demo_policy :: exec_policy where
  "demo_policy =
     \<lparr> po_mode = PmAuto, po_routing = RmSpecific, po_target = ''laptop-1'', po_timeout = 300, po_attempts = 1,
       po_owner = ''ana'', po_owner_name = ''Ana'', po_capabilities = CORE_CAPABILITIES, po_model_ref = None,
       po_backoff = 30, po_tokens = 0, po_notify = ''failure,recovery'', po_permissions = [''workspace.write''],
       po_version = 1, po_state = PyRunning, po_blocker_message = [] \<rparr>"

definition revoked_laptop :: "server_device list" where
  "revoked_laptop = [\<lparr> vd_id = ''laptop-1'', vd_owner = ''ana'', vd_active = True, vd_authenticated_at = 5, vd_revoked_at = 9 \<rparr>]"

text \<open>The switch alone is refused; routed to any device first, the policy can be switched off.\<close>

theorem switching_off_needs_a_usable_device_witness:
  "isl (configure_policy revoked_laptop ''ana'' ''Ana'' (snd (savePolicy
      (initial_execution\<lparr> xp_draft := fold edit_policy [SetMode False] (draft_of_policy demo_policy) \<rparr>))) (Some demo_policy))
   \<and> \<not> isl (configure_policy revoked_laptop ''ana'' ''Ana'' (snd (savePolicy
      (initial_execution\<lparr> xp_draft := fold edit_policy [SetRouting RmAny, SetMode False] (draft_of_policy demo_policy) \<rparr>)))
      (Some demo_policy))"
  using switching_off_needs_a_usable_device [of demo_policy "[]" "[SetMode False]"
      "initial_execution\<lparr> xp_draft := fold edit_policy [SetMode False] (draft_of_policy demo_policy) \<rparr>"
      revoked_laptop "''ana''" "''Ana''"]
    switching_off_needs_a_usable_device [of demo_policy "[]" "[SetRouting RmAny, SetMode False]"
      "initial_execution\<lparr> xp_draft := fold edit_policy [SetRouting RmAny, SetMode False] (draft_of_policy demo_policy) \<rparr>"
      revoked_laptop "''ana''" "''Ana''"]
  by (simp add: demo_policy_def draft_of_policy_def draft_bounds_def code_points_def revoked_laptop_def usable_device_def)

end
