(* ===== verification/SkillMarkdown.thy ===== *)
theory SkillMarkdown
  imports Updates
begin

text \<open>
  The instruction file of a skill (\<open>src/console/src/SkillEditor.tsx\<close>, the functions before the
  component): a front matter of \<open>key: value\<close> lines between two lines of dashes, and a body. The
  regular expressions are written out as functions on the text; \<open>JSON.parse\<close> and
  \<open>JSON.stringify\<close> are a codec.
\<close>

subsection \<open>Text\<close>

abbreviation tab_char :: char where "tab_char \<equiv> CHR 0x09"
abbreviation lf :: char where "lf \<equiv> CHR 0x0A"
abbreviation cr :: char where "cr \<equiv> CHR 0x0D"

definition blank_char :: "char \<Rightarrow> bool" where
  "blank_char c \<longleftrightarrow> c = CHR '' '' \<or> c = tab_char"

text \<open>\<open>\r?\n\<close> at the beginning: the rest after it.\<close>

definition strip_eol :: "string \<Rightarrow> string option" where
  "strip_eol s =
     (case s of
        [] \<Rightarrow> None
      | c # r \<Rightarrow> if c = lf then Some r
                 else if c = cr then (case r of [] \<Rightarrow> None | d # t \<Rightarrow> if d = lf then Some t else None)
                 else None)"

lemma strip_eol_shorter: "strip_eol s = Some r \<Longrightarrow> length r < length s"
  by (auto simp: strip_eol_def split: list.splits if_splits)

text \<open>\<open>split(/\r?\n/)\<close>\<close>

function split_lines :: "string \<Rightarrow> string list" where
  "split_lines [] = [[]]"
| "split_lines (c # s) =
     (case strip_eol (c # s) of
        Some r \<Rightarrow> [] # split_lines r
      | None \<Rightarrow> (case split_lines s of [] \<Rightarrow> [[c]] | l # ls \<Rightarrow> (c # l) # ls))"
  by pat_completeness auto
termination by (relation "measure length") (auto dest: strip_eol_shorter)

text \<open>What a dot matches: no line terminator, the separators U+2028 and U+2029 included.\<close>

definition one_line :: "string \<Rightarrow> bool" where
  "one_line s \<longleftrightarrow> lf \<notin> set s \<and> cr \<notin> set s
     \<and> \<not> includes_str [CHR 0xE2, CHR 0x80, CHR 0xA8] s \<and> \<not> includes_str [CHR 0xE2, CHR 0x80, CHR 0xA9] s"

definition key_char :: "char \<Rightarrow> bool" where
  "key_char c \<longleftrightarrow> 65 \<le> byte c \<and> byte c \<le> 90 \<or> 97 \<le> byte c \<and> byte c \<le> 122
     \<or> 48 \<le> byte c \<and> byte c \<le> 57 \<or> c = CHR ''_'' \<or> c = CHR ''-''"

text \<open>\<open>/^([A-Za-z0-9_-]+):[ \t]*(.*)$/\<close>\<close>

definition match_field :: "string \<Rightarrow> (string \<times> string) option" where
  "match_field line =
     (case dropWhile key_char line of
        [] \<Rightarrow> None
      | c # r \<Rightarrow>
          if takeWhile key_char line \<noteq> [] \<and> c = CHR '':'' \<and> one_line (dropWhile blank_char r)
          then Some (takeWhile key_char line, dropWhile blank_char r) else None)"

text \<open>\<open>/^[|>][0-9+-]*$/\<close>, a YAML block scalar, and the lines that continue one.\<close>

definition block_scalar :: "string \<Rightarrow> bool" where
  "block_scalar v \<longleftrightarrow>
     (case v of
        [] \<Rightarrow> False
      | c # r \<Rightarrow> (c = CHR ''|'' \<or> c = CHR ''>'')
          \<and> list_all (\<lambda>d. 48 \<le> byte d \<and> byte d \<le> 57 \<or> d = CHR ''+'' \<or> d = CHR ''-'') r)"

definition continues :: "string \<Rightarrow> bool" where
  "continues line \<longleftrightarrow> trim line = [] \<or> (line \<noteq> [] \<and> blank_char (hd line))"

text \<open>\<open>/^---[ \t]*\r?\n\<close> at the beginning, and \<open>\r?\n---[ \t]*(?:\r?\n|$)\<close>.\<close>

definition open_fence :: "string \<Rightarrow> string option" where
  "open_fence s =
     (case strip_prefix ''---'' s of None \<Rightarrow> None | Some r \<Rightarrow> strip_eol (dropWhile blank_char r))"

definition close_fence :: "string \<Rightarrow> string option" where
  "close_fence s =
     (case strip_eol s of
        None \<Rightarrow> None
      | Some r \<Rightarrow>
          (case strip_prefix ''---'' r of
             None \<Rightarrow> None
           | Some t \<Rightarrow> if dropWhile blank_char t = [] then Some [] else strip_eol (dropWhile blank_char t)))"

text \<open>The shortest text before a closing fence, and the text after it.\<close>

fun split_fence :: "string \<Rightarrow> (string \<times> string) option" where
  "split_fence [] = None"
| "split_fence (c # s) =
     (case close_fence (c # s) of
        Some b \<Rightarrow> Some ([], b)
      | None \<Rightarrow> map_option (\<lambda>(a, b). (c # a, b)) (split_fence s))"

subsection \<open>The document\<close>

record skill_form =
  sf_slug :: string
  sf_name :: string
  sf_icon :: string
  sf_category_slug :: string
  sf_description :: string
  sf_tools :: "string list"
  sf_min_app_version :: string
  sf_sort :: int

record skill_document =
  sd_frontmatter :: "string \<Rightarrow> string option"
  sd_raw :: string
  sd_body :: string

definition MANAGED_FRONTMATTER_KEYS :: "string list" where
  "MANAGED_FRONTMATTER_KEYS = [''name'', ''slug'', ''description'', ''version'', ''source'']"

text \<open>\<open>String(v)\<close> of a parsed value.\<close>

fun value_text :: "json \<Rightarrow> string" where
  "value_text JUndef = ''undefined''"
| "value_text JNull = ''null''"
| "value_text (JBool b) = (if b then ''true'' else ''false'')"
| "value_text (JNum n) = dec_int n"
| "value_text JNonFinite = ''Infinity''"
| "value_text (JStr s) = s"
| "value_text (JArr xs) = join_with '','' (map (\<lambda>x. if is_nullish x then [] else value_text x) xs)"
| "value_text (JObj ps) = ''[object Object]''"

definition quote_char :: "char \<Rightarrow> bool" where
  "quote_char c \<longleftrightarrow> c = CHR 0x27 \<or> c = CHR 0x22"

text \<open>One quote off each end.\<close>

definition unquote :: "string \<Rightarrow> string" where
  "unquote s =
     (let t = (if s \<noteq> [] \<and> quote_char (hd s) then tl s else s)
      in if t \<noteq> [] \<and> quote_char (last t) then butlast t else t)"

definition parseFrontmatterValue :: "json_codec \<Rightarrow> string \<Rightarrow> string" where
  "parseFrontmatterValue c value =
     (let trimmed = trim value in
      if trimmed = [] then []
      else case jc_parse c trimmed of Some v \<Rightarrow> value_text v | None \<Rightarrow> unquote trimmed)"

function frontmatter_fields ::
  "json_codec \<Rightarrow> string list \<Rightarrow> (string \<Rightarrow> string option) \<Rightarrow> (string \<Rightarrow> string option)" where
  "frontmatter_fields c [] fm = fm"
| "frontmatter_fields c (line # ls) fm =
     (case match_field line of
        None \<Rightarrow> frontmatter_fields c ls fm
      | Some (key, raw) \<Rightarrow>
          if block_scalar (trim raw)
          then frontmatter_fields c (dropWhile continues ls)
                 (fm(key \<mapsto> trim (join_with (if hd (trim raw) = CHR ''>'' then '' '' else [lf])
                                (map (dropWhile blank_char) (takeWhile continues ls)))))
          else frontmatter_fields c ls (fm(key \<mapsto> parseFrontmatterValue c (trim raw))))"
  by pat_completeness auto
termination
  by (relation "measure (\<lambda>(c, ls, fm). length ls)") (auto simp: less_Suc_eq_le length_dropWhile_le)

function kept_lines :: "string list \<Rightarrow> string list" where
  "kept_lines [] = []"
| "kept_lines (line # ls) =
     (case match_field line of
        None \<Rightarrow> line # kept_lines ls
      | Some (key, raw) \<Rightarrow>
          if key \<notin> set MANAGED_FRONTMATTER_KEYS then line # kept_lines ls
          else if trim raw = [] \<or> block_scalar (trim raw) then kept_lines (dropWhile continues ls)
          else kept_lines ls)"
  by pat_completeness auto
termination
  by (relation "measure length") (auto simp: less_Suc_eq_le length_dropWhile_le)

definition preserveUnmanagedFrontmatter :: "string \<Rightarrow> string" where
  "preserveUnmanagedFrontmatter raw = trim (join_with [lf] (kept_lines (split_lines raw)))"

definition BOM :: string where "BOM = [CHR 0xEF, CHR 0xBB, CHR 0xBF]"

definition present :: "(string \<Rightarrow> string option) \<Rightarrow> string \<Rightarrow> bool" where
  "present fm k \<longleftrightarrow> trim (opt_str (fm k)) \<noteq> []"

definition parseSkillMarkdown :: "json_codec \<Rightarrow> string \<Rightarrow> skill_document option" where
  "parseSkillMarkdown c markdown =
     (case open_fence (case strip_prefix BOM markdown of None \<Rightarrow> markdown | Some r \<Rightarrow> r) of
        None \<Rightarrow> None
      | Some r \<Rightarrow>
          (case split_fence r of
             None \<Rightarrow> None
           | Some (raw, rest) \<Rightarrow>
               let fm = frontmatter_fields c (split_lines raw) Map.empty in
               if present fm ''name'' \<and> present fm ''slug'' \<and> present fm ''description''
               then Some \<lparr> sd_frontmatter = fm, sd_raw = raw, sd_body = nullish (strip_eol rest) rest \<rparr>
               else None))"

definition front_line :: "string \<Rightarrow> string \<Rightarrow> string" where
  "front_line key value = key @ '': '' @ value"

definition version_text :: "int \<Rightarrow> string" where
  "version_text version = dec_int (if version = 0 then 1 else version)"

definition front_lines :: "json_codec \<Rightarrow> skill_form \<Rightarrow> int \<Rightarrow> string list" where
  "front_lines c values version =
     [front_line ''name'' (jc_print c (JStr (sf_name values))),
      front_line ''slug'' (sf_slug values),
      front_line ''description'' (jc_print c (JStr (sf_description values))),
      front_line ''version'' (jc_print c (JStr (version_text version))),
      front_line ''source'' ''agentmate'']"

definition buildSkillMarkdown ::
  "json_codec \<Rightarrow> skill_form \<Rightarrow> int \<Rightarrow> skill_document option \<Rightarrow> string \<Rightarrow> string" where
  "buildSkillMarkdown c values version existing fallbackBody =
     (let preserved = (case existing of None \<Rightarrow> [] | Some d \<Rightarrow> preserveUnmanagedFrontmatter (sd_raw d));
          body = (case existing of None \<Rightarrow> fallbackBody | Some d \<Rightarrow> sd_body d);
          extra = (if preserved = [] then [] else preserved @ [lf]);
          markdown = ''---'' @ [lf] @ join_with [lf] (front_lines c values version) @ [lf] @ extra
            @ ''---'' @ [lf, lf] @ body
      in if body \<noteq> [] \<and> last body \<noteq> lf then markdown @ [lf] else markdown)"

subsection \<open>Reading a written file\<close>

definition plain_line :: "string \<Rightarrow> bool" where
  "plain_line l \<longleftrightarrow> l \<noteq> [] \<and> hd l \<noteq> CHR ''-'' \<and> lf \<notin> set l \<and> cr \<notin> set l"

lemma strip_eol_lf [simp]: "strip_eol (lf # s) = Some s" "strip_eol [] = None"
  by (simp_all add: strip_eol_def)

lemma strip_eol_other: "c \<noteq> lf \<Longrightarrow> c \<noteq> cr \<Longrightarrow> strip_eol (c # s) = None"
  by (simp add: strip_eol_def)

lemma split_lines_one: "lf \<notin> set l \<Longrightarrow> cr \<notin> set l \<Longrightarrow> split_lines l = [l]"
  by (induction l) (auto simp: strip_eol_other)

lemma split_lines_cons: "lf \<notin> set l \<Longrightarrow> cr \<notin> set l \<Longrightarrow> split_lines (l @ lf # s) = l # split_lines s"
  by (induction l) (auto simp: strip_eol_other)

lemma split_lines_join:
  "ls \<noteq> [] \<Longrightarrow> list_all plain_line ls \<Longrightarrow> split_lines (join_with [lf] ls) = ls"
proof (induction ls rule: list_nonempty_induct)
  case (cons l ls)
  then obtain k ks where "ls = k # ks" by (cases ls) auto
  with cons show ?case by (simp add: plain_line_def split_lines_cons)
qed (simp add: plain_line_def split_lines_one)

lemma close_fence_other: "c \<noteq> lf \<Longrightarrow> c \<noteq> cr \<Longrightarrow> close_fence (c # s) = None"
  by (simp add: close_fence_def strip_eol_other)

lemma split_fence_line:
  "lf \<notin> set l \<Longrightarrow> cr \<notin> set l \<Longrightarrow> split_fence (l @ s) = map_option (\<lambda>(a, b). (l @ a, b)) (split_fence s)"
proof (induction l)
  case (Cons c l)
  then show ?case by (cases "split_fence s") (auto simp: close_fence_other)
qed (cases "split_fence s"; simp)

lemma fence_before_line: "plain_line l \<Longrightarrow> close_fence (lf # l @ s) = None"
  by (cases l) (auto simp: plain_line_def close_fence_def)

lemma fence_here: "close_fence (lf # ''---'' @ lf # s) = Some s"
  by (simp add: close_fence_def blank_char_def)

lemma split_fence_end: "split_fence (lf # ''---'' @ lf # s) = Some ([], s)"
  using fence_here [of s] by simp

lemma split_fence_lines:
  "ls \<noteq> [] \<Longrightarrow> list_all plain_line ls \<Longrightarrow>
     split_fence (join_with [lf] ls @ lf # ''---'' @ lf # s) = Some (join_with [lf] ls, s)"
proof (induction ls rule: list_nonempty_induct)
  case (single l)
  then show ?case by (simp add: plain_line_def split_fence_line split_fence_end del: append.simps split_fence.simps)
next
  case (cons l ls)
  then obtain k ks where ls: "ls = k # ks" by (cases ls) auto
  let ?rest = "join_with [lf] ls @ lf # ''---'' @ lf # s"
  obtain t where t: "join_with [lf] ls = k @ t" using ls by (cases ks) simp_all
  have "close_fence (lf # ?rest) = None"
    using fence_before_line [of k "t @ lf # ''---'' @ lf # s"] cons.prems ls unfolding t by simp
  moreover have "split_fence ?rest = Some (join_with [lf] ls, s)" using cons by simp
  ultimately have "split_fence (lf # ?rest) = Some (lf # join_with [lf] ls, s)" by simp
  moreover have "join_with [lf] (l # ls) = l @ lf # join_with [lf] ls" using ls by simp
  ultimately show ?case using cons.prems by (simp add: plain_line_def split_fence_line del: split_fence.simps)
qed

text \<open>
  A text the codec prints on one line, in quotes, and reads back. A slug is printed as it is: one
  that is a JSON value itself, a number or a word such as \<open>true\<close>, is read as the text of it.
\<close>

definition prints_plainly :: "json_codec \<Rightarrow> string \<Rightarrow> bool" where
  "prints_plainly c s \<longleftrightarrow>
     (\<exists>m. jc_print c (JStr s) = CHR 0x22 # m @ [CHR 0x22]) \<and> one_line (jc_print c (JStr s))
     \<and> jc_parse c (jc_print c (JStr s)) = Some (JStr s)"

definition slug_text :: "string \<Rightarrow> bool" where
  "slug_text s \<longleftrightarrow> s \<noteq> [] \<and> list_all (\<lambda>c. key_char c \<or> c = CHR ''.'') s \<and> hd s \<noteq> CHR ''-''"

lemma printed_trim: "prints_plainly c s \<Longrightarrow> trim (jc_print c (JStr s)) = jc_print c (JStr s)"
  by (rule trim_plain) (auto simp: prints_plainly_def)

lemma printed_value: "prints_plainly c s \<Longrightarrow> parseFrontmatterValue c (jc_print c (JStr s)) = s"
  unfolding parseFrontmatterValue_def Let_def printed_trim by (auto simp: prints_plainly_def)

lemma printed_no_block: "prints_plainly c s \<Longrightarrow> \<not> block_scalar (jc_print c (JStr s))"
  by (auto simp: prints_plainly_def block_scalar_def)

lemma printed_no_blank: "prints_plainly c s \<Longrightarrow> dropWhile blank_char (jc_print c (JStr s)) = jc_print c (JStr s)"
  by (auto simp: prints_plainly_def blank_char_def)

lemma key_bytes: "key_char c \<Longrightarrow> byte c \<in> {33..<128}"
  by (auto simp: key_char_def)

lemma key_char_other: "key_char d \<Longrightarrow> \<not> quote_char d" "key_char d \<Longrightarrow> \<not> blank_char d"
  by (auto simp: quote_char_def blank_char_def key_char_def)

lemma slug_bytes:
  assumes "slug_text s" "d \<in> set s"
  shows "byte d \<in> {33..<128} \<and> \<not> quote_char d \<and> \<not> blank_char d"
proof -
  have "key_char d \<or> d = CHR ''.''" using assms by (auto simp: slug_text_def list_all_iff)
  then show ?thesis
  proof
    assume "key_char d"
    then show ?thesis using key_bytes key_char_other by blast
  qed (simp add: quote_char_def blank_char_def)
qed

lemma slug_no_eol: "slug_text s \<Longrightarrow> d \<in> set s \<Longrightarrow> byte d < 128 \<and> 32 < byte d"
  using slug_bytes [of s d] by simp

lemma slug_trim: "slug_text s \<Longrightarrow> trim s = s"
  by (rule trim_plain) (use slug_bytes [of s "hd s"] slug_bytes [of s "last s"] in \<open>simp_all add: slug_text_def\<close>)

definition read_slug :: "json_codec \<Rightarrow> string \<Rightarrow> string" where
  "read_slug c s = (case jc_parse c s of None \<Rightarrow> s | Some v \<Rightarrow> value_text v)"

lemma slug_value:
  assumes "slug_text s"
  shows "parseFrontmatterValue c s = read_slug c s"
proof -
  have s: "s \<noteq> []" using assms by (simp add: slug_text_def)
  then have "\<not> quote_char (hd s)" "\<not> quote_char (last s)" using slug_bytes [OF assms] by simp_all
  then have "unquote s = s" by (simp add: unquote_def Let_def)
  then show ?thesis by (simp add: parseFrontmatterValue_def slug_trim [OF assms] read_slug_def s cong: option.case_cong)
qed

lemma slug_no_block: "slug_text s \<Longrightarrow> \<not> block_scalar s"
  by (cases s) (auto simp: slug_text_def block_scalar_def key_char_def)

lemma slug_no_blank: "slug_text s \<Longrightarrow> dropWhile blank_char s = s"
  using slug_bytes [of s "hd s"] by (cases s) (auto simp: slug_text_def)

lemma includes_bytes: "includes_str p s \<Longrightarrow> set p \<subseteq> set s"
  by (auto simp: includes_str_iff)

lemma slug_one_line: "slug_text s \<Longrightarrow> one_line s"
  unfolding one_line_def by (auto dest!: includes_bytes dest: slug_no_eol)

lemma match_field_line:
  assumes "k \<noteq> []" "list_all key_char k" "dropWhile blank_char v = v" "one_line v"
  shows "match_field (front_line k v) = Some (k, v)"
proof -
  have k: "takeWhile key_char (front_line k v) = k" "dropWhile key_char (front_line k v) = '': '' @ v"
    using assms(2) by (auto simp: front_line_def takeWhile_append dropWhile_append list_all_iff key_char_def)
  have v: "dropWhile blank_char ('' '' @ v) = v" using assms(3) by (simp add: blank_char_def)
  show ?thesis using assms(1,4) v unfolding match_field_def k by simp
qed

lemma field_line:
  assumes "k \<noteq> []" "list_all key_char k" "dropWhile blank_char v = v" "one_line v" "trim v = v" "\<not> block_scalar v"
  shows "frontmatter_fields c (front_line k v # ls) fm = frontmatter_fields c ls (fm(k \<mapsto> parseFrontmatterValue c v))"
  using match_field_line [OF assms(1-4)] assms(5,6) by simp

lemma managed_line:
  assumes "k \<in> set MANAGED_FRONTMATTER_KEYS" "list_all key_char k" "dropWhile blank_char v = v" "one_line v"
    "trim v = v" "\<not> block_scalar v" "v \<noteq> []"
  shows "kept_lines (front_line k v # ls) = kept_lines ls"
proof -
  have "k \<noteq> []" using assms(1) by (auto simp: MANAGED_FRONTMATTER_KEYS_def)
  then show ?thesis using match_field_line [OF _ assms(2-4)] assms(1,5-7) by simp
qed

text \<open>A text that begins with a printable character is not blank.\<close>

lemma trim_rev_keeps: "t \<noteq> [] \<Longrightarrow> byte (last t) \<in> {33..<128} \<Longrightarrow> trim_rev t \<noteq> []"
proof (induction t rule: trim_rev.induct)
  case (1 t)
  show ?case
  proof (cases "strip_any (map rev ws_seqs) t")
    case None
    then show ?thesis using 1 by (simp add: trim_rev.simps [of t])
  next
    case (Some r)
    then obtain p where p: "p \<in> set ws_seqs" "t = rev p @ r" using strip_any_Some by fastforce
    have "p \<noteq> []" using p(1) ws_seqs_nonempty by blast
    then have "r \<noteq> []" using p ws_bytes [OF p(1)] "1.prems"(2) by (auto simp: last_rev)
    then have "trim_rev r \<noteq> []" using "1.IH" [OF Some] "1.prems"(2) p(2) by simp
    then show ?thesis using Some by (simp add: trim_rev.simps [of t])
  qed
qed

lemma trim_keeps:
  assumes "s \<noteq> []" "byte (hd s) \<in> {33..<128}"
  shows "trim s \<noteq> []"
proof -
  have "hd p \<noteq> hd s" if "p \<in> set ws_seqs" for p using ws_bytes [OF that] assms(2) by metis
  then have "strip_any ws_seqs s = None" using assms(1) ws_seqs_nonempty by (intro strip_any_other_head) auto
  then have "trim_start s = s" by (simp add: trim_start.simps [of s])
  then show ?thesis using trim_rev_keeps [of "rev s"] assms by (simp add: trim_def last_rev)
qed

text \<open>The JSON values that are written without quotes and brackets.\<close>

fun bare_value :: "json \<Rightarrow> bool" where
  "bare_value JNull = True"
| "bare_value (JBool b) = True"
| "bare_value (JNum n) = True"
| "bare_value JNonFinite = True"
| "bare_value _ = False"

lemma dec_nat_start: "dec_nat k \<noteq> [] \<and> 48 \<le> byte (hd (dec_nat k)) \<and> byte (hd (dec_nat k)) < 58"
proof -
  have "dec_nat k \<noteq> []" by (simp add: dec_nat.simps [of k])
  then show ?thesis using dec_nat_digits [of "hd (dec_nat k)" k] by simp
qed

lemma dec_int_start: "dec_int n \<noteq> [] \<and> byte (hd (dec_int n)) \<in> {33..<128}"
  using dec_nat_start [of "nat n"] by (cases "n < 0") (auto simp: dec_int_def)

lemma bare_value_shows: "bare_value v \<Longrightarrow> trim (value_text v) \<noteq> []"
proof -
  assume "bare_value v"
  then have "value_text v \<noteq> [] \<and> byte (hd (value_text v)) \<in> {33..<128}"
    by (cases v) (use dec_int_start in \<open>simp_all\<close>)
  then show ?thesis using trim_keeps by blast
qed

definition form_prints :: "json_codec \<Rightarrow> skill_form \<Rightarrow> int \<Rightarrow> bool" where
  "form_prints c f v \<longleftrightarrow>
     slug_text (sf_slug f) \<and> pred_option bare_value (jc_parse c (sf_slug f)) \<and> prints_plainly c (sf_name f)
     \<and> prints_plainly c (sf_description f) \<and> prints_plainly c (version_text v)
     \<and> trim (sf_name f) \<noteq> [] \<and> trim (sf_description f) \<noteq> []"

lemma read_slug_shows: "form_prints c f v \<Longrightarrow> trim (read_slug c (sf_slug f)) \<noteq> []"
  using slug_trim bare_value_shows
  by (cases "jc_parse c (sf_slug f)") (auto simp: form_prints_def read_slug_def slug_text_def)

lemma source_word: "slug_text ''agentmate''" "list_all key_char ''name''" "list_all key_char ''slug''"
  "list_all key_char ''description''" "list_all key_char ''version''" "list_all key_char ''source''"
  by (simp_all add: slug_text_def key_char_def)

lemmas printed_facts = printed_trim printed_no_block printed_no_blank
lemmas slug_facts = slug_trim slug_no_block slug_no_blank slug_one_line

lemma printed_line: "prints_plainly c s \<Longrightarrow> one_line (jc_print c (JStr s))"
  by (simp add: prints_plainly_def)

lemma printed_some: "prints_plainly c s \<Longrightarrow> jc_print c (JStr s) \<noteq> []"
  by (auto simp: prints_plainly_def)

lemma front_fields:
  assumes "form_prints c f v"
  shows "frontmatter_fields c (front_lines c f v) Map.empty =
    [''name'' \<mapsto> sf_name f, ''slug'' \<mapsto> read_slug c (sf_slug f), ''description'' \<mapsto> sf_description f,
     ''version'' \<mapsto> version_text v, ''source'' \<mapsto> parseFrontmatterValue c ''agentmate'']"
proof -
  note f = assms [unfolded form_prints_def]
  have printed: "frontmatter_fields c (front_line k (jc_print c (JStr s)) # ls) fm = frontmatter_fields c ls (fm(k \<mapsto> s))"
    if "k \<noteq> []" "list_all key_char k" "prints_plainly c s" for k s ls fm
    using field_line [OF that(1,2) printed_no_blank printed_line printed_trim printed_no_block] that(3)
    by (simp only: printed_value)
  have slugs: "frontmatter_fields c (front_line k s # ls) fm = frontmatter_fields c ls (fm(k \<mapsto> parseFrontmatterValue c s))"
    if "k \<noteq> []" "list_all key_char k" "slug_text s" for k s ls fm
    by (rule field_line [OF that(1,2)]) (use that(3) slug_facts in blast)+
  show ?thesis
    unfolding front_lines_def
    using f source_word
    by (simp only: printed [of "''name''"] printed [of "''description''"] printed [of "''version''"]
        slugs [of "''slug''"] slugs [of "''source''"] slug_value frontmatter_fields.simps(1) list.distinct simp_thms)
qed

lemma front_kept:
  assumes "form_prints c f v"
  shows "kept_lines (front_lines c f v) = []"
proof -
  note f = assms [unfolded form_prints_def]
  have printed: "kept_lines (front_line k (jc_print c (JStr s)) # ls) = kept_lines ls"
    if "k \<in> set MANAGED_FRONTMATTER_KEYS" "list_all key_char k" "prints_plainly c s" for k s ls
    by (rule managed_line [OF that(1,2)])
      (use that(3) printed_no_blank printed_line printed_trim printed_no_block printed_some in blast)+
  have slugs: "kept_lines (front_line k s # ls) = kept_lines ls"
    if "k \<in> set MANAGED_FRONTMATTER_KEYS" "list_all key_char k" "slug_text s" for k s ls
    by (rule managed_line [OF that(1,2)]) (use that(3) slug_facts slug_text_def in blast)+
  have m: "''name'' \<in> set MANAGED_FRONTMATTER_KEYS" "''slug'' \<in> set MANAGED_FRONTMATTER_KEYS"
    "''description'' \<in> set MANAGED_FRONTMATTER_KEYS" "''version'' \<in> set MANAGED_FRONTMATTER_KEYS"
    "''source'' \<in> set MANAGED_FRONTMATTER_KEYS"
    by (simp_all add: MANAGED_FRONTMATTER_KEYS_def)
  show ?thesis
    unfolding front_lines_def
    using f source_word m
    by (simp only: printed [of "''name''"] printed [of "''description''"] printed [of "''version''"]
        slugs [of "''slug''"] slugs [of "''source''"] kept_lines.simps(1) simp_thms)
qed

lemma line_plain: "k \<noteq> [] \<Longrightarrow> list_all key_char k \<Longrightarrow> hd k \<noteq> CHR ''-'' \<Longrightarrow> one_line v \<Longrightarrow> plain_line (front_line k v)"
  by (auto simp: plain_line_def front_line_def one_line_def list_all_iff key_char_def)

lemma front_plain: "form_prints c f v \<Longrightarrow> list_all plain_line (front_lines c f v)"
  using source_word slug_one_line [OF source_word(1)]
  by (auto simp: front_lines_def form_prints_def printed_line slug_one_line intro!: line_plain)

text \<open>The text as written, for a form and a body.\<close>

definition body_text :: "string \<Rightarrow> string" where
  "body_text body = (if body \<noteq> [] \<and> last body \<noteq> lf then body @ [lf] else body)"

lemma build_shape:
  assumes "form_prints c f v"
  shows "buildSkillMarkdown c f v None body =
     ''---'' @ lf # join_with [lf] (front_lines c f v) @ lf # ''---'' @ lf # lf # body_text body"
  by (simp add: buildSkillMarkdown_def body_text_def Let_def)

lemma parse_shape:
  assumes "form_prints c f v"
  shows "parseSkillMarkdown c (''---'' @ lf # join_with [lf] (front_lines c f v) @ lf # ''---'' @ lf # lf # body) =
     Some \<lparr> sd_frontmatter = frontmatter_fields c (front_lines c f v) Map.empty,
            sd_raw = join_with [lf] (front_lines c f v), sd_body = body \<rparr>"
proof -
  let ?ls = "front_lines c f v"
  have ls: "?ls \<noteq> []" "list_all plain_line ?ls" using front_plain [OF assms(1)] by (simp_all add: front_lines_def)
  have bom: "strip_prefix BOM (''---'' @ s) = None" for s by (simp add: BOM_def)
  have o: "open_fence (''---'' @ lf # s) = Some s" for s by (simp add: open_fence_def blank_char_def)
  have pr: "present (frontmatter_fields c ?ls Map.empty) k" if "k \<in> {''name'', ''slug'', ''description''}" for k
    using that assms(1) read_slug_shows [OF assms(1)] unfolding front_fields [OF assms(1)]
    by (auto simp: present_def form_prints_def)
  show ?thesis
    unfolding parseSkillMarkdown_def bom option.case o split_fence_lines [OF ls] prod.case split_lines_join [OF ls] Let_def
    using pr by simp
qed

text \<open>
  C32. A skill's file reads back as it was written: for a slug of the form's characters and a name,
  description and version whose JSON texts stand on one line (as they do without the separators
  U+2028 and U+2029), the file built from them with any body parses, with the name and the
  description of the form and the body given, closed by a line end; the slug read is the form's,
  but for one that is a JSON number or word itself, which is read as the text of that value
  (\<open>1.0\<close> as \<open>1\<close>); and building the file again from what was read, with other values of the
  form, gives the file those values would have been given at first.
\<close>

theorem skill_markdown_reads_back:
  assumes "form_prints c f v"
  shows "\<exists>doc. parseSkillMarkdown c (buildSkillMarkdown c f v None body) = Some doc
     \<and> sd_frontmatter doc ''name'' = Some (sf_name f)
     \<and> sd_frontmatter doc ''slug'' = Some (case jc_parse c (sf_slug f) of None \<Rightarrow> sf_slug f | Some w \<Rightarrow> value_text w)
     \<and> sd_frontmatter doc ''description'' = Some (sf_description f)
     \<and> sd_body doc = body_text body
     \<and> buildSkillMarkdown c g w (Some doc) other = buildSkillMarkdown c g w None body"
proof -
  have twice: "body_text (body_text body) = body_text body" by (simp add: body_text_def)
  let ?doc = "\<lparr> sd_frontmatter = frontmatter_fields c (front_lines c f v) Map.empty,
            sd_raw = join_with [lf] (front_lines c f v), sd_body = body_text body \<rparr>"
  have "preserveUnmanagedFrontmatter (sd_raw ?doc) = []"
    using split_lines_join [of "front_lines c f v"] front_plain [OF assms(1)] front_kept [OF assms(1)]
    by (simp add: preserveUnmanagedFrontmatter_def front_lines_def)
  then have "buildSkillMarkdown c g w (Some ?doc) other = buildSkillMarkdown c g w None body"
    using twice by (auto simp: buildSkillMarkdown_def Let_def body_text_def)
  then show ?thesis
    using parse_shape [OF assms] build_shape [OF assms] front_fields [OF assms] by (simp add: read_slug_def)
qed

definition quoting_codec :: json_codec where
  "quoting_codec =
     \<lparr> jc_parse = (\<lambda>s. if s = ''1.0'' then Some (JNum 1) else if s \<noteq> [] \<and> hd s = CHR 0x22 \<and> last s = CHR 0x22 then Some (JStr (butlast (tl s))) else None),
       jc_print = (\<lambda>v. CHR 0x22 # jstr_d v @ [CHR 0x22]) \<rparr>"

definition demo_skill :: skill_form where
  "demo_skill =
     \<lparr> sf_slug = ''docs-1.0'', sf_name = ''Docs'', sf_icon = [], sf_category_slug = ''office'',
       sf_description = ''Writes docs'', sf_tools = [], sf_min_app_version = ''0.0.0'', sf_sort = 0 \<rparr>"

lemma quoting_plain: "one_line (CHR 0x22 # s @ [CHR 0x22]) \<Longrightarrow> prints_plainly quoting_codec s"
  by (simp add: prints_plainly_def quoting_codec_def jstr_d_def)

lemma demo_slug_prints: "slug \<in> {''docs-1.0'', ''1.0''} \<Longrightarrow> form_prints quoting_codec (demo_skill\<lparr> sf_slug := slug \<rparr>) 1"
proof -
  have "trim ''Docs'' = ''Docs''" "trim ''Writes docs'' = ''Writes docs''" by (rule trim_plain; simp)+
  moreover have "prints_plainly quoting_codec ''Docs''" "prints_plainly quoting_codec ''Writes docs''"
    "prints_plainly quoting_codec (version_text 1)"
    by (rule quoting_plain; code_simp)+
  ultimately show "slug \<in> {''docs-1.0'', ''1.0''} \<Longrightarrow> ?thesis"
    by (auto simp: form_prints_def demo_skill_def slug_text_def key_char_def quoting_codec_def)
qed

lemma demo_skill_prints: "form_prints quoting_codec demo_skill 1"
  using demo_slug_prints [of "''docs-1.0''"] by (simp add: demo_skill_def)

lemma demo_slug: "read_slug quoting_codec ''docs-1.0'' = ''docs-1.0''"
  by (simp add: read_slug_def quoting_codec_def)

text \<open>A body that begins with an empty line, and the two kinds of slug.\<close>

theorem skill_markdown_reads_back_witness:
  "map_option (\<lambda>d. (sd_frontmatter d ''slug'', sd_body d)) (parseSkillMarkdown quoting_codec
       (buildSkillMarkdown quoting_codec demo_skill 1 None (lf # ''Do it.'')))
     = Some (Some ''docs-1.0'', lf # ''Do it.'' @ [lf])
   \<and> map_option (\<lambda>d. sd_frontmatter d ''slug'') (parseSkillMarkdown quoting_codec
       (buildSkillMarkdown quoting_codec (demo_skill\<lparr> sf_slug := ''1.0'' \<rparr>) 1 None [])) = Some (Some ''1'')"
proof -
  have one: "value_text (JNum 1) = ''1''" by code_simp
  from skill_markdown_reads_back [OF demo_skill_prints, of "lf # ''Do it.''" demo_skill 1 "[]"]
    skill_markdown_reads_back [OF demo_slug_prints, of "''1.0''" "[]" demo_skill 1 "[]"] one
  show ?thesis by (auto simp: body_text_def quoting_codec_def demo_skill_def)
qed

text \<open>
  A slug that is a JSON value itself does not read back, although the form allows it: \<open>1.0\<close>
  becomes \<open>1\<close>, so \<open>applySkillDraft\<close> takes it for another slug.
\<close>

lemma numeric_slug_changes:
  "jc_parse c ''1.0'' = Some (JNum 1) \<Longrightarrow> parseFrontmatterValue c ''1.0'' = ''1''"
proof -
  have "trim ''1.0'' = ''1.0''" by (rule trim_plain) simp_all
  moreover assume "jc_parse c ''1.0'' = Some (JNum 1)"
  moreover have "dec_int 1 = ''1''" by code_simp
  ultimately show ?thesis by (simp add: parseFrontmatterValue_def)
qed

end
