(* ===== verification/SkillEditor.thy ===== *)
theory SkillEditor
  imports SkillMarkdown
begin

text \<open>
  The editor of a skill in the console (\<open>src/console/src/SkillEditor.tsx\<close>): a form, the instruction
  file, which the form keeps in step, and attached files, one of which is open as a draft. Saving
  creates a new version of the skill on the Server. A handler reads the state of the render it
  was made in, and so does the rest of it after it has set new state.
\<close>

subsection \<open>Data\<close>

record skill_file =
  fl_path :: string
  fl_content :: string

record skill_data =
  sk_slug :: string
  sk_name :: string
  sk_icon :: string
  sk_category_slug :: string
  sk_category :: string
  sk_description :: string
  sk_instructions :: string
  sk_skill_markdown :: "string option"
  sk_tools :: "string list"
  sk_files :: "skill_file list"
  sk_min_app_version :: "string option"

record 'd console_item =
  ci_id :: string
  ci_data :: 'd
  ci_sort :: int
  ci_enabled :: bool
  ci_version :: int

record skill_category =
  sc_slug :: string
  sc_name :: string
  sc_icon :: string
  sc_description :: string

datatype editor_tab = EdInfo | EdFiles | EdTools

datatype selected_file = SelSkill | SelFile nat

record skill_editor =
  se_item :: "skill_data console_item option"
  se_form :: skill_form
  se_tab :: editor_tab
  se_files :: "skill_file list"
  se_selected :: selected_file
  se_query :: string
  se_path :: string
  se_content :: string
  se_markdown :: string
  se_fileDirty :: bool
  se_formDirty :: bool
  se_saving :: bool
  se_initialFiles :: "skill_file list"
  se_initialMarkdown :: string

subsection \<open>Paths of attached files\<close>

definition RESERVED_FILES :: "string list" where
  "RESERVED_FILES =
     [''skill.md'', ''_skillhub_meta.json'', ''_meta.json'', ''_agentmate_release.json'', ''.disabled'']"

definition normalizeFilePath :: "string \<Rightarrow> string" where
  "normalizeFilePath value = trim (map (\<lambda>c. if c = CHR 0x5C then CHR ''/'' else c) value)"

definition drive_path :: "string \<Rightarrow> bool" where
  "drive_path p \<longleftrightarrow>
     (case p of
        a # b # r \<Rightarrow> (65 \<le> byte a \<and> byte a \<le> 90 \<or> 97 \<le> byte a \<and> byte a \<le> 122) \<and> b = CHR '':''
      | _ \<Rightarrow> False)"

definition other_paths :: "skill_file list \<Rightarrow> nat \<Rightarrow> string list" where
  "other_paths files i = map (\<lambda>(f, j). fl_path f) (filter (\<lambda>(f, j). j \<noteq> i) (zip files [0..<length files]))"

definition validateFilePath :: "string \<Rightarrow> skill_file list \<Rightarrow> nat \<Rightarrow> string option" where
  "validateFilePath path files i =
     (if path = [] \<or> starts_with ''/'' path \<or> drive_path path then Some ''give a safe relative path''
      else if list_ex (\<lambda>p. p = [] \<or> p = ''.'' \<or> p = ''..'') (split_on (CHR ''/'') path)
      then Some ''no empty folder, . or ..''
      else if lower path \<in> set RESERVED_FILES then Some ''reserved name''
      else if lower path \<in> set (map lower (other_paths files i)) then Some ''the path is in use''
      else None)"

subsection \<open>Opening\<close>

text \<open>The first values of the form; a new skill has the icon of a puzzle piece, U+1F9E9 in UTF-8.\<close>

definition PUZZLE :: string where
  "PUZZLE = [CHR 0xF0, CHR 0x9F, CHR 0xA7, CHR 0xA9]"

definition initial_form ::
  "skill_category console_item list \<Rightarrow> skill_data console_item option \<Rightarrow> skill_form" where
  "initial_form categories item =
     (case item of
        None \<Rightarrow> \<lparr> sf_slug = [], sf_name = [], sf_icon = PUZZLE, sf_category_slug = [], sf_description = [],
                 sf_tools = [], sf_min_app_version = ''0.0.0'', sf_sort = 0 \<rparr>
      | Some i \<Rightarrow>
          let d = ci_data i;
              legacy = map_option (\<lambda>k. sc_slug (ci_data k))
                (List.find (\<lambda>k. sc_name (ci_data k) = sk_category d) categories)
          in \<lparr> sf_slug = sk_slug d, sf_name = sk_name d, sf_icon = or_str (sk_icon d) PUZZLE,
               sf_category_slug = or_str (sk_category_slug d) (opt_str legacy),
               sf_description = sk_description d, sf_tools = sk_tools d,
               sf_min_app_version = or_opt (sk_min_app_version d) ''0.0.0'', sf_sort = ci_sort i \<rparr>)"

definition initial_markdown ::
  "json_codec \<Rightarrow> skill_form \<Rightarrow> skill_data console_item option \<Rightarrow> string" where
  "initial_markdown c f item =
     (case item of
        None \<Rightarrow> buildSkillMarkdown c f 1 None []
      | Some i \<Rightarrow>
          let source = opt_str (sk_skill_markdown (ci_data i)) in
          if source \<noteq> [] \<and> parseSkillMarkdown c source \<noteq> None then source
          else buildSkillMarkdown c f (if ci_version i = 0 then 1 else ci_version i) None
                 (sk_instructions (ci_data i)))"

definition open_editor ::
  "json_codec \<Rightarrow> skill_category console_item list \<Rightarrow> skill_data console_item option \<Rightarrow> editor_tab \<Rightarrow> skill_editor" where
  "open_editor c categories item initialTab =
     (let f = initial_form categories item;
          files = (case item of None \<Rightarrow> [] | Some i \<Rightarrow> sk_files (ci_data i));
          md = initial_markdown c f item
      in \<lparr> se_item = item, se_form = f, se_tab = initialTab, se_files = files, se_selected = SelSkill,
           se_query = [], se_path = [], se_content = md, se_markdown = md, se_fileDirty = False,
           se_formDirty = False, se_saving = False, se_initialFiles = files, se_initialMarkdown = md \<rparr>)"

definition visibleFiles :: "skill_editor \<Rightarrow> (skill_file \<times> nat) list" where
  "visibleFiles e =
     (let query = lower (trim (se_query e))
      in filter (\<lambda>(f, i). query = [] \<or> includes_str query (lower (fl_path f)))
           (zip (se_files e) [0..<length (se_files e)]))"

definition file_at :: "nat \<Rightarrow> skill_file list \<Rightarrow> skill_file" where
  "file_at i files = (if i < length files then files ! i else \<lparr> fl_path = [], fl_content = [] \<rparr>)"

text \<open>Whether the open draft stands in the way: then the handlers below only warn.\<close>

definition loadFile :: "selected_file \<Rightarrow> skill_editor \<Rightarrow> skill_editor" where
  "loadFile sel e =
     (if se_fileDirty e then e
      else case sel of
        SelSkill \<Rightarrow> e\<lparr> se_selected := sel, se_path := [], se_content := se_markdown e, se_fileDirty := False \<rparr>
      | SelFile i \<Rightarrow> e\<lparr> se_selected := sel, se_path := fl_path (file_at i (se_files e)),
                       se_content := fl_content (file_at i (se_files e)), se_fileDirty := False \<rparr>)"

definition changeTab :: "editor_tab \<Rightarrow> skill_editor \<Rightarrow> skill_editor" where
  "changeTab t e = (if se_fileDirty e then e else e\<lparr> se_tab := t \<rparr>)"

text \<open>The effect that shows a changed instruction file in an untouched draft.\<close>

definition show_markdown :: "skill_editor \<Rightarrow> skill_editor" where
  "show_markdown e =
     (if se_fileDirty e \<or> se_selected e \<noteq> SelSkill then e else e\<lparr> se_content := se_markdown e \<rparr>)"

definition item_version :: "skill_editor \<Rightarrow> int" where
  "item_version e = (case se_item e of None \<Rightarrow> 1 | Some i \<Rightarrow> if ci_version i = 0 then 1 else ci_version i)"

definition syncSkillMarkdown :: "json_codec \<Rightarrow> skill_form \<Rightarrow> skill_editor \<Rightarrow> skill_editor" where
  "syncSkillMarkdown c values e =
     (if se_fileDirty e then e
      else let parsed = parseSkillMarkdown c (se_markdown e);
               next = buildSkillMarkdown c values (item_version e) parsed
                        (case parsed of None \<Rightarrow> [] | Some d \<Rightarrow> sd_body d)
           in e\<lparr> se_markdown := next, se_content := (if se_selected e = SelSkill then next else se_content e) \<rparr>)"

definition change_form :: "json_codec \<Rightarrow> skill_form \<Rightarrow> skill_editor \<Rightarrow> skill_editor" where
  "change_form c values e = syncSkillMarkdown c values (e\<lparr> se_form := values, se_formDirty := True \<rparr>)"

text \<open>Typing into the open file.\<close>

definition write_content :: "string \<Rightarrow> skill_editor \<Rightarrow> skill_editor" where
  "write_content t e = e\<lparr> se_content := t, se_fileDirty := True \<rparr>"

definition write_path :: "string \<Rightarrow> skill_editor \<Rightarrow> skill_editor" where
  "write_path t e = e\<lparr> se_path := t, se_fileDirty := True \<rparr>"

subsection \<open>Applying a draft\<close>

definition applySkillDraft :: "json_codec \<Rightarrow> skill_editor \<Rightarrow> skill_editor \<times> bool" where
  "applySkillDraft c e =
     (case parseSkillMarkdown c (se_content e) of
        None \<Rightarrow> (e, False)
      | Some d \<Rightarrow>
          if se_item e \<noteq> None \<and> sd_frontmatter d ''slug'' \<noteq> Some (trim (sf_slug (se_form e))) then (e, False)
          else (e\<lparr> se_form := (se_form e)\<lparr> sf_name := opt_str (sd_frontmatter d ''name''),
                      sf_slug := opt_str (sd_frontmatter d ''slug''),
                      sf_description := opt_str (sd_frontmatter d ''description'') \<rparr>,
                   se_markdown := se_content e, se_fileDirty := False \<rparr>, True))"

definition too_large :: "skill_file list \<Rightarrow> bool" where
  "too_large files \<longleftrightarrow> 128 < length files \<or> 1024 * 1024 < sum_list (map (\<lambda>f. length (fl_content f)) files)"

definition applyFileDraft :: "json_codec \<Rightarrow> skill_editor \<Rightarrow> skill_editor \<times> skill_file list option" where
  "applyFileDraft c e =
     (case se_selected e of
        SelSkill \<Rightarrow> (case applySkillDraft c e of (e1, ok) \<Rightarrow> (e1, if ok then Some (se_files e) else None))
      | SelFile i \<Rightarrow>
          (let path = normalizeFilePath (se_path e);
               next = (se_files e)[i := \<lparr> fl_path = path, fl_content = se_content e \<rparr>]
           in if validateFilePath path (se_files e) i \<noteq> None \<or> too_large next then (e, None)
              else (e\<lparr> se_files := next, se_fileDirty := False \<rparr>, Some next)))"

definition revertFileDraft :: "skill_editor \<Rightarrow> skill_editor" where
  "revertFileDraft e =
     (case se_selected e of
        SelSkill \<Rightarrow> e\<lparr> se_content := se_markdown e, se_fileDirty := False \<rparr>
      | SelFile i \<Rightarrow> e\<lparr> se_path := fl_path (file_at i (se_files e)),
                       se_content := fl_content (file_at i (se_files e)), se_fileDirty := False \<rparr>)"

definition new_file_path :: "nat \<Rightarrow> string" where
  "new_file_path n = ''references/new-file-'' @ dec_nat n @ ''.md''"

text \<open>The loop that looks for a free name, with the number of names it may try.\<close>

fun free_path :: "nat \<Rightarrow> nat \<Rightarrow> string list \<Rightarrow> string" where
  "free_path 0 n paths = new_file_path n"
| "free_path (Suc k) n paths =
     (if new_file_path n \<in> set paths then free_path k (Suc n) paths else new_file_path n)"

definition addFile :: "skill_editor \<Rightarrow> skill_editor" where
  "addFile e =
     (if se_fileDirty e then e
      else let n = length (se_files e);
               path = free_path n (Suc n) (map fl_path (se_files e));
               next = se_files e @ [\<lparr> fl_path = path, fl_content = [] \<rparr>]
           in e\<lparr> se_files := next, se_selected := SelFile n, se_path := path, se_content := [],
                 se_fileDirty := True \<rparr>)"

text \<open>The confirmed deletion.\<close>

definition deleteFile :: "skill_editor \<Rightarrow> skill_editor" where
  "deleteFile e =
     (case se_selected e of
        SelSkill \<Rightarrow> e
      | SelFile i \<Rightarrow> e\<lparr> se_files := take i (se_files e) @ drop (Suc i) (se_files e), se_selected := SelSkill,
                       se_path := [], se_content := se_markdown e, se_fileDirty := False \<rparr>)"

definition isDirty :: "skill_editor \<Rightarrow> bool" where
  "isDirty e \<longleftrightarrow> se_formDirty e \<or> se_fileDirty e \<or> se_markdown e \<noteq> se_initialMarkdown e
     \<or> se_files e \<noteq> se_initialFiles e"

text \<open>Closing at once, or only after the user confirms.\<close>

definition requestClose :: "skill_editor \<Rightarrow> bool \<Rightarrow> bool" where
  "requestClose e confirmed \<longleftrightarrow> \<not> isDirty e \<or> confirmed"

subsection \<open>Saving\<close>

definition slug_rule :: "string \<Rightarrow> bool" where
  "slug_rule s \<longleftrightarrow>
     (case s of
        [] \<Rightarrow> False
      | c # r \<Rightarrow> (key_char c \<and> c \<noteq> CHR ''_'' \<and> c \<noteq> CHR ''-'') \<and> list_all (\<lambda>d. key_char d \<or> d = CHR ''.'') r)"

definition digits :: "string \<Rightarrow> bool" where
  "digits s \<longleftrightarrow> s \<noteq> [] \<and> list_all (\<lambda>d. 48 \<le> byte d \<and> byte d \<le> 57) s"

text \<open>\<open>/^\d+\.\d+\.\d+(?:[-+][A-Za-z0-9.-]+)?$/\<close>: the third number ends at the first other character.\<close>

definition version_rule :: "string \<Rightarrow> bool" where
  "version_rule s \<longleftrightarrow>
     (let digit = (\<lambda>d. 48 \<le> byte d \<and> byte d \<le> 57);
          a = takeWhile digit s; r1 = dropWhile digit s;
          b = takeWhile digit (tl r1); r2 = dropWhile digit (tl r1);
          d = takeWhile digit (tl r2); r3 = dropWhile digit (tl r2)
      in digits a \<and> r1 \<noteq> [] \<and> hd r1 = CHR ''.'' \<and> digits b \<and> r2 \<noteq> [] \<and> hd r2 = CHR ''.'' \<and> digits d
         \<and> (r3 = [] \<or> (hd r3 = CHR ''-'' \<or> hd r3 = CHR ''+'') \<and> tl r3 \<noteq> []
              \<and> list_all (\<lambda>x. (key_char x \<and> x \<noteq> CHR ''_'') \<or> x = CHR ''.'') (tl r3)))"

definition form_valid :: "skill_form \<Rightarrow> bool" where
  "form_valid f \<longleftrightarrow> slug_rule (sf_slug f) \<and> trim (sf_name f) \<noteq> [] \<and> sf_category_slug f \<noteq> []
     \<and> trim (sf_description f) \<noteq> [] \<and> version_rule (sf_min_app_version f)"

record save_request =
  sq_data :: skill_data
  sq_sort :: int
  sq_item :: string

definition markdown_body :: "json_codec \<Rightarrow> string \<Rightarrow> string" where
  "markdown_body c md = (case parseSkillMarkdown c md of None \<Rightarrow> [] | Some d \<Rightarrow> trim (sd_body d))"

definition save_request_of ::
  "json_codec \<Rightarrow> skill_category console_item list \<Rightarrow> skill_form \<Rightarrow> skill_file list \<Rightarrow> skill_editor \<Rightarrow> save_request" where
  "save_request_of c categories values files e =
     \<lparr> sq_data =
         \<lparr> sk_slug = trim (sf_slug values), sk_name = trim (sf_name values),
           sk_icon = or_str (trim (sf_icon values)) PUZZLE, sk_category_slug = trim (sf_category_slug values),
           sk_category = opt_str (map_option (\<lambda>k. sc_name (ci_data k))
              (List.find (\<lambda>k. sc_slug (ci_data k) = sf_category_slug values) categories)),
           sk_description = trim (sf_description values),
           sk_instructions = markdown_body c (se_markdown e), sk_skill_markdown = Some (se_markdown e),
           sk_tools = sf_tools values, sk_files = files,
           sk_min_app_version = Some (or_str (trim (sf_min_app_version values)) ''0.0.0'') \<rparr>,
       sq_sort = sf_sort values, sq_item = (case se_item e of None \<Rightarrow> [] | Some i \<Rightarrow> ci_id i) \<rparr>"

text \<open>
  \<open>save\<close>: \<open>e\<close> is the render's state, from which the file and the attached files are taken,
  \<open>e1\<close> the one after the draft was applied, whose form is read.
\<close>

definition skill_save ::
  "json_codec \<Rightarrow> skill_category console_item list \<Rightarrow> skill_editor \<Rightarrow> skill_editor \<times> save_request option" where
  "skill_save c categories e =
     (case (if se_fileDirty e \<and> se_selected e = SelSkill then applySkillDraft c e else (e, True)) of
        (e1, ok) \<Rightarrow>
          if \<not> ok then (e1\<lparr> se_tab := EdFiles \<rparr>, None)
          else if \<not> form_valid (se_form e1) then (e1\<lparr> se_tab := EdInfo \<rparr>, None)
          else (case (if se_fileDirty e then applyFileDraft c e1 else (e1, Some (se_files e))) of
            (e2, None) \<Rightarrow> (e2\<lparr> se_tab := EdFiles \<rparr>, None)
          | (e2, Some files) \<Rightarrow>
              if markdown_body c (se_markdown e) = [] then (e2\<lparr> se_tab := EdFiles \<rparr>, None)
              else (e2\<lparr> se_saving := True \<rparr>, Some (save_request_of c categories (se_form e1) files e))))"

text \<open>Whether the editor closes, and the page reads everything again.\<close>

definition skill_save_done :: "unit res \<Rightarrow> skill_editor \<Rightarrow> skill_editor \<times> bool" where
  "skill_save_done r e = (e\<lparr> se_saving := False \<rparr>, \<not> isl r)"

subsection \<open>The text that is saved\<close>

lemma applied_twice:
  assumes "applySkillDraft c e = (e1, True)"
  shows "se_content e1 = se_content e \<and> se_files e1 = se_files e \<and> se_selected e1 = se_selected e
    \<and> se_markdown e1 = se_content e \<and> \<not> se_fileDirty e1 \<and> se_item e1 = se_item e
    \<and> (\<exists>d. parseSkillMarkdown c (se_content e) = Some d \<and> sf_name (se_form e1) = opt_str (sd_frontmatter d ''name''))"
  using assms unfolding applySkillDraft_def by (cases "parseSkillMarkdown c (se_content e)") (auto split: if_splits)

text \<open>
  C34. Text typed into the instruction file is not saved unless it was applied first: saving with
  an open draft of \<open>SKILL.md\<close> tells the user that it was applied and will be submitted, but the new
  version carries the old file and the old instructions, beside the name the draft gives; with
  the draft applied before, the file typed is the one sent.
\<close>

theorem unapplied_skill_text_is_not_saved:
  assumes "se_fileDirty e" "se_selected e = SelSkill" "skill_save c categories e = (e', Some q)"
  shows "sk_skill_markdown (sq_data q) = Some (se_markdown e)
     \<and> sk_instructions (sq_data q) = markdown_body c (se_markdown e)
     \<and> se_markdown e' = se_content e \<and> \<not> se_fileDirty e'
     \<and> (\<exists>d. parseSkillMarkdown c (se_content e) = Some d
           \<and> sk_name (sq_data q) = trim (opt_str (sd_frontmatter d ''name'')))
     \<and> (applySkillDraft c e = (e1, True) \<and> skill_save c categories e1 = (e2, Some q1)
          \<longrightarrow> sk_skill_markdown (sq_data q1) = Some (se_content e))"
proof -
  obtain a ok where a: "applySkillDraft c e = (a, ok)" by force
  with assms have ok: "ok" by (auto simp: skill_save_def split: if_splits)
  note ap = applied_twice [OF a [unfolded ok [THEN eqTrueI]]]
  obtain b fs where b: "applyFileDraft c a = (b, fs)" by force
  then have b': "se_markdown b = se_content e" "\<not> se_fileDirty b"
    using ap assms(2) by (auto simp: applyFileDraft_def applySkillDraft_def split: prod.splits option.splits if_splits)
  from assms a ok b ap have q: "\<exists>fs. q = save_request_of c categories (se_form a) fs e" "e' = b\<lparr> se_saving := True \<rparr>"
    by (auto simp: skill_save_def split: if_splits option.splits)
  have later: "sk_skill_markdown (sq_data q1) = Some (se_content e)"
    if "applySkillDraft c e = (e1, True)" "skill_save c categories e1 = (e2, Some q1)"
    using that applied_twice [OF that(1)]
    by (auto simp: skill_save_def save_request_of_def split: if_splits option.splits)
  show ?thesis using q ap b' later by (auto simp: save_request_of_def)
qed

definition demo_editor :: skill_editor where
  "demo_editor =
     (open_editor quoting_codec [] None EdFiles)
       \<lparr> se_form := demo_skill, se_markdown := buildSkillMarkdown quoting_codec demo_skill 1 None ''Old.'',
         se_content := buildSkillMarkdown quoting_codec demo_skill 1 None ''New.'', se_fileDirty := True \<rparr>"

lemma demo_parses:
  assumes "body \<in> {''Old.'', ''New.''}"
  obtains d where "parseSkillMarkdown quoting_codec (buildSkillMarkdown quoting_codec demo_skill 1 None body) = Some d"
    "sd_body d = body @ [lf]" "sd_frontmatter d ''name'' = Some ''Docs''" "sd_frontmatter d ''slug'' = Some ''docs-1.0''"
    "sd_frontmatter d ''description'' = Some ''Writes docs''"
proof -
  note p = parse_shape [OF demo_skill_prints, of "body_text body"] build_shape [OF demo_skill_prints, of body]
    front_fields [OF demo_skill_prints]
  show thesis using assms that p by (auto simp: demo_skill_def body_text_def demo_slug)
qed

theorem unapplied_skill_text_is_not_saved_witness:
  "case skill_save quoting_codec [] demo_editor of
     (e', Some q) \<Rightarrow> sk_skill_markdown (sq_data q) = Some (buildSkillMarkdown quoting_codec demo_skill 1 None ''Old.'')
   | _ \<Rightarrow> False"
proof -
  obtain dn where n: "parseSkillMarkdown quoting_codec (buildSkillMarkdown quoting_codec demo_skill 1 None ''New.'') = Some dn"
    "sd_frontmatter dn ''name'' = Some ''Docs''" "sd_frontmatter dn ''slug'' = Some ''docs-1.0''"
    "sd_frontmatter dn ''description'' = Some ''Writes docs''"
    by (rule demo_parses [of "''New.''"]) auto
  obtain d where o: "parseSkillMarkdown quoting_codec (buildSkillMarkdown quoting_codec demo_skill 1 None ''Old.'') = Some d"
    "sd_body d = ''Old.'' @ [lf]"
    by (rule demo_parses [of "''Old.''"]) auto
  have dirty: "se_fileDirty demo_editor" "se_selected demo_editor = SelSkill" "se_item demo_editor = None"
    by (simp_all add: demo_editor_def open_editor_def Let_def)
  have "trim (''Old.'' @ [lf]) \<noteq> []" by (rule trim_keeps) simp_all
  then have body: "markdown_body quoting_codec (se_markdown demo_editor) \<noteq> []"
    using o by (simp add: markdown_body_def demo_editor_def)
  have "trim ''Docs'' = ''Docs''" "trim ''Writes docs'' = ''Writes docs''" by (rule trim_plain; simp)+
  moreover have "version_rule ''0.0.0''" "slug_rule ''docs-1.0''" by code_simp+
  ultimately have valid: "form_valid demo_skill" by (simp add: form_valid_def demo_skill_def)
  have same: "(se_form demo_editor)\<lparr> sf_name := ''Docs'', sf_slug := ''docs-1.0'', sf_description := ''Writes docs'' \<rparr> = demo_skill"
    by (simp add: demo_editor_def demo_skill_def)
  have cn: "se_content demo_editor = buildSkillMarkdown quoting_codec demo_skill 1 None ''New.''"
    "se_markdown demo_editor = buildSkillMarkdown quoting_codec demo_skill 1 None ''Old.''"
    by (simp_all add: demo_editor_def)
  obtain e' q where s: "skill_save quoting_codec [] demo_editor = (e', Some q)"
    using dirty body valid same n cn
    by (simp add: skill_save_def applyFileDraft_def applySkillDraft_def)
  from unapplied_skill_text_is_not_saved [OF dirty(1,2) s] show ?thesis using s cn by simp
qed

subsection \<open>Attached files\<close>

text \<open>Every operation on an open editor; files are chosen from the list shown.\<close>

inductive editor_step :: "json_codec \<Rightarrow> skill_editor \<Rightarrow> skill_editor \<Rightarrow> bool" for c :: json_codec where
  loads: "(\<And>i. sel = SelFile i \<Longrightarrow> i < length (se_files e)) \<Longrightarrow> editor_step c e (loadFile sel e)"
| tabs: "editor_step c e (changeTab t e)"
| forms: "editor_step c e (change_form c f e)"
| contents: "editor_step c e (write_content t e)"
| paths: "editor_step c e (write_path t e)"
| queries: "editor_step c e (e\<lparr> se_query := t \<rparr>)"
| shows_text: "editor_step c e (show_markdown e)"
| applies_skill: "editor_step c e (fst (applySkillDraft c e))"
| applies: "editor_step c e (fst (applyFileDraft c e))"
| reverts: "editor_step c e (revertFileDraft e)"
| adds: "editor_step c e (addFile e)"
| deletes: "editor_step c e (deleteFile e)"
| saves: "editor_step c e (fst (skill_save c categories e))"
| saved: "editor_step c e (fst (skill_save_done r e))"

inductive editor_reached :: "json_codec \<Rightarrow> skill_editor \<Rightarrow> skill_editor \<Rightarrow> bool" for c :: json_codec where
  start: "editor_reached c e e"
| step: "editor_reached c e0 e \<Longrightarrow> editor_step c e e' \<Longrightarrow> editor_reached c e0 e'"

definition safe_path :: "string \<Rightarrow> bool" where
  "safe_path p \<longleftrightarrow> p \<noteq> [] \<and> \<not> starts_with ''/'' p \<and> \<not> drive_path p
     \<and> set (split_on (CHR ''/'') p) \<inter> {[], ''.'', ''..''} = {} \<and> lower p \<notin> set RESERVED_FILES"

definition safe_files :: "skill_file list \<Rightarrow> bool" where
  "safe_files fs \<longleftrightarrow> list_all (\<lambda>f. safe_path (fl_path f)) fs \<and> distinct (map fl_path fs)"

definition selected_ok :: "skill_editor \<Rightarrow> bool" where
  "selected_ok e \<longleftrightarrow> (\<forall>i. se_selected e = SelFile i \<longrightarrow> i < length (se_files e))"

fun number_of :: "string \<Rightarrow> nat \<Rightarrow> nat" where
  "number_of [] a = a"
| "number_of (d # s) a = number_of s (10 * a + (byte d - 48))"

lemma number_of_append: "number_of (s @ t) a = number_of t (number_of s a)"
  by (induction s arbitrary: a) simp_all

lemma number_of_dec_nat: "number_of (dec_nat n) 0 = n"
proof (induction n rule: dec_nat.induct)
  case (1 n)
  then show ?case by (cases "n < 10") (simp_all add: dec_nat.simps [of n] number_of_append)
qed

lemma new_file_path_inj: "new_file_path m = new_file_path n \<longleftrightarrow> m = n"
proof
  assume "new_file_path m = new_file_path n"
  then have "dec_nat m = dec_nat n" by (simp add: new_file_path_def)
  then show "m = n" by (metis number_of_dec_nat)
qed simp

lemma used_numbers:
  "finite {m. n \<le> m \<and> new_file_path m \<in> set paths} \<and> card {m. n \<le> m \<and> new_file_path m \<in> set paths} \<le> length paths"
proof -
  let ?S = "{m. n \<le> m \<and> new_file_path m \<in> set paths}"
  have inj: "inj_on new_file_path ?S" by (simp add: inj_on_def new_file_path_inj)
  have sub: "new_file_path ` ?S \<subseteq> set paths" by auto
  have "finite ?S" using inj sub by (meson finite_imageD finite_set finite_subset)
  moreover have "card ?S \<le> card (set paths)" by (rule card_inj_on_le [OF inj sub]) simp
  ultimately show ?thesis using card_length [of paths] by simp
qed

lemma free_path_number: "\<exists>m. free_path k n paths = new_file_path m"
  by (induction k arbitrary: n) auto

lemma free_path_free:
  "card {m. n \<le> m \<and> new_file_path m \<in> set paths} \<le> k \<Longrightarrow> free_path k n paths \<notin> set paths"
proof (induction k arbitrary: n)
  case 0
  then have "{m. n \<le> m \<and> new_file_path m \<in> set paths} = {}" using used_numbers by (metis card_eq_0_iff le_zero_eq)
  then show ?case by auto
next
  case (Suc k)
  show ?case
  proof (cases "new_file_path n \<in> set paths")
    case True
    let ?S = "{m. n \<le> m \<and> new_file_path m \<in> set paths}"
    have "{m. Suc n \<le> m \<and> new_file_path m \<in> set paths} = ?S - {n}" by auto
    moreover have "card (?S - {n}) = card ?S - 1" using True used_numbers by (intro card_Diff_singleton) simp_all
    ultimately have "card {m. Suc n \<le> m \<and> new_file_path m \<in> set paths} \<le> k" using Suc.prems by simp
    from Suc.IH [OF this] True show ?thesis by simp
  qed simp
qed

lemma new_path_safe: "safe_path (new_file_path n)"
proof -
  have d: "CHR ''/'' \<notin> set (dec_nat n)" using dec_nat_digits by force
  have "split_on (CHR ''/'') (new_file_path n) = [''references'', ''new-file-'' @ dec_nat n @ ''.md'']"
    using split_on_append [of "CHR ''/''" "''references''" "''new-file-'' @ dec_nat n @ ''.md''"]
      split_on_no_delim [of "CHR ''/''" "''new-file-'' @ dec_nat n @ ''.md''"] d
    by (simp add: new_file_path_def)
  moreover have "lower (new_file_path n) \<notin> set RESERVED_FILES"
    by (simp add: new_file_path_def lower_def lower_char_def RESERVED_FILES_def)
  ultimately show ?thesis by (simp add: safe_path_def new_file_path_def drive_path_def)
qed

lemma validated_safe: "validateFilePath p fs i = None \<Longrightarrow> safe_path p"
  by (auto simp: validateFilePath_def safe_path_def list_ex_iff split: if_splits)

lemma validated_other: "validateFilePath p fs i = None \<Longrightarrow> j < length fs \<Longrightarrow> j \<noteq> i \<Longrightarrow> fl_path (fs ! j) \<noteq> p"
proof
  assume v: "validateFilePath p fs i = None" and j: "j < length fs" "j \<noteq> i" "fl_path (fs ! j) = p"
  then have "(fs ! j, j) \<in> set (zip fs [0..<length fs])" by (auto simp: set_zip)
  with j have "p \<in> set (other_paths fs i)" by (force simp: other_paths_def)
  with v show False by (auto simp: validateFilePath_def split: if_splits)
qed

lemma safe_update:
  assumes "safe_files fs" "validateFilePath p fs i = None" "i < length fs"
  shows "safe_files (fs[i := \<lparr> fl_path = p, fl_content = t \<rparr>])"
proof -
  have "p \<notin> set (map fl_path fs) - {map fl_path fs ! i}"
  proof
    assume "p \<in> set (map fl_path fs) - {map fl_path fs ! i}"
    then obtain j where "j < length fs" "fl_path (fs ! j) = p" "fl_path (fs ! i) \<noteq> p"
      using assms(3) by (auto simp: in_set_conv_nth)
    then show False using validated_other [OF assms(2)] by blast
  qed
  then have "distinct ((map fl_path fs)[i := p])" using assms(1) by (intro distinct_list_update) (simp add: safe_files_def)
  moreover have "list_all (\<lambda>f. safe_path (fl_path f)) (fs[i := \<lparr> fl_path = p, fl_content = t \<rparr>])"
    using assms(1) validated_safe [OF assms(2)] set_update_subset_insert [of fs i]
    by (fastforce simp: safe_files_def list_all_iff)
  ultimately show ?thesis by (simp add: safe_files_def map_update)
qed

lemma safe_add:
  assumes "safe_files fs"
  shows "safe_files (fs @ [\<lparr> fl_path = free_path (length fs) n (map fl_path fs), fl_content = [] \<rparr>])"
proof -
  obtain m where m: "free_path (length fs) n (map fl_path fs) = new_file_path m" using free_path_number by blast
  have "free_path (length fs) n (map fl_path fs) \<notin> set (map fl_path fs)"
    by (rule free_path_free) (use used_numbers [of n "map fl_path fs"] in simp)
  then show ?thesis using assms new_path_safe [of m] by (simp add: safe_files_def m)
qed

lemma safe_delete:
  assumes "safe_files fs"
  shows "safe_files (take i fs @ drop (Suc i) fs)"
proof -
  have "set (take i (map fl_path fs)) \<inter> set (drop (Suc i) (map fl_path fs)) = {}"
    using assms by (intro set_take_disj_set_drop_if_distinct) (simp_all add: safe_files_def)
  moreover have "distinct (take i (map fl_path fs))" "distinct (drop (Suc i) (map fl_path fs))"
    using assms by (simp_all add: safe_files_def)
  ultimately have "distinct (map fl_path (take i fs @ drop (Suc i) fs))" by (simp add: take_map drop_map)
  then show ?thesis using assms
    by (auto simp: safe_files_def list_all_iff dest: in_set_takeD in_set_dropD)
qed

definition attached_ok :: "skill_editor \<Rightarrow> bool" where
  "attached_ok e \<longleftrightarrow> safe_files (se_files e) \<and> selected_ok e"

lemma attached_same:
  "attached_ok e \<Longrightarrow> se_files e' = se_files e \<Longrightarrow> se_selected e' = se_selected e \<or> se_selected e' = SelSkill
     \<Longrightarrow> attached_ok e'"
  by (auto simp: attached_ok_def selected_ok_def)

lemma skill_draft_files:
  "se_files (fst (applySkillDraft c e)) = se_files e \<and> se_selected (fst (applySkillDraft c e)) = se_selected e"
  by (auto simp: applySkillDraft_def split: option.splits)

lemma apply_ok:
  assumes "attached_ok e" "applyFileDraft c e = (e', fs)"
  shows "attached_ok e' \<and> (\<forall>gs. fs = Some gs \<longrightarrow> safe_files gs)"
proof (cases "se_selected e")
  case SelSkill
  then have "e' = fst (applySkillDraft c e)" "\<forall>gs. fs = Some gs \<longrightarrow> gs = se_files e"
    using assms(2) by (auto simp: applyFileDraft_def split: prod.splits if_splits)
  then show ?thesis using assms(1) skill_draft_files attached_same by (metis attached_ok_def)
next
  case (SelFile i)
  then have i: "i < length (se_files e)" using assms(1) by (simp add: attached_ok_def selected_ok_def)
  show ?thesis
  proof (cases "validateFilePath (normalizeFilePath (se_path e)) (se_files e) i")
    case None
    from safe_update [OF _ None i, of "se_content e"] show ?thesis
      using assms SelFile None i
      by (auto simp: applyFileDraft_def Let_def attached_ok_def selected_ok_def split: if_splits)
  next
    case (Some m)
    then show ?thesis using assms SelFile by (auto simp: applyFileDraft_def)
  qed
qed

lemma save_ok:
  assumes "attached_ok e" "skill_save c categories e = (e', q)"
  shows "attached_ok e' \<and> (\<forall>r. q = Some r \<longrightarrow> safe_files (sk_files (sq_data r)))"
proof -
  define p where "p = (if se_fileDirty e \<and> se_selected e = SelSkill then applySkillDraft c e else (e, True))"
  obtain e1 ok where p': "p = (e1, ok)" by force
  have e1: "attached_ok e1" "se_files e1 = se_files e"
    using p' assms(1) skill_draft_files [of c e] attached_same [of e e1]
    by (auto simp: p_def split: if_splits)
  define r where "r = (if se_fileDirty e then applyFileDraft c e1 else (e1, Some (se_files e)))"
  obtain e2 fs where r': "r = (e2, fs)" by force
  have e2: "attached_ok e2 \<and> (\<forall>gs. fs = Some gs \<longrightarrow> safe_files gs)"
    using apply_ok [OF e1(1)] r' e1 assms(1) by (auto simp: r_def attached_ok_def split: if_splits)
  have "(e', q) = (if \<not> ok then (e1\<lparr> se_tab := EdFiles \<rparr>, None)
      else if \<not> form_valid (se_form e1) then (e1\<lparr> se_tab := EdInfo \<rparr>, None)
      else (case (e2, fs) of
            (e2, None) \<Rightarrow> (e2\<lparr> se_tab := EdFiles \<rparr>, None)
          | (e2, Some files) \<Rightarrow>
              if markdown_body c (se_markdown e) = [] then (e2\<lparr> se_tab := EdFiles \<rparr>, None)
              else (e2\<lparr> se_saving := True \<rparr>, Some (save_request_of c categories (se_form e1) files e))))"
    using assms(2) unfolding skill_save_def p_def [symmetric] p' prod.case r_def [symmetric] r' by simp
  then show ?thesis using e1 e2
    by (auto simp: save_request_of_def attached_ok_def selected_ok_def split: if_splits option.splits)
qed

lemma step_ok: "editor_step c e e' \<Longrightarrow> attached_ok e \<Longrightarrow> attached_ok e'"
proof (induction rule: editor_step.induct)
  case (loads sel e)
  then show ?case
    by (auto simp: loadFile_def attached_ok_def selected_ok_def split: selected_file.splits)
next
  case (forms e f)
  then show ?case
    by (auto simp: change_form_def syncSkillMarkdown_def Let_def elim!: attached_same)
next
  case (applies_skill e)
  then show ?case using skill_draft_files attached_same by blast
next
  case (applies e)
  then show ?case using apply_ok [of e c] by (metis prod.collapse)
next
  case (adds e)
  then show ?case using safe_add [of "se_files e" "Suc (length (se_files e))"]
    by (simp add: addFile_def Let_def attached_ok_def selected_ok_def)
next
  case (deletes e)
  then show ?case using safe_delete [of "se_files e"]
    by (auto simp: deleteFile_def attached_ok_def selected_ok_def split: selected_file.splits)
next
  case (saves e categories)
  then show ?case using save_ok [of e c categories] by (metis prod.collapse)
next
  case (reverts e)
  then show ?case by (auto simp: revertFileDraft_def split: selected_file.splits elim!: attached_same)
qed (auto simp: changeTab_def write_content_def write_path_def show_markdown_def skill_save_done_def elim!: attached_same)

text \<open>
  C33. Attached files keep safe paths of their own: whatever is done in the editor of a skill whose
  files have safe relative paths, all different, the files of the editor and those a save sends
  have too: none absolute, on a drive, with an empty, \<open>.\<close> or \<open>..\<close> part or a reserved name, and no two
  the same.
\<close>

theorem attached_paths_stay_safe:
  assumes "editor_reached c (open_editor c categories item t) e"
    and "safe_files (case item of None \<Rightarrow> [] | Some i \<Rightarrow> sk_files (ci_data i))"
  shows "safe_files (se_files e)
     \<and> (\<forall>e' q. skill_save c categories e = (e', Some q) \<longrightarrow> safe_files (sk_files (sq_data q)))"
proof -
  have "attached_ok e"
    using assms(1)
  proof (induction "open_editor c categories item t" e rule: editor_reached.induct)
    case start
    then show ?case using assms(2)
      by (simp add: open_editor_def Let_def attached_ok_def selected_ok_def)
  next
    case (step e e')
    then show ?case using step_ok by blast
  qed
  then show ?thesis using save_ok attached_ok_def by blast
qed

theorem attached_paths_stay_safe_witness:
  "map fl_path (se_files (addFile (open_editor quoting_codec [] None EdFiles))) = [''references/new-file-1.md'']
   \<and> safe_files (se_files (addFile (open_editor quoting_codec [] None EdFiles)))"
proof -
  have "editor_reached quoting_codec (open_editor quoting_codec [] None EdFiles)
      (addFile (open_editor quoting_codec [] None EdFiles))"
    by (rule editor_reached.step [OF editor_reached.start editor_step.adds])
  from attached_paths_stay_safe [OF this]
  have "safe_files (se_files (addFile (open_editor quoting_codec [] None EdFiles)))"
    by (simp add: safe_files_def)
  moreover have "new_file_path 1 = ''references/new-file-1.md''" by code_simp
  ultimately show ?thesis by (simp add: addFile_def open_editor_def Let_def)
qed

subsection \<open>Tools\<close>

datatype tool_exposure = ToSkill | ToContextual | ToAutomatic | ToInternal

record skill_tool =
  tl_name :: string
  tl_enabled :: bool
  tl_bindable :: bool
  tl_exposure :: tool_exposure

text \<open>The page offers the tools that are on and may be bound; the others of a skill are hidden and kept.\<close>

definition offered_tools :: "'a skill_tool_scheme list \<Rightarrow> 'a skill_tool_scheme list" where
  "offered_tools specs = filter (\<lambda>t. tl_enabled t \<and> tl_bindable t) specs"

definition hiddenBoundTools :: "'a skill_tool_scheme list \<Rightarrow> string list \<Rightarrow> string list" where
  "hiddenBoundTools tools selected = filter (\<lambda>n. n \<notin> set (map tl_name tools)) selected"

definition pick_tools :: "'a skill_tool_scheme list \<Rightarrow> string list \<Rightarrow> skill_form \<Rightarrow> skill_form" where
  "pick_tools tools next f = f\<lparr> sf_tools := uniq (hiddenBoundTools tools (sf_tools f) @ next) \<rparr>"

text \<open>
  The Server's check of a new version's tools: none unknown, and none off or not to be bound,
  but for the internal ones the skill has already.
\<close>

definition unknown_tools :: "'a skill_tool_scheme list \<Rightarrow> string list \<Rightarrow> string list" where
  "unknown_tools specs ts = filter (\<lambda>n. find_key tl_name n specs = None) ts"

definition unavailable_tools :: "'a skill_tool_scheme list \<Rightarrow> string list \<Rightarrow> string list \<Rightarrow> string list" where
  "unavailable_tools specs current ts =
     filter (\<lambda>n. case find_key tl_name n specs of
         None \<Rightarrow> False
       | Some t \<Rightarrow> \<not> tl_enabled t \<or> (\<not> tl_bindable t \<and> \<not> (n \<in> set current \<and> tl_exposure t = ToInternal))) ts"

definition tools_accepted :: "'a skill_tool_scheme list \<Rightarrow> string list \<Rightarrow> string list \<Rightarrow> bool" where
  "tools_accepted specs current ts \<longleftrightarrow> unknown_tools specs ts = [] \<and> unavailable_tools specs current ts = []"

lemma hidden_stays:
  assumes "distinct (map tl_name specs)" "find_key tl_name n specs = Some t" "\<not> tl_enabled t \<or> \<not> tl_bindable t"
    and "n \<in> set (sf_tools f)"
  shows "n \<in> set (sf_tools (fold (pick_tools (offered_tools specs)) picks f))"
  using assms(4)
proof (induction picks arbitrary: f)
  case (Cons p picks)
  have "n \<notin> set (map tl_name (offered_tools specs))"
  proof
    assume "n \<in> set (map tl_name (offered_tools specs))"
    then obtain u where "u \<in> set specs" "tl_name u = n" "tl_enabled u" "tl_bindable u" by (auto simp: offered_tools_def)
    then have "u = t" using find_key_unique [OF assms(1), of u] assms(2) by simp
    then show False using \<open>tl_enabled u\<close> \<open>tl_bindable u\<close> assms(3) by simp
  qed
  then have "n \<in> set (sf_tools (pick_tools (offered_tools specs) p f))"
    using Cons.prems by (simp add: pick_tools_def hiddenBoundTools_def)
  then show ?case using Cons.IH by simp
qed simp

text \<open>
  C35. A skill with a tool that was switched off, or that may not be bound any more and is not
  internal, can never be saved again: the editor hides such a tool and puts it back into every
  choice of tools, and the Server refuses every version that has it.
\<close>

theorem hidden_tool_blocks_every_save:
  assumes "distinct (map tl_name specs)" "find_key tl_name n specs = Some t"
    and "\<not> tl_enabled t \<or> (\<not> tl_bindable t \<and> tl_exposure t \<noteq> ToInternal)" "n \<in> set (sf_tools f)"
  shows "\<not> tools_accepted specs current (sf_tools (fold (pick_tools (offered_tools specs)) picks f))"
proof -
  have "n \<in> set (sf_tools (fold (pick_tools (offered_tools specs)) picks f))"
    by (rule hidden_stays [OF assms(1,2) _ assms(4)]) (use assms(3) in blast)
  then have "n \<in> set (unavailable_tools specs current (sf_tools (fold (pick_tools (offered_tools specs)) picks f)))"
    using assms(2,3) by (auto simp: unavailable_tools_def)
  then show ?thesis by (auto simp: tools_accepted_def)
qed

theorem hidden_tool_blocks_every_save_witness:
  "\<not> tools_accepted [\<lparr> tl_name = ''shell'', tl_enabled = False, tl_bindable = True, tl_exposure = ToSkill \<rparr>] [''shell'']
     (sf_tools (pick_tools ([] :: skill_tool list) [] (demo_skill\<lparr> sf_tools := [''shell''] \<rparr>)))"
proof -
  let ?t = "\<lparr> tl_name = ''shell'', tl_enabled = False, tl_bindable = True, tl_exposure = ToSkill \<rparr>"
  have "\<not> tools_accepted [?t] [''shell''] (sf_tools (fold (pick_tools (offered_tools [?t])) [[]] (demo_skill\<lparr> sf_tools := [''shell''] \<rparr>)))"
    by (rule hidden_tool_blocks_every_save [where n = "''shell''" and t = ?t]) (simp_all add: find_key_def)
  then show ?thesis by (simp add: offered_tools_def)
qed

end
