(* ===== verification/SkillReleases.thy ===== *)
theory SkillReleases
  imports ConsoleWorkspace
begin

text \<open>
  The releases of skills: the console's page of them (\<open>SkillReleaseConsole\<close> in
  \<open>src/console/src/SkillsPage.tsx\<close>) and the Server's life cycle behind it
  (\<open>src/server/routers/catalog.py\<close>, \<open>src/server/db.py\<close>): draft, test, approval by a second person,
  staged or full publication, pause, withdrawal and rollback, and the release each account is
  given.
\<close>

subsection \<open>Releases\<close>

datatype release_state =
  RsDraft | RsTesting | RsApproved | RsRollingOut | RsPublished | RsWithdrawn | RsSuperseded

datatype test_status = TsPending | TsPassed | TsFailed

record skill_release =
  rl_id :: string
  rl_slug :: string
  rl_text :: string
  rl_version :: nat
  rl_state :: release_state
  rl_test :: test_status
  rl_author :: string
  rl_reviewer :: string
  rl_channel :: string
  rl_percent :: int
  rl_effective_at :: int

text \<open>The forms of the page: the outcome of a client's test run, and the extent of a publication.\<close>

record test_form =
  tf_passed :: bool
  tf_run_id :: string
  tf_app_version :: string
  tf_trace :: string
  tf_error :: string

record publish_form =
  pf_percent :: int
  pf_channel :: string

datatype release_action =
  AcTest test_form | AcApprove | AcPublish publish_form | AcPause | AcWithdraw | AcRollback

subsection \<open>The console's page\<close>

text \<open>What the forms let through.\<close>

definition test_form_valid :: "test_form \<Rightarrow> bool" where
  "test_form_valid f \<longleftrightarrow> trim (tf_run_id f) \<noteq> [] \<and> tf_app_version f \<noteq> []"

definition publish_form_valid :: "publish_form \<Rightarrow> bool" where
  "publish_form_valid f \<longleftrightarrow> 1 \<le> pf_percent f \<and> pf_percent f \<le> 100 \<and> pf_channel f \<in> {''stable'', ''beta''}"

definition initial_test_form :: test_form where
  "initial_test_form = \<lparr> tf_passed = True, tf_run_id = [], tf_app_version = ''1.0.0'',
                         tf_trace = [], tf_error = [] \<rparr>"

definition initial_publish_form :: publish_form where
  "initial_publish_form = \<lparr> pf_percent = 100, pf_channel = ''stable'' \<rparr>"

text \<open>The buttons of a row.\<close>

definition offered :: "skill_release \<Rightarrow> release_action \<Rightarrow> bool" where
  "offered r a \<longleftrightarrow>
     (case a of
        AcTest f \<Rightarrow> (rl_state r = RsDraft \<or> rl_state r = RsTesting) \<and> test_form_valid f
      | AcApprove \<Rightarrow> rl_state r = RsTesting \<and> rl_test r = TsPassed
      | AcPublish f \<Rightarrow> rl_state r = RsApproved \<and> publish_form_valid f
      | AcPause \<Rightarrow> rl_state r = RsRollingOut
      | AcWithdraw \<Rightarrow> rl_state r = RsRollingOut \<or> rl_state r = RsPublished
      | AcRollback \<Rightarrow> rl_state r = RsWithdrawn \<or> rl_state r = RsSuperseded)"

record release_page =
  rp_busy :: string
  rp_detail :: "skill_release option"
  rp_test :: "(skill_release \<times> test_form) option"
  rp_publish :: "(skill_release \<times> publish_form) option"

definition initial_release_page :: release_page where
  "initial_release_page = \<lparr> rp_busy = [], rp_detail = None, rp_test = None, rp_publish = None \<rparr>"

definition openTest :: "skill_release \<Rightarrow> release_page \<Rightarrow> release_page" where
  "openTest r p = p\<lparr> rp_test := Some (r, initial_test_form) \<rparr>"

definition openPublish :: "skill_release \<Rightarrow> release_page \<Rightarrow> release_page" where
  "openPublish r p = p\<lparr> rp_publish := Some (r, initial_publish_form) \<rparr>"

definition mutate_begin :: "string \<Rightarrow> release_page \<Rightarrow> release_page" where
  "mutate_begin i p = p\<lparr> rp_busy := i \<rparr>"

text \<open>After the answer, and the read of the page's data when it was accepted; the flag says which.\<close>

definition mutate_done :: "unit res \<Rightarrow> release_page \<Rightarrow> release_page \<times> bool" where
  "mutate_done r p = (p\<lparr> rp_busy := [] \<rparr>, \<not> isl r)"

text \<open>The two forms close after their request, whether it was accepted or not.\<close>

definition test_done :: "unit res \<Rightarrow> release_page \<Rightarrow> release_page \<times> bool" where
  "test_done r p = (case mutate_done r p of (p1, again) \<Rightarrow> (p1\<lparr> rp_test := None \<rparr>, again))"

definition publish_done :: "unit res \<Rightarrow> release_page \<Rightarrow> release_page \<times> bool" where
  "publish_done r p = (case mutate_done r p of (p1, again) \<Rightarrow> (p1\<lparr> rp_publish := None \<rparr>, again))"

subsection \<open>The Server\<close>

type_synonym releases = "skill_release list"

definition set_release :: "string \<Rightarrow> (skill_release \<Rightarrow> skill_release) \<Rightarrow> releases \<Rightarrow> releases" where
  "set_release i f rs = upd_key rl_id i f rs"

definition active :: "skill_release \<Rightarrow> bool" where
  "active r \<longleftrightarrow> rl_state r = RsRollingOut \<or> rl_state r = RsPublished"

definition supersede_others :: "string \<Rightarrow> string \<Rightarrow> releases \<Rightarrow> releases" where
  "supersede_others slug i rs =
     upd_where (\<lambda>r. rl_slug r = slug \<and> rl_id r \<noteq> i \<and> active r) (\<lambda>r. r\<lparr> rl_state := RsSuperseded \<rparr>) rs"

text \<open>\<open>_publish_skill_release\<close>, with no later time of effect, which the console never sends.\<close>

definition publish_skill_release :: "skill_release \<Rightarrow> int \<Rightarrow> publish_form \<Rightarrow> releases \<Rightarrow> releases" where
  "publish_skill_release r now f rs =
     set_release (rl_id r)
       (\<lambda>x. x\<lparr> rl_state := (if pf_percent f = 100 then RsPublished else RsRollingOut),
               rl_channel := pf_channel f, rl_percent := pf_percent f, rl_effective_at := now \<rparr>)
       (supersede_others (rl_slug r) (rl_id r) rs)"

definition next_version :: "string \<Rightarrow> releases \<Rightarrow> nat" where
  "next_version slug rs = Suc (fold max (map rl_version (filter (\<lambda>r. rl_slug r = slug) rs)) 0)"

definition new_release :: "string \<Rightarrow> string \<Rightarrow> string \<Rightarrow> string \<Rightarrow> releases \<Rightarrow> skill_release" where
  "new_release i slug body author rs =
     \<lparr> rl_id = i, rl_slug = slug, rl_text = body, rl_version = next_version slug rs, rl_state = RsDraft,
       rl_test = TsPending, rl_author = author, rl_reviewer = [], rl_channel = ''stable'',
       rl_percent = 100, rl_effective_at = 0 \<rparr>"

definition create_release :: "string \<Rightarrow> string \<Rightarrow> string \<Rightarrow> string \<Rightarrow> releases \<Rightarrow> releases" where
  "create_release i slug body author rs = rs @ [new_release i slug body author rs]"

text \<open>
  The handlers, for an administrator: the new records, or the status of the refusal. \<open>compatible\<close>
  is the Server's own judgement of the client that ran the test, \<open>new_id\<close> the id a rollback takes.
\<close>

definition too_long :: "test_form \<Rightarrow> bool" where
  "too_long f \<longleftrightarrow> tf_run_id f = [] \<or> 200 < code_points (tf_run_id f)
     \<or> tf_app_version f = [] \<or> 40 < code_points (tf_app_version f)
     \<or> 200 < code_points (tf_trace f) \<or> 1000 < code_points (tf_error f)"

fun serve_action ::
  "string \<Rightarrow> (skill_release \<Rightarrow> bool) \<Rightarrow> string \<Rightarrow> int \<Rightarrow> skill_release \<Rightarrow> release_action \<Rightarrow> releases
    \<Rightarrow> (int, releases) sum" where
  "serve_action account compatible new_id now r (AcTest f) rs =
     (if too_long f then Inl 422
      else if rl_state r \<noteq> RsDraft \<and> rl_state r \<noteq> RsTesting then Inl 409
      else Inr (set_release (rl_id r)
        (\<lambda>x. x\<lparr> rl_state := RsTesting,
                rl_test := (if tf_passed f \<and> compatible r then TsPassed else TsFailed) \<rparr>) rs))"
| "serve_action account compatible new_id now r AcApprove rs =
     (if rl_state r \<noteq> RsTesting \<or> rl_test r \<noteq> TsPassed then Inl 409
      else if rl_author r = account then Inl 409
      else Inr (set_release (rl_id r) (\<lambda>x. x\<lparr> rl_state := RsApproved, rl_reviewer := account \<rparr>) rs))"
| "serve_action account compatible new_id now r (AcPublish f) rs =
     (if pf_percent f < 1 \<or> 100 < pf_percent f then Inl 422
      else if rl_state r \<noteq> RsApproved \<or> rl_reviewer r = [] then Inl 409
      else Inr (publish_skill_release r now f rs))"
| "serve_action account compatible new_id now r AcPause rs =
     (if rl_state r \<noteq> RsRollingOut then Inl 409
      else Inr (set_release (rl_id r) (\<lambda>x. x\<lparr> rl_state := RsApproved \<rparr>) rs))"
| "serve_action account compatible new_id now r AcWithdraw rs =
     (if rl_state r = RsWithdrawn \<or> rl_state r = RsSuperseded then Inl 409
      else Inr (set_release (rl_id r) (\<lambda>x. x\<lparr> rl_state := RsWithdrawn \<rparr>) rs))"
| "serve_action account compatible new_id now r AcRollback rs =
     (let n = (new_release new_id (rl_slug r) (rl_text r) account rs)
                \<lparr> rl_state := RsApproved, rl_reviewer := account, rl_test := TsPassed \<rparr>
      in Inr (publish_skill_release n now initial_publish_form (rs @ [n])))"

text \<open>
  \<open>_project_skill_releases\<close>: the release an account in a bucket is given, of those of one slug,
  the latest version first, while the skill's row in the catalogue is on: \<open>selected\<close>.
\<close>

definition downlink :: "int \<Rightarrow> int \<Rightarrow> releases \<Rightarrow> skill_release option" where
  "downlink bucket now rs =
     (let current = List.find (\<lambda>r. active r \<and> rl_effective_at r \<le> now) rs;
          older = (\<lambda>v. List.find (\<lambda>r. rl_state r = RsSuperseded \<and> rl_version r < v) rs)
      in case current of
           None \<Rightarrow> List.find (\<lambda>r. rl_state r = RsSuperseded) rs
         | Some a \<Rightarrow> if rl_state a = RsRollingOut \<and> rl_percent a \<le> bucket then older (rl_version a) else Some a)"

definition slug_releases :: "string \<Rightarrow> releases \<Rightarrow> releases" where
  "slug_releases slug rs = rev (sort_key rl_version (filter (\<lambda>r. rl_slug r = slug) rs))"

subsection \<open>What every action keeps\<close>

lemma set_upd_where_iff [simp]: "set (upd_where p f xs) = (\<lambda>x. if p x then f x else x) ` set xs"
  by (simp add: upd_where_def)

lemma ids_set_release [simp]:
  "(\<And>x. rl_id (f x) = rl_id x) \<Longrightarrow> map rl_id (set_release i f rs) = map rl_id rs"
  by (simp add: set_release_def upd_where_def)

lemma ids_supersede [simp]: "map rl_id (supersede_others slug i rs) = map rl_id rs"
  by (simp add: supersede_others_def upd_where_def)

text \<open>The states of the Server: releases are created, and any action on one of them is served.\<close>

inductive reachable :: "(skill_release \<Rightarrow> release_action \<Rightarrow> bool) \<Rightarrow> releases \<Rightarrow> bool"
  for asks :: "skill_release \<Rightarrow> release_action \<Rightarrow> bool" where
  start: "reachable asks []"
| create: "\<lbrakk>reachable asks rs; i \<notin> rl_id ` set rs; author \<noteq> []\<rbrakk>
     \<Longrightarrow> reachable asks (create_release i slug body author rs)"
| act: "\<lbrakk>reachable asks rs; r \<in> set rs; asks r a; account \<noteq> []; new_id \<notin> rl_id ` set rs;
      serve_action account compatible new_id now r a rs = Inr rs'\<rbrakk> \<Longrightarrow> reachable asks rs'"

text \<open>A release whose text a client tested and somebody else than its author approved.\<close>

definition vetted :: "skill_release \<Rightarrow> bool" where
  "vetted r \<longleftrightarrow> rl_test r = TsPassed \<and> rl_reviewer r \<noteq> [] \<and> rl_reviewer r \<noteq> rl_author r
     \<and> rl_state r \<noteq> RsDraft \<and> rl_state r \<noteq> RsTesting"

definition reviewed :: "skill_release \<Rightarrow> bool" where
  "reviewed r \<longleftrightarrow> (rl_state r = RsApproved \<or> active r \<longrightarrow> rl_reviewer r \<noteq> [] \<and> rl_test r = TsPassed)"

definition one_active :: "releases \<Rightarrow> bool" where
  "one_active rs \<longleftrightarrow>
     (\<forall>r\<in>set rs. \<forall>s\<in>set rs. active r \<and> active s \<and> rl_slug r = rl_slug s \<longrightarrow> rl_id r = rl_id s)"

definition well_kept :: "releases \<Rightarrow> bool" where
  "well_kept rs \<longleftrightarrow> distinct (map rl_id rs) \<and> one_active rs \<and> (\<forall>r\<in>set rs. reviewed r)"

lemma same_release: "\<lbrakk>distinct (map rl_id rs); r \<in> set rs; s \<in> set rs; rl_id s = rl_id r\<rbrakk> \<Longrightarrow> s = r"
  by (meson distinct_map inj_onD)

lemma one_activeI:
  "(\<And>r s. \<lbrakk>r \<in> set rs; s \<in> set rs; active r; active s; rl_slug r = rl_slug s\<rbrakk> \<Longrightarrow> rl_id r = rl_id s)
   \<Longrightarrow> one_active rs"
  unfolding one_active_def by blast

lemma one_activeD:
  "\<lbrakk>one_active rs; r \<in> set rs; s \<in> set rs; active r; active s; rl_slug r = rl_slug s\<rbrakk> \<Longrightarrow> rl_id r = rl_id s"
  unfolding one_active_def by blast

lemma set_set_release:
  assumes "distinct (map rl_id rs)" and "r \<in> set rs"
  shows "x \<in> set (set_release (rl_id r) f rs) \<longleftrightarrow> x = f r \<or> (x \<in> set rs \<and> x \<noteq> r)"
proof -
  have eq: "rl_id y = rl_id r \<longleftrightarrow> y = r" if "y \<in> set rs" for y
    using same_release[OF assms that] by blast
  have "set (set_release (rl_id r) f rs) = (\<lambda>y. if y = r then f r else y) ` set rs"
    unfolding set_release_def set_upd_where_iff by (rule image_cong) (simp_all add: eq)
  then show ?thesis using assms(2) by (auto simp: image_iff)
qed

lemma well_kept_set:
  assumes kept: "well_kept rs" and r: "r \<in> set rs"
    and same: "\<And>x. rl_id (f x) = rl_id x \<and> rl_slug (f x) = rl_slug x"
    and rev: "reviewed (f r)"
    and act: "\<And>s. \<lbrakk>active (f r); s \<in> set rs; active s; rl_slug s = rl_slug r\<rbrakk> \<Longrightarrow> rl_id s = rl_id r"
  shows "well_kept (set_release (rl_id r) f rs)"
proof -
  have d: "distinct (map rl_id rs)" and one: "one_active rs" and all: "\<forall>x\<in>set rs. reviewed x"
    using kept by (simp_all add: well_kept_def)
  note mem = set_set_release[OF d r, of _ f]
  have "one_active (set_release (rl_id r) f rs)"
  proof (rule one_activeI)
    fix x y
    assume "x \<in> set (set_release (rl_id r) f rs)" "y \<in> set (set_release (rl_id r) f rs)"
      and xy: "active x" "active y" "rl_slug x = rl_slug y"
    then consider "x = f r" "y = f r" | "x = f r" "y \<in> set rs" | "x \<in> set rs" "y = f r"
      | "x \<in> set rs" "y \<in> set rs"
      by (auto simp only: mem)
    then show "rl_id x = rl_id y"
    proof cases
      case 2
      then show ?thesis using act[of y] xy same[of r] by simp
    next
      case 3
      then show ?thesis using act[of x] xy same[of r] by simp
    next
      case 4
      then show ?thesis using one_activeD[OF one _ _ xy] by blast
    qed simp
  qed
  moreover have "\<forall>x\<in>set (set_release (rl_id r) f rs). reviewed x"
    using all rev by (auto simp only: mem)
  ultimately show ?thesis using d same by (simp add: well_kept_def)
qed

lemma well_kept_add:
  assumes "well_kept rs" and "rl_id n \<notin> rl_id ` set rs" and "reviewed n" and "\<not> active n"
  shows "well_kept (rs @ [n])"
proof -
  have "one_active (rs @ [n])"
    using assms one_activeD[of rs] by (intro one_activeI) (auto simp only: well_kept_def set_append list.set Un_iff insert_iff empty_iff)
  then show ?thesis using assms by (simp add: well_kept_def)
qed

lemma superseded_from:
  "y \<in> set (supersede_others slug i rs) \<Longrightarrow>
   \<exists>x\<in>set rs. rl_slug y = rl_slug x \<and> rl_text y = rl_text x \<and> rl_id y = rl_id x
     \<and> (active y \<longrightarrow> y = x) \<and> (y = x \<or> active x \<and> rl_state y = RsSuperseded)"
  unfolding supersede_others_def set_upd_where_iff active_def by fastforce

lemma superseded_kept:
  assumes "well_kept rs"
  shows "well_kept (supersede_others slug i rs)"
proof -
  have "one_active (supersede_others slug i rs)"
  proof (rule one_activeI)
    fix x y
    assume "x \<in> set (supersede_others slug i rs)" "y \<in> set (supersede_others slug i rs)"
      and "active x" "active y" "rl_slug x = rl_slug y"
    moreover from this have "x \<in> set rs" "y \<in> set rs" by (blast dest: superseded_from)+
    ultimately show "rl_id x = rl_id y" using assms one_activeD unfolding well_kept_def by blast
  qed
  moreover have "reviewed y" if "y \<in> set (supersede_others slug i rs)" for y
    using superseded_from[OF that] assms by (auto simp: well_kept_def reviewed_def active_def)
  ultimately show ?thesis using assms by (simp add: well_kept_def)
qed

lemma superseded_others:
  assumes "s \<in> set (supersede_others slug i rs)" and "active s" and "rl_slug s = slug"
  shows "rl_id s = i"
proof -
  obtain x where x: "s = (if rl_slug x = slug \<and> rl_id x \<noteq> i \<and> active x then x\<lparr> rl_state := RsSuperseded \<rparr> else x)"
    using assms(1) unfolding supersede_others_def set_upd_where_iff by blast
  show ?thesis
  proof (cases "rl_slug x = slug \<and> rl_id x \<noteq> i \<and> active x")
    case True
    have "s = x\<lparr> rl_state := RsSuperseded \<rparr>" using x unfolding if_P[OF True] .
    then show ?thesis using assms(2) by (simp add: active_def)
  next
    case False
    have "s = x" using x unfolding if_not_P[OF False] .
    then show ?thesis using False assms(2,3) by blast
  qed
qed

lemma superseded_mem: "\<lbrakk>r \<in> set rs; \<not> active r \<or> rl_id r = i\<rbrakk> \<Longrightarrow> r \<in> set (supersede_others slug i rs)"
  unfolding supersede_others_def set_upd_where_iff by (rule image_eqI[where x = r]) auto

lemma publish_kept:
  assumes "well_kept rs" and "r \<in> set rs" and "rl_reviewer r \<noteq> []" and "rl_test r = TsPassed"
  shows "well_kept (publish_skill_release r now f rs)"
  unfolding publish_skill_release_def
  using assms
  by (intro well_kept_set superseded_kept superseded_mem)
    (auto simp: reviewed_def dest: superseded_others)

lemma serve_kept:
  assumes "well_kept rs" and "r \<in> set rs" and "account \<noteq> []" and "new_id \<notin> rl_id ` set rs"
    and "serve_action account compatible new_id now r a rs = Inr rs'"
  shows "well_kept rs'"
proof -
  have rev: "reviewed r" using assms(1,2) by (simp add: well_kept_def)
  have upd: "well_kept (set_release (rl_id r) f rs)"
    if "\<And>x. rl_id (f x) = rl_id x \<and> rl_slug (f x) = rl_slug x" "reviewed (f r)" "\<not> active (f r)" for f
    using well_kept_set[OF assms(1,2)] that by blast
  show ?thesis
  proof (cases a)
    case (AcTest f)
    then show ?thesis using assms(5) by (auto simp: reviewed_def active_def intro!: upd split: if_splits)
  next
    case AcApprove
    then show ?thesis using assms(3,5) by (auto simp: reviewed_def active_def intro!: upd split: if_splits)
  next
    case (AcPublish f)
    then have "rl_reviewer r \<noteq> [] \<and> rl_test r = TsPassed"
      using assms(5) rev by (auto simp: reviewed_def split: if_splits)
    then show ?thesis using assms(1,2,5) AcPublish by (auto intro!: publish_kept split: if_splits)
  next
    case AcPause
    then show ?thesis using assms(5) rev by (auto simp: reviewed_def active_def intro!: upd split: if_splits)
  next
    case AcWithdraw
    then show ?thesis using assms(5) by (auto simp: reviewed_def active_def intro!: upd split: if_splits)
  next
    case AcRollback
    then show ?thesis
      using assms by (auto simp: Let_def new_release_def reviewed_def active_def intro!: publish_kept well_kept_add)
  qed
qed

lemma reachable_kept: "reachable asks rs \<Longrightarrow> well_kept rs"
proof (induction rule: reachable.induct)
  case start
  show ?case by (simp add: well_kept_def one_active_def)
next
  case (create rs i author slug body)
  then show ?case
    by (auto simp: create_release_def new_release_def reviewed_def active_def intro!: well_kept_add)
next
  case (act rs r a account new_id compatible now rs')
  then show ?case using serve_kept by blast
qed

subsection \<open>Offered actions\<close>

text \<open>
  C30. Whatever is asked of the Server, at most one release of a skill is being given out, no two
  releases share an id, and every release that is approved, rolling out or published has a
  reviewer and a passed test.
\<close>

theorem one_release_is_given_out:
  assumes "reachable asks rs"
  shows "distinct (map rl_id rs) \<and> one_active rs \<and> (\<forall>r\<in>set rs. reviewed r)"
  using reachable_kept[OF assms] by (simp add: well_kept_def)

subsection \<open>The console's own releases\<close>

text \<open>The texts a client tested and a second person approved, in any version of the skill.\<close>

definition vetted_text :: "releases \<Rightarrow> string \<Rightarrow> string \<Rightarrow> bool" where
  "vetted_text rs slug body \<longleftrightarrow> (\<exists>s\<in>set rs. vetted s \<and> rl_slug s = slug \<and> rl_text s = body)"

definition unreviewed :: "skill_release \<Rightarrow> bool" where
  "unreviewed r \<longleftrightarrow> rl_state r = RsDraft \<or> rl_state r = RsTesting"

definition texts_vetted :: "releases \<Rightarrow> bool" where
  "texts_vetted rs \<longleftrightarrow> (\<forall>r\<in>set rs. unreviewed r \<or> vetted_text rs (rl_slug r) (rl_text r))"

lemma vetted_superseded:
  assumes "vetted_text rs sl body"
  shows "vetted_text (supersede_others slug i rs) sl body"
proof -
  let ?u = "\<lambda>x. if rl_slug x = slug \<and> rl_id x \<noteq> i \<and> active x then x\<lparr> rl_state := RsSuperseded \<rparr> else x"
  obtain s where s: "s \<in> set rs" "vetted s" "rl_slug s = sl" "rl_text s = body"
    using assms unfolding vetted_text_def by blast
  have "?u s \<in> set (supersede_others slug i rs)"
    unfolding supersede_others_def set_upd_where_iff using s(1) by (rule imageI)
  moreover have "vetted (?u s) \<and> rl_slug (?u s) = sl \<and> rl_text (?u s) = body"
    using s(2-) by (simp add: vetted_def)
  ultimately show ?thesis unfolding vetted_text_def by blast
qed

lemma vetted_set:
  assumes "vetted_text rs sl body" and "distinct (map rl_id rs)" and "r \<in> set rs"
    and "rl_slug (f r) = rl_slug r" and "rl_text (f r) = rl_text r" and "vetted r \<Longrightarrow> vetted (f r)"
  shows "vetted_text (set_release (rl_id r) f rs) sl body"
  using assms(1,4-6) unfolding vetted_text_def set_set_release[OF assms(2,3)] Bex_def by metis

lemma texts_superseded:
  assumes "texts_vetted rs"
  shows "texts_vetted (supersede_others slug i rs)"
  unfolding texts_vetted_def
proof
  fix y assume "y \<in> set (supersede_others slug i rs)"
  then obtain x where x: "x \<in> set rs" "rl_slug y = rl_slug x" "rl_text y = rl_text x"
      "y = x \<or> active x \<and> rl_state y = RsSuperseded"
    using superseded_from by blast
  then have "unreviewed y \<or> vetted_text rs (rl_slug x) (rl_text x)"
    using assms unfolding texts_vetted_def active_def unreviewed_def by fastforce
  then show "unreviewed y \<or> vetted_text (supersede_others slug i rs) (rl_slug y) (rl_text y)"
    using x(2,3) vetted_superseded by metis
qed

lemma texts_set:
  assumes tv: "texts_vetted rs" and d: "distinct (map rl_id rs)" and r: "r \<in> set rs"
    and same: "rl_slug (f r) = rl_slug r" "rl_text (f r) = rl_text r"
    and v: "vetted r \<Longrightarrow> vetted (f r)" and new: "unreviewed r \<Longrightarrow> unreviewed (f r) \<or> vetted (f r)"
  shows "texts_vetted (set_release (rl_id r) f rs)"
  unfolding texts_vetted_def
proof
  note mem = set_set_release[OF d r, of _ f] and stays = vetted_set[of rs _ _ r f, OF _ d r same v]
  fix y assume "y \<in> set (set_release (rl_id r) f rs)"
  then consider "y = f r" "unreviewed r" | "y = f r" "\<not> unreviewed r" | "y \<in> set rs" unfolding mem by blast
  then show "unreviewed y \<or> vetted_text (set_release (rl_id r) f rs) (rl_slug y) (rl_text y)"
  proof cases
    case 1
    then show ?thesis using new mem unfolding vetted_text_def by blast
  next
    case 2
    then show ?thesis using tv r same stays unfolding texts_vetted_def by metis
  next
    case 3
    then show ?thesis using tv stays unfolding texts_vetted_def by blast
  qed
qed

lemma texts_add:
  "\<lbrakk>texts_vetted rs; unreviewed n \<or> vetted_text rs (rl_slug n) (rl_text n)\<rbrakk> \<Longrightarrow> texts_vetted (rs @ [n])"
  unfolding texts_vetted_def vetted_text_def set_append by auto

lemma publish_texts:
  assumes "texts_vetted rs" and "distinct (map rl_id rs)" and "r \<in> set rs" and "\<not> active r" and "\<not> unreviewed r"
  shows "texts_vetted (publish_skill_release r now f rs)"
  unfolding publish_skill_release_def
  using assms
  by (intro texts_set texts_superseded superseded_mem) (simp_all add: vetted_def unreviewed_def)

lemma offered_keeps_texts:
  assumes "texts_vetted rs" and "distinct (map rl_id rs)" and "r \<in> set rs" and "account \<noteq> []"
    and "new_id \<notin> rl_id ` set rs" and "offered r a"
    and "serve_action account compatible new_id now r a rs = Inr rs'"
  shows "texts_vetted rs'"
proof -
  note upd = texts_set[OF assms(1-3)]
  show ?thesis
  proof (cases a)
    case (AcTest f)
    then show ?thesis using assms(7) by (auto simp: unreviewed_def vetted_def intro!: upd split: if_splits)
  next
    case AcApprove
    then show ?thesis using assms(4,7) by (auto simp: unreviewed_def vetted_def intro!: upd split: if_splits)
  next
    case (AcPublish f)
    then show ?thesis using assms(1-3,7)
      by (auto simp: unreviewed_def active_def intro!: publish_texts split: if_splits)
  next
    case AcPause
    then show ?thesis using assms(7) by (auto simp: unreviewed_def vetted_def intro!: upd split: if_splits)
  next
    case AcWithdraw
    then show ?thesis using assms(6,7) by (auto simp: offered_def unreviewed_def vetted_def intro!: upd split: if_splits)
  next
    case AcRollback
    then have "vetted_text rs (rl_slug r) (rl_text r)"
      using assms(1,3,6) by (auto simp: offered_def texts_vetted_def unreviewed_def)
    then show ?thesis using AcRollback assms(1,2,5,7)
      by (auto simp: Let_def new_release_def active_def unreviewed_def intro!: publish_texts texts_add)
  qed
qed

lemma offered_texts: "reachable offered rs \<Longrightarrow> texts_vetted rs"
proof (induction rule: reachable.induct)
  case start
  show ?case by (simp add: texts_vetted_def)
next
  case (create rs i author slug body)
  then show ?case
    by (auto simp: create_release_def new_release_def unreviewed_def intro!: texts_add)
next
  case (act rs r a account new_id compatible now rs')
  then show ?case using offered_keeps_texts reachable_kept unfolding well_kept_def by blast
qed

lemma found: "List.find P xs = Some r \<Longrightarrow> r \<in> set xs \<and> P r"
  by (auto simp: find_Some_iff)

lemma downlink_released:
  "downlink bucket now xs = Some r \<Longrightarrow> r \<in> set xs \<and> (active r \<or> rl_state r = RsSuperseded)"
  by (auto simp: downlink_def Let_def dest!: found split: option.splits if_splits)

subsection \<open>A run of the page\<close>

text \<open>
  An action on the release with an id, when the page offers it and the Server accepts it, and a
  version of a skill brought out: ana writes it, ben tests, approves and publishes it.
\<close>

definition serve_offered :: "string \<Rightarrow> string \<Rightarrow> release_action \<Rightarrow> releases \<Rightarrow> releases" where
  "serve_offered i account a rs =
     (case List.find (\<lambda>r. rl_id r = i) rs of
        None \<Rightarrow> rs
      | Some r \<Rightarrow>
          if offered r a \<and> account \<noteq> [] \<and> i @ ''x'' \<notin> rl_id ` set rs
          then (case serve_action account (\<lambda>_. True) (i @ ''x'') 0 r a rs of Inl _ \<Rightarrow> rs | Inr rs' \<Rightarrow> rs')
          else rs)"

definition passed_run :: test_form where
  "passed_run = initial_test_form\<lparr> tf_run_id := ''run-1'' \<rparr>"

definition brought_out :: "string \<Rightarrow> string \<Rightarrow> string \<Rightarrow> int \<Rightarrow> releases \<Rightarrow> releases" where
  "brought_out i slug body percent rs =
     (if i \<in> rl_id ` set rs then rs else
      serve_offered i ''ben'' (AcPublish (initial_publish_form\<lparr> pf_percent := percent \<rparr>))
       (serve_offered i ''ben'' AcApprove
         (serve_offered i ''ben'' (AcTest passed_run) (create_release i slug body ''ana'' rs))))"

definition staged_once :: "string \<Rightarrow> int \<Rightarrow> releases" where
  "staged_once slug p = brought_out ''b'' slug ''two'' p (brought_out ''a'' slug ''one'' 100 [])"

definition staged_twice :: "string \<Rightarrow> int \<Rightarrow> int \<Rightarrow> releases" where
  "staged_twice slug p q = brought_out ''c'' slug ''three'' q (staged_once slug p)"

lemma serve_offered_reachable: "reachable offered rs \<Longrightarrow> reachable offered (serve_offered i account a rs)"
  by (auto simp: serve_offered_def dest!: found intro: reachable.act split: option.splits sum.splits)

lemma brought_out_reachable: "reachable offered rs \<Longrightarrow> reachable offered (brought_out i slug body percent rs)"
  by (simp add: brought_out_def serve_offered_reachable reachable.create)

lemma staged_twice_reachable: "reachable offered (staged_twice slug p q)"
  by (simp add: staged_twice_def staged_once_def brought_out_reachable reachable.start)

lemma find_last: "i \<notin> rl_id ` set rs \<Longrightarrow> rl_id n = i \<Longrightarrow> List.find (\<lambda>r. rl_id r = i) (rs @ [n]) = Some n"
  by (induction rs) auto

lemma set_last: "\<lbrakk>i \<notin> rl_id ` set rs; rl_id n = i\<rbrakk> \<Longrightarrow> set_release i f (rs @ [n]) = rs @ [f n]"
  unfolding set_release_def by (induction rs) auto

lemma supersede_last: "rl_id n = i \<Longrightarrow> supersede_others slug i (rs @ [n]) = supersede_others slug i rs @ [n]"
  by (simp add: supersede_others_def)

lemma ids_superseded: "rl_id ` set (supersede_others slug i rs) = rl_id ` set rs"
  using ids_supersede[of slug i rs] by (metis set_map)

lemma passed_run_fits: "test_form_valid passed_run" "\<not> too_long passed_run" "tf_passed passed_run"
  by (simp_all add: test_form_valid_def too_long_def code_points_def passed_run_def initial_test_form_def trim_plain)

definition released :: "string \<Rightarrow> string \<Rightarrow> string \<Rightarrow> nat \<Rightarrow> int \<Rightarrow> skill_release" where
  "released i slug body v percent =
     \<lparr> rl_id = i, rl_slug = slug, rl_text = body, rl_version = v,
       rl_state = (if percent = 100 then RsPublished else RsRollingOut), rl_test = TsPassed,
       rl_author = ''ana'', rl_reviewer = ''ben'', rl_channel = ''stable'', rl_percent = percent,
       rl_effective_at = 0 \<rparr>"

lemma brought_out_eq:
  assumes "i \<notin> rl_id ` set rs" and "i @ ''x'' \<notin> rl_id ` set rs" and "1 \<le> percent" and "percent \<le> 100"
  shows "brought_out i slug body percent rs =
    supersede_others slug i rs @ [released i slug body (next_version slug rs) percent]"
  using assms
  by (simp add: brought_out_def create_release_def new_release_def serve_offered_def find_last set_last
      offered_def passed_run_fits publish_form_valid_def initial_publish_form_def publish_skill_release_def
      supersede_last ids_superseded released_def)

text \<open>Three versions, the second and the third in stages.\<close>

lemma staged_once_eq:
  assumes "1 \<le> p" and "p < 100"
  shows "staged_once slug p =
    [(released ''a'' slug ''one'' 1 100)\<lparr> rl_state := RsSuperseded \<rparr>, released ''b'' slug ''two'' 2 p]"
  using assms
  by (simp add: staged_once_def brought_out_eq supersede_others_def next_version_def released_def active_def)

lemma staged_twice_eq:
  assumes "1 \<le> p" and "p < 100" and "1 \<le> q" and "q < 100"
  shows "staged_twice slug p q =
    [(released ''a'' slug ''one'' 1 100)\<lparr> rl_state := RsSuperseded \<rparr>,
     (released ''b'' slug ''two'' 2 p)\<lparr> rl_state := RsSuperseded \<rparr>, released ''c'' slug ''three'' 3 q]"
  using assms
  by (simp add: staged_twice_def staged_once_eq brought_out_eq supersede_others_def next_version_def
      released_def active_def)

lemma slug_releases_three:
  "rl_slug a = slug \<Longrightarrow> rl_slug b = slug \<Longrightarrow> rl_slug c = slug \<Longrightarrow>
   rl_version a = 1 \<Longrightarrow> rl_version b = 2 \<Longrightarrow> rl_version c = 3 \<Longrightarrow> slug_releases slug [a, b, c] = [c, b, a]"
  "rl_slug a = slug \<Longrightarrow> rl_slug b = slug \<Longrightarrow> rl_version a = 1 \<Longrightarrow> rl_version b = 2 \<Longrightarrow>
   slug_releases slug [a, b] = [b, a]"
  by (simp_all add: slug_releases_def)

theorem one_release_is_given_out_witness:
  "one_active (staged_twice ''pdf'' 10 20) \<and> length (staged_twice ''pdf'' 10 20) = 3"
proof
  show "one_active (staged_twice ''pdf'' 10 20)"
    using one_release_is_given_out[OF staged_twice_reachable] by blast
  show "length (staged_twice ''pdf'' 10 20) = 3" by (simp add: staged_twice_eq)
qed

text \<open>
  C28. Releases handled with the buttons of the console keep the promise of its page: the text of
  the release an account is given is one that a client's run passed and that somebody other than
  its author approved, in the version it was written for.
\<close>

theorem offered_actions_keep_review:
  assumes "reachable offered rs" and "downlink bucket now (slug_releases slug rs) = Some r"
  shows "vetted_text rs slug (rl_text r)"
  using downlink_released[OF assms(2)] offered_texts[OF assms(1)]
  by (auto simp: slug_releases_def texts_vetted_def unreviewed_def active_def)

theorem offered_actions_keep_review_witness: "vetted_text (staged_twice ''pdf'' 10 20) ''pdf'' ''three''"
proof -
  have "downlink 5 0 (slug_releases ''pdf'' (staged_twice ''pdf'' 10 20)) =
      Some (released ''c'' ''pdf'' ''three'' 3 20)"
    by (simp add: staged_twice_eq slug_releases_three released_def downlink_def active_def)
  then show ?thesis
    using offered_actions_keep_review[OF staged_twice_reachable] by (fastforce simp: released_def)
qed

text \<open>
  The Server refuses nothing the release page offers but two things: the approval of a
  release by its author, whose button the page shows all the same, and a test report with a text
  longer than the Server takes.
\<close>

theorem offered_release_actions_are_accepted:
  assumes "reachable asks rs" and "r \<in> set rs" and "offered r a"
  shows "isl (serve_action account compatible new_id now r a rs) \<longleftrightarrow>
    (a = AcApprove \<and> rl_author r = account) \<or> (\<exists>f. a = AcTest f \<and> too_long f)"
proof -
  have "reviewed r" using reachable_kept[OF assms(1)] assms(2) by (simp add: well_kept_def)
  then show ?thesis
    using assms(3) by (cases a) (auto simp: offered_def publish_form_valid_def reviewed_def Let_def)
qed

theorem offered_release_actions_are_accepted_witness:
  "isl (serve_action ''ben'' (\<lambda>_. True) ''d'' 0 (released ''c'' ''pdf'' ''three'' 3 20) AcPause
     (staged_twice ''pdf'' 10 20)) = False"
  using offered_release_actions_are_accepted[OF staged_twice_reachable, of "released ''c'' ''pdf'' ''three'' 3 20" "''pdf''" 10 20 AcPause]
  by (simp add: staged_twice_eq offered_def released_def)

text \<open>
  C31. The percentage of a staged release protects the accounts outside it only until the next
  stage begins: when a second version goes out to some of the accounts and then a third, an
  account outside both stages is moved from the first version to the second, which it was never
  meant to get.
\<close>

theorem next_stage_spreads_the_last:
  assumes "1 \<le> p" and "p < 100" and "1 \<le> q" and "q < 100" and "p \<le> bucket" and "q \<le> bucket" and "0 \<le> now"
  shows "map_option rl_text (downlink bucket now (slug_releases slug (staged_once slug p))) = Some ''one''
    \<and> map_option rl_text (downlink bucket now (slug_releases slug (staged_twice slug p q))) = Some ''two''"
  using assms
  by (simp_all add: staged_once_eq staged_twice_eq slug_releases_three released_def downlink_def active_def)

theorem next_stage_spreads_the_last_witness:
  "map_option rl_text (downlink 50 0 (slug_releases ''pdf'' (staged_twice ''pdf'' 10 20))) = Some ''two''"
  using next_stage_spreads_the_last[of 10 20 50 0 "''pdf''"] by simp

definition serve_unchecked :: "string \<Rightarrow> int \<Rightarrow> release_action \<Rightarrow> releases \<Rightarrow> releases" where
  "serve_unchecked account now a rs =
     (case List.find (\<lambda>r. rl_id r = ''a'') rs of
        None \<Rightarrow> rs
      | Some r \<Rightarrow> (case serve_action account (\<lambda>_. False) ''b'' now r a rs of Inl _ \<Rightarrow> rs | Inr rs' \<Rightarrow> rs'))"

definition published_alone :: "string \<Rightarrow> string \<Rightarrow> string \<Rightarrow> int \<Rightarrow> releases" where
  "published_alone account slug body now =
     serve_unchecked account now AcRollback
       (serve_unchecked account now AcWithdraw (create_release ''a'' slug body account []))"

lemma serve_unchecked_reachable:
  "\<lbrakk>reachable (\<lambda>_ _. True) rs; account \<noteq> []; ''b'' \<notin> rl_id ` set rs\<rbrakk>
   \<Longrightarrow> reachable (\<lambda>_ _. True) (serve_unchecked account now a rs)"
  by (auto simp: serve_unchecked_def dest!: found intro: reachable.act split: option.splits sum.splits)

lemma withdrawn_draft:
  "serve_unchecked account now AcWithdraw (create_release ''a'' slug body account []) =
     [(new_release ''a'' slug body account [])\<lparr> rl_state := RsWithdrawn \<rparr>]"
  by (simp add: serve_unchecked_def create_release_def new_release_def set_release_def)

lemma published_alone_eq:
  "published_alone account slug body now =
     [(new_release ''a'' slug body account [])\<lparr> rl_state := RsWithdrawn \<rparr>,
      \<lparr> rl_id = ''b'', rl_slug = slug, rl_text = body, rl_version = 2, rl_state = RsPublished,
        rl_test = TsPassed, rl_author = account, rl_reviewer = account, rl_channel = ''stable'',
        rl_percent = 100, rl_effective_at = now \<rparr>]"
  unfolding published_alone_def withdrawn_draft
  by (simp add: serve_unchecked_def Let_def new_release_def set_release_def
      next_version_def publish_skill_release_def initial_publish_form_def supersede_others_def active_def)

lemma published_alone_reachable:
  assumes "account \<noteq> []"
  shows "reachable (\<lambda>_ _. True) (published_alone account slug body now)"
  unfolding published_alone_def
proof (intro serve_unchecked_reachable assms)
  show "reachable (\<lambda>_ _. True) (create_release ''a'' slug body account [])"
    using reachable.create[OF reachable.start] assms by simp
qed (simp_all add: withdrawn_draft, simp_all add: create_release_def new_release_def)

text \<open>
  C29. One administrator can give a text to everybody that no client ran and nobody else saw: the
  Server withdraws a draft as it withdraws a release, and a rollback publishes whatever was
  withdrawn, as tested and as approved by the administrator who asks.
\<close>

theorem one_administrator_publishes_alone:
  assumes "account \<noteq> []"
  shows "reachable (\<lambda>_ _. True) (published_alone account slug body now)
    \<and> map_option rl_text (downlink bucket now (slug_releases slug (published_alone account slug body now))) = Some body
    \<and> \<not> vetted_text (published_alone account slug body now) slug body"
  using published_alone_reachable[OF assms]
  by (simp add: published_alone_eq slug_releases_three new_release_def next_version_def downlink_def active_def
      vetted_text_def vetted_def)

theorem one_administrator_publishes_alone_witness:
  "\<not> vetted_text (published_alone ''ana'' ''pdf'' ''text'' 0) ''pdf'' ''text''"
  using one_administrator_publishes_alone[of "''ana''"] by simp

end
