(* ===== verification/ToolManager.thy ===== *)
theory ToolManager
  imports SkillEditor PlanBoard ConsoleWorkspace
begin

text \<open>
  The tools a skill may use: the console's manager of them (\<open>ToolCatalogManager\<close> in
  \<open>src/console/src/SkillsPage.tsx\<close>) and the Server's handlers that create, change and delete them
  (\<open>src/server/routers/catalog.py\<close>). A text, list or number the code reads with \<open>||\<close> is empty or 0
  when it is absent.
\<close>

subsection \<open>Data\<close>

datatype tool_risk = TrLow | TrMedium | TrHigh | TrCritical

datatype tool_implementation = TiNative | TiShell

record tool_scripts =
  ts_windows :: string
  ts_linux :: string
  ts_macos :: string

record tool_spec = skill_tool +
  tl_label :: string
  tl_description :: string
  tl_category :: string
  tl_permissions :: "string list"
  tl_min_app_version :: string
  tl_contract_version :: string
  tl_risk :: "tool_risk option"
  tl_implementation :: tool_implementation
  tl_parameters :: "json option"
  tl_scripts :: tool_scripts
  tl_timeout :: int
  tl_output_limit :: int
  tl_sort :: int

record tool_audit =
  ta_tool :: string
  ta_actor :: string
  ta_action :: string
  ta_created_at :: int

text \<open>The form; a number that was cleared is \<open>None\<close>.\<close>

record tool_form =
  tm_name :: string
  tm_label :: string
  tm_description :: string
  tm_category :: string
  tm_risk :: tool_risk
  tm_enabled :: bool
  tm_bindable :: bool
  tm_min_app_version :: string
  tm_contract_version :: string
  tm_parameters_json :: string
  tm_permissions_text :: string
  tm_scripts :: tool_scripts
  tm_timeout :: "int option"
  tm_output_limit :: "int option"
  tm_sort :: "int option"

record tool_manager =
  tg_query :: string
  tg_editing :: "tool_spec option"
  tg_creating :: bool
  tg_audit :: "tool_audit list"
  tg_saving :: bool
  tg_form :: tool_form

subsection \<open>The manager\<close>

definition no_scripts :: tool_scripts where
  "no_scripts = \<lparr> ts_windows = [], ts_linux = [], ts_macos = [] \<rparr>"

definition empty_schema :: json where
  "empty_schema = JObj [(''type'', JStr ''object''), (''properties'', JObj [])]"

definition visible_tools :: "string \<Rightarrow> tool_spec list \<Rightarrow> tool_spec list" where
  "visible_tools query tools =
     (let needle = lower (trim query)
      in if needle = [] then tools
         else filter (\<lambda>t. includes_str needle
                (lower (tl_name t @ '' '' @ tl_label t @ '' '' @ tl_description t @ '' '' @ tl_category t))) tools)"

definition or_number :: "int \<Rightarrow> int \<Rightarrow> int" where
  "or_number n d = (if n = 0 then d else n)"

definition form_of_tool :: "(json \<Rightarrow> string) \<Rightarrow> tool_spec \<Rightarrow> tool_form" where
  "form_of_tool pretty t =
     \<lparr> tm_name = tl_name t, tm_label = or_str (tl_label t) (tl_name t), tm_description = tl_description t,
       tm_category = tl_category t, tm_risk = nullish (tl_risk t) TrLow, tm_enabled = tl_enabled t,
       tm_bindable = tl_bindable t, tm_min_app_version = or_str (tl_min_app_version t) ''1.0.0'',
       tm_contract_version = or_str (tl_contract_version t) ''1'',
       tm_parameters_json = pretty (nullish (tl_parameters t) empty_schema),
       tm_permissions_text = join_with [lf] (tl_permissions t), tm_scripts = tl_scripts t,
       tm_timeout = Some (or_number (tl_timeout t) 30), tm_output_limit = Some (or_number (tl_output_limit t) 65536),
       tm_sort = Some (tl_sort t) \<rparr>"

definition open_tool :: "(json \<Rightarrow> string) \<Rightarrow> tool_spec \<Rightarrow> tool_manager \<Rightarrow> tool_manager" where
  "open_tool pretty t g = g\<lparr> tg_creating := False, tg_editing := Some t, tg_form := form_of_tool pretty t \<rparr>"

definition open_tool_audit :: "tool_audit list res \<Rightarrow> tool_manager \<Rightarrow> tool_manager" where
  "open_tool_audit r g = g\<lparr> tg_audit := (case r of Inr xs \<Rightarrow> xs | Inl _ \<Rightarrow> []) \<rparr>"

definition new_tool :: tool_spec where
  "new_tool =
     \<lparr> tl_name = [], tl_enabled = True, tl_bindable = True, tl_exposure = ToSkill, tl_label = [],
       tl_description = [], tl_category = [], tl_permissions = [], tl_min_app_version = [],
       tl_contract_version = [], tl_risk = Some TrHigh, tl_implementation = TiShell,
       tl_parameters = Some empty_schema, tl_scripts = no_scripts, tl_timeout = 0, tl_output_limit = 0,
       tl_sort = 0 \<rparr>"

definition default_permissions :: "string list" where
  "default_permissions = [''workspace.read'', ''workspace.write'', ''process.execute'']"

text \<open>The category of a new tool is called \<open>script\<close>.\<close>

definition openNew :: "(json \<Rightarrow> string) \<Rightarrow> tool_manager \<Rightarrow> tool_manager" where
  "openNew pretty g = g\<lparr> tg_creating := True, tg_audit := [], tg_editing := Some new_tool,
     tg_form :=
       \<lparr> tm_name = [], tm_label = [], tm_description = [], tm_category = ''script'', tm_risk = TrHigh,
         tm_enabled = True, tm_bindable = True, tm_min_app_version = ''1.0.0'', tm_contract_version = ''1'',
         tm_parameters_json = pretty empty_schema, tm_permissions_text = join_with [lf] default_permissions,
         tm_scripts = no_scripts, tm_timeout = Some 30, tm_output_limit = Some 65536, tm_sort = Some 0 \<rparr> \<rparr>"

definition close_tool :: "tool_manager \<Rightarrow> tool_manager" where
  "close_tool g = g\<lparr> tg_editing := None, tg_creating := False \<rparr>"

subsection \<open>Saving\<close>

definition lower_letter :: "char \<Rightarrow> bool" where
  "lower_letter c \<longleftrightarrow> 97 \<le> byte c \<and> byte c \<le> 122"

definition digit_char :: "char \<Rightarrow> bool" where
  "digit_char c \<longleftrightarrow> 48 \<le> byte c \<and> byte c \<le> 57"

text \<open>\<open>/^[a-z][a-z0-9_]{1,63}$/\<close> and \<open>/^\d+(?:\.\d+){0,3}$/\<close>\<close>

definition tool_name_ok :: "string \<Rightarrow> bool" where
  "tool_name_ok s \<longleftrightarrow> s \<noteq> [] \<and> lower_letter (hd s)
     \<and> list_all (\<lambda>c. lower_letter c \<or> digit_char c \<or> c = CHR ''_'') (tl s)
     \<and> 1 \<le> length (tl s) \<and> length (tl s) \<le> 63"

definition contract_ok :: "string \<Rightarrow> bool" where
  "contract_ok s \<longleftrightarrow> length (split_on (CHR ''.'') s) \<le> 4 \<and> list_all digits (split_on (CHR ''.'') s)"

text \<open>The rules of the form; those of a shell tool's fields only apply when they are shown.\<close>

definition tool_form_valid :: "tool_spec \<Rightarrow> tool_form \<Rightarrow> bool" where
  "tool_form_valid editing f \<longleftrightarrow>
     trim (tm_label f) \<noteq> [] \<and> version_rule (tm_min_app_version f)
     \<and> (tl_implementation editing = TiShell \<longrightarrow>
          tool_name_ok (tm_name f) \<and> trim (tm_parameters_json f) \<noteq> [] \<and> trim (tm_permissions_text f) \<noteq> []
          \<and> contract_ok (tm_contract_version f) \<and> tm_timeout f \<noteq> None \<and> tm_output_limit f \<noteq> None)"

record shell_body =
  sb_name :: string
  sb_parameters :: json
  sb_permissions :: "string list"
  sb_scripts :: tool_scripts
  sb_contract_version :: string
  sb_timeout :: "int option"
  sb_output_limit :: "int option"

record tool_body =
  tb_label :: string
  tb_description :: string
  tb_category :: string
  tb_risk :: tool_risk
  tb_enabled :: bool
  tb_bindable :: bool
  tb_min_app_version :: string
  tb_sort :: "int option"
  tb_shell :: "shell_body option"

datatype tool_request = CreateTool tool_body | UpdateTool string tool_body

definition permission_list :: "string \<Rightarrow> string list" where
  "permission_list s =
     filter (\<lambda>v. v \<noteq> []) (map trim (split_on lf (map (\<lambda>c. if c = CHR '','' then lf else c) s)))"

definition shell_parameters :: "(string \<Rightarrow> json option) \<Rightarrow> string \<Rightarrow> string + json" where
  "shell_parameters parse text =
     (case parse text of
        None \<Rightarrow> Inl ''the parameters are no JSON''
      | Some p \<Rightarrow> if \<not> is_record p \<or> jget ''type'' p \<noteq> JStr ''object''
                then Inl ''the parameters must be a JSON Schema of type object'' else Inr p)"

definition common_body :: "tool_form \<Rightarrow> tool_body" where
  "common_body f =
     \<lparr> tb_label = tm_label f, tb_description = tm_description f, tb_category = tm_category f,
       tb_risk = tm_risk f, tb_enabled = tm_enabled f, tb_bindable = tm_bindable f,
       tb_min_app_version = tm_min_app_version f, tb_sort = tm_sort f, tb_shell = None \<rparr>"

definition tool_save_request ::
  "(string \<Rightarrow> json option) \<Rightarrow> bool \<Rightarrow> tool_spec \<Rightarrow> tool_form \<Rightarrow> string + tool_request" where
  "tool_save_request parse creating editing f =
     (if tl_implementation editing = TiShell then
        case shell_parameters parse (tm_parameters_json f) of
          Inl e \<Rightarrow> Inl e
        | Inr p \<Rightarrow>
            let b = (common_body f)\<lparr> tb_shell := Some
                       \<lparr> sb_name = trim (tm_name f), sb_parameters = p,
                         sb_permissions = permission_list (tm_permissions_text f), sb_scripts = tm_scripts f,
                         sb_contract_version = tm_contract_version f, sb_timeout = tm_timeout f,
                         sb_output_limit = tm_output_limit f \<rparr> \<rparr>
            in Inr (if creating then CreateTool b else UpdateTool (tl_name editing) b)
      else Inr (UpdateTool (tl_name editing) (common_body f)))"

text \<open>Submitting the form: the request, \<open>None\<close> when its rules refuse it or the schema is wrong.\<close>

definition tool_save ::
  "(string \<Rightarrow> json option) \<Rightarrow> tool_manager \<Rightarrow> tool_manager \<times> tool_request option" where
  "tool_save parse g =
     (case tg_editing g of
        None \<Rightarrow> (g, None)
      | Some t \<Rightarrow>
          if \<not> tool_form_valid t (tg_form g) then (g, None)
          else case tool_save_request parse (tg_creating g) t (tg_form g) of
            Inl _ \<Rightarrow> (g\<lparr> tg_saving := False \<rparr>, None)
          | Inr q \<Rightarrow> (g\<lparr> tg_saving := True \<rparr>, Some q))"

text \<open>After the answer; when it was accepted the tools are read again before the button is freed.\<close>

definition tool_save_done :: "unit res \<Rightarrow> tool_manager \<Rightarrow> tool_manager \<times> bool" where
  "tool_save_done r g =
     (case r of
        Inr _ \<Rightarrow> (g\<lparr> tg_editing := None, tg_creating := False \<rparr>, True)
      | Inl _ \<Rightarrow> (g\<lparr> tg_saving := False \<rparr>, False))"

definition tool_save_reloaded :: "tool_manager \<Rightarrow> tool_manager" where
  "tool_save_reloaded g = g\<lparr> tg_saving := False \<rparr>"

text \<open>The confirmed deletion has no \<open>catch\<close>: a refusal leaves everything as it is.\<close>

definition tool_delete_done :: "unit res \<Rightarrow> tool_manager \<Rightarrow> tool_manager \<times> bool" where
  "tool_delete_done r g =
     (case r of Inr _ \<Rightarrow> (g\<lparr> tg_editing := None \<rparr>, True) | Inl _ \<Rightarrow> (g, False))"

subsection \<open>The Server\<close>

text \<open>\<open>/^[a-z][a-z0-9_.-]{0,79}$/\<close>\<close>

definition permission_ok :: "string \<Rightarrow> bool" where
  "permission_ok s \<longleftrightarrow> s \<noteq> [] \<and> lower_letter (hd s)
     \<and> list_all (\<lambda>c. lower_letter c \<or> digit_char c \<or> c = CHR ''_'' \<or> c = CHR ''.'' \<or> c = CHR ''-'') (tl s)
     \<and> length (tl s) \<le> 79"

definition validated_permissions :: "string list \<Rightarrow> string list option" where
  "validated_permissions ps =
     (let qs = uniq (filter (\<lambda>q. q \<noteq> []) (map trim ps))
      in if qs = [] \<or> \<not> list_all permission_ok qs then None
         else Some (if ''process.execute'' \<in> set qs then qs else qs @ [''process.execute'']))"

definition MAX_SCRIPT :: nat where "MAX_SCRIPT = 128 * 1024"

definition validated_scripts :: "bool \<Rightarrow> tool_scripts \<Rightarrow> tool_scripts option" where
  "validated_scripts enabled ss =
     (let w = trim (ts_windows ss); l = trim (ts_linux ss); m = trim (ts_macos ss)
      in if MAX_SCRIPT < length w \<or> MAX_SCRIPT < length l \<or> MAX_SCRIPT < length m then None
         else if enabled \<and> w = [] \<and> l = [] \<and> m = [] then None
         else Some \<lparr> ts_windows = w, ts_linux = l, ts_macos = m \<rparr>)"

text \<open>A schema; \<open>fits\<close> is the Server's limit on the length of its printed form.\<close>

definition required_ok :: "json \<Rightarrow> bool" where
  "required_ok v \<longleftrightarrow> (case v of JUndef \<Rightarrow> True | JArr xs \<Rightarrow> list_all is_str xs | _ \<Rightarrow> False)"

definition schema_ok :: "(json \<Rightarrow> bool) \<Rightarrow> json \<Rightarrow> bool" where
  "schema_ok fits p \<longleftrightarrow> is_record p \<and> jget ''type'' p = JStr ''object''
     \<and> (jget ''properties'' p = JUndef \<or> is_record (jget ''properties'' p))
     \<and> required_ok (jget ''required'' p) \<and> fits p"

text \<open>The limits of the request's fields, which hold before any handler runs.\<close>

definition shell_in_bounds :: "bool \<Rightarrow> shell_body \<Rightarrow> bool" where
  "shell_in_bounds creating b \<longleftrightarrow>
     (creating \<longrightarrow> 2 \<le> code_points (sb_name b) \<and> code_points (sb_name b) \<le> 64)
     \<and> length (sb_permissions b) \<le> 30 \<and> contract_ok (sb_contract_version b)
     \<and> (case sb_timeout b of None \<Rightarrow> \<not> creating | Some n \<Rightarrow> 1 \<le> n \<and> n \<le> 300)
     \<and> (case sb_output_limit b of None \<Rightarrow> \<not> creating | Some n \<Rightarrow> 1024 \<le> n \<and> n \<le> 262144)"

definition body_in_bounds :: "bool \<Rightarrow> tool_body \<Rightarrow> bool" where
  "body_in_bounds creating b \<longleftrightarrow> 1 \<le> code_points (tb_label b) \<and> code_points (tb_label b) \<le> 120
     \<and> code_points (tb_description b) \<le> 500 \<and> code_points (tb_category b) \<le> 80
     \<and> version_rule (tb_min_app_version b) \<and> (creating \<longrightarrow> tb_risk b \<noteq> TrLow)
     \<and> (case tb_sort b of None \<Rightarrow> \<not> creating | Some n \<Rightarrow> 0 \<le> n)
     \<and> (case tb_shell b of None \<Rightarrow> True | Some sb \<Rightarrow> shell_in_bounds creating sb)"

definition apply_common :: "tool_body \<Rightarrow> tool_spec \<Rightarrow> tool_spec" where
  "apply_common b t =
     t\<lparr> tl_label := tb_label b, tl_description := tb_description b, tl_category := tb_category b,
        tl_risk := Some (tb_risk b), tl_enabled := tb_enabled b, tl_bindable := tb_bindable b,
        tl_min_app_version := tb_min_app_version b, tl_sort := nullish (tb_sort b) (tl_sort t) \<rparr>"

text \<open>The checked fields of a shell tool, as they are stored.\<close>

definition apply_shell :: "(json \<Rightarrow> bool) \<Rightarrow> shell_body \<Rightarrow> tool_spec \<Rightarrow> tool_spec option" where
  "apply_shell fits sb t =
     (if \<not> tool_name_ok (trim (tl_name t)) \<or> \<not> schema_ok fits (sb_parameters sb) then None
      else case validated_scripts (tl_enabled t) (sb_scripts sb) of
        None \<Rightarrow> None
      | Some ss \<Rightarrow> (case validated_permissions (sb_permissions sb) of
          None \<Rightarrow> None
        | Some ps \<Rightarrow> Some (t\<lparr> tl_parameters := Some (sb_parameters sb), tl_scripts := ss, tl_permissions := ps,
              tl_contract_version := sb_contract_version sb, tl_timeout := nullish (sb_timeout sb) (tl_timeout t),
              tl_output_limit := nullish (sb_output_limit sb) (tl_output_limit t) \<rparr>)))"

definition stored_shell :: "tool_spec \<Rightarrow> shell_body" where
  "stored_shell t =
     \<lparr> sb_name = tl_name t, sb_parameters = nullish (tl_parameters t) JUndef, sb_permissions = tl_permissions t,
       sb_scripts = tl_scripts t, sb_contract_version = tl_contract_version t, sb_timeout = None,
       sb_output_limit = None \<rparr>"

definition update_tool :: "(json \<Rightarrow> bool) \<Rightarrow> tool_spec \<Rightarrow> tool_body \<Rightarrow> (int, tool_spec) sum" where
  "update_tool fits t b =
     (if \<not> body_in_bounds False b then Inl 422
      else if tb_bindable b \<and> tl_exposure t \<noteq> ToSkill then Inl 409
      else if tl_implementation t \<noteq> TiShell then
        (if tb_shell b \<noteq> None then Inl 409 else Inr (apply_common b t))
      else case tb_shell b of
        Some sb \<Rightarrow> (case apply_shell fits sb (apply_common b t) of None \<Rightarrow> Inl 400 | Some u \<Rightarrow> Inr u)
      | None \<Rightarrow> (case apply_shell fits (stored_shell t) (apply_common b t) of
            None \<Rightarrow> Inl 400 | Some _ \<Rightarrow> Inr (apply_common b t)))"

definition create_shell_tool :: "(json \<Rightarrow> bool) \<Rightarrow> tool_spec list \<Rightarrow> tool_body \<Rightarrow> (int, tool_spec list) sum" where
  "create_shell_tool fits ts b =
     (case tb_shell b of
        None \<Rightarrow> Inl 422
      | Some sb \<Rightarrow>
          if \<not> body_in_bounds True b then Inl 422
          else case apply_shell fits sb (apply_common b (new_tool\<lparr> tl_name := trim (sb_name sb) \<rparr>)) of
            None \<Rightarrow> Inl 400
          | Some u \<Rightarrow> if tl_name u \<in> tl_name ` set ts then Inl 409 else Inr (ts @ [u]))"

definition delete_tool :: "string \<Rightarrow> tool_spec list \<Rightarrow> (int, tool_spec list) sum" where
  "delete_tool name ts =
     (case find_key tl_name name ts of
        None \<Rightarrow> Inl 404
      | Some t \<Rightarrow> if tl_implementation t \<noteq> TiShell then Inl 409 else Inr (drop_key tl_name name ts))"

definition serve_tool_request ::
  "(json \<Rightarrow> bool) \<Rightarrow> tool_request \<Rightarrow> tool_spec list \<Rightarrow> (int, tool_spec list) sum" where
  "serve_tool_request fits q ts =
     (case q of
        CreateTool b \<Rightarrow> create_shell_tool fits ts b
      | UpdateTool name b \<Rightarrow> (case find_key tl_name name ts of
          None \<Rightarrow> Inl 404
        | Some t \<Rightarrow> (case update_tool fits t b of
            Inl e \<Rightarrow> Inl e
          | Inr u \<Rightarrow> Inr (upd_key tl_name name (\<lambda>_. u) ts))))"

subsection \<open>What the Server keeps\<close>

definition shell_kept :: "(json \<Rightarrow> bool) \<Rightarrow> tool_spec \<Rightarrow> bool" where
  "shell_kept fits t \<longleftrightarrow> tool_name_ok (tl_name t)
     \<and> (case tl_parameters t of None \<Rightarrow> False | Some p \<Rightarrow> schema_ok fits p)
     \<and> validated_scripts (tl_enabled t) (tl_scripts t) = Some (tl_scripts t)
     \<and> validated_permissions (tl_permissions t) = Some (tl_permissions t)
     \<and> contract_ok (tl_contract_version t) \<and> 1 \<le> tl_timeout t \<and> tl_timeout t \<le> 300
     \<and> 1024 \<le> tl_output_limit t \<and> tl_output_limit t \<le> 262144"

definition tool_kept :: "(json \<Rightarrow> bool) \<Rightarrow> tool_spec \<Rightarrow> bool" where
  "tool_kept fits t \<longleftrightarrow> 1 \<le> code_points (tl_label t) \<and> code_points (tl_label t) \<le> 120
     \<and> code_points (tl_description t) \<le> 500 \<and> code_points (tl_category t) \<le> 80
     \<and> version_rule (tl_min_app_version t) \<and> tl_risk t \<noteq> None \<and> 0 \<le> tl_sort t
     \<and> (tl_bindable t \<longrightarrow> tl_exposure t = ToSkill)
     \<and> (tl_implementation t = TiShell \<longrightarrow> shell_kept fits t)"

lemma permission_bytes:
  assumes "permission_ok s" and "c \<in> set s"
  shows "33 \<le> byte c \<and> byte c < 128 \<and> c \<noteq> lf \<and> c \<noteq> CHR '',''"
proof -
  have "lower_letter c \<or> digit_char c \<or> c = CHR ''_'' \<or> c = CHR ''.'' \<or> c = CHR ''-''"
    using assms by (cases s) (auto simp: permission_ok_def list_all_iff)
  then show ?thesis by (auto simp: lower_letter_def digit_char_def)
qed

lemma permission_trim: "permission_ok s \<Longrightarrow> trim s = s"
  by (rule trim_plain) (use permission_bytes[of s] in \<open>auto simp: permission_ok_def\<close>)

lemma execute_ok: "permission_ok ''process.execute''"
  by code_simp

lemma permissions_kept:
  assumes "validated_permissions ps = Some qs"
  shows "validated_permissions qs = Some qs \<and> qs \<noteq> [] \<and> list_all permission_ok qs"
proof -
  let ?u = "uniq (filter (\<lambda>q. q \<noteq> []) (map trim ps))"
  have u: "?u \<noteq> []" "list_all permission_ok ?u"
    and qs: "qs = (if ''process.execute'' \<in> set ?u then ?u else ?u @ [''process.execute''])"
    using assms by (auto simp: validated_permissions_def Let_def split: if_splits)
  have ok: "list_all permission_ok qs" and d: "distinct qs" and ne: "qs \<noteq> []" and ex: "''process.execute'' \<in> set qs"
    using u execute_ok by (auto simp: qs)
  have "map trim qs = qs" using ok by (auto simp: list_all_iff permission_trim intro: map_idI)
  moreover have "filter (\<lambda>q. q \<noteq> []) qs = qs" using ok by (auto simp: list_all_iff permission_ok_def filter_id_conv)
  ultimately show ?thesis using ok d ne ex by (simp add: validated_permissions_def uniq_id)
qed

lemma scripts_kept: "validated_scripts e ss = Some ts \<Longrightarrow> validated_scripts e ts = Some ts"
  by (auto simp: validated_scripts_def Let_def split: if_splits)

lemma apply_shell_kept:
  assumes "apply_shell fits sb t = Some u" and "shell_in_bounds creating sb"
    and "tl_implementation t = TiShell" and "trim (tl_name t) = tl_name t"
    and "creating \<or> shell_kept fits t'" and "tl_timeout t = tl_timeout t'" and "tl_output_limit t = tl_output_limit t'"
  shows "shell_kept fits u"
proof -
  obtain ss ps where ss: "validated_scripts (tl_enabled t) (sb_scripts sb) = Some ss"
      and ps: "validated_permissions (sb_permissions sb) = Some ps"
      and name: "tool_name_ok (tl_name t)" and sch: "schema_ok fits (sb_parameters sb)"
      and u: "u = t\<lparr> tl_parameters := Some (sb_parameters sb), tl_scripts := ss, tl_permissions := ps,
              tl_contract_version := sb_contract_version sb, tl_timeout := nullish (sb_timeout sb) (tl_timeout t),
              tl_output_limit := nullish (sb_output_limit sb) (tl_output_limit t) \<rparr>"
    using assms(1,4) by (auto simp: apply_shell_def split: if_splits option.splits)
  have "1 \<le> tl_timeout u \<and> tl_timeout u \<le> 300 \<and> 1024 \<le> tl_output_limit u \<and> tl_output_limit u \<le> 262144"
    using assms(2,5-7) by (auto simp: u shell_in_bounds_def nullish_def shell_kept_def split: option.splits)
  then show ?thesis
    using assms(2) scripts_kept[OF ss] permissions_kept[OF ps] name sch
    by (simp add: shell_kept_def u shell_in_bounds_def)
qed

lemma scripts_same:
  "\<lbrakk>validated_scripts e ss = Some ss; validated_scripts e' ss = Some ts\<rbrakk> \<Longrightarrow> ts = ss"
  by (auto simp: validated_scripts_def Let_def split: if_splits)

lemma name_trim: "tool_name_ok s \<Longrightarrow> trim s = s"
proof (rule trim_plain)
  assume "tool_name_ok s"
  then have ok: "lower_letter c \<or> digit_char c \<or> c = CHR ''_''" if "c \<in> set s" for c
    using that by (cases s) (auto simp: tool_name_ok_def list_all_iff)
  show "s \<noteq> []" using \<open>tool_name_ok s\<close> by (simp add: tool_name_ok_def)
  then show "byte (hd s) \<in> {33..<128}" "byte (last s) \<in> {33..<128}"
    using ok[of "hd s"] ok[of "last s"] by (auto simp: lower_letter_def digit_char_def)
qed

lemma apply_shell_shape:
  assumes "apply_shell fits sb t = Some u"
  shows "\<exists>p ss ps cv n m. u = t\<lparr> tl_parameters := p, tl_scripts := ss, tl_permissions := ps,
      tl_contract_version := cv, tl_timeout := n, tl_output_limit := m \<rparr>"
  using assms unfolding apply_shell_def by (simp split: if_splits option.splits) blast

lemma shell_update_kept:
  assumes "shell_kept fits t" and "tl_implementation t = TiShell" and "body_in_bounds False b"
    and "(case tb_shell b of
            Some sb \<Rightarrow> (case apply_shell fits sb (apply_common b t) of None \<Rightarrow> Inl 400 | Some u \<Rightarrow> Inr u)
          | None \<Rightarrow> (case apply_shell fits (stored_shell t) (apply_common b t) of
                None \<Rightarrow> Inl 400 | Some _ \<Rightarrow> Inr (apply_common b t))) = Inr u"
  shows "shell_kept fits u \<and> (\<exists>p ss ps cv n m. u = (apply_common b t)\<lparr> tl_parameters := p, tl_scripts := ss,
      tl_permissions := ps, tl_contract_version := cv, tl_timeout := n, tl_output_limit := m \<rparr>)"
proof (cases "tb_shell b")
  case None
  then have u: "u = apply_common b t" and "apply_shell fits (stored_shell t) (apply_common b t) \<noteq> None"
    using assms(4) by (auto split: option.splits)
  then obtain ss where "validated_scripts (tb_enabled b) (tl_scripts t) = Some ss"
    by (auto simp: apply_shell_def stored_shell_def apply_common_def split: if_splits option.splits)
  moreover from this have "ss = tl_scripts t" using assms(1) scripts_same by (auto simp: shell_kept_def)
  ultimately have "shell_kept fits u" using assms(1) by (simp add: u shell_kept_def apply_common_def)
  moreover have "u = (apply_common b t)\<lparr> tl_parameters := tl_parameters u, tl_scripts := tl_scripts u,
      tl_permissions := tl_permissions u, tl_contract_version := tl_contract_version u,
      tl_timeout := tl_timeout u, tl_output_limit := tl_output_limit u \<rparr>"
    by (simp add: u)
  ultimately show ?thesis by blast
next
  case (Some sb)
  then have u: "apply_shell fits sb (apply_common b t) = Some u" using assms(4) by (auto split: option.splits)
  have "shell_kept fits u"
  proof (rule apply_shell_kept[OF u, of False])
    show "shell_in_bounds False sb" using assms(3) Some by (simp add: body_in_bounds_def)
    show "trim (tl_name (apply_common b t)) = tl_name (apply_common b t)"
      using assms(1) name_trim by (simp add: apply_common_def shell_kept_def)
    show "False \<or> shell_kept fits t" using assms(1) by simp
  qed (simp_all add: apply_common_def assms(2))
  then show ?thesis using apply_shell_shape[OF u] by blast
qed

lemma update_kept:
  assumes "tool_kept fits t" and "update_tool fits t b = Inr u"
  shows "tool_kept fits u \<and> tl_name u = tl_name t \<and> tl_label u = tb_label b"
proof -
  have b: "body_in_bounds False b" "tb_bindable b \<longrightarrow> tl_exposure t = ToSkill"
    using assms(2) by (auto simp: update_tool_def split: if_splits)
  have common: "1 \<le> code_points (tb_label b)" "code_points (tb_label b) \<le> 120" "code_points (tb_description b) \<le> 500"
      "code_points (tb_category b) \<le> 80" "version_rule (tb_min_app_version b)" "0 \<le> nullish (tb_sort b) (tl_sort t)"
    using b assms(1) by (auto simp: tool_kept_def body_in_bounds_def nullish_def split: option.splits)
  show ?thesis
  proof (cases "tl_implementation t = TiShell")
    case False
    then have "u = apply_common b t" using assms(2) by (auto simp: update_tool_def split: if_splits)
    then show ?thesis using common b False by (simp add: apply_common_def tool_kept_def)
  next
    case True
    have "shell_kept fits t" using assms(1) True by (simp add: tool_kept_def)
    moreover have "(case tb_shell b of
            Some sb \<Rightarrow> (case apply_shell fits sb (apply_common b t) of None \<Rightarrow> Inl 400 | Some u \<Rightarrow> Inr u)
          | None \<Rightarrow> (case apply_shell fits (stored_shell t) (apply_common b t) of
                None \<Rightarrow> Inl 400 | Some _ \<Rightarrow> Inr (apply_common b t))) = (Inr u :: (int, tool_spec) sum)"
      using assms(2) True by (simp add: update_tool_def split: if_splits)
    ultimately have "shell_kept fits u" and "\<exists>p ss ps cv n m. u = (apply_common b t)\<lparr> tl_parameters := p, tl_scripts := ss,
      tl_permissions := ps, tl_contract_version := cv, tl_timeout := n, tl_output_limit := m \<rparr>"
      using shell_update_kept[OF _ True b(1)] by blast+
    then show ?thesis using common b by (auto simp: apply_common_def tool_kept_def)
  qed
qed

lemma created_kept:
  assumes "create_shell_tool fits ts b = Inr ts'"
  shows "\<exists>u. ts' = ts @ [u] \<and> tl_name u \<notin> tl_name ` set ts \<and> tool_kept fits u \<and> tl_label u = tb_label b"
proof -
  obtain sb where sb: "tb_shell b = Some sb" using assms by (auto simp: create_shell_tool_def split: option.splits)
  define t where "t = apply_common b (new_tool\<lparr> tl_name := trim (sb_name sb) \<rparr>)"
  obtain u where u: "apply_shell fits sb t = Some u" and b: "body_in_bounds True b"
      and ts': "ts' = ts @ [u]" "tl_name u \<notin> tl_name ` set ts"
    using assms sb by (auto simp: create_shell_tool_def t_def split: if_splits option.splits)
  have "shell_kept fits u"
    by (rule apply_shell_kept[OF u, of True t])
      (use b sb in \<open>simp_all add: body_in_bounds_def t_def apply_common_def new_tool_def\<close>)
  moreover have "\<exists>p ss ps cv n m. u = t\<lparr> tl_parameters := p, tl_scripts := ss, tl_permissions := ps,
      tl_contract_version := cv, tl_timeout := n, tl_output_limit := m \<rparr>"
    by (rule apply_shell_shape[OF u])
  ultimately have "tool_kept fits u \<and> tl_label u = tb_label b"
    using b by (auto simp: tool_kept_def body_in_bounds_def t_def apply_common_def new_tool_def nullish_def split: option.splits)
  then show ?thesis using ts' by blast
qed

text \<open>The tools the Server holds: those of the App at first, then what the console's form saved.\<close>

definition tools_ok :: "(json \<Rightarrow> bool) \<Rightarrow> tool_spec list \<Rightarrow> bool" where
  "tools_ok fits ts \<longleftrightarrow> distinct (map tl_name ts) \<and> (\<forall>t\<in>set ts. tool_kept fits t \<and> trim (tl_label t) \<noteq> [])"

inductive tools_reached ::
  "(json \<Rightarrow> bool) \<Rightarrow> (string \<Rightarrow> json option) \<Rightarrow> tool_spec list \<Rightarrow> tool_spec list \<Rightarrow> bool"
  for fits :: "json \<Rightarrow> bool" and parse :: "string \<Rightarrow> json option" and seed :: "tool_spec list" where
  seeded: "tools_reached fits parse seed seed"
| saved: "\<lbrakk>tools_reached fits parse seed ts; tool_save parse g = (g', Some q);
      serve_tool_request fits q ts = Inr ts'\<rbrakk> \<Longrightarrow> tools_reached fits parse seed ts'"
| deleted: "\<lbrakk>tools_reached fits parse seed ts; delete_tool name ts = Inr ts'\<rbrakk> \<Longrightarrow> tools_reached fits parse seed ts'"

fun body_of :: "tool_request \<Rightarrow> tool_body" where
  "body_of (CreateTool b) = b"
| "body_of (UpdateTool name b) = b"

lemma saved_label: "tool_save parse g = (g', Some q) \<Longrightarrow> trim (tb_label (body_of q)) \<noteq> []"
  by (auto simp: tool_save_def tool_save_request_def tool_form_valid_def common_body_def Let_def
      split: option.splits if_splits sum.splits)

lemma served_ok:
  assumes "tools_ok fits ts" and "trim (tb_label (body_of q)) \<noteq> []" and "serve_tool_request fits q ts = Inr ts'"
  shows "tools_ok fits ts'"
proof (cases q)
  case (CreateTool b)
  then show ?thesis using assms created_kept[of fits ts b ts'] by (auto simp: tools_ok_def serve_tool_request_def)
next
  case (UpdateTool name b)
  then obtain t u where t: "find_key tl_name name ts = Some t" and u: "update_tool fits t b = Inr u"
      and ts': "ts' = upd_key tl_name name (\<lambda>_. u) ts"
    using assms(3) by (auto simp: serve_tool_request_def split: option.splits sum.splits)
  have t_in: "t \<in> set ts" "tl_name t = name" using t by (auto simp: find_key_def find_Some_iff)
  have "tool_kept fits u \<and> tl_name u = name \<and> tl_label u = tb_label b"
    using update_kept[OF _ u] assms(1) t_in by (auto simp: tools_ok_def)
  then show ?thesis
    using assms(1,2) UpdateTool by (auto simp: tools_ok_def ts' map_upd_key dest!: set_upd_where)
qed

lemma reached_ok: "tools_reached fits parse seed ts \<Longrightarrow> tools_ok fits seed \<Longrightarrow> tools_ok fits ts"
proof (induction rule: tools_reached.induct)
  case (saved ts g g' q ts')
  then show ?case using served_ok saved_label by blast
next
  case (deleted ts name ts')
  then show ?case
    by (auto simp: tools_ok_def delete_tool_def drop_key_def distinct_map_filter split: option.splits if_splits)
qed

subsection \<open>A tool opened and saved\<close>

lemma split_join_lines: "ps \<noteq> [] \<Longrightarrow> \<forall>p\<in>set ps. lf \<notin> set p \<Longrightarrow> split_on lf (join_with [lf] ps) = ps"
proof (induction ps)
  case (Cons p ps)
  then show ?case by (cases ps) (auto simp: split_on_no_delim split_on_append)
qed simp

lemma no_commas: "\<forall>p\<in>set ps. CHR '','' \<notin> set p \<Longrightarrow> CHR '','' \<notin> set (join_with [lf] ps)"
proof (induction ps)
  case (Cons p ps)
  then show ?case by (cases ps) auto
qed simp

lemma permissions_read_back:
  assumes "ps \<noteq> []" and "list_all permission_ok ps"
  shows "permission_list (join_with [lf] ps) = ps" and "trim (join_with [lf] ps) \<noteq> []"
proof -
  have c: "\<forall>p\<in>set ps. CHR '','' \<notin> set p" "\<forall>p\<in>set ps. lf \<notin> set p"
    using assms(2) permission_bytes by (fastforce simp: list_all_iff)+
  have "map (\<lambda>c. if c = CHR '','' then lf else c) (join_with [lf] ps) = join_with [lf] ps"
    by (rule map_idI) (use no_commas[OF c(1)] in metis)
  moreover have "map trim ps = ps"
    by (rule map_idI) (use assms(2) permission_trim in \<open>simp add: list_all_iff\<close>)
  moreover have "filter (\<lambda>v. v \<noteq> []) ps = ps"
    using assms(2) by (auto simp: list_all_iff permission_ok_def filter_id_conv)
  ultimately show "permission_list (join_with [lf] ps) = ps"
    by (simp add: permission_list_def split_join_lines[OF assms(1) c(2)])
  obtain p qs where ps: "ps = p # qs" using assms(1) by (cases ps) auto
  have p: "p \<noteq> []" "byte (hd p) \<in> {33..<128}"
    using assms(2) permission_bytes[of p "hd p"] by (auto simp: ps permission_ok_def)
  obtain r where r: "join_with [lf] ps = p @ r" by (cases qs) (auto simp: ps)
  show "trim (join_with [lf] ps) \<noteq> []"
    unfolding r by (rule trim_keeps) (use p in simp_all)
qed

text \<open>A tool the Server holds, as the manager opens it: its form passes and asks for no change.\<close>

definition unchanged_body :: "tool_spec \<Rightarrow> tool_body" where
  "unchanged_body t =
     \<lparr> tb_label = tl_label t, tb_description = tl_description t, tb_category = tl_category t,
       tb_risk = nullish (tl_risk t) TrLow, tb_enabled = tl_enabled t, tb_bindable = tl_bindable t,
       tb_min_app_version = tl_min_app_version t, tb_sort = Some (tl_sort t),
       tb_shell = (if tl_implementation t = TiShell
         then Some \<lparr> sb_name = tl_name t, sb_parameters = nullish (tl_parameters t) JUndef,
                      sb_permissions = tl_permissions t, sb_scripts = tl_scripts t,
                      sb_contract_version = tl_contract_version t, sb_timeout = Some (tl_timeout t),
                      sb_output_limit = Some (tl_output_limit t) \<rparr>
         else None) \<rparr>"

lemma nonempty_versions:
  shows "version_rule v \<Longrightarrow> v \<noteq> []" and "contract_ok v \<Longrightarrow> v \<noteq> []"
proof -
  have "\<not> version_rule []" by (simp add: version_rule_def digits_def Let_def)
  then show "version_rule v \<Longrightarrow> v \<noteq> []" by blast
  have "\<not> contract_ok []" by (simp add: contract_ok_def digits_def)
  then show "contract_ok v \<Longrightarrow> v \<noteq> []" by blast
qed

lemma untouched_request:
  assumes t: "tool_kept fits t" and label: "trim (tl_label t) \<noteq> []"
    and codec: "\<And>p. schema_ok fits p \<Longrightarrow> parse (pretty p) = Some p \<and> trim (pretty p) \<noteq> []"
  shows "snd (tool_save parse (open_tool pretty t g)) = Some (UpdateTool (tl_name t) (unchanged_body t))"
proof -
  have l: "tl_label t \<noteq> []" using label by auto
  have v: "tl_min_app_version t \<noteq> []" "version_rule (tl_min_app_version t)"
    using t nonempty_versions by (auto simp: tool_kept_def)
  show ?thesis
  proof (cases "tl_implementation t = TiShell")
    case False
    then show ?thesis using l v label
      by (simp add: tool_save_def open_tool_def form_of_tool_def tool_form_valid_def tool_save_request_def
          common_body_def unchanged_body_def or_str_def)
  next
    case True
    then have sh: "shell_kept fits t" using t by (simp add: tool_kept_def)
    then obtain p where p: "tl_parameters t = Some p" "schema_ok fits p"
      by (auto simp: shell_kept_def split: option.splits)
    have ps: "tl_permissions t \<noteq> [] \<and> list_all permission_ok (tl_permissions t)"
      using sh permissions_kept by (auto simp: shell_kept_def)
    have c: "contract_ok (tl_contract_version t)" "tl_contract_version t \<noteq> []" "tool_name_ok (tl_name t)"
        "tl_timeout t \<noteq> 0" "tl_output_limit t \<noteq> 0"
      using sh nonempty_versions by (auto simp: shell_kept_def)
    have "shell_parameters parse (pretty p) = Inr p"
      using codec[OF p(2)] p(2) by (simp add: shell_parameters_def schema_ok_def)
    then show ?thesis
      using True l v label p codec[OF p(2)] c permissions_read_back[of "tl_permissions t"] ps name_trim[OF c(3)]
      by (simp add: tool_save_def open_tool_def form_of_tool_def tool_form_valid_def tool_save_request_def
          common_body_def unchanged_body_def or_str_def or_number_def nullish_def)
  qed
qed

lemma unchanged_common:
  assumes "tool_kept fits t"
  shows "apply_common (unchanged_body t) t = t"
  using assms by (auto simp: apply_common_def unchanged_body_def nullish_def tool_kept_def)

lemma unchanged_update:
  assumes t: "tool_kept fits t"
  shows "update_tool fits t (unchanged_body t) =
      (if tl_implementation t = TiShell \<and> 30 < length (tl_permissions t) then Inl 422 else Inr t)"
proof (cases "tl_implementation t = TiShell")
  case False
  have "body_in_bounds False (unchanged_body t)"
    using t False by (auto simp: body_in_bounds_def unchanged_body_def tool_kept_def)
  then show ?thesis
    using t False unchanged_common[OF t] by (simp add: update_tool_def) (simp add: unchanged_body_def tool_kept_def)
next
  case True
  then have sh: "shell_kept fits t" using t by (simp add: tool_kept_def)
  obtain sb where sb: "tb_shell (unchanged_body t) = Some sb" "sb_permissions sb = tl_permissions t"
      "sb_parameters sb = nullish (tl_parameters t) JUndef" "sb_scripts sb = tl_scripts t"
      "sb_contract_version sb = tl_contract_version t" "sb_timeout sb = Some (tl_timeout t)"
      "sb_output_limit sb = Some (tl_output_limit t)"
    using True by (simp add: unchanged_body_def)
  have bounds: "body_in_bounds False (unchanged_body t) \<longleftrightarrow> length (tl_permissions t) \<le> 30"
    using t sh True
    by (simp add: body_in_bounds_def unchanged_body_def tool_kept_def shell_kept_def shell_in_bounds_def)
  obtain p where p: "tl_parameters t = Some p" "schema_ok fits p"
    using sh by (auto simp: shell_kept_def split: option.splits)
  have "apply_shell fits sb t = Some t"
    using sh p name_trim[of "tl_name t"] by (simp add: apply_shell_def sb shell_kept_def nullish_def)
  moreover have "tb_bindable (unchanged_body t) \<longrightarrow> tl_exposure t = ToSkill"
    using t by (simp add: unchanged_body_def tool_kept_def)
  ultimately show ?thesis
    using True bounds sb(1) unchanged_common[OF t] by (auto simp: update_tool_def)
qed

text \<open>
  C36. A tool that is opened in the manager and saved as it is shown stays as it is: the form holds
  every field of any tool the Server has come to hold, its rules let it through, and the Server
  accepts the request and keeps the tool. The one exception are shell tools with 31 permissions, which
  the Server makes itself of 30 without \<open>process.execute\<close> and then refuses every time.
\<close>

theorem untouched_tool_stays:
  assumes "tools_reached fits parse seed ts" and "tools_ok fits seed" and "t \<in> set ts"
    and "\<And>p. schema_ok fits p \<Longrightarrow> parse (pretty p) = Some p \<and> trim (pretty p) \<noteq> []"
  shows "\<exists>b. snd (tool_save parse (open_tool pretty t g)) = Some (UpdateTool (tl_name t) b)
    \<and> serve_tool_request fits (UpdateTool (tl_name t) b) ts =
        (if tl_implementation t = TiShell \<and> 30 < length (tl_permissions t) then Inl 422 else Inr ts)"
proof -
  have ok: "distinct (map tl_name ts)" and t: "tool_kept fits t" "trim (tl_label t) \<noteq> []"
    using reached_ok[OF assms(1,2)] assms(3) by (auto simp: tools_ok_def)
  have find: "find_key tl_name (tl_name t) ts = Some t" using find_key_unique[OF ok assms(3)] by simp
  have "upd_key tl_name (tl_name t) (\<lambda>_. t) ts = ts"
    unfolding upd_where_def by (rule map_idI) (use ok assms(3) in \<open>auto simp: distinct_map dest: inj_onD\<close>)
  then show ?thesis
    using untouched_request[OF t assms(4)] unchanged_update[OF t(1)] find
    by (auto simp: serve_tool_request_def)
qed

definition demo_tool :: tool_spec where
  "demo_tool = new_tool\<lparr> tl_name := ''count_lines'', tl_label := ''Count'', tl_min_app_version := ''1.0.0'',
     tl_contract_version := ''1'', tl_permissions := [''process.execute''],
     tl_scripts := no_scripts\<lparr> ts_linux := ''wc'' \<rparr>, tl_timeout := 30, tl_output_limit := 65536 \<rparr>"

lemma demo_tool_ok: "tools_ok (\<lambda>p. p = empty_schema) [demo_tool]"
proof -
  have "trim ''wc'' = ''wc''" "trim ''Count'' = ''Count''" by (simp_all add: trim_plain)
  moreover have "validated_permissions [''process.execute''] = Some [''process.execute'']"
    using execute_ok by (simp add: validated_permissions_def permission_trim uniq_def)
  moreover have "version_rule ''1.0.0''" "contract_ok ''1''" "tool_name_ok ''count_lines''" by code_simp+
  ultimately show ?thesis
    by (simp add: tools_ok_def tool_kept_def shell_kept_def demo_tool_def new_tool_def no_scripts_def
        validated_scripts_def MAX_SCRIPT_def schema_ok_def empty_schema_def required_ok_def code_points_def)
qed

theorem untouched_tool_stays_witness:
  "\<exists>b. snd (tool_save (\<lambda>_. Some empty_schema)
          (open_tool (\<lambda>_. ''{}'') demo_tool
            \<lparr> tg_query = [], tg_editing = None, tg_creating = False, tg_audit = [], tg_saving = False,
              tg_form = form_of_tool (\<lambda>_. ''{}'') demo_tool \<rparr>)) = Some (UpdateTool ''count_lines'' b)
    \<and> serve_tool_request (\<lambda>p. p = empty_schema) (UpdateTool ''count_lines'' b) [demo_tool] = Inr [demo_tool]"
proof -
  have "trim ''{}'' \<noteq> []" by (rule trim_keeps) simp_all
  then show ?thesis
    using untouched_tool_stays[OF tools_reached.seeded demo_tool_ok, of demo_tool "\<lambda>_. Some empty_schema" "\<lambda>_. ''{}''"]
    by (simp add: schema_ok_def demo_tool_def new_tool_def)
qed

end
