(* ===== verification/SkillsConsole.thy ===== *)
theory SkillsConsole
  imports ToolManager SkillReleases
begin

text \<open>
  The console's page of skills (\<open>src/console/src/SkillsPage.tsx\<close>) around the editor, the tools and the
  releases: the list and its order, the categories (\<open>SkillCategories.tsx\<close>), the recommended skills and
  the blocked skills of the public hub.
\<close>

subsection \<open>The page\<close>

datatype skill_tab =
  StGallery | StManage | StCategories | StTools | StReleases | StRecommendations | StHubPolicy

datatype skill_status = SsAll | SsEnabled | SsDisabled

record skills_page =
  kp_items :: "skill_data console_item list"
  kp_categories :: "skill_category console_item list"
  kp_tools :: "tool_spec list"
  kp_releases :: "skill_release list"
  kp_loading :: bool
  kp_mutating :: string
  kp_query :: string
  kp_category :: "string option"
  kp_status :: skill_status
  kp_tab :: skill_tab
  kp_editor :: "(skill_data console_item option \<times> editor_tab) option"

fun skill_tab_key :: "skill_tab \<Rightarrow> string" where
  "skill_tab_key StGallery = ''gallery''"
| "skill_tab_key StManage = ''manage''"
| "skill_tab_key StCategories = ''categories''"
| "skill_tab_key StTools = ''tools''"
| "skill_tab_key StReleases = ''releases''"
| "skill_tab_key StRecommendations = ''recommendations''"
| "skill_tab_key StHubPolicy = ''skillhub-policy''"

definition requested_tab :: "string option \<Rightarrow> skill_tab" where
  "requested_tab param =
     (case List.find (\<lambda>t. Some (skill_tab_key t) = param)
        [StManage, StCategories, StTools, StReleases, StRecommendations, StHubPolicy] of
        Some t \<Rightarrow> t | None \<Rightarrow> StGallery)"

definition initial_skills_page :: "string option \<Rightarrow> skills_page" where
  "initial_skills_page param =
     \<lparr> kp_items = [], kp_categories = [], kp_tools = [], kp_releases = [], kp_loading = True,
       kp_mutating = [], kp_query = [], kp_category = None, kp_status = SsAll,
       kp_tab = requested_tab param, kp_editor = None \<rparr>"

text \<open>The chosen tab, with the value of the address's parameter.\<close>

definition choose_tab :: "skill_tab \<Rightarrow> skills_page \<Rightarrow> skills_page \<times> string" where
  "choose_tab t p = (p\<lparr> kp_tab := t \<rparr>, skill_tab_key t)"

record skills_answer =
  ka_items :: "skill_data console_item list"
  ka_categories :: "skill_category console_item list"
  ka_tools :: "tool_spec list"
  ka_releases :: "skill_release list"

definition skills_load :: "skills_page \<Rightarrow> skills_page" where
  "skills_load p = p\<lparr> kp_loading := True \<rparr>"

definition skills_loaded :: "skills_answer res \<Rightarrow> skills_page \<Rightarrow> skills_page" where
  "skills_loaded r p =
     (case r of
        Inl e \<Rightarrow> p\<lparr> kp_loading := False \<rparr>
      | Inr a \<Rightarrow> p\<lparr> kp_items := sort_key ci_sort (ka_items a),
                 kp_categories := sort_key ci_sort (ka_categories a), kp_tools := ka_tools a,
                 kp_releases := ka_releases a, kp_loading := False \<rparr>)"

definition visible_skills :: "skills_page \<Rightarrow> skill_data console_item list" where
  "visible_skills p =
     (let normalized = lower (trim (kp_query p))
      in filter (\<lambda>i.
           let s = ci_data i;
               haystack = lower (sk_name s @ '' '' @ sk_slug s @ '' '' @ sk_description s)
           in (normalized = [] \<or> includes_str normalized haystack)
              \<and> (\<not> truthy (kp_category p) \<or> Some (sk_category_slug s) = kp_category p)
              \<and> (kp_status p = SsAll \<or> ci_enabled i = (kp_status p = SsEnabled))) (kp_items p))"

text \<open>The gallery shows the enabled ones of them.\<close>

definition gallery_skills :: "skills_page \<Rightarrow> skill_data console_item list" where
  "gallery_skills p = filter ci_enabled (visible_skills p)"

definition open_skill :: "skill_data console_item option \<Rightarrow> editor_tab \<Rightarrow> skills_page \<Rightarrow> skills_page" where
  "open_skill item t p = p\<lparr> kp_editor := Some (item, t) \<rparr>"

definition close_skill :: "skills_page \<Rightarrow> skills_page" where
  "close_skill p = p\<lparr> kp_editor := None \<rparr>"

subsection \<open>Moving a skill\<close>

definition index_of :: "'d console_item \<Rightarrow> 'd console_item list \<Rightarrow> int" where
  "index_of item items = (let i = length (takeWhile (\<lambda>c. ci_id c \<noteq> ci_id item) items)
     in if i < length items then int i else -1)"

definition splice_move :: "nat \<Rightarrow> nat \<Rightarrow> 'a list \<Rightarrow> 'a list" where
  "splice_move i j xs =
     (let rest = take i xs @ drop (Suc i) xs in take j rest @ xs ! i # drop j rest)"

text \<open>The order asked for, and the requests that bring it about.\<close>

definition moved :: "'d console_item \<Rightarrow> int \<Rightarrow> 'd console_item list \<Rightarrow> 'd console_item list option" where
  "moved item delta items =
     (let i = index_of item items; j = i + delta
      in if i < 0 \<or> j < 0 \<or> int (length items) \<le> j then None
         else Some (splice_move (nat i) (nat j) items))"

definition sort_requests :: "'d console_item list \<Rightarrow> (string \<times> int) list" where
  "sort_requests ordered = map (\<lambda>(c, k). (ci_id c, int k * 10)) (zip ordered [0..<length ordered])"

definition moveSkill ::
  "skill_data console_item \<Rightarrow> int \<Rightarrow> skills_page \<Rightarrow> skills_page \<times> (string \<times> int) list" where
  "moveSkill item delta p =
     (case moved item delta (kp_items p) of
        None \<Rightarrow> (p, [])
      | Some ordered \<Rightarrow> (p\<lparr> kp_mutating := ci_id item \<rparr>, sort_requests ordered))"

text \<open>All accepted: the page's data is read again before the row is freed. One refused: it is not.\<close>

definition moveSkill_done :: "unit res \<Rightarrow> skills_page \<Rightarrow> skills_page \<times> bool" where
  "moveSkill_done r p =
     (case r of
        Inr _ \<Rightarrow> (skills_load p, True)
      | Inl _ \<Rightarrow> (p\<lparr> kp_mutating := [] \<rparr>, False))"

definition moveSkill_reloaded :: "skills_answer res \<Rightarrow> skills_page \<Rightarrow> skills_page" where
  "moveSkill_reloaded r p = (skills_loaded r p)\<lparr> kp_mutating := [] \<rparr>"

text \<open>The Server's handling of one of the requests, on its rows.\<close>

definition serve_sort :: "string \<times> int \<Rightarrow> 'd console_item list \<Rightarrow> 'd console_item list" where
  "serve_sort q rows = upd_key ci_id (fst q) (\<lambda>r. r\<lparr> ci_sort := snd q \<rparr>) rows"

lemma mset_splice_move: "i < length xs \<Longrightarrow> mset (splice_move i j xs) = mset xs"
proof -
  assume i: "i < length xs"
  let ?rest = "take i xs @ drop (Suc i) xs"
  have "mset (take j ?rest) + mset (drop j ?rest) = mset ?rest" by (metis append_take_drop_id mset_append)
  then have "mset (splice_move i j xs) = add_mset (xs ! i) (mset ?rest)"
    unfolding splice_move_def Let_def mset_append mset.simps by simp
  also have "\<dots> = mset (take i xs @ xs ! i # drop (Suc i) xs)" by simp
  also have "\<dots> = mset xs" using id_take_nth_drop[OF i] by metis
  finally show ?thesis .
qed

lemma moved_mset: "moved item delta items = Some ordered \<Longrightarrow> mset ordered = mset items"
  by (auto simp: moved_def index_of_def Let_def intro!: mset_splice_move split: if_splits)

definition new_sort :: "(string \<times> int) list \<Rightarrow> 'd console_item \<Rightarrow> 'd console_item" where
  "new_sort qs r = (case map_of qs (ci_id r) of None \<Rightarrow> r | Some n \<Rightarrow> r\<lparr> ci_sort := n \<rparr>)"

lemma serve_sorts:
  "distinct (map fst qs) \<Longrightarrow> fold serve_sort qs rows = map (new_sort qs) rows"
proof (induction qs arbitrary: rows)
  case Nil
  then show ?case by (simp add: new_sort_def)
next
  case (Cons q qs)
  obtain i n where q: "q = (i, n)" by force
  have i: "map_of qs i = None" using Cons.prems by (simp add: q map_of_eq_None_iff)
  have "map (new_sort qs) (serve_sort q rows) = map (new_sort (q # qs)) rows"
    by (simp add: serve_sort_def upd_where_def q new_sort_def i)
  then show ?case using Cons by simp
qed

lemma sort_requests_of:
  assumes "distinct (map ci_id ordered)"
  shows "map fst (sort_requests ordered) = map ci_id ordered"
    and "k < length ordered \<Longrightarrow> map_of (sort_requests ordered) (ci_id (ordered ! k)) = Some (int k * 10)"
proof -
  show m: "map fst (sort_requests ordered) = map ci_id ordered"
    by (rule nth_equalityI) (simp_all add: sort_requests_def)
  show "map_of (sort_requests ordered) (ci_id (ordered ! k)) = Some (int k * 10)" if "k < length ordered"
  proof -
    have "(ci_id (ordered ! k), int k * 10) = sort_requests ordered ! k"
      and "k < length (sort_requests ordered)"
      using that by (simp_all add: sort_requests_def)
    then have "(ci_id (ordered ! k), int k * 10) \<in> set (sort_requests ordered)" by (metis nth_mem)
    then show ?thesis using assms m by (simp add: map_of_eq_Some_iff)
  qed
qed

lemma sort_key_unique:
  assumes "mset xs = mset ys" and "sorted (map f ys)" and "distinct (map f ys)"
  shows "sort_key f xs = ys"
  using assms mset_eq_setD[OF assms(1)] sort_key_inj_key_eq[OF assms(1), of f] by (simp add: distinct_map)

text \<open>
  C37. Moving a skill puts it where it was asked to go: once the Server has accepted the new numbers,
  whatever the order in which they reached it and in which it lists the skills afterwards, the page
  shows them in the order asked for, also when some had the same number before.
\<close>

theorem moved_skill_stays_moved:
  assumes "distinct (map ci_id (kp_items p))" and "mset rows = mset (kp_items p)"
    and "moved item delta (kp_items p) = Some ordered"
    and "mset qs = mset (snd (moveSkill item delta p))" and "mset (ka_items a) = mset (fold serve_sort qs rows)"
  shows "kp_items (moveSkill_reloaded (Inr a) p') =
    map (\<lambda>(c, k). c\<lparr> ci_sort := int k * 10 \<rparr>) (zip ordered [0..<length ordered])"
proof -
  have ms: "mset ordered = mset (kp_items p)" using moved_mset assms(3) by blast
  have d: "distinct (map ci_id ordered)"
    using assms(1) ms by (metis mset_eq_imp_distinct_iff mset_map)
  have qs: "mset qs = mset (sort_requests ordered)" using assms(3,4) by (simp add: moveSkill_def)
  have dq: "distinct (map fst qs)"
    using d sort_requests_of(1)[OF d] qs by (metis mset_eq_imp_distinct_iff mset_map)
  have "map_of qs = map_of (sort_requests ordered)"
    using map_of_inject_set[OF dq, of "sort_requests ordered"] sort_requests_of(1)[OF d] d qs
    by (metis mset_eq_setD)
  then have ns: "new_sort qs = new_sort (sort_requests ordered)" by (simp add: new_sort_def fun_eq_iff)
  let ?target = "map (\<lambda>(c, k). c\<lparr> ci_sort := int k * 10 \<rparr>) (zip ordered [0..<length ordered])"
  have t: "map (new_sort (sort_requests ordered)) ordered = ?target"
    by (rule nth_equalityI) (simp_all add: new_sort_def sort_requests_of(2)[OF d])
  have "mset (ka_items a) = mset ?target"
    unfolding t[symmetric] using assms(2,5) ms by (simp add: serve_sorts[OF dq] ns)
  moreover have keys: "map ci_sort ?target = map (\<lambda>k. int k * 10) [0..<length ordered]"
    by (rule nth_equalityI) simp_all
  ultimately have "sort_key ci_sort (ka_items a) = ?target"
    by (intro sort_key_unique) (simp_all add: distinct_map inj_on_def keys sorted_map sorted_wrt_iff_nth_less)
  then show ?thesis by (simp add: moveSkill_reloaded_def skills_loaded_def)
qed

definition demo_item :: "string \<Rightarrow> int \<Rightarrow> skill_data console_item" where
  "demo_item i n =
     \<lparr> ci_id = i,
       ci_data = \<lparr> sk_slug = i, sk_name = i, sk_icon = [], sk_category_slug = [], sk_category = [],
         sk_description = [], sk_instructions = [], sk_skill_markdown = None, sk_tools = [], sk_files = [],
         sk_min_app_version = None \<rparr>,
       ci_sort = n, ci_enabled = True, ci_version = 1 \<rparr>"

definition demo_page :: skills_page where
  "demo_page = (initial_skills_page None)\<lparr> kp_items := [demo_item ''a'' 5, demo_item ''b'' 5] \<rparr>"

theorem moved_skill_stays_moved_witness:
  "map ci_id (kp_items (moveSkill_reloaded
     (Inr \<lparr> ka_items = [demo_item ''a'' 10, demo_item ''b'' 0], ka_categories = [], ka_tools = [], ka_releases = [] \<rparr>)
     demo_page)) = [''b'', ''a'']"
proof -
  have m: "moved (demo_item ''b'' 5) (- 1) (kp_items demo_page) = Some [demo_item ''b'' 5, demo_item ''a'' 5]"
    by code_simp
  have q: "snd (moveSkill (demo_item ''b'' 5) (- 1) demo_page) = [(''b'', 0), (''a'', 10)]" by code_simp
  have "mset [demo_item ''a'' 10, demo_item ''b'' 0] =
      mset (fold serve_sort [(''a'', 10), (''b'', 0)] [demo_item ''b'' 5, demo_item ''a'' 5])"
    by (simp add: serve_sort_def demo_item_def)
  then show ?thesis
    using q moved_skill_stays_moved[OF _ _ m, where qs = "[(''a'', 10), (''b'', 0)]"
      and rows = "[demo_item ''b'' 5, demo_item ''a'' 5]"
      and a = "\<lparr> ka_items = [demo_item ''a'' 10, demo_item ''b'' 0], ka_categories = [], ka_tools = [], ka_releases = [] \<rparr>"
      and p' = demo_page]
    by (simp add: demo_page_def demo_item_def serve_sort_def)
qed

subsection \<open>Categories\<close>

datatype 'a editing = NotEditing | EditNew | EditItem 'a

record category_form =
  cf_slug :: string
  cf_name :: string
  cf_icon :: string
  cf_description :: string
  cf_sort :: int

record categories_panel =
  cg_editing :: "skill_category console_item editing"
  cg_saving :: bool
  cg_form :: category_form

definition category_form_of :: "nat \<Rightarrow> skill_category console_item option \<Rightarrow> category_form" where
  "category_form_of n item =
     (case item of
        None \<Rightarrow> \<lparr> cf_slug = [], cf_name = [], cf_icon = PUZZLE, cf_description = [], cf_sort = int n * 10 \<rparr>
      | Some i \<Rightarrow> let d = ci_data i in
          \<lparr> cf_slug = sc_slug d, cf_name = sc_name d, cf_icon = or_str (sc_icon d) PUZZLE,
            cf_description = sc_description d, cf_sort = ci_sort i \<rparr>)"

definition open_category ::
  "nat \<Rightarrow> skill_category console_item option \<Rightarrow> categories_panel \<Rightarrow> categories_panel" where
  "open_category n item g =
     g\<lparr> cg_editing := (case item of None \<Rightarrow> EditNew | Some i \<Rightarrow> EditItem i), cg_form := category_form_of n item \<rparr>"

datatype 'd item_request =
  CreateItem 'd int | ChangeItem string 'd int | EnableItem string bool | DeleteItem string

definition category_of_form :: "category_form \<Rightarrow> skill_category" where
  "category_of_form f =
     \<lparr> sc_slug = cf_slug f, sc_name = cf_name f, sc_icon = cf_icon f, sc_description = cf_description f \<rparr>"

definition category_form_valid :: "category_form \<Rightarrow> bool" where
  "category_form_valid f \<longleftrightarrow> slug_rule (cf_slug f) \<and> trim (cf_name f) \<noteq> []"

definition save_category ::
  "category_form \<Rightarrow> categories_panel \<Rightarrow> categories_panel \<times> skill_category item_request" where
  "save_category values g =
     (g\<lparr> cg_saving := True \<rparr>,
      case cg_editing g of
        EditItem i \<Rightarrow> ChangeItem (ci_id i) (category_of_form values) (cf_sort values)
      | _ \<Rightarrow> CreateItem (category_of_form values) (cf_sort values))"

text \<open>Accepted: the panel closes and the data is read again, and only then may it save again.\<close>

definition save_category_done :: "unit res \<Rightarrow> categories_panel \<Rightarrow> categories_panel \<times> bool" where
  "save_category_done r g =
     (case r of
        Inr _ \<Rightarrow> (g\<lparr> cg_editing := NotEditing \<rparr>, True)
      | Inl _ \<Rightarrow> (g\<lparr> cg_saving := False \<rparr>, False))"

definition save_category_reloaded :: "categories_panel \<Rightarrow> categories_panel" where
  "save_category_reloaded g = g\<lparr> cg_saving := False \<rparr>"

definition toggle_category :: "skill_category console_item \<Rightarrow> bool \<Rightarrow> skill_category item_request" where
  "toggle_category i enabled = EnableItem (ci_id i) enabled"

definition delete_category :: "skill_category console_item \<Rightarrow> skill_category item_request" where
  "delete_category i = DeleteItem (ci_id i)"

text \<open>How many skills a category has.\<close>

definition skill_count :: "skill_data console_item list \<Rightarrow> skill_category console_item \<Rightarrow> nat" where
  "skill_count skills c = length (filter (\<lambda>s. sk_category_slug (ci_data s) = sc_slug (ci_data c)) skills)"

subsection \<open>Blocked skills of the public hub\<close>

record hub_block =
  hb_slug :: string
  hb_reason :: string

record hub_panel =
  hp_items :: "hub_block console_item list"
  hp_loading :: bool
  hp_open :: bool
  hp_form :: hub_block

definition empty_block :: hub_block where "empty_block = \<lparr> hb_slug = [], hb_reason = [] \<rparr>"

definition initial_hub :: hub_panel where
  "initial_hub = \<lparr> hp_items = [], hp_loading = True, hp_open = False, hp_form = empty_block \<rparr>"

definition hub_load :: "hub_panel \<Rightarrow> hub_panel" where
  "hub_load h = h\<lparr> hp_loading := True \<rparr>"

definition hub_loaded :: "hub_block console_item list res \<Rightarrow> hub_panel \<Rightarrow> hub_panel" where
  "hub_loaded r h =
     (case r of
        Inr xs \<Rightarrow> h\<lparr> hp_items := xs, hp_loading := False \<rparr>
      | Inl _ \<Rightarrow> h\<lparr> hp_loading := False \<rparr>)"

definition hub_add :: "hub_panel \<Rightarrow> hub_panel" where
  "hub_add h = h\<lparr> hp_form := empty_block, hp_open := True \<rparr>"

definition hub_cancel :: "hub_panel \<Rightarrow> hub_panel" where
  "hub_cancel h = h\<lparr> hp_open := False \<rparr>"

definition hub_save :: "hub_panel \<Rightarrow> hub_block item_request option" where
  "hub_save h =
     (if trim (hb_slug (hp_form h)) \<noteq> [] \<and> slug_rule (hb_slug (hp_form h))
      then Some (CreateItem (hp_form h) 0) else None)"

definition hub_save_done :: "unit res \<Rightarrow> hub_panel \<Rightarrow> hub_panel \<times> bool" where
  "hub_save_done r h =
     (case r of Inr _ \<Rightarrow> (hub_load (h\<lparr> hp_open := False \<rparr>), True) | Inl _ \<Rightarrow> (h, False))"

text \<open>Removing a block has no \<open>catch\<close>: a refusal is not shown.\<close>

definition hub_restore :: "hub_block console_item \<Rightarrow> hub_block item_request" where
  "hub_restore i = DeleteItem (ci_id i)"

definition hub_restore_done :: "unit res \<Rightarrow> hub_panel \<Rightarrow> hub_panel \<times> bool" where
  "hub_restore_done r h = (case r of Inr _ \<Rightarrow> (hub_load h, True) | Inl _ \<Rightarrow> (h, False))"

subsection \<open>Recommended skills\<close>

text \<open>A recommendation's data is whatever object the Server holds; the form reads texts from it.\<close>

record recommendation_form =
  rf_provider :: string
  rf_skill_slug :: string
  rf_title :: string
  rf_icon :: string
  rf_category_slug :: string
  rf_description :: string
  rf_sort :: int

record recommendations_panel =
  rc_items :: "(string \<times> json) list console_item list"
  rc_loading :: bool
  rc_editing :: "(string \<times> json) list console_item editing"
  rc_form :: recommendation_form

definition text_or :: "json \<Rightarrow> string \<Rightarrow> string" where
  "text_or v d = (if jtruthy v then value_text v else d)"

definition skill_by_slug :: "string \<Rightarrow> skill_data console_item list \<Rightarrow> skill_data option" where
  "skill_by_slug slug skills = map_option ci_data (List.find (\<lambda>s. sk_slug (ci_data s) = slug) skills)"

definition recommendations_load :: "recommendations_panel \<Rightarrow> recommendations_panel" where
  "recommendations_load g = g\<lparr> rc_loading := True \<rparr>"

definition recommendations_loaded ::
  "(string \<times> json) list console_item list res \<Rightarrow> recommendations_panel \<Rightarrow> recommendations_panel" where
  "recommendations_loaded r g =
     (case r of
        Inr xs \<Rightarrow> g\<lparr> rc_items := xs, rc_loading := False \<rparr>
      | Inl _ \<Rightarrow> g\<lparr> rc_loading := False \<rparr>)"

definition syncAgentMateCategory ::
  "skill_data console_item list \<Rightarrow> string \<Rightarrow> recommendation_form \<Rightarrow> recommendation_form" where
  "syncAgentMateCategory skills slug f =
     (case skill_by_slug slug skills of
        None \<Rightarrow> f | Some s \<Rightarrow> f\<lparr> rf_category_slug := sk_category_slug s \<rparr>)"

definition choose_provider ::
  "skill_data console_item list \<Rightarrow> string \<Rightarrow> recommendation_form \<Rightarrow> recommendation_form" where
  "choose_provider skills value f =
     (let g = f\<lparr> rf_provider := value \<rparr>
      in if value = ''agentmate'' then syncAgentMateCategory skills (rf_skill_slug f) g else g)"

definition select_skill ::
  "skill_data console_item list \<Rightarrow> string \<Rightarrow> recommendation_form \<Rightarrow> recommendation_form" where
  "select_skill skills value f =
     (let g = f\<lparr> rf_skill_slug := value \<rparr>
      in if rf_provider f = ''agentmate'' then syncAgentMateCategory skills value g else g)"

definition open_recommendation ::
  "skill_data console_item list \<Rightarrow> skill_category console_item list
    \<Rightarrow> (string \<times> json) list console_item option \<Rightarrow> recommendations_panel \<Rightarrow> recommendations_panel" where
  "open_recommendation skills categories item g =
     (let d = JObj (case item of None \<Rightarrow> [] | Some i \<Rightarrow> ci_data i);
          slug = text_or (jget ''skill_slug'' d) [];
          inherited = opt_str (map_option sk_category_slug (skill_by_slug slug skills));
          legacy = opt_str (map_option (\<lambda>c. sc_slug (ci_data c))
            (List.find (\<lambda>c. sc_name (ci_data c) = text_or (jget ''category'' d) []) categories))
      in g\<lparr> rc_editing := (case item of None \<Rightarrow> EditNew | Some i \<Rightarrow> EditItem i),
           rc_form := \<lparr> rf_provider = text_or (jget ''provider'' d) ''agentmate'', rf_skill_slug = slug,
             rf_title = text_or (jget ''title'' d) [], rf_icon = text_or (jget ''icon'' d) [],
             rf_category_slug = text_or (jget ''category_slug'' d) (or_str inherited legacy),
             rf_description = text_or (jget ''description'' d) [],
             rf_sort = (case item of None \<Rightarrow> 0 | Some i \<Rightarrow> ci_sort i) \<rparr> \<rparr>)"

definition recommendation_valid :: "recommendation_form \<Rightarrow> bool" where
  "recommendation_valid f \<longleftrightarrow> rf_provider f \<noteq> [] \<and> slug_rule (rf_skill_slug f) \<and> rf_category_slug f \<noteq> []"

definition opt_text :: "string option \<Rightarrow> json" where
  "opt_text t = (case t of None \<Rightarrow> JUndef | Some s \<Rightarrow> JStr s)"

text \<open>The data sent: what the item held, the form's values over it, and the category of the skill itself.\<close>

definition recommendation_data ::
  "skill_data console_item list \<Rightarrow> skill_category console_item list \<Rightarrow> recommendation_form
    \<Rightarrow> (string \<times> json) list \<Rightarrow> (string \<times> json) list" where
  "recommendation_data skills categories f old =
     (let skill = skill_by_slug (rf_skill_slug f) skills;
          chosen = List.find (\<lambda>c. sc_slug (ci_data c) = rf_category_slug f) categories;
          own = rf_provider f = ''agentmate''
      in fold (\<lambda>(k, v). jset k v)
           [(''provider'', JStr (rf_provider f)), (''skill_slug'', JStr (rf_skill_slug f)),
            (''title'', JStr (rf_title f)), (''icon'', JStr (rf_icon f)),
            (''description'', JStr (rf_description f)),
            (''category_slug'', if own then opt_text (map_option sk_category_slug skill)
               else JStr (rf_category_slug f)),
            (''category'', if own then opt_text (map_option sk_category skill)
               else opt_text (map_option (\<lambda>c. sc_name (ci_data c)) chosen)),
            (''placement'', JStr ''skills.recommended'')] old)"

definition save_recommendation ::
  "skill_data console_item list \<Rightarrow> skill_category console_item list \<Rightarrow> recommendations_panel
    \<Rightarrow> (string \<times> json) list item_request option" where
  "save_recommendation skills categories g =
     (if \<not> recommendation_valid (rc_form g) then None
      else case rc_editing g of
        EditItem i \<Rightarrow> Some (ChangeItem (ci_id i)
          (recommendation_data skills categories (rc_form g) (ci_data i)) (rf_sort (rc_form g)))
      | _ \<Rightarrow> Some (CreateItem
          (jset ''ends_at'' (JNum 0) (jset ''starts_at'' (JNum 0)
            (recommendation_data skills categories (rc_form g) []))) (rf_sort (rc_form g))))"

definition save_recommendation_done ::
  "unit res \<Rightarrow> recommendations_panel \<Rightarrow> recommendations_panel \<times> bool" where
  "save_recommendation_done r g =
     (case r of
        Inr _ \<Rightarrow> (recommendations_load (g\<lparr> rc_editing := NotEditing \<rparr>), True)
      | Inl _ \<Rightarrow> (g, False))"

text \<open>The switch and the confirmed deletion have no \<open>catch\<close>.\<close>

definition toggle_recommendation :: "(string \<times> json) list console_item \<Rightarrow> bool \<Rightarrow> (string \<times> json) list item_request" where
  "toggle_recommendation i enabled = EnableItem (ci_id i) enabled"

definition delete_recommendation :: "(string \<times> json) list console_item \<Rightarrow> (string \<times> json) list item_request" where
  "delete_recommendation i = DeleteItem (ci_id i)"

definition recommendation_changed :: "unit res \<Rightarrow> recommendations_panel \<Rightarrow> recommendations_panel \<times> bool" where
  "recommendation_changed r g = (case r of Inr _ \<Rightarrow> (recommendations_load g, True) | Inl _ \<Rightarrow> (g, False))"

text \<open>A saved recommendation keeps the schedule it had, and loses its own placement.\<close>

lemma saved_recommendation_fields:
  "jget ''starts_at'' (JObj (recommendation_data skills categories f old)) = jget ''starts_at'' (JObj old)"
  "jget ''placement'' (JObj (recommendation_data skills categories f old)) = JStr ''skills.recommended''"
  by (simp_all add: recommendation_data_def Let_def del: jget.simps)

end
