(* ===== verification/SettingsPanels.thy ===== *)
theory SettingsPanels
  imports Shell Account Updates
begin

text \<open>
  The settings centre of the desktop client (\<open>src/src/components/settings/SettingsModal.tsx\<close>,
  \<open>DesktopUpdateSettings.tsx\<close> and \<open>DeviceRuntimeSettings.tsx\<close> beside it): its navigation, the
  account page, and the pages that edit a copy of some settings and save it as a whole. What
  those pages share is the locale \<open>draft_panel\<close>. The security and memory pages have theories of
  their own.
\<close>

subsection \<open>Pages that edit a draft\<close>

text \<open>
  A page holds a draft, whether it was touched, and whether a save is under way. Saving sends
  the draft; the answer holds the settings as kept.
\<close>

locale draft_panel =
  fixes draft_of :: "'p \<Rightarrow> 'd" and dirty_of :: "'p \<Rightarrow> bool" and saving_of :: "'p \<Rightarrow> bool"
    and begin_save :: "'p \<Rightarrow> 'p \<times> 'd" and end_save :: "'a res \<Rightarrow> 'p \<Rightarrow> 'p" and kept :: "'a \<Rightarrow> 'd"
    and edit :: "'e \<Rightarrow> 'p \<Rightarrow> 'p"
  assumes begin_sends: "snd (begin_save p) = draft_of p"
    and begin_shows: "draft_of (fst (begin_save p)) = draft_of p"
      "dirty_of (fst (begin_save p)) = dirty_of p" "saving_of (fst (begin_save p))"
    and end_ok: "draft_of (end_save (Inr a) p) = kept a" "\<not> dirty_of (end_save (Inr a) p)"
    and end_err: "draft_of (end_save (Inl e) p) = draft_of p" "dirty_of (end_save (Inl e) p) = dirty_of p"
    and end_frees: "\<not> saving_of (end_save r p)"
    and edit_marks: "dirty_of (edit x p)" "saving_of (edit x p) = saving_of p"
begin

lemma edits_mark: "xs \<noteq> [] \<Longrightarrow> dirty_of (fold edit xs p)"
  by (induction xs rule: rev_induct) (simp_all add: edit_marks)

lemma edits_saving: "saving_of (fold edit xs p) = saving_of p"
  by (induction xs arbitrary: p) (simp_all add: edit_marks)

text \<open>Edits made while a save is under way: gone when it succeeds, kept when it fails.\<close>

lemma edits_lost:
  assumes "begin_save p = (p1, sent)" "kept a = sent"
  shows "draft_of (end_save (Inr a) (fold edit xs p1)) = draft_of p
    \<and> \<not> dirty_of (end_save (Inr a) (fold edit xs p1))"
  using assms begin_sends [of p] by (simp add: end_ok)

lemma refused_keeps:
  assumes "begin_save p = (p1, sent)"
  shows "draft_of (end_save (Inl e) (fold edit xs p1)) = draft_of (fold edit xs p1)
    \<and> (xs \<noteq> [] \<longrightarrow> dirty_of (end_save (Inl e) (fold edit xs p1)))
    \<and> \<not> saving_of (end_save (Inl e) (fold edit xs p1))"
  by (simp add: end_err end_frees edits_mark)

end

datatype settings_effect = StToast string

subsection \<open>Personalisation\<close>

record style_preset =
  sr_key :: string
  sr_label :: string
  sr_desc :: string

record app_settings =
  as_style :: string
  as_custom :: string
  as_presets :: "style_preset list"

record personalize_panel =
  pz_presets :: "style_preset list"
  pz_style :: string
  pz_custom :: string
  pz_loaded :: bool
  pz_saving :: bool
  pz_dirty :: bool

definition initial_personalize :: personalize_panel where
  "initial_personalize =
     \<lparr> pz_presets = [], pz_style = ''default'', pz_custom = [], pz_loaded = False,
       pz_saving = False, pz_dirty = False \<rparr>"

definition personalize_load_done ::
  "app_settings res \<Rightarrow> personalize_panel \<Rightarrow> personalize_panel \<times> settings_effect list" where
  "personalize_load_done r p =
     (case r of
        Inr s \<Rightarrow> (p\<lparr> pz_presets := as_presets s, pz_style := as_style s, pz_custom := as_custom s,
                     pz_loaded := True \<rparr>, [])
      | Inl e \<Rightarrow> (p\<lparr> pz_loaded := True \<rparr>, [StToast ''not loaded'']))"

datatype personalize_edit = PickStyle string | WriteCustom string

fun edit_personalize :: "personalize_edit \<Rightarrow> personalize_panel \<Rightarrow> personalize_panel" where
  "edit_personalize (PickStyle k) p = p\<lparr> pz_style := k, pz_dirty := True \<rparr>"
| "edit_personalize (WriteCustom t) p = p\<lparr> pz_custom := t, pz_dirty := True \<rparr>"

definition personalize_save :: "personalize_panel \<Rightarrow> personalize_panel \<times> string \<times> string" where
  "personalize_save p = (p\<lparr> pz_saving := True \<rparr>, pz_style p, pz_custom p)"

definition personalize_save_done :: "app_settings res \<Rightarrow> personalize_panel \<Rightarrow> personalize_panel" where
  "personalize_save_done r p =
     (case r of
        Inr s \<Rightarrow> p\<lparr> pz_style := as_style s, pz_custom := as_custom s, pz_dirty := False, pz_saving := False \<rparr>
      | Inl e \<Rightarrow> p\<lparr> pz_saving := False \<rparr>)"

definition personalize_enabled :: "personalize_panel \<Rightarrow> bool" where
  "personalize_enabled p \<longleftrightarrow> pz_loaded p \<and> \<not> pz_saving p \<and> pz_dirty p"

interpretation personalize: draft_panel "\<lambda>p. (pz_style p, pz_custom p)" pz_dirty pz_saving
  personalize_save personalize_save_done "\<lambda>s. (as_style s, as_custom s)" edit_personalize
proof unfold_locales
  fix x p
  show "pz_dirty (edit_personalize x p)" "pz_saving (edit_personalize x p) = pz_saving p"
    by (cases x; simp)+
qed (simp_all add: personalize_save_def personalize_save_done_def split: sum.splits)

subsection \<open>System settings\<close>

record system_panel =
  sn_draft :: system_settings
  sn_dirty :: bool
  sn_saving :: bool

definition initial_system_panel :: "system_store \<Rightarrow> system_panel" where
  "initial_system_panel ss = \<lparr> sn_draft = ss_settings ss, sn_dirty = False, sn_saving = False \<rparr>"

text \<open>The effect that copies the store's settings into an untouched draft.\<close>

definition system_sync :: "system_store \<Rightarrow> system_panel \<Rightarrow> system_panel" where
  "system_sync ss p = (if \<not> ss_loaded ss \<or> sn_dirty p then p else p\<lparr> sn_draft := ss_settings ss \<rparr>)"

datatype system_edit =
  EditScale int | EditMotion bool | EditPermission perm | EditStartup string | EditReset

fun edit_system :: "system_edit \<Rightarrow> system_panel \<Rightarrow> system_panel" where
  "edit_system (EditScale n) p = p\<lparr> sn_draft := (sn_draft p)\<lparr> sy_interface_scale := n \<rparr>, sn_dirty := True \<rparr>"
| "edit_system (EditMotion b) p = p\<lparr> sn_draft := (sn_draft p)\<lparr> sy_reduce_motion := b \<rparr>, sn_dirty := True \<rparr>"
| "edit_system (EditPermission m) p =
     p\<lparr> sn_draft := (sn_draft p)\<lparr> sy_default_permission := m \<rparr>, sn_dirty := True \<rparr>"
| "edit_system (EditStartup v) p = p\<lparr> sn_draft := (sn_draft p)\<lparr> sy_startup_page := v \<rparr>, sn_dirty := True \<rparr>"
| "edit_system EditReset p = p\<lparr> sn_draft := system_defaults, sn_dirty := True \<rparr>"

definition system_panel_save :: "system_panel \<Rightarrow> system_panel \<times> system_settings" where
  "system_panel_save p = (p\<lparr> sn_saving := True \<rparr>, sn_draft p)"

definition system_panel_save_done :: "system_settings res \<Rightarrow> system_panel \<Rightarrow> system_panel" where
  "system_panel_save_done r p =
     (case r of
        Inr next \<Rightarrow> p\<lparr> sn_draft := next, sn_dirty := False, sn_saving := False \<rparr>
      | Inl e \<Rightarrow> p\<lparr> sn_saving := False \<rparr>)"

definition system_save_enabled :: "system_store \<Rightarrow> system_panel \<Rightarrow> bool" where
  "system_save_enabled ss p \<longleftrightarrow> ss_loaded ss \<and> \<not> sn_saving p \<and> sn_dirty p"

interpretation system: draft_panel sn_draft sn_dirty sn_saving
  system_panel_save system_panel_save_done "\<lambda>s. s" edit_system
proof unfold_locales
  fix x p
  show "sn_dirty (edit_system x p)" "sn_saving (edit_system x p) = sn_saving p"
    by (cases x; simp)+
qed (simp_all add: system_panel_save_def system_panel_save_done_def split: sum.splits)

subsection \<open>Agent settings\<close>

text \<open>The temperature is a number the page only copies and prints.\<close>

record 'n agent_settings =
  ag_max_rounds :: int
  ag_temperature :: 'n
  ag_default_rounds :: int
  ag_default_temperature :: 'n
  ag_rounds_limits :: "int \<times> int"
  ag_temperature_limits :: "'n \<times> 'n"

record 'n agent_panel =
  ap_settings :: "'n agent_settings option"
  ap_rounds :: int
  ap_temp :: 'n
  ap_dirty :: bool
  ap_saving :: bool

definition agent_load_done ::
  "'n agent_settings res \<Rightarrow> 'n agent_panel \<Rightarrow> 'n agent_panel \<times> settings_effect list" where
  "agent_load_done r p =
     (case r of
        Inr d \<Rightarrow> (p\<lparr> ap_settings := Some d, ap_rounds := ag_max_rounds d, ap_temp := ag_temperature d \<rparr>, [])
      | Inl e \<Rightarrow> (p, [StToast ''not loaded'']))"

datatype 'n agent_edit = EditRounds int | EditTemp 'n | EditDefaults

fun edit_agent :: "'n agent_edit \<Rightarrow> 'n agent_panel \<Rightarrow> 'n agent_panel" where
  "edit_agent (EditRounds n) p = p\<lparr> ap_rounds := n, ap_dirty := True \<rparr>"
| "edit_agent (EditTemp t) p = p\<lparr> ap_temp := t, ap_dirty := True \<rparr>"
| "edit_agent EditDefaults p =
     (case ap_settings p of
        None \<Rightarrow> p\<lparr> ap_dirty := True \<rparr>
      | Some s \<Rightarrow> p\<lparr> ap_rounds := ag_default_rounds s, ap_temp := ag_default_temperature s, ap_dirty := True \<rparr>)"

definition agent_save :: "'n agent_panel \<Rightarrow> 'n agent_panel \<times> int \<times> 'n" where
  "agent_save p = (p\<lparr> ap_saving := True \<rparr>, ap_rounds p, ap_temp p)"

definition agent_save_done :: "'n agent_settings res \<Rightarrow> 'n agent_panel \<Rightarrow> 'n agent_panel" where
  "agent_save_done r p =
     (case r of
        Inr d \<Rightarrow> p\<lparr> ap_settings := Some d, ap_rounds := ag_max_rounds d, ap_temp := ag_temperature d,
                    ap_dirty := False, ap_saving := False \<rparr>
      | Inl e \<Rightarrow> p\<lparr> ap_saving := False \<rparr>)"

interpretation agent: draft_panel "\<lambda>p. (ap_rounds p, ap_temp p)" ap_dirty ap_saving
  agent_save agent_save_done "\<lambda>d. (ag_max_rounds d, ag_temperature d)" edit_agent
proof unfold_locales
  fix x :: "'n agent_edit" and p
  show "ap_dirty (edit_agent x p)" "ap_saving (edit_agent x p) = ap_saving p"
    by (cases x; simp split: option.splits)+
qed (simp_all add: agent_save_def agent_save_done_def split: sum.splits)

text \<open>
  Edits made while a save is under way are dropped when it succeeds: whatever the user changes
  on the personalisation, system or agent page between pressing save and an answer that confirms
  what was sent, the page ends with the sent values, marked as saved. The inputs are not off
  meanwhile. A refused save keeps the edits, still to be saved.
\<close>

theorem edits_during_a_save_are_dropped:
  assumes "personalize_save p = (p1, sent)" "(as_style s, as_custom s) = sent"
    and "system_panel_save q = (q1, sy)" "agent_save a = (a1, nums)" "(ag_max_rounds d, ag_temperature d) = nums"
  shows "pz_style (personalize_save_done (Inr s) (fold edit_personalize xs p1)) = pz_style p
     \<and> pz_custom (personalize_save_done (Inr s) (fold edit_personalize xs p1)) = pz_custom p
     \<and> \<not> pz_dirty (personalize_save_done (Inr s) (fold edit_personalize xs p1))
     \<and> sn_draft (system_panel_save_done (Inr sy) (fold edit_system ys q1)) = sn_draft q
     \<and> \<not> sn_dirty (system_panel_save_done (Inr sy) (fold edit_system ys q1))
     \<and> ap_rounds (agent_save_done (Inr d) (fold edit_agent zs a1)) = ap_rounds a
     \<and> ap_temp (agent_save_done (Inr d) (fold edit_agent zs a1)) = ap_temp a
     \<and> \<not> ap_dirty (agent_save_done (Inr d) (fold edit_agent zs a1))
     \<and> system_panel_save_done (Inl e) (fold edit_system ys q1) = (fold edit_system ys q1)\<lparr> sn_saving := False \<rparr>"
  using personalize.edits_lost [OF assms(1,2), of xs] system.edits_lost [OF assms(3) refl, of ys]
    agent.edits_lost [OF assms(4,5), of zs]
  by (simp add: system_panel_save_done_def)

definition demo_system :: system_panel where
  "demo_system = \<lparr> sn_draft = system_defaults, sn_dirty = True, sn_saving = False \<rparr>"

definition demo_agent :: "int agent_panel" where
  "demo_agent = \<lparr> ap_settings = None, ap_rounds = 12, ap_temp = 6, ap_dirty = True, ap_saving = False \<rparr>"

theorem edits_during_a_save_are_dropped_witness:
  "pz_custom (personalize_save_done (Inr \<lparr> as_style = ''default'', as_custom = [], as_presets = [] \<rparr>)
     (edit_personalize (WriteCustom ''be brief'') (fst (personalize_save initial_personalize)))) = []"
proof -
  let ?s = "\<lparr> as_style = ''default'', as_custom = [], as_presets = [] \<rparr>"
  let ?d = "\<lparr> ag_max_rounds = 12, ag_temperature = 6, ag_default_rounds = 12, ag_default_temperature = 6,
              ag_rounds_limits = (1, 40), ag_temperature_limits = (0, 10) \<rparr> :: int agent_settings"
  have *: "personalize_save initial_personalize = (fst (personalize_save initial_personalize), ''default'', [])"
    "system_panel_save demo_system = (fst (system_panel_save demo_system), system_defaults)"
    "agent_save demo_agent = (fst (agent_save demo_agent), 12, 6)"
    by (simp_all add: personalize_save_def initial_personalize_def system_panel_save_def demo_system_def
        agent_save_def demo_agent_def)
  from edits_during_a_save_are_dropped [OF *(1) _ *(2) *(3), of ?s ?d "[WriteCustom ''be brief'']" "[]" "[]"]
  show ?thesis by (simp add: initial_personalize_def)
qed

subsection \<open>Data\<close>

record data_summary =
  dm_sessions :: int
  dm_messages :: int
  dm_memories :: int

record data_panel =
  da_sum :: "data_summary option"
  da_busy :: bool
  da_confirming :: bool

definition data_load_done :: "data_summary res \<Rightarrow> data_panel \<Rightarrow> data_panel \<times> settings_effect list" where
  "data_load_done r p =
     (case r of Inr s \<Rightarrow> (p\<lparr> da_sum := Some s \<rparr>, []) | Inl e \<Rightarrow> (p, [StToast ''not loaded'']))"

definition data_busy :: "data_panel \<Rightarrow> data_panel" where
  "data_busy p = p\<lparr> da_busy := True \<rparr>"

text \<open>The file offered: its name with the day of the export, and the answer printed.\<close>

definition doExport_done ::
  "(json \<Rightarrow> string) \<Rightarrow> string \<Rightarrow> json res \<Rightarrow> data_panel \<Rightarrow> data_panel \<times> (string \<times> string) option \<times> settings_effect list" where
  "doExport_done print now r p =
     (case r of
        Inr d \<Rightarrow> (p\<lparr> da_busy := False \<rparr>, Some (''agentmate-export-'' @ take 10 now @ ''.json'', print d),
                 [StToast ''exported''])
      | Inl e \<Rightarrow> (p\<lparr> da_busy := False \<rparr>, None, [StToast ''not exported'']))"

text \<open>The flag tells whether the summary is read again.\<close>

definition doClear_done :: "int res \<Rightarrow> data_panel \<Rightarrow> data_panel \<times> bool \<times> settings_effect list" where
  "doClear_done r p =
     (case r of
        Inr removed \<Rightarrow> (p\<lparr> da_confirming := False, da_busy := False \<rparr>, True,
                        [StToast (''removed '' @ dec_int removed)])
      | Inl e \<Rightarrow> (p\<lparr> da_busy := False \<rparr>, False, [StToast ''not cleared'']))"

definition ask_clear :: "data_panel \<Rightarrow> data_panel" where
  "ask_clear p = (if da_busy p \<or> da_sum p = None then p else p\<lparr> da_confirming := True \<rparr>)"

subsection \<open>Updates\<close>

record updates_panel =
  ug_prefs :: update_preferences
  ug_result :: json
  ug_busy :: bool
  ug_error :: string

definition initial_updates_panel ::
  "json_codec \<Rightarrow> string \<Rightarrow> string \<Rightarrow> storage \<Rightarrow> updates_panel \<times> storage" where
  "initial_updates_panel c build uuid ls =
     (case getUpdatePreferences c build uuid ls of
        (prefs, ls1) \<Rightarrow>
          (\<lparr> ug_prefs = prefs, ug_result = getLastUpdateResult c ls1, ug_busy = False, ug_error = [] \<rparr>, ls1))"

definition update_status_event :: "json \<Rightarrow> updates_panel \<Rightarrow> updates_panel" where
  "update_status_event detail g = g\<lparr> ug_result := detail \<rparr>"

definition persist_preferences ::
  "json_codec \<Rightarrow> update_preferences \<Rightarrow> updates_panel \<times> storage \<Rightarrow> updates_panel \<times> storage" where
  "persist_preferences c next gs =
     (case saveUpdatePreferences c next (snd gs) of
        (prefs, ls1) \<Rightarrow> ((fst gs)\<lparr> ug_prefs := prefs, ug_error := [] \<rparr>, ls1))"

definition check_begin ::
  "json_codec \<Rightarrow> updates_panel \<times> storage \<Rightarrow> (updates_panel \<times> storage) \<times> update_preferences" where
  "check_begin c gs =
     (case saveUpdatePreferences c (ug_prefs (fst gs)) (snd gs) of
        (prefs, ls1) \<Rightarrow> (((fst gs)\<lparr> ug_busy := True, ug_error := [] \<rparr>, ls1), prefs))"

definition check_done :: "bool \<Rightarrow> json res \<Rightarrow> updates_panel \<Rightarrow> updates_panel \<times> settings_effect list" where
  "check_done install r g =
     (case r of
        Inr next \<Rightarrow> (g\<lparr> ug_result := next, ug_busy := False \<rparr>,
           (if jget ''status'' next = JStr ''latest'' then [StToast ''up to date''] else [])
           @ (if jget ''status'' next = JStr ''available'' then [StToast ''found a version''] else []))
      | Inl e \<Rightarrow> (g\<lparr> ug_error := exn_message e, ug_busy := False \<rparr>,
           [StToast (if install then ''not installed'' else ''not checked'')]))"

definition check_enabled :: "bool \<Rightarrow> updates_panel \<Rightarrow> bool" where
  "check_enabled isDesktop g \<longleftrightarrow> isDesktop \<and> \<not> ug_busy g \<and> up_endpoint (ug_prefs g) \<noteq> []"

text \<open>Typing the address with a slash at its end loses the slash at once: the saved form is shown.\<close>

lemma typed_slash_disappears:
  "up_endpoint (ug_prefs (fst (persist_preferences c (p\<lparr> up_endpoint := v \<rparr>) gs))) = clean_endpoint v"
  by (simp add: persist_preferences_def saveUpdatePreferences_def Let_def)

subsection \<open>The settings centre\<close>

definition tab_groups :: "(string \<times> settings_tab list) list" where
  "tab_groups =
     [(''account'', [TabAccount]),
      (''application'', [TabSystem, TabPersonalize]),
      (''AI and abilities'', [TabAgent, TabRuntime, TabDiagnostics, TabModel, TabMemory]),
      (''data and security'', [TabData, TabSecurity])]"

lemma every_tab_is_offered_once:
  "distinct (concat (map snd tab_groups)) \<and> t \<in> set (concat (map snd tab_groups))"
  by (cases t) (simp_all add: tab_groups_def)

text \<open>The rows of the account page; the plan and the model are read from the profile too.\<close>

definition account_rows :: "bool \<Rightarrow> (string \<times> string \<times> string \<times> bool) option \<Rightarrow> (string \<times> string) list" where
  "account_rows loggedIn profile =
     [(''name'', if loggedIn then (case profile of None \<Rightarrow> ''Server user'' | Some (n, p, r, l) \<Rightarrow> n) else ''signed out''),
      (''plan'', if loggedIn then (case profile of None \<Rightarrow> ''trial'' | Some (n, p, r, l) \<Rightarrow> p) else ''-''),
      (''role'', if loggedIn then (case profile of None \<Rightarrow> ''-'' | Some (n, p, r, l) \<Rightarrow> r) else ''guest''),
      (''model'', case profile of None \<Rightarrow> ''not configured''
         | Some (n, p, r, l) \<Rightarrow> if l then ''configured'' else ''not configured'')]"

end
