(* ===== verification/SecurityPanel.thy ===== *)
theory SecurityPanel
  imports JsText
begin

text \<open>
  The security page of the settings (\<open>SecurityPanel\<close> in
  \<open>src/src/components/settings/SettingsModal.tsx\<close>): the list of command fragments the Local Agent
  refuses to run, the record of the commands it ran or refused, and the agent's own storing of
  the list (\<open>set_command_blocklist\<close> in \<open>src/backend/agent/security.py\<close>). Every change sends the
  whole list, computed from the one on the screen.
\<close>

subsection \<open>State\<close>

record audit_entry =
  au_id :: string
  au_tool :: string
  au_detail :: string
  au_action :: string
  au_created_at :: int

record security_panel =
  sp_blocklist :: "string list"
  sp_audit :: "audit_entry list"
  sp_draft :: string
  sp_busy :: bool

definition initial_security_panel :: security_panel where
  "initial_security_panel = \<lparr> sp_blocklist = [], sp_audit = [], sp_draft = [], sp_busy = False \<rparr>"

text \<open>What a handler asks for: a message, the two reads of \<open>loadAll\<close>, or a write of the list.\<close>

datatype security_effect = SpToast string | SpLoadAll | SpSave "string list" | SpClearAudit

subsection \<open>Operations\<close>

definition policy_done :: "string list res \<Rightarrow> security_panel \<Rightarrow> security_panel \<times> security_effect list" where
  "policy_done r p =
     (case r of
        Inr xs \<Rightarrow> (p\<lparr> sp_blocklist := xs \<rparr>, [])
      | Inl e \<Rightarrow> (p, [SpToast ''the policy could not be read'']))"

definition audit_done :: "audit_entry list res \<Rightarrow> security_panel \<Rightarrow> security_panel" where
  "audit_done r p = (case r of Inr xs \<Rightarrow> p\<lparr> sp_audit := xs \<rparr> | Inl e \<Rightarrow> p)"

definition security_persist :: "string list \<Rightarrow> security_panel \<Rightarrow> security_panel \<times> security_effect list" where
  "security_persist next p = (p\<lparr> sp_busy := True \<rparr>, [SpSave next])"

definition security_persist_done ::
  "string list res \<Rightarrow> security_panel \<Rightarrow> security_panel \<times> security_effect list" where
  "security_persist_done r p =
     (case r of
        Inr xs \<Rightarrow> (p\<lparr> sp_blocklist := xs, sp_busy := False \<rparr>, [])
      | Inl e \<Rightarrow> (p\<lparr> sp_busy := False \<rparr>, [SpToast ''not saved'', SpLoadAll]))"

definition write_draft :: "string \<Rightarrow> security_panel \<Rightarrow> security_panel" where
  "write_draft v p = p\<lparr> sp_draft := v \<rparr>"

definition security_add :: "security_panel \<Rightarrow> security_panel \<times> security_effect list" where
  "security_add p =
     (let v = trim (sp_draft p) in
      if v = [] \<or> v \<in> set (sp_blocklist p) then (p\<lparr> sp_draft := [] \<rparr>, [])
      else security_persist (sp_blocklist p @ [v]) (p\<lparr> sp_draft := [] \<rparr>))"

definition security_remove :: "string \<Rightarrow> security_panel \<Rightarrow> security_panel \<times> security_effect list" where
  "security_remove v p = security_persist (filter (\<lambda>x. x \<noteq> v) (sp_blocklist p)) p"

text \<open>The button is off while a save is under way; the Enter key and the crosses are not.\<close>

definition add_enabled :: "security_panel \<Rightarrow> bool" where
  "add_enabled p \<longleftrightarrow> trim (sp_draft p) \<noteq> [] \<and> \<not> sp_busy p"

definition clearAudit :: "security_panel \<Rightarrow> security_panel \<times> security_effect list" where
  "clearAudit p = (p\<lparr> sp_busy := True \<rparr>, [SpClearAudit])"

definition clearAudit_done :: "unit res \<Rightarrow> security_panel \<Rightarrow> security_panel \<times> security_effect list" where
  "clearAudit_done r p =
     (case r of
        Inr _ \<Rightarrow> (p\<lparr> sp_audit := [], sp_busy := False \<rparr>, [SpToast ''audit cleared''])
      | Inl e \<Rightarrow> (p\<lparr> sp_busy := False \<rparr>, [SpToast ''not cleared'']))"

subsection \<open>The agent's list\<close>

text \<open>\<open>norm\<close> stands for Python's \<open>str(p).strip()[:200]\<close>.\<close>

fun clean_patterns :: "(string \<Rightarrow> string) \<Rightarrow> string list \<Rightarrow> string list \<Rightarrow> string list" where
  "clean_patterns norm clean [] = clean"
| "clean_patterns norm clean (p # ps) =
     (let s = norm p in
      if s \<noteq> [] \<and> s \<notin> set clean then clean_patterns norm (clean @ [s]) ps
      else clean_patterns norm clean ps)"

definition set_command_blocklist :: "(string \<Rightarrow> string) \<Rightarrow> string list \<Rightarrow> string list" where
  "set_command_blocklist norm ps = take 100 (clean_patterns norm [] ps)"

text \<open>A list as the agent stores it: no rule twice, none empty, and at most a hundred.\<close>

definition clean_rule :: "(string \<Rightarrow> string) \<Rightarrow> string \<Rightarrow> bool" where
  "clean_rule norm x \<longleftrightarrow> x \<noteq> [] \<and> norm x = x"

definition stored_rules :: "(string \<Rightarrow> string) \<Rightarrow> string list \<Rightarrow> bool" where
  "stored_rules norm xs \<longleftrightarrow> distinct xs \<and> list_all (clean_rule norm) xs \<and> length xs \<le> 100"

lemma clean_patterns_id:
  assumes "distinct (acc @ xs)" "list_all (clean_rule norm) xs"
  shows "clean_patterns norm acc xs = acc @ xs"
  using assms
proof (induction xs arbitrary: acc)
  case (Cons x xs)
  then have "norm x = x" "x \<noteq> []" "x \<notin> set acc" by (simp_all add: clean_rule_def)
  moreover have "clean_patterns norm (acc @ [x]) xs = (acc @ [x]) @ xs"
    by (rule Cons.IH) (use Cons.prems in simp_all)
  ultimately show ?case by (simp add: Let_def)
qed simp

lemma clean_patterns_stored:
  assumes "\<And>x. norm (norm x) = norm x" "distinct acc" "list_all (clean_rule norm) acc"
  shows "distinct (clean_patterns norm acc xs) \<and> list_all (clean_rule norm) (clean_patterns norm acc xs)"
  using assms(2,3)
proof (induction xs arbitrary: acc)
  case (Cons x xs)
  show ?case
  proof (cases "norm x \<noteq> [] \<and> norm x \<notin> set acc")
    case True
    then have "clean_rule norm (norm x)" using assms(1) by (simp add: clean_rule_def)
    then show ?thesis using True Cons.IH [of "acc @ [norm x]"] Cons.prems by (simp add: Let_def)
  next
    case False
    then show ?thesis using Cons.IH [OF Cons.prems] by (simp only: clean_patterns.simps Let_def if_False)
  qed
qed simp

lemma stored_after_set:
  assumes "\<And>x. norm (norm x) = norm x"
  shows "stored_rules norm (set_command_blocklist norm xs)"
proof -
  have "distinct (clean_patterns norm [] xs) \<and> list_all (clean_rule norm) (clean_patterns norm [] xs)"
    by (rule clean_patterns_stored [OF assms]) simp_all
  then show ?thesis
    by (auto simp: stored_rules_def set_command_blocklist_def list_all_iff dest: in_set_takeD)
qed

lemma set_stored: "stored_rules norm xs \<Longrightarrow> set_command_blocklist norm xs = xs"
  by (simp add: stored_rules_def set_command_blocklist_def clean_patterns_id)

subsection \<open>Changes of the list\<close>

text \<open>What the user does, what it is meant to do to the list, and what the panel does.\<close>

datatype rule_change = AddRule string | RemoveRule string

fun intended :: "rule_change \<Rightarrow> string list \<Rightarrow> string list" where
  "intended (AddRule v) xs = (if v = [] \<or> v \<in> set xs then xs else xs @ [v])"
| "intended (RemoveRule v) xs = filter (\<lambda>x. x \<noteq> v) xs"

fun make_change :: "rule_change \<Rightarrow> security_panel \<Rightarrow> security_panel \<times> security_effect list" where
  "make_change (AddRule v) p = security_add (write_draft v p)"
| "make_change (RemoveRule v) p = security_remove v p"

fun plain_change :: "(string \<Rightarrow> string) \<Rightarrow> rule_change \<Rightarrow> bool" where
  "plain_change norm (AddRule v) = (trim v = v \<and> norm v = v)"
| "plain_change norm (RemoveRule v) = True"

lemmas security_simps = security_add_def security_remove_def security_persist_def
  security_persist_done_def write_draft_def Let_def

lemma make_change_sends:
  assumes "plain_change norm c" "make_change c p = (p', es)"
  shows "es = [] \<and> intended c (sp_blocklist p) = sp_blocklist p
     \<or> es = [SpSave (intended c (sp_blocklist p))]"
  using assms by (cases c) (auto simp: security_simps split: if_splits)

lemma make_change_keeps: "make_change c p = (p', es) \<Longrightarrow> sp_blocklist p' = sp_blocklist p"
  by (cases c) (auto simp: security_simps split: if_splits)

lemma intended_stored:
  assumes "stored_rules norm xs" "plain_change norm c" "length (intended c xs) \<le> 100"
  shows "stored_rules norm (intended c xs)"
  using assms by (cases c) (auto simp: stored_rules_def clean_rule_def list_all_iff)

text \<open>
  One change with its answer, before anything else happens: the agent stores the list and
  answers with it, or refuses, and then the panel reads the list again.
\<close>

fun serial_change ::
  "(string \<Rightarrow> string) \<Rightarrow> rule_change \<times> bool \<Rightarrow> security_panel \<times> string list \<Rightarrow> security_panel \<times> string list" where
  "serial_change norm (c, ok) (p, agent) =
     (case make_change c p of
        (p1, [SpSave xs]) \<Rightarrow>
          if ok then let stored = set_command_blocklist norm xs
                     in (fst (security_persist_done (Inr stored) p1), stored)
          else (fst (policy_done (Inr agent) (fst (security_persist_done (Inl AbortError) p1))), agent)
      | (p1, _) \<Rightarrow> (p1, agent))"

fun intended_all :: "(rule_change \<times> bool) list \<Rightarrow> string list \<Rightarrow> string list" where
  "intended_all [] xs = xs"
| "intended_all ((c, ok) # cs) xs = intended_all cs (if ok then intended c xs else xs)"

text \<open>No list on the way is longer than the agent keeps.\<close>

fun within_cap :: "(rule_change \<times> bool) list \<Rightarrow> string list \<Rightarrow> bool" where
  "within_cap [] xs = True"
| "within_cap ((c, ok) # cs) xs =
     (length (intended c xs) \<le> 100 \<and> within_cap cs (if ok then intended c xs else xs))"

lemma serial_change_step:
  assumes "sp_blocklist p = agent" "stored_rules norm agent" "plain_change norm c"
    and "length (intended c agent) \<le> 100"
  shows "\<exists>p'. serial_change norm (c, ok) (p, agent) = (p', if ok then intended c agent else agent)
     \<and> sp_blocklist p' = (if ok then intended c agent else agent)"
proof -
  obtain p1 es where m: "make_change c p = (p1, es)" by force
  note keeps = make_change_keeps [OF m]
  have st: "set_command_blocklist norm (intended c agent) = intended c agent"
    using assms(2-4) intended_stored set_stored by blast
  from make_change_sends [OF assms(3) m] consider
      "es = []" "intended c agent = agent" | "es = [SpSave (intended c agent)]"
    using assms(1) by auto
  then show ?thesis
  proof cases
    case 1
    then show ?thesis using m keeps assms(1) by auto
  next
    case 2
    then show ?thesis using m st keeps assms(1)
      by (auto simp: security_persist_done_def policy_done_def Let_def)
  qed
qed

text \<open>
  Rules changed one at a time: when every change of the blocklist is answered before the
  next one is made, the agent's list is exactly the old one with the accepted changes applied
  in order, a refused one changes nothing, and the panel shows the agent's list.
\<close>

theorem serial_changes_reach_the_agent:
  assumes "sp_blocklist p = agent" "stored_rules norm agent"
    and "list_all (\<lambda>(c, ok). plain_change norm c) cs" "within_cap cs agent"
  shows "snd (fold (serial_change norm) cs (p, agent)) = intended_all cs agent
     \<and> sp_blocklist (fst (fold (serial_change norm) cs (p, agent))) = intended_all cs agent"
  using assms
proof (induction cs arbitrary: p agent)
  case (Cons x cs)
  obtain c ok where x: "x = (c, ok)" by (cases x)
  let ?a = "if ok then intended c agent else agent"
  have pc: "plain_change norm c" and len: "length (intended c agent) \<le> 100" and cap: "within_cap cs ?a"
    and rest: "list_all (\<lambda>(c, ok). plain_change norm c) cs"
    using Cons.prems x by auto
  obtain p' where s: "serial_change norm (c, ok) (p, agent) = (p', ?a)" and b: "sp_blocklist p' = ?a"
    using serial_change_step [OF Cons.prems(1,2) pc len] by blast
  have "stored_rules norm ?a" using Cons.prems(2) intended_stored [OF _ pc len] by simp
  from Cons.IH [OF b this rest cap] show ?case using x s by simp
qed simp

theorem serial_changes_reach_the_agent_witness:
  "snd (fold (serial_change id) [(AddRule ''rm -rf'', True), (RemoveRule ''dd'', False)]
        (initial_security_panel\<lparr> sp_blocklist := [''dd''] \<rparr>, [''dd''])) = [''dd'', ''rm -rf'']"
proof -
  have t: "trim ''rm -rf'' = ''rm -rf''" by (rule trim_plain) simp_all
  show ?thesis
    using serial_changes_reach_the_agent
      [of "initial_security_panel\<lparr> sp_blocklist := [''dd''] \<rparr>" "[''dd'']" id
          "[(AddRule ''rm -rf'', True), (RemoveRule ''dd'', False)]"]
    by (simp add: stored_rules_def clean_rule_def t del: serial_change.simps)
qed

text \<open>
  A security rule is lost without a word: the Enter key and the crosses are not off while a
  save is under way, and every save sends the list of the screen, which the save before it has
  not changed yet. Of two changes made before the first is answered, the agent only keeps the
  second, and once both answers are in the panel shows that list too.
\<close>

theorem second_change_undoes_the_first:
  assumes "sp_blocklist p = agent" "stored_rules norm agent"
    and "plain_change norm c1" "plain_change norm c2"
    and "make_change c1 p = (p1, [SpSave xs1])" "make_change c2 p1 = (p2, [SpSave xs2])"
    and "length (intended c2 agent) \<le> 100"
  shows "set_command_blocklist norm xs2 = intended c2 agent
     \<and> sp_blocklist (fst (security_persist_done (Inr (set_command_blocklist norm xs2))
         (fst (security_persist_done (Inr (set_command_blocklist norm xs1)) p2)))) = intended c2 agent
     \<and> sp_busy p1"
proof -
  have "xs2 = intended c2 agent"
    using make_change_sends [OF assms(4) assms(6)] make_change_keeps [OF assms(5)] assms(1) by simp
  moreover have "stored_rules norm (intended c2 agent)"
    by (rule intended_stored [OF assms(2,4,7)])
  moreover have "sp_busy p1" using assms(5) by (cases c1) (auto simp: security_simps split: if_splits)
  ultimately show ?thesis by (simp add: set_stored security_persist_done_def)
qed

theorem second_change_undoes_the_first_witness:
  "\<exists>p1 p2 xs1 xs2. make_change (AddRule ''rm -rf'') initial_security_panel = (p1, [SpSave xs1])
     \<and> make_change (AddRule ''dd'') p1 = (p2, [SpSave xs2])
     \<and> ''rm -rf'' \<in> set (set_command_blocklist id xs1)
     \<and> set_command_blocklist id xs2 = [''dd'']"
proof -
  have t: "trim ''rm -rf'' = ''rm -rf''" "trim ''dd'' = ''dd''" by (rule trim_plain; simp)+
  let ?p = initial_security_panel
  let ?p1 = "?p\<lparr> sp_draft := [], sp_busy := True \<rparr>"
  have a: "make_change (AddRule ''rm -rf'') ?p = (?p1, [SpSave [''rm -rf'']])"
    and b: "make_change (AddRule ''dd'') ?p1 = (?p1, [SpSave [''dd'']])"
    by (simp_all add: security_simps t initial_security_panel_def)
  have "set_command_blocklist id [''dd''] = [''dd'']"
    using second_change_undoes_the_first [OF _ _ _ _ a b, of "[]" id]
    by (simp add: t stored_rules_def clean_rule_def initial_security_panel_def)
  moreover have "''rm -rf'' \<in> set (set_command_blocklist id [''rm -rf''])"
    by (simp add: set_command_blocklist_def)
  ultimately show ?thesis using a b by blast
qed

end
