(* ===== verification/MemoryPanel.thy ===== *)
theory MemoryPanel
  imports Complex_Main JsText
begin

text \<open>
  The memory page of the settings (\<open>MemoryPanel\<close> in
  \<open>src/src/components/settings/SettingsModal.tsx\<close>): the memories of the user or of one project,
  in three views, with adding, editing, importance, archiving and search, and the editor of a
  project's \<open>MEMORY.md\<close>. A handler that awaits an answer is two definitions: what it does at
  once, with the request it sends, and what it does with the answer. Importance and strength are
  fractions.
\<close>

subsection \<open>Data\<close>

datatype mem_view = MvActive | MvArchived | MvSuperseded

record memory_item =
  mi_id :: string
  mi_content :: string
  mi_source :: string
  mi_created_at :: int
  mi_importance :: "rat option"
  mi_usage_count :: "int option"
  mi_status :: "string option"
  mi_superseded_by :: "string option"
  mi_last_used_at :: "int option"
  mi_strength :: "rat option"
  mi_project_id :: "string option"

record embed_status =
  em_configured :: string
  em_active :: "string option"
  em_local :: bool
  em_glm :: bool

record memory_stats =
  ms_active :: int
  ms_archived :: int
  ms_superseded :: int
  ms_total :: int
  ms_avg_strength :: rat
  ms_decaying :: int
  ms_semantic :: bool
  ms_embed :: "embed_status option"

record memory_data =
  md_enabled :: bool
  md_items :: "memory_item list"
  md_stats :: "memory_stats option"

record memory_hit =
  mh_item :: memory_item
  mh_similarity :: "rat option"

record workspace_memory =
  wm_content :: string
  wm_logs :: "(string \<times> string) list"
  wm_can_edit :: bool

record memory_panel =
  mm_enabled :: bool
  mm_items :: "memory_item list"
  mm_stats :: "memory_stats option"
  mm_view :: mem_view
  mm_loaded :: bool
  mm_busy :: bool
  mm_adding :: string
  mm_editingId :: "string option"
  mm_editText :: string
  mm_query :: string
  mm_hits :: "memory_hit list option"
  mm_hitsSemantic :: bool
  mm_searching :: bool
  mm_traceId :: "string option"
  mm_trace :: "memory_item option option"
  mm_scope :: "string option"
  mm_content :: string
  mm_saved :: string
  mm_logs :: "(string \<times> string) list"
  mm_can_edit :: bool
  mm_saving :: bool

definition initial_memory_panel :: memory_panel where
  "initial_memory_panel =
     \<lparr> mm_enabled = False, mm_items = [], mm_stats = None, mm_view = MvActive, mm_loaded = False,
       mm_busy = False, mm_adding = [], mm_editingId = None, mm_editText = [], mm_query = [],
       mm_hits = None, mm_hitsSemantic = True, mm_searching = False, mm_traceId = None,
       mm_trace = None, mm_scope = None, mm_content = [], mm_saved = [], mm_logs = [],
       mm_can_edit = False, mm_saving = False \<rparr>"

text \<open>The requests of the page, with the arguments they are sent with.\<close>

datatype mem_request =
    MqList mem_view "string option"
  | MqFile string
  | MqStats "string option"
  | MqEnable bool
  | MqBackend string
  | MqAdd string "string option"
  | MqDelete string
  | MqEdit string string
  | MqClear "string option"
  | MqImportance string rat
  | MqArchive string
  | MqRollback string
  | MqSearch string "string option"
  | MqTrace string
  | MqSaveFile string string

type_synonym mem_result = "memory_panel \<times> mem_request list"

subsection \<open>Reading\<close>

definition memory_load_done :: "memory_data res \<Rightarrow> memory_panel \<Rightarrow> memory_panel" where
  "memory_load_done r p =
     (case r of
        Inr m \<Rightarrow> p\<lparr> mm_enabled := md_enabled m, mm_items := md_items m,
                    mm_stats := (case md_stats m of None \<Rightarrow> mm_stats p | Some s \<Rightarrow> Some s),
                    mm_loaded := True \<rparr>
      | Inl e \<Rightarrow> p\<lparr> mm_loaded := True \<rparr>)"

definition loadWorkspace :: "string option \<Rightarrow> memory_panel \<Rightarrow> mem_result" where
  "loadWorkspace project p =
     (if \<not> truthy project
      then (p\<lparr> mm_content := [], mm_saved := [], mm_logs := [], mm_can_edit := False \<rparr>, [])
      else (p, [MqFile (opt_str project)]))"

definition loadWorkspace_done :: "workspace_memory res \<Rightarrow> memory_panel \<Rightarrow> memory_panel" where
  "loadWorkspace_done r p =
     (case r of
        Inr d \<Rightarrow> p\<lparr> mm_content := wm_content d, mm_saved := wm_content d, mm_logs := wm_logs d,
                    mm_can_edit := wm_can_edit d \<rparr>
      | Inl e \<Rightarrow> p)"

definition memory_stats_done :: "memory_stats res \<Rightarrow> memory_panel \<Rightarrow> memory_panel" where
  "memory_stats_done r p = (case r of Inr s \<Rightarrow> p\<lparr> mm_stats := Some s \<rparr> | Inl e \<Rightarrow> p)"

definition refreshStats :: "memory_panel \<Rightarrow> mem_request list" where
  "refreshStats p = [MqStats (mm_scope p)]"

definition switchView :: "mem_view \<Rightarrow> memory_panel \<Rightarrow> mem_result" where
  "switchView v p =
     (p\<lparr> mm_view := v, mm_loaded := False, mm_traceId := None \<rparr>, [MqList v (mm_scope p)])"

definition switchScope :: "string option \<Rightarrow> memory_panel \<Rightarrow> mem_result" where
  "switchScope project p =
     (case loadWorkspace project
        (p\<lparr> mm_scope := project, mm_can_edit := False, mm_view := MvActive, mm_loaded := False,
            mm_traceId := None, mm_hits := None, mm_query := [] \<rparr>) of
        (p1, qs) \<Rightarrow> (p1, MqList MvActive project # qs))"

subsection \<open>Switches\<close>

definition memory_toggle :: "memory_panel \<Rightarrow> mem_result" where
  "memory_toggle p = (p\<lparr> mm_enabled := \<not> mm_enabled p \<rparr>, [MqEnable (\<not> mm_enabled p)])"

definition memory_toggle_done :: "bool \<Rightarrow> unit res \<Rightarrow> memory_panel \<Rightarrow> memory_panel" where
  "memory_toggle_done next r p = (case r of Inr _ \<Rightarrow> p | Inl e \<Rightarrow> p\<lparr> mm_enabled := \<not> next \<rparr>)"

definition changeBackend_done :: "embed_status res \<Rightarrow> memory_panel \<Rightarrow> memory_panel" where
  "changeBackend_done r p =
     (case r of
        Inr em \<Rightarrow> p\<lparr> mm_stats := map_option
                  (\<lambda>s. s\<lparr> ms_embed := Some em, ms_semantic := (em_active em \<noteq> None) \<rparr>) (mm_stats p) \<rparr>
      | Inl e \<Rightarrow> p)"

subsection \<open>Single memories\<close>

text \<open>\<open>{ ...x, ...row }\<close>: a field the row does not have keeps its value.\<close>

definition row_or :: "'a option \<Rightarrow> 'a option \<Rightarrow> 'a option" where
  "row_or new old = (case new of None \<Rightarrow> old | Some v \<Rightarrow> Some v)"

definition merge_row :: "memory_item \<Rightarrow> memory_item \<Rightarrow> memory_item" where
  "merge_row row x =
     row\<lparr> mi_importance := row_or (mi_importance row) (mi_importance x),
          mi_usage_count := row_or (mi_usage_count row) (mi_usage_count x),
          mi_status := row_or (mi_status row) (mi_status x),
          mi_superseded_by := row_or (mi_superseded_by row) (mi_superseded_by x),
          mi_last_used_at := row_or (mi_last_used_at row) (mi_last_used_at x),
          mi_strength := row_or (mi_strength row) (mi_strength x) \<rparr>"

definition put_row :: "string \<Rightarrow> memory_item \<Rightarrow> memory_panel \<Rightarrow> memory_panel" where
  "put_row i row p = p\<lparr> mm_items := upd_key mi_id i (merge_row row) (mm_items p) \<rparr>"

definition drop_item :: "string \<Rightarrow> memory_panel \<Rightarrow> memory_panel" where
  "drop_item i p = p\<lparr> mm_items := drop_key mi_id i (mm_items p) \<rparr>"

definition memory_add :: "memory_panel \<Rightarrow> mem_result" where
  "memory_add p =
     (if trim (mm_adding p) = [] \<or> mm_busy p then (p, [])
      else (p\<lparr> mm_busy := True \<rparr>, [MqAdd (trim (mm_adding p)) (mm_scope p)]))"

text \<open>
  \<open>refreshStats\<close> of a handler reads the scope of the render the handler was made in: \<open>p0\<close>.
\<close>

definition memory_add_done :: "memory_panel \<Rightarrow> memory_item res \<Rightarrow> memory_panel \<Rightarrow> mem_result" where
  "memory_add_done p0 r p =
     (case r of
        Inr row \<Rightarrow> (p\<lparr> mm_items := row # mm_items p, mm_adding := [], mm_busy := False \<rparr>, refreshStats p0)
      | Inl e \<Rightarrow> (p\<lparr> mm_busy := False \<rparr>, []))"

text \<open>Deleting, archiving and restoring take the row out of the view alike.\<close>

definition memory_gone_done :: "memory_panel \<Rightarrow> string \<Rightarrow> unit res \<Rightarrow> memory_panel \<Rightarrow> mem_result" where
  "memory_gone_done p0 i r p =
     (case r of Inr _ \<Rightarrow> (drop_item i p, refreshStats p0) | Inl e \<Rightarrow> (p, []))"

definition memory_startEdit :: "memory_item \<Rightarrow> memory_panel \<Rightarrow> memory_panel" where
  "memory_startEdit m p = p\<lparr> mm_editingId := Some (mi_id m), mm_editText := mi_content m \<rparr>"

definition cancelEdit :: "memory_panel \<Rightarrow> memory_panel" where
  "cancelEdit p = p\<lparr> mm_editingId := None, mm_editText := [] \<rparr>"

definition saveEdit :: "string \<Rightarrow> memory_panel \<Rightarrow> mem_result" where
  "saveEdit i p =
     (if trim (mm_editText p) = [] then (p, []) else (p, [MqEdit i (trim (mm_editText p))]))"

definition saveEdit_done :: "string \<Rightarrow> memory_item res \<Rightarrow> memory_panel \<Rightarrow> memory_panel" where
  "saveEdit_done i r p = (case r of Inr row \<Rightarrow> cancelEdit (put_row i row p) | Inl e \<Rightarrow> p)"

text \<open>The confirmed clearing; the dialog is not opened while \<open>busy\<close>.\<close>

definition memory_clear :: "memory_panel \<Rightarrow> memory_panel \<Rightarrow> mem_result" where
  "memory_clear p0 p = (p\<lparr> mm_busy := True \<rparr>, [MqClear (mm_scope p0)])"

definition memory_clear_done :: "memory_panel \<Rightarrow> unit res \<Rightarrow> memory_panel \<Rightarrow> mem_result" where
  "memory_clear_done p0 r p =
     (case r of
        Inr _ \<Rightarrow> (p\<lparr> mm_items := [], mm_busy := False \<rparr>, refreshStats p0)
      | Inl e \<Rightarrow> (p\<lparr> mm_busy := False \<rparr>, []))"

definition pct :: "rat option \<Rightarrow> int" where
  "pct x = round (nullish x 0 * 100)"

definition setImpLocal :: "string \<Rightarrow> int \<Rightarrow> memory_panel \<Rightarrow> memory_panel" where
  "setImpLocal i n p =
     p\<lparr> mm_items := upd_key mi_id i (\<lambda>x. x\<lparr> mi_importance := Some (of_int n / 100) \<rparr>) (mm_items p) \<rparr>"

definition commitImp :: "string \<Rightarrow> int \<Rightarrow> memory_panel \<Rightarrow> mem_result" where
  "commitImp i n p = (p, [MqImportance i (of_int n / 100)])"

definition commitImp_done :: "memory_panel \<Rightarrow> string \<Rightarrow> memory_item res \<Rightarrow> memory_panel \<Rightarrow> mem_result" where
  "commitImp_done p0 i r p =
     (case r of Inr row \<Rightarrow> (put_row i row p, refreshStats p0) | Inl e \<Rightarrow> (p, []))"

subsection \<open>Search and trace\<close>

definition doSearch :: "memory_panel \<Rightarrow> mem_result" where
  "doSearch p =
     (if trim (mm_query p) = [] \<or> mm_searching p then (p, [])
      else (p\<lparr> mm_searching := True \<rparr>, [MqSearch (trim (mm_query p)) (mm_scope p)]))"

definition doSearch_done :: "(memory_hit list \<times> bool) res \<Rightarrow> memory_panel \<Rightarrow> memory_panel" where
  "doSearch_done r p =
     (case r of
        Inr (hits, semantic) \<Rightarrow>
          p\<lparr> mm_hits := Some hits, mm_hitsSemantic := semantic, mm_searching := False \<rparr>
      | Inl e \<Rightarrow> p\<lparr> mm_searching := False \<rparr>)"

definition clear_search :: "memory_panel \<Rightarrow> memory_panel" where
  "clear_search p = p\<lparr> mm_hits := None, mm_query := [] \<rparr>"

definition showTrace :: "string \<Rightarrow> memory_panel \<Rightarrow> mem_result" where
  "showTrace i p =
     (if mm_traceId p = Some i then (p\<lparr> mm_traceId := None \<rparr>, []) else (p, [MqTrace i]))"

text \<open>Of the trace the page shows the memory that replaced this one, if any.\<close>

definition showTrace_done :: "string \<Rightarrow> memory_item option res \<Rightarrow> memory_panel \<Rightarrow> memory_panel" where
  "showTrace_done i r p =
     (case r of Inr t \<Rightarrow> p\<lparr> mm_trace := Some t, mm_traceId := Some i \<rparr> | Inl e \<Rightarrow> p)"

subsection \<open>The project's file\<close>

definition write_file_text :: "string \<Rightarrow> memory_panel \<Rightarrow> memory_panel" where
  "write_file_text v p = (if mm_can_edit p then p\<lparr> mm_content := v \<rparr> else p)"

definition saveWorkspace :: "memory_panel \<Rightarrow> mem_result" where
  "saveWorkspace p =
     (if \<not> truthy (mm_scope p) \<or> \<not> mm_can_edit p \<or> mm_saving p then (p, [])
      else (p\<lparr> mm_saving := True \<rparr>, [MqSaveFile (opt_str (mm_scope p)) (mm_content p)]))"

definition saveWorkspace_done :: "workspace_memory res \<Rightarrow> memory_panel \<Rightarrow> memory_panel" where
  "saveWorkspace_done r p =
     (case r of
        Inr d \<Rightarrow> p\<lparr> mm_content := wm_content d, mm_saved := wm_content d, mm_logs := wm_logs d,
                    mm_saving := False \<rparr>
      | Inl e \<Rightarrow> p\<lparr> mm_saving := False \<rparr>)"

definition canEditScope :: "memory_panel \<Rightarrow> bool" where
  "canEditScope p \<longleftrightarrow> \<not> truthy (mm_scope p) \<or> mm_can_edit p"

subsection \<open>The page with its requests under way\<close>

text \<open>The scope a request was made for, where its answer changes the memories or the file shown.\<close>

fun request_scope :: "mem_request \<Rightarrow> string option option" where
  "request_scope (MqList v s) = Some s"
| "request_scope (MqFile i) = Some (Some i)"
| "request_scope (MqAdd t s) = Some s"
| "request_scope (MqSaveFile i t) = Some (Some i)"
| "request_scope _ = None"

text \<open>
  \<open>proj\<close> is the agent's record of which project each memory belongs to. The last two components
  are not in the code: the project whose file the editor was last filled from, and whether a list
  of the scope chosen has been read since it was chosen.
\<close>

type_synonym mem_ghost = "string option \<times> bool"

type_synonym mem_system = "memory_panel \<times> mem_request list \<times> mem_ghost"

definition own_row :: "(string \<Rightarrow> string option) \<Rightarrow> memory_item \<Rightarrow> bool" where
  "own_row proj x \<longleftrightarrow> mi_project_id x = proj (mi_id x)"

text \<open>
  The answers. The agent lists the memories of the scope asked for, adds to the scope named and
  answers a change with the row of that memory; every request may fail instead.
\<close>

inductive mem_answer ::
  "(string \<Rightarrow> string option) \<Rightarrow> mem_request \<Rightarrow> memory_panel \<times> mem_ghost
    \<Rightarrow> mem_result \<times> mem_ghost \<Rightarrow> bool"
  for proj :: "string \<Rightarrow> string option" where
  lists: "(\<And>x. x \<in> set (md_items m) \<Longrightarrow> own_row proj x \<and> mi_project_id x = s)
     \<Longrightarrow> mem_answer proj (MqList v s) (p, ow, fr) ((memory_load_done (Inr m) p, []), ow, True)"
| unlisted: "mem_answer proj (MqList v s) (p, g) ((memory_load_done (Inl e) p, []), g)"
| reads: "mem_answer proj (MqFile i) (p, ow, fr) ((loadWorkspace_done (Inr d) p, []), Some i, fr)"
| unread: "mem_answer proj (MqFile i) (p, g) ((loadWorkspace_done (Inl e) p, []), g)"
| counts: "mem_answer proj (MqStats s) (p, g) ((memory_stats_done rs p, []), g)"
| enables: "mem_answer proj (MqEnable b) (p, g) ((memory_toggle_done b ru p, []), g)"
| embeds: "mem_answer proj (MqBackend b) (p, g) ((changeBackend_done rb p, []), g)"
| adds: "(\<And>row. r = Inr row \<Longrightarrow> own_row proj row \<and> mi_project_id row = s)
     \<Longrightarrow> mem_answer proj (MqAdd t s) (p, g) (memory_add_done p0 r p, g)"
| gone: "q \<in> {MqDelete i, MqArchive i, MqRollback i}
     \<Longrightarrow> mem_answer proj q (p, g) (memory_gone_done p0 i ru p, g)"
| edits: "(\<And>row. r = Inr row \<Longrightarrow> own_row proj row \<and> mi_id row = i)
     \<Longrightarrow> mem_answer proj (MqEdit i t) (p, g) ((saveEdit_done i r p, []), g)"
| weighs: "(\<And>row. r = Inr row \<Longrightarrow> own_row proj row \<and> mi_id row = i)
     \<Longrightarrow> mem_answer proj (MqImportance i n) (p, g) (commitImp_done p0 i r p, g)"
| clears: "mem_answer proj (MqClear s) (p, g) (memory_clear_done p0 ru p, g)"
| finds: "mem_answer proj (MqSearch t s) (p, g) ((doSearch_done rh p, []), g)"
| traces: "mem_answer proj (MqTrace i) (p, g) ((showTrace_done i rt p, []), g)"
| saves: "mem_answer proj (MqSaveFile i t) (p, ow, fr) ((saveWorkspace_done (Inr d) p, []), Some i, fr)"
| no_save: "mem_answer proj (MqSaveFile i t) (p, g) ((saveWorkspace_done (Inl e) p, []), g)"

text \<open>Everything the user can do but change the scope.\<close>

inductive mem_act :: "memory_panel \<Rightarrow> mem_result \<Rightarrow> bool" where
  "mem_act p (switchView v p)"
| "mem_act p (memory_toggle p)"
| "mem_act p (p, [MqBackend b])"
| "mem_act p (p\<lparr> mm_adding := t \<rparr>, [])"
| "mem_act p (memory_add p)"
| "q \<in> {MqDelete i, MqArchive i, MqRollback i} \<Longrightarrow> mem_act p (p, [q])"
| "mem_act p (memory_startEdit m p, [])"
| "mem_act p (p\<lparr> mm_editText := t \<rparr>, [])"
| "mem_act p (cancelEdit p, [])"
| "mem_act p (saveEdit i p)"
| "mem_act p (memory_clear p0 p)"
| "mem_act p (setImpLocal i n p, [])"
| "mem_act p (commitImp i n p)"
| "mem_act p (p\<lparr> mm_query := t \<rparr>, [])"
| "mem_act p (doSearch p)"
| "mem_act p (clear_search p, [])"
| "mem_act p (showTrace i p)"
| "mem_act p (write_file_text t p, [])"
| "mem_act p (saveWorkspace p)"

text \<open>The scope is only changed here once the answers bound to the old one are in.\<close>

inductive mem_reached :: "(string \<Rightarrow> string option) \<Rightarrow> mem_system \<Rightarrow> bool"
  for proj :: "string \<Rightarrow> string option" where
  start: "mem_reached proj (initial_memory_panel, [MqList MvActive None], None, False)"
| acts: "mem_reached proj (p, qs, g) \<Longrightarrow> mem_act p (p', new) \<Longrightarrow> mem_reached proj (p', qs @ new, g)"
| scopes: "mem_reached proj (p, qs, ow, fr) \<Longrightarrow> list_all (\<lambda>q. request_scope q = None) qs \<Longrightarrow> s \<noteq> Some []
     \<Longrightarrow> switchScope s p = (p', new) \<Longrightarrow> mem_reached proj (p', qs @ new, ow, False)"
| answers: "mem_reached proj (p, qs, g) \<Longrightarrow> q \<in> set qs \<Longrightarrow> mem_answer proj q (p, g) ((p', new), g')
     \<Longrightarrow> mem_reached proj (p', remove1 q qs @ new, g')"

definition in_scope :: "(string \<Rightarrow> string option) \<Rightarrow> mem_system \<Rightarrow> bool" where
  "in_scope proj s \<longleftrightarrow>
     (case s of (p, qs, ow, fr) \<Rightarrow>
        (\<forall>x\<in>set (mm_items p). own_row proj x \<and> (fr \<longrightarrow> mi_project_id x = mm_scope p))
        \<and> (\<forall>q\<in>set qs. request_scope q = None \<or> request_scope q = Some (mm_scope p))
        \<and> (mm_can_edit p \<longrightarrow> ow = mm_scope p))"

text \<open>What most operations leave alone.\<close>

definition same_scope :: "memory_panel \<Rightarrow> memory_panel \<Rightarrow> bool" where
  "same_scope p p' \<longleftrightarrow> mm_scope p' = mm_scope p \<and> mm_can_edit p' = mm_can_edit p"

lemma in_scope_mono:
  assumes "in_scope proj (p, qs, ow, fr)" "same_scope p p'"
    and "\<And>x. x \<in> set (mm_items p') \<Longrightarrow> \<exists>y\<in>set (mm_items p).
           (own_row proj y \<longrightarrow> own_row proj x \<and> mi_project_id x = mi_project_id y)"
    and "set qs' \<subseteq> set qs \<union> {q. request_scope q = None \<or> request_scope q = Some (mm_scope p)}"
  shows "in_scope proj (p', qs', ow, fr)"
  using assms unfolding in_scope_def same_scope_def by (auto; metis)

lemma in_scope_items:
  assumes "in_scope proj (p, qs, ow, fr)" "same_scope p p'" "set (mm_items p') \<subseteq> set (mm_items p)"
    and "set qs' \<subseteq> set qs \<union> {q. request_scope q = None \<or> request_scope q = Some (mm_scope p)}"
  shows "in_scope proj (p', qs', ow, fr)"
  by (rule in_scope_mono [OF assms(1,2) _ assms(4)]) (use assms(3) in auto)

lemmas act_defs = switchView_def memory_toggle_def memory_add_def memory_startEdit_def cancelEdit_def
  saveEdit_def memory_clear_def commitImp_def doSearch_def clear_search_def showTrace_def
  write_file_text_def saveWorkspace_def

lemma impLocal_kept:
  "x \<in> set (mm_items (setImpLocal i n p)) \<Longrightarrow>
     \<exists>y\<in>set (mm_items p). own_row proj y \<longrightarrow> own_row proj x \<and> mi_project_id x = mi_project_id y"
  by (auto simp: setImpLocal_def own_row_def dest!: set_upd_where)

lemma present_scope: "truthy s \<Longrightarrow> Some (opt_str s) = s" "s \<noteq> Some [] \<Longrightarrow> truthy s = (s \<noteq> None)"
  by (cases s; simp)+

lemma act_in_scope:
  assumes "mem_act p (p', new)" "in_scope proj (p, qs, ow, fr)"
  shows "in_scope proj (p', qs @ new, ow, fr)"
  using assms
proof (cases rule: mem_act.cases)
  case (12 i n)
  show ?thesis
    by (rule in_scope_mono [OF assms(2)]) (use 12 impLocal_kept in \<open>auto simp: same_scope_def setImpLocal_def\<close>)
qed (auto simp: act_defs present_scope split: if_splits option.splits intro!: in_scope_items [OF assms(2)]
    simp: same_scope_def)

lemma scope_in_scope:
  assumes "in_scope proj (p, qs, ow, fr)" "list_all (\<lambda>q. request_scope q = None) qs" "s \<noteq> Some []"
    and "switchScope s p = (p', new)"
  shows "in_scope proj (p', qs @ new, ow, False)"
  using assms by (cases s) (auto simp: in_scope_def switchScope_def loadWorkspace_def list_all_iff split: if_splits)

lemma put_row_kept:
  assumes "own_row proj row" "mi_id row = i" "x \<in> set (upd_key mi_id i (merge_row row) xs)"
  shows "\<exists>y\<in>set xs. own_row proj y \<longrightarrow> own_row proj x \<and> mi_project_id x = mi_project_id y"
proof -
  from set_upd_where [OF assms(3)] consider "x \<in> set xs" | y where "y \<in> set xs" "mi_id y = i" "x = merge_row row y"
    by blast
  then show ?thesis
  proof cases
    case 2
    then have "own_row proj y \<longrightarrow> own_row proj x \<and> mi_project_id x = mi_project_id y"
      using assms(1,2) by (simp add: own_row_def merge_row_def)
    then show ?thesis using 2 by blast
  qed blast
qed

lemmas done_defs = memory_load_done_def loadWorkspace_done_def memory_stats_done_def memory_toggle_done_def
  changeBackend_done_def memory_add_done_def memory_gone_done_def saveEdit_done_def memory_clear_done_def
  commitImp_done_def doSearch_done_def showTrace_done_def saveWorkspace_done_def refreshStats_def
  put_row_def drop_item_def cancelEdit_def

lemma answer_in_scope:
  assumes "mem_answer proj q (p, ow, fr) ((p', new), ow', fr')" "q \<in> set qs" "in_scope proj (p, qs, ow, fr)"
  shows "in_scope proj (p', remove1 q qs @ new, ow', fr')"
proof -
  have sub: "set (remove1 q qs) \<subseteq> set qs" by (rule set_remove1_subset)
  have own: "request_scope q = None \<or> request_scope q = Some (mm_scope p)"
    using assms(2,3) by (auto simp: in_scope_def)
  show ?thesis
    using assms(1)
  proof (cases rule: mem_answer.cases)
    case (lists m s v)
    then show ?thesis using assms(3) own sub by (auto simp: in_scope_def memory_load_done_def)
  next
    case (reads i d)
    then show ?thesis using assms(3) own sub by (auto simp: in_scope_def loadWorkspace_done_def)
  next
    case (adds r s t p0)
    then show ?thesis using assms(3) own sub
      by (cases r) (auto simp: in_scope_def memory_add_done_def refreshStats_def)
  next
    case (edits r i t)
    show ?thesis
    proof (cases r)
      case (Inr row)
      with edits have row: "own_row proj row" "mi_id row = i" by simp_all
      have "in_scope proj (p', remove1 q qs @ new, ow, fr)"
        by (rule in_scope_mono [OF assms(3)])
          (use edits sub Inr put_row_kept [OF row] in \<open>auto simp: same_scope_def done_defs\<close>)
      then show ?thesis using edits by simp
    qed (use edits sub in \<open>auto simp: done_defs intro!: in_scope_items [OF assms(3)] simp: same_scope_def\<close>)
  next
    case (weighs r i n p0)
    show ?thesis
    proof (cases r)
      case (Inr row)
      with weighs have row: "own_row proj row" "mi_id row = i" by simp_all
      have "in_scope proj (p', remove1 q qs @ new, ow, fr)"
        by (rule in_scope_mono [OF assms(3)])
          (use weighs sub Inr put_row_kept [OF row] in \<open>auto simp: same_scope_def done_defs\<close>)
      then show ?thesis using weighs by simp
    qed (use weighs sub in \<open>auto simp: done_defs intro!: in_scope_items [OF assms(3)] simp: same_scope_def\<close>)
  next
    case (saves i t d)
    then show ?thesis using assms(3) own sub by (auto simp: in_scope_def saveWorkspace_done_def)
  qed (use assms(3) sub in \<open>auto simp: done_defs split: sum.splits option.splits prod.splits
        intro!: in_scope_items [OF assms(3)] simp: same_scope_def\<close>)
qed

text \<open>
  C21. What the memory page shows and saves belongs to the scope chosen, as long as the scope is
  only changed once the reads, the addition and the save bound to the old one are answered:
  whatever else the user does, in whatever order the answers come and whichever requests fail,
  from the first list of that scope that is read on every memory shown is one of the scope, also
  while another view is loading or when it cannot be read; and the project's file is only
  saved to the project it was read from. Before that list is read, the page shows the memories
  of the scope before (\<open>failed_list_keeps_the_old_memories\<close> when it never is).
\<close>

theorem memories_stay_in_their_scope:
  assumes "mem_reached proj (p, qs, ow, listed)"
  shows "(listed \<longrightarrow> (\<forall>x\<in>set (mm_items p). mi_project_id x = mm_scope p))
     \<and> (\<forall>p' i t. saveWorkspace p = (p', [MqSaveFile i t]) \<longrightarrow> ow = Some i \<and> mm_scope p = Some i \<and> t = mm_content p)"
proof -
  have "in_scope proj s" if "mem_reached proj s" for s
    using that
  proof induction
    case start
    then show ?case by (simp add: in_scope_def initial_memory_panel_def)
  next
    case (acts p qs g p' new)
    then show ?case by (cases g) (auto intro: act_in_scope)
  next
    case (answers p qs g q p' new g')
    then show ?case by (cases g; cases g') (auto intro: answer_in_scope)
  qed (auto intro: scope_in_scope)
  from this [OF assms] show ?thesis
    by (auto simp: in_scope_def saveWorkspace_def present_scope split: if_splits)
qed

definition demo_memory :: "string \<Rightarrow> string option \<Rightarrow> memory_item" where
  "demo_memory i s =
     \<lparr> mi_id = i, mi_content = i, mi_source = ''manual'', mi_created_at = 0, mi_importance = None,
       mi_usage_count = None, mi_status = None, mi_superseded_by = None, mi_last_used_at = None,
       mi_strength = None, mi_project_id = s \<rparr>"

definition demo_page :: "memory_panel" where
  "demo_page = fst (switchView MvArchived (memory_load_done
     (Inr \<lparr> md_enabled = True, md_items = [demo_memory ''m'' None], md_stats = None \<rparr>) initial_memory_panel))"

text \<open>The list of the user's memories read, then another view chosen that cannot be read.\<close>

theorem memories_stay_in_their_scope_witness:
  "map mi_project_id (mm_items (memory_load_done (Inl AbortError) demo_page)) = [mm_scope demo_page]"
proof -
  let ?read = "memory_load_done (Inr \<lparr> md_enabled = True, md_items = [demo_memory ''m'' None], md_stats = None \<rparr>)
      initial_memory_panel"
  let ?p = "memory_load_done (Inl AbortError) demo_page"
  have "mem_answer (\<lambda>_. None) (MqList MvActive None) (initial_memory_panel, None, False) ((?read, []), None, True)"
    by (rule mem_answer.lists) (simp add: own_row_def demo_memory_def)
  from mem_reached.answers [OF mem_reached.start _ this]
  have "mem_reached (\<lambda>_. None) (?read, [], None, True)" by simp
  from mem_reached.acts [OF this, of demo_page "[MqList MvArchived None]"]
  have "mem_reached (\<lambda>_. None) (demo_page, [MqList MvArchived None], None, True)"
    using mem_act.intros(1) [of ?read MvArchived]
    by (simp add: demo_page_def switchView_def memory_load_done_def initial_memory_panel_def)
  from mem_reached.answers [OF this _ mem_answer.unlisted [of _ MvArchived None demo_page _ AbortError]]
  have "mem_reached (\<lambda>_. None) (?p, [], None, True)" by simp
  from memories_stay_in_their_scope [OF this] show ?thesis
    by (simp add: demo_page_def switchView_def memory_load_done_def initial_memory_panel_def demo_memory_def)
qed

text \<open>
  The file of one project is saved into another: the answer with the file of a project the
  user has left is shown and made editable under the project chosen since, whether it comes
  before or after that project's own, and saving then sends the text to the wrong project, even
  to one the user may only view.
\<close>

theorem late_file_is_saved_to_another_project:
  assumes "b \<noteq> []" "wm_can_edit da" "\<not> mm_saving p"
    and "switchScope (Some a) p = (p1, qs1)" "switchScope (Some b) p1 = (p2, qs2)"
    and "p3 \<in> {loadWorkspace_done (Inr da) p2, loadWorkspace_done (Inr da) (loadWorkspace_done (Inr db) p2)}"
  shows "mm_scope p3 = Some b \<and> mm_content p3 = wm_content da
     \<and> snd (saveWorkspace (write_file_text (wm_content da @ t) p3)) = [MqSaveFile b (wm_content da @ t)]"
  using assms
  by (auto simp: switchScope_def loadWorkspace_def loadWorkspace_done_def saveWorkspace_def write_file_text_def
      split: if_splits)

theorem late_file_is_saved_to_another_project_witness:
  "\<exists>p3. snd (saveWorkspace (write_file_text ''rules of a!'' p3)) = [MqSaveFile ''b'' ''rules of a!'']
     \<and> p3 = loadWorkspace_done (Inr \<lparr> wm_content = ''rules of a'', wm_logs = [], wm_can_edit = True \<rparr>)
         (loadWorkspace_done (Inr \<lparr> wm_content = ''rules of b'', wm_logs = [], wm_can_edit = False \<rparr>)
           (fst (switchScope (Some ''b'') (fst (switchScope (Some ''a'') initial_memory_panel)))))"
proof -
  let ?da = "\<lparr> wm_content = ''rules of a'', wm_logs = [], wm_can_edit = True \<rparr>"
  let ?db = "\<lparr> wm_content = ''rules of b'', wm_logs = [], wm_can_edit = False \<rparr>"
  obtain p1 qs1 where s1: "switchScope (Some ''a'') initial_memory_panel = (p1, qs1)" by force
  obtain p2 qs2 where s2: "switchScope (Some ''b'') p1 = (p2, qs2)" by force
  have "snd (saveWorkspace (write_file_text (wm_content ?da @ ''!'')
      (loadWorkspace_done (Inr ?da) (loadWorkspace_done (Inr ?db) p2)))) = [MqSaveFile ''b'' (wm_content ?da @ ''!'')]"
    by (rule late_file_is_saved_to_another_project [OF _ _ _ s1 s2, where db = ?db, THEN conjunct2, THEN conjunct2])
      (simp_all add: initial_memory_panel_def)
  then show ?thesis using s1 s2 by simp
qed

text \<open>
  A list that cannot be read leaves the memories of the scope before under the new one, where
  they can be edited and deleted.
\<close>

lemma failed_list_keeps_the_old_memories:
  "case switchScope s p of (p1, qs) \<Rightarrow>
     mm_items (memory_load_done (Inl e) p1) = mm_items p \<and> mm_loaded (memory_load_done (Inl e) p1)
     \<and> mm_scope (memory_load_done (Inl e) p1) = s"
  by (auto simp: switchScope_def loadWorkspace_def memory_load_done_def)

end
