(* ===== verification/DeviceSettings.thy ===== *)
theory DeviceSettings
  imports JsValue
begin

text \<open>
  The settings of the device (\<open>src/src/components/settings/DeviceRuntimeSettings.tsx\<close>) and the way
  the Local Agent keeps them (\<open>src/backend/device_settings.py\<close>, \<open>routers/device_settings.py\<close>): a
  setting has the value stored for it, or else that of the environment or the default.
  The page shows all values, never a secret, and saves the whole form.
\<close>

subsection \<open>The agent's registry\<close>

datatype setting_source = SrcDatabase | SrcEnvironment | SrcDefault

text \<open>
  One setting of the registry: what is stored, and the value and source it falls back to.
  Stored text and shown value are related by \<open>_parse\<close>, checked text by \<open>validate\<close>: both are
  arguments of the definitions below.
\<close>

record device_setting =
  ds_key :: string
  ds_group :: string
  ds_secret :: bool
  ds_stored :: "string option"
  ds_fallback :: json
  ds_fallback_source :: setting_source

record device_item =
  di_key :: string
  di_group :: string
  di_secret :: bool
  di_source :: setting_source
  di_configured :: bool
  di_value :: json

definition effective_with_source ::
  "(string \<Rightarrow> string \<Rightarrow> json) \<Rightarrow> device_setting \<Rightarrow> json \<times> setting_source" where
  "effective_with_source parse d =
     (case ds_stored d of
        Some raw \<Rightarrow> (parse (ds_key d) raw, SrcDatabase)
      | None \<Rightarrow> (ds_fallback d, ds_fallback_source d))"

definition public_item :: "(string \<Rightarrow> string \<Rightarrow> json) \<Rightarrow> device_setting \<Rightarrow> device_item" where
  "public_item parse d =
     (case effective_with_source parse d of (value, source) \<Rightarrow>
       \<lparr> di_key = ds_key d, di_group = ds_group d, di_secret = ds_secret d, di_source = source,
         di_configured = (if ds_secret d then jtruthy value else True),
         di_value = (if ds_secret d then JNull else value) \<rparr>)"

definition public_registry :: "(string \<Rightarrow> string \<Rightarrow> json) \<Rightarrow> device_setting list \<Rightarrow> device_item list" where
  "public_registry parse ds = map (public_item parse) ds"

text \<open>\<open>set_value\<close> with the text that passed the check; a secret is never emptied this way.\<close>

definition set_value :: "string \<Rightarrow> device_setting \<Rightarrow> device_setting" where
  "set_value normalized d =
     (if ds_stored d = Some normalized \<or> ds_secret d \<and> normalized = [] then d
      else d\<lparr> ds_stored := Some normalized \<rparr>)"

definition clear_value :: "device_setting \<Rightarrow> device_setting" where
  "clear_value d = d\<lparr> ds_stored := None \<rparr>"

text \<open>The handler, for the owner of the device (another account is refused before): everything is
  checked before anything is changed.\<close>

definition checked_values ::
  "(string \<Rightarrow> json \<Rightarrow> string option) \<Rightarrow> (string \<times> json) list \<Rightarrow> (string \<times> string) list option" where
  "checked_values validate vs =
     (if list_all (\<lambda>(k, v). validate k v \<noteq> None) vs
      then Some (map (\<lambda>(k, v). (k, opt_str (validate k v))) vs) else None)"

definition put_runtime_settings ::
  "(string \<Rightarrow> json \<Rightarrow> string option) \<Rightarrow> (string \<times> json) list \<Rightarrow> string list
    \<Rightarrow> device_setting list \<Rightarrow> device_setting list option" where
  "put_runtime_settings validate values cleared ds =
     (if set (map fst values) \<inter> set cleared \<noteq> {} \<or> (values = [] \<and> cleared = [])
         \<or> \<not> set cleared \<subseteq> set (map ds_key ds) then None
      else case checked_values validate values of
        None \<Rightarrow> None
      | Some vs \<Rightarrow>
          Some (map (\<lambda>d. if ds_key d \<in> set cleared then clear_value d
                         else case map_of vs (ds_key d) of None \<Rightarrow> d | Some t \<Rightarrow> set_value t d) ds))"

subsection \<open>The page\<close>

text \<open>The form's values: those of a JavaScript object, \<open>None\<close> for a key it does not have.\<close>

type_synonym form_values = "string \<Rightarrow> json option"

definition initial_value :: "device_item \<Rightarrow> form_values \<Rightarrow> form_values" where
  "initial_value item values =
     (if di_secret item then values(di_key item \<mapsto> JStr [])
      else if di_value item \<noteq> JNull then values(di_key item \<mapsto> di_value item)
      else values)"

definition initialValues :: "device_item list \<Rightarrow> form_values" where
  "initialValues items = fold initial_value items Map.empty"

record device_panel =
  dp_data :: "device_item list option"
  dp_values :: form_values
  dp_busy :: bool
  dp_testing :: string
  dp_error :: string

definition initial_device_panel :: device_panel where
  "initial_device_panel = \<lparr> dp_data = None, dp_values = Map.empty, dp_busy = False, dp_testing = [], dp_error = [] \<rparr>"

definition show_device :: "device_item list \<Rightarrow> device_panel \<Rightarrow> device_panel" where
  "show_device items p = p\<lparr> dp_data := Some items, dp_values := initialValues items \<rparr>"

definition device_load_done :: "device_item list res \<Rightarrow> device_panel \<Rightarrow> device_panel" where
  "device_load_done r p =
     (case r of
        Inr items \<Rightarrow> (show_device items p)\<lparr> dp_error := [] \<rparr>
      | Inl e \<Rightarrow> p\<lparr> dp_error := exn_message e \<rparr>)"

definition device_group :: "string \<Rightarrow> device_panel \<Rightarrow> device_item list" where
  "device_group g p = filter (\<lambda>i. di_group i = g) (nullish (dp_data p) [])"

definition device_change :: "string \<Rightarrow> json \<Rightarrow> device_panel \<Rightarrow> device_panel" where
  "device_change k v p = p\<lparr> dp_values := (dp_values p)(k \<mapsto> v) \<rparr>"

text \<open>\<open>String(value || '')\<close> of a string, number or boolean.\<close>

fun shown_text :: "json option \<Rightarrow> string" where
  "shown_text (Some (JStr s)) = s"
| "shown_text (Some (JNum n)) = (if n = 0 then [] else dec_int n)"
| "shown_text (Some (JBool b)) = (if b then ''true'' else [])"
| "shown_text _ = []"

text \<open>A value that is undefined is not printed into the body.\<close>

definition payload_field :: "form_values \<Rightarrow> device_item \<Rightarrow> (string \<times> json) list" where
  "payload_field values i =
     (case values (di_key i) of
        None \<Rightarrow> []
      | Some v \<Rightarrow> if \<not> di_secret i \<or> trim (shown_text (Some v)) \<noteq> [] then [(di_key i, v)] else [])"

definition save_payload :: "device_item list \<Rightarrow> form_values \<Rightarrow> (string \<times> json) list" where
  "save_payload items values = concat (map (payload_field values) items)"

definition device_save :: "device_panel \<Rightarrow> (device_panel \<times> (string \<times> json) list) option" where
  "device_save p =
     (case dp_data p of
        None \<Rightarrow> None
      | Some items \<Rightarrow> Some (p\<lparr> dp_busy := True \<rparr>, save_payload items (dp_values p)))"

definition device_save_done :: "device_item list res \<Rightarrow> device_panel \<Rightarrow> device_panel" where
  "device_save_done r p =
     (case r of
        Inr items \<Rightarrow> (show_device items p)\<lparr> dp_busy := False \<rparr>
      | Inl e \<Rightarrow> p\<lparr> dp_busy := False \<rparr>)"

definition device_clear :: "device_item list \<Rightarrow> string list" where
  "device_clear items = map di_key items"

definition device_clear_done :: "device_item list res \<Rightarrow> device_panel \<Rightarrow> device_panel" where
  "device_clear_done r p = (case r of Inr items \<Rightarrow> show_device items p | Inl e \<Rightarrow> p)"

definition device_test :: "string \<Rightarrow> device_panel \<Rightarrow> device_panel" where
  "device_test g p = p\<lparr> dp_testing := g \<rparr>"

definition device_test_done :: "device_panel \<Rightarrow> device_panel" where
  "device_test_done p = p\<lparr> dp_testing := [] \<rparr>"

subsection \<open>What the form holds\<close>

lemma initial_other: "k \<notin> di_key ` set items \<Longrightarrow> fold initial_value items vals k = vals k"
  by (induction items arbitrary: vals) (auto simp: initial_value_def)

lemma initial_item:
  assumes "distinct (map di_key items)" "i \<in> set items"
  shows "fold initial_value items vals (di_key i)
     = (if di_secret i then Some (JStr []) else if di_value i = JNull then vals (di_key i) else Some (di_value i))"
  using assms
proof (induction items arbitrary: vals)
  case (Cons item items)
  show ?case
  proof (cases "i = item")
    case True
    then have "fold initial_value items (initial_value item vals) (di_key i) = initial_value item vals (di_key i)"
      using Cons.prems(1) by (intro initial_other) simp
    moreover have "initial_value item vals (di_key i) =
        (if di_secret i then Some (JStr []) else if di_value i = JNull then vals (di_key i) else Some (di_value i))"
      using True by (simp add: initial_value_def)
    ultimately show ?thesis by simp
  next
    case False
    then have i: "i \<in> set items" using Cons.prems by simp
    then have "di_key i \<in> di_key ` set items" by simp
    then have "di_key i \<noteq> di_key item" using Cons.prems(1) by (metis distinct.simps(2) list.map(2) list.set_map)
    then have "initial_value item vals (di_key i) = vals (di_key i)" by (simp add: initial_value_def)
    then show ?thesis using Cons.IH [of "initial_value item vals"] Cons.prems(1) i by simp
  qed
qed simp

lemma payload_keys:
  "k \<in> fst ` set (save_payload items values) \<longleftrightarrow>
     (\<exists>i\<in>set items. di_key i = k \<and> values k \<noteq> None \<and> (di_secret i \<longrightarrow> trim (shown_text (values k)) \<noteq> []))"
proof -
  have "k \<in> fst ` set (payload_field values i) \<longleftrightarrow>
      di_key i = k \<and> values k \<noteq> None \<and> (di_secret i \<longrightarrow> trim (shown_text (values k)) \<noteq> [])" for i
    by (cases "values (di_key i)") (auto simp: payload_field_def)
  then show ?thesis by (simp add: save_payload_def image_UN)
qed

lemma keys_of_registry: "map di_key (public_registry parse ds) = map ds_key ds"
  by (induction ds) (simp_all add: public_registry_def public_item_def split: prod.splits)

text \<open>Whatever is typed, the keys the user leaves alone keep what the load put there.\<close>

abbreviation typed :: "(string \<times> json) list \<Rightarrow> device_panel \<Rightarrow> device_panel" where
  "typed changes p \<equiv> fold (\<lambda>(k, v). device_change k v) changes p"

lemma typed_data: "dp_data (typed changes p) = dp_data p"
  by (induction changes arbitrary: p) (auto simp: device_change_def)

lemma typed_other: "k \<notin> fst ` set changes \<Longrightarrow> dp_values (typed changes p) k = dp_values p k"
  by (induction changes arbitrary: p) (auto simp: device_change_def)

lemma typed_present: "dp_values p k \<noteq> None \<Longrightarrow> dp_values (typed changes p) k \<noteq> None"
  by (induction changes arbitrary: p) (auto simp: device_change_def)

lemma loaded_form:
  assumes "distinct (map ds_key ds)" "d \<in> set ds" "p = device_load_done (Inr (public_registry parse ds)) p0"
  shows "dp_data p = Some (public_registry parse ds) \<and> public_item parse d \<in> set (public_registry parse ds)
     \<and> dp_values p (ds_key d) =
         (if ds_secret d then Some (JStr [])
          else if fst (effective_with_source parse d) = JNull then None
          else Some (fst (effective_with_source parse d)))"
proof -
  let ?i = "public_item parse d"
  have i: "?i \<in> set (public_registry parse ds)" "di_key ?i = ds_key d" "di_secret ?i = ds_secret d"
    "di_value ?i = (if ds_secret d then JNull else fst (effective_with_source parse d))"
    using assms(2) by (auto simp: public_registry_def public_item_def split: prod.splits)
  have "distinct (map di_key (public_registry parse ds))" using assms(1) by (simp add: keys_of_registry)
  from initial_item [OF this i(1), of Map.empty] show ?thesis
    using assms(3) i by (simp add: device_load_done_def show_device_def initialValues_def)
qed

lemma saved_keys:
  assumes "distinct (map ds_key ds)" "d \<in> set ds" "p = device_load_done (Inr (public_registry parse ds)) p0"
    and "device_save (typed changes p) = Some (p', values)"
  shows "ds_key d \<in> fst ` set values \<longleftrightarrow>
     dp_values (typed changes p) (ds_key d) \<noteq> None
     \<and> (ds_secret d \<longrightarrow> trim (shown_text (dp_values (typed changes p) (ds_key d))) \<noteq> [])"
proof -
  note f = loaded_form [OF assms(1-3)]
  have v: "values = save_payload (public_registry parse ds) (dp_values (typed changes p))"
    using assms(4) f by (auto simp: device_save_def typed_data)
  have "di_secret i = ds_secret d" if "i \<in> set (public_registry parse ds)" "di_key i = ds_key d" for i
  proof -
    from that obtain d' where "d' \<in> set ds" "i = public_item parse d'" by (auto simp: public_registry_def)
    moreover from this that have "d' = d" using assms(1,2)
      by (auto simp: public_item_def inj_on_def distinct_map split: prod.splits)
    ultimately show ?thesis by (simp add: public_item_def split: prod.splits)
  qed
  moreover have "\<exists>i\<in>set (public_registry parse ds). di_key i = ds_key d"
    using f by (auto simp: public_item_def split: prod.splits intro!: bexI)
  ultimately show ?thesis unfolding v payload_keys by blast
qed

text \<open>What an accepted save does to the registry.\<close>

definition stored_by :: "(string \<times> string) list \<Rightarrow> device_setting \<Rightarrow> device_setting" where
  "stored_by vs d = (case map_of vs (ds_key d) of None \<Rightarrow> d | Some t \<Rightarrow> set_value t d)"

lemma stored_by_keeps [simp]: "ds_key (stored_by vs d) = ds_key d" "ds_secret (stored_by vs d) = ds_secret d"
  by (simp_all add: stored_by_def set_value_def split: option.splits)

lemma put_shape:
  assumes "put_runtime_settings validate values [] ds = Some ds'"
  obtains vs where "ds' = map (stored_by vs) ds" "fst ` set vs = fst ` set values"
proof -
  from assms obtain vs where "checked_values validate values = Some vs" "ds' = map (stored_by vs) ds"
    by (auto simp: put_runtime_settings_def stored_by_def [abs_def] split: if_splits option.splits)
  moreover from this(1) have "map fst vs = map fst values"
    by (auto simp: checked_values_def split: if_splits)
  then have "fst ` set vs = fst ` set values" by (metis set_map)
  ultimately show thesis using that by blast
qed

lemma put_keeps_others:
  assumes "put_runtime_settings validate values [] ds = Some ds'" "d \<in> set ds" "ds_key d \<notin> fst ` set values"
  shows "d \<in> set ds'"
proof -
  from put_shape [OF assms(1)] obtain vs where vs: "ds' = map (stored_by vs) ds" "fst ` set vs = fst ` set values" .
  have "map_of vs (ds_key d) = None" using vs(2) assms(3) by (simp add: map_of_eq_None_iff)
  then have "stored_by vs d = d" by (simp add: stored_by_def)
  then show ?thesis using vs(1) assms(2) by (metis image_eqI set_map)
qed

lemma put_stores:
  assumes "put_runtime_settings validate values [] ds = Some ds'" "d' \<in> set ds'" "\<not> ds_secret d'"
    and "ds_key d' \<in> fst ` set values"
  shows "ds_stored d' \<noteq> None"
proof -
  from put_shape [OF assms(1)] obtain vs where vs: "ds' = map (stored_by vs) ds" "fst ` set vs = fst ` set values" .
  then obtain d where d: "d' = stored_by vs d" using assms(2) by auto
  then obtain t where "map_of vs (ds_key d) = Some t"
    using vs(2) assms(4) by (metis map_of_eq_None_iff option.exhaust stored_by_keeps(1))
  then show ?thesis using d assms(3) by (auto simp: stored_by_def set_value_def split: if_splits)
qed

text \<open>
  C22. Secrets stay on the agent: whatever the registry holds, the form filled from it holds no
  secret, and as long as the user types none a save of the other settings sends none, so every
  secret stored is still there unchanged.
\<close>

theorem secrets_are_not_sent:
  assumes "distinct (map ds_key ds)" "s \<in> set ds" "ds_secret s"
    and "p = device_load_done (Inr (public_registry parse ds)) p0" "ds_key s \<notin> fst ` set changes"
    and "device_save (typed changes p) = Some (p', values)"
    and "put_runtime_settings validate values [] ds = Some ds'"
  shows "dp_values p (ds_key s) = Some (JStr []) \<and> ds_key s \<notin> fst ` set values \<and> s \<in> set ds'"
proof -
  have e: "dp_values p (ds_key s) = Some (JStr [])" using loaded_form [OF assms(1,2,4)] assms(3) by simp
  then have "dp_values (typed changes p) (ds_key s) = Some (JStr [])" using typed_other [OF assms(5)] by simp
  then have "ds_key s \<notin> fst ` set values"
    using saved_keys [OF assms(1,2,4,6)] assms(3) by simp
  then show ?thesis using e put_keeps_others [OF assms(7,2)] by simp
qed

definition demo_registry :: "device_setting list" where
  "demo_registry =
     [\<lparr> ds_key = ''observability.secret_key'', ds_group = ''observability'', ds_secret = True,
        ds_stored = Some ''sk'', ds_fallback = JStr [], ds_fallback_source = SrcDefault \<rparr>,
      \<lparr> ds_key = ''voice.asr_model'', ds_group = ''voice'', ds_secret = False, ds_stored = None,
        ds_fallback = JStr ''base'', ds_fallback_source = SrcEnvironment \<rparr>,
      \<lparr> ds_key = ''voice.asr_enabled'', ds_group = ''voice'', ds_secret = False, ds_stored = None,
        ds_fallback = JBool False, ds_fallback_source = SrcDefault \<rparr>]"

definition demo_form :: device_panel where
  "demo_form = device_load_done (Inr (public_registry (\<lambda>_. JStr) demo_registry)) initial_device_panel"

definition demo_validate :: "string \<Rightarrow> json \<Rightarrow> string option" where
  "demo_validate k v = Some (shown_text (Some v))"

definition demo_saved :: "(string \<times> json) list" where
  "demo_saved = [(''voice.asr_model'', JStr ''base''), (''voice.asr_enabled'', JBool True)]"

lemma demo_save:
  "device_save (typed [(''voice.asr_enabled'', JBool True)] demo_form) =
     Some ((typed [(''voice.asr_enabled'', JBool True)] demo_form)\<lparr> dp_busy := True \<rparr>, demo_saved)"
  by (simp add: demo_form_def demo_registry_def demo_saved_def device_load_done_def show_device_def public_registry_def
      public_item_def effective_with_source_def device_change_def device_save_def save_payload_def
      payload_field_def initialValues_def initial_value_def)

definition demo_registry2 :: "device_setting list" where
  "demo_registry2 =
     map (\<lambda>d. if ds_secret d then d else d\<lparr> ds_stored := Some (if ds_key d = ''voice.asr_model'' then ''base'' else ''true'') \<rparr>)
       demo_registry"

lemma demo_put: "put_runtime_settings demo_validate demo_saved [] demo_registry = Some demo_registry2"
  by (simp add: put_runtime_settings_def checked_values_def demo_saved_def demo_validate_def demo_registry_def
      demo_registry2_def set_value_def)

theorem secrets_are_not_sent_witness:
  "ds_stored (hd demo_registry) = Some ''sk'' \<and> hd demo_registry \<in> set demo_registry2"
proof -
  have "hd demo_registry \<in> set demo_registry2"
    by (rule secrets_are_not_sent [OF _ _ _ refl _ demo_save [unfolded demo_form_def] demo_put,
        THEN conjunct2, THEN conjunct2]) (simp_all add: demo_registry_def)
  then show ?thesis by (simp add: demo_registry_def)
qed

text \<open>
  One save makes page settings of them all: after the save of any change, every setting that
  is no secret has the value of the form stored for it, so none follows its environment variable
  or default any more, although the user touched only one of them.
\<close>

theorem one_save_pins_every_setting:
  assumes "distinct (map ds_key ds)" "p = device_load_done (Inr (public_registry parse ds)) p0"
    and "\<forall>d\<in>set ds. fst (effective_with_source parse d) \<noteq> JNull"
    and "device_save (typed changes p) = Some (p', values)"
    and "put_runtime_settings validate values [] ds = Some ds'"
  shows "\<forall>i\<in>set (public_registry parse ds'). \<not> di_secret i \<longrightarrow> di_source i = SrcDatabase"
proof (intro ballI impI)
  fix i assume "i \<in> set (public_registry parse ds')" and ns: "\<not> di_secret i"
  then obtain d' where d': "d' \<in> set ds'" "i = public_item parse d'" by (auto simp: public_registry_def)
  with ns have sec: "\<not> ds_secret d'" by (auto simp: public_item_def split: prod.splits)
  from put_shape [OF assms(5)] obtain vs where "ds' = map (stored_by vs) ds" .
  then obtain d where d: "d \<in> set ds" "ds_key d = ds_key d'" "ds_secret d = ds_secret d'"
    using d'(1) by auto
  have "dp_values p (ds_key d) \<noteq> None"
    using loaded_form [OF assms(1) d(1) assms(2)] assms(3) d(1) sec d(3) by auto
  then have "ds_key d \<in> fst ` set values"
    using saved_keys [OF assms(1) d(1) assms(2,4)] typed_present sec d(3) by blast
  then have "ds_stored d' \<noteq> None" using put_stores [OF assms(5) d'(1) sec] d(2) by simp
  then show "di_source i = SrcDatabase"
    by (auto simp: d'(2) public_item_def effective_with_source_def)
qed

lemma demo_shown: "map ds_secret demo_registry2 = [True, False, False]"
  by (simp add: demo_registry2_def demo_registry_def)

theorem one_save_pins_every_setting_witness:
  "map di_source (public_registry (\<lambda>_. JStr) demo_registry) = [SrcDatabase, SrcEnvironment, SrcDefault]
   \<and> map di_source (tl (public_registry (\<lambda>_. JStr) demo_registry2)) = [SrcDatabase, SrcDatabase]"
proof -
  have all: "\<forall>i\<in>set (public_registry (\<lambda>_. JStr) demo_registry2). \<not> di_secret i \<longrightarrow> di_source i = SrcDatabase"
    by (rule one_save_pins_every_setting [OF _ refl _ demo_save [unfolded demo_form_def] demo_put])
      (simp_all add: demo_registry_def effective_with_source_def)
  obtain a b d where r: "demo_registry2 = [a, b, d]" "\<not> ds_secret b" "\<not> ds_secret d"
    using demo_shown by (auto simp: map_eq_Cons_conv)
  have "map di_source (tl (public_registry (\<lambda>_. JStr) demo_registry2)) = [SrcDatabase, SrcDatabase]"
    using all r(2,3) unfolding r(1) by (simp add: public_registry_def public_item_def split: prod.splits)
  then show ?thesis
    by (simp add: demo_registry_def public_registry_def public_item_def effective_with_source_def)
qed

end
