(* ===== verification/ConsoleCalls.thy ===== *)
theory ConsoleCalls
  imports ServerRoutes ConsoleApi
begin

text \<open>
  Every call of the console (\<open>consoleApi\<close> in \<open>src/console/src/api.ts\<close>): one constructor per
  method, with its arguments, the request it makes, and the Server's handler it is meant for.
  The interface \<open>reaching\<close> is interpreted on them: the Server's table, whose routes overlap and
  are tried in order, gives every call to the handler meant, with the identifiers as parameters.
\<close>

subsection \<open>The calls\<close>

datatype auth_op =
    CMe | CLogin string string | CRegister string string | CAuthCapabilities
    | CBootstrapAdmin string string string | CSsoProviders | CSsoStart string string
    | CSsoPoll string string | CAdminSsoProviders | CSsoProviderAudit int | CSsoReadiness
    | CSaveSsoProvider string json | CCreateSsoSignupInvite int | CLogout

primrec auth_endpoint :: "auth_op \<Rightarrow> endpoint" where
  "auth_endpoint CMe = \<lparr> ep_method = ''GET'',
     ep_path = [Lit ''me''],
     ep_query = [], ep_body = None \<rparr>"
| "auth_endpoint (CLogin nam pwd) = \<lparr> ep_method = ''POST'',
     ep_path = [Lit ''auth'', Lit ''login''],
     ep_query = [], ep_body = Some (JObj [(''name'', JStr nam), (''password'', JStr pwd)]) \<rparr>"
| "auth_endpoint (CRegister nam pwd) = \<lparr> ep_method = ''POST'',
     ep_path = [Lit ''auth'', Lit ''register''],
     ep_query = [], ep_body = Some (JObj [(''name'', JStr nam), (''password'', JStr pwd)]) \<rparr>"
| "auth_endpoint CAuthCapabilities = \<lparr> ep_method = ''GET'',
     ep_path = [Lit ''auth'', Lit ''capabilities''],
     ep_query = [], ep_body = None \<rparr>"
| "auth_endpoint (CBootstrapAdmin nam pwd bootstrap_secret) = \<lparr> ep_method = ''POST'',
     ep_path = [Lit ''auth'', Lit ''bootstrap''],
     ep_query = [], ep_body = Some (JObj [(''name'', JStr nam), (''password'', JStr pwd), (''bootstrap_secret'', JStr bootstrap_secret)]) \<rparr>"
| "auth_endpoint CSsoProviders = \<lparr> ep_method = ''GET'',
     ep_path = [Lit ''auth'', Lit ''sso'', Lit ''providers''],
     ep_query = [], ep_body = None \<rparr>"
| "auth_endpoint (CSsoStart prov invite_code) = \<lparr> ep_method = ''POST'',
     ep_path = [Lit ''auth'', Lit ''sso'', Lit ''start''],
     ep_query = [], ep_body = Some (JObj [(''provider'', JStr prov), (''invite_code'', JStr invite_code)]) \<rparr>"
| "auth_endpoint (CSsoPoll attempt_id attempt_token) = \<lparr> ep_method = ''POST'',
     ep_path = [Lit ''auth'', Lit ''sso'', Lit ''poll''],
     ep_query = [], ep_body = Some (JObj [(''attempt_id'', JStr attempt_id), (''attempt_token'', JStr attempt_token)]) \<rparr>"
| "auth_endpoint CAdminSsoProviders = \<lparr> ep_method = ''GET'',
     ep_path = [Lit ''admin'', Lit ''sso'', Lit ''providers''],
     ep_query = [], ep_body = None \<rparr>"
| "auth_endpoint (CSsoProviderAudit lim) = \<lparr> ep_method = ''GET'',
     ep_path = [Lit ''admin'', Lit ''sso'', Lit ''audit''],
     ep_query = [(''limit'', dec_int lim)], ep_body = None \<rparr>"
| "auth_endpoint CSsoReadiness = \<lparr> ep_method = ''GET'',
     ep_path = [Lit ''admin'', Lit ''sso'', Lit ''readiness''],
     ep_query = [], ep_body = None \<rparr>"
| "auth_endpoint (CSaveSsoProvider prov bod) = \<lparr> ep_method = ''PUT'',
     ep_path = [Lit ''admin'', Lit ''sso'', Lit ''providers'', Enc prov],
     ep_query = [], ep_body = Some bod \<rparr>"
| "auth_endpoint (CCreateSsoSignupInvite ttl_seconds) = \<lparr> ep_method = ''POST'',
     ep_path = [Lit ''admin'', Lit ''sso'', Lit ''signup-invites''],
     ep_query = [], ep_body = Some (JObj [(''ttl_seconds'', JNum ttl_seconds)]) \<rparr>"
| "auth_endpoint CLogout = \<lparr> ep_method = ''POST'',
     ep_path = [Lit ''auth'', Lit ''logout''],
     ep_query = [], ep_body = None \<rparr>"

primrec auth_handler :: "auth_op \<Rightarrow> string \<times> (string \<times> string) list" where
  "auth_handler CMe = (''auth.me'', [])"
| "auth_handler (CLogin nam pwd) = (''auth.login'', [])"
| "auth_handler (CRegister nam pwd) = (''auth.register'', [])"
| "auth_handler CAuthCapabilities = (''auth.capabilities'', [])"
| "auth_handler (CBootstrapAdmin nam pwd bootstrap_secret) = (''auth.bootstrap'', [])"
| "auth_handler CSsoProviders = (''sso.providers'', [])"
| "auth_handler (CSsoStart prov invite_code) = (''sso.start_sso'', [])"
| "auth_handler (CSsoPoll attempt_id attempt_token) = (''sso.poll_sso'', [])"
| "auth_handler CAdminSsoProviders = (''sso.admin_providers'', [])"
| "auth_handler (CSsoProviderAudit lim) = (''sso.provider_audit'', [])"
| "auth_handler CSsoReadiness = (''sso.readiness'', [])"
| "auth_handler (CSaveSsoProvider prov bod) = (''sso.update_provider'', [(''provider'', prov)])"
| "auth_handler (CCreateSsoSignupInvite ttl_seconds) = (''sso.create_signup_invite'', [])"
| "auth_handler CLogout = (''auth.logout'', [])"

datatype catalog_op =
    CSkills | CSkillTools | CTools bool | CUpdateTool string json | CCreateTool json
    | CDeleteTool string | CToolAudit string | CUpdateSkill string json | CSkillReleases string
    | CCreateSkillRelease json int string string | CSubmitSkillReleaseTest string json
    | CApproveSkillRelease string | CPublishSkillRelease string json | CPauseSkillRelease string
    | CWithdrawSkillRelease string | CRollbackSkillRelease string

primrec catalog_endpoint :: "catalog_op \<Rightarrow> endpoint" where
  "catalog_endpoint CSkills = \<lparr> ep_method = ''GET'',
     ep_path = [Lit ''catalog'', Lit ''APP_SKILLS''],
     ep_query = [(''all'', ''true'')], ep_body = None \<rparr>"
| "catalog_endpoint CSkillTools = \<lparr> ep_method = ''GET'',
     ep_path = [Lit ''catalog'', Lit ''skill-tools''],
     ep_query = [], ep_body = None \<rparr>"
| "catalog_endpoint (CTools al) = \<lparr> ep_method = ''GET'',
     ep_path = [Lit ''catalog'', Lit ''tools''],
     ep_query = (if al then [(''all'', ''true'')] else []), ep_body = None \<rparr>"
| "catalog_endpoint (CUpdateTool nam pat) = \<lparr> ep_method = ''PATCH'',
     ep_path = [Lit ''catalog'', Lit ''tools'', Enc nam],
     ep_query = [], ep_body = Some pat \<rparr>"
| "catalog_endpoint (CCreateTool tol) = \<lparr> ep_method = ''POST'',
     ep_path = [Lit ''catalog'', Lit ''tools''],
     ep_query = [], ep_body = Some tol \<rparr>"
| "catalog_endpoint (CDeleteTool nam) = \<lparr> ep_method = ''DELETE'',
     ep_path = [Lit ''catalog'', Lit ''tools'', Enc nam],
     ep_query = [], ep_body = None \<rparr>"
| "catalog_endpoint (CToolAudit nam) = \<lparr> ep_method = ''GET'',
     ep_path = [Lit ''catalog'', Lit ''tools'', Enc nam, Lit ''audit''],
     ep_query = [], ep_body = None \<rparr>"
| "catalog_endpoint (CUpdateSkill i pat) = \<lparr> ep_method = ''PATCH'',
     ep_path = [Lit ''catalog'', Lit ''item'', Enc i],
     ep_query = [], ep_body = Some pat \<rparr>"
| "catalog_endpoint (CSkillReleases catalogItemId) = \<lparr> ep_method = ''GET'',
     ep_path = [Lit ''catalog'', Lit ''skill-releases''],
     ep_query = (if catalogItemId = [] then [] else [(''catalog_item_id'', encodeURIComponent catalogItemId)]), ep_body = None \<rparr>"
| "catalog_endpoint (CCreateSkillRelease dat pos catalogItemId minAppVersion) = \<lparr> ep_method = ''POST'',
     ep_path = [Lit ''catalog'', Lit ''skill-releases''],
     ep_query = [], ep_body = Some (JObj [(''data'', dat), (''sort'', JNum pos), (''catalog_item_id'', JStr catalogItemId), (''min_app_version'', JStr minAppVersion)]) \<rparr>"
| "catalog_endpoint (CSubmitSkillReleaseTest i bod) = \<lparr> ep_method = ''POST'',
     ep_path = [Lit ''catalog'', Lit ''skill-releases'', Enc i, Lit ''test-result''],
     ep_query = [], ep_body = Some bod \<rparr>"
| "catalog_endpoint (CApproveSkillRelease i) = \<lparr> ep_method = ''POST'',
     ep_path = [Lit ''catalog'', Lit ''skill-releases'', Enc i, Lit ''approve''],
     ep_query = [], ep_body = None \<rparr>"
| "catalog_endpoint (CPublishSkillRelease i bod) = \<lparr> ep_method = ''POST'',
     ep_path = [Lit ''catalog'', Lit ''skill-releases'', Enc i, Lit ''publish''],
     ep_query = [], ep_body = Some bod \<rparr>"
| "catalog_endpoint (CPauseSkillRelease i) = \<lparr> ep_method = ''POST'',
     ep_path = [Lit ''catalog'', Lit ''skill-releases'', Enc i, Lit ''pause''],
     ep_query = [], ep_body = None \<rparr>"
| "catalog_endpoint (CWithdrawSkillRelease i) = \<lparr> ep_method = ''POST'',
     ep_path = [Lit ''catalog'', Lit ''skill-releases'', Enc i, Lit ''withdraw''],
     ep_query = [], ep_body = None \<rparr>"
| "catalog_endpoint (CRollbackSkillRelease i) = \<lparr> ep_method = ''POST'',
     ep_path = [Lit ''catalog'', Lit ''skill-releases'', Enc i, Lit ''rollback''],
     ep_query = [], ep_body = None \<rparr>"

primrec catalog_handler :: "catalog_op \<Rightarrow> string \<times> (string \<times> string) list" where
  "catalog_handler CSkills = (''catalog.list_catalog'', [(''category'', ''APP_SKILLS'')])"
| "catalog_handler CSkillTools = (''catalog.list_skill_tools'', [])"
| "catalog_handler (CTools al) = (''catalog.list_tools'', [])"
| "catalog_handler (CUpdateTool nam pat) = (''catalog.update_tool'', [(''name'', nam)])"
| "catalog_handler (CCreateTool tol) = (''catalog.create_shell_tool'', [])"
| "catalog_handler (CDeleteTool nam) = (''catalog.delete_tool'', [(''name'', nam)])"
| "catalog_handler (CToolAudit nam) = (''catalog.tool_audit'', [(''name'', nam)])"
| "catalog_handler (CUpdateSkill i pat) = (''catalog.update_item'', [(''item_id'', i)])"
| "catalog_handler (CSkillReleases catalogItemId) = (''catalog.list_releases'', [])"
| "catalog_handler (CCreateSkillRelease dat pos catalogItemId minAppVersion) = (''catalog.create_release'', [])"
| "catalog_handler (CSubmitSkillReleaseTest i bod) = (''catalog.record_release_test'', [(''release_id'', i)])"
| "catalog_handler (CApproveSkillRelease i) = (''catalog.approve_release'', [(''release_id'', i)])"
| "catalog_handler (CPublishSkillRelease i bod) = (''catalog.publish_release'', [(''release_id'', i)])"
| "catalog_handler (CPauseSkillRelease i) = (''catalog.pause_release'', [(''release_id'', i)])"
| "catalog_handler (CWithdrawSkillRelease i) = (''catalog.withdraw_release'', [(''release_id'', i)])"
| "catalog_handler (CRollbackSkillRelease i) = (''catalog.rollback_release'', [(''release_id'', i)])"

datatype automation_op =
    CDevices | CRevokeDevice string | CAutomations | CCreateAutomation json
    | CUpdateAutomation string json | CDeleteAutomation string int | CRunAutomation string
    | CAutomationFires string | CReplayAutomationFire string | CIgnoreAutomationFire string
    | CAutomationWebhook string | CCreateAutomationWebhook string | CRotateAutomationWebhook string
    | CDeleteAutomationWebhook string

primrec automation_endpoint :: "automation_op \<Rightarrow> endpoint" where
  "automation_endpoint CDevices = \<lparr> ep_method = ''GET'',
     ep_path = [Lit ''devices''],
     ep_query = [], ep_body = None \<rparr>"
| "automation_endpoint (CRevokeDevice i) = \<lparr> ep_method = ''DELETE'',
     ep_path = [Lit ''devices'', Enc i],
     ep_query = [], ep_body = None \<rparr>"
| "automation_endpoint CAutomations = \<lparr> ep_method = ''GET'',
     ep_path = [Lit ''automations''],
     ep_query = [], ep_body = None \<rparr>"
| "automation_endpoint (CCreateAutomation bod) = \<lparr> ep_method = ''POST'',
     ep_path = [Lit ''automations''],
     ep_query = [], ep_body = Some bod \<rparr>"
| "automation_endpoint (CUpdateAutomation i bod) = \<lparr> ep_method = ''PATCH'',
     ep_path = [Lit ''automations'', Enc i],
     ep_query = [], ep_body = Some bod \<rparr>"
| "automation_endpoint (CDeleteAutomation i expectedVersion) = \<lparr> ep_method = ''DELETE'',
     ep_path = [Lit ''automations'', Enc i],
     ep_query = [(''expected_version'', dec_int expectedVersion)], ep_body = None \<rparr>"
| "automation_endpoint (CRunAutomation i) = \<lparr> ep_method = ''POST'',
     ep_path = [Lit ''automations'', Enc i, Lit ''run''],
     ep_query = [], ep_body = None \<rparr>"
| "automation_endpoint (CAutomationFires automationId) = \<lparr> ep_method = ''GET'',
     ep_path = [Lit ''automation-fires''],
     ep_query = [(''automation_id'', encodeURIComponent automationId)], ep_body = None \<rparr>"
| "automation_endpoint (CReplayAutomationFire i) = \<lparr> ep_method = ''POST'',
     ep_path = [Lit ''automation-fires'', Enc i, Lit ''replay''],
     ep_query = [], ep_body = Some (JObj []) \<rparr>"
| "automation_endpoint (CIgnoreAutomationFire i) = \<lparr> ep_method = ''POST'',
     ep_path = [Lit ''automation-fires'', Enc i, Lit ''ignore''],
     ep_query = [], ep_body = Some (JObj []) \<rparr>"
| "automation_endpoint (CAutomationWebhook i) = \<lparr> ep_method = ''GET'',
     ep_path = [Lit ''automations'', Enc i, Lit ''webhook''],
     ep_query = [], ep_body = None \<rparr>"
| "automation_endpoint (CCreateAutomationWebhook i) = \<lparr> ep_method = ''POST'',
     ep_path = [Lit ''automations'', Enc i, Lit ''webhook''],
     ep_query = [], ep_body = Some (JObj []) \<rparr>"
| "automation_endpoint (CRotateAutomationWebhook i) = \<lparr> ep_method = ''POST'',
     ep_path = [Lit ''automations'', Enc i, Lit ''webhook'', Lit ''rotate''],
     ep_query = [], ep_body = Some (JObj []) \<rparr>"
| "automation_endpoint (CDeleteAutomationWebhook i) = \<lparr> ep_method = ''DELETE'',
     ep_path = [Lit ''automations'', Enc i, Lit ''webhook''],
     ep_query = [], ep_body = None \<rparr>"

primrec automation_handler :: "automation_op \<Rightarrow> string \<times> (string \<times> string) list" where
  "automation_handler CDevices = (''run_protocol.devices'', [])"
| "automation_handler (CRevokeDevice i) = (''run_protocol.revoke_device'', [(''device_id'', i)])"
| "automation_handler CAutomations = (''business.list_automations'', [])"
| "automation_handler (CCreateAutomation bod) = (''business.create_automation'', [])"
| "automation_handler (CUpdateAutomation i bod) = (''business.update_automation'', [(''automation_id'', i)])"
| "automation_handler (CDeleteAutomation i expectedVersion) = (''business.delete_automation'', [(''automation_id'', i)])"
| "automation_handler (CRunAutomation i) = (''business.run_automation_now'', [(''automation_id'', i)])"
| "automation_handler (CAutomationFires automationId) = (''business.list_automation_fires'', [])"
| "automation_handler (CReplayAutomationFire i) = (''business.replay_automation_fire'', [(''fire_id'', i)])"
| "automation_handler (CIgnoreAutomationFire i) = (''business.ignore_automation_fire'', [(''fire_id'', i)])"
| "automation_handler (CAutomationWebhook i) = (''automation_webhooks.get_webhook'', [(''automation_id'', i)])"
| "automation_handler (CCreateAutomationWebhook i) = (''automation_webhooks.create_webhook'', [(''automation_id'', i)])"
| "automation_handler (CRotateAutomationWebhook i) = (''automation_webhooks.rotate_webhook'', [(''automation_id'', i)])"
| "automation_handler (CDeleteAutomationWebhook i) = (''automation_webhooks.delete_webhook'', [(''automation_id'', i)])"

datatype project_op =
    CProjects bool | CProject string | CCreateProject json | CUpdateProject string json
    | CTransferProject string string | CArchiveProject string | CRestoreProject string
    | CDeleteProject string string | CProjectMembers string | CAddProjectMember string string string
    | CUpdateProjectMember string string string | CRemoveProjectMember string string
    | CInviteProjectMember string string

primrec project_endpoint :: "project_op \<Rightarrow> endpoint" where
  "project_endpoint (CProjects includeArchived) = \<lparr> ep_method = ''GET'',
     ep_path = [Lit ''projects''],
     ep_query = (if includeArchived then [(''include_archived'', ''true'')] else []), ep_body = None \<rparr>"
| "project_endpoint (CProject i) = \<lparr> ep_method = ''GET'',
     ep_path = [Lit ''projects'', Enc i],
     ep_query = [], ep_body = None \<rparr>"
| "project_endpoint (CCreateProject bod) = \<lparr> ep_method = ''POST'',
     ep_path = [Lit ''projects''],
     ep_query = [], ep_body = Some bod \<rparr>"
| "project_endpoint (CUpdateProject i bod) = \<lparr> ep_method = ''PATCH'',
     ep_path = [Lit ''projects'', Enc i],
     ep_query = [], ep_body = Some bod \<rparr>"
| "project_endpoint (CTransferProject i accountId) = \<lparr> ep_method = ''POST'',
     ep_path = [Lit ''projects'', Enc i, Lit ''transfer''],
     ep_query = [], ep_body = Some (JObj [(''account_id'', JStr accountId)]) \<rparr>"
| "project_endpoint (CArchiveProject i) = \<lparr> ep_method = ''POST'',
     ep_path = [Lit ''projects'', Enc i, Lit ''archive''],
     ep_query = [], ep_body = None \<rparr>"
| "project_endpoint (CRestoreProject i) = \<lparr> ep_method = ''POST'',
     ep_path = [Lit ''projects'', Enc i, Lit ''restore''],
     ep_query = [], ep_body = None \<rparr>"
| "project_endpoint (CDeleteProject i confirmName) = \<lparr> ep_method = ''DELETE'',
     ep_path = [Lit ''projects'', Enc i],
     ep_query = [], ep_body = Some (JObj [(''confirm_name'', JStr confirmName)]) \<rparr>"
| "project_endpoint (CProjectMembers i) = \<lparr> ep_method = ''GET'',
     ep_path = [Lit ''projects'', Enc i, Lit ''members''],
     ep_query = [], ep_body = None \<rparr>"
| "project_endpoint (CAddProjectMember i nam rol) = \<lparr> ep_method = ''POST'',
     ep_path = [Lit ''projects'', Enc i, Lit ''members''],
     ep_query = [], ep_body = Some (JObj [(''name'', JStr nam), (''role'', JStr rol)]) \<rparr>"
| "project_endpoint (CUpdateProjectMember i accountId rol) = \<lparr> ep_method = ''PATCH'',
     ep_path = [Lit ''projects'', Enc i, Lit ''members'', Enc accountId],
     ep_query = [], ep_body = Some (JObj [(''role'', JStr rol)]) \<rparr>"
| "project_endpoint (CRemoveProjectMember i accountId) = \<lparr> ep_method = ''DELETE'',
     ep_path = [Lit ''projects'', Enc i, Lit ''members'', Enc accountId],
     ep_query = [], ep_body = None \<rparr>"
| "project_endpoint (CInviteProjectMember i rol) = \<lparr> ep_method = ''POST'',
     ep_path = [Lit ''projects'', Enc i, Lit ''invites''],
     ep_query = [], ep_body = Some (JObj [(''role'', JStr rol)]) \<rparr>"

primrec project_handler :: "project_op \<Rightarrow> string \<times> (string \<times> string) list" where
  "project_handler (CProjects includeArchived) = (''projects.list_projects'', [])"
| "project_handler (CProject i) = (''projects.get_project'', [(''project_id'', i)])"
| "project_handler (CCreateProject bod) = (''projects.create_project'', [])"
| "project_handler (CUpdateProject i bod) = (''projects.update_project'', [(''project_id'', i)])"
| "project_handler (CTransferProject i accountId) = (''projects.transfer_project'', [(''project_id'', i)])"
| "project_handler (CArchiveProject i) = (''projects.archive_project'', [(''project_id'', i)])"
| "project_handler (CRestoreProject i) = (''projects.restore_project'', [(''project_id'', i)])"
| "project_handler (CDeleteProject i confirmName) = (''projects.remove_project'', [(''project_id'', i)])"
| "project_handler (CProjectMembers i) = (''projects.project_members'', [(''project_id'', i)])"
| "project_handler (CAddProjectMember i nam rol) = (''projects.add_project_member'', [(''project_id'', i)])"
| "project_handler (CUpdateProjectMember i accountId rol) = (''projects.change_member_role'', [(''project_id'', i), (''account_id'', accountId)])"
| "project_handler (CRemoveProjectMember i accountId) = (''projects.remove_member'', [(''project_id'', i), (''account_id'', accountId)])"
| "project_handler (CInviteProjectMember i rol) = (''invites.create_invite'', [(''project_id'', i)])"

datatype work_op =
    CWorkItems string | CWorkItemDelivery string string string
    | CAcceptWorkItemDelivery string string string int | CCreateWorkItem string json
    | CUpdateWorkItem string string json | CUpdateWorkItemExecutionPolicy string string json
    | CTriggerWorkItemExecutionPolicy string string | CDeleteWorkItem string string

primrec work_endpoint :: "work_op \<Rightarrow> endpoint" where
  "work_endpoint (CWorkItems i) = \<lparr> ep_method = ''GET'',
     ep_path = [Lit ''projects'', Enc i, Lit ''work-items''],
     ep_query = [], ep_body = None \<rparr>"
| "work_endpoint (CWorkItemDelivery i workId cur) = \<lparr> ep_method = ''GET'',
     ep_path = [Lit ''projects'', Enc i, Lit ''work-items'', Enc workId, Lit ''delivery''],
     ep_query = [(''limit'', ''20'')] @ (if cur = [] then [] else [(''cursor'', encodeURIComponent cur)]), ep_body = None \<rparr>"
| "work_endpoint (CAcceptWorkItemDelivery i workId runId artifactCount) = \<lparr> ep_method = ''POST'',
     ep_path = [Lit ''projects'', Enc i, Lit ''work-items'', Enc workId, Lit ''accept''],
     ep_query = [], ep_body = Some (JObj [(''run_id'', JStr runId), (''artifact_count'', JNum artifactCount)]) \<rparr>"
| "work_endpoint (CCreateWorkItem i bod) = \<lparr> ep_method = ''POST'',
     ep_path = [Lit ''projects'', Enc i, Lit ''work-items''],
     ep_query = [], ep_body = Some bod \<rparr>"
| "work_endpoint (CUpdateWorkItem i workId bod) = \<lparr> ep_method = ''PATCH'',
     ep_path = [Lit ''projects'', Enc i, Lit ''work-items'', Enc workId],
     ep_query = [], ep_body = Some bod \<rparr>"
| "work_endpoint (CUpdateWorkItemExecutionPolicy i workId bod) = \<lparr> ep_method = ''PUT'',
     ep_path = [Lit ''projects'', Enc i, Lit ''work-items'', Enc workId, Lit ''execution-policy''],
     ep_query = [], ep_body = Some bod \<rparr>"
| "work_endpoint (CTriggerWorkItemExecutionPolicy i workId) = \<lparr> ep_method = ''POST'',
     ep_path = [Lit ''projects'', Enc i, Lit ''work-items'', Enc workId, Lit ''execution-policy'', Lit ''trigger''],
     ep_query = [], ep_body = Some (JObj []) \<rparr>"
| "work_endpoint (CDeleteWorkItem i workId) = \<lparr> ep_method = ''DELETE'',
     ep_path = [Lit ''projects'', Enc i, Lit ''work-items'', Enc workId],
     ep_query = [], ep_body = None \<rparr>"

primrec work_handler :: "work_op \<Rightarrow> string \<times> (string \<times> string) list" where
  "work_handler (CWorkItems i) = (''work_items.list_items'', [(''project_id'', i)])"
| "work_handler (CWorkItemDelivery i workId cur) = (''work_items.item_delivery'', [(''project_id'', i), (''wid'', workId)])"
| "work_handler (CAcceptWorkItemDelivery i workId runId artifactCount) = (''work_items.accept_item'', [(''project_id'', i), (''wid'', workId)])"
| "work_handler (CCreateWorkItem i bod) = (''work_items.create_item'', [(''project_id'', i)])"
| "work_handler (CUpdateWorkItem i workId bod) = (''work_items.update_item'', [(''project_id'', i), (''wid'', workId)])"
| "work_handler (CUpdateWorkItemExecutionPolicy i workId bod) = (''work_items.set_execution_policy'', [(''project_id'', i), (''wid'', workId)])"
| "work_handler (CTriggerWorkItemExecutionPolicy i workId) = (''work_items.trigger_execution_policy'', [(''project_id'', i), (''wid'', workId)])"
| "work_handler (CDeleteWorkItem i workId) = (''work_items.delete_item'', [(''project_id'', i), (''wid'', workId)])"

datatype plan_op =
    CMilestones string | CCreateMilestone string json | CUpdateMilestone string string json
    | CDeleteMilestone string string | CGovernance string | CCreateGovernance string json
    | CUpdateGovernance string string json | CDeleteGovernance string string | CProjectHealth string
    | CProjectExecutionAnalytics string int string | CProjectHealthPortfolio | CProjectHealthScan
    | CProjectHealthEvents string | CActivity string | CCustomFields string
    | CCreateCustomField string json | CUpdateCustomField string string json
    | CDeleteCustomField string string | CSprints string | CCreateSprint string json
    | CUpdateSprint string string json | CDeleteSprint string string | CSprintBurndown string string
    | CExportPmCsv string

primrec plan_endpoint :: "plan_op \<Rightarrow> endpoint" where
  "plan_endpoint (CMilestones i) = \<lparr> ep_method = ''GET'',
     ep_path = [Lit ''projects'', Enc i, Lit ''milestones''],
     ep_query = [], ep_body = None \<rparr>"
| "plan_endpoint (CCreateMilestone i bod) = \<lparr> ep_method = ''POST'',
     ep_path = [Lit ''projects'', Enc i, Lit ''milestones''],
     ep_query = [], ep_body = Some bod \<rparr>"
| "plan_endpoint (CUpdateMilestone i milestoneId bod) = \<lparr> ep_method = ''PATCH'',
     ep_path = [Lit ''projects'', Enc i, Lit ''milestones'', Enc milestoneId],
     ep_query = [], ep_body = Some bod \<rparr>"
| "plan_endpoint (CDeleteMilestone i milestoneId) = \<lparr> ep_method = ''DELETE'',
     ep_path = [Lit ''projects'', Enc i, Lit ''milestones'', Enc milestoneId],
     ep_query = [], ep_body = None \<rparr>"
| "plan_endpoint (CGovernance i) = \<lparr> ep_method = ''GET'',
     ep_path = [Lit ''projects'', Enc i, Lit ''governance''],
     ep_query = [], ep_body = None \<rparr>"
| "plan_endpoint (CCreateGovernance i bod) = \<lparr> ep_method = ''POST'',
     ep_path = [Lit ''projects'', Enc i, Lit ''governance''],
     ep_query = [], ep_body = Some bod \<rparr>"
| "plan_endpoint (CUpdateGovernance i recordId bod) = \<lparr> ep_method = ''PATCH'',
     ep_path = [Lit ''projects'', Enc i, Lit ''governance'', Enc recordId],
     ep_query = [], ep_body = Some bod \<rparr>"
| "plan_endpoint (CDeleteGovernance i recordId) = \<lparr> ep_method = ''DELETE'',
     ep_path = [Lit ''projects'', Enc i, Lit ''governance'', Enc recordId],
     ep_query = [], ep_body = None \<rparr>"
| "plan_endpoint (CProjectHealth i) = \<lparr> ep_method = ''GET'',
     ep_path = [Lit ''projects'', Enc i, Lit ''health''],
     ep_query = [], ep_body = None \<rparr>"
| "plan_endpoint (CProjectExecutionAnalytics i dys timezone) = \<lparr> ep_method = ''GET'',
     ep_path = [Lit ''projects'', Enc i, Lit ''execution-analytics''],
     ep_query = [(''days'', dec_int dys), (''timezone'', encodeURIComponent timezone)], ep_body = None \<rparr>"
| "plan_endpoint CProjectHealthPortfolio = \<lparr> ep_method = ''GET'',
     ep_path = [Lit ''project-health''],
     ep_query = [], ep_body = None \<rparr>"
| "plan_endpoint CProjectHealthScan = \<lparr> ep_method = ''POST'',
     ep_path = [Lit ''project-health'', Lit ''scan''],
     ep_query = [], ep_body = None \<rparr>"
| "plan_endpoint (CProjectHealthEvents i) = \<lparr> ep_method = ''GET'',
     ep_path = [Lit ''projects'', Enc i, Lit ''health-events''],
     ep_query = [], ep_body = None \<rparr>"
| "plan_endpoint (CActivity i) = \<lparr> ep_method = ''GET'',
     ep_path = [Lit ''projects'', Enc i, Lit ''activity''],
     ep_query = [], ep_body = None \<rparr>"
| "plan_endpoint (CCustomFields i) = \<lparr> ep_method = ''GET'',
     ep_path = [Lit ''projects'', Enc i, Lit ''custom-fields''],
     ep_query = [], ep_body = None \<rparr>"
| "plan_endpoint (CCreateCustomField i bod) = \<lparr> ep_method = ''POST'',
     ep_path = [Lit ''projects'', Enc i, Lit ''custom-fields''],
     ep_query = [], ep_body = Some bod \<rparr>"
| "plan_endpoint (CUpdateCustomField i fieldId bod) = \<lparr> ep_method = ''PATCH'',
     ep_path = [Lit ''projects'', Enc i, Lit ''custom-fields'', Enc fieldId],
     ep_query = [], ep_body = Some bod \<rparr>"
| "plan_endpoint (CDeleteCustomField i fieldId) = \<lparr> ep_method = ''DELETE'',
     ep_path = [Lit ''projects'', Enc i, Lit ''custom-fields'', Enc fieldId],
     ep_query = [], ep_body = None \<rparr>"
| "plan_endpoint (CSprints i) = \<lparr> ep_method = ''GET'',
     ep_path = [Lit ''projects'', Enc i, Lit ''sprints''],
     ep_query = [], ep_body = None \<rparr>"
| "plan_endpoint (CCreateSprint i bod) = \<lparr> ep_method = ''POST'',
     ep_path = [Lit ''projects'', Enc i, Lit ''sprints''],
     ep_query = [], ep_body = Some bod \<rparr>"
| "plan_endpoint (CUpdateSprint i sprintId bod) = \<lparr> ep_method = ''PATCH'',
     ep_path = [Lit ''projects'', Enc i, Lit ''sprints'', Enc sprintId],
     ep_query = [], ep_body = Some bod \<rparr>"
| "plan_endpoint (CDeleteSprint i sprintId) = \<lparr> ep_method = ''DELETE'',
     ep_path = [Lit ''projects'', Enc i, Lit ''sprints'', Enc sprintId],
     ep_query = [], ep_body = None \<rparr>"
| "plan_endpoint (CSprintBurndown i sprintId) = \<lparr> ep_method = ''GET'',
     ep_path = [Lit ''projects'', Enc i, Lit ''sprints'', Enc sprintId, Lit ''burndown''],
     ep_query = [], ep_body = None \<rparr>"
| "plan_endpoint (CExportPmCsv i) = \<lparr> ep_method = ''GET'',
     ep_path = [Lit ''projects'', Enc i, Lit ''pm-export.csv''],
     ep_query = [], ep_body = None \<rparr>"

primrec plan_handler :: "plan_op \<Rightarrow> string \<times> (string \<times> string) list" where
  "plan_handler (CMilestones i) = (''milestones.list_items'', [(''project_id'', i)])"
| "plan_handler (CCreateMilestone i bod) = (''milestones.create_item'', [(''project_id'', i)])"
| "plan_handler (CUpdateMilestone i milestoneId bod) = (''milestones.update_item'', [(''project_id'', i), (''mid'', milestoneId)])"
| "plan_handler (CDeleteMilestone i milestoneId) = (''milestones.delete_item'', [(''project_id'', i), (''mid'', milestoneId)])"
| "plan_handler (CGovernance i) = (''governance.list_records'', [(''project_id'', i)])"
| "plan_handler (CCreateGovernance i bod) = (''governance.create_record'', [(''project_id'', i)])"
| "plan_handler (CUpdateGovernance i recordId bod) = (''governance.update_record'', [(''project_id'', i), (''record_id'', recordId)])"
| "plan_handler (CDeleteGovernance i recordId) = (''governance.delete_record'', [(''project_id'', i), (''record_id'', recordId)])"
| "plan_handler (CProjectHealth i) = (''project_health.project_health'', [(''project_id'', i)])"
| "plan_handler (CProjectExecutionAnalytics i dys timezone) = (''project_analytics.execution_analytics'', [(''project_id'', i)])"
| "plan_handler CProjectHealthPortfolio = (''project_health.project_health_portfolio'', [])"
| "plan_handler CProjectHealthScan = (''project_health.scan_project_health'', [])"
| "plan_handler (CProjectHealthEvents i) = (''project_health.project_health_events'', [(''project_id'', i)])"
| "plan_handler (CActivity i) = (''work_items.project_activity'', [(''project_id'', i)])"
| "plan_handler (CCustomFields i) = (''pm.list_custom_fields'', [(''project_id'', i)])"
| "plan_handler (CCreateCustomField i bod) = (''pm.create_custom_field'', [(''project_id'', i)])"
| "plan_handler (CUpdateCustomField i fieldId bod) = (''pm.update_custom_field'', [(''project_id'', i), (''field_id'', fieldId)])"
| "plan_handler (CDeleteCustomField i fieldId) = (''pm.delete_custom_field'', [(''project_id'', i), (''field_id'', fieldId)])"
| "plan_handler (CSprints i) = (''pm.list_sprints'', [(''project_id'', i)])"
| "plan_handler (CCreateSprint i bod) = (''pm.create_sprint'', [(''project_id'', i)])"
| "plan_handler (CUpdateSprint i sprintId bod) = (''pm.update_sprint'', [(''project_id'', i), (''sprint_id'', sprintId)])"
| "plan_handler (CDeleteSprint i sprintId) = (''pm.delete_sprint'', [(''project_id'', i), (''sprint_id'', sprintId)])"
| "plan_handler (CSprintBurndown i sprintId) = (''pm.sprint_burndown'', [(''project_id'', i), (''sprint_id'', sprintId)])"
| "plan_handler (CExportPmCsv i) = (''pm.export_pm_csv'', [(''project_id'', i)])"

datatype team_op =
    CComments string | CCreateComment string string | CWorkItemComments string string
    | CCreateWorkItemComment string string string | CWorkItemActivity string string
    | CPmPreferences string | CUpdatePmPreferences string json | CTimeline string | CPresence string
    | COrganizations | CCreateOrganization string | COrganizationMembers string
    | CAddOrganizationMember string string string

primrec team_endpoint :: "team_op \<Rightarrow> endpoint" where
  "team_endpoint (CComments i) = \<lparr> ep_method = ''GET'',
     ep_path = [Lit ''projects'', Enc i, Lit ''comments''],
     ep_query = [], ep_body = None \<rparr>"
| "team_endpoint (CCreateComment i bod) = \<lparr> ep_method = ''POST'',
     ep_path = [Lit ''projects'', Enc i, Lit ''comments''],
     ep_query = [], ep_body = Some (JObj [(''body'', JStr bod)]) \<rparr>"
| "team_endpoint (CWorkItemComments i workId) = \<lparr> ep_method = ''GET'',
     ep_path = [Lit ''projects'', Enc i, Lit ''work-items'', Enc workId, Lit ''comments''],
     ep_query = [], ep_body = None \<rparr>"
| "team_endpoint (CCreateWorkItemComment i workId bod) = \<lparr> ep_method = ''POST'',
     ep_path = [Lit ''projects'', Enc i, Lit ''work-items'', Enc workId, Lit ''comments''],
     ep_query = [], ep_body = Some (JObj [(''body'', JStr bod)]) \<rparr>"
| "team_endpoint (CWorkItemActivity i workId) = \<lparr> ep_method = ''GET'',
     ep_path = [Lit ''projects'', Enc i, Lit ''work-items'', Enc workId, Lit ''activity''],
     ep_query = [], ep_body = None \<rparr>"
| "team_endpoint (CPmPreferences i) = \<lparr> ep_method = ''GET'',
     ep_path = [Lit ''projects'', Enc i, Lit ''pm-preferences''],
     ep_query = [], ep_body = None \<rparr>"
| "team_endpoint (CUpdatePmPreferences i bod) = \<lparr> ep_method = ''PUT'',
     ep_path = [Lit ''projects'', Enc i, Lit ''pm-preferences''],
     ep_query = [], ep_body = Some bod \<rparr>"
| "team_endpoint (CTimeline i) = \<lparr> ep_method = ''GET'',
     ep_path = [Lit ''projects'', Enc i, Lit ''timeline''],
     ep_query = [], ep_body = None \<rparr>"
| "team_endpoint (CPresence i) = \<lparr> ep_method = ''GET'',
     ep_path = [Lit ''projects'', Enc i, Lit ''presence''],
     ep_query = [], ep_body = None \<rparr>"
| "team_endpoint COrganizations = \<lparr> ep_method = ''GET'',
     ep_path = [Lit ''orgs''],
     ep_query = [], ep_body = None \<rparr>"
| "team_endpoint (CCreateOrganization nam) = \<lparr> ep_method = ''POST'',
     ep_path = [Lit ''orgs''],
     ep_query = [], ep_body = Some (JObj [(''name'', JStr nam)]) \<rparr>"
| "team_endpoint (COrganizationMembers i) = \<lparr> ep_method = ''GET'',
     ep_path = [Lit ''orgs'', Enc i, Lit ''members''],
     ep_query = [], ep_body = None \<rparr>"
| "team_endpoint (CAddOrganizationMember i nam rol) = \<lparr> ep_method = ''POST'',
     ep_path = [Lit ''orgs'', Enc i, Lit ''members''],
     ep_query = [], ep_body = Some (JObj [(''name'', JStr nam), (''role'', JStr rol)]) \<rparr>"

primrec team_handler :: "team_op \<Rightarrow> string \<times> (string \<times> string) list" where
  "team_handler (CComments i) = (''comments.get_comments'', [(''project_id'', i)])"
| "team_handler (CCreateComment i bod) = (''comments.post_comment'', [(''project_id'', i)])"
| "team_handler (CWorkItemComments i workId) = (''comments.get_item_comments'', [(''project_id'', i), (''wid'', workId)])"
| "team_handler (CCreateWorkItemComment i workId bod) = (''comments.post_item_comment'', [(''project_id'', i), (''wid'', workId)])"
| "team_handler (CWorkItemActivity i workId) = (''work_items.item_activity'', [(''project_id'', i), (''wid'', workId)])"
| "team_handler (CPmPreferences i) = (''pm.get_pm_preferences'', [(''project_id'', i)])"
| "team_handler (CUpdatePmPreferences i bod) = (''pm.update_pm_preferences'', [(''project_id'', i)])"
| "team_handler (CTimeline i) = (''timeline.get_timeline'', [(''project_id'', i)])"
| "team_handler (CPresence i) = (''comments.get_presence'', [(''project_id'', i)])"
| "team_handler COrganizations = (''orgs.list_orgs'', [])"
| "team_handler (CCreateOrganization nam) = (''orgs.create_org'', [])"
| "team_handler (COrganizationMembers i) = (''orgs.org_members'', [(''org_id'', i)])"
| "team_handler (CAddOrganizationMember i nam rol) = (''orgs.add_org_member'', [(''org_id'', i)])"

datatype account_op =
    CAccounts | CCreateAccount json | CUpdateAccount string json | CResetPassword string string
    | CSetPasswordLogin string bool | CSetAccountSuspended string bool
    | CRevokeAccountSessions string | CUnlinkAccountIdentity string string | CAuthAudit string int
    | CDeleteAccount string | CNotifications | CMarkNotificationsRead "string list option"
    | CPlatformSettings | CSavePlatformSettings json "string list" | CTestPlatformSettings string

primrec account_endpoint :: "account_op \<Rightarrow> endpoint" where
  "account_endpoint CAccounts = \<lparr> ep_method = ''GET'',
     ep_path = [Lit ''accounts''],
     ep_query = [], ep_body = None \<rparr>"
| "account_endpoint (CCreateAccount bod) = \<lparr> ep_method = ''POST'',
     ep_path = [Lit ''accounts''],
     ep_query = [], ep_body = Some bod \<rparr>"
| "account_endpoint (CUpdateAccount i bod) = \<lparr> ep_method = ''PATCH'',
     ep_path = [Lit ''accounts'', Enc i],
     ep_query = [], ep_body = Some bod \<rparr>"
| "account_endpoint (CResetPassword i pwd) = \<lparr> ep_method = ''POST'',
     ep_path = [Lit ''accounts'', Enc i, Lit ''password''],
     ep_query = [], ep_body = Some (JObj [(''password'', JStr pwd)]) \<rparr>"
| "account_endpoint (CSetPasswordLogin i en) = \<lparr> ep_method = ''PUT'',
     ep_path = [Lit ''accounts'', Enc i, Lit ''password-login''],
     ep_query = [], ep_body = Some (JObj [(''enabled'', JBool en)]) \<rparr>"
| "account_endpoint (CSetAccountSuspended i suspended) = \<lparr> ep_method = ''PUT'',
     ep_path = [Lit ''accounts'', Enc i, Lit ''suspension''],
     ep_query = [], ep_body = Some (JObj [(''suspended'', JBool suspended)]) \<rparr>"
| "account_endpoint (CRevokeAccountSessions i) = \<lparr> ep_method = ''POST'',
     ep_path = [Lit ''accounts'', Enc i, Lit ''sessions'', Lit ''revoke''],
     ep_query = [], ep_body = None \<rparr>"
| "account_endpoint (CUnlinkAccountIdentity i prov) = \<lparr> ep_method = ''DELETE'',
     ep_path = [Lit ''accounts'', Enc i, Lit ''identities'', Enc prov],
     ep_query = [], ep_body = None \<rparr>"
| "account_endpoint (CAuthAudit accountId lim) = \<lparr> ep_method = ''GET'',
     ep_path = [Lit ''accounts'', Lit ''auth-audit''],
     ep_query = [(''account_id'', encodeURIComponent accountId), (''limit'', dec_int lim)], ep_body = None \<rparr>"
| "account_endpoint (CDeleteAccount i) = \<lparr> ep_method = ''DELETE'',
     ep_path = [Lit ''accounts'', Enc i],
     ep_query = [], ep_body = None \<rparr>"
| "account_endpoint CNotifications = \<lparr> ep_method = ''GET'',
     ep_path = [Lit ''notifications''],
     ep_query = [], ep_body = None \<rparr>"
| "account_endpoint (CMarkNotificationsRead ids) = \<lparr> ep_method = ''POST'',
     ep_path = [Lit ''notifications'', Lit ''read''],
     ep_query = [], ep_body = Some (JObj (case ids of None \<Rightarrow> [] | Some xs \<Rightarrow> [(''ids'', JArr (map JStr xs))])) \<rparr>"
| "account_endpoint CPlatformSettings = \<lparr> ep_method = ''GET'',
     ep_path = [Lit ''admin'', Lit ''settings''],
     ep_query = [], ep_body = None \<rparr>"
| "account_endpoint (CSavePlatformSettings vals cleared) = \<lparr> ep_method = ''PUT'',
     ep_path = [Lit ''admin'', Lit ''settings''],
     ep_query = [], ep_body = Some (JObj [(''values'', vals), (''clear'', JArr (map JStr cleared))]) \<rparr>"
| "account_endpoint (CTestPlatformSettings grp) = \<lparr> ep_method = ''POST'',
     ep_path = [Lit ''admin'', Lit ''settings'', Lit ''test''],
     ep_query = [], ep_body = Some (JObj [(''group'', JStr grp)]) \<rparr>"

primrec account_handler :: "account_op \<Rightarrow> string \<times> (string \<times> string) list" where
  "account_handler CAccounts = (''accounts.list_accounts'', [])"
| "account_handler (CCreateAccount bod) = (''accounts.create_account'', [])"
| "account_handler (CUpdateAccount i bod) = (''accounts.update_account'', [(''account_id'', i)])"
| "account_handler (CResetPassword i pwd) = (''accounts.reset_password'', [(''account_id'', i)])"
| "account_handler (CSetPasswordLogin i en) = (''accounts.password_login'', [(''account_id'', i)])"
| "account_handler (CSetAccountSuspended i suspended) = (''accounts.suspension'', [(''account_id'', i)])"
| "account_handler (CRevokeAccountSessions i) = (''accounts.revoke_sessions'', [(''account_id'', i)])"
| "account_handler (CUnlinkAccountIdentity i prov) = (''accounts.unlink_account_identity'', [(''account_id'', i), (''provider'', prov)])"
| "account_handler (CAuthAudit accountId lim) = (''accounts.auth_audit'', [])"
| "account_handler (CDeleteAccount i) = (''accounts.delete_account'', [(''account_id'', i)])"
| "account_handler CNotifications = (''notifications.list_notifs'', [])"
| "account_handler (CMarkNotificationsRead ids) = (''notifications.mark_read'', [])"
| "account_handler CPlatformSettings = (''platform_settings.get_platform_settings'', [])"
| "account_handler (CSavePlatformSettings vals cleared) = (''platform_settings.put_platform_settings'', [])"
| "account_handler (CTestPlatformSettings grp) = (''platform_settings.test_platform_settings'', [])"

datatype knowledge_op =
    CCatalog "string option" bool | CCreateCatalogItem string json int
    | CUpdateCatalogItem string json | CDeleteCatalogItem string | CKnowledgeBases string
    | CProjectAssets string | CAssetGrant string | CAssetContent string | CDeleteAsset string int
    | CCreateKnowledgeBase string json | CUpdateKnowledgeBase string string json
    | CDeleteKnowledgeBase string string | CMigrateKnowledgeBase string string
    | CKnowledgeDocuments string string int int string
    | CUploadKnowledgeDocument string string string | CDeleteKnowledgeDocument string string string
    | CSearchProjectKnowledge string json

primrec knowledge_endpoint :: "knowledge_op \<Rightarrow> endpoint" where
  "knowledge_endpoint (CCatalog cat al) = \<lparr> ep_method = ''GET'',
     ep_path = Lit ''catalog'' # (if truthy cat then [Enc (opt_str cat)] else []),
     ep_query = (if al then [(''all'', ''true'')] else []), ep_body = None \<rparr>"
| "knowledge_endpoint (CCreateCatalogItem cat dat pos) = \<lparr> ep_method = ''POST'',
     ep_path = [Lit ''catalog''],
     ep_query = [], ep_body = Some (JObj [(''category'', JStr cat), (''data'', dat), (''sort'', JNum pos)]) \<rparr>"
| "knowledge_endpoint (CUpdateCatalogItem i pat) = \<lparr> ep_method = ''PATCH'',
     ep_path = [Lit ''catalog'', Lit ''item'', Enc i],
     ep_query = [], ep_body = Some pat \<rparr>"
| "knowledge_endpoint (CDeleteCatalogItem i) = \<lparr> ep_method = ''DELETE'',
     ep_path = [Lit ''catalog'', Lit ''item'', Enc i],
     ep_query = [], ep_body = None \<rparr>"
| "knowledge_endpoint (CKnowledgeBases i) = \<lparr> ep_method = ''GET'',
     ep_path = [Lit ''projects'', Enc i, Lit ''knowledge-bases''],
     ep_query = [], ep_body = None \<rparr>"
| "knowledge_endpoint (CProjectAssets i) = \<lparr> ep_method = ''GET'',
     ep_path = [Lit ''assets''],
     ep_query = [(''project_id'', encodeURIComponent i), (''limit'', ''200'')], ep_body = None \<rparr>"
| "knowledge_endpoint (CAssetGrant i) = \<lparr> ep_method = ''POST'',
     ep_path = [Lit ''assets'', Enc i, Lit ''download-grant''],
     ep_query = [], ep_body = Some (JObj []) \<rparr>"
| "knowledge_endpoint (CAssetContent i) = \<lparr> ep_method = ''GET'',
     ep_path = [Lit ''assets'', Enc i, Lit ''content''],
     ep_query = [], ep_body = None \<rparr>"
| "knowledge_endpoint (CDeleteAsset i ver) = \<lparr> ep_method = ''DELETE'',
     ep_path = [Lit ''assets'', Enc i],
     ep_query = [(''expected_version'', dec_int ver)], ep_body = None \<rparr>"
| "knowledge_endpoint (CCreateKnowledgeBase i bod) = \<lparr> ep_method = ''POST'',
     ep_path = [Lit ''projects'', Enc i, Lit ''knowledge-bases''],
     ep_query = [], ep_body = Some bod \<rparr>"
| "knowledge_endpoint (CUpdateKnowledgeBase i kbId bod) = \<lparr> ep_method = ''PATCH'',
     ep_path = [Lit ''projects'', Enc i, Lit ''knowledge-bases'', Enc kbId],
     ep_query = [], ep_body = Some bod \<rparr>"
| "knowledge_endpoint (CDeleteKnowledgeBase i kbId) = \<lparr> ep_method = ''DELETE'',
     ep_path = [Lit ''projects'', Enc i, Lit ''knowledge-bases'', Enc kbId],
     ep_query = [], ep_body = None \<rparr>"
| "knowledge_endpoint (CMigrateKnowledgeBase i kbId) = \<lparr> ep_method = ''POST'',
     ep_path = [Lit ''projects'', Enc i, Lit ''knowledge-bases'', Enc kbId, Lit ''migrate''],
     ep_query = [], ep_body = Some (JObj []) \<rparr>"
| "knowledge_endpoint (CKnowledgeDocuments i kbId pg pageSize kw) = \<lparr> ep_method = ''GET'',
     ep_path = [Lit ''projects'', Enc i, Lit ''knowledge-bases'', Enc kbId, Lit ''documents''],
     ep_query = [(''page'', form_encode (dec_int pg)), (''page_size'', form_encode (dec_int pageSize))]
       @ (if kw = [] then [] else [(''keyword'', form_encode kw)]), ep_body = None \<rparr>"
| "knowledge_endpoint (CUploadKnowledgeDocument i kbId file) = \<lparr> ep_method = ''POST'',
     ep_path = [Lit ''projects'', Enc i, Lit ''knowledge-bases'', Enc kbId, Lit ''documents''],
     ep_query = [(''filename'', encodeURIComponent file)], ep_body = None \<rparr>"
| "knowledge_endpoint (CDeleteKnowledgeDocument i kbId docId) = \<lparr> ep_method = ''DELETE'',
     ep_path = [Lit ''projects'', Enc i, Lit ''knowledge-bases'', Enc kbId, Lit ''documents'', Enc docId],
     ep_query = [], ep_body = None \<rparr>"
| "knowledge_endpoint (CSearchProjectKnowledge i bod) = \<lparr> ep_method = ''POST'',
     ep_path = [Lit ''projects'', Enc i, Lit ''knowledge-search''],
     ep_query = [], ep_body = Some bod \<rparr>"

primrec knowledge_handler :: "knowledge_op \<Rightarrow> string \<times> (string \<times> string) list" where
  "knowledge_handler (CCatalog cat al) =
     (if truthy cat then (''catalog.list_catalog'', [(''category'', opt_str cat)]) else (''catalog.list_all_catalog'', []))"
| "knowledge_handler (CCreateCatalogItem cat dat pos) = (''catalog.create_item'', [])"
| "knowledge_handler (CUpdateCatalogItem i pat) = (''catalog.update_item'', [(''item_id'', i)])"
| "knowledge_handler (CDeleteCatalogItem i) = (''catalog.delete_item'', [(''item_id'', i)])"
| "knowledge_handler (CKnowledgeBases i) = (''knowledge.list_kbs'', [(''project_id'', i)])"
| "knowledge_handler (CProjectAssets i) = (''business.list_assets'', [])"
| "knowledge_handler (CAssetGrant i) = (''assets.download_grant'', [(''asset_id'', i)])"
| "knowledge_handler (CAssetContent i) = (''assets.download_content'', [(''asset_id'', i)])"
| "knowledge_handler (CDeleteAsset i ver) = (''business.delete_asset'', [(''asset_id'', i)])"
| "knowledge_handler (CCreateKnowledgeBase i bod) = (''knowledge.create_kb'', [(''project_id'', i)])"
| "knowledge_handler (CUpdateKnowledgeBase i kbId bod) = (''knowledge.update_kb'', [(''project_id'', i), (''kb_id'', kbId)])"
| "knowledge_handler (CDeleteKnowledgeBase i kbId) = (''knowledge.delete_kb'', [(''project_id'', i), (''kb_id'', kbId)])"
| "knowledge_handler (CMigrateKnowledgeBase i kbId) = (''knowledge.migrate_legacy_kb'', [(''project_id'', i), (''kb_id'', kbId)])"
| "knowledge_handler (CKnowledgeDocuments i kbId pg pageSize kw) = (''knowledge.list_documents'', [(''project_id'', i), (''kb_id'', kbId)])"
| "knowledge_handler (CUploadKnowledgeDocument i kbId file) = (''knowledge.upload_document'', [(''project_id'', i), (''kb_id'', kbId)])"
| "knowledge_handler (CDeleteKnowledgeDocument i kbId docId) = (''knowledge.delete_document'', [(''project_id'', i), (''kb_id'', kbId), (''doc_id'', docId)])"
| "knowledge_handler (CSearchProjectKnowledge i bod) = (''knowledge.search_project_knowledge'', [(''project_id'', i)])"

subsection \<open>All of them\<close>

datatype console_op =
    AuthOp auth_op | CatalogOp catalog_op | AutomationOp automation_op | ProjectOp project_op
  | WorkOp work_op | PlanOp plan_op | TeamOp team_op | AccountOp account_op | KnowledgeOp knowledge_op

primrec console_endpoint :: "console_op \<Rightarrow> endpoint" where
  "console_endpoint (AuthOp c) = auth_endpoint c"
| "console_endpoint (CatalogOp c) = catalog_endpoint c"
| "console_endpoint (AutomationOp c) = automation_endpoint c"
| "console_endpoint (ProjectOp c) = project_endpoint c"
| "console_endpoint (WorkOp c) = work_endpoint c"
| "console_endpoint (PlanOp c) = plan_endpoint c"
| "console_endpoint (TeamOp c) = team_endpoint c"
| "console_endpoint (AccountOp c) = account_endpoint c"
| "console_endpoint (KnowledgeOp c) = knowledge_endpoint c"

primrec console_handler :: "console_op \<Rightarrow> string \<times> (string \<times> string) list" where
  "console_handler (AuthOp c) = auth_handler c"
| "console_handler (CatalogOp c) = catalog_handler c"
| "console_handler (AutomationOp c) = automation_handler c"
| "console_handler (ProjectOp c) = project_handler c"
| "console_handler (WorkOp c) = work_handler c"
| "console_handler (PlanOp c) = plan_handler c"
| "console_handler (TeamOp c) = team_handler c"
| "console_handler (AccountOp c) = account_handler c"
| "console_handler (KnowledgeOp c) = knowledge_handler c"

text \<open>What becomes of an answer, and the methods over the three kinds of request.\<close>

definition outcome :: "(json \<Rightarrow> string) \<Rightarrow> string + http_response \<Rightarrow> json api_res" where
  "outcome stringify r =
     (case r of
        Inl e \<Rightarrow> Inl (PlainError e)
      | Inr r \<Rightarrow> if hr_ok r then Inr (answer_data r) else Inl (ApiError (refusal stringify r) (hr_status r)))"

definition console_call :: "(json \<Rightarrow> string) \<Rightarrow> console_op \<Rightarrow> api_call" where
  "console_call stringify c =
     (let e = console_endpoint c
      in \<lparr> aq_method = ep_method e, aq_url = ''/api'' @ endpoint_url e,
           aq_headers = session_header # (case ep_body e of None \<Rightarrow> [] | Some _ \<Rightarrow> [json_header]),
           aq_body = map_option stringify (ep_body e) \<rparr>)"

definition consoleApi :: "(json \<Rightarrow> string) \<Rightarrow> fetcher \<Rightarrow> console_op \<Rightarrow> json api_res" where
  "consoleApi stringify fetch c =
     (let e = console_endpoint c
      in apiRequest stringify fetch (ep_method e) (endpoint_url e) (ep_body e))"

definition exportPmCsv :: "fetcher \<Rightarrow> string \<Rightarrow> (string \<times> http_response) api_res" where
  "exportPmCsv fetch i =
     apiDownload fetch (endpoint_url (plan_endpoint (CExportPmCsv i))) (''project-'' @ i @ ''-pm.csv'')"

definition uploadKnowledgeDocument ::
  "fetcher \<Rightarrow> string \<Rightarrow> string \<Rightarrow> string \<Rightarrow> string \<Rightarrow> json api_res" where
  "uploadKnowledgeDocument fetch i kbId file content =
     apiUpload fetch (render_path (ep_path (knowledge_endpoint (CUploadKnowledgeDocument i kbId file)))) file content"

text \<open>\<open>downloadAsset\<close>: a grant first; its token, read off the answer, opens the content.\<close>

definition downloadAsset ::
  "(json \<Rightarrow> string) \<Rightarrow> fetcher \<Rightarrow> string \<Rightarrow> string \<Rightarrow> (string \<times> http_response) api_res" where
  "downloadAsset stringify fetch i file =
     (case consoleApi stringify fetch (KnowledgeOp (CAssetGrant i)) of
        Inl e \<Rightarrow> Inl e
      | Inr grant \<Rightarrow>
          (case fetch \<lparr> aq_method = ''GET'', aq_url = ''/api'' @ endpoint_url (knowledge_endpoint (CAssetContent i)),
                        aq_headers = [(''X-Asset-Token'', jstr_d (jget ''token'' grant))], aq_body = None \<rparr> of
             Inl e \<Rightarrow> Inl (PlainError e)
           | Inr r \<Rightarrow> if hr_ok r then Inr (file, r) else Inl (ApiError (http_text (hr_status r)) (hr_status r))))"

subsection \<open>They reach their handlers\<close>

lemmas planning = planned_def api_path_def place_holder_def server_lookup router_lookup route_lookup

lemma auth_planned: "planned server_routes (auth_endpoint c) = Some (auth_handler c)"
  by (cases c) (simp_all add: planning)

lemma catalog_planned: "planned server_routes (catalog_endpoint c) = Some (catalog_handler c)"
  by (cases c) (simp_all add: planning)

lemma automation_planned: "planned server_routes (automation_endpoint c) = Some (automation_handler c)"
  by (cases c) (simp_all add: planning)

lemma project_planned: "planned server_routes (project_endpoint c) = Some (project_handler c)"
  by (cases c) (simp_all add: planning)

lemma work_planned: "planned server_routes (work_endpoint c) = Some (work_handler c)"
  by (cases c) (simp_all add: planning)

lemma plan_planned: "planned server_routes (plan_endpoint c) = Some (plan_handler c)"
  by (cases c) (simp_all add: planning)

lemma team_planned: "planned server_routes (team_endpoint c) = Some (team_handler c)"
  by (cases c) (simp_all add: planning)

lemma account_planned: "planned server_routes (account_endpoint c) = Some (account_handler c)"
  by (cases c) (simp_all add: planning)

lemma catalog_all_planned:
  "planned server_routes (knowledge_endpoint (CCatalog cat al)) = Some (knowledge_handler (CCatalog cat al))"
  by (cases "truthy cat") (simp_all add: planning)

lemma knowledge_planned: "planned server_routes (knowledge_endpoint c) = Some (knowledge_handler c)"
  by (cases c; (simp only: catalog_all_planned)?) (simp_all add: planning)

lemma console_planned: "planned server_routes (console_endpoint c) = Some (console_handler c)"
  by (cases c) (simp_all only: console_endpoint.simps console_handler.simps
      auth_planned catalog_planned automation_planned project_planned work_planned
      plan_planned team_planned account_planned knowledge_planned)

interpretation console: reaching server_routes console_endpoint "\<lambda>c. Some (console_handler c)"
  by unfold_locales (rule console_planned, rule server_holder_free)

lemma consoleApi_call: "consoleApi stringify fetch c = outcome stringify (fetch (console_call stringify c))"
  by (simp add: consoleApi_def console_call_def outcome_def apiRequest_def Let_def)

lemma p1_plain: "plain_id server_routes ''p1''"
proof -
  have "''p1'' \<notin> set (reserved server_routes)"
    unfolding server_routes_def reserved_append set_append
    by (simp add: reserved_def server_routers)
  then show "plain_id server_routes ''p1''" by (simp add: plain_id_def utf8.simps(2))
qed

text \<open>
  C15. The contract of the console with the Server: every method of \<open>consoleApi\<close> makes one
  request, its answer decides the outcome, and the Server's table, searched in the order of its
  decorators, gives that request to the handler meant for it, with the caller's identifiers as
  the handler's parameters, whatever they contain, as long as each is one segment and none is
  itself a fixed part of a route.
\<close>

theorem console_calls_reach_their_handlers:
  assumes "list_all (piece_ok server_routes) (ep_path (console_endpoint c))"
  shows "consoleApi stringify fetch c = outcome stringify (fetch (console_call stringify c))
    \<and> serve server_routes (aq_method (console_call stringify c)) (aq_url (console_call stringify c))
        = Some (console_handler c)"
  using console.reaches [OF assms] consoleApi_call by (simp add: console_call_def Let_def)

theorem console_calls_reach_their_handlers_witness:
  "serve server_routes ''DELETE'' ''/api/projects/p1/work-items/p1'' =
     Some (''work_items.delete_item'', [(''project_id'', ''p1''), (''wid'', ''p1'')])"
proof -
  let ?c = "WorkOp (CDeleteWorkItem ''p1'' ''p1'')"
  have "list_all (piece_ok server_routes) (ep_path (console_endpoint ?c))"
    by (simp add: p1_plain unreserved_def)
  from console_calls_reach_their_handlers [OF this, of "\<lambda>_. []" "\<lambda>_. Inl []"]
  show ?thesis
    by (simp add: console_call_def endpoint_url_def render_path_def render_query_def
        encodeURIComponent_def enc_byte_def unreserved_def)
qed

end
