(* ===== verification/VersionedWrites.thy ===== *)
theory VersionedWrites
  imports DesktopApi
begin

text \<open>
  Operations that read a record's version and write against it (\<open>renameSession\<close>,
  \<open>deleteSession\<close>, \<open>reviewArtifact\<close> in \<open>src/src/lib/api.ts\<close>), with the Server's guarded updates
  (\<open>update_record\<close>, \<open>soft_delete\<close> in \<open>src/server/business_store.py\<close>), while other clients change
  the Server before each of their requests.
\<close>

subsection \<open>The Server's records\<close>

record stored =
  sd_version :: int
  sd_fields :: "(string \<times> json) list"
  sd_deleted :: bool

type_synonym store_table = "string \<Rightarrow> stored option"

datatype store_error = RecordNotFound | VersionConflict

definition live :: "store_table \<Rightarrow> string \<Rightarrow> stored option" where
  "live t i = (case t i of Some s \<Rightarrow> if sd_deleted s then None else Some s | None \<Rightarrow> None)"

definition update_record ::
  "string \<Rightarrow> int \<Rightarrow> (string \<times> json) list \<Rightarrow> store_table \<Rightarrow> (store_error + stored) \<times> store_table" where
  "update_record i expected flds t =
     (case live t i of
        None \<Rightarrow> (Inl RecordNotFound, t)
      | Some s \<Rightarrow>
          if sd_version s \<noteq> expected then (Inl VersionConflict, t)
          else let s1 = s\<lparr> sd_fields := fold (\<lambda>(k, v). jset k v) flds (sd_fields s),
                           sd_version := sd_version s + 1 \<rparr>
               in (Inr s1, t(i \<mapsto> s1)))"

definition soft_delete :: "string \<Rightarrow> int \<Rightarrow> store_table \<Rightarrow> (store_error + unit) \<times> store_table" where
  "soft_delete i expected t =
     (case live t i of
        None \<Rightarrow> (Inl RecordNotFound, t)
      | Some s \<Rightarrow>
          if sd_version s \<noteq> expected then (Inl VersionConflict, t)
          else (Inr (), t(i \<mapsto> s\<lparr> sd_deleted := True, sd_version := sd_version s + 1 \<rparr>)))"

text \<open>\<open>_mutation_error\<close>, as the client's channel gives it on.\<close>

fun mutation_error :: "store_error \<Rightarrow> exn" where
  "mutation_error RecordNotFound = ChannelUnavailableError ServerChannel ''record not found'' (Some 404)"
| "mutation_error VersionConflict = ChannelUnavailableError ServerChannel ''stale record version'' (Some 409)"

definition record_row :: "stored \<Rightarrow> json" where
  "record_row s = JObj (jset ''version'' (JNum (sd_version s)) (sd_fields s))"

definition wrote :: "(store_error + stored) \<times> store_table \<Rightarrow> json res \<times> store_table" where
  "wrote w = (map_sum mutation_error record_row (fst w), snd w)"

definition erased :: "(store_error + unit) \<times> store_table \<Rightarrow> json res \<times> store_table" where
  "erased w = (map_sum mutation_error (\<lambda>_. JObj [(''ok'', JBool True)]) (fst w), snd w)"

definition read_record :: "string \<Rightarrow> store_table \<Rightarrow> json res \<times> store_table" where
  "read_record i t =
     (case live t i of None \<Rightarrow> (Inl (mutation_error RecordNotFound), t) | Some s \<Rightarrow> (Inr (record_row s), t))"

definition expected_of :: "json \<Rightarrow> int" where
  "expected_of body = jint_d (jget ''expected_version'' body)"

text \<open>
  The Server's answers for one table of records; \<open>cleaned\<close> is what a route makes of the other
  fields of a patch.
\<close>

definition record_answer ::
  "(json \<Rightarrow> (string \<times> json) list) \<Rightarrow> server_ask \<Rightarrow> store_table \<Rightarrow> json res \<times> store_table" where
  "record_answer cleaned q t =
     (case q of
        AskGet (RunRequests (SSession i)) _ \<Rightarrow> read_record i t
      | AskGet (RunRequests (SAsset i)) _ \<Rightarrow> read_record i t
      | AskSend (RunRequests (SPatchSession i body)) _ \<Rightarrow> wrote (update_record i (expected_of body) (cleaned body) t)
      | AskSend (RunRequests (SPatchAsset i body)) _ \<Rightarrow> wrote (update_record i (expected_of body) (cleaned body) t)
      | AskSend (RunRequests (SDeleteSession i v)) _ \<Rightarrow> erased (soft_delete i v t)
      | _ \<Rightarrow> (Inl (mutation_error RecordNotFound), t))"

text \<open>Before every request other clients have changed the table: the next function of the list.\<close>

fun meddled ::
  "(server_ask \<Rightarrow> 's \<Rightarrow> json res \<times> 's) \<Rightarrow> server_ask \<Rightarrow> 's \<times> ('s \<Rightarrow> 's) list
     \<Rightarrow> json res \<times> 's \<times> ('s \<Rightarrow> 's) list" where
  "meddled answer q (st, []) = (case answer q st of (r, st1) \<Rightarrow> (r, st1, []))"
| "meddled answer q (st, f # fs) = (case answer q (f st) of (r, st1) \<Rightarrow> (r, st1, fs))"

subsection \<open>The interface: a write guarded by the version read\<close>

locale guarded_write =
  fixes answer :: "server_ask \<Rightarrow> 's \<Rightarrow> json res \<times> 's"
    and reading :: server_ask
    and writing :: "int \<Rightarrow> server_ask"
    and version_at :: "'s \<Rightarrow> int option"
    and written :: "'s \<Rightarrow> 's"
  assumes read_live: "version_at st = Some n \<Longrightarrow> \<exists>v. answer reading st = (Inr v, st) \<and> version_of v = n"
    and read_gone: "version_at st = None \<Longrightarrow> \<exists>e. answer reading st = (Inl e, st)"
    and write_current: "version_at st = Some n \<Longrightarrow> \<exists>v. answer (writing n) st = (Inr v, written st)"
    and write_stale: "version_at st \<noteq> Some n \<Longrightarrow> \<exists>e. answer (writing n) st = (Inl e, st)"
begin

definition guarded :: "json script" where
  "guarded = and_then (ask reading) (\<lambda>current. ask (writing (version_of current)))"

lemma guarded_outcome:
  "case run_script (meddled answer) guarded (st, [f, g]) of (r, st', fs) \<Rightarrow>
     (case r of
        Inl e \<Rightarrow> st' = (if version_at (f st) = None then f st else g (f st))
      | Inr _ \<Rightarrow> version_at (g (f st)) = version_at (f st) \<and> st' = written (g (f st)))"
proof (cases "version_at (f st)")
  case None
  with read_gone [OF None] show ?thesis by (auto simp: guarded_def run_and_then)
next
  case (Some n)
  from read_live [OF Some] obtain v where v: "answer reading (f st) = (Inr v, f st)" "version_of v = n" by blast
  show ?thesis
  proof (cases "version_at (g (f st)) = Some n")
    case True
    from write_current [OF this] v Some True show ?thesis by (auto simp: guarded_def run_and_then)
  next
    case False
    from write_stale [OF this] v Some False show ?thesis by (auto simp: guarded_def run_and_then)
  qed
qed

end

definition record_version :: "string \<Rightarrow> store_table \<Rightarrow> int option" where
  "record_version i t = map_option sd_version (live t i)"

lemma version_of_row: "version_of (record_row s) = sd_version s"
  by (simp add: version_of_def record_row_def del: jget.simps)

lemma read_record_version:
  "record_version i t = Some n \<Longrightarrow> \<exists>v. read_record i t = (Inr v, t) \<and> version_of v = n"
  "record_version i t = None \<Longrightarrow> \<exists>e. read_record i t = (Inl e, t)"
  by (auto simp: record_version_def read_record_def version_of_row)

lemma expected_of_fields:
  "expected_of (JObj [(''title'', a), (''expected_version'', JNum n)]) = n"
  "expected_of (JObj [(''expected_version'', JNum n), (''acceptance_status'', a), (''accepted_at'', b)]) = n"
  by (simp_all add: expected_of_def)

lemma update_record_guard:
  "record_version i t = Some n \<Longrightarrow>
     \<exists>v. wrote (update_record i n flds t) = (Inr v, snd (update_record i n flds t))"
  "record_version i t \<noteq> Some n \<Longrightarrow> \<exists>e. wrote (update_record i n flds t) = (Inl e, t)"
  by (auto simp: record_version_def update_record_def wrote_def Let_def split: option.split)

lemma soft_delete_guard:
  "record_version i t = Some n \<Longrightarrow> \<exists>v. erased (soft_delete i n t) = (Inr v, snd (soft_delete i n t))"
  "record_version i t \<noteq> Some n \<Longrightarrow> \<exists>e. erased (soft_delete i n t) = (Inl e, t)"
  by (auto simp: record_version_def soft_delete_def erased_def split: option.split)

subsection \<open>The client's operations keep to it\<close>

definition rename_write :: "string \<Rightarrow> string \<Rightarrow> int \<Rightarrow> server_ask" where
  "rename_write i title n =
     AskSend (RunRequests (SPatchSession i (JObj [(''title'', JStr title), (''expected_version'', JNum n)]))) []"

definition delete_write :: "string \<Rightarrow> int \<Rightarrow> server_ask" where
  "delete_write i n = AskSend (RunRequests (SDeleteSession i n)) []"

definition review_write :: "string \<Rightarrow> string \<Rightarrow> json \<Rightarrow> int \<Rightarrow> server_ask" where
  "review_write i status now n =
     AskSend (RunRequests (SPatchAsset i
       (JObj [(''expected_version'', JNum n), (''acceptance_status'', JStr status),
              (''accepted_at'', if status = ''accepted'' then now else JNull)]))) []"

text \<open>The record after a guarded write: the fields of the patch, or gone.\<close>

definition with_fields :: "string \<Rightarrow> (string \<times> json) list \<Rightarrow> store_table \<Rightarrow> store_table" where
  "with_fields i flds t =
     (case live t i of
        None \<Rightarrow> t
      | Some s \<Rightarrow> t(i \<mapsto> s\<lparr> sd_fields := fold (\<lambda>(k, v). jset k v) flds (sd_fields s),
                          sd_version := sd_version s + 1 \<rparr>))"

definition patched_by :: "(json \<Rightarrow> (string \<times> json) list) \<Rightarrow> string \<Rightarrow> (int \<Rightarrow> json) \<Rightarrow> store_table \<Rightarrow> store_table" where
  "patched_by cleaned i body t =
     (case record_version i t of None \<Rightarrow> t | Some n \<Rightarrow> with_fields i (cleaned (body n)) t)"

definition gone :: "string \<Rightarrow> store_table \<Rightarrow> store_table" where
  "gone i t =
     (case live t i of
        None \<Rightarrow> t | Some s \<Rightarrow> t(i \<mapsto> s\<lparr> sd_deleted := True, sd_version := sd_version s + 1 \<rparr>))"

lemma update_record_current:
  "record_version i t = Some n \<Longrightarrow> snd (update_record i n flds t) = with_fields i flds t"
  by (auto simp: record_version_def update_record_def with_fields_def Let_def)

lemma soft_delete_current: "record_version i t = Some n \<Longrightarrow> snd (soft_delete i n t) = gone i t"
  by (auto simp: record_version_def soft_delete_def gone_def)

definition rename_body :: "string \<Rightarrow> int \<Rightarrow> json" where
  "rename_body title n = JObj [(''title'', JStr title), (''expected_version'', JNum n)]"

definition review_body :: "string \<Rightarrow> json \<Rightarrow> int \<Rightarrow> json" where
  "review_body status now n =
     JObj [(''expected_version'', JNum n), (''acceptance_status'', JStr status),
           (''accepted_at'', if status = ''accepted'' then now else JNull)]"

lemmas guard_simps = record_answer_def rename_write_def delete_write_def review_write_def
  rename_body_def review_body_def patched_by_def expected_of_fields
  update_record_current soft_delete_current

interpretation rename: guarded_write "record_answer cleaned" "AskGet (RunRequests (SSession i)) False"
    "rename_write i title" "record_version i" "patched_by cleaned i (rename_body title)"
  for cleaned i title
proof
  show "\<exists>v. record_answer cleaned (AskGet (RunRequests (SSession i)) False) t = (Inr v, t) \<and> version_of v = n"
    if "record_version i t = Some n" for t n
    using read_record_version(1) [OF that] by (simp add: guard_simps)
  show "\<exists>e. record_answer cleaned (AskGet (RunRequests (SSession i)) False) t = (Inl e, t)"
    if "record_version i t = None" for t
    using read_record_version(2) [OF that] by (simp add: guard_simps)
  show "\<exists>v. record_answer cleaned (rename_write i title n) t = (Inr v, patched_by cleaned i (rename_body title) t)"
    if "record_version i t = Some n" for t n
    using update_record_guard(1) [OF that] that by (simp add: guard_simps)
  show "\<exists>e. record_answer cleaned (rename_write i title n) t = (Inl e, t)"
    if "record_version i t \<noteq> Some n" for t n
    using update_record_guard(2) [OF that] by (simp add: guard_simps)
qed

interpretation delete: guarded_write "record_answer cleaned" "AskGet (RunRequests (SSession i)) False"
    "delete_write i" "record_version i" "gone i"
  for cleaned i
proof
  show "\<exists>v. record_answer cleaned (AskGet (RunRequests (SSession i)) False) t = (Inr v, t) \<and> version_of v = n"
    if "record_version i t = Some n" for t n
    using read_record_version(1) [OF that] by (simp add: guard_simps)
  show "\<exists>e. record_answer cleaned (AskGet (RunRequests (SSession i)) False) t = (Inl e, t)"
    if "record_version i t = None" for t
    using read_record_version(2) [OF that] by (simp add: guard_simps)
  show "\<exists>v. record_answer cleaned (delete_write i n) t = (Inr v, gone i t)"
    if "record_version i t = Some n" for t n
    using soft_delete_guard(1) [OF that] that by (simp add: guard_simps)
  show "\<exists>e. record_answer cleaned (delete_write i n) t = (Inl e, t)"
    if "record_version i t \<noteq> Some n" for t n
    using soft_delete_guard(2) [OF that] by (simp add: guard_simps)
qed

interpretation review: guarded_write "record_answer cleaned" "AskGet (RunRequests (SAsset i)) False"
    "review_write i status now" "record_version i" "patched_by cleaned i (review_body status now)"
  for cleaned i status now
proof
  show "\<exists>v. record_answer cleaned (AskGet (RunRequests (SAsset i)) False) t = (Inr v, t) \<and> version_of v = n"
    if "record_version i t = Some n" for t n
    using read_record_version(1) [OF that] by (simp add: guard_simps)
  show "\<exists>e. record_answer cleaned (AskGet (RunRequests (SAsset i)) False) t = (Inl e, t)"
    if "record_version i t = None" for t
    using read_record_version(2) [OF that] by (simp add: guard_simps)
  show "\<exists>v. record_answer cleaned (review_write i status now n) t
      = (Inr v, patched_by cleaned i (review_body status now) t)"
    if "record_version i t = Some n" for t n
    using update_record_guard(1) [OF that] that by (simp add: guard_simps)
  show "\<exists>e. record_answer cleaned (review_write i status now n) t = (Inl e, t)"
    if "record_version i t \<noteq> Some n" for t n
    using update_record_guard(2) [OF that] by (simp add: guard_simps)
qed

lemma rename_guarded:
  "run_script (meddled (record_answer cleaned)) (renameSession i title) ts =
     (case run_script (meddled (record_answer cleaned)) (rename.guarded i title) ts of (r, ts') \<Rightarrow> (map_sum id (\<lambda>_. ()) r, ts'))"
  by (simp add: renameSession_def rename.guarded_def rename_write_def run_and_then split: prod.split sum.split)

lemma delete_guarded: "deleteSession i = delete.guarded i"
  by (simp add: deleteSession_def delete.guarded_def delete_write_def)

lemma review_guarded: "reviewArtifact i status now = review.guarded i status now"
  by (simp add: reviewArtifact_def review.guarded_def review_write_def)

text \<open>Every change other clients make to a record raises its version.\<close>

definition respectful :: "string \<Rightarrow> (store_table \<Rightarrow> store_table) \<Rightarrow> bool" where
  "respectful i g \<longleftrightarrow> (\<forall>t. g t i = t i \<or> record_version i (g t) \<noteq> record_version i t)"

lemma respectfulD: "respectful i g \<Longrightarrow> record_version i (g t) = record_version i t \<Longrightarrow> g t i = t i"
  by (auto simp: respectful_def)

lemma guarded_writes:
  assumes "respectful i g"
  shows "case run_script (meddled (record_answer cleaned)) (renameSession i title) (t, [f, g]) of (r, t', _) \<Rightarrow>
           (case r of
              Inl e \<Rightarrow> t' = (if record_version i (f t) = None then f t else g (f t))
            | Inr _ \<Rightarrow> g (f t) i = f t i \<and> t' = patched_by cleaned i (rename_body title) (g (f t)))"
    and "case run_script (meddled (record_answer cleaned)) (deleteSession i) (t, [f, g]) of (r, t', _) \<Rightarrow>
           (case r of
              Inl e \<Rightarrow> t' = (if record_version i (f t) = None then f t else g (f t))
            | Inr _ \<Rightarrow> g (f t) i = f t i \<and> t' = gone i (g (f t)) \<and> live t' i = None)"
    and "case run_script (meddled (record_answer cleaned)) (reviewArtifact i status now) (t, [f, g]) of (r, t', _) \<Rightarrow>
           (case r of
              Inl e \<Rightarrow> t' = (if record_version i (f t) = None then f t else g (f t))
            | Inr _ \<Rightarrow> g (f t) i = f t i \<and> t' = patched_by cleaned i (review_body status now) (g (f t)))"
proof -
  note kept = respectfulD [OF assms, of "f t"]
  have gone: "live (gone i u) i = None" for u
    by (cases "live u i") (simp_all add: gone_def live_def)
  show "case run_script (meddled (record_answer cleaned)) (renameSession i title) (t, [f, g]) of (r, t', _) \<Rightarrow>
           (case r of
              Inl e \<Rightarrow> t' = (if record_version i (f t) = None then f t else g (f t))
            | Inr _ \<Rightarrow> g (f t) i = f t i \<and> t' = patched_by cleaned i (rename_body title) (g (f t)))"
    using rename.guarded_outcome [where cleaned = cleaned and i = i and title = title and st = t and f = f and g = g] kept
    by (cases "fst (run_script (meddled (record_answer cleaned)) (rename.guarded i title) (t, [f, g]))")
      (simp_all add: rename_guarded split: prod.splits)
  show "case run_script (meddled (record_answer cleaned)) (deleteSession i) (t, [f, g]) of (r, t', _) \<Rightarrow>
           (case r of
              Inl e \<Rightarrow> t' = (if record_version i (f t) = None then f t else g (f t))
            | Inr _ \<Rightarrow> g (f t) i = f t i \<and> t' = gone i (g (f t)) \<and> live t' i = None)"
    using delete.guarded_outcome [where cleaned = cleaned and i = i and st = t and f = f and g = g] kept gone
    by (simp add: delete_guarded split: prod.splits sum.splits)
  show "case run_script (meddled (record_answer cleaned)) (reviewArtifact i status now) (t, [f, g]) of (r, t', _) \<Rightarrow>
           (case r of
              Inl e \<Rightarrow> t' = (if record_version i (f t) = None then f t else g (f t))
            | Inr _ \<Rightarrow> g (f t) i = f t i \<and> t' = patched_by cleaned i (review_body status now) (g (f t)))"
    using review.guarded_outcome [where cleaned = cleaned and i = i and status = status and now = now and st = t and f = f and g = g] kept
    by (simp add: review_guarded split: prod.splits sum.splits)
qed

text \<open>
  C7. A guarded operation never overwrites what another client wrote while it ran: if renaming
  or deleting a session or reviewing an artifact succeeds, the record was, when it was written,
  the one whose version was read, and nothing but it changed; if it fails, it changed nothing
  at all, and what the others wrote stands.
\<close>

theorem guarded_writes_lose_no_update:
  assumes "respectful i g"
  shows "(case run_script (meddled (record_answer cleaned)) (renameSession i title) (t, [f, g]) of (r, t', _) \<Rightarrow>
           (case r of
              Inl e \<Rightarrow> t' = (if record_version i (f t) = None then f t else g (f t))
            | Inr _ \<Rightarrow> g (f t) i = f t i \<and> t' = patched_by cleaned i (rename_body title) (g (f t))))
   \<and> (case run_script (meddled (record_answer cleaned)) (deleteSession i) (t, [f, g]) of (r, t', _) \<Rightarrow>
           (case r of
              Inl e \<Rightarrow> t' = (if record_version i (f t) = None then f t else g (f t))
            | Inr _ \<Rightarrow> g (f t) i = f t i \<and> t' = gone i (g (f t)) \<and> live t' i = None))
   \<and> (case run_script (meddled (record_answer cleaned)) (reviewArtifact i status now) (t, [f, g]) of (r, t', _) \<Rightarrow>
           (case r of
              Inl e \<Rightarrow> t' = (if record_version i (f t) = None then f t else g (f t))
            | Inr _ \<Rightarrow> g (f t) i = f t i \<and> t' = patched_by cleaned i (review_body status now) (g (f t))))"
  by (intro conjI) (rule guarded_writes [OF assms])+

definition demo_table :: store_table where
  "demo_table = [''s'' \<mapsto> \<lparr> sd_version = 3, sd_fields = [(''title'', JStr ''old'')], sd_deleted = False \<rparr>]"

text \<open>Another client renames the session first: the version read is stale, its title stands.\<close>

definition demo_meddling :: "store_table \<Rightarrow> store_table" where
  "demo_meddling t = with_fields ''s'' [(''title'', JStr ''theirs'')] t"

lemma demo_respectful: "respectful ''s'' demo_meddling"
  by (auto simp: respectful_def demo_meddling_def with_fields_def record_version_def live_def split: option.split)

theorem guarded_writes_lose_no_update_witness:
  "case run_script (meddled (record_answer object_fields)) (renameSession ''s'' ''mine'') (demo_table, [id, demo_meddling]) of
     (r, t', _) \<Rightarrow> isl r \<and> t' = demo_meddling demo_table"
proof -
  have "case run_script (meddled (record_answer object_fields)) (renameSession ''s'' ''mine'') (demo_table, [id, demo_meddling]) of
      (r, t', _) \<Rightarrow> isl r"
    by code_simp
  with guarded_writes_lose_no_update [OF demo_respectful, where cleaned = object_fields and title = "''mine''" and t = demo_table and f = id, THEN conjunct1]
  show ?thesis by (auto simp: record_version_def live_def demo_table_def split: prod.splits sum.splits)
qed

end
