(* ===== verification/Spec2Isabelle.thy ===== *)
theory Spec2Isabelle
  imports RunView JsUri WorkItems Channels Router Loadout Workbench Shell Collections Skills Account
    TaskTree TaskTable TaskSaves PmPreferences Gantt ProjectViews
 Calendar PlanBoard PlanDetail KnowledgeTab ProjectPage ConsoleWorkspace Updates
 WorkItemExecution SkillMarkdown SkillEditor SkillReleases ToolManager SkillsConsole
 SettingsPanels SecurityPanel MemoryPanel DeviceSettings
 ConsoleCalls LocalCalls ServerCalls DesktopApi VersionedWrites
begin

text \<open>
  AgentMate: the TypeScript clients of the agent platform, the desktop client (\<open>src/src\<close>) and
  the browser console (\<open>src/console/src\<close>), as shallow definitions with the theorems that make
  them correct.

  The program. A desktop client talks to a Local Agent and to a Server; the Server keeps the
  durable runs, their event log and the projects. The client starts a run, polls the Server's
  events of it, folds them into the conversation it shows, commits the artifacts and keeps a
  handful of stores (board, catalogue, account, settings, workbench) beside it. The console is
  a second client of the same Server for projects: tasks, sprints, milestones, plan settings.

  The theories, in the order of the code.

  \<^item> \<open>Prelude\<close>: lists updated by key, options, folds; the collections \<open>key_simps\<close> and others.
    \<open>JsText\<close>, \<open>JsUri\<close>, \<open>JsValue\<close>, \<open>Http\<close>, \<open>Optimistic\<close>: what the code uses of the language
    and its runtime: UTF-16 lengths and slices, trim, percent coding, JSON values and their
    casts, HTTP answers, optimistic edits of a field (a locale).
  \<^item> \<open>ChatTypes\<close>, \<open>SseEvents\<close> (\<open>lib/types.ts\<close>, \<open>lib/sse.ts\<close>): the run's events, their validation
    and the splitting of a byte stream into frames. \<open>FollowRun\<close>, \<open>EventLog\<close>, \<open>StreamChat\<close>
    (\<open>lib/sse.ts\<close>, \<open>server/run_protocol_store.py\<close>): the poll loop with its fence against older
    lease epochs, the Server's query of the log (a locale of event logs, interpreted on the
    query), starting a turn and committing artifacts.
  \<^item> \<open>ChatFold\<close>, \<open>ChatStore\<close>, \<open>ChatRuns\<close>, \<open>RunView\<close> (\<open>stores/chatStore.ts\<close>): the two folds of
    a run's events into a message (one locale, two interpretations), the store's operations,
    all interleavings of them as a step relation, and the composition with the reader: what a
    conversation shows after a run.
  \<^item> \<open>WorkItems\<close> (\<open>stores/workItemStore.ts\<close>), \<open>Channels\<close> (\<open>lib/channels.ts\<close>), \<open>Router\<close>
    (\<open>lib/router.ts\<close>, deep links), \<open>Loadout\<close>, \<open>Shell\<close>, \<open>Collections\<close>, \<open>Skills\<close>, \<open>Account\<close>,
    \<open>Workbench\<close>: the other stores of the desktop client, one theory each.
  \<^item> \<open>ConsoleApi\<close> (\<open>console/src/api.ts\<close>): requests and the error texts they give.
    \<open>ProjectData\<close>, \<open>TaskTree\<close>, \<open>TaskTable\<close>, \<open>ProjectState\<close>, \<open>ProjectSaves\<close>, \<open>ProjectViews\<close>,
    \<open>Gantt\<close> (\<open>console/src/components/project/ProjectWorkspace.tsx\<close>): a project's workspace: its
    data, the tree of tasks, the provider's state and handlers, the saves with their roll-back,
    and what each view computes. \<open>TaskSaves\<close> and \<open>PmPreferences\<close> compose them with the Server:
    interleaved optimistic saves refine a list of accepted updates, and the compare of revisions
    behind the shared plan settings.
  \<^item> \<open>Routes\<close>: endpoints as data, the Server's path templates and its choice of a route, and the
    locale of a client's table of calls that reaches the handlers it means. \<open>ServerRoutes\<close>
    (\<open>server/main.py\<close> and its routers), \<open>AgentRoutes\<close> (\<open>backend/main.py\<close>): the two tables of
    routes. \<open>ConsoleCalls\<close> (\<open>console/src/api.ts\<close>), \<open>LocalCalls\<close>, \<open>ServerCalls\<close>, \<open>DesktopApi\<close>
    (\<open>lib/api.ts\<close>): every method of the two API clients as an endpoint, the locale interpreted
    on each table, and the methods that do more than one request as scripts of requests.
    \<open>VersionedWrites\<close> (\<open>server/business_store.py\<close>): writes guarded by a version read before,
    among other clients' writes.
  \<^item> The plan of the desktop client (\<open>ProjectWork.tsx\<close>): \<open>PlanStore\<close>, the templates, views and
    limits in the browser's storage and the ones shared through the Server; \<open>Buckets\<close>, the
    grouping into a map of lists the views share; \<open>PlanBoard\<close>, the kanban's state, lanes, columns
    and handlers, the form of a new task, the lists and the workload; \<open>Dates\<close> and \<open>Calendar\<close>, the
    calendar of a \<open>Date\<close> and the six weeks of the calendar view; \<open>PlanDetail\<close>, the detail of a task
    with its delivery on the Server (\<open>server/routers/work_items.py\<close>), its attachments, the Gantt
    chart and the choice of a view.
  \<^item> The console's pages: \<open>ConsoleWorkspace\<close> (\<open>pages/WorkspacePage.tsx\<close>, \<open>workspaceApi.ts\<close>,
    \<open>localAgentPresentation.ts\<close>), with the checks of \<open>create_turn\<close> in \<open>server/routers/business.py\<close> the
    runs it starts pass; \<open>ProjectPage\<close> and \<open>KnowledgeTab\<close> (\<open>pages/ProjectDetailPage.tsx\<close>), the tab
    in the address and the browser's history, the picker of capabilities, and the knowledge bases
    whose numbered reads race.
  \<^item> \<open>Updates\<close> (\<open>platform/updates.ts\<close>): the preferences and the automatic check of the desktop app.
  \<^item> The settings (\<open>components/settings\<close>): \<open>SettingsPanels\<close>, the centre's pages that edit a draft (the
    locale \<open>draft_panel\<close>, interpreted on three of them), data and updates; \<open>SecurityPanel\<close>, the
    blocklist of commands with the agent's storing of it (\<open>backend/agent/security.py\<close>); \<open>MemoryPanel\<close>,
    the memories and \<open>MEMORY.md\<close> with their racing answers; \<open>DeviceSettings\<close>, the form of the device's
    settings with the agent's registry (\<open>backend/device_settings.py\<close>).
  \<^item> The skills of the console: \<open>SkillMarkdown\<close>, the reader and writer of \<open>SKILL.md\<close>, and \<open>SkillEditor\<close>,
    the editor of a skill with its attached files and tools (\<open>SkillEditor.tsx\<close>); \<open>SkillReleases\<close>, the page
    of releases (\<open>SkillsPage.tsx\<close>) with the Server's life cycle of them and the release an account is
    given (\<open>src/server/routers/catalog.py\<close>, \<open>src/server/db.py\<close>), as an inductive set of reachable states;
    \<open>ToolManager\<close>, the tools with the Server's checks of them; \<open>SkillsConsole\<close>, the page itself, the
    categories (\<open>SkillCategories.tsx\<close>), recommendations and blocked skills.
  \<^item> \<open>WorkItemExecution\<close> (\<open>console/src/components/project/WorkItemExecution.tsx\<close>): the runs of a task, the
    acceptance of what they delivered and the policy of automatic execution, with the Server's side of
    them (\<open>server/routers/work_items.py\<close>, \<open>server/db.py\<close>, \<open>server/work_item_auto_scheduler.py\<close>) and the life
    of a task there as a step relation.

  How state and operations correspond. A store or a component's React state is a record, an
  operation is a function of it. An \<open>async\<close> operation is cut at its awaits: \<open>x_begin\<close> is what
  it does before the request (\<open>None\<close> where it returns early), \<open>x_done\<close> what it does with the
  answer, an argument. Two operations may run between them, so properties over all
  interleavings are stated over step relations with the open requests as part of the state.
  What an operation shows or asks for beside its state (a notification, a reload, a confirm) is
  returned as a list of effects. React state read by a handler is the state as last rendered.

  Conventions. A \<open>string\<close> is the UTF-8 bytes of the text; length and slices count UTF-16 units
  where the code's do. \<open>toLowerCase\<close> is modelled on ASCII. Chinese labels and messages are
  written as English constants (\<open>msg_...\<close>). Numbers are integers, rationals where the code
  divides or keeps hours. \<open>null\<close> and \<open>undefined\<close> are \<open>None\<close>; a cast of a JSON value that the
  code does not check reads as the empty value (\<open>jstr\<close>, \<open>jarr_d\<close>). JSON parsing and printing,
  URL parsing, fetch, the clock, random ids and the Server's answers are arguments.

  What the lemmas show. Per theory: the invariant of the store and that each operation keeps it;
  the outcome of each branch of an operation; the locales' laws on the code's own functions.
  The numbered claims are the properties that matter: what a run's events become on the screen,
  that superseded streams are dead, that optimistic edits end in the Server's value or are
  undone, that deep links and Server addresses are safe, and, where the code deviates from what
  it means to do, the deviation as a theorem.

  Bounds and fuel. The poll loop runs over the list of its polls' answers and reports itself
  pending when that list ends; \<open>followed_run_ends\<close> shows that it ends once the Server reports a
  terminal status. Paged reads have the code's own bound of 100 pages as fuel. The sign-on loop
  runs over the readings of the clock. The walk of the task table and the chain of parents are
  total functions whose measure is the number of tasks not yet visited.

  Not modelled. The handlers of the Server and of the Local Agent (Python), except the queries
  and updates the clients' theorems rest on; the Tauri shell (Rust); the markup, styling and
  animations of the React components, and the widgets' own flags (which drawer is open, which
  row shows a spinner); \<open>data/catalog.ts\<close> and the vendored console bundle (data); scripts and
  tests. Pages of the console and of the desktop client that are not named above are left to
  later work.
\<close>

text \<open>
  C10. A cancelled run is not the same followed live and followed from a reopened session: of the
  very events \<open>followServerRun\<close> hands on for a run whose last poll says it was cancelled (with no
  recovery and no error on the way), the fold of \<open>send\<close> makes a completed run, which \<open>retry\<close>
  refuses to send again, and the fold of a reopened session a cancelled one, which \<open>retry\<close> sends.
\<close>

theorem cancelled_run_completes_live:
  assumes "followServerRun rid ps msgs = Followed out"
    and "\<And>r. PollGot r \<in> set ps \<Longrightarrow> poll_last r \<Longrightarrow> ar_status (pr_run r) = RCancelled"
    and "\<forall>e\<in>set out. \<not> is_recovery e \<and> event_type e \<noteq> ''error''"
    and "seen_live = snd (live_fold out (False, m))" "seen_reopened = fold resumed_step out m"
    and "\<not> cs_streaming st" "\<not> cs_read_only st" "msg_role u = RoleUser" "msg_run_id m = Some i" "i \<noteq> []"
    and "\<forall>x\<in>set (old @ [u]). msg_id x \<notin> {msg_id seen_live, msg_id seen_reopened}"
  shows "msg_run_status seen_live = Some RCompleted
     \<and> retry (msg_id seen_live) (st\<lparr>cs_messages := old @ [u, seen_live]\<rparr>) = []
     \<and> msg_run_status seen_reopened = Some RCancelled
     \<and> retry (msg_id seen_reopened) (st\<lparr>cs_messages := old @ [u, seen_reopened]\<rparr>) = [EffSend (msg_content u) (Some i)]"
proof -
  obtain st' o1 mid where l: "follow_loop ps follow_start = (LoopDone st', o1)"
      and out: "out = o1 @ failure_event st' @ [EvDone mid]"
    using assms(1) by (auto simp: followServerRun_def split: prod.splits loop_outcome.splits sum.splits)
  have calm: "\<And>e. e \<in> set o1 \<Longrightarrow> calm e" using assms(3) out by (auto simp: calm_def)
  have "cancel_kept follow_start m" by (simp add: cancel_kept_def follow_start_def)
  from cancel_loop [OF l this calm] obtain r where r: "PollGot r \<in> set ps" "poll_last r"
      "fs_terminal_run st' = Some (pr_run r)" "fs_last_status st' = Some (ar_status (pr_run r))"
      and kept: "cancel_kept st' (fold resumed_step o1 m)" by blast
  have cancelled: "ar_status (pr_run r) = RCancelled" using assms(2) r by blast
  then have plain: "out = o1 @ [EvDone mid]" using out r(3) by (simp add: failure_event_def)
  have "msg_run_status (fold resumed_step o1 m) = Some RCancelled"
    using kept r(4) cancelled by (simp add: cancel_kept_def)
  then have re: "msg_run_status seen_reopened = Some RCancelled"
    using assms(5) plain by (simp add: resumed_step_def)
  have "\<not> fst (live_fold o1 (False, m))" using assms(3) plain live_fold_errored [of o1 "(False, m)"] by auto
  then have li: "msg_run_status seen_live = Some RCompleted"
    using assms(4) plain by (simp add: live_fold_append live_fold_def live_step_def errored_after_def)
  have "msg_run_id seen_reopened = Some i" using assms(5,9) resumed_run_id by simp
  with re li assms(6-8,10,11) show ?thesis
    by (auto simp: retry_last split: option.split)
qed

definition cancelled_polls :: "poll_step list" where
  "cancelled_polls =
     [PollGot \<lparr> pr_run = (blank_run ''r'' ''s'' RRunning) \<lparr> ar_lease_epoch := Some 1 \<rparr>, pr_events = [demo_event 1 ''half''] \<rparr>,
      PollGot \<lparr> pr_run = (blank_run ''r'' ''s'' RCancelled) \<lparr> ar_lease_epoch := Some 1 \<rparr>, pr_events = [] \<rparr>]"

definition cancelled_events :: "sse_event list" where
  "cancelled_events = [EvRunState RRunning, EvText ''half'', EvRunState RCancelled, EvDone None]"

lemma cancelled_follow: "followServerRun ''r'' cancelled_polls (Inr []) = Followed cancelled_events"
  by (simp add: followServerRun_def cancelled_polls_def cancelled_events_def poll_last_def blank_run_def page_limit_def
      follow_poll_def follow_run_def follow_event_def follow_start_def demo_event_def render_event_def
      checkedSSEEvent_def SSE_EVENT_TYPES_def payload_valid_def cast_event_def is_str_def failure_event_def
      final_message_def find_last_def Let_def)

theorem cancelled_run_completes_live_witness:
  "msg_run_status (snd (live_fold cancelled_events (False, resumed_bot (blank_run ''r'' ''s'' RRunning)))) = Some RCompleted
   \<and> retry ''server-run:r'' (initial_chat\<lparr>cs_messages :=
        [new_message ''u'' RoleUser ''go'', fold resumed_step cancelled_events (resumed_bot (blank_run ''r'' ''s'' RRunning))]\<rparr>)
     = [EffSend ''go'' (Some ''r'')]"
proof -
  let ?m = "resumed_bot (blank_run ''r'' ''s'' RRunning)"
  have ids: "msg_id (snd (live_fold cancelled_events (False, ?m))) = ''server-run:r''"
      "msg_id (fold resumed_step cancelled_events ?m) = ''server-run:r''" "msg_run_id ?m = Some ''r''"
    by (simp_all add: cancelled_events_def live_fold_def live_step_def resumed_step_def fold_defs resumed_bot_def
        resumed_bot_id_def new_message_def blank_run_def or_opt_def)
  have last: "ar_status (pr_run r) = RCancelled" if "PollGot r \<in> set cancelled_polls" "poll_last r" for r
    using that by (auto simp: cancelled_polls_def poll_last_def blank_run_def)
  show ?thesis
    using cancelled_run_completes_live [OF cancelled_follow last _ refl refl, where m = ?m and st = initial_chat
        and u = "new_message ''u'' RoleUser ''go''" and i = "''r''" and old = "[]"] ids
    by (simp add: cancelled_events_def initial_chat_def new_message_def)
qed

end
